(* ===== verification/Prelude.thy ===== *)
theory Prelude
  imports Main "HOL-Library.Word" "HOL-Library.AList"
begin

text \<open>
  Shared vocabulary of the development: the Go base types, errors as values, the
  string functions of the Go standard library that the sources call, JSON objects,
  and the generic lemmas the component theories use.

  \<^item> \<open>uint\<close> is a 64-bit word (\<open>uint\<close> on the 64-bit targets the service is built for);
    \<open>uuid\<close> is a 128-bit word, the nil UUID being 0; a \<open>time.Time\<close> is an integer
    number of ticks, the zero time being 0.
  \<^item> A Go pointer \<open>*T\<close> is \<open>'t option\<close>, \<open>nil\<close> being \<open>None\<close>.
  \<^item> \<open>(T, error)\<close> is \<open>go_error + 't\<close>. An error keeps its sentinel through wrapping,
    as \<open>fmt.Errorf("%w")\<close> does, so that \<open>errors.Is\<close> is the function \<open>errors_Is\<close>.
  \<^item> Strings are lists of characters; the functions \<open>TrimSpace\<close>, \<open>ToLower\<close> and
    \<open>EqualFold\<close> are Go's on ASCII strings (the Unicode tables are not modelled).
\<close>

named_theorems serde "unfolding of the identity-like Serialize/Deserialize functions"
named_theorems go_inv "introduction rules for the invariants of the components"

section \<open>Base types\<close>

type_synonym uint = "64 word"
type_synonym uuid = "128 word"
type_synonym time = int

abbreviation max_uint :: uint where "max_uint \<equiv> - 1"
abbreviation uuid_Nil :: uuid where "uuid_Nil \<equiv> 0"
abbreviation zero_time :: time where "zero_time \<equiv> 0"

text \<open>The value of a Go \<open>int64\<close>, or \<open>int\<close>, computation.\<close>

definition int64 :: "int \<Rightarrow> int" where
  "int64 x = sint (word_of_int x :: 64 word)"

lemma int64_small [simp]: "0 \<le> x \<Longrightarrow> x < 2 ^ 63 \<Longrightarrow> int64 x = x"
  unfolding int64_def using signed_take_bit_int_eq_self [of 63 x] sint_sbintrunc' [of x, where 'a = 64] by simp

datatype grpc_code = OK | Canceled | Unknown | InvalidArgument | DeadlineExceeded | NotFound
  | AlreadyExists | PermissionDenied | ResourceExhausted | FailedPrecondition | Aborted
  | Internal | Unavailable | Unauthenticated

datatype sentinel = ErrEmpty | ErrTooLong | ErrTooSmall | ErrInvalidURL | ErrInvalidUUID
  | ErrVersionConflict | ErrReporterDuplicate | ErrResourceNotFound | ErrResourceSchemaNotFound
  | ErrReporterSchemaNotFound | ErrInvalidData | ErrEmptyReporterList | ErrNoRepresentationProvided
  | ErrResourceAlreadyExists | ErrInventoryIdMismatch | ErrDatabaseError
  | ErrSelfSubjectMissing | ErrMetaAuthorizerUnavailable | ErrMetaAuthorizationDenied
  | ErrMetaAuthzContextMissing | ErrClosed | ErrMaxRetries | ErrWaitContextCancelled
  | ErrOpenState | ErrTooManyRequests
  | ErrRecordNotFound | ErrDuplicatedKey | ErrContextCanceled | ErrContextDeadlineExceeded

datatype go_error =
    Sentinel sentinel
  | Wrap string go_error
  | Errorf string
  | StatusError grpc_code string
  | KratosError nat string

text \<open>A nil dereference panics in Go: an error of its own.\<close>

definition nil_panic :: go_error where "nil_panic = Errorf ''panic: nil pointer dereference''"

fun errors_Is :: "go_error \<Rightarrow> sentinel \<Rightarrow> bool" where
  "errors_Is (Sentinel s) t = (s = t)"
| "errors_Is (Wrap _ e) t = errors_Is e t"
| "errors_Is _ _ = False"

text \<open>\<open>status.Convert(err).Code()\<close>: the status in the error chain, \<open>Unknown\<close> without one.\<close>

fun status_code :: "go_error \<Rightarrow> grpc_code" where
  "status_code (StatusError c _) = c"
| "status_code (Wrap _ e) = status_code e"
| "status_code _ = Unknown"

text \<open>The reason of the first Kratos error of the chain (\<open>errors.As\<close>).\<close>

fun kratos_reason :: "go_error \<Rightarrow> string option" where
  "kratos_reason (KratosError _ reason) = Some reason"
| "kratos_reason (Wrap _ e) = kratos_reason e"
| "kratos_reason _ = None"

section \<open>Results\<close>

type_synonym 'a result = "go_error + 'a"

abbreviation Ok :: "'a \<Rightarrow> 'a result" where "Ok \<equiv> Inr"
abbreviation Err :: "go_error \<Rightarrow> 'a result" where "Err \<equiv> Inl"

definition bind_res :: "'a result \<Rightarrow> ('a \<Rightarrow> 'b result) \<Rightarrow> 'b result" where
  "bind_res m f = (case m of Inl e \<Rightarrow> Inl e | Inr x \<Rightarrow> f x)"

definition wrap_err :: "string \<Rightarrow> 'a result \<Rightarrow> 'a result" where
  "wrap_err ctx m = (case m of Inl e \<Rightarrow> Inl (Wrap ctx e) | Inr x \<Rightarrow> Inr x)"

definition is_ok :: "'a result \<Rightarrow> bool" where
  "is_ok m = (case m of Inl _ \<Rightarrow> False | Inr _ \<Rightarrow> True)"

lemma bind_res_simps [simp]:
  "bind_res (Inr x) f = f x" "bind_res (Inl e) f = Inl e"
  by (simp_all add: bind_res_def)

lemma wrap_err_simps [simp]:
  "wrap_err c (Inr x) = Inr x" "wrap_err c (Inl e) = Inl (Wrap c e)"
  by (simp_all add: wrap_err_def)

lemma is_ok_simps [simp]: "is_ok (Inr x)" "\<not> is_ok (Inl e)"
  by (simp_all add: is_ok_def)

lemma bind_res_Ok_iff: "bind_res m f = Inr y \<longleftrightarrow> (\<exists>x. m = Inr x \<and> f x = Inr y)"
  by (cases m) auto

lemma bind_res_Err_iff:
  "bind_res m f = Inl e \<longleftrightarrow> m = Inl e \<or> (\<exists>x. m = Inr x \<and> f x = Inl e)"
  by (cases m) auto

lemma wrap_err_Ok_iff [simp]: "wrap_err c m = Inr y \<longleftrightarrow> m = Inr y"
  by (cases m) auto

lemma wrap_err_Err_iff: "wrap_err c m = Inl e \<longleftrightarrow> (\<exists>e'. m = Inl e' \<and> e = Wrap c e')"
  by (cases m) auto

lemma is_ok_iff: "is_ok m \<longleftrightarrow> (\<exists>x. m = Inr x)"
  by (cases m) auto

lemmas res_iffs = bind_res_Ok_iff bind_res_Err_iff wrap_err_Err_iff

fun map_res :: "('a \<Rightarrow> 'b result) \<Rightarrow> 'a list \<Rightarrow> 'b list result" where
  "map_res f [] = Inr []"
| "map_res f (x # xs) = bind_res (f x) (\<lambda>y. bind_res (map_res f xs) (\<lambda>ys. Inr (y # ys)))"

lemma map_res_Ok_iff: "map_res f xs = Inr ys \<longleftrightarrow> list_all2 (\<lambda>x y. f x = Inr y) xs ys"
  by (induction xs arbitrary: ys) (auto simp: res_iffs list_all2_Cons1)

section \<open>Lists\<close>

lemma length_le_1_if_equal:
  assumes "distinct xs" "\<And>a b. a \<in> set xs \<Longrightarrow> b \<in> set xs \<Longrightarrow> a = b"
  shows "length xs \<le> 1"
  using card_le_Suc0_iff_eq [of "set xs"] assms distinct_card [OF assms(1)] by auto

lemma length_le_1_cases:
  assumes "length xs \<le> 1"
  obtains "xs = []" | x where "xs = [x]"
  using assms by (cases xs) auto

lemma singleton_list: "length xs \<le> 1 \<Longrightarrow> x \<in> set xs \<Longrightarrow> xs = [x]"
  by (cases xs) auto

lemma distinct_map_filter_unique:
  assumes "distinct (map f xs)" "x \<in> set xs"
  shows "filter (\<lambda>y. f y = f x) xs = [x]"
proof -
  have inj: "inj_on f (set xs)" "distinct xs" using assms(1) by (simp_all add: distinct_map)
  then have "length (filter (\<lambda>y. f y = f x) xs) \<le> 1"
    by (intro length_le_1_if_equal) (simp_all add: inj_on_def)
  then show ?thesis using assms(2) by (intro singleton_list) auto
qed

section \<open>Strings\<close>

definition is_space :: "char \<Rightarrow> bool" where
  "is_space c \<longleftrightarrow> c \<in> {CHR 0x09, CHR 0x0A, CHR 0x0B, CHR 0x0C, CHR 0x0D, CHR '' ''}"

definition TrimSpace :: "string \<Rightarrow> string" where
  "TrimSpace s = rev (dropWhile is_space (rev (dropWhile is_space s)))"

definition lower_char :: "char \<Rightarrow> char" where
  "lower_char c = (if (65::nat) \<le> of_char c \<and> of_char c \<le> (90::nat)
                   then char_of (of_char c + 32 :: nat) else c)"

definition ToLower :: "string \<Rightarrow> string" where
  "ToLower s = map lower_char s"

definition ReplaceAll :: "char \<Rightarrow> char \<Rightarrow> string \<Rightarrow> string" where
  "ReplaceAll old new s = map (\<lambda>c. if c = old then new else c) s"

definition EqualFold :: "string \<Rightarrow> string \<Rightarrow> bool" where
  "EqualFold s t \<longleftrightarrow> ToLower s = ToLower t"

definition HasPrefix :: "string \<Rightarrow> string \<Rightarrow> bool" where
  "HasPrefix s p \<longleftrightarrow> take (length p) s = p"

definition TrimPrefix :: "string \<Rightarrow> string \<Rightarrow> string" where
  "TrimPrefix s p = (if HasPrefix s p then drop (length p) s else s)"

lemma TrimSpace_Nil [simp]: "TrimSpace [] = []"
  by (simp add: TrimSpace_def)

lemma dropWhile_idem_rev:
  "dropWhile P (rev (dropWhile P (rev (dropWhile P s)))) = rev (dropWhile P (rev (dropWhile P s)))"
proof (cases "dropWhile P s")
  case (Cons a xs)
  then have "\<not> P a" by (metis hd_dropWhile list.distinct(1) list.sel(1))
  then have "dropWhile P (rev xs @ [a]) = dropWhile P (rev xs) @ [a]"
    by (metis dropWhile_append3)
  with Cons \<open>\<not> P a\<close> show ?thesis by simp
next
  case Nil
  then show ?thesis by (simp only: rev.simps dropWhile.simps)
qed

lemma TrimSpace_idem [simp]: "TrimSpace (TrimSpace s) = TrimSpace s"
  by (simp add: TrimSpace_def dropWhile_idem_rev)

lemma lower_char_idem [simp]: "lower_char (lower_char c) = lower_char c"
  by (auto simp: lower_char_def)

lemma ToLower_idem [simp]: "ToLower (ToLower s) = ToLower s"
  by (simp add: ToLower_def)

lemma ToLower_eq_Nil [simp]: "ToLower s = [] \<longleftrightarrow> s = []" "[] = ToLower s \<longleftrightarrow> s = []"
  by (auto simp: ToLower_def)

lemma lower_char_space [simp]: "is_space (lower_char c) = is_space c"
proof (cases "65 \<le> (of_char c :: nat) \<and> of_char c \<le> (90::nat)")
  case True
  have "\<not> is_space d" if "33 \<le> (of_char d :: nat)" for d
    using that by (auto simp: is_space_def)
  moreover have "33 \<le> (of_char (lower_char c) :: nat)" "33 \<le> (of_char c :: nat)"
    using True by (simp_all add: lower_char_def)
  ultimately show ?thesis by blast
next
  case False
  then have "lower_char c = c" unfolding lower_char_def by argo
  then show ?thesis by simp
qed

lemma dropWhile_space_lower: "dropWhile is_space (map lower_char s) = map lower_char (dropWhile is_space s)"
  by (induction s) auto

lemma TrimSpace_ToLower: "TrimSpace (ToLower s) = ToLower (TrimSpace s)"
  by (simp add: TrimSpace_def ToLower_def dropWhile_space_lower rev_map)

lemma TrimSpace_ReplaceAll:
  assumes "\<not> is_space old" "\<not> is_space new"
  shows "TrimSpace (ReplaceAll old new s) = ReplaceAll old new (TrimSpace s)"
proof -
  have "dropWhile is_space (map (\<lambda>c. if c = old then new else c) t)
      = map (\<lambda>c. if c = old then new else c) (dropWhile is_space t)" for t
    using assms by (induction t) auto
  then show ?thesis by (simp add: TrimSpace_def ReplaceAll_def rev_map)
qed

lemma ReplaceAll_eq_Nil [simp]: "ReplaceAll a b s = [] \<longleftrightarrow> s = []"
  by (simp add: ReplaceAll_def)

lemma ReplaceAll_absent: "old \<notin> set s \<Longrightarrow> ReplaceAll old new s = s"
  by (induction s) (auto simp: ReplaceAll_def)

lemma set_ReplaceAll: "old \<noteq> new \<Longrightarrow> old \<notin> set (ReplaceAll old new s)"
  by (auto simp: ReplaceAll_def)

lemma EqualFold_equiv: "equivp EqualFold"
  by (auto simp: EqualFold_def intro!: equivpI reflpI sympI transpI)

lemma EqualFold_refl [simp]: "EqualFold s s"
  by (simp add: EqualFold_def)

lemma EqualFold_lower: "ToLower s = s \<Longrightarrow> ToLower t = t \<Longrightarrow> EqualFold s t \<longleftrightarrow> s = t"
  by (simp add: EqualFold_def)

lemma HasPrefix_append [simp]: "HasPrefix (p @ s) p"
  by (simp add: HasPrefix_def)

lemma TrimPrefix_append [simp]: "TrimPrefix (p @ s) p = s"
  by (simp add: TrimPrefix_def)

lemma ToLower_Nil [simp]: "ToLower [] = []"
  by simp

section \<open>JSON objects\<close>

text \<open>
  \<open>internal.JsonObject\<close> is \<open>map[string]interface{}\<close>. A JSON object is an association
  list with one entry per key; numbers are integers. A Go map value may also be \<open>nil\<close>:
  \<open>representation\<close> is an option, and \<open>map_len\<close> is Go's \<open>len\<close>, 0 on \<open>nil\<close>.
\<close>

datatype json = JNull | JBool bool | JNum int | JStr string | JArr "json list"
  | JObj "(string \<times> json) list"

type_synonym json_object = "(string \<times> json) list"
type_synonym representation = "json_object option"

definition map_len :: "representation \<Rightarrow> nat" where
  "map_len r = (case r of None \<Rightarrow> 0 | Some o1 \<Rightarrow> length o1)"

definition map_get :: "representation \<Rightarrow> string \<Rightarrow> json option" where
  "map_get r k = (case r of None \<Rightarrow> None | Some o1 \<Rightarrow> map_of o1 k)"

lemma map_len_simps [simp]: "map_len None = 0" "map_len (Some o1) = length o1"
  by (simp_all add: map_len_def)

lemma map_get_simps [simp]: "map_get None k = None" "map_get (Some o1) k = map_of o1 k"
  by (simp_all add: map_get_def)

subsection \<open>Numbers decoded into an interface\<close>

text \<open>
  \<open>encoding/json\<close> decodes a number into an \<open>interface{}\<close> as a \<open>float64\<close> and prints a \<open>float64\<close> with the
  fewest digits that decode to it again. \<open>round_float\<close> is the decoding of an integer (53 significant bits, ties to
  even); \<open>float_digits\<close> the printing of an integral float: below \<open>2 ^ 53\<close> all digits are significant, above it the
  longest run of trailing zeros that still decodes to the same float is chosen (at most 20 for the 64-bit values).
\<close>

function excess :: "int \<Rightarrow> nat" where
  "excess n = (if n < 2 ^ 53 then 0 else Suc (excess (n div 2)))"
  by pat_completeness auto

termination excess
  by (relation "measure nat") auto

declare excess.simps [simp del]

definition round_float :: "int \<Rightarrow> int" where
  "round_float n = (let q = 2 ^ excess n; lo = n div q; r = 2 * (n mod q) in
     q * (if r < q \<or> r = q \<and> even lo then lo else lo + 1))"

fun float_digits_from :: "nat \<Rightarrow> int \<Rightarrow> int" where
  "float_digits_from 0 f = f"
| "float_digits_from (Suc k) f = (let lo = f - f mod 10 ^ Suc k; hi = lo + 10 ^ Suc k in
     if round_float lo = f \<and> (round_float hi \<noteq> f \<or> f - lo \<le> hi - f) then lo
     else if round_float hi = f then hi else float_digits_from k f)"

definition float_digits :: "int \<Rightarrow> int" where
  "float_digits f = (if f < 2 ^ 53 then f else float_digits_from 20 f)"

definition float_json :: "int \<Rightarrow> int" where
  "float_json x = (if x < 0 then - float_digits (round_float (- x)) else float_digits (round_float x))"

primrec json_floats :: "json \<Rightarrow> json" where
  "json_floats JNull = JNull"
| "json_floats (JBool b) = JBool b"
| "json_floats (JNum n) = JNum (float_json n)"
| "json_floats (JStr s) = JStr s"
| "json_floats (JArr xs) = JArr (map json_floats xs)"
| "json_floats (JObj o1) = JObj (map (map_prod id json_floats) o1)"

text \<open>Integers below \<open>2 ^ 53\<close> pass through a float unchanged; the largest 64-bit integer comes back outside the
  64-bit range.\<close>

lemma float_json_small: "0 \<le> n \<Longrightarrow> n < 2 ^ 53 \<Longrightarrow> float_json n = n"
  by (simp add: float_json_def round_float_def float_digits_def excess.simps [of n])

lemma float_json_large: "float_json (2 ^ 53 + 1) = 2 ^ 53" "float_json (2 ^ 63) = 9223372036854776000" "float_json (2 ^ 64 - 1) = 18446744073709552000"
  by code_simp+

section \<open>Words\<close>

lemma uint_inc_eq_0: "(v :: uint) + 1 = 0 \<longleftrightarrow> v = max_uint"
  by (simp add: eq_neg_iff_add_eq_0)

lemma unat_inc_uint: "(v :: uint) \<noteq> max_uint \<Longrightarrow> unat (v + 1) = unat v + 1"
  using unatSuc [of v] uint_inc_eq_0 [of v] by (auto simp: add.commute)

lemma uint_inc_neq: "(v :: uint) + 1 \<noteq> v"
  by simp

lemma unat_dec_uint: "(v :: uint) \<noteq> 0 \<Longrightarrow> unat (v - 1) = unat v - 1"
  by (rule unat_minus_one)

lemma unat_inc_max: "unat (v :: uint) < 2 ^ 64 - 1 \<Longrightarrow> unat (v + 1) = unat v + 1"
  by (simp add: unat_word_ariths)

lemma uint_lt_inc: "(v :: uint) \<noteq> max_uint \<Longrightarrow> v < v + 1"
  by (simp add: word_less_nat_alt unat_inc_uint)

end
