(* ===== verification/Tiny_Types.thy ===== *)
theory Tiny_Types
  imports Prelude
begin

text \<open>
  The tiny types of \<open>internal/biz/model/common.go\<close>, \<open>relation.go\<close>, \<open>reporter.go\<close>,
  \<open>representation_type.go\<close>, \<open>event_operation_type.go\<close>, \<open>consistency.go\<close> and the validation
  helpers of \<open>errors.go\<close>: normalising constructors with their error branches, and the
  version and generation counters at their width.
\<close>

section \<open>Serialization helpers\<close>

type_synonym version = uint
type_synonym generation = uint
type_synonym tombstone = bool
type_synonym resource_id = uuid
type_synonym reporter_resource_id = uuid
type_synonym resource_type = string
type_synonym reporter_type = string
type_synonym reporter_instance_id = string
type_synonym local_resource_id = string
type_synonym consistency_token = string
type_synonym continuation_token = string
type_synonym reporter_version = string
type_synonym uri = string
type_synonym transaction_id = string
type_synonym lock_id = string
type_synonym lock_token = string
type_synonym relation = string

definition SerializeString :: "string \<Rightarrow> string" where [serde]: "SerializeString t = t"
definition SerializeStringPtr :: "string option \<Rightarrow> string option" where
  [serde]: "SerializeStringPtr v = (case v of None \<Rightarrow> None | Some s \<Rightarrow> Some s)"
definition SerializeUint :: "uint \<Rightarrow> uint" where [serde]: "SerializeUint t = t"
definition SerializeUUID :: "uuid \<Rightarrow> uuid" where [serde]: "SerializeUUID t = t"
definition SerializeBool :: "bool \<Rightarrow> bool" where [serde]: "SerializeBool t = t"
definition Deserialize :: "string \<Rightarrow> string" where [serde]: "Deserialize v = v"
definition DeserializeUint :: "uint \<Rightarrow> uint" where [serde]: "DeserializeUint v = v"
definition DeserializeUUID :: "uuid \<Rightarrow> uuid" where [serde]: "DeserializeUUID v = v"
definition DeserializeBool :: "bool \<Rightarrow> bool" where [serde]: "DeserializeBool v = v"

definition DeserializeVersion :: "uint \<Rightarrow> version" where
  [serde]: "DeserializeVersion v = DeserializeUint v"
definition DeserializeResourceId :: "uuid \<Rightarrow> resource_id" where
  [serde]: "DeserializeResourceId v = DeserializeUUID v"
definition DeserializeReporterResourceId :: "uuid \<Rightarrow> reporter_resource_id" where
  [serde]: "DeserializeReporterResourceId v = DeserializeUUID v"
definition DeserializeResourceType :: "string \<Rightarrow> resource_type" where
  [serde]: "DeserializeResourceType v = Deserialize v"
definition DeserializeReporterType :: "string \<Rightarrow> reporter_type" where
  [serde]: "DeserializeReporterType v = Deserialize v"
definition DeserializeReporterInstanceId :: "string \<Rightarrow> reporter_instance_id" where
  [serde]: "DeserializeReporterInstanceId v = Deserialize v"
definition DeserializeTransactionId :: "string \<Rightarrow> transaction_id" where
  [serde]: "DeserializeTransactionId v = Deserialize v"
definition DeserializeConsistencyToken :: "string \<Rightarrow> consistency_token" where
  [serde]: "DeserializeConsistencyToken v = Deserialize v"
definition DeserializeGeneration :: "uint \<Rightarrow> generation" where
  [serde]: "DeserializeGeneration v = DeserializeUint v"
definition DeserializeReporterVersion :: "string option \<Rightarrow> reporter_version option" where
  [serde]: "DeserializeReporterVersion v =
    (case v of None \<Rightarrow> None | Some s \<Rightarrow> Some (Deserialize s))"
definition DeserializeTombstone :: "bool \<Rightarrow> tombstone" where
  [serde]: "DeserializeTombstone v = DeserializeBool v"
definition DeserializeURI :: "string \<Rightarrow> uri" where
  [serde]: "DeserializeURI v = Deserialize v"
definition DeserializeApiHref :: "string \<Rightarrow> uri" where
  [serde]: "DeserializeApiHref v = DeserializeURI v"
definition DeserializeConsoleHref :: "string option \<Rightarrow> uri option" where
  [serde]: "DeserializeConsoleHref v =
    (case v of None \<Rightarrow> None | Some s \<Rightarrow> Some (DeserializeURI s))"
definition DeserializeLocalResourceId :: "string \<Rightarrow> local_resource_id" where
  [serde]: "DeserializeLocalResourceId v = Deserialize v"
definition DeserializeRepresentation :: "representation \<Rightarrow> representation" where
  [serde]: "DeserializeRepresentation d = d"

section \<open>Versions and generations\<close>

definition initialReporterRepresentationVersion :: version where
  "initialReporterRepresentationVersion = 0"
definition initialGeneration :: generation where "initialGeneration = 0"
definition initialTombstone :: tombstone where "initialTombstone = False"
definition initialCommonVersion :: version where "initialCommonVersion = 0"

definition NewVersion :: "uint \<Rightarrow> version" where [serde]: "NewVersion v = v"
definition NewGeneration :: "uint \<Rightarrow> generation" where [serde]: "NewGeneration v = v"
definition NewTombstone :: "bool \<Rightarrow> tombstone" where [serde]: "NewTombstone v = v"

definition Version_Increment :: "version \<Rightarrow> version" where
  "Version_Increment v = v + 1"

definition Version_Decrement :: "version \<Rightarrow> version" where
  "Version_Decrement v = (if v = 0 then 0 else v - 1)"

definition Generation_Increment :: "generation \<Rightarrow> generation" where
  "Generation_Increment g = g + 1"

lemma Version_Decrement_Increment:
  "v \<noteq> max_uint \<Longrightarrow> Version_Decrement (Version_Increment v) = v"
  by (simp add: Version_Decrement_def Version_Increment_def uint_inc_eq_0)

lemma unat_Version_Increment:
  "v \<noteq> max_uint \<Longrightarrow> unat (Version_Increment v) = unat v + 1"
  by (simp add: Version_Increment_def unat_inc_uint)

lemma Version_Decrement_le: "Version_Decrement v \<le> v"
  by (cases "v = 0") (simp_all add: Version_Decrement_def word_le_nat_alt unat_dec_uint)

section \<open>Identifier constructors\<close>

definition NewResourceId :: "uuid \<Rightarrow> resource_id result" where
  "NewResourceId i = (if i = uuid_Nil then Err (Wrap ''ResourceId'' (Sentinel ErrInvalidUUID)) else Ok i)"

definition NewReporterResourceId :: "uuid \<Rightarrow> reporter_resource_id result" where
  "NewReporterResourceId i =
     (if i = uuid_Nil then Err (Wrap ''ReporterResourceId'' (Sentinel ErrInvalidUUID)) else Ok i)"

text \<open>\<open>uuid.Parse\<close> belongs to \<open>github.com/google/uuid\<close>: it is the argument \<open>parse\<close>.\<close>

definition NewReporterResourceIdFromString ::
    "(string \<Rightarrow> uuid option) \<Rightarrow> string \<Rightarrow> reporter_resource_id result" where
  "NewReporterResourceIdFromString parse s0 =
     (let s = TrimSpace s0 in
      if s = [] then Err (Wrap ''ReporterResourceId'' (Sentinel ErrEmpty))
      else case parse s of
             None \<Rightarrow> Err (Wrap ''ReporterResourceId'' (Sentinel ErrInvalidUUID))
           | Some u \<Rightarrow> NewReporterResourceId u)"

definition NewResourceType :: "string \<Rightarrow> resource_type result" where
  "NewResourceType s0 =
     (let s = TrimSpace s0 in
      if s = [] then Err (Wrap ''ResourceType'' (Sentinel ErrEmpty))
      else Ok (ToLower (ReplaceAll (CHR ''/'') (CHR ''_'') s)))"

definition NewReporterType :: "string \<Rightarrow> reporter_type result" where
  "NewReporterType s0 =
     (let s = TrimSpace s0 in
      if s = [] then Err (Wrap ''ReporterType'' (Sentinel ErrEmpty)) else Ok (ToLower s))"

definition NewReporterInstanceId :: "string \<Rightarrow> reporter_instance_id result" where
  "NewReporterInstanceId s0 =
     (let s = TrimSpace s0 in
      if s = [] then Err (Wrap ''ReporterInstanceId'' (Sentinel ErrEmpty)) else Ok (ToLower s))"

definition NewContinuationToken :: "string \<Rightarrow> continuation_token result" where
  "NewContinuationToken s = Ok s"

definition NewConsistencyToken :: "string \<Rightarrow> consistency_token result" where
  "NewConsistencyToken s0 =
     (let s = TrimSpace s0 in
      if s = [] then Err (Wrap ''ConsistencyToken'' (Sentinel ErrEmpty)) else Ok s)"

definition NewReporterVersion :: "string \<Rightarrow> reporter_version result" where
  "NewReporterVersion s0 =
     (let s = TrimSpace s0 in
      if s = [] then Err (Wrap ''ReporterVersion'' (Sentinel ErrEmpty)) else Ok s)"

definition NewURI :: "string \<Rightarrow> uri result" where
  "NewURI s0 =
     (let s = TrimSpace s0 in
      if s = [] then Err (Wrap ''URI'' (Sentinel ErrEmpty)) else Ok s)"

definition NewApiHref :: "string \<Rightarrow> uri result" where
  "NewApiHref s =
     (case NewURI s of Inl _ \<Rightarrow> Err (Wrap ''ApiHref'' (Sentinel ErrEmpty)) | Inr u \<Rightarrow> Ok u)"

definition NewConsoleHref :: "string \<Rightarrow> uri result" where
  "NewConsoleHref s =
     (case NewURI s of Inl _ \<Rightarrow> Err (Wrap ''ConsoleHref'' (Sentinel ErrEmpty)) | Inr u \<Rightarrow> Ok u)"

definition NewLocalResourceId :: "string \<Rightarrow> local_resource_id result" where
  "NewLocalResourceId s0 =
     (let s = TrimSpace s0 in
      if s = [] then Err (Wrap ''LocalResourceId'' (Sentinel ErrEmpty)) else Ok s)"

definition NewTransactionId :: "string \<Rightarrow> transaction_id" where
  "NewTransactionId s = s"

definition NewLockId :: "string \<Rightarrow> lock_id result" where
  "NewLockId s0 =
     (let s = TrimSpace s0 in
      if s = [] then Err (Wrap ''LockId'' (Sentinel ErrEmpty)) else Ok s)"

definition NewLockToken :: "string \<Rightarrow> lock_token result" where
  "NewLockToken s0 =
     (let s = TrimSpace s0 in
      if s = [] then Err (Wrap ''LockToken'' (Sentinel ErrEmpty)) else Ok s)"

definition NewRelation :: "string \<Rightarrow> relation result" where
  "NewRelation s0 =
     (let s = TrimSpace s0 in
      if s = [] then Err (Wrap ''Relation'' (Sentinel ErrEmpty))
      else if list_ex (\<lambda>c. c \<in> {CHR '' '', CHR 0x09, CHR 0x0A, CHR 0x0D}) s
           then Err (Wrap ''Relation contains whitespace'' (Sentinel ErrInvalidData))
           else Ok s)"

definition NewEmptyRepresentation :: representation where
  "NewEmptyRepresentation = Some []"

definition NewRepresentation :: "representation \<Rightarrow> representation result" where
  "NewRepresentation d =
     (case d of None \<Rightarrow> Err (Errorf ''representation data cannot be nil'') | Some o1 \<Rightarrow> Ok (Some o1))"

section \<open>Normalising constructors as one contract\<close>

text \<open>
  Every string constructor trims its argument, rejects what is empty after trimming with
  \<open>ErrEmpty\<close>, and applies a normal form to the rest. The locale states the shape once; the
  lemmas give idempotence, insensitivity to surrounding white space and the exact error
  condition for each constructor that is interpreted below.
\<close>

locale trimmed_constructor =
  fixes mk :: "string \<Rightarrow> string result" and nf :: "string \<Rightarrow> string"
  assumes mk_empty: "TrimSpace s = [] \<Longrightarrow> \<exists>e. mk s = Inl e \<and> errors_Is e ErrEmpty"
    and mk_nonempty: "TrimSpace s \<noteq> [] \<Longrightarrow> mk s = Inr (nf (TrimSpace s))"
    and nf_idem: "nf (nf s) = nf s"
    and nf_trim: "TrimSpace (nf s) = nf (TrimSpace s)"
    and nf_Nil: "nf s = [] \<longleftrightarrow> s = []"
begin

lemma mk_Ok_iff: "mk s = Inr t \<longleftrightarrow> TrimSpace s \<noteq> [] \<and> t = nf (TrimSpace s)"
  using mk_empty mk_nonempty by (cases "TrimSpace s = []") fastforce+

lemma mk_Err_iff: "(\<exists>e. mk s = Inl e) \<longleftrightarrow> TrimSpace s = []"
  using mk_empty mk_nonempty by (cases "TrimSpace s = []") fastforce+

lemma mk_idem: "mk s = Inr t \<Longrightarrow> mk t = Inr t"
  by (auto simp: mk_Ok_iff nf_idem nf_trim nf_Nil)

lemma mk_nonempty_result: "mk s = Inr t \<Longrightarrow> t \<noteq> [] \<and> TrimSpace t = t"
  by (auto simp: mk_Ok_iff nf_trim nf_Nil)

lemma mk_trim: "mk (TrimSpace s) = mk s" if "TrimSpace s \<noteq> []"
  using that by (simp add: mk_nonempty)

end

interpretation resource_type_ctor: trimmed_constructor NewResourceType
    "\<lambda>s. ToLower (ReplaceAll (CHR ''/'') (CHR ''_'') s)"
proof unfold_locales
  fix s
  have "CHR ''/'' \<notin> set (ToLower (ReplaceAll (CHR ''/'') (CHR ''_'') s))" (is "_ \<notin> set ?t")
    by (auto simp: ToLower_def ReplaceAll_def lower_char_def dest!: arg_cong [where f = "of_char :: char \<Rightarrow> nat"])
  then show "ToLower (ReplaceAll (CHR ''/'') (CHR ''_'') ?t) = ?t"
    by (simp add: ReplaceAll_absent)
qed (auto simp: NewResourceType_def TrimSpace_ToLower TrimSpace_ReplaceAll is_space_def)

interpretation reporter_type_ctor: trimmed_constructor NewReporterType ToLower
  by unfold_locales (auto simp: NewReporterType_def TrimSpace_ToLower)

interpretation reporter_instance_ctor: trimmed_constructor NewReporterInstanceId ToLower
  by unfold_locales (auto simp: NewReporterInstanceId_def TrimSpace_ToLower)

interpretation local_id_ctor: trimmed_constructor NewLocalResourceId "\<lambda>s. s"
  by unfold_locales (auto simp: NewLocalResourceId_def)

interpretation token_ctor: trimmed_constructor NewConsistencyToken "\<lambda>s. s"
  by unfold_locales (auto simp: NewConsistencyToken_def)

interpretation api_href_ctor: trimmed_constructor NewApiHref "\<lambda>s. s"
  by unfold_locales (auto simp: NewApiHref_def NewURI_def)

interpretation lock_id_ctor: trimmed_constructor NewLockId "\<lambda>s. s"
  by unfold_locales (auto simp: NewLockId_def)

interpretation lock_token_ctor: trimmed_constructor NewLockToken "\<lambda>s. s"
  by unfold_locales (auto simp: NewLockToken_def)

section \<open>Validation helpers\<close>

text \<open>
  The helpers of \<open>errors.go\<close> return an \<open>error\<close>, \<open>nil\<close> being \<open>None\<close>. \<open>url.Parse\<close> of the
  standard library's \<open>net/url\<close> is used for its success only: it is the argument
  \<open>url_ok\<close>.
\<close>

definition ValidateRequired :: "string \<Rightarrow> bool \<Rightarrow> go_error option" where
  "ValidateRequired field isValid =
     (if isValid then None else Some (Wrap field (Sentinel ErrEmpty)))"

definition ValidateStringRequired :: "string \<Rightarrow> string \<Rightarrow> go_error option" where
  "ValidateStringRequired field v = ValidateRequired field (TrimSpace v \<noteq> [])"

definition ValidateUUIDRequired :: "string \<Rightarrow> uuid \<Rightarrow> go_error option" where
  "ValidateUUIDRequired field i =
     (if i = uuid_Nil then Some (Wrap field (Sentinel ErrInvalidUUID)) else None)"

definition ValidateMaxLength :: "string \<Rightarrow> string \<Rightarrow> nat \<Rightarrow> go_error option" where
  "ValidateMaxLength field v maxLength =
     (if length v > maxLength then Some (Wrap field (Sentinel ErrTooLong)) else None)"

definition ValidateMinValue :: "string \<Rightarrow> uint \<Rightarrow> uint \<Rightarrow> go_error option" where
  "ValidateMinValue field v minValue =
     (if v < minValue then Some (Wrap field (Sentinel ErrTooSmall)) else None)"

definition ValidateMinValueUint :: "string \<Rightarrow> uint \<Rightarrow> uint \<Rightarrow> go_error option" where
  "ValidateMinValueUint field v minValue = ValidateMinValue field v minValue"

definition ValidateOptionalString :: "string \<Rightarrow> string option \<Rightarrow> nat \<Rightarrow> go_error option" where
  "ValidateOptionalString field v maxLength =
     (case v of None \<Rightarrow> None | Some s \<Rightarrow> ValidateMaxLength field s maxLength)"

definition ValidateOptionalURL ::
    "(string \<Rightarrow> bool) \<Rightarrow> string \<Rightarrow> string \<Rightarrow> nat \<Rightarrow> go_error option" where
  "ValidateOptionalURL url_ok field v maxLength =
     (if v = [] then None
      else if length v > maxLength then Some (Wrap field (Sentinel ErrTooLong))
      else if url_ok v then None
      else Some (Wrap field (Sentinel ErrInvalidURL)))"

text \<open>
  \<open>AggregateErrors\<close> keeps the non-nil errors: none gives \<open>nil\<close>, a single one is turned
  into a \<open>ValidationError\<close> (field \<open>unknown\<close>), several are joined into a fresh error. None of
  the results is wrapped with \<open>%w\<close>: the sentinel of the argument is lost.
\<close>

definition AggregateErrors :: "go_error option list \<Rightarrow> go_error option" where
  "AggregateErrors errs =
     (case List.map_filter (\<lambda>e. e) errs of
        [] \<Rightarrow> None
      | [_] \<Rightarrow> Some (Errorf ''unknown'')
      | _ \<Rightarrow> Some (Errorf ''joined''))"

lemma map_filter_id_Nil: "List.map_filter (\<lambda>e. e) es = [] \<longleftrightarrow> (\<forall>e\<in>set es. e = None)"
  by (induction es) (auto simp: List.map_filter_def)

lemma AggregateErrors_None_iff: "AggregateErrors es = None \<longleftrightarrow> (\<forall>e\<in>set es. e = None)"
  by (auto simp: AggregateErrors_def map_filter_id_Nil [symmetric] split: list.splits)

section \<open>Operation types\<close>

datatype event_operation_type = OperationTypeCreated | OperationTypeUpdated | OperationTypeDeleted

definition operation_MarshalJSON :: "event_operation_type \<Rightarrow> json" where
  "operation_MarshalJSON o1 = JStr (case o1 of
     OperationTypeCreated \<Rightarrow> ''created'' | OperationTypeUpdated \<Rightarrow> ''updated''
   | OperationTypeDeleted \<Rightarrow> ''deleted'')"

definition operation_of_string :: "string \<Rightarrow> event_operation_type option" where
  "operation_of_string s =
     (if s = ''created'' then Some OperationTypeCreated
      else if s = ''updated'' then Some OperationTypeUpdated
      else if s = ''deleted'' then Some OperationTypeDeleted else None)"

definition operation_UnmarshalJSON :: "json \<Rightarrow> event_operation_type result" where
  "operation_UnmarshalJSON j =
     (case j of
        JStr s \<Rightarrow> (case operation_of_string s of
                    Some o1 \<Rightarrow> Ok o1 | None \<Rightarrow> Err (Errorf ''invalid operation type''))
      | JNull \<Rightarrow> Err (Errorf ''invalid operation type'')
      | _ \<Rightarrow> Err (Errorf ''json: cannot unmarshal''))"

section \<open>Consistency requirements\<close>

datatype consistency_type = ConsistencyUnspecified | ConsistencyMinimizeLatency
  | ConsistencyAtLeastAsAcknowledged | ConsistencyAtLeastAsFresh

datatype consistency = unspecifiedConsistency | minimizeLatencyConsistency
  | atLeastAsAcknowledgedConsistency | atLeastAsFreshConsistency consistency_token

definition MinimizeLatencyToken :: consistency_token where "MinimizeLatencyToken = []"

definition Consistency_Type :: "consistency \<Rightarrow> consistency_type" where
  "Consistency_Type c = (case c of
     unspecifiedConsistency \<Rightarrow> ConsistencyUnspecified
   | minimizeLatencyConsistency \<Rightarrow> ConsistencyMinimizeLatency
   | atLeastAsAcknowledgedConsistency \<Rightarrow> ConsistencyAtLeastAsAcknowledged
   | atLeastAsFreshConsistency _ \<Rightarrow> ConsistencyAtLeastAsFresh)"

definition normalizeConsistency :: "consistency option \<Rightarrow> consistency" where
  "normalizeConsistency c = (case c of None \<Rightarrow> unspecifiedConsistency | Some c' \<Rightarrow> c')"

definition ConsistencyTypeOf :: "consistency option \<Rightarrow> consistency_type" where
  "ConsistencyTypeOf c = Consistency_Type (normalizeConsistency c)"

definition AsAtLeastAsFresh :: "consistency option \<Rightarrow> consistency_token option" where
  "AsAtLeastAsFresh c =
     (case normalizeConsistency c of atLeastAsFreshConsistency t \<Rightarrow> Some t | _ \<Rightarrow> None)"

definition ConsistencyAtLeastAsFreshToken :: "consistency option \<Rightarrow> consistency_token option" where
  "ConsistencyAtLeastAsFreshToken c =
     (case AsAtLeastAsFresh c of None \<Rightarrow> None | Some t \<Rightarrow> Some t)"

lemma ConsistencyAtLeastAsFreshToken_iff:
  "ConsistencyAtLeastAsFreshToken c = Some t \<longleftrightarrow> c = Some (atLeastAsFreshConsistency t)"
  by (auto simp: ConsistencyAtLeastAsFreshToken_def AsAtLeastAsFresh_def normalizeConsistency_def
      split: consistency.splits option.splits)

lemma ConsistencyAtLeastAsFreshToken_type:
  "(\<exists>t. ConsistencyAtLeastAsFreshToken c = Some t) \<longleftrightarrow>
   ConsistencyTypeOf c = ConsistencyAtLeastAsFresh"
  by (auto simp: ConsistencyAtLeastAsFreshToken_def AsAtLeastAsFresh_def normalizeConsistency_def
      ConsistencyTypeOf_def Consistency_Type_def split: consistency.splits option.splits)

end
