(* ===== verification/Resource_Model.thy ===== *)
theory Resource_Model
  imports Tiny_Types
begin

text \<open>
  The resource aggregate of \<open>internal/biz/model\<close>: \<open>Resource\<close>, its reporter resources, the
  common and reporter representations, the report and delete events and the snapshots.
  Mutating methods take the value and return the mutated value; \<open>time.Now()\<close> is an argument
  (one per call of the source). A method that mutates before it fails returns both the
  mutated receiver and the error.
\<close>

section \<open>Reporter resources (\<open>reporter.go\<close>, \<open>reporter_resource.go\<close>)\<close>

record reporter_id =
  rid_reporterType :: reporter_type
  rid_reporterInstanceId :: reporter_instance_id

definition NewReporterId :: "reporter_type \<Rightarrow> reporter_instance_id \<Rightarrow> reporter_id" where
  "NewReporterId t i = \<lparr>rid_reporterType = t, rid_reporterInstanceId = i\<rparr>"

definition ReporterId_Serialize :: "reporter_id \<Rightarrow> string \<times> string" where
  "ReporterId_Serialize r = (SerializeString (rid_reporterType r), SerializeString (rid_reporterInstanceId r))"

definition DeserializeReporterId :: "string \<Rightarrow> string \<Rightarrow> reporter_id" where
  "DeserializeReporterId t i =
     \<lparr>rid_reporterType = DeserializeReporterType t, rid_reporterInstanceId = DeserializeReporterInstanceId i\<rparr>"

record reporter_resource_key =
  rrk_localResourceID :: local_resource_id
  rrk_resourceType :: resource_type
  rrk_reporter :: reporter_id

record reporter_resource =
  rr_id :: reporter_resource_id
  rr_key :: reporter_resource_key
  rr_resourceID :: resource_id
  rr_apiHref :: uri
  rr_consoleHref :: "uri option"
  rr_representationVersion :: version
  rr_generation :: generation
  rr_tombstone :: tombstone
  rr_createdAt :: time
  rr_updatedAt :: time

definition NewReporterResourceKey ::
    "local_resource_id \<Rightarrow> resource_type \<Rightarrow> reporter_type \<Rightarrow> reporter_instance_id \<Rightarrow>
     reporter_resource_key result" where
  "NewReporterResourceKey l rt rep inst =
     (let reporterId = NewReporterId rep inst in
      Ok \<lparr>rrk_localResourceID = l, rrk_resourceType = rt, rrk_reporter = reporterId\<rparr>)"

definition rrk_reporterType :: "reporter_resource_key \<Rightarrow> reporter_type" where
  "rrk_reporterType k = rid_reporterType (rrk_reporter k)"

definition rrk_reporterInstanceId :: "reporter_resource_key \<Rightarrow> reporter_instance_id" where
  "rrk_reporterInstanceId k = rid_reporterInstanceId (rrk_reporter k)"

definition NewReporterResource ::
    "time \<Rightarrow> reporter_resource_id \<Rightarrow> local_resource_id \<Rightarrow> resource_type \<Rightarrow> reporter_type \<Rightarrow>
     reporter_instance_id \<Rightarrow> resource_id \<Rightarrow> uri \<Rightarrow> uri option \<Rightarrow> reporter_resource result" where
  "NewReporterResource now i l rt rep inst resId api console =
     bind_res (wrap_err ''ReporterResource invalid key'' (NewReporterResourceKey l rt rep inst)) (\<lambda>k.
     Ok \<lparr>rr_id = i, rr_key = k, rr_resourceID = resId, rr_apiHref = api, rr_consoleHref = console,
         rr_representationVersion = NewVersion initialReporterRepresentationVersion,
         rr_generation = NewGeneration initialGeneration,
         rr_tombstone = NewTombstone initialTombstone,
         rr_createdAt = now, rr_updatedAt = now\<rparr>)"

definition tombstoned :: "reporter_resource \<Rightarrow> bool" where
  "tombstoned rr = SerializeBool (rr_tombstone rr)"

definition startNewGeneration :: "reporter_resource \<Rightarrow> reporter_resource" where
  "startNewGeneration rr = rr
     \<lparr>rr_tombstone := False,
      rr_generation := Generation_Increment (rr_generation rr),
      rr_representationVersion := initialReporterRepresentationVersion\<rparr>"

definition ReporterResource_Update ::
    "time \<Rightarrow> uri \<Rightarrow> uri option \<Rightarrow> reporter_resource \<Rightarrow> reporter_resource" where
  "ReporterResource_Update now api console rr =
     (let rr1 = rr\<lparr>rr_apiHref := api, rr_consoleHref := console,
                   rr_representationVersion := Version_Increment (rr_representationVersion rr),
                   rr_updatedAt := now\<rparr>
      in if tombstoned rr1 then startNewGeneration rr1 else rr1)"

definition ReporterResource_Delete :: "time \<Rightarrow> reporter_resource \<Rightarrow> reporter_resource" where
  "ReporterResource_Delete now rr = rr
     \<lparr>rr_representationVersion := Version_Increment (rr_representationVersion rr),
      rr_tombstone := True, rr_updatedAt := now\<rparr>"

section \<open>Snapshots (\<open>snapshots.go\<close>)\<close>

record resource_snapshot =
  rs_ID :: uuid
  rs_Type :: string
  rs_CommonVersion :: "uint option"
  rs_LastCommonVersion :: "uint option"
  rs_ConsistencyToken :: string
  rs_CreatedAt :: time
  rs_UpdatedAt :: time

record reporter_resource_key_snapshot =
  rks_LocalResourceID :: string
  rks_ReporterType :: string
  rks_ResourceType :: string
  rks_ReporterInstanceID :: string

record reporter_resource_snapshot =
  rrs_ID :: uuid
  rrs_Key :: reporter_resource_key_snapshot
  rrs_ResourceID :: uuid
  rrs_APIHref :: string
  rrs_ConsoleHref :: "string option"
  rrs_RepresentationVersion :: uint
  rrs_Generation :: uint
  rrs_Tombstone :: bool
  rrs_CreatedAt :: time
  rrs_UpdatedAt :: time

record common_representation_snapshot =
  crs_Data :: representation
  crs_ResourceId :: uuid
  crs_Version :: uint
  crs_ReportedByReporterType :: string
  crs_ReportedByReporterInstance :: string
  crs_TransactionId :: string
  crs_CreatedAt :: time

record reporter_representation_snapshot =
  rps_Data :: representation
  rps_ReporterResourceID :: uuid
  rps_Version :: uint
  rps_Generation :: uint
  rps_ReporterVersion :: "string option"
  rps_CommonVersion :: "uint option"
  rps_TransactionId :: string
  rps_Tombstone :: bool
  rps_CreatedAt :: time

definition zero_reporter_resource_snapshot :: reporter_resource_snapshot where
  "zero_reporter_resource_snapshot =
     \<lparr>rrs_ID = uuid_Nil,
      rrs_Key = \<lparr>rks_LocalResourceID = [], rks_ReporterType = [], rks_ResourceType = [], rks_ReporterInstanceID = []\<rparr>,
      rrs_ResourceID = uuid_Nil, rrs_APIHref = [], rrs_ConsoleHref = None, rrs_RepresentationVersion = 0,
      rrs_Generation = 0, rrs_Tombstone = False, rrs_CreatedAt = zero_time, rrs_UpdatedAt = zero_time\<rparr>"

definition ReporterResource_Serialize :: "reporter_resource \<Rightarrow> reporter_resource_snapshot" where
  "ReporterResource_Serialize rr =
     \<lparr>rrs_ID = SerializeUUID (rr_id rr),
      rrs_Key = \<lparr>rks_LocalResourceID = SerializeString (rrk_localResourceID (rr_key rr)),
                 rks_ReporterType = SerializeString (rrk_reporterType (rr_key rr)),
                 rks_ResourceType = SerializeString (rrk_resourceType (rr_key rr)),
                 rks_ReporterInstanceID = SerializeString (rrk_reporterInstanceId (rr_key rr))\<rparr>,
      rrs_ResourceID = SerializeUUID (rr_resourceID rr),
      rrs_APIHref = SerializeString (rr_apiHref rr),
      rrs_ConsoleHref = (case rr_consoleHref rr of None \<Rightarrow> None | Some c \<Rightarrow> Some (SerializeString c)),
      rrs_RepresentationVersion = SerializeUint (rr_representationVersion rr),
      rrs_Generation = SerializeUint (rr_generation rr),
      rrs_Tombstone = SerializeBool (rr_tombstone rr),
      rrs_CreatedAt = rr_createdAt rr, rrs_UpdatedAt = rr_updatedAt rr\<rparr>"

definition ReporterResourceKey_Serialize ::
    "reporter_resource_key \<Rightarrow> string \<times> string \<times> string \<times> string" where
  "ReporterResourceKey_Serialize k =
     (let (t, i) = ReporterId_Serialize (rrk_reporter k)
      in (SerializeString (rrk_localResourceID k), SerializeString (rrk_resourceType k), t, i))"

definition DeserializeReporterResourceKey ::
    "string \<Rightarrow> string \<Rightarrow> string \<Rightarrow> string \<Rightarrow> reporter_resource_key" where
  "DeserializeReporterResourceKey l rt rep inst =
     \<lparr>rrk_localResourceID = DeserializeLocalResourceId l,
      rrk_resourceType = DeserializeResourceType rt,
      rrk_reporter = DeserializeReporterId rep inst\<rparr>"

definition DeserializeReporterResource :: "reporter_resource_snapshot \<Rightarrow> reporter_resource" where
  "DeserializeReporterResource s =
     \<lparr>rr_id = DeserializeReporterResourceId (rrs_ID s),
      rr_key = DeserializeReporterResourceKey (rks_LocalResourceID (rrs_Key s)) (rks_ResourceType (rrs_Key s))
                 (rks_ReporterType (rrs_Key s)) (rks_ReporterInstanceID (rrs_Key s)),
      rr_resourceID = DeserializeResourceId (rrs_ResourceID s),
      rr_apiHref = DeserializeApiHref (rrs_APIHref s),
      rr_consoleHref = DeserializeConsoleHref (rrs_ConsoleHref s),
      rr_representationVersion = DeserializeVersion (rrs_RepresentationVersion s),
      rr_generation = DeserializeGeneration (rrs_Generation s),
      rr_tombstone = DeserializeTombstone (rrs_Tombstone s),
      rr_createdAt = rrs_CreatedAt s, rr_updatedAt = rrs_UpdatedAt s\<rparr>"

text \<open>
  The JSON form of a key: the object a \<open>MarshalJSON\<close> call produces, and the decoding of such
  an object. As in \<open>encoding/json\<close>, a member that is absent or null leaves the zero value and a
  member of another kind is an error.
\<close>

definition json_string_field :: "json_object \<Rightarrow> string \<Rightarrow> string result" where
  "json_string_field o1 k =
     (case map_of o1 k of
        None \<Rightarrow> Ok [] | Some JNull \<Rightarrow> Ok [] | Some (JStr s) \<Rightarrow> Ok s
      | Some _ \<Rightarrow> Err (Errorf ''json: cannot unmarshal into string''))"

definition json_object_field :: "json_object \<Rightarrow> string \<Rightarrow> json_object result" where
  "json_object_field o1 k =
     (case map_of o1 k of
        None \<Rightarrow> Ok [] | Some JNull \<Rightarrow> Ok [] | Some (JObj p) \<Rightarrow> Ok p
      | Some _ \<Rightarrow> Err (Errorf ''json: cannot unmarshal into struct''))"

definition ReporterResourceKey_MarshalJSON :: "reporter_resource_key \<Rightarrow> json" where
  "ReporterResourceKey_MarshalJSON k =
     (let (t, i) = ReporterId_Serialize (rrk_reporter k)
      in JObj [(''local_resource_id'', JStr (SerializeString (rrk_localResourceID k))),
               (''resource_type'', JStr (SerializeString (rrk_resourceType k))),
               (''reporter'', JObj [(''reporter_type'', JStr t), (''reporter_instance_id'', JStr i)])])"

definition ReporterResourceKey_UnmarshalJSON :: "json \<Rightarrow> reporter_resource_key result" where
  "ReporterResourceKey_UnmarshalJSON j =
     (case j of
        JObj o1 \<Rightarrow>
          wrap_err ''failed to unmarshal ReporterResourceKey''
          (bind_res (json_string_field o1 ''local_resource_id'') (\<lambda>l.
           bind_res (json_string_field o1 ''resource_type'') (\<lambda>rt.
           bind_res (json_object_field o1 ''reporter'') (\<lambda>rep.
           bind_res (json_string_field rep ''reporter_type'') (\<lambda>t.
           bind_res (json_string_field rep ''reporter_instance_id'') (\<lambda>i.
           Ok \<lparr>rrk_localResourceID = DeserializeLocalResourceId l,
               rrk_resourceType = DeserializeResourceType rt,
               rrk_reporter = DeserializeReporterId t i\<rparr>))))))
      | JNull \<Rightarrow> Ok \<lparr>rrk_localResourceID = [], rrk_resourceType = [],
                     rrk_reporter = \<lparr>rid_reporterType = [], rid_reporterInstanceId = []\<rparr>\<rparr>
      | _ \<Rightarrow> Err (Wrap ''failed to unmarshal ReporterResourceKey'' (Errorf ''json: cannot unmarshal'')))"

lemma ReporterResourceKey_json [simp]:
  "ReporterResourceKey_UnmarshalJSON (ReporterResourceKey_MarshalJSON k) = Ok k"
  by (cases k) (simp add: ReporterResourceKey_UnmarshalJSON_def ReporterResourceKey_MarshalJSON_def
      json_string_field_def json_object_field_def ReporterId_Serialize_def DeserializeReporterId_def serde)

section \<open>Representations (\<open>common_representation.go\<close>, \<open>reporter_representation.go\<close>)\<close>

record common_representation =
  cr_data :: representation
  cr_resourceId :: resource_id
  cr_version :: version
  cr_reporter :: reporter_id
  cr_transactionId :: transaction_id

record reporter_representation =
  rep_data :: representation
  rep_reporterResourceID :: reporter_resource_id
  rep_version :: version
  rep_generation :: generation
  rep_reporterVersion :: "reporter_version option"
  rep_commonVersion :: "version option"
  rep_tombstone :: tombstone
  rep_transactionId :: transaction_id

definition NewCommonRepresentation ::
    "resource_id \<Rightarrow> representation \<Rightarrow> version \<Rightarrow> reporter_type \<Rightarrow> reporter_instance_id \<Rightarrow>
     transaction_id \<Rightarrow> common_representation result" where
  "NewCommonRepresentation resId d v rt inst tx =
     (if resId = uuid_Nil then Err (Wrap ''ResourceId'' (Sentinel ErrInvalidUUID))
      else if TrimSpace rt = [] then Err (Wrap ''ReporterType'' (Sentinel ErrEmpty))
      else if TrimSpace inst = [] then Err (Wrap ''ReporterInstanceId'' (Sentinel ErrEmpty))
      else if map_len d = 0 then Err (Wrap ''CommonRepresentation data'' (Sentinel ErrInvalidData))
      else if d = None then Err (Errorf ''CommonRepresentation requires non-empty data'')
      else Ok \<lparr>cr_data = d, cr_resourceId = resId, cr_version = v,
               cr_reporter = NewReporterId rt inst, cr_transactionId = tx\<rparr>)"

definition CommonRepresentation_Serialize ::
    "time \<Rightarrow> common_representation \<Rightarrow> common_representation_snapshot" where
  "CommonRepresentation_Serialize now cr =
     (let (t, i) = ReporterId_Serialize (cr_reporter cr)
      in \<lparr>crs_Data = cr_data cr, crs_ResourceId = cr_resourceId cr,
          crs_Version = SerializeUint (cr_version cr),
          crs_ReportedByReporterType = t, crs_ReportedByReporterInstance = i,
          crs_TransactionId = SerializeString (cr_transactionId cr), crs_CreatedAt = now\<rparr>)"

definition DeserializeCommonRepresentation ::
    "common_representation_snapshot \<Rightarrow> common_representation" where
  "DeserializeCommonRepresentation s =
     \<lparr>cr_data = crs_Data s, cr_resourceId = crs_ResourceId s,
      cr_version = DeserializeVersion (crs_Version s),
      cr_reporter = \<lparr>rid_reporterType = crs_ReportedByReporterType s,
                     rid_reporterInstanceId = crs_ReportedByReporterInstance s\<rparr>,
      cr_transactionId = crs_TransactionId s\<rparr>"

definition NewReporterDataRepresentation ::
    "reporter_resource_id \<Rightarrow> version \<Rightarrow> generation \<Rightarrow> representation \<Rightarrow> version option \<Rightarrow>
     reporter_version option \<Rightarrow> transaction_id \<Rightarrow> reporter_representation result" where
  "NewReporterDataRepresentation rrId v g d cv rv tx =
     (if rrId = uuid_Nil then Err (Wrap ''ReporterResourceId'' (Sentinel ErrInvalidUUID))
      else if d = None then Err (Wrap ''ReporterDataRepresentation data'' (Sentinel ErrInvalidData))
      else Ok \<lparr>rep_data = d, rep_reporterResourceID = rrId, rep_version = v, rep_generation = g,
               rep_reporterVersion = rv, rep_commonVersion = cv,
               rep_tombstone = NewTombstone False, rep_transactionId = tx\<rparr>)"

definition NewReporterDeleteRepresentation ::
    "reporter_resource_id \<Rightarrow> version \<Rightarrow> generation \<Rightarrow> reporter_representation result" where
  "NewReporterDeleteRepresentation rrId v g =
     (if rrId = uuid_Nil then Err (Wrap ''ReporterResourceId'' (Sentinel ErrInvalidUUID))
      else Ok \<lparr>rep_data = None, rep_reporterResourceID = rrId, rep_version = v, rep_generation = g,
               rep_reporterVersion = None, rep_commonVersion = None,
               rep_tombstone = NewTombstone True, rep_transactionId = []\<rparr>)"

definition ReporterRepresentation_Serialize ::
    "time \<Rightarrow> reporter_representation \<Rightarrow> reporter_representation_snapshot" where
  "ReporterRepresentation_Serialize now r =
     \<lparr>rps_Data = rep_data r, rps_ReporterResourceID = SerializeUUID (rep_reporterResourceID r),
      rps_Version = SerializeUint (rep_version r), rps_Generation = SerializeUint (rep_generation r),
      rps_ReporterVersion = (case rep_reporterVersion r of None \<Rightarrow> None | Some v \<Rightarrow> Some (SerializeString v)),
      rps_CommonVersion = (case rep_commonVersion r of None \<Rightarrow> None | Some v \<Rightarrow> Some (SerializeUint v)),
      rps_TransactionId = SerializeString (rep_transactionId r),
      rps_Tombstone = SerializeBool (rep_tombstone r), rps_CreatedAt = now\<rparr>"

definition DeserializeReporterDataRepresentation ::
    "reporter_representation_snapshot option \<Rightarrow> reporter_representation option" where
  "DeserializeReporterDataRepresentation so =
     (case so of None \<Rightarrow> None
      | Some s \<Rightarrow> Some
          \<lparr>rep_data = DeserializeRepresentation (rps_Data s),
           rep_reporterResourceID = DeserializeReporterResourceId (rps_ReporterResourceID s),
           rep_version = DeserializeVersion (rps_Version s),
           rep_generation = DeserializeGeneration (rps_Generation s),
           rep_reporterVersion = (case rps_ReporterVersion s of None \<Rightarrow> None
                                   | Some v \<Rightarrow> DeserializeReporterVersion (Some v)),
           rep_commonVersion = (case rps_CommonVersion s of None \<Rightarrow> None
                                 | Some v \<Rightarrow> Some (DeserializeVersion v)),
           rep_tombstone = DeserializeTombstone (rps_Tombstone s),
           rep_transactionId = DeserializeTransactionId (rps_TransactionId s)\<rparr>)"

section \<open>Events (\<open>resource_report_event.go\<close>, \<open>resource_delete_event.go\<close>)\<close>

record resource_report_event =
  re_id :: resource_id
  re_resourceType :: resource_type
  re_reporterId :: reporter_id
  re_localResourceId :: local_resource_id
  re_apiHref :: uri
  re_consoleHref :: "uri option"
  re_reporterRepresentation :: "reporter_representation option"
  re_commonRepresentation :: "common_representation option"
  re_createdAt :: time
  re_updatedAt :: time

record resource_delete_event =
  rde_id :: resource_id
  rde_resourceType :: resource_type
  rde_reporterId :: reporter_id
  rde_localResourceId :: local_resource_id
  rde_reporterRepresentation :: reporter_representation
  rde_createdAt :: time
  rde_updatedAt :: time

definition zero_reporter_id :: reporter_id where
  "zero_reporter_id = \<lparr>rid_reporterType = [], rid_reporterInstanceId = []\<rparr>"

definition zero_report_event :: resource_report_event where
  "zero_report_event =
     \<lparr>re_id = uuid_Nil, re_resourceType = [], re_reporterId = zero_reporter_id, re_localResourceId = [],
      re_apiHref = [], re_consoleHref = None, re_reporterRepresentation = None,
      re_commonRepresentation = None, re_createdAt = zero_time, re_updatedAt = zero_time\<rparr>"

definition NewResourceReportEvent ::
    "resource_id \<Rightarrow> resource_type \<Rightarrow> reporter_type \<Rightarrow> reporter_instance_id \<Rightarrow> local_resource_id \<Rightarrow>
     uri \<Rightarrow> uri option \<Rightarrow> reporter_representation option \<Rightarrow> common_representation option \<Rightarrow>
     resource_report_event result" where
  "NewResourceReportEvent resId rt rep inst l api console rr cr =
     (if rr = None \<and> cr = None then Err (Sentinel ErrNoRepresentationProvided)
      else Ok \<lparr>re_id = resId, re_resourceType = rt, re_reporterId = NewReporterId rep inst,
               re_localResourceId = l, re_apiHref = api, re_consoleHref = console,
               re_reporterRepresentation = rr, re_commonRepresentation = cr,
               re_createdAt = zero_time, re_updatedAt = zero_time\<rparr>)"

definition ReportEvent_CurrentCommonVersion :: "resource_report_event \<Rightarrow> version option" where
  "ReportEvent_CurrentCommonVersion re =
     (case re_commonRepresentation re of None \<Rightarrow> None | Some cr \<Rightarrow> Some (cr_version cr))"

definition ReportEvent_CurrentReporterRepresentationVersion :: "resource_report_event \<Rightarrow> version option" where
  "ReportEvent_CurrentReporterRepresentationVersion re =
     (case re_reporterRepresentation re of None \<Rightarrow> None | Some rr \<Rightarrow> Some (rep_version rr))"

definition ReportEvent_ReporterVersion :: "resource_report_event \<Rightarrow> reporter_version option" where
  "ReportEvent_ReporterVersion re =
     (case re_reporterRepresentation re of None \<Rightarrow> None | Some rr \<Rightarrow> rep_reporterVersion rr)"

definition ReportEvent_Data :: "resource_report_event \<Rightarrow> representation" where
  "ReportEvent_Data re =
     (case re_reporterRepresentation re of None \<Rightarrow> None | Some rr \<Rightarrow> rep_data rr)"

definition ReportEvent_WorkspaceId :: "resource_report_event \<Rightarrow> string option" where
  "ReportEvent_WorkspaceId re =
     (case re_commonRepresentation re of None \<Rightarrow> None
      | Some cr \<Rightarrow> (case map_get (cr_data cr) ''workspace_id'' of Some (JStr w) \<Rightarrow> Some w | _ \<Rightarrow> None))"

definition ReportEvent_ReporterResourceKey :: "resource_report_event \<Rightarrow> reporter_resource_key" where
  "ReportEvent_ReporterResourceKey re =
     \<lparr>rrk_localResourceID = re_localResourceId re, rrk_resourceType = re_resourceType re,
      rrk_reporter = re_reporterId re\<rparr>"

definition SetTimestamps :: "time \<Rightarrow> time \<Rightarrow> resource_report_event \<Rightarrow> resource_report_event" where
  "SetTimestamps c u re = re\<lparr>re_createdAt := c, re_updatedAt := u\<rparr>"

definition DeserializeResourceEvent ::
    "reporter_representation_snapshot option \<Rightarrow> common_representation_snapshot option \<Rightarrow> time \<Rightarrow> time \<Rightarrow>
     resource_report_event" where
  "DeserializeResourceEvent rrs crs c u = zero_report_event
     \<lparr>re_commonRepresentation := (case crs of None \<Rightarrow> None | Some s \<Rightarrow> Some (DeserializeCommonRepresentation s)),
      re_reporterRepresentation := DeserializeReporterDataRepresentation rrs,
      re_createdAt := c, re_updatedAt := u\<rparr>"

definition NewResourceDeleteEvent ::
    "resource_id \<Rightarrow> resource_type \<Rightarrow> reporter_type \<Rightarrow> reporter_instance_id \<Rightarrow> local_resource_id \<Rightarrow>
     reporter_representation \<Rightarrow> resource_delete_event result" where
  "NewResourceDeleteEvent resId rt rep inst l rr =
     Ok \<lparr>rde_id = resId, rde_resourceType = rt, rde_reporterId = NewReporterId rep inst,
         rde_localResourceId = l, rde_reporterRepresentation = rr,
         rde_createdAt = zero_time, rde_updatedAt = zero_time\<rparr>"

definition DeleteEvent_CurrentCommonVersion :: "resource_delete_event \<Rightarrow> version option" where
  "DeleteEvent_CurrentCommonVersion re = None"

definition DeleteEvent_CurrentReporterRepresentationVersion :: "resource_delete_event \<Rightarrow> version option" where
  "DeleteEvent_CurrentReporterRepresentationVersion re = Some (rep_version (rde_reporterRepresentation re))"

definition DeleteEvent_WorkspaceId :: "resource_delete_event \<Rightarrow> string option" where
  "DeleteEvent_WorkspaceId re = None"

definition DeleteEvent_ReporterResourceKey :: "resource_delete_event \<Rightarrow> reporter_resource_key" where
  "DeleteEvent_ReporterResourceKey re =
     \<lparr>rrk_localResourceID = rde_localResourceId re, rrk_resourceType = rde_resourceType re,
      rrk_reporter = rde_reporterId re\<rparr>"

text \<open>The interface \<open>ResourceEvent\<close> (\<open>resource_event.go\<close>) as the sum of its two implementations.\<close>

datatype resource_event = ReportEvent resource_report_event | DeleteEvent resource_delete_event

definition Event_CurrentCommonVersion :: "resource_event \<Rightarrow> version option" where
  "Event_CurrentCommonVersion e = (case e of
     ReportEvent r \<Rightarrow> ReportEvent_CurrentCommonVersion r
   | DeleteEvent d \<Rightarrow> DeleteEvent_CurrentCommonVersion d)"

definition Event_CurrentReporterRepresentationVersion :: "resource_event \<Rightarrow> version option" where
  "Event_CurrentReporterRepresentationVersion e = (case e of
     ReportEvent r \<Rightarrow> ReportEvent_CurrentReporterRepresentationVersion r
   | DeleteEvent d \<Rightarrow> DeleteEvent_CurrentReporterRepresentationVersion d)"

definition Event_ReporterResourceKey :: "resource_event \<Rightarrow> reporter_resource_key" where
  "Event_ReporterResourceKey e = (case e of
     ReportEvent r \<Rightarrow> ReportEvent_ReporterResourceKey r
   | DeleteEvent d \<Rightarrow> DeleteEvent_ReporterResourceKey d)"

definition Event_Id :: "resource_event \<Rightarrow> resource_id" where
  "Event_Id e = (case e of ReportEvent r \<Rightarrow> re_id r | DeleteEvent d \<Rightarrow> rde_id d)"

definition Event_WorkspaceId :: "resource_event \<Rightarrow> string option" where
  "Event_WorkspaceId e = (case e of ReportEvent r \<Rightarrow> ReportEvent_WorkspaceId r
   | DeleteEvent d \<Rightarrow> DeleteEvent_WorkspaceId d)"

end
