(* ===== verification/Relations_Tuples.thy ===== *)
theory Relations_Tuples
  imports Resource_Model
begin

text \<open>
  Tuples and their calculation: resource and subject references, \<open>relations_tuple.go\<close>,
  \<open>tuples_to_replicate.go\<close>, \<open>relation_diff.go\<close>, \<open>representations.go\<close>, \<open>tuple_event.go\<close>,
  \<open>tuple_filter.go\<close> and the schemas of \<open>schema.go\<close> (the default schema and the
  relation-definition schemas of \<open>internal/data/schema_*.go\<close>). The interface \<open>Schema\<close> of the
  source is the locale \<open>tuple_schema\<close>: its contract is that replaying the calculated tuples
  moves a tuple set from the relations of the previous representation to those of the current one.
\<close>

section \<open>References\<close>

record reporter_reference =
  rref_reporterType :: reporter_type
  rref_instanceId :: "reporter_instance_id option"

record resource_reference =
  oref_resourceType :: resource_type
  oref_resourceId :: local_resource_id
  oref_reporter :: "reporter_reference option"

record subject_reference =
  sref_resource :: resource_reference
  sref_relation :: "relation option"

record relations_tuple =
  rt_object :: resource_reference
  rt_relation :: relation
  rt_subject :: subject_reference

definition NewReporterReference :: "reporter_type \<Rightarrow> reporter_instance_id option \<Rightarrow> reporter_reference" where
  "NewReporterReference t i = \<lparr>rref_reporterType = t, rref_instanceId = i\<rparr>"

definition NewResourceReference ::
    "resource_type \<Rightarrow> local_resource_id \<Rightarrow> reporter_reference option \<Rightarrow> resource_reference" where
  "NewResourceReference t i r = \<lparr>oref_resourceType = t, oref_resourceId = i, oref_reporter = r\<rparr>"

definition NewSubjectReference :: "resource_reference \<Rightarrow> relation option \<Rightarrow> subject_reference" where
  "NewSubjectReference r rel = \<lparr>sref_resource = r, sref_relation = rel\<rparr>"

definition NewSubjectReferenceWithoutRelation :: "resource_reference \<Rightarrow> subject_reference" where
  "NewSubjectReferenceWithoutRelation r = \<lparr>sref_resource = r, sref_relation = None\<rparr>"

definition NewRelationsTuple ::
    "resource_reference \<Rightarrow> relation \<Rightarrow> subject_reference \<Rightarrow> relations_tuple" where
  "NewRelationsTuple ob rel sub = \<lparr>rt_object = ob, rt_relation = rel, rt_subject = sub\<rparr>"

definition WorkspaceRelation :: string where "WorkspaceRelation = ''workspace''"
definition RbacNamespace :: string where "RbacNamespace = ''rbac''"

definition DeserializeRelation :: "string \<Rightarrow> relation" where
  [serde]: "DeserializeRelation v = v"

definition NewRelationTupleForSubject ::
    "reporter_resource_key \<Rightarrow> string \<Rightarrow> string \<Rightarrow> string \<Rightarrow> string \<Rightarrow> relations_tuple" where
  "NewRelationTupleForSubject key relationName subjectNamespace subjectResourceType subjectId =
     (let reporter = NewReporterReference (rrk_reporterType key) None;
          object = NewResourceReference (rrk_resourceType key) (rrk_localResourceID key) (Some reporter);
          subjectReporter = NewReporterReference (DeserializeReporterType subjectNamespace) None;
          subjectResource = NewResourceReference (DeserializeResourceType subjectResourceType)
                              (DeserializeLocalResourceId subjectId) (Some subjectReporter);
          subject = NewSubjectReferenceWithoutRelation subjectResource
      in \<lparr>rt_object = object, rt_relation = DeserializeRelation relationName, rt_subject = subject\<rparr>)"

definition NewWorkspaceRelationsTuple :: "string \<Rightarrow> reporter_resource_key \<Rightarrow> relations_tuple" where
  "NewWorkspaceRelationsTuple workspaceID key =
     NewRelationTupleForSubject key WorkspaceRelation RbacNamespace WorkspaceRelation workspaceID"

lemma NewRelationTupleForSubject_inj:
  "NewRelationTupleForSubject key rel ns t s = NewRelationTupleForSubject key rel ns t s' \<longleftrightarrow> s = s'"
  by (simp add: NewRelationTupleForSubject_def Let_def NewSubjectReferenceWithoutRelation_def
      NewResourceReference_def NewReporterReference_def serde)

lemma NewRelationTupleForSubject_relation [simp]:
  "rt_relation (NewRelationTupleForSubject key rel ns t s) = rel"
  by (simp add: NewRelationTupleForSubject_def Let_def serde)

section \<open>Representations (\<open>representations.go\<close>)\<close>

record representations =
  reps_commonData :: representation
  reps_commonVersion :: "version option"
  reps_reporterData :: representation
  reps_reporterRepresentationVersion :: "version option"

definition NewRepresentations ::
    "representation \<Rightarrow> version option \<Rightarrow> representation \<Rightarrow> version option \<Rightarrow> representations result" where
  "NewRepresentations cd cv rd rv =
     (let hasCommon = map_len cd > 0 \<and> cv \<noteq> None;
          hasReporter = map_len rd > 0 \<and> rv \<noteq> None
      in if \<not> hasCommon \<and> \<not> hasReporter
         then Err (Errorf ''at least one of common or reporter representation must be present'')
         else if (map_len cd > 0) \<noteq> (cv \<noteq> None)
         then Err (Errorf ''common data and common version must both be present or both be absent'')
         else if (map_len rd > 0) \<noteq> (rv \<noteq> None)
         then Err (Errorf ''reporter data and reporter representation version must both be present or both be absent'')
         else Ok \<lparr>reps_commonData = cd, reps_commonVersion = cv, reps_reporterData = rd,
                  reps_reporterRepresentationVersion = rv\<rparr>)"

definition HasCommon :: "representations \<Rightarrow> bool" where
  "HasCommon r \<longleftrightarrow> map_len (reps_commonData r) > 0 \<and> reps_commonVersion r \<noteq> None"

text \<open>The receiver of \<open>StringField\<close> and \<open>StringSliceField\<close> may be a nil pointer.\<close>

definition StringField :: "representations option \<Rightarrow> string \<Rightarrow> string" where
  "StringField ro fieldName =
     (case ro of None \<Rightarrow> []
      | Some r \<Rightarrow> if HasCommon r
                  then (case map_get (reps_commonData r) fieldName of Some (JStr s) \<Rightarrow> s | _ \<Rightarrow> [])
                  else [])"

definition WorkspaceID :: "representations \<Rightarrow> string" where
  "WorkspaceID r = StringField (Some r) ''workspace_id''"

definition json_strings :: "json list \<Rightarrow> string list" where
  "json_strings js = List.map_filter (\<lambda>j. case j of JStr s \<Rightarrow> Some s | _ \<Rightarrow> None) js"

text \<open>A nil slice and an empty one are both the empty list: callers only range over the result.\<close>

definition StringSliceField :: "representations option \<Rightarrow> string \<Rightarrow> string list" where
  "StringSliceField ro fieldName =
     (case ro of None \<Rightarrow> []
      | Some r \<Rightarrow> if HasCommon r
                  then (case map_get (reps_commonData r) fieldName of Some (JArr js) \<Rightarrow> json_strings js | _ \<Rightarrow> [])
                  else [])"

section \<open>Tuples to replicate\<close>

record tuples_to_replicate =
  ttr_tuplesToCreate :: "relations_tuple list option"
  ttr_tuplesToDelete :: "relations_tuple list option"

definition NewTuplesToReplicate ::
    "relations_tuple list \<Rightarrow> relations_tuple list \<Rightarrow> tuples_to_replicate result" where
  "NewTuplesToReplicate cs ds =
     Ok \<lparr>ttr_tuplesToCreate = (if length cs > 0 then Some cs else None),
         ttr_tuplesToDelete = (if length ds > 0 then Some ds else None)\<rparr>"

definition zero_tuples_to_replicate :: tuples_to_replicate where
  "zero_tuples_to_replicate = \<lparr>ttr_tuplesToCreate = None, ttr_tuplesToDelete = None\<rparr>"

definition ttr_IsEmpty :: "tuples_to_replicate \<Rightarrow> bool" where
  "ttr_IsEmpty t =
     (let hasCreate = (case ttr_tuplesToCreate t of None \<Rightarrow> False | Some cs \<Rightarrow> length cs > 0);
          hasDelete = (case ttr_tuplesToDelete t of None \<Rightarrow> False | Some ds \<Rightarrow> length ds > 0)
      in \<not> hasCreate \<and> \<not> hasDelete)"

definition HasTuplesToCreate :: "tuples_to_replicate \<Rightarrow> bool" where
  "HasTuplesToCreate t \<longleftrightarrow> ttr_tuplesToCreate t \<noteq> None"

definition HasTuplesToDelete :: "tuples_to_replicate \<Rightarrow> bool" where
  "HasTuplesToDelete t \<longleftrightarrow> ttr_tuplesToDelete t \<noteq> None"

definition creates :: "tuples_to_replicate \<Rightarrow> relations_tuple list" where
  "creates t = (case ttr_tuplesToCreate t of None \<Rightarrow> [] | Some cs \<Rightarrow> cs)"

definition deletes :: "tuples_to_replicate \<Rightarrow> relations_tuple list" where
  "deletes t = (case ttr_tuplesToDelete t of None \<Rightarrow> [] | Some ds \<Rightarrow> ds)"

lemma NewTuplesToReplicate_lists:
  assumes "NewTuplesToReplicate cs ds = Inr t"
  shows "creates t = cs" "deletes t = ds"
  using assms by (auto simp: NewTuplesToReplicate_def creates_def deletes_def)

section \<open>Value diff (\<open>relation_diff.go\<close>)\<close>

text \<open>
  Go iterates over the two sets in an unspecified order; \<open>remdups\<close> fixes one order. The
  statements below are about the sets of tuples, which do not depend on it.
\<close>

definition DiffRelationValues ::
    "reporter_resource_key \<Rightarrow> string \<Rightarrow> string \<Rightarrow> string \<Rightarrow> string list \<Rightarrow> string list \<Rightarrow>
     relations_tuple list \<times> relations_tuple list" where
  "DiffRelationValues key rel ns t currentValues previousValues =
     (map (NewRelationTupleForSubject key rel ns t)
        (filter (\<lambda>v. v \<notin> set previousValues) (remdups currentValues)),
      map (NewRelationTupleForSubject key rel ns t)
        (filter (\<lambda>v. v \<notin> set currentValues) (remdups previousValues)))"

section \<open>Schemas (\<open>schema.go\<close>)\<close>

definition DefaultSchema_CalculateTuples ::
    "representations option \<Rightarrow> representations option \<Rightarrow> reporter_resource_key \<Rightarrow> tuples_to_replicate result" where
  "DefaultSchema_CalculateTuples current previous key =
     (let currentWorkspaceID = (case current of None \<Rightarrow> [] | Some c \<Rightarrow> WorkspaceID c);
          previousWorkspaceID = (case previous of None \<Rightarrow> [] | Some p \<Rightarrow> WorkspaceID p)
      in if previousWorkspaceID \<noteq> [] \<and> previousWorkspaceID = currentWorkspaceID
         then Ok zero_tuples_to_replicate
         else
           let tuplesToCreate = (if currentWorkspaceID \<noteq> [] then [NewWorkspaceRelationsTuple currentWorkspaceID key] else []);
               tuplesToDelete = (if previousWorkspaceID \<noteq> [] then [NewWorkspaceRelationsTuple previousWorkspaceID key] else [])
           in NewTuplesToReplicate tuplesToCreate tuplesToDelete)"

record relation_def =
  rd_fieldName :: string
  rd_relationName :: string
  rd_subjectNamespace :: string
  rd_subjectResourceType :: string
  rd_multiValued :: bool

definition NewRelationDef :: "string \<Rightarrow> string \<Rightarrow> string \<Rightarrow> string \<Rightarrow> bool \<Rightarrow> relation_def result" where
  "NewRelationDef f r n t m =
     (if f = [] then Err (Errorf ''field name is required'')
      else if r = [] then Err (Errorf ''relation name is required'')
      else if n = [] then Err (Errorf ''subject namespace is required'')
      else if t = [] then Err (Errorf ''subject resource type is required'')
      else Ok \<lparr>rd_fieldName = f, rd_relationName = r, rd_subjectNamespace = n,
               rd_subjectResourceType = t, rd_multiValued = m\<rparr>)"

definition relation_values :: "relation_def \<Rightarrow> representations option \<Rightarrow> string list" where
  "relation_values rel ro =
     (if rd_multiValued rel then StringSliceField ro (rd_fieldName rel)
      else (let v = StringField ro (rd_fieldName rel) in if v \<noteq> [] then [v] else []))"

fun relation_defs_loop ::
    "relation_def list \<Rightarrow> representations option \<Rightarrow> representations option \<Rightarrow> reporter_resource_key \<Rightarrow>
     relations_tuple list \<Rightarrow> relations_tuple list \<Rightarrow> relations_tuple list \<times> relations_tuple list" where
  "relation_defs_loop [] current previous key allCreates allDeletes = (allCreates, allDeletes)"
| "relation_defs_loop (rel # rels) current previous key allCreates allDeletes =
     (let (cs, ds) = DiffRelationValues key (rd_relationName rel) (rd_subjectNamespace rel)
                       (rd_subjectResourceType rel) (relation_values rel current) (relation_values rel previous)
      in relation_defs_loop rels current previous key (allCreates @ cs) (allDeletes @ ds))"

definition CalculateTuplesFromRelationDefs ::
    "relation_def list \<Rightarrow> representations option \<Rightarrow> representations option \<Rightarrow> reporter_resource_key \<Rightarrow>
     tuples_to_replicate result" where
  "CalculateTuplesFromRelationDefs relations current previous key =
     (let (cs, ds) = relation_defs_loop relations current previous key [] []
      in NewTuplesToReplicate cs ds)"

section \<open>Features schemas (\<open>internal/data/schema_features_service.go\<close>)\<close>

definition featureNamespace :: string where "featureNamespace = ''features''"

definition serviceRelations :: "relation_def list" where
  "serviceRelations =
     [\<lparr>rd_fieldName = ''allowed_workspaces'', rd_relationName = ''allowed_workspaces'',
       rd_subjectNamespace = RbacNamespace, rd_subjectResourceType = ''workspace'', rd_multiValued = True\<rparr>,
      \<lparr>rd_fieldName = ''billing_account'', rd_relationName = ''billing_account'',
       rd_subjectNamespace = featureNamespace, rd_subjectResourceType = ''billing_account'', rd_multiValued = True\<rparr>,
      \<lparr>rd_fieldName = ''parent'', rd_relationName = ''parent'',
       rd_subjectNamespace = featureNamespace, rd_subjectResourceType = ''service'', rd_multiValued = False\<rparr>]"

definition billingAccountRelations :: "relation_def list" where
  "billingAccountRelations =
     [\<lparr>rd_fieldName = ''workspaces'', rd_relationName = ''workspace'',
       rd_subjectNamespace = RbacNamespace, rd_subjectResourceType = ''workspace'', rd_multiValued = True\<rparr>]"

text \<open>The tables are built with \<open>mustRelationDef\<close>, which panics when \<open>NewRelationDef\<close> fails: it does not.\<close>

lemma relation_tables_valid:
  "list_all (\<lambda>rd. NewRelationDef (rd_fieldName rd) (rd_relationName rd) (rd_subjectNamespace rd)
      (rd_subjectResourceType rd) (rd_multiValued rd) = Inr rd) (serviceRelations @ billingAccountRelations)"
  by (simp add: serviceRelations_def billingAccountRelations_def NewRelationDef_def RbacNamespace_def
      featureNamespace_def)

datatype schema = DefaultSchema | JsonSchemaWithWorkspaces string
  | JsonSchemaWithRelations string "relation_def list"

definition Schema_CalculateTuples ::
    "schema \<Rightarrow> representations option \<Rightarrow> representations option \<Rightarrow> reporter_resource_key \<Rightarrow>
     tuples_to_replicate result" where
  "Schema_CalculateTuples s current previous key = (case s of
     DefaultSchema \<Rightarrow> DefaultSchema_CalculateTuples current previous key
   | JsonSchemaWithWorkspaces _ \<Rightarrow> DefaultSchema_CalculateTuples current previous key
   | JsonSchemaWithRelations _ rels \<Rightarrow> CalculateTuplesFromRelationDefs rels current previous key)"

definition DefaultSchemaFactory :: "resource_type \<Rightarrow> string \<Rightarrow> schema" where
  "DefaultSchemaFactory t js = JsonSchemaWithWorkspaces js"

definition FeaturesAwareSchemaFactory :: "resource_type \<Rightarrow> string \<Rightarrow> schema" where
  "FeaturesAwareSchemaFactory t js =
     (if t = ''service'' then JsonSchemaWithRelations js serviceRelations
      else if t = ''billing_account'' then JsonSchemaWithRelations js billingAccountRelations
      else JsonSchemaWithWorkspaces js)"

section \<open>The contract of tuple calculation\<close>

text \<open>
  \<open>rels ro key\<close> is the set of tuples a representation stands for (none for a missing one).
  The contract: calculation never fails, creates exactly the tuples that are new and deletes
  exactly those that are gone. The client lemmas say what replaying the result does to a set
  of stored tuples, and when it is a no-op.
\<close>

definition replay :: "tuples_to_replicate \<Rightarrow> relations_tuple set \<Rightarrow> relations_tuple set" where
  "replay t S = (S - set (deletes t)) \<union> set (creates t)"

definition wf_ttr :: "tuples_to_replicate \<Rightarrow> bool" where
  "wf_ttr t \<longleftrightarrow> ttr_tuplesToCreate t \<noteq> Some [] \<and> ttr_tuplesToDelete t \<noteq> Some []"

lemma ttr_IsEmpty_iff: "ttr_IsEmpty t \<longleftrightarrow> creates t = [] \<and> deletes t = []"
  by (auto simp: ttr_IsEmpty_def Let_def creates_def deletes_def split: option.splits)

lemma wf_ttr_None: "wf_ttr t \<Longrightarrow> ttr_tuplesToCreate t = None \<longleftrightarrow> creates t = []"
  "wf_ttr t \<Longrightarrow> ttr_tuplesToDelete t = None \<longleftrightarrow> deletes t = []"
  by (auto simp: wf_ttr_def creates_def deletes_def split: option.splits)

lemma wf_ttr_Some: "wf_ttr t \<Longrightarrow> creates t \<noteq> [] \<Longrightarrow> ttr_tuplesToCreate t = Some (creates t)"
  "wf_ttr t \<Longrightarrow> deletes t \<noteq> [] \<Longrightarrow> ttr_tuplesToDelete t = Some (deletes t)"
  by (auto simp: wf_ttr_def creates_def deletes_def split: option.splits)

locale tuple_schema =
  fixes calc :: "representations option \<Rightarrow> representations option \<Rightarrow> reporter_resource_key \<Rightarrow> tuples_to_replicate result"
    and rels :: "representations option \<Rightarrow> reporter_resource_key \<Rightarrow> relations_tuple set"
  assumes calc_total: "\<exists>t. calc current previous key = Inr t"
    and calc_creates: "calc current previous key = Inr t \<Longrightarrow> set (creates t) = rels current key - rels previous key"
    and calc_deletes: "calc current previous key = Inr t \<Longrightarrow> set (deletes t) = rels previous key - rels current key"
    and calc_wf: "calc current previous key = Inr t \<Longrightarrow> wf_ttr t"
    and rels_nil: "rels None key = {}"
begin

lemma calc_replay:
  assumes "calc current previous key = Inr t" "rels previous key \<subseteq> S"
  shows "replay t S = (S - rels previous key) \<union> rels current key"
  using assms(2) calc_creates [OF assms(1)] calc_deletes [OF assms(1)] by (auto simp: replay_def)

lemma calc_exact:
  assumes "calc current previous key = Inr t"
  shows "replay t (rels previous key) = rels current key"
  using calc_replay [OF assms, of "rels previous key"] by simp

lemma calc_noop_iff:
  assumes "calc current previous key = Inr t"
  shows "ttr_IsEmpty t \<longleftrightarrow> rels current key = rels previous key"
proof -
  have "ttr_IsEmpty t \<longleftrightarrow> set (creates t) = {} \<and> set (deletes t) = {}"
    by (simp add: ttr_IsEmpty_iff)
  then show ?thesis using calc_creates [OF assms] calc_deletes [OF assms] by auto
qed

lemma calc_disjoint:
  "calc current previous key = Inr t \<Longrightarrow> set (creates t) \<inter> set (deletes t) = {}"
  using calc_creates calc_deletes by auto

lemma calc_delete_only:
  assumes "calc None previous key = Inr t" "\<not> ttr_IsEmpty t"
  shows "\<exists>ds. ttr_tuplesToDelete t = Some ds \<and> set ds = rels previous key" "ttr_tuplesToCreate t = None"
proof -
  have "creates t = []" "set (deletes t) = rels previous key"
    using calc_creates [OF assms(1)] calc_deletes [OF assms(1)] rels_nil by auto
  then show "ttr_tuplesToCreate t = None" "\<exists>ds. ttr_tuplesToDelete t = Some ds \<and> set ds = rels previous key"
    using assms(2) calc_wf [OF assms(1)] by (auto simp: ttr_IsEmpty_iff wf_ttr_None wf_ttr_Some)
qed

lemma calc_create_only:
  assumes "calc current None key = Inr t" "\<not> ttr_IsEmpty t"
  shows "\<exists>cs. ttr_tuplesToCreate t = Some cs \<and> set cs = rels current key" "ttr_tuplesToDelete t = None"
proof -
  have "deletes t = []" "set (creates t) = rels current key"
    using calc_creates [OF assms(1)] calc_deletes [OF assms(1)] rels_nil by auto
  then show "ttr_tuplesToDelete t = None" "\<exists>cs. ttr_tuplesToCreate t = Some cs \<and> set cs = rels current key"
    using assms(2) calc_wf [OF assms(1)] by (auto simp: ttr_IsEmpty_iff wf_ttr_None wf_ttr_Some)
qed

end

text \<open>The workspace schemas.\<close>

definition workspace_of :: "representations option \<Rightarrow> string" where
  "workspace_of ro = (case ro of None \<Rightarrow> [] | Some r \<Rightarrow> WorkspaceID r)"

definition workspace_tuples :: "representations option \<Rightarrow> reporter_resource_key \<Rightarrow> relations_tuple set" where
  "workspace_tuples ro key =
     (if workspace_of ro = [] then {} else {NewWorkspaceRelationsTuple (workspace_of ro) key})"

lemma NewWorkspaceRelationsTuple_inj [simp]:
  "NewWorkspaceRelationsTuple w key = NewWorkspaceRelationsTuple w' key \<longleftrightarrow> w = w'"
  by (simp add: NewWorkspaceRelationsTuple_def NewRelationTupleForSubject_inj)

lemma DefaultSchema_CalculateTuples_eq:
  "DefaultSchema_CalculateTuples current previous key =
     (let c = workspace_of current; p = workspace_of previous in
      if p \<noteq> [] \<and> p = c then Inr zero_tuples_to_replicate
      else NewTuplesToReplicate (if c \<noteq> [] then [NewWorkspaceRelationsTuple c key] else [])
             (if p \<noteq> [] then [NewWorkspaceRelationsTuple p key] else []))"
  by (simp add: DefaultSchema_CalculateTuples_def workspace_of_def Let_def)

interpretation default_schema: tuple_schema DefaultSchema_CalculateTuples workspace_tuples
  by unfold_locales
    (auto simp: DefaultSchema_CalculateTuples_eq Let_def NewTuplesToReplicate_def zero_tuples_to_replicate_def
      workspace_tuples_def wf_ttr_def workspace_of_def [of None] creates_def deletes_def split: if_splits)

text \<open>The relation-definition schemas: relation names are distinct, so that the tuples of
  different definitions never meet.\<close>

definition def_tuples :: "relation_def \<Rightarrow> representations option \<Rightarrow> reporter_resource_key \<Rightarrow> relations_tuple set" where
  "def_tuples rel ro key = NewRelationTupleForSubject key (rd_relationName rel) (rd_subjectNamespace rel)
     (rd_subjectResourceType rel) ` set (relation_values rel ro)"

definition defs_tuples :: "relation_def list \<Rightarrow> representations option \<Rightarrow> reporter_resource_key \<Rightarrow> relations_tuple set" where
  "defs_tuples relations ro key = (\<Union>rel \<in> set relations. def_tuples rel ro key)"

lemma DiffRelationValues_set:
  assumes "DiffRelationValues key rel ns t cur prev = (cs, ds)"
  shows "set cs = NewRelationTupleForSubject key rel ns t ` (set cur - set prev)"
    and "set ds = NewRelationTupleForSubject key rel ns t ` (set prev - set cur)"
    and "distinct cs" and "distinct ds"
  using assms by (auto simp: DiffRelationValues_def distinct_map inj_on_def NewRelationTupleForSubject_inj)

lemma relation_defs_loop_sets:
  "relation_defs_loop rels current previous key accC accD = (cs, ds) \<Longrightarrow>
   set cs = set accC \<union> (\<Union>rel \<in> set rels. def_tuples rel current key - def_tuples rel previous key) \<and>
   set ds = set accD \<union> (\<Union>rel \<in> set rels. def_tuples rel previous key - def_tuples rel current key)"
proof (induction rels current previous key accC accD rule: relation_defs_loop.induct)
  case (2 rel rels current previous key accC accD)
  obtain c1 d1 where d: "DiffRelationValues key (rd_relationName rel) (rd_subjectNamespace rel)
      (rd_subjectResourceType rel) (relation_values rel current) (relation_values rel previous) = (c1, d1)"
    by fastforce
  have "set c1 = def_tuples rel current key - def_tuples rel previous key"
    "set d1 = def_tuples rel previous key - def_tuples rel current key"
    using DiffRelationValues_set(1,2) [OF d]
    by (auto simp: def_tuples_def NewRelationTupleForSubject_inj)
  with 2 d show ?case by auto
qed simp

lemma def_tuples_relation: "t \<in> def_tuples rel ro key \<Longrightarrow> rt_relation t = rd_relationName rel"
  by (auto simp: def_tuples_def)

lemma defs_tuples_diff:
  assumes "distinct (map rd_relationName relations)"
  shows "(\<Union>rel \<in> set relations. def_tuples rel a key - def_tuples rel b key) =
    defs_tuples relations a key - defs_tuples relations b key"
proof -
  have "rel = rel'" if "rel \<in> set relations" "rel' \<in> set relations" "t \<in> def_tuples rel a key"
      "t \<in> def_tuples rel' b key" for rel rel' t
    using assms that def_tuples_relation by (metis distinct_map inj_on_def)
  then show ?thesis by (fastforce simp: defs_tuples_def)
qed

lemma CalculateTuplesFromRelationDefs_sets:
  assumes "distinct (map rd_relationName relations)"
    and "CalculateTuplesFromRelationDefs relations current previous key = Inr t"
  shows "set (creates t) = defs_tuples relations current key - defs_tuples relations previous key"
    and "set (deletes t) = defs_tuples relations previous key - defs_tuples relations current key"
proof -
  obtain cs ds where l: "relation_defs_loop relations current previous key [] [] = (cs, ds)" by fastforce
  have t: "NewTuplesToReplicate cs ds = Inr t"
    using assms(2) l by (simp add: CalculateTuplesFromRelationDefs_def)
  show "set (creates t) = defs_tuples relations current key - defs_tuples relations previous key"
    "set (deletes t) = defs_tuples relations previous key - defs_tuples relations current key"
    using relation_defs_loop_sets [OF l] NewTuplesToReplicate_lists [OF t] defs_tuples_diff [OF assms(1)]
    by simp_all
qed

lemma CalculateTuplesFromRelationDefs_total:
  "\<exists>t. CalculateTuplesFromRelationDefs relations current previous key = Inr t \<and> wf_ttr t"
  by (auto simp: CalculateTuplesFromRelationDefs_def NewTuplesToReplicate_def wf_ttr_def split: prod.splits)

lemma relation_values_None [simp]: "relation_values rel None = []"
  by (simp add: relation_values_def StringSliceField_def StringField_def)

lemma relation_schema:
  assumes "distinct (map rd_relationName relations)"
  shows "tuple_schema (CalculateTuplesFromRelationDefs relations) (defs_tuples relations)"
proof
  fix current previous key
  obtain t where t: "CalculateTuplesFromRelationDefs relations current previous key = Inr t" "wf_ttr t"
    using CalculateTuplesFromRelationDefs_total by blast
  show "\<exists>t. CalculateTuplesFromRelationDefs relations current previous key = Inr t" using t(1) by blast
  show "wf_ttr t'" if "CalculateTuplesFromRelationDefs relations current previous key = Inr t'" for t'
    using that t by simp
qed (use CalculateTuplesFromRelationDefs_sets [OF assms] in
      \<open>simp_all add: defs_tuples_def def_tuples_def\<close>)

interpretation service_schema:
  tuple_schema "CalculateTuplesFromRelationDefs serviceRelations" "defs_tuples serviceRelations"
  by (rule relation_schema) (simp add: serviceRelations_def)

interpretation billing_schema:
  tuple_schema "CalculateTuplesFromRelationDefs billingAccountRelations" "defs_tuples billingAccountRelations"
  by (rule relation_schema) (simp add: billingAccountRelations_def)

definition schema_tuples :: "schema \<Rightarrow> representations option \<Rightarrow> reporter_resource_key \<Rightarrow> relations_tuple set" where
  "schema_tuples s = (case s of
     JsonSchemaWithRelations _ rels \<Rightarrow> defs_tuples rels | _ \<Rightarrow> workspace_tuples)"

lemma factory_schema:
  assumes "s = FeaturesAwareSchemaFactory rt js \<or> s = DefaultSchemaFactory rt js \<or> s = DefaultSchema"
  shows "tuple_schema (Schema_CalculateTuples s) (schema_tuples s)"
proof -
  have c: "Schema_CalculateTuples s = (case s of
     JsonSchemaWithRelations _ rels \<Rightarrow> CalculateTuplesFromRelationDefs rels | _ \<Rightarrow> DefaultSchema_CalculateTuples)"
    by (intro ext) (simp add: Schema_CalculateTuples_def split: schema.splits)
  show ?thesis
    unfolding c schema_tuples_def
    using assms default_schema.tuple_schema_axioms service_schema.tuple_schema_axioms
      billing_schema.tuple_schema_axioms
    by (auto simp: FeaturesAwareSchemaFactory_def DefaultSchemaFactory_def split: if_splits)
qed

text \<open>C36. Tuple calculation, whichever schema a factory builds. The schema of a resource type
  (workspace tuples, or the relation tables of the feature types) always yields a result; the tuples to
  create and to delete are disjoint; replaying them on a store that holds the previous
  representation's tuples gives the store with exactly the current ones in their place and
  leaves every other tuple alone; and the result is empty exactly when nothing changed.\<close>

theorem CalculateTuples_contract:
  assumes "s = FeaturesAwareSchemaFactory rt js \<or> s = DefaultSchemaFactory rt js \<or> s = DefaultSchema"
  shows "\<exists>t. Schema_CalculateTuples s current previous key = Inr t \<and>
    set (creates t) \<inter> set (deletes t) = {} \<and>
    (ttr_IsEmpty t \<longleftrightarrow> schema_tuples s current key = schema_tuples s previous key) \<and>
    (\<forall>S. schema_tuples s previous key \<subseteq> S \<longrightarrow>
       replay t S = (S - schema_tuples s previous key) \<union> schema_tuples s current key)"
  using tuple_schema.calc_total [OF factory_schema [OF assms]] tuple_schema.calc_disjoint [OF factory_schema [OF assms]]
    tuple_schema.calc_noop_iff [OF factory_schema [OF assms]] tuple_schema.calc_replay [OF factory_schema [OF assms]]
  by meson

definition sample_reps :: "json \<Rightarrow> representations" where
  "sample_reps j = \<lparr>reps_commonData = Some [(''workspace_id'', JStr ''w1''), (''parent'', j)],
     reps_commonVersion = Some 1, reps_reporterData = None, reps_reporterRepresentationVersion = None\<rparr>"

definition sample_service_key :: reporter_resource_key where
  "sample_service_key = \<lparr>rrk_localResourceID = ''s1'', rrk_resourceType = ''service'',
     rrk_reporter = \<lparr>rid_reporterType = ''features'', rid_reporterInstanceId = ''i''\<rparr>\<rparr>"

theorem CalculateTuples_contract_witness:
  "\<exists>t. Schema_CalculateTuples (FeaturesAwareSchemaFactory ''service'' []) (Some (sample_reps (JStr ''p2'')))
      (Some (sample_reps (JStr ''p1''))) sample_service_key = Inr t \<and> \<not> ttr_IsEmpty t"
proof -
  have "schema_tuples (FeaturesAwareSchemaFactory ''service'' []) (Some (sample_reps (JStr ''p2''))) sample_service_key
    \<noteq> schema_tuples (FeaturesAwareSchemaFactory ''service'' []) (Some (sample_reps (JStr ''p1''))) sample_service_key"
    by code_simp
  with CalculateTuples_contract [of "FeaturesAwareSchemaFactory ''service'' []" "''service''" "[]"
      "Some (sample_reps (JStr ''p2''))" "Some (sample_reps (JStr ''p1''))" sample_service_key]
  show ?thesis by auto
qed

section \<open>Tuple events (\<open>tuple_event.go\<close>)\<close>

record tuple_event =
  te_reporterResourceKey :: reporter_resource_key
  te_commonVersion :: "version option"
  te_reporterRepresentationVersion :: "version option"

definition zero_key :: reporter_resource_key where
  "zero_key = \<lparr>rrk_localResourceID = [], rrk_resourceType = [], rrk_reporter = zero_reporter_id\<rparr>"

definition NewTupleEvent ::
    "reporter_resource_key \<Rightarrow> version option \<Rightarrow> version option \<Rightarrow> tuple_event result" where
  "NewTupleEvent key cv rv =
     (if key = zero_key then Err (Wrap ''reporterResourceKey'' (Sentinel ErrEmpty))
      else if cv = None \<and> rv = None
      then Err (Errorf ''at least one version (commonVersion or reporterRepresentationVersion) must be present'')
      else Ok \<lparr>te_reporterResourceKey = key, te_commonVersion = cv, te_reporterRepresentationVersion = rv\<rparr>)"

definition json_version :: "version option \<Rightarrow> string \<Rightarrow> json_object" where
  "json_version v k = (case v of None \<Rightarrow> [] | Some w \<Rightarrow> [(k, JNum (Word.uint w))])"

text \<open>\<open>encoding/json\<close> decodes a number into a \<open>uint\<close> only when it is in range.\<close>

definition json_version_field :: "json_object \<Rightarrow> string \<Rightarrow> version option result" where
  "json_version_field o1 k =
     (case map_of o1 k of
        None \<Rightarrow> Ok None | Some JNull \<Rightarrow> Ok None
      | Some (JNum n) \<Rightarrow> if 0 \<le> n \<and> n < 2 ^ 64 then Ok (Some (word_of_int n))
                         else Err (Errorf ''json: cannot unmarshal number into uint'')
      | Some _ \<Rightarrow> Err (Errorf ''json: cannot unmarshal into uint''))"

definition TupleEvent_MarshalJSON :: "tuple_event \<Rightarrow> json" where
  "TupleEvent_MarshalJSON te =
     JObj ((''reporter_resource_key'', ReporterResourceKey_MarshalJSON (te_reporterResourceKey te))
           # json_version (te_commonVersion te) ''common_version''
           @ json_version (te_reporterRepresentationVersion te) ''reporter_representation_version'')"

definition TupleEvent_UnmarshalJSON :: "json \<Rightarrow> tuple_event result" where
  "TupleEvent_UnmarshalJSON j =
     (case j of
        JObj o1 \<Rightarrow>
          bind_res (case map_of o1 ''reporter_resource_key'' of
                      None \<Rightarrow> Ok zero_key | Some k \<Rightarrow> ReporterResourceKey_UnmarshalJSON k) (\<lambda>key.
          bind_res (json_version_field o1 ''common_version'') (\<lambda>cv.
          bind_res (json_version_field o1 ''reporter_representation_version'') (\<lambda>rv.
          Ok \<lparr>te_reporterResourceKey = key, te_commonVersion = cv, te_reporterRepresentationVersion = rv\<rparr>)))
      | JNull \<Rightarrow> Ok \<lparr>te_reporterResourceKey = zero_key, te_commonVersion = None,
                     te_reporterRepresentationVersion = None\<rparr>
      | _ \<Rightarrow> Err (Errorf ''json: cannot unmarshal''))"

section \<open>Tuple filters (\<open>tuple_filter.go\<close>)\<close>

record tuple_subject_filter =
  sf_subjectType :: "resource_type option"
  sf_reporterType :: "reporter_type option"
  sf_subjectId :: "local_resource_id option"
  sf_relation :: "relation option"

record tuple_filter =
  tf_objectType :: "resource_type option"
  tf_reporterType :: "reporter_type option"
  tf_objectId :: "local_resource_id option"
  tf_relation :: "relation option"
  tf_subject :: "tuple_subject_filter option"

definition NewTupleFilter :: tuple_filter where
  "NewTupleFilter = \<lparr>tf_objectType = None, tf_reporterType = None, tf_objectId = None, tf_relation = None, tf_subject = None\<rparr>"

definition NewTupleSubjectFilter :: tuple_subject_filter where
  "NewTupleSubjectFilter = \<lparr>sf_subjectType = None, sf_reporterType = None, sf_subjectId = None, sf_relation = None\<rparr>"

definition TupleFilter_WithObjectType :: "resource_type \<Rightarrow> tuple_filter \<Rightarrow> tuple_filter" where
  "TupleFilter_WithObjectType t f = f\<lparr>tf_objectType := Some t\<rparr>"
definition TupleFilter_WithReporterType :: "reporter_type \<Rightarrow> tuple_filter \<Rightarrow> tuple_filter" where
  "TupleFilter_WithReporterType t f = f\<lparr>tf_reporterType := Some t\<rparr>"
definition TupleFilter_WithObjectId :: "local_resource_id \<Rightarrow> tuple_filter \<Rightarrow> tuple_filter" where
  "TupleFilter_WithObjectId i f = f\<lparr>tf_objectId := Some i\<rparr>"
definition TupleFilter_WithRelation :: "relation \<Rightarrow> tuple_filter \<Rightarrow> tuple_filter" where
  "TupleFilter_WithRelation r f = f\<lparr>tf_relation := Some r\<rparr>"
definition TupleFilter_WithSubject :: "tuple_subject_filter \<Rightarrow> tuple_filter \<Rightarrow> tuple_filter" where
  "TupleFilter_WithSubject s f = f\<lparr>tf_subject := Some s\<rparr>"
definition SubjectFilter_WithSubjectType :: "resource_type \<Rightarrow> tuple_subject_filter \<Rightarrow> tuple_subject_filter" where
  "SubjectFilter_WithSubjectType t f = f\<lparr>sf_subjectType := Some t\<rparr>"
definition SubjectFilter_WithReporterType :: "reporter_type \<Rightarrow> tuple_subject_filter \<Rightarrow> tuple_subject_filter" where
  "SubjectFilter_WithReporterType t f = f\<lparr>sf_reporterType := Some t\<rparr>"
definition SubjectFilter_WithSubjectId :: "local_resource_id \<Rightarrow> tuple_subject_filter \<Rightarrow> tuple_subject_filter" where
  "SubjectFilter_WithSubjectId i f = f\<lparr>sf_subjectId := Some i\<rparr>"
definition SubjectFilter_WithRelation :: "relation \<Rightarrow> tuple_subject_filter \<Rightarrow> tuple_subject_filter" where
  "SubjectFilter_WithRelation r f = f\<lparr>sf_relation := Some r\<rparr>"

text \<open>Message codec. Decoding the JSON form of a tuple event gives the event back: the key and
  both versions, at their full 64 bits, and an absent version stays absent. On its way the event also passes through
  \<open>map[string]interface{}\<close>, where its versions are floats: it is unchanged when they are below \<open>2 ^ 53\<close>.\<close>

definition exact_version :: "version option \<Rightarrow> bool" where
  "exact_version vo \<longleftrightarrow> (case vo of None \<Rightarrow> True | Some v \<Rightarrow> Word.uint v < 2 ^ 53)"

lemma exact_version_simps [simp]: "exact_version None" "exact_version (Some v) \<longleftrightarrow> Word.uint v < 2 ^ 53"
  by (simp_all add: exact_version_def)

lemma json_version_floats: "exact_version v \<Longrightarrow> map (map_prod id json_floats) (json_version v k) = json_version v k"
  by (simp add: json_version_def exact_version_def float_json_small split: option.splits)

lemma TupleEvent_floats:
  assumes "exact_version (te_commonVersion te)" "exact_version (te_reporterRepresentationVersion te)"
  shows "json_floats (TupleEvent_MarshalJSON te) = TupleEvent_MarshalJSON te"
  using assms by (simp add: TupleEvent_MarshalJSON_def json_version_floats ReporterResourceKey_MarshalJSON_def split: prod.split)

lemma TupleEvent_json_roundtrip:
  "TupleEvent_UnmarshalJSON (TupleEvent_MarshalJSON te) = Ok te"
proof -
  have n: "0 \<le> Word.uint v \<and> Word.uint v < 2 ^ 64" for v :: version
    using uint_bounded [of v] by simp
  show ?thesis
    using n
    by (cases te) (auto simp: TupleEvent_UnmarshalJSON_def TupleEvent_MarshalJSON_def json_version_def
        json_version_field_def split: option.splits)
qed

end
