(* ===== verification/Relations_Repo.thy ===== *)
theory Relations_Repo
  imports Relations_Tuples "HOL-Library.Product_Lexorder"
begin

text \<open>
  The relations repository: the interface \<open>RelationsRepository\<close> with its request and result types
  (\<open>internal/biz/model\<close>), the in-memory implementation of \<open>internal/data/relations_simple.go\<close> with
  its versioned snapshots, and the allow-all implementation. An implementation is a record of
  operations on its state; the locale \<open>relations_store\<close> states what its clients rely on.
\<close>

section \<open>Requests and results\<close>

record relationship =
  rl_object :: resource_reference
  rl_relation :: relation
  rl_subject :: subject_reference

definition NewRelationship :: "resource_reference \<Rightarrow> relation \<Rightarrow> subject_reference \<Rightarrow> relationship" where
  "NewRelationship ob rel sub = \<lparr>rl_object = ob, rl_relation = rel, rl_subject = sub\<rparr>"

record check_result =
  chk_allowed :: bool
  chk_consistencyToken :: consistency_token

record check_bulk_result_item =
  cbi_allowed :: bool
  cbi_err :: "go_error option"
  cbi_errorCode :: int

record check_bulk_result_pair =
  cbp_request :: relationship
  cbp_result :: check_bulk_result_item

record check_bulk_result =
  cbr_pairs :: "check_bulk_result_pair list"
  cbr_consistencyToken :: consistency_token

definition NewCheckResult :: "bool \<Rightarrow> consistency_token \<Rightarrow> check_result" where
  "NewCheckResult allowed token = \<lparr>chk_allowed = allowed, chk_consistencyToken = token\<rparr>"

definition NewCheckBulkResultItem :: "bool \<Rightarrow> go_error option \<Rightarrow> int \<Rightarrow> check_bulk_result_item" where
  "NewCheckBulkResultItem allowed err code = \<lparr>cbi_allowed = allowed, cbi_err = err, cbi_errorCode = code\<rparr>"

definition NewCheckBulkResultPair :: "relationship \<Rightarrow> check_bulk_result_item \<Rightarrow> check_bulk_result_pair" where
  "NewCheckBulkResultPair req res = \<lparr>cbp_request = req, cbp_result = res\<rparr>"

definition NewCheckBulkResult :: "check_bulk_result_pair list \<Rightarrow> consistency_token \<Rightarrow> check_bulk_result" where
  "NewCheckBulkResult pairs token = \<lparr>cbr_pairs = pairs, cbr_consistencyToken = token\<rparr>"

record fencing_check =
  fc_lockId :: lock_id
  fc_lockToken :: lock_token

definition NewFencingCheck :: "lock_id \<Rightarrow> lock_token \<Rightarrow> fencing_check" where
  "NewFencingCheck i t = \<lparr>fc_lockId = i, fc_lockToken = t\<rparr>"

record pagination =
  pg_Limit :: "32 word"
  pg_Continuation :: "continuation_token option"

record representation_type =
  rpt_resourceType :: resource_type
  rpt_reporterType :: "reporter_type option"

record lookup_objects_item =
  loi_object :: resource_reference
  loi_continuationToken :: continuation_token

record lookup_subjects_item =
  lsi_subject :: subject_reference
  lsi_continuationToken :: continuation_token

record read_tuples_item =
  rti_object :: resource_reference
  rti_relation :: relation
  rti_subject :: subject_reference
  rti_continuationToken :: continuation_token
  rti_consistencyToken :: consistency_token

text \<open>A result stream that has been read to \<open>io.EOF\<close> is the list of its items.\<close>

record 's relations_repository =
  ro_Check :: "relationship \<Rightarrow> consistency \<Rightarrow> 's \<Rightarrow> check_result result"
  ro_CheckForUpdate :: "relationship \<Rightarrow> 's \<Rightarrow> check_result result"
  ro_CheckBulk :: "relationship list \<Rightarrow> consistency option \<Rightarrow> 's \<Rightarrow> check_bulk_result result"
  ro_CheckForUpdateBulk :: "relationship list \<Rightarrow> 's \<Rightarrow> check_bulk_result result"
  ro_LookupObjects :: "representation_type \<Rightarrow> relation \<Rightarrow> subject_reference \<Rightarrow> pagination option \<Rightarrow> consistency option \<Rightarrow> 's \<Rightarrow>
    lookup_objects_item list result"
  ro_LookupSubjects :: "resource_reference \<Rightarrow> relation \<Rightarrow> representation_type \<Rightarrow> relation option \<Rightarrow> pagination option \<Rightarrow>
    consistency option \<Rightarrow> 's \<Rightarrow> lookup_subjects_item list result"
  ro_CreateTuples :: "relations_tuple list \<Rightarrow> bool \<Rightarrow> fencing_check option \<Rightarrow> 's \<Rightarrow> consistency_token result \<times> 's"
  ro_DeleteTuples :: "tuple_filter \<Rightarrow> fencing_check option \<Rightarrow> 's \<Rightarrow> consistency_token result \<times> 's"
  ro_ReadTuples :: "tuple_filter \<Rightarrow> pagination option \<Rightarrow> consistency option \<Rightarrow> 's \<Rightarrow> read_tuples_item list result"
  ro_AcquireLock :: "lock_id \<Rightarrow> 's \<Rightarrow> lock_token result \<times> 's"

section \<open>Decimal numbers (\<open>strconv\<close>)\<close>

definition digit_char :: "nat \<Rightarrow> char" where "digit_char n = char_of (48 + n)"

fun nat_digits :: "nat \<Rightarrow> string" where
  "nat_digits n = (if n < 10 then [digit_char n] else nat_digits (n div 10) @ [digit_char (n mod 10)])"

declare nat_digits.simps [simp del]

definition FormatInt :: "int \<Rightarrow> string" where
  "FormatInt v = (if v < 0 then CHR ''-'' # nat_digits (nat (- v)) else nat_digits (nat v))"

definition is_digit :: "char \<Rightarrow> bool" where
  "is_digit c \<longleftrightarrow> 48 \<le> (of_char c :: nat) \<and> (of_char c :: nat) \<le> 57"

definition digits_value :: "string \<Rightarrow> nat" where
  "digits_value s = foldl (\<lambda>a c. 10 * a + (of_char c - 48)) 0 s"

definition ParseInt :: "string \<Rightarrow> int result" where
  "ParseInt s =
     (let (neg, ds) = (case s of [] \<Rightarrow> (False, [])
                       | c # cs \<Rightarrow> if c = CHR ''-'' then (True, cs) else if c = CHR ''+'' then (False, cs) else (False, s))
      in if ds = [] \<or> \<not> list_all is_digit ds then Err (Errorf ''strconv.ParseInt: invalid syntax'')
         else (let v = (if neg then - int (digits_value ds) else int (digits_value ds)) in
               if - (2 ^ 63) \<le> v \<and> v < 2 ^ 63 then Ok v else Err (Errorf ''strconv.ParseInt: value out of range'')))"

lemma digits_value_snoc [simp]: "digits_value (s @ [c]) = 10 * digits_value s + (of_char c - 48)"
  by (simp add: digits_value_def)

lemma digit_char_value [simp]: "n < 10 \<Longrightarrow> (of_char (digit_char n) :: nat) = 48 + n"
  by (simp add: digit_char_def)

lemma digit_char_is_digit [simp]: "n < 10 \<Longrightarrow> is_digit (digit_char n)"
  by (simp add: is_digit_def)

lemma nat_digits_parse: "digits_value (nat_digits n) = n \<and> list_all is_digit (nat_digits n) \<and> nat_digits n \<noteq> []"
proof (induction n rule: nat_digits.induct)
  case (1 n)
  show ?case
  proof (cases "n < 10")
    case True
    then show ?thesis by (subst (1 2 3) nat_digits.simps) (simp add: digits_value_def)
  next
    case False
    with 1 show ?thesis
      by (subst (1 2 3) nat_digits.simps) simp
  qed
qed

lemma nat_digits_hd: "is_digit (hd (nat_digits n))"
  using nat_digits_parse [of n] by (cases "nat_digits n") auto

lemma ParseInt_FormatInt: "0 \<le> v \<Longrightarrow> v < 2 ^ 63 \<Longrightarrow> ParseInt (FormatInt v) = Ok v"
proof -
  assume v: "0 \<le> v" "v < 2 ^ 63"
  obtain c cs where c: "nat_digits (nat v) = c # cs" using nat_digits_parse [of "nat v"] by (cases "nat_digits (nat v)") auto
  have "c \<noteq> CHR ''-''" "c \<noteq> CHR ''+''" using nat_digits_hd [of "nat v"] c by (auto simp: is_digit_def)
  with v c nat_digits_parse [of "nat v"] show ?thesis by (simp add: ParseInt_def FormatInt_def)
qed

lemma FormatInt_nonempty [simp]: "FormatInt v \<noteq> []"
  using nat_digits_parse [of "nat v"] by (simp add: FormatInt_def)

section \<open>The in-memory repository (\<open>relations_simple.go\<close>)\<close>

record simpleTupleKey =
  stk_ResourceNamespace :: string
  stk_ResourceType :: string
  stk_ResourceID :: string
  stk_Relation :: string
  stk_SubjectNamespace :: string
  stk_SubjectType :: string
  stk_SubjectID :: string

text \<open>The Go map \<open>map[simpleTupleKey]bool\<close> only ever holds \<open>true\<close>: it is the list of its keys.\<close>

record simple_relations_repository =
  sr_version :: int
  sr_tuples :: "simpleTupleKey list"
  sr_snapshots :: "(int \<times> simpleTupleKey list) list"
  sr_createTuplesError :: "go_error option"
  sr_deleteTuplesError :: "go_error option"
  sr_acquireLockError :: "go_error option"
  sr_locks :: "(string \<times> string) list"

definition NewSimpleRelationsRepository :: simple_relations_repository where
  "NewSimpleRelationsRepository =
     \<lparr>sr_version = 1, sr_tuples = [], sr_snapshots = [], sr_createTuplesError = None, sr_deleteTuplesError = None,
      sr_acquireLockError = None, sr_locks = []\<rparr>"

definition RetainCurrentSnapshot :: "simple_relations_repository \<Rightarrow> simple_relations_repository" where
  "RetainCurrentSnapshot s = s\<lparr>sr_snapshots := AList.update (sr_version s) (sr_tuples s) (sr_snapshots s)\<rparr>"

definition ReleaseSnapshot :: "int \<Rightarrow> simple_relations_repository \<Rightarrow> simple_relations_repository" where
  "ReleaseSnapshot v s = s\<lparr>sr_snapshots := AList.delete v (sr_snapshots s)\<rparr>"

definition ClearSnapshots :: "simple_relations_repository \<Rightarrow> simple_relations_repository" where
  "ClearSnapshots s = s\<lparr>sr_snapshots := []\<rparr>"

definition advanceVersion :: "simple_relations_repository \<Rightarrow> simple_relations_repository" where
  "advanceVersion s = s\<lparr>sr_version := (if sr_version s = 2 ^ 63 - 1 then - (2 ^ 63) else sr_version s + 1)\<rparr>"

definition simpleFormatConsistencyToken :: "int \<Rightarrow> string" where
  "simpleFormatConsistencyToken v = FormatInt v"

definition simpleParseConsistencyToken :: "string \<Rightarrow> int result" where
  "simpleParseConsistencyToken token = ParseInt token"

text \<open>\<open>slices.BinarySearch\<close> returns the first index whose element is not below the target.\<close>

definition getTuplesForToken :: "string \<Rightarrow> simple_relations_repository \<Rightarrow> simpleTupleKey list" where
  "getTuplesForToken token s =
     (let requested = (if token \<noteq> [] then (case simpleParseConsistencyToken token of Inr p \<Rightarrow> p | Inl _ \<Rightarrow> 0) else 0);
          versions = sort (map fst (sr_snapshots s) @ [sr_version s]);
          idx = length (takeWhile (\<lambda>v. v < requested) versions)
      in if idx < length versions
         then (let v = versions ! idx in
               if v = sr_version s then sr_tuples s
               else (case map_of (sr_snapshots s) v of Some t \<Rightarrow> t | None \<Rightarrow> []))
         else sr_tuples s)"

definition Grant :: "string \<Rightarrow> string \<Rightarrow> string \<Rightarrow> string \<Rightarrow> string \<Rightarrow> simple_relations_repository \<Rightarrow> simple_relations_repository" where
  "Grant subjectID relation namespace resourceType resourceID s =
     advanceVersion (s\<lparr>sr_tuples := List.insert \<lparr>stk_ResourceNamespace = namespace, stk_ResourceType = resourceType,
       stk_ResourceID = resourceID, stk_Relation = relation, stk_SubjectNamespace = ''rbac'', stk_SubjectType = ''principal'',
       stk_SubjectID = subjectID\<rparr> (sr_tuples s)\<rparr>)"

definition simpleResourceRefFields :: "resource_reference \<Rightarrow> string \<times> string \<times> string" where
  "simpleResourceRefFields ref =
     (case oref_reporter ref of None \<Rightarrow> [] | Some r \<Rightarrow> SerializeString (rref_reporterType r),
      SerializeString (oref_resourceType ref), SerializeString (oref_resourceId ref))"

definition simpleHasTupleInSnapshot ::
    "simpleTupleKey list \<Rightarrow> string \<Rightarrow> string \<Rightarrow> string \<Rightarrow> string \<Rightarrow> string \<Rightarrow> string \<Rightarrow> string \<Rightarrow> bool" where
  "simpleHasTupleInSnapshot tuples rns rt rid rel sns st sid =
     (\<lparr>stk_ResourceNamespace = rns, stk_ResourceType = rt, stk_ResourceID = rid, stk_Relation = rel,
       stk_SubjectNamespace = sns, stk_SubjectType = st, stk_SubjectID = sid\<rparr> \<in> set tuples)"

definition simpleTupleKeyFromModelTuple :: "relations_tuple \<Rightarrow> simpleTupleKey" where
  "simpleTupleKeyFromModelTuple tuple =
     (let obj = rt_object tuple; sub = sref_resource (rt_subject tuple) in
      \<lparr>stk_ResourceNamespace = (case oref_reporter obj of None \<Rightarrow> [] | Some r \<Rightarrow> SerializeString (rref_reporterType r)),
       stk_ResourceType = SerializeString (oref_resourceType obj), stk_ResourceID = SerializeString (oref_resourceId obj),
       stk_Relation = SerializeString (rt_relation tuple),
       stk_SubjectNamespace = (case oref_reporter sub of None \<Rightarrow> [] | Some r \<Rightarrow> SerializeString (rref_reporterType r)),
       stk_SubjectType = SerializeString (oref_resourceType sub), stk_SubjectID = SerializeString (oref_resourceId sub)\<rparr>)"

definition consistencyToSimpleToken :: "consistency option \<Rightarrow> string" where
  "consistencyToSimpleToken c = (case ConsistencyAtLeastAsFreshToken c of Some t \<Rightarrow> SerializeString t | None \<Rightarrow> [])"

definition rel_in_snapshot :: "simpleTupleKey list \<Rightarrow> relationship \<Rightarrow> bool" where
  "rel_in_snapshot tuples rel =
     (let (objNs, objType, objId) = simpleResourceRefFields (rl_object rel);
          (subNs, subType, subId) = simpleResourceRefFields (sref_resource (rl_subject rel))
      in simpleHasTupleInSnapshot tuples objNs objType objId (SerializeString (rl_relation rel)) subNs subType subId)"

definition Simple_Check :: "relationship \<Rightarrow> consistency \<Rightarrow> simple_relations_repository \<Rightarrow> check_result result" where
  "Simple_Check rel consistency s =
     (let tuples = getTuplesForToken (consistencyToSimpleToken (Some consistency)) s;
          resultToken = DeserializeConsistencyToken (simpleFormatConsistencyToken (sr_version s))
      in Ok (NewCheckResult (rel_in_snapshot tuples rel) resultToken))"

definition Simple_CheckForUpdate :: "relationship \<Rightarrow> simple_relations_repository \<Rightarrow> check_result result" where
  "Simple_CheckForUpdate rel s =
     (let resultToken = DeserializeConsistencyToken (simpleFormatConsistencyToken (sr_version s))
      in Ok (NewCheckResult (rel_in_snapshot (sr_tuples s) rel) resultToken))"

definition Simple_CheckBulk ::
    "relationship list \<Rightarrow> consistency option \<Rightarrow> simple_relations_repository \<Rightarrow> check_bulk_result result" where
  "Simple_CheckBulk rels consistency s =
     (let tuples = getTuplesForToken (consistencyToSimpleToken consistency) s;
          resultToken = DeserializeConsistencyToken (simpleFormatConsistencyToken (sr_version s));
          pairs = map (\<lambda>rel. NewCheckBulkResultPair rel (NewCheckBulkResultItem (rel_in_snapshot tuples rel) None 0)) rels
      in Ok (NewCheckBulkResult pairs resultToken))"

definition Simple_CheckForUpdateBulk :: "relationship list \<Rightarrow> simple_relations_repository \<Rightarrow> check_bulk_result result" where
  "Simple_CheckForUpdateBulk rels s =
     (let resultToken = DeserializeConsistencyToken (simpleFormatConsistencyToken (sr_version s));
          pairs = map (\<lambda>rel. NewCheckBulkResultPair rel (NewCheckBulkResultItem (rel_in_snapshot (sr_tuples s) rel) None 0)) rels
      in Ok (NewCheckBulkResult pairs resultToken))"

definition key_reference :: "string \<Rightarrow> string \<Rightarrow> string \<Rightarrow> resource_reference" where
  "key_reference ns t i = NewResourceReference (DeserializeResourceType t) (DeserializeLocalResourceId i)
     (Some (NewReporterReference (DeserializeReporterType ns) None))"

definition Simple_LookupObjects ::
    "representation_type \<Rightarrow> relation \<Rightarrow> subject_reference \<Rightarrow> pagination option \<Rightarrow> consistency option \<Rightarrow>
     simple_relations_repository \<Rightarrow> lookup_objects_item list result" where
  "Simple_LookupObjects objectType relation subject pg consistency s =
     (let requestedType = SerializeString (rpt_resourceType objectType);
          requestedNamespace = (case rpt_reporterType objectType of None \<Rightarrow> [] | Some r \<Rightarrow> SerializeString r);
          requestedRelation = SerializeString relation;
          (subNs, subType, subId) = simpleResourceRefFields (sref_resource subject)
      in Ok (map (\<lambda>key. \<lparr>loi_object = key_reference (stk_ResourceNamespace key) (stk_ResourceType key) (stk_ResourceID key),
                         loi_continuationToken = []\<rparr>)
          (filter (\<lambda>key. (requestedNamespace = [] \<or> stk_ResourceNamespace key = requestedNamespace) \<and>
              (requestedType = [] \<or> stk_ResourceType key = requestedType) \<and> stk_Relation key = requestedRelation \<and>
              stk_SubjectNamespace key = subNs \<and> stk_SubjectType key = subType \<and> stk_SubjectID key = subId) (sr_tuples s))))"

definition Simple_LookupSubjects ::
    "resource_reference \<Rightarrow> relation \<Rightarrow> representation_type \<Rightarrow> relation option \<Rightarrow> pagination option \<Rightarrow> consistency option \<Rightarrow>
     simple_relations_repository \<Rightarrow> lookup_subjects_item list result" where
  "Simple_LookupSubjects object relation subjectType subjectRelation pg consistency s =
     (let (objNs, objType, objId) = simpleResourceRefFields object;
          requestedRelation = SerializeString relation;
          wantSubjectType = SerializeString (rpt_resourceType subjectType);
          wantSubjectNamespace = (case rpt_reporterType subjectType of None \<Rightarrow> [] | Some r \<Rightarrow> SerializeString r)
      in Ok (map (\<lambda>key. \<lparr>lsi_subject = NewSubjectReferenceWithoutRelation
                           (key_reference (stk_SubjectNamespace key) (stk_SubjectType key) (stk_SubjectID key)),
                         lsi_continuationToken = []\<rparr>)
          (filter (\<lambda>key. stk_ResourceNamespace key = objNs \<and> stk_ResourceType key = objType \<and> stk_ResourceID key = objId \<and>
              stk_Relation key = requestedRelation \<and>
              (wantSubjectNamespace = [] \<or> stk_SubjectNamespace key = wantSubjectNamespace) \<and>
              (wantSubjectType = [] \<or> stk_SubjectType key = wantSubjectType)) (sr_tuples s))))"

definition Simple_CreateTuples ::
    "relations_tuple list \<Rightarrow> bool \<Rightarrow> fencing_check option \<Rightarrow> simple_relations_repository \<Rightarrow>
     consistency_token result \<times> simple_relations_repository" where
  "Simple_CreateTuples tuples upsert fencing s = (case sr_createTuplesError s of
     Some e \<Rightarrow> (Err e, s)
   | None \<Rightarrow>
       (let s' = advanceVersion (s\<lparr>sr_tuples := fold List.insert (map simpleTupleKeyFromModelTuple tuples) (sr_tuples s)\<rparr>)
        in (Ok (DeserializeConsistencyToken (FormatInt (sr_version s'))), s')))"

definition opt_differs :: "string option \<Rightarrow> string \<Rightarrow> bool" where
  "opt_differs o1 v = (case o1 of None \<Rightarrow> False | Some x \<Rightarrow> SerializeString x \<noteq> v)"

definition simpleMatchesTupleFilter :: "simpleTupleKey \<Rightarrow> tuple_filter \<Rightarrow> bool" where
  "simpleMatchesTupleFilter key flt =
     (if opt_differs (tf_reporterType flt) (stk_ResourceNamespace key) then False
      else if opt_differs (tf_objectType flt) (stk_ResourceType key) then False
      else if opt_differs (tf_objectId flt) (stk_ResourceID key) then False
      else if opt_differs (tf_relation flt) (stk_Relation key) then False
      else (case tf_subject flt of
          None \<Rightarrow> True
        | Some sf \<Rightarrow>
            if opt_differs (sf_reporterType sf) (stk_SubjectNamespace key) then False
            else if opt_differs (sf_subjectType sf) (stk_SubjectType key) then False
            else if opt_differs (sf_subjectId sf) (stk_SubjectID key) then False
            else True))"

definition Simple_DeleteTuples ::
    "tuple_filter \<Rightarrow> fencing_check option \<Rightarrow> simple_relations_repository \<Rightarrow>
     consistency_token result \<times> simple_relations_repository" where
  "Simple_DeleteTuples flt fencing s = (case sr_deleteTuplesError s of
     Some e \<Rightarrow> (Err e, s)
   | None \<Rightarrow>
       (let s' = advanceVersion (s\<lparr>sr_tuples := filter (\<lambda>key. \<not> simpleMatchesTupleFilter key flt) (sr_tuples s)\<rparr>)
        in (Ok (DeserializeConsistencyToken (FormatInt (sr_version s'))), s')))"

definition Simple_ReadTuples ::
    "tuple_filter \<Rightarrow> pagination option \<Rightarrow> consistency option \<Rightarrow> simple_relations_repository \<Rightarrow> read_tuples_item list result" where
  "Simple_ReadTuples flt pg consistency s =
     Ok (map (\<lambda>key. \<lparr>rti_object = key_reference (stk_ResourceNamespace key) (stk_ResourceType key) (stk_ResourceID key),
                     rti_relation = DeserializeRelation (stk_Relation key),
                     rti_subject = NewSubjectReferenceWithoutRelation
                       (key_reference (stk_SubjectNamespace key) (stk_SubjectType key) (stk_SubjectID key)),
                     rti_continuationToken = [], rti_consistencyToken = MinimizeLatencyToken\<rparr>)
          (filter (\<lambda>key. simpleMatchesTupleFilter key flt) (sr_tuples s)))"

definition Simple_AcquireLock :: "lock_id \<Rightarrow> simple_relations_repository \<Rightarrow> lock_token result \<times> simple_relations_repository" where
  "Simple_AcquireLock lockId s = (case sr_acquireLockError s of
     Some e \<Rightarrow> (Err e, s)
   | None \<Rightarrow> (let token = ''token-'' @ lockId in (Ok token, s\<lparr>sr_locks := AList.update lockId token (sr_locks s)\<rparr>)))"

definition simple_relations :: "simple_relations_repository relations_repository" where
  "simple_relations = \<lparr>ro_Check = Simple_Check, ro_CheckForUpdate = Simple_CheckForUpdate, ro_CheckBulk = Simple_CheckBulk,
     ro_CheckForUpdateBulk = Simple_CheckForUpdateBulk, ro_LookupObjects = Simple_LookupObjects,
     ro_LookupSubjects = Simple_LookupSubjects, ro_CreateTuples = Simple_CreateTuples, ro_DeleteTuples = Simple_DeleteTuples,
     ro_ReadTuples = Simple_ReadTuples, ro_AcquireLock = Simple_AcquireLock\<rparr>"

section \<open>The allow-all repository (\<open>relations_allow_all.go\<close>)\<close>

definition AllowAll_CheckBulk :: "relationship list \<Rightarrow> check_bulk_result result" where
  "AllowAll_CheckBulk rels =
     Ok (NewCheckBulkResult (map (\<lambda>rel. NewCheckBulkResultPair rel (NewCheckBulkResultItem True None 0)) rels) MinimizeLatencyToken)"

definition allow_all_relations :: "unit relations_repository" where
  "allow_all_relations = \<lparr>ro_Check = (\<lambda>_ _ _. Ok (NewCheckResult True MinimizeLatencyToken)),
     ro_CheckForUpdate = (\<lambda>_ _. Ok (NewCheckResult True MinimizeLatencyToken)),
     ro_CheckBulk = (\<lambda>rels _ _. AllowAll_CheckBulk rels), ro_CheckForUpdateBulk = (\<lambda>rels _. AllowAll_CheckBulk rels),
     ro_LookupObjects = (\<lambda>_ _ _ _ _ _. Ok []), ro_LookupSubjects = (\<lambda>_ _ _ _ _ _ _. Ok []),
     ro_CreateTuples = (\<lambda>_ _ _ s. (Ok MinimizeLatencyToken, s)), ro_DeleteTuples = (\<lambda>_ _ s. (Ok MinimizeLatencyToken, s)),
     ro_ReadTuples = (\<lambda>_ _ _ _. Ok []), ro_AcquireLock = (\<lambda>_ s. (Ok [], s))\<rparr>"

section \<open>Laws of the in-memory repository\<close>

definition rel_key :: "relationship \<Rightarrow> simpleTupleKey" where
  "rel_key rel = simpleTupleKeyFromModelTuple (NewRelationsTuple (rl_object rel) (rl_relation rel) (rl_subject rel))"

lemma rel_in_snapshot_iff: "rel_in_snapshot tuples rel \<longleftrightarrow> rel_key rel \<in> set tuples"
  by (simp add: rel_in_snapshot_def rel_key_def simpleResourceRefFields_def simpleHasTupleInSnapshot_def
      simpleTupleKeyFromModelTuple_def NewRelationsTuple_def Let_def serde)

lemma rel_key_tuple [simp]: "rel_key (NewRelationship (rt_object t) (rt_relation t) (rt_subject t)) = simpleTupleKeyFromModelTuple t"
  by (cases t) (simp add: rel_key_def NewRelationship_def NewRelationsTuple_def)

lemma set_fold_insert: "set (fold List.insert ks ts) = set ts \<union> set ks"
  by (induction ks arbitrary: ts) auto

definition sr_inv :: "simple_relations_repository \<Rightarrow> bool" where
  "sr_inv s \<longleftrightarrow> 0 < sr_version s \<and> sr_version s < 2 ^ 63 \<and> (\<forall>v \<in> set (map fst (sr_snapshots s)). 0 < v \<and> v \<le> sr_version s)"

lemma advanceVersion_simps [simp]:
  "sr_tuples (advanceVersion s) = sr_tuples s" "sr_snapshots (advanceVersion s) = sr_snapshots s"
  "sr_version s < 2 ^ 63 - 1 \<Longrightarrow> sr_version (advanceVersion s) = sr_version s + 1"
  by (simp_all add: advanceVersion_def)

lemma takeWhile_below_last:
  assumes "sorted (xs :: int list)" "x \<in> set xs" "\<forall>y \<in> set xs. y \<le> x" "x \<le> r" "r \<le> x"
  shows "length (takeWhile (\<lambda>v. v < r) xs) < length xs" "xs ! length (takeWhile (\<lambda>v. v < r) xs) = x"
proof -
  have "\<not> (\<forall>v \<in> set xs. v < r)" using assms by auto
  then have l: "length (takeWhile (\<lambda>v. v < r) xs) < length xs"
    by (metis length_takeWhile_le nat_less_le takeWhile_eq_all_conv takeWhile_eq_take take_all_iff dual_order.refl)
  have "\<not> xs ! length (takeWhile (\<lambda>v. v < r) xs) < r" using nth_length_takeWhile [OF l] .
  moreover have "xs ! length (takeWhile (\<lambda>v. v < r) xs) \<le> x" using assms(3) l nth_mem by blast
  ultimately show "length (takeWhile (\<lambda>v. v < r) xs) < length xs" "xs ! length (takeWhile (\<lambda>v. v < r) xs) = x"
    using l assms(4,5) by auto
qed

lemma getTuples_fresh:
  assumes "sr_inv s"
  shows "getTuplesForToken (FormatInt (sr_version s)) s = sr_tuples s"
proof -
  let ?vs = "sort (map fst (sr_snapshots s) @ [sr_version s])"
  have "ParseInt (FormatInt (sr_version s)) = Inr (sr_version s)"
    using assms by (simp add: sr_inv_def ParseInt_FormatInt)
  moreover have "length (takeWhile (\<lambda>v. v < sr_version s) ?vs) < length ?vs"
    "?vs ! length (takeWhile (\<lambda>v. v < sr_version s) ?vs) = sr_version s"
    by (rule takeWhile_below_last; use assms in \<open>auto simp: sr_inv_def\<close>)+
  ultimately show ?thesis by (simp add: getTuplesForToken_def simpleParseConsistencyToken_def Let_def)
qed

text \<open>Read your writes: the token a tuple creation returns, used as the freshness of a check right after it,
  makes every created tuple visible and keeps every tuple there was, whatever older snapshots are
  retained.\<close>

lemma created_tuples_visible:
  assumes "sr_inv s" "sr_version s < 2 ^ 63 - 1" "Simple_CreateTuples ts upsert fc s = (Inr token, s')"
  shows "\<exists>r. Simple_Check rel (atLeastAsFreshConsistency token) s' = Inr r \<and>
    (chk_allowed r \<longleftrightarrow> rel_key rel \<in> set (sr_tuples s) \<union> simpleTupleKeyFromModelTuple ` set ts)"
proof -
  from assms(2,3) have s': "sr_tuples s' = fold List.insert (map simpleTupleKeyFromModelTuple ts) (sr_tuples s)"
    "sr_version s' = sr_version s + 1" "sr_snapshots s' = sr_snapshots s" and token: "token = FormatInt (sr_version s')"
    by (auto simp: Simple_CreateTuples_def Let_def advanceVersion_def serde split: option.splits)
  have "sr_inv s'" using assms(1,2) s' by (auto simp: sr_inv_def)
  from getTuples_fresh [OF this] show ?thesis
    by (simp add: Simple_Check_def Let_def consistencyToSimpleToken_def ConsistencyAtLeastAsFreshToken_def AsAtLeastAsFresh_def
        normalizeConsistency_def NewCheckResult_def rel_in_snapshot_iff token s'(1) set_fold_insert serde)
qed

definition sample_tuple :: relations_tuple where
  "sample_tuple = NewWorkspaceRelationsTuple ''w1'' sample_service_key"

definition sample_relationship :: relationship where
  "sample_relationship = NewRelationship (rt_object sample_tuple) (rt_relation sample_tuple) (rt_subject sample_tuple)"

section \<open>The contract of a tuple store\<close>

text \<open>
  \<open>keys s\<close> is the set of tuples stored and \<open>valid\<close> the states a client may meet. A successful creation
  adds the given tuples, a successful deletion removes what matches the filter, a failing call
  changes nothing, and a creation that overwrites does not fail with \<open>AlreadyExists\<close>.
\<close>

locale relations_store =
  fixes ops :: "'s relations_repository" and keys :: "'s \<Rightarrow> simpleTupleKey set" and valid :: "'s \<Rightarrow> bool"
  assumes create_ok: "valid s \<Longrightarrow> ro_CreateTuples ops ts u f s = (Inr tok, s') \<Longrightarrow>
      keys s' = keys s \<union> simpleTupleKeyFromModelTuple ` set ts \<and> valid s'"
    and create_err: "valid s \<Longrightarrow> ro_CreateTuples ops ts u f s = (Inl e, s') \<Longrightarrow> keys s' = keys s \<and> valid s'"
    and create_touch: "valid s \<Longrightarrow> ro_CreateTuples ops ts True f s = (Inl e, s') \<Longrightarrow> status_code e \<noteq> AlreadyExists"
    and delete_ok: "valid s \<Longrightarrow> ro_DeleteTuples ops flt f s = (Inr tok, s') \<Longrightarrow>
      keys s' = {k \<in> keys s. \<not> simpleMatchesTupleFilter k flt} \<and> valid s'"
    and delete_err: "valid s \<Longrightarrow> ro_DeleteTuples ops flt f s = (Inl e, s') \<Longrightarrow> keys s' = keys s \<and> valid s'"

definition simple_inv :: "simple_relations_repository \<Rightarrow> bool" where
  "simple_inv s = (case sr_createTuplesError s of None \<Rightarrow> True | Some e \<Rightarrow> status_code e \<noteq> AlreadyExists)"

interpretation simple_store: relations_store simple_relations "\<lambda>s. set (sr_tuples s)" simple_inv
  by unfold_locales
    (auto simp: simple_relations_def Simple_CreateTuples_def Simple_DeleteTuples_def Let_def set_fold_insert simple_inv_def
      advanceVersion_def split: option.splits)

text \<open>Deleting by filter revokes exactly what the filter matches: afterwards the strongly consistent check
  refuses every relationship whose tuple matches, and answers every other one as before.\<close>

lemma delete_revokes:
  assumes "sr_deleteTuplesError s = None" "simpleMatchesTupleFilter (rel_key rel) flt"
  shows "\<exists>token s' r. Simple_DeleteTuples flt fc s = (Inr token, s') \<and> Simple_CheckForUpdate rel s' = Inr r \<and> \<not> chk_allowed r \<and>
    (\<forall>rel' r'. \<not> simpleMatchesTupleFilter (rel_key rel') flt \<longrightarrow> Simple_CheckForUpdate rel' s = Inr r' \<longrightarrow>
       (\<exists>r''. Simple_CheckForUpdate rel' s' = Inr r'' \<and> chk_allowed r'' = chk_allowed r'))"
  using assms by (auto simp: Simple_DeleteTuples_def Let_def Simple_CheckForUpdate_def NewCheckResult_def rel_in_snapshot_iff)

end
