(* ===== verification/Spicedb.thy ===== *)
theory Spicedb
  imports Relations_Repo
begin

text \<open>
  The relations repository over SpiceDB (\<open>internal/data/spicedb_relations_repository.go\<close>): the conversions between the
  domain and SpiceDB's API and every operation. The client of SpiceDB is a parameter, a record of its calls on the state of the
  service. \<open>initialize\<close> runs once, under \<open>sync.Once\<close>; the operations read the outcome it left, a field of their
  environment. A response stream is the list of its messages with the error that ends it, \<open>None\<close> being \<open>io.EOF\<close>.
\<close>

section \<open>Messages of SpiceDB\<close>

record sp_object =
  so_ObjectType :: string
  so_ObjectId :: string

record sp_subject =
  ss_Object :: sp_object
  ss_OptionalRelation :: string

record sp_relationship =
  sx_Resource :: sp_object
  sx_Relation :: string
  sx_Subject :: sp_subject

record sp_subject_filter =
  sf_SubjectType :: string
  sf_OptionalSubjectId :: string
  sf_OptionalRelation :: "string option"

record sp_filter =
  xf_ResourceType :: string
  xf_OptionalResourceId :: string
  xf_OptionalRelation :: string
  xf_OptionalSubjectFilter :: "sp_subject_filter option"

datatype sp_operation = OPERATION_CREATE | OPERATION_TOUCH | OPERATION_DELETE

record sp_update =
  su_Operation :: sp_operation
  su_Relationship :: sp_relationship

datatype sp_consistency = FullyConsistent | AtLeastAsFreshAs string | MinimizeLatencyRead

datatype permissionship = PERMISSIONSHIP_UNSPECIFIED | PERMISSIONSHIP_NO_PERMISSION | PERMISSIONSHIP_HAS_PERMISSION
  | PERMISSIONSHIP_CONDITIONAL_PERMISSION

type_synonym sp_check_item = "sp_object \<times> string \<times> sp_subject"

record sp_read_message =
  sm_Relationship :: sp_relationship
  sm_AfterResultCursor :: "string option"
  sm_ReadAt :: string

text \<open>The calls: the last argument is the state of the service. A pair of a bulk check is an error with its
  message and code, or a permissionship. \<open>sc_newUUID\<close> is \<open>uuid.New\<close>.\<close>

record 's spicedb_client =
  sc_CheckPermission :: "sp_consistency \<Rightarrow> sp_check_item \<Rightarrow> 's \<Rightarrow> (permissionship \<times> string) result"
  sc_CheckBulkPermissions :: "sp_consistency \<Rightarrow> sp_check_item list \<Rightarrow> 's \<Rightarrow> ((string \<times> int + permissionship) list \<times> string) result"
  sc_LookupResources :: "sp_consistency \<Rightarrow> string \<Rightarrow> string \<Rightarrow> sp_subject \<Rightarrow> 32 word \<Rightarrow> string option \<Rightarrow> 's \<Rightarrow>
    ((string \<times> string option) list \<times> go_error option) result"
  sc_LookupSubjects :: "sp_consistency \<Rightarrow> sp_object \<Rightarrow> string \<Rightarrow> string \<Rightarrow> string \<Rightarrow> 32 word \<Rightarrow> string option \<Rightarrow> 's \<Rightarrow>
    ((string \<times> string option) list \<times> go_error option) result"
  sc_ReadRelationships :: "sp_consistency \<Rightarrow> sp_filter \<Rightarrow> 32 word \<Rightarrow> string option \<Rightarrow> 's \<Rightarrow> (sp_read_message list \<times> go_error option) result"
  sc_WriteRelationships :: "sp_update list \<Rightarrow> sp_filter list \<Rightarrow> 's \<Rightarrow> string result \<times> 's"
  sc_DeleteRelationships :: "sp_filter \<Rightarrow> sp_filter list \<Rightarrow> 's \<Rightarrow> string result \<times> 's"
  sc_newUUID :: "'s \<Rightarrow> string"

record 's spicedb_env =
  se_client :: "'s spicedb_client"
  se_initErr :: "go_error option"
  se_fullyConsistentAsDefault :: bool

section \<open>Construction, initialisation and health\<close>

record spicedb_config =
  sdc_Endpoint :: string
  sdc_Token :: string
  sdc_TokenFile :: string
  sdc_SchemaFile :: string
  sdc_UseTLS :: bool
  sdc_FullyConsistent :: bool

record ('c, 'h) spicedb_repository =
  sp_client :: 'c
  sp_healthClient :: 'h
  sp_schemaFilePath :: string
  sp_initOnce :: bool
  sp_initErr :: "go_error option"
  sp_fullyConsistentAsDefault :: bool

text \<open>The file system, the certificate pool, the constructors of the two gRPC clients and of the counters are parameters.\<close>

definition NewSpiceDBRelationsRepository ::
    "(string \<Rightarrow> string result) \<Rightarrow> unit result \<Rightarrow> (string \<Rightarrow> string \<Rightarrow> bool \<Rightarrow> 'c result) \<Rightarrow> (string \<Rightarrow> string \<Rightarrow> bool \<Rightarrow> 'h result) \<Rightarrow>
     (string \<Rightarrow> unit result) \<Rightarrow> spicedb_config \<Rightarrow> ('c, 'h) spicedb_repository result" where
  "NewSpiceDBRelationsRepository readFile systemCerts newClient newConn int64Counter config =
     bind_res (if sdc_TokenFile config \<noteq> [] then wrap_err ''error creating spicedb client: error loading token file'' (readFile (sdc_TokenFile config))
               else Ok (sdc_Token config)) (\<lambda>token.
     if token = [] then Err (Errorf ''error creating spicedb client: token is empty'')
     else bind_res (if \<not> sdc_UseTLS config then Ok () else wrap_err ''error loading system CA certs for spicedb client'' systemCerts) (\<lambda>_.
     bind_res (wrap_err ''error creating spicedb client'' (newClient (sdc_Endpoint config) token (sdc_UseTLS config))) (\<lambda>client.
     bind_res (wrap_err ''error creating grpc health client'' (newConn (sdc_Endpoint config) token (sdc_UseTLS config))) (\<lambda>healthClient.
     bind_res (wrap_err ''failed to create success counter'' (int64Counter ''inventory_spicedb_success'')) (\<lambda>_.
     bind_res (wrap_err ''failed to create failure counter'' (int64Counter ''inventory_spicedb_failure'')) (\<lambda>_.
     Ok \<lparr>sp_client = client, sp_healthClient = healthClient, sp_schemaFilePath = sdc_SchemaFile config, sp_initOnce = False,
         sp_initErr = None, sp_fullyConsistentAsDefault = sdc_FullyConsistent config\<rparr>))))))"

text \<open>The function \<open>sync.Once\<close> guards runs at the first call only; every call returns the error it left.\<close>

definition initialize ::
    "(string \<Rightarrow> string result) \<Rightarrow> (string \<Rightarrow> 's \<Rightarrow> unit result \<times> 's) \<Rightarrow> ('c, 'h) spicedb_repository \<Rightarrow> 's \<Rightarrow>
     unit result \<times> ('c, 'h) spicedb_repository \<times> 's" where
  "initialize readFile writeSchema repo s =
     (let (repo', s') = (if sp_initOnce repo then (repo, s)
        else case readFile (sp_schemaFilePath repo) of
          Inl err \<Rightarrow> (repo\<lparr>sp_initOnce := True, sp_initErr := Some (Wrap ''failed to load schema file'' err)\<rparr>, s)
        | Inr schema \<Rightarrow> (case writeSchema schema s of
            (Inl err, s1) \<Rightarrow> (repo\<lparr>sp_initOnce := True, sp_initErr := Some err\<rparr>, s1)
          | (Inr _, s1) \<Rightarrow> (repo\<lparr>sp_initOnce := True\<rparr>, s1)))
      in (case sp_initErr repo' of Some err \<Rightarrow> Err err | None \<Rightarrow> Ok (), repo', s'))"

definition spicedb_env_of :: "('s spicedb_client, 'h) spicedb_repository \<Rightarrow> 's spicedb_env" where
  "spicedb_env_of repo = \<lparr>se_client = sp_client repo, se_initErr = sp_initErr repo, se_fullyConsistentAsDefault = sp_fullyConsistentAsDefault repo\<rparr>"

record health_result =
  hr_status :: string
  hr_code :: int

definition NewHealthResult :: "string \<Rightarrow> int \<Rightarrow> health_result" where
  "NewHealthResult status code = \<lparr>hr_status = status, hr_code = code\<rparr>"

datatype serving_status = UNKNOWN | SERVING | NOT_SERVING | SERVICE_UNKNOWN

text \<open>The answer of the health client, and whether the deadline of five seconds has passed when it is read.\<close>

definition SpiceDB_Health :: "serving_status result \<Rightarrow> bool \<Rightarrow> health_result result" where
  "SpiceDB_Health check timedOut = bind_res check (\<lambda>status.
     if timedOut then Err (Errorf ''timeout connecting to backend'')
     else (case status of
         NOT_SERVING \<Rightarrow> Ok (NewHealthResult ''NOT_SERVING'' 503)
       | SERVICE_UNKNOWN \<Rightarrow> Ok (NewHealthResult ''SERVICE_UNKNOWN'' 503)
       | SERVING \<Rightarrow> Ok (NewHealthResult ''SERVING'' 200)
       | UNKNOWN \<Rightarrow> Err (Errorf ''error connecting to backend'')))"

section \<open>Conversions\<close>

definition relationPrefix :: string where "relationPrefix = ''t_''"
definition lockType :: string where "lockType = ''kessel/lock''"
definition lockVersionType :: string where "lockVersionType = ''kessel/lockversion''"
definition lockVersionRelation :: string where "lockVersionRelation = ''version''"
definition defaultStreamingLimit :: "32 word" where "defaultStreamingLimit = 1000"

definition addRelationPrefix :: "string \<Rightarrow> string \<Rightarrow> string" where
  "addRelationPrefix relation prefix = (if \<not> HasPrefix relation prefix then prefix @ relation else relation)"

definition stripRelationPrefix :: "string \<Rightarrow> string \<Rightarrow> string" where
  "stripRelationPrefix relation prefix = TrimPrefix relation prefix"

definition optionalRelationToString :: "relation option \<Rightarrow> string" where
  "optionalRelationToString r = (case r of None \<Rightarrow> [] | Some x \<Rightarrow> SerializeString x)"

definition optionalRelationToStringWithPrefix :: "relation option \<Rightarrow> string" where
  "optionalRelationToStringWithPrefix r = (case r of None \<Rightarrow> [] | Some x \<Rightarrow> addRelationPrefix (SerializeString x) relationPrefix)"

definition optionalLocalResourceIdToString :: "local_resource_id option \<Rightarrow> string" where
  "optionalLocalResourceIdToString i = (case i of None \<Rightarrow> [] | Some x \<Rightarrow> SerializeString x)"

definition resourceReferenceToSpiceDBType :: "resource_reference \<Rightarrow> string" where
  "resourceReferenceToSpiceDBType ref = (case oref_reporter ref of
     None \<Rightarrow> SerializeString (oref_resourceType ref)
   | Some r \<Rightarrow> SerializeString (rref_reporterType r) @ ''/'' @ SerializeString (oref_resourceType ref))"

definition representationTypeToSpiceDBType :: "representation_type \<Rightarrow> string" where
  "representationTypeToSpiceDBType rt = (case rpt_reporterType rt of
     None \<Rightarrow> SerializeString (rpt_resourceType rt)
   | Some r \<Rightarrow> SerializeString r @ ''/'' @ SerializeString (rpt_resourceType rt))"

text \<open>\<open>strings.Split(s, "/")\<close>.\<close>

fun split_slash :: "string \<Rightarrow> string list" where
  "split_slash [] = [[]]"
| "split_slash (x # xs) = (if x = CHR ''/'' then [] # split_slash xs
     else (case split_slash xs of [] \<Rightarrow> [[x]] | p # ps \<Rightarrow> (x # p) # ps))"

definition spiceDBTypeToResourceReference :: "string \<Rightarrow> string \<Rightarrow> resource_reference result" where
  "spiceDBTypeToResourceReference spicedbType i = (case split_slash spicedbType of
     [t] \<Rightarrow> Ok (NewResourceReference (DeserializeResourceType t) (DeserializeLocalResourceId i) None)
   | [r, t] \<Rightarrow> Ok (NewResourceReference (DeserializeResourceType t) (DeserializeLocalResourceId i)
       (Some (NewReporterReference (DeserializeReporterType r) None)))
   | _ \<Rightarrow> Err (Errorf ''invalid spicedb type: %s''))"

definition object_of_reference :: "resource_reference \<Rightarrow> sp_object" where
  "object_of_reference ref = \<lparr>so_ObjectType = resourceReferenceToSpiceDBType ref, so_ObjectId = SerializeString (oref_resourceId ref)\<rparr>"

definition subject_of_reference :: "subject_reference \<Rightarrow> sp_subject" where
  "subject_of_reference sub = \<lparr>ss_Object = object_of_reference (sref_resource sub), ss_OptionalRelation = optionalRelationToString (sref_relation sub)\<rparr>"

definition relationshipToCheckBulkItem :: "relationship \<Rightarrow> sp_check_item" where
  "relationshipToCheckBulkItem rel = (object_of_reference (rl_object rel), SerializeString (rl_relation rel), subject_of_reference (rl_subject rel))"

definition spicePairToCheckBulkResultPair :: "(string \<times> int + permissionship) \<Rightarrow> relationship \<Rightarrow> check_bulk_result_pair" where
  "spicePairToCheckBulkResultPair pair originalRequest = (case pair of
     Inl (msg, code) \<Rightarrow> NewCheckBulkResultPair originalRequest (NewCheckBulkResultItem False (Some (Errorf msg)) code)
   | Inr p \<Rightarrow> NewCheckBulkResultPair originalRequest (NewCheckBulkResultItem (p = PERMISSIONSHIP_HAS_PERMISSION) None 0))"

definition relationsTupleToSpiceDBRelationship :: "relations_tuple \<Rightarrow> sp_relationship" where
  "relationsTupleToSpiceDBRelationship tuple = \<lparr>sx_Resource = object_of_reference (rt_object tuple),
     sx_Relation = addRelationPrefix (SerializeString (rt_relation tuple)) relationPrefix, sx_Subject = subject_of_reference (rt_subject tuple)\<rparr>"

definition typed :: "string option \<Rightarrow> string option \<Rightarrow> string" where
  "typed reporterType type = (case (reporterType, type) of
     (Some r, Some t) \<Rightarrow> SerializeString r @ ''/'' @ SerializeString t | (None, Some t) \<Rightarrow> SerializeString t | (_, None) \<Rightarrow> [])"

definition tupleFilterToSpiceDBFilter :: "tuple_filter \<Rightarrow> sp_filter result" where
  "tupleFilterToSpiceDBFilter flt =
     (if tf_reporterType flt \<noteq> None \<and> tf_objectType flt = None
      then Err (Errorf ''if reporter type is specified then resource type must also be specified'')
      else if tf_reporterType flt = None \<and> tf_objectType flt \<noteq> None
      then Err (Errorf ''if resource type is specified then reporter type must also be specified'')
      else (let spiceFilter = \<lparr>xf_ResourceType = typed (tf_reporterType flt) (tf_objectType flt),
              xf_OptionalResourceId = optionalLocalResourceIdToString (tf_objectId flt),
              xf_OptionalRelation = optionalRelationToStringWithPrefix (tf_relation flt), xf_OptionalSubjectFilter = None\<rparr> in
        case tf_subject flt of
          None \<Rightarrow> Ok spiceFilter
        | Some sf \<Rightarrow>
          if sf_reporterType sf \<noteq> None \<and> sf_subjectType sf = None
          then Err (Errorf ''if subject reporter type is specified then subject type must also be specified'')
          else if sf_reporterType sf = None \<and> sf_subjectType sf \<noteq> None
          then Err (Errorf ''if subject type is specified then subject reporter type must also be specified'')
          else Ok (spiceFilter\<lparr>xf_OptionalSubjectFilter := Some \<lparr>sf_SubjectType = typed (sf_reporterType sf) (sf_subjectType sf),
            sf_OptionalSubjectId = optionalLocalResourceIdToString (sf_subjectId sf),
            sf_OptionalRelation = (case sf_relation sf of None \<Rightarrow> None | Some r \<Rightarrow> Some (SerializeString r))\<rparr>\<rparr>)))"

definition determineConsistency :: "'s spicedb_env \<Rightarrow> consistency option \<Rightarrow> sp_consistency" where
  "determineConsistency env consistency = (case ConsistencyTypeOf consistency of
     ConsistencyAtLeastAsFresh \<Rightarrow> AtLeastAsFreshAs (case AsAtLeastAsFresh consistency of None \<Rightarrow> [] | Some t \<Rightarrow> SerializeString t)
   | ConsistencyMinimizeLatency \<Rightarrow> MinimizeLatencyRead
   | _ \<Rightarrow> if se_fullyConsistentAsDefault env then FullyConsistent else MinimizeLatencyRead)"

definition effectiveLimit :: "pagination option \<Rightarrow> 32 word \<Rightarrow> 32 word" where
  "effectiveLimit pagination defaultLimit = (case pagination of
     None \<Rightarrow> defaultLimit
   | Some p \<Rightarrow> if pg_Limit p > 0 \<and> pg_Limit p < defaultLimit then pg_Limit p else defaultLimit)"

definition cursor_of :: "pagination option \<Rightarrow> string option" where
  "cursor_of pagination = (case pagination of None \<Rightarrow> None | Some p \<Rightarrow> pg_Continuation p)"

section \<open>Streams\<close>

definition cursor_token :: "string option \<Rightarrow> continuation_token" where
  "cursor_token c = (case c of None \<Rightarrow> [] | Some t \<Rightarrow> t)"

definition type_reporter :: "representation_type \<Rightarrow> reporter_reference option" where
  "type_reporter t = (case rpt_reporterType t of None \<Rightarrow> None | Some r \<Rightarrow> Some (NewReporterReference r None))"

definition spicedbLookupObjectsStream_Recv :: "representation_type \<Rightarrow> string \<times> string option \<Rightarrow> lookup_objects_item result" where
  "spicedbLookupObjectsStream_Recv objectType msg = Ok \<lparr>loi_object = NewResourceReference (rpt_resourceType objectType)
     (DeserializeLocalResourceId (fst msg)) (type_reporter objectType), loi_continuationToken = cursor_token (snd msg)\<rparr>"

definition spicedbLookupSubjectsStream_Recv :: "representation_type \<Rightarrow> string \<times> string option \<Rightarrow> lookup_subjects_item result" where
  "spicedbLookupSubjectsStream_Recv subjectType msg = Ok \<lparr>lsi_subject = NewSubjectReferenceWithoutRelation
     (NewResourceReference (rpt_resourceType subjectType) (DeserializeLocalResourceId (fst msg)) (type_reporter subjectType)),
     lsi_continuationToken = cursor_token (snd msg)\<rparr>"

definition spicedbReadTuplesStream_Recv :: "sp_read_message \<Rightarrow> read_tuples_item result" where
  "spicedbReadTuplesStream_Recv msg =
     (let spiceRel = sm_Relationship msg in
      bind_res (wrap_err ''invalid resource type'' (spiceDBTypeToResourceReference (so_ObjectType (sx_Resource spiceRel)) (so_ObjectId (sx_Resource spiceRel))))
        (\<lambda>objRef.
      bind_res (wrap_err ''invalid subject type'' (spiceDBTypeToResourceReference (so_ObjectType (ss_Object (sx_Subject spiceRel)))
          (so_ObjectId (ss_Object (sx_Subject spiceRel))))) (\<lambda>subjResourceRef.
      (let subjRelation = (if ss_OptionalRelation (sx_Subject spiceRel) \<noteq> [] then Some (DeserializeRelation (ss_OptionalRelation (sx_Subject spiceRel)))
                           else None)
       in Ok \<lparr>rti_object = objRef, rti_relation = DeserializeRelation (stripRelationPrefix (sx_Relation spiceRel) relationPrefix),
              rti_subject = NewSubjectReference subjResourceRef subjRelation, rti_continuationToken = cursor_token (sm_AfterResultCursor msg),
              rti_consistencyToken = DeserializeConsistencyToken (sm_ReadAt msg)\<rparr>))))"

text \<open>A client that reads a stream to its end gets all items, or the error that ends it.\<close>

definition drain :: "('m \<Rightarrow> 'i result) \<Rightarrow> 'm list \<times> go_error option \<Rightarrow> 'i list result" where
  "drain recv stream = bind_res (map_res recv (fst stream)) (\<lambda>items. case snd stream of None \<Rightarrow> Ok items | Some e \<Rightarrow> Err e)"

section \<open>Operations\<close>

definition initialized :: "'s spicedb_env \<Rightarrow> unit result" where
  "initialized env = (case se_initErr env of Some e \<Rightarrow> Err e | None \<Rightarrow> Ok ())"

definition check_answer :: "(permissionship \<times> string) result \<Rightarrow> check_result result" where
  "check_answer x = bind_res (wrap_err ''error invoking CheckPermission in SpiceDB'' x) (\<lambda>(p, token).
     Ok (NewCheckResult (p = PERMISSIONSHIP_HAS_PERMISSION) (DeserializeConsistencyToken token)))"

definition SpiceDB_Check :: "'s spicedb_env \<Rightarrow> relationship \<Rightarrow> consistency \<Rightarrow> 's \<Rightarrow> check_result result" where
  "SpiceDB_Check env rel consistency s = bind_res (initialized env) (\<lambda>_.
     check_answer (sc_CheckPermission (se_client env) (determineConsistency env (Some consistency)) (relationshipToCheckBulkItem rel) s))"

definition SpiceDB_CheckForUpdate :: "'s spicedb_env \<Rightarrow> relationship \<Rightarrow> 's \<Rightarrow> check_result result" where
  "SpiceDB_CheckForUpdate env rel s = bind_res (initialized env) (\<lambda>_.
     check_answer (sc_CheckPermission (se_client env) FullyConsistent (relationshipToCheckBulkItem rel) s))"

text \<open>\<open>rels[i]\<close> panics when the response has more pairs than the request.\<close>

definition bulk_pairs :: "(string \<times> int + permissionship) list \<Rightarrow> relationship list \<Rightarrow> check_bulk_result_pair list result" where
  "bulk_pairs ps rels = (if length ps > length rels then Err (Errorf ''panic: index out of range'')
     else Ok (map (\<lambda>(i, p). spicePairToCheckBulkResultPair p (rels ! i)) (enumerate 0 ps)))"

definition SpiceDB_CheckBulk :: "'s spicedb_env \<Rightarrow> relationship list \<Rightarrow> consistency option \<Rightarrow> 's \<Rightarrow> check_bulk_result result" where
  "SpiceDB_CheckBulk env rels consistency s = bind_res (initialized env) (\<lambda>_.
     bind_res (wrap_err ''error invoking CheckBulkPermissions in SpiceDB''
       (sc_CheckBulkPermissions (se_client env) (determineConsistency env consistency) (map relationshipToCheckBulkItem rels) s)) (\<lambda>(ps, token).
     bind_res (bulk_pairs ps rels) (\<lambda>pairs. Ok (NewCheckBulkResult pairs (DeserializeConsistencyToken token)))))"

definition SpiceDB_CheckForUpdateBulk :: "'s spicedb_env \<Rightarrow> relationship list \<Rightarrow> 's \<Rightarrow> check_bulk_result result" where
  "SpiceDB_CheckForUpdateBulk env rels s = bind_res (initialized env) (\<lambda>_.
     bind_res (wrap_err ''error invoking CheckBulkPermissions in SpiceDB (CheckForUpdateBulk)''
       (sc_CheckBulkPermissions (se_client env) FullyConsistent (map relationshipToCheckBulkItem rels) s)) (\<lambda>(ps, token).
     bind_res (bulk_pairs ps rels) (\<lambda>pairs. Ok (NewCheckBulkResult pairs (DeserializeConsistencyToken token)))))"

definition SpiceDB_LookupObjects ::
    "'s spicedb_env \<Rightarrow> representation_type \<Rightarrow> relation \<Rightarrow> subject_reference \<Rightarrow> pagination option \<Rightarrow> consistency option \<Rightarrow> 's \<Rightarrow>
     lookup_objects_item list result" where
  "SpiceDB_LookupObjects env objectType relation sub pagination consistency s = bind_res (initialized env) (\<lambda>_.
     bind_res (wrap_err ''error invoking LookupResources in SpiceDB''
       (sc_LookupResources (se_client env) (determineConsistency env consistency) (representationTypeToSpiceDBType objectType) (SerializeString relation)
         (subject_of_reference sub) (effectiveLimit pagination defaultStreamingLimit) (cursor_of pagination) s)) (\<lambda>stream.
     drain (spicedbLookupObjectsStream_Recv objectType) stream))"

definition SpiceDB_LookupSubjects ::
    "'s spicedb_env \<Rightarrow> resource_reference \<Rightarrow> relation \<Rightarrow> representation_type \<Rightarrow> relation option \<Rightarrow> pagination option \<Rightarrow> consistency option \<Rightarrow> 's \<Rightarrow>
     lookup_subjects_item list result" where
  "SpiceDB_LookupSubjects env ob relation subjectType subjectRelation pagination consistency s = bind_res (initialized env) (\<lambda>_.
     bind_res (wrap_err ''error invoking LookupSubjects in SpiceDB''
       (sc_LookupSubjects (se_client env) (determineConsistency env consistency) (object_of_reference ob) (SerializeString relation)
         (representationTypeToSpiceDBType subjectType) (optionalRelationToString subjectRelation)
         (case pagination of None \<Rightarrow> 0 | Some p \<Rightarrow> pg_Limit p) (cursor_of pagination) s)) (\<lambda>stream.
     drain (spicedbLookupSubjectsStream_Recv subjectType) stream))"

definition lock_filter :: "lock_id \<Rightarrow> lock_token option \<Rightarrow> sp_filter" where
  "lock_filter lockId token = \<lparr>xf_ResourceType = lockType, xf_OptionalResourceId = SerializeString lockId,
     xf_OptionalRelation = addRelationPrefix lockVersionRelation relationPrefix,
     xf_OptionalSubjectFilter = (case token of None \<Rightarrow> None
       | Some t \<Rightarrow> Some \<lparr>sf_SubjectType = lockVersionType, sf_OptionalSubjectId = SerializeString t, sf_OptionalRelation = None\<rparr>)\<rparr>"

definition fencing_preconditions :: "fencing_check option \<Rightarrow> sp_filter list" where
  "fencing_preconditions fencing = (case fencing of None \<Rightarrow> [] | Some f \<Rightarrow> [lock_filter (fc_lockId f) (Some (fc_lockToken f))])"

definition SpiceDB_CreateTuples ::
    "'s spicedb_env \<Rightarrow> relations_tuple list \<Rightarrow> bool \<Rightarrow> fencing_check option \<Rightarrow> 's \<Rightarrow> consistency_token result \<times> 's" where
  "SpiceDB_CreateTuples env tuples upsert fencing s = (case initialized env of
     Inl e \<Rightarrow> (Err e, s)
   | Inr _ \<Rightarrow>
     (let operation = (if upsert then OPERATION_TOUCH else OPERATION_CREATE);
          relationshipUpdates = map (\<lambda>t. \<lparr>su_Operation = operation, su_Relationship = relationsTupleToSpiceDBRelationship t\<rparr>) tuples
      in case sc_WriteRelationships (se_client env) relationshipUpdates (fencing_preconditions fencing) s of
           (Inl e, s') \<Rightarrow> (Err (Wrap ''error writing relationships to SpiceDB'' e), s')
         | (Inr token, s') \<Rightarrow> (Ok (DeserializeConsistencyToken token), s')))"

definition SpiceDB_DeleteTuples ::
    "'s spicedb_env \<Rightarrow> tuple_filter \<Rightarrow> fencing_check option \<Rightarrow> 's \<Rightarrow> consistency_token result \<times> 's" where
  "SpiceDB_DeleteTuples env flt fencing s = (case initialized env of
     Inl e \<Rightarrow> (Err e, s)
   | Inr _ \<Rightarrow>
     (case tupleFilterToSpiceDBFilter flt of
        Inl e \<Rightarrow> (Err (Wrap ''SpiceDB request validation'' e), s)
      | Inr relationshipFilter \<Rightarrow>
        (case sc_DeleteRelationships (se_client env) relationshipFilter (fencing_preconditions fencing) s of
           (Inl e, s') \<Rightarrow> (Err (Wrap ''error invoking DeleteRelationships in SpiceDB'' e), s')
         | (Inr token, s') \<Rightarrow> (Ok (DeserializeConsistencyToken token), s'))))"

definition SpiceDB_ReadTuples ::
    "'s spicedb_env \<Rightarrow> tuple_filter \<Rightarrow> pagination option \<Rightarrow> consistency option \<Rightarrow> 's \<Rightarrow> read_tuples_item list result" where
  "SpiceDB_ReadTuples env flt pagination consistency s = bind_res (initialized env) (\<lambda>_.
     bind_res (wrap_err ''SpiceDB request validation'' (tupleFilterToSpiceDBFilter flt)) (\<lambda>relationshipFilter.
     bind_res (wrap_err ''error invoking ReadRelationships in SpiceDB''
       (sc_ReadRelationships (se_client env) (determineConsistency env consistency) relationshipFilter (effectiveLimit pagination defaultStreamingLimit)
         (cursor_of pagination) s)) (\<lambda>stream.
     drain spicedbReadTuplesStream_Recv stream)))"

definition DeserializeLockToken :: "string \<Rightarrow> lock_token" where
  [serde]: "DeserializeLockToken token = token"

definition lock_relationship :: "lock_id \<Rightarrow> lock_token \<Rightarrow> sp_relationship" where
  "lock_relationship lockId token = \<lparr>sx_Resource = \<lparr>so_ObjectType = lockType, so_ObjectId = SerializeString lockId\<rparr>,
     sx_Relation = addRelationPrefix lockVersionRelation relationPrefix,
     sx_Subject = \<lparr>ss_Object = \<lparr>so_ObjectType = lockVersionType, so_ObjectId = token\<rparr>, ss_OptionalRelation = []\<rparr>\<rparr>"

definition existing_filter :: "sp_relationship \<Rightarrow> sp_filter" where
  "existing_filter r = \<lparr>xf_ResourceType = so_ObjectType (sx_Resource r), xf_OptionalResourceId = so_ObjectId (sx_Resource r),
     xf_OptionalRelation = sx_Relation r, xf_OptionalSubjectFilter = Some \<lparr>sf_SubjectType = so_ObjectType (ss_Object (sx_Subject r)),
       sf_OptionalSubjectId = so_ObjectId (ss_Object (sx_Subject r)), sf_OptionalRelation = None\<rparr>\<rparr>"

text \<open>Acquiring a lock reads its relationship and then replaces it; another client may act between the two calls.\<close>

definition acquire_read :: "'s spicedb_env \<Rightarrow> lock_id \<Rightarrow> 's \<Rightarrow> sp_relationship option result" where
  "acquire_read env lockId s =
     (case sc_ReadRelationships (se_client env) FullyConsistent (lock_filter lockId None) 0 None s of
        Inl e \<Rightarrow> Err (Wrap ''error invoking ReadRelationships in SpiceDB'' e)
      | Inr ([], Some e) \<Rightarrow> Err (Wrap ''error reading existing lock'' e)
      | Inr ([], None) \<Rightarrow> Ok None
      | Inr (m # ms, fin) \<Rightarrow> Ok (Some (sm_Relationship m)))"

definition acquire_write :: "'s spicedb_env \<Rightarrow> lock_id \<Rightarrow> lock_token \<Rightarrow> sp_relationship option \<Rightarrow> 's \<Rightarrow> lock_token result \<times> 's" where
  "acquire_write env lockId newFencingToken existingLock s =
     (let updates = (case existingLock of None \<Rightarrow> [] | Some r \<Rightarrow> [\<lparr>su_Operation = OPERATION_DELETE, su_Relationship = r\<rparr>]) @
            [\<lparr>su_Operation = OPERATION_CREATE, su_Relationship = lock_relationship lockId newFencingToken\<rparr>];
          preconditions = (case existingLock of None \<Rightarrow> [] | Some r \<Rightarrow> [existing_filter r])
      in case sc_WriteRelationships (se_client env) updates preconditions s of
           (Inl e, s') \<Rightarrow> (Err (Wrap ''error writing relationships to SpiceDB'' e), s')
         | (Inr _, s') \<Rightarrow> (Ok (DeserializeLockToken newFencingToken), s'))"

definition SpiceDB_AcquireLock :: "'s spicedb_env \<Rightarrow> lock_id \<Rightarrow> 's \<Rightarrow> lock_token result \<times> 's" where
  "SpiceDB_AcquireLock env lockId s = (case initialized env of
     Inl e \<Rightarrow> (Err e, s)
   | Inr _ \<Rightarrow>
     (let newFencingToken = sc_newUUID (se_client env) s in
      case acquire_read env lockId s of
        Inl e \<Rightarrow> (Err e, s)
      | Inr existingLock \<Rightarrow> acquire_write env lockId newFencingToken existingLock s))"

definition spicedb_relations :: "'s spicedb_env \<Rightarrow> 's relations_repository" where
  "spicedb_relations env = \<lparr>ro_Check = SpiceDB_Check env, ro_CheckForUpdate = SpiceDB_CheckForUpdate env, ro_CheckBulk = SpiceDB_CheckBulk env,
     ro_CheckForUpdateBulk = SpiceDB_CheckForUpdateBulk env, ro_LookupObjects = SpiceDB_LookupObjects env,
     ro_LookupSubjects = SpiceDB_LookupSubjects env, ro_CreateTuples = SpiceDB_CreateTuples env, ro_DeleteTuples = SpiceDB_DeleteTuples env,
     ro_ReadTuples = SpiceDB_ReadTuples env, ro_AcquireLock = SpiceDB_AcquireLock env\<rparr>"

end
