(* ===== verification/Resource_Aggregate.thy ===== *)
theory Resource_Aggregate
  imports Resource_Model
begin

text \<open>
  \<open>internal/biz/model/resource.go\<close>: the aggregate \<open>Resource\<close> with its factory, \<open>Update\<close>,
  \<open>Delete\<close>, the key search and the snapshot round trip, then its theorems: the version and
  generation counters, the life cycle of reporter resources, and the exact error conditions.
\<close>

section \<open>The aggregate\<close>

record resource =
  res_id :: resource_id
  res_resourceType :: resource_type
  res_commonVersion :: "version option"
  res_lastCommonVersion :: "version option"
  res_consistencyToken :: consistency_token
  res_reporterResources :: "reporter_resource list"
  res_resourceReportEvents :: "resource_report_event list"
  res_resourceDeleteEvents :: "resource_delete_event list"

definition resourceEventAndRepresentations ::
    "resource_id \<Rightarrow> resource_type \<Rightarrow> reporter_type \<Rightarrow> reporter_instance_id \<Rightarrow> transaction_id \<Rightarrow>
     local_resource_id \<Rightarrow> reporter_resource_id \<Rightarrow> uri \<Rightarrow> uri option \<Rightarrow> representation option \<Rightarrow>
     representation option \<Rightarrow> reporter_version option \<Rightarrow> version \<Rightarrow> generation \<Rightarrow> version option \<Rightarrow>
     resource_report_event result" where
  "resourceEventAndRepresentations resId rt rep inst tx l rrId api console reporterData commonData rv v g cv =
     (if reporterData = None \<and> commonData = None then Err (Sentinel ErrNoRepresentationProvided)
      else
      bind_res (case reporterData of None \<Rightarrow> Ok None
                | Some d \<Rightarrow> bind_res (wrap_err ''invalid ReporterRepresentation''
                              (NewReporterDataRepresentation rrId v g d cv rv tx)) (\<lambda>r. Ok (Some r))) (\<lambda>rr.
      bind_res (case commonData of None \<Rightarrow> Ok None
                | Some d \<Rightarrow> bind_res (wrap_err ''invalid CommonRepresentation''
                              (NewCommonRepresentation resId d (case cv of None \<Rightarrow> 0 | Some c \<Rightarrow> c) rep inst tx))
                              (\<lambda>c. Ok (Some c))) (\<lambda>cr.
      wrap_err ''invalid ResourceReportEvent''
        (NewResourceReportEvent resId rt rep inst l api console rr cr))))"

definition deleteEventAndRepresentations ::
    "resource_id \<Rightarrow> resource_type \<Rightarrow> reporter_type \<Rightarrow> reporter_instance_id \<Rightarrow> local_resource_id \<Rightarrow>
     reporter_resource_id \<Rightarrow> version \<Rightarrow> generation \<Rightarrow> resource_delete_event result" where
  "deleteEventAndRepresentations resId rt rep inst l rrId v g =
     bind_res (wrap_err ''invalid ReporterRepresentation'' (NewReporterDeleteRepresentation rrId v g)) (\<lambda>dr.
     wrap_err ''invalid ResourceReportEvent'' (NewResourceDeleteEvent resId rt rep inst l dr))"

definition NewResource ::
    "time \<Rightarrow> time \<Rightarrow> resource_id \<Rightarrow> local_resource_id \<Rightarrow> resource_type \<Rightarrow> reporter_type \<Rightarrow>
     reporter_instance_id \<Rightarrow> transaction_id \<Rightarrow> reporter_resource_id \<Rightarrow> uri \<Rightarrow> uri option \<Rightarrow>
     representation option \<Rightarrow> representation option \<Rightarrow> reporter_version option \<Rightarrow> resource result" where
  "NewResource now1 now2 i l rt rep inst tx rrId api console reporterData0 commonData rv =
     (let reporterData = (if reporterData0 = None \<and> commonData \<noteq> None
                          then Some NewEmptyRepresentation else reporterData0);
          commonVersion = (case commonData of
                             Some d \<Rightarrow> if map_len d > 0 then Some (NewVersion initialCommonVersion) else None
                           | None \<Rightarrow> None)
      in
      bind_res (wrap_err ''resource invalid ReporterResource''
                 (NewReporterResource now1 rrId l rt rep inst i api console)) (\<lambda>rr.
      bind_res (wrap_err ''resource invalid ResourceReportEvent''
                 (resourceEventAndRepresentations (rr_resourceID rr) rt rep inst tx l (rr_id rr) api console
                    reporterData commonData rv (rr_representationVersion rr) (rr_generation rr)
                    commonVersion)) (\<lambda>ev.
      Ok \<lparr>res_id = i, res_resourceType = rt, res_commonVersion = commonVersion,
          res_lastCommonVersion = commonVersion, res_consistencyToken = [],
          res_reporterResources = [rr], res_resourceReportEvents = [SetTimestamps now2 now2 ev],
          res_resourceDeleteEvents = []\<rparr>)))"

text \<open>The pointer that \<open>findReporterResourceToUpdateByKey\<close> returns is an index of the slice.\<close>

definition key_matches :: "reporter_resource_key \<Rightarrow> reporter_resource_key \<Rightarrow> bool" where
  "key_matches stored key \<longleftrightarrow>
     EqualFold (SerializeString (rrk_localResourceID stored)) (SerializeString (rrk_localResourceID key)) \<and>
     EqualFold (SerializeString (rrk_resourceType stored)) (SerializeString (rrk_resourceType key)) \<and>
     EqualFold (SerializeString (rrk_reporterType stored)) (SerializeString (rrk_reporterType key)) \<and>
     (SerializeString (rrk_reporterInstanceId key) = [] \<or>
      EqualFold (SerializeString (rrk_reporterInstanceId stored)) (SerializeString (rrk_reporterInstanceId key)))"

fun find_index_from :: "nat \<Rightarrow> reporter_resource list \<Rightarrow> reporter_resource_key \<Rightarrow> nat option" where
  "find_index_from i [] key = None"
| "find_index_from i (rr # rrs) key =
     (if key_matches (rr_key rr) key then Some i else find_index_from (Suc i) rrs key)"

definition findReporterResourceToUpdateByKey :: "resource \<Rightarrow> reporter_resource_key \<Rightarrow> nat result" where
  "findReporterResourceToUpdateByKey r key =
     (case find_index_from 0 (res_reporterResources r) key of
        Some i \<Rightarrow> Ok i
      | None \<Rightarrow> Err (Errorf ''reporter resource with key not found in resource''))"

definition GetTimestamps :: "resource \<Rightarrow> time \<times> time" where
  "GetTimestamps r =
     (case res_resourceReportEvents r of
        [] \<Rightarrow> (zero_time, zero_time) | e # _ \<Rightarrow> (re_createdAt e, re_updatedAt e))"

definition update_common_version :: "representation option \<Rightarrow> resource \<Rightarrow> version option \<times> resource" where
  "update_common_version commonData r =
     (if (case commonData of Some d \<Rightarrow> map_len d > 0 | None \<Rightarrow> False) then
        (let cv = (case res_commonVersion r of
                     Some v \<Rightarrow> Version_Increment v
                   | None \<Rightarrow> (case res_lastCommonVersion r of
                                Some v \<Rightarrow> Version_Increment v
                              | None \<Rightarrow> NewVersion initialCommonVersion))
         in (Some cv, r\<lparr>res_commonVersion := Some cv, res_lastCommonVersion := Some cv\<rparr>))
      else (None, r\<lparr>res_commonVersion := None\<rparr>))"

definition Resource_Update ::
    "time \<Rightarrow> time \<Rightarrow> reporter_resource_key \<Rightarrow> uri \<Rightarrow> uri option \<Rightarrow> reporter_version option \<Rightarrow>
     representation option \<Rightarrow> representation option \<Rightarrow> transaction_id \<Rightarrow> resource \<Rightarrow>
     resource \<times> go_error option" where
  "Resource_Update now1 now2 key api console rv reporterData commonData tx r =
     (let (commonVersion, r1) = update_common_version commonData r in
      case findReporterResourceToUpdateByKey r1 key of
        Inl e \<Rightarrow> (r1, Some e)
      | Inr i \<Rightarrow>
          (let rr = ReporterResource_Update now1 api console (res_reporterResources r1 ! i);
               r2 = r1\<lparr>res_reporterResources := (res_reporterResources r1)[i := rr]\<rparr>
           in case resourceEventAndRepresentations (rr_resourceID rr) (rrk_resourceType key)
                     (rrk_reporterType key) (rrk_reporterInstanceId key) tx (rrk_localResourceID key)
                     (rr_id rr) api console reporterData commonData rv (rr_representationVersion rr)
                     (rr_generation rr) commonVersion of
                Inl e \<Rightarrow> (r2, Some (Wrap ''failed to create updated ResourceReportEvent'' e))
              | Inr ev \<Rightarrow>
                  (r2\<lparr>res_resourceReportEvents := [SetTimestamps (fst (GetTimestamps r2)) now2 ev]\<rparr>, None)))"

definition Resource_Delete ::
    "time \<Rightarrow> reporter_resource_key \<Rightarrow> resource \<Rightarrow> resource \<times> go_error option" where
  "Resource_Delete now key r =
     (case findReporterResourceToUpdateByKey r key of
        Inl e \<Rightarrow> (r, Some e)
      | Inr i \<Rightarrow>
          (let rr0 = res_reporterResources r ! i in
           if SerializeBool (rr_tombstone rr0) then (r, None)
           else
             let rr = ReporterResource_Delete now rr0;
                 r1 = r\<lparr>res_reporterResources := (res_reporterResources r)[i := rr]\<rparr>
             in case deleteEventAndRepresentations (rr_resourceID rr) (rrk_resourceType key)
                       (rrk_reporterType key) (rrk_reporterInstanceId key) (rrk_localResourceID key)
                       (rr_id rr) (rr_representationVersion rr) (rr_generation rr) of
                  Inl e \<Rightarrow> (r1, Some (Wrap ''failed to create ResourceDeleteEvent'' e))
                | Inr ev \<Rightarrow> (r1\<lparr>res_resourceDeleteEvents := [ev]\<rparr>, None)))"

definition Resource_Serialize ::
    "time \<Rightarrow> resource \<Rightarrow> resource_snapshot \<times> reporter_resource_snapshot \<times>
       reporter_representation_snapshot option \<times> common_representation_snapshot option" where
  "Resource_Serialize now r =
     (let rs = \<lparr>rs_ID = SerializeUUID (res_id r), rs_Type = SerializeString (res_resourceType r),
                rs_CommonVersion = (case res_commonVersion r of None \<Rightarrow> None | Some v \<Rightarrow> Some (SerializeUint v)),
                rs_LastCommonVersion = (case res_lastCommonVersion r of None \<Rightarrow> None | Some v \<Rightarrow> Some (SerializeUint v)),
                rs_ConsistencyToken = SerializeString (res_consistencyToken r),
                rs_CreatedAt = fst (GetTimestamps r), rs_UpdatedAt = snd (GetTimestamps r)\<rparr>;
          rrs = (case res_reporterResources r of
                   [] \<Rightarrow> zero_reporter_resource_snapshot | rr # _ \<Rightarrow> ReporterResource_Serialize rr);
          rps0 = (case res_resourceReportEvents r of [] \<Rightarrow> None
                  | e # _ \<Rightarrow> map_option (ReporterRepresentation_Serialize now) (re_reporterRepresentation e));
          crs = (case res_resourceReportEvents r of [] \<Rightarrow> None
                 | e # _ \<Rightarrow> map_option (CommonRepresentation_Serialize now) (re_commonRepresentation e));
          rps = (case res_resourceDeleteEvents r of [] \<Rightarrow> rps0
                 | d # _ \<Rightarrow> Some (ReporterRepresentation_Serialize now (rde_reporterRepresentation d)))
      in (rs, rrs, rps, crs))"

definition DeserializeResource ::
    "resource_snapshot option \<Rightarrow> reporter_resource_snapshot list \<Rightarrow>
     reporter_representation_snapshot option \<Rightarrow> common_representation_snapshot option \<Rightarrow> resource option" where
  "DeserializeResource rso rrss rps crs =
     (case rso of None \<Rightarrow> None
      | Some rs \<Rightarrow> Some
          \<lparr>res_id = DeserializeResourceId (rs_ID rs), res_resourceType = DeserializeResourceType (rs_Type rs),
           res_commonVersion = (case rs_CommonVersion rs of None \<Rightarrow> None | Some v \<Rightarrow> Some (DeserializeVersion v)),
           res_lastCommonVersion = (case rs_LastCommonVersion rs of None \<Rightarrow> None | Some v \<Rightarrow> Some (DeserializeVersion v)),
           res_consistencyToken = DeserializeConsistencyToken (rs_ConsistencyToken rs),
           res_reporterResources = map DeserializeReporterResource rrss,
           res_resourceReportEvents = [DeserializeResourceEvent rps crs (rs_CreatedAt rs) (rs_UpdatedAt rs)],
           res_resourceDeleteEvents = []\<rparr>)"

section \<open>Key search\<close>

lemma find_index_from_Some:
  "find_index_from i rrs key = Some j \<Longrightarrow>
     i \<le> j \<and> j - i < length rrs \<and> key_matches (rr_key (rrs ! (j - i))) key \<and>
     (\<forall>k < j - i. \<not> key_matches (rr_key (rrs ! k)) key)"
proof (induction i rrs key rule: find_index_from.induct)
  case (2 i rr rrs key)
  show ?case
  proof (cases "key_matches (rr_key rr) key")
    case True with 2 show ?thesis by auto
  next
    case False
    with 2 have IH: "Suc i \<le> j" "j - Suc i < length rrs"
      "key_matches (rr_key (rrs ! (j - Suc i))) key" "\<forall>k < j - Suc i. \<not> key_matches (rr_key (rrs ! k)) key"
      by auto
    have "j - i = Suc (j - Suc i)" using IH(1) by simp
    with IH False show ?thesis by (auto simp: nth_Cons split: nat.splits)
  qed
qed simp

lemma find_index_from_None:
  "find_index_from i rrs key = None \<longleftrightarrow> (\<forall>rr \<in> set rrs. \<not> key_matches (rr_key rr) key)"
  by (induction i rrs key rule: find_index_from.induct) auto

lemma find_index_from_keys:
  "map rr_key rrs = map rr_key rrs' \<Longrightarrow> find_index_from i rrs key = find_index_from i rrs' key"
proof (induction i rrs key arbitrary: rrs' rule: find_index_from.induct)
  case (2 i rr rrs key)
  then obtain rr' rrs'' where "rrs' = rr' # rrs''" by (cases rrs') auto
  with 2 show ?case by simp
qed simp

lemma find_Ok:
  assumes "findReporterResourceToUpdateByKey r key = Inr i"
  shows "i < length (res_reporterResources r)"
    and "key_matches (rr_key (res_reporterResources r ! i)) key"
    and "\<And>k. k < i \<Longrightarrow> \<not> key_matches (rr_key (res_reporterResources r ! k)) key"
  using assms find_index_from_Some [of 0 "res_reporterResources r" key i]
  by (auto simp: findReporterResourceToUpdateByKey_def split: option.splits)

lemma find_Err_iff:
  "(\<exists>e. findReporterResourceToUpdateByKey r key = Inl e) \<longleftrightarrow>
   (\<forall>rr \<in> set (res_reporterResources r). \<not> key_matches (rr_key rr) key)"
  using find_index_from_None [of 0 "res_reporterResources r" key]
  by (cases "find_index_from 0 (res_reporterResources r) key")
     (simp_all add: findReporterResourceToUpdateByKey_def)

lemma find_Ok_ex:
  assumes "rr \<in> set (res_reporterResources r)" "key_matches (rr_key rr) key"
  obtains i where "findReporterResourceToUpdateByKey r key = Inr i"
  using assms find_Err_iff [of r key] by (cases "findReporterResourceToUpdateByKey r key") auto

lemma find_keys:
  "map rr_key (res_reporterResources r) = map rr_key (res_reporterResources r') \<Longrightarrow>
   findReporterResourceToUpdateByKey r key = findReporterResourceToUpdateByKey r' key"
proof -
  assume "map rr_key (res_reporterResources r) = map rr_key (res_reporterResources r')"
  from find_index_from_keys [OF this, of 0 key] show ?thesis
    by (simp only: findReporterResourceToUpdateByKey_def)
qed

section \<open>Frames of the mutating methods\<close>

lemma ReporterResource_Update_fields [simp]:
  "rr_id (ReporterResource_Update now api console rr) = rr_id rr"
  "rr_key (ReporterResource_Update now api console rr) = rr_key rr"
  "rr_resourceID (ReporterResource_Update now api console rr) = rr_resourceID rr"
  "rr_createdAt (ReporterResource_Update now api console rr) = rr_createdAt rr"
  "rr_apiHref (ReporterResource_Update now api console rr) = api"
  "rr_consoleHref (ReporterResource_Update now api console rr) = console"
  "rr_tombstone (ReporterResource_Update now api console rr) = False"
  by (auto simp: ReporterResource_Update_def startNewGeneration_def tombstoned_def Let_def serde)

lemma ReporterResource_Update_counters:
  "rr_generation (ReporterResource_Update now api console rr) =
     (if rr_tombstone rr then rr_generation rr + 1 else rr_generation rr)"
  "rr_representationVersion (ReporterResource_Update now api console rr) =
     (if rr_tombstone rr then 0 else rr_representationVersion rr + 1)"
  by (auto simp: ReporterResource_Update_def startNewGeneration_def tombstoned_def Let_def serde
      Generation_Increment_def Version_Increment_def initialReporterRepresentationVersion_def)

lemma ReporterResource_Delete_fields [simp]:
  "rr_id (ReporterResource_Delete now rr) = rr_id rr"
  "rr_key (ReporterResource_Delete now rr) = rr_key rr"
  "rr_resourceID (ReporterResource_Delete now rr) = rr_resourceID rr"
  "rr_createdAt (ReporterResource_Delete now rr) = rr_createdAt rr"
  "rr_tombstone (ReporterResource_Delete now rr) = True"
  "rr_generation (ReporterResource_Delete now rr) = rr_generation rr"
  "rr_representationVersion (ReporterResource_Delete now rr) = rr_representationVersion rr + 1"
  by (auto simp: ReporterResource_Delete_def Version_Increment_def)

lemma update_common_version_frame [simp]:
  "res_reporterResources (snd (update_common_version cd r)) = res_reporterResources r"
  "res_id (snd (update_common_version cd r)) = res_id r"
  "res_resourceType (snd (update_common_version cd r)) = res_resourceType r"
  "res_consistencyToken (snd (update_common_version cd r)) = res_consistencyToken r"
  "res_resourceReportEvents (snd (update_common_version cd r)) = res_resourceReportEvents r"
  "res_resourceDeleteEvents (snd (update_common_version cd r)) = res_resourceDeleteEvents r"
  "res_commonVersion (snd (update_common_version cd r)) = fst (update_common_version cd r)"
  by (auto simp: update_common_version_def Let_def)

lemma find_update_common_version [simp]:
  "findReporterResourceToUpdateByKey (snd (update_common_version cd r)) key =
   findReporterResourceToUpdateByKey r key"
  by (rule find_keys) simp

text \<open>Inversion of a successful \<open>Update\<close> and of a \<open>Delete\<close> that has an effect.\<close>

lemma Resource_UpdateE:
  assumes "Resource_Update now1 now2 key api console rv rd cd tx r = (r', None)"
  obtains i cv ev where
    "findReporterResourceToUpdateByKey r key = Inr i"
    "cv = fst (update_common_version cd r)"
    "res_reporterResources r' = (res_reporterResources r)
       [i := ReporterResource_Update now1 api console (res_reporterResources r ! i)]"
    "res_commonVersion r' = cv"
    "res_lastCommonVersion r' = res_lastCommonVersion (snd (update_common_version cd r))"
    "res_id r' = res_id r" "res_resourceType r' = res_resourceType r"
    "res_consistencyToken r' = res_consistencyToken r"
    "res_resourceDeleteEvents r' = res_resourceDeleteEvents r"
    "let rr = res_reporterResources r' ! i in
     resourceEventAndRepresentations (rr_resourceID rr) (rrk_resourceType key)
       (rrk_reporterType key) (rrk_reporterInstanceId key) tx (rrk_localResourceID key)
       (rr_id rr) api console rd cd rv (rr_representationVersion rr) (rr_generation rr) cv = Inr ev"
    "res_resourceReportEvents r' = [SetTimestamps (fst (GetTimestamps r)) now2 ev]"
proof -
  obtain cv r1 where u: "update_common_version cd r = (cv, r1)" by fastforce
  have f: "findReporterResourceToUpdateByKey r1 key = findReporterResourceToUpdateByKey r key"
    and r1: "res_reporterResources r1 = res_reporterResources r" "res_commonVersion r1 = cv"
      "res_id r1 = res_id r" "res_resourceType r1 = res_resourceType r"
      "res_consistencyToken r1 = res_consistencyToken r"
      "res_resourceReportEvents r1 = res_resourceReportEvents r"
      "res_resourceDeleteEvents r1 = res_resourceDeleteEvents r"
    using u update_common_version_frame [of cd r] find_update_common_version [of cd r key] by simp_all
  from assms u obtain i where i: "findReporterResourceToUpdateByKey r1 key = Inr i"
    by (auto simp: Resource_Update_def split: sum.splits)
  have len: "i < length (res_reporterResources r)" using f i find_Ok(1) by metis
  let ?rr = "ReporterResource_Update now1 api console (res_reporterResources r ! i)"
  from assms u i r1 obtain ev where
    ev: "resourceEventAndRepresentations (rr_resourceID ?rr) (rrk_resourceType key)
       (rrk_reporterType key) (rrk_reporterInstanceId key) tx (rrk_localResourceID key)
       (rr_id ?rr) api console rd cd rv (rr_representationVersion ?rr) (rr_generation ?rr) cv = Inr ev"
    and r': "r' = r1\<lparr>res_reporterResources := (res_reporterResources r)[i := ?rr],
       res_resourceReportEvents := [SetTimestamps (fst (GetTimestamps r)) now2 ev]\<rparr>"
    by (auto simp: Resource_Update_def Let_def GetTimestamps_def split: sum.splits)
  show thesis
    using i f u r1 len ev r' by (intro that [of i cv ev]) (simp_all add: Let_def)
qed

lemma Resource_DeleteE:
  assumes "Resource_Delete now key r = (r', None)"
  obtains (noop) i where "findReporterResourceToUpdateByKey r key = Inr i" "r' = r"
      "rr_tombstone (res_reporterResources r ! i)"
  | (deleted) i ev where "findReporterResourceToUpdateByKey r key = Inr i"
      "\<not> rr_tombstone (res_reporterResources r ! i)"
      "deleteEventAndRepresentations (rr_resourceID (res_reporterResources r ! i)) (rrk_resourceType key)
         (rrk_reporterType key) (rrk_reporterInstanceId key) (rrk_localResourceID key)
         (rr_id (res_reporterResources r ! i)) (rr_representationVersion (res_reporterResources r ! i) + 1)
         (rr_generation (res_reporterResources r ! i)) = Inr ev"
      "r' = r\<lparr>res_reporterResources := (res_reporterResources r)
                [i := ReporterResource_Delete now (res_reporterResources r ! i)],
              res_resourceDeleteEvents := [ev]\<rparr>"
proof -
  from assms obtain i where i: "findReporterResourceToUpdateByKey r key = Inr i"
    by (auto simp: Resource_Delete_def split: sum.splits)
  show thesis
  proof (cases "rr_tombstone (res_reporterResources r ! i)")
    case True
    with assms i show thesis by (intro noop [of i]) (auto simp: Resource_Delete_def Let_def serde)
  next
    case False
    with assms i obtain ev where
      "deleteEventAndRepresentations (rr_resourceID (res_reporterResources r ! i)) (rrk_resourceType key)
         (rrk_reporterType key) (rrk_reporterInstanceId key) (rrk_localResourceID key)
         (rr_id (res_reporterResources r ! i)) (rr_representationVersion (res_reporterResources r ! i) + 1)
         (rr_generation (res_reporterResources r ! i)) = Inr ev"
      "r' = r\<lparr>res_reporterResources := (res_reporterResources r)
                [i := ReporterResource_Delete now (res_reporterResources r ! i)],
              res_resourceDeleteEvents := [ev]\<rparr>"
      by (auto simp: Resource_Delete_def Let_def serde split: sum.splits)
    with i False show thesis by (rule deleted)
  qed
qed

section \<open>Events of an update\<close>

lemma NewReporterDataRepresentation_Ok_iff:
  "NewReporterDataRepresentation rrId v g d cv rv tx = Inr rep \<longleftrightarrow>
     rrId \<noteq> uuid_Nil \<and> d \<noteq> None \<and>
     rep = \<lparr>rep_data = d, rep_reporterResourceID = rrId, rep_version = v, rep_generation = g,
            rep_reporterVersion = rv, rep_commonVersion = cv, rep_tombstone = False, rep_transactionId = tx\<rparr>"
  by (auto simp: NewReporterDataRepresentation_def serde)

lemma NewCommonRepresentation_Ok_iff:
  "NewCommonRepresentation resId d v rt inst tx = Inr cr \<longleftrightarrow>
     resId \<noteq> uuid_Nil \<and> TrimSpace rt \<noteq> [] \<and> TrimSpace inst \<noteq> [] \<and> map_len d > 0 \<and>
     cr = \<lparr>cr_data = d, cr_resourceId = resId, cr_version = v,
           cr_reporter = NewReporterId rt inst, cr_transactionId = tx\<rparr>"
  by (cases d) (auto simp: NewCommonRepresentation_def)

definition event_args_ok :: "resource_id \<Rightarrow> reporter_type \<Rightarrow> reporter_instance_id \<Rightarrow> reporter_resource_id \<Rightarrow>
    representation option \<Rightarrow> representation option \<Rightarrow> bool" where
  "event_args_ok resId rep inst rrId rd cd \<longleftrightarrow>
     (rd \<noteq> None \<or> cd \<noteq> None) \<and>
     (rd \<noteq> None \<longrightarrow> rrId \<noteq> uuid_Nil \<and> rd \<noteq> Some None) \<and>
     (\<forall>d. cd = Some d \<longrightarrow> resId \<noteq> uuid_Nil \<and> TrimSpace rep \<noteq> [] \<and> TrimSpace inst \<noteq> [] \<and> map_len d > 0)"

lemma resourceEvent_Ok:
  assumes "resourceEventAndRepresentations resId rt rep inst tx l rrId api console rd cd rv v g cv = Inr ev"
  shows "event_args_ok resId rep inst rrId rd cd"
    and "re_id ev = resId" "re_resourceType ev = rt" "re_reporterId ev = NewReporterId rep inst"
      "re_localResourceId ev = l" "re_apiHref ev = api" "re_consoleHref ev = console"
    and "re_reporterRepresentation ev = map_option (\<lambda>d.
      \<lparr>rep_data = d, rep_reporterResourceID = rrId, rep_version = v, rep_generation = g,
       rep_reporterVersion = rv, rep_commonVersion = cv, rep_tombstone = False, rep_transactionId = tx\<rparr>) rd"
    and "re_commonRepresentation ev = map_option (\<lambda>d.
      \<lparr>cr_data = d, cr_resourceId = resId, cr_version = (case cv of None \<Rightarrow> 0 | Some c \<Rightarrow> c),
       cr_reporter = NewReporterId rep inst, cr_transactionId = tx\<rparr>) cd"
  using assms
  by (auto simp: resourceEventAndRepresentations_def event_args_ok_def res_iffs NewReporterDataRepresentation_Ok_iff
      NewCommonRepresentation_Ok_iff NewResourceReportEvent_def split: if_splits option.splits)

lemma resourceEvent_Ok_iff:
  "is_ok (resourceEventAndRepresentations resId rt rep inst tx l rrId api console rd cd rv v g cv) \<longleftrightarrow>
   event_args_ok resId rep inst rrId rd cd"
  by (cases rd; cases cd)
     (auto simp: resourceEventAndRepresentations_def event_args_ok_def is_ok_iff res_iffs
       NewReporterDataRepresentation_Ok_iff NewCommonRepresentation_Ok_iff NewResourceReportEvent_def)

section \<open>A concrete resource\<close>

text \<open>A resource with two reporter resources, the second one tombstoned, whose common
  representation was dropped after version 3; the witnesses below use it.\<close>

definition sample_key :: reporter_resource_key where
  "sample_key = \<lparr>rrk_localResourceID = ''h1'', rrk_resourceType = ''host'',
     rrk_reporter = \<lparr>rid_reporterType = ''hbi'', rid_reporterInstanceId = ''i1''\<rparr>\<rparr>"

definition sample_key2 :: reporter_resource_key where
  "sample_key2 = \<lparr>rrk_localResourceID = ''h2'', rrk_resourceType = ''host'',
     rrk_reporter = \<lparr>rid_reporterType = ''acm'', rid_reporterInstanceId = ''i2''\<rparr>\<rparr>"

definition sample_rr :: "reporter_resource_id \<Rightarrow> reporter_resource_key \<Rightarrow> version \<Rightarrow> tombstone \<Rightarrow> reporter_resource" where
  "sample_rr i k v t = \<lparr>rr_id = i, rr_key = k, rr_resourceID = 7, rr_apiHref = ''/api'', rr_consoleHref = None,
     rr_representationVersion = v, rr_generation = 2, rr_tombstone = t, rr_createdAt = 1, rr_updatedAt = 1\<rparr>"

definition sample_resource :: resource where
  "sample_resource = \<lparr>res_id = 7, res_resourceType = ''host'', res_commonVersion = None,
     res_lastCommonVersion = Some 3, res_consistencyToken = ''tok'',
     res_reporterResources = [sample_rr 9 sample_key 4 False, sample_rr 10 sample_key2 5 True],
     res_resourceReportEvents = [], res_resourceDeleteEvents = []\<rparr>"

definition sample_common :: "string \<Rightarrow> representation" where
  "sample_common w = Some [(''workspace_id'', JStr w)]"

section \<open>Common versions\<close>

text \<open>
  \<open>wf_resource\<close>: a set \<open>commonVersion\<close> is the last one that was assigned, and every reporter
  resource belongs to the aggregate and has an identifier of its own.
\<close>

definition wf_resource :: "resource \<Rightarrow> bool" where
  "wf_resource r \<longleftrightarrow>
     (res_commonVersion r = None \<or> res_commonVersion r = res_lastCommonVersion r) \<and>
     (\<forall>rr \<in> set (res_reporterResources r). rr_resourceID rr = res_id r) \<and>
     distinct (map rr_id (res_reporterResources r))"

definition next_common_version :: "version option \<Rightarrow> version" where
  "next_common_version lst = (case lst of None \<Rightarrow> 0 | Some v \<Rightarrow> v + 1)"

definition has_common :: "representation option \<Rightarrow> bool" where
  "has_common cd \<longleftrightarrow> (\<exists>d. cd = Some d \<and> map_len d > 0)"

lemma update_common_version_wf:
  assumes "wf_resource r"
  shows "fst (update_common_version cd r) =
           (if has_common cd then Some (next_common_version (res_lastCommonVersion r)) else None)"
    and "res_lastCommonVersion (snd (update_common_version cd r)) =
           (if has_common cd then Some (next_common_version (res_lastCommonVersion r))
            else res_lastCommonVersion r)"
  using assms
  by (auto simp: update_common_version_def Let_def wf_resource_def next_common_version_def has_common_def
      Version_Increment_def initialCommonVersion_def serde split: option.splits)

lemma map_list_update_same: "f x = f (xs ! i) \<Longrightarrow> map f (xs[i := x]) = map f xs"
  by (metis list_update_beyond list_update_id map_update not_less)

lemma Resource_Update_wf [go_inv]:
  assumes "wf_resource r" "Resource_Update now1 now2 key api console rv rd cd tx r = (r', None)"
  shows "wf_resource r'"
  using assms(2)
proof (cases rule: Resource_UpdateE)
  case (1 i cv ev)
  have "map rr_id (res_reporterResources r') = map rr_id (res_reporterResources r)"
    "map rr_resourceID (res_reporterResources r') = map rr_resourceID (res_reporterResources r)"
    using 1 by (simp_all add: map_list_update_same)
  moreover have "rr_resourceID ` set (res_reporterResources r') = rr_resourceID ` set (res_reporterResources r)"
    using calculation(2) by (metis set_map)
  ultimately show ?thesis
    using assms(1) 1 update_common_version_wf [OF assms(1), of cd]
    by (auto simp: wf_resource_def)
qed

lemma Resource_Delete_wf [go_inv]:
  assumes "wf_resource r" "Resource_Delete now key r = (r', None)"
  shows "wf_resource r'"
  using assms(2)
proof (cases rule: Resource_DeleteE)
  case (deleted i ev)
  have "map rr_id (res_reporterResources r') = map rr_id (res_reporterResources r)"
    "map rr_resourceID (res_reporterResources r') = map rr_resourceID (res_reporterResources r)"
    using deleted by (simp_all add: map_list_update_same)
  moreover have "rr_resourceID ` set (res_reporterResources r') = rr_resourceID ` set (res_reporterResources r)"
    using calculation(2) by (metis set_map)
  ultimately show ?thesis
    using assms(1) deleted by (auto simp: wf_resource_def)
qed (use assms(1) in simp)

lemma NewResource_Ok:
  assumes "NewResource now1 now2 i l rt rep inst tx rrId api console rd cd rv = Inr r"
  shows "wf_resource r"
    and "res_id r = i" "res_resourceType r = rt" "res_resourceDeleteEvents r = []"
    and "res_reporterResources r =
      [\<lparr>rr_id = rrId, rr_key = \<lparr>rrk_localResourceID = l, rrk_resourceType = rt, rrk_reporter = NewReporterId rep inst\<rparr>,
        rr_resourceID = i, rr_apiHref = api, rr_consoleHref = console, rr_representationVersion = 0,
        rr_generation = 0, rr_tombstone = False, rr_createdAt = now1, rr_updatedAt = now1\<rparr>]"
    and "res_commonVersion r = (if has_common cd then Some 0 else None)"
    and "res_lastCommonVersion r = (if has_common cd then Some 0 else None)"
    and "\<exists>ev. res_resourceReportEvents r = [SetTimestamps now2 now2 ev] \<and>
      resourceEventAndRepresentations i rt rep inst tx l rrId api console
        (if rd = None \<and> cd \<noteq> None then Some (Some []) else rd) cd rv 0 0
        (if has_common cd then Some 0 else None) = Inr ev"
  using assms
  by (auto simp: NewResource_def Let_def res_iffs NewReporterResource_def NewReporterResourceKey_def
      wf_resource_def has_common_def serde initialCommonVersion_def initialGeneration_def
      initialTombstone_def initialReporterRepresentationVersion_def NewEmptyRepresentation_def
      split: option.splits if_splits)

lemma NewResource_Ok_iff:
  "is_ok (NewResource now1 now2 i l rt rep inst tx rrId api console rd cd rv) \<longleftrightarrow>
   event_args_ok i rep inst rrId (if rd = None \<and> cd \<noteq> None then Some (Some []) else rd) cd"
proof -
  have "is_ok (NewResource now1 now2 i l rt rep inst tx rrId api console rd cd rv) \<longleftrightarrow>
    is_ok (resourceEventAndRepresentations i rt rep inst tx l rrId api console
        (if rd = None \<and> cd \<noteq> None then Some (Some []) else rd) cd rv 0 0
        (case cd of Some d \<Rightarrow> if map_len d > 0 then Some 0 else None | None \<Rightarrow> None))"
    by (cases rd; cases cd)
       (simp_all add: NewResource_def Let_def is_ok_iff res_iffs NewReporterResource_def NewReporterResourceKey_def
        serde initialCommonVersion_def initialGeneration_def
        initialTombstone_def initialReporterRepresentationVersion_def NewEmptyRepresentation_def)
  then show ?thesis by (simp add: resourceEvent_Ok_iff)
qed

text \<open>The common version of a report (\<open>Resource.Update\<close>). On a well-formed resource, a
  successful update with common data stores and emits the successor of the highest version ever
  assigned (0 for the first one), also after an update without common data has cleared
  \<open>commonVersion\<close>; an update without common data clears \<open>commonVersion\<close>, keeps the highest version
  and emits no common representation. The result is well-formed again.\<close>

lemma Update_common_version_resumes:
  assumes "wf_resource r" "Resource_Update now1 now2 key api console rv rd cd tx r = (r', None)"
  shows "wf_resource r' \<and>
    (\<exists>ev. res_resourceReportEvents r' = [ev] \<and>
      (if has_common cd
       then (let v = next_common_version (res_lastCommonVersion r) in
             res_commonVersion r' = Some v \<and> res_lastCommonVersion r' = Some v \<and>
             ReportEvent_CurrentCommonVersion ev = Some v)
       else res_commonVersion r' = None \<and> res_lastCommonVersion r' = res_lastCommonVersion r \<and>
            cd = None \<and> ReportEvent_CurrentCommonVersion ev = None))"
  using assms(2)
proof (cases rule: Resource_UpdateE)
  case (1 i cv ev)
  note ev = resourceEvent_Ok [OF 1(10) [unfolded Let_def]]
  from ev(1) have "has_common cd \<longleftrightarrow> cd \<noteq> None"
    by (auto simp: event_args_ok_def has_common_def)
  then show ?thesis
    using 1(2,4,5,11) ev(9) update_common_version_wf [OF assms(1), of cd] Resource_Update_wf [OF assms]
    by (cases cd) (auto simp: ReportEvent_CurrentCommonVersion_def SetTimestamps_def Let_def)
qed

definition sample_update :: "reporter_resource_key \<Rightarrow> representation option \<Rightarrow> resource \<times> go_error option" where
  "sample_update k cd = Resource_Update 5 6 k ''/a'' None None (Some (Some [])) cd ''tx'' sample_resource"

lemma sample_update_Ok:
  "snd (sample_update k cd) = None \<Longrightarrow>
   Resource_Update 5 6 k ''/a'' None None (Some (Some [])) cd ''tx'' sample_resource = (fst (sample_update k cd), None)"
  by (simp add: sample_update_def prod_eq_iff)

section \<open>Life cycle of reporter resources\<close>

text \<open>
  \<open>rep_key\<close> is the primary key under which a representation of a reporter resource is stored:
  reporter resource id, version and generation. \<open>emits r0 tr r\<close>: a sequence of successful
  reports and deletes leads from \<open>r0\<close> to \<open>r\<close> and \<open>tr\<close> lists, in order, the keys of the
  representations it produced (a delete of a tombstoned reporter resource produces none).
\<close>

definition rep_key :: "reporter_resource \<Rightarrow> uuid \<times> version \<times> generation" where
  "rep_key rr = (rr_id rr, rr_representationVersion rr, rr_generation rr)"

inductive emits :: "resource \<Rightarrow> (uuid \<times> version \<times> generation) list \<Rightarrow> resource \<Rightarrow> bool" where
  start: "emits r [] r"
| report: "emits r tr r1 \<Longrightarrow> Resource_Update now1 now2 key api console rv rd cd tx r1 = (r2, None) \<Longrightarrow>
    findReporterResourceToUpdateByKey r1 key = Inr i \<Longrightarrow>
    emits r (tr @ [rep_key (res_reporterResources r2 ! i)]) r2"
| delete: "emits r tr r1 \<Longrightarrow> Resource_Delete now key r1 = (r2, None) \<Longrightarrow>
    findReporterResourceToUpdateByKey r1 key = Inr i \<Longrightarrow> \<not> rr_tombstone (res_reporterResources r1 ! i) \<Longrightarrow>
    emits r (tr @ [rep_key (res_reporterResources r2 ! i)]) r2"
| delete_again: "emits r tr r1 \<Longrightarrow> Resource_Delete now key r1 = (r2, None) \<Longrightarrow>
    findReporterResourceToUpdateByKey r1 key = Inr i \<Longrightarrow> rr_tombstone (res_reporterResources r1 ! i) \<Longrightarrow>
    emits r tr r2"

inductive_cases emits_NilE: "emits r [] r'"

text \<open>The counters of a reporter resource, ordered as (generation, version).\<close>

definition rank :: "reporter_resource \<Rightarrow> nat \<times> nat" where
  "rank rr = (unat (rr_generation rr), unat (rr_representationVersion rr))"

definition lex_lt :: "nat \<times> nat \<Rightarrow> nat \<times> nat \<Rightarrow> bool" where
  "lex_lt a b \<longleftrightarrow> fst a < fst b \<or> fst a = fst b \<and> snd a < snd b"

lemma lex_lt_trans: "lex_lt a b \<Longrightarrow> lex_lt b c \<Longrightarrow> lex_lt a c"
  by (auto simp: lex_lt_def)

lemma lex_lt_irrefl: "\<not> lex_lt a a"
  by (auto simp: lex_lt_def)

definition no_wrap :: "reporter_resource \<Rightarrow> bool" where
  "no_wrap rr \<longleftrightarrow> rr_generation rr \<noteq> max_uint \<and> rr_representationVersion rr \<noteq> max_uint"

lemma rank_Update:
  "no_wrap rr \<Longrightarrow> lex_lt (rank rr) (rank (ReporterResource_Update now api console rr))"
  by (auto simp: lex_lt_def rank_def ReporterResource_Update_counters no_wrap_def unat_inc_uint)

lemma rank_Delete: "no_wrap rr \<Longrightarrow> lex_lt (rank rr) (rank (ReporterResource_Delete now rr))"
  by (auto simp: lex_lt_def rank_def no_wrap_def unat_inc_uint)

definition count_sum :: "reporter_resource \<Rightarrow> nat" where
  "count_sum rr = unat (rr_generation rr) + unat (rr_representationVersion rr)"

lemma unat_inc_le: "unat ((v::uint) + 1) \<le> unat v + 1"
  by (cases "v = max_uint") (simp_all add: unat_inc_uint)

lemma count_sum_Update: "count_sum (ReporterResource_Update now api console rr) \<le> count_sum rr + 1"
  using unat_inc_le [of "rr_generation rr"] unat_inc_le [of "rr_representationVersion rr"]
  by (auto simp: count_sum_def ReporterResource_Update_counters)

lemma count_sum_Delete: "count_sum (ReporterResource_Delete now rr) \<le> count_sum rr + 1"
  using unat_inc_le [of "rr_representationVersion rr"] by (auto simp: count_sum_def)

lemma unat_max_uint: "unat max_uint = 2 ^ 64 - 1"
  by (simp add: unsigned_minus_1_eq_mask mask_eq_exp_minus_1)

lemma count_sum_no_wrap: "count_sum rr < 2 ^ 64 - 1 \<Longrightarrow> no_wrap rr"
  by (auto simp: count_sum_def no_wrap_def unat_max_uint)

text \<open>The invariant of a run: the emitted keys of each reporter resource lie strictly below, or at,
  its current counters, and the counters are bounded by the length of the run.\<close>

definition emitted_inv :: "resource \<Rightarrow> (uuid \<times> version \<times> generation) list \<Rightarrow> bool" where
  "emitted_inv r tr \<longleftrightarrow> distinct (map rr_id (res_reporterResources r)) \<and>
     (\<forall>rr \<in> set (res_reporterResources r). count_sum rr \<le> length tr \<and>
        (\<forall>v g. (rr_id rr, v, g) \<in> set tr \<longrightarrow> (unat g, unat v) = rank rr \<or> lex_lt (unat g, unat v) (rank rr))) \<and>
     distinct tr"

lemma emitted_inv_step:
  assumes inv: "emitted_inv r tr" and i: "i < length (res_reporterResources r)"
    and len: "length tr < 2 ^ 64 - 1"
    and r': "res_reporterResources r' = (res_reporterResources r)[i := rr']"
    and rr': "rr_id rr' = rr_id (res_reporterResources r ! i)"
      "lex_lt (rank (res_reporterResources r ! i)) (rank rr')"
      "count_sum rr' \<le> count_sum (res_reporterResources r ! i) + 1"
  shows "emitted_inv r' (tr @ [rep_key rr'])"
proof -
  let ?rrs = "res_reporterResources r"
  have ids: "map rr_id (res_reporterResources r') = map rr_id ?rrs"
    using r' rr'(1) by (simp add: map_list_update_same)
  have mem: "?rrs ! i \<in> set ?rrs" using i by simp
  have other: "rr \<in> set ?rrs \<and> rr_id rr \<noteq> rr_id rr'" if "rr \<in> set (res_reporterResources r')" "rr \<noteq> rr'" for rr
  proof -
    from that r' obtain j where j: "j < length ?rrs" "rr = ?rrs ! j" "j \<noteq> i"
      by (metis in_set_conv_nth length_list_update nth_list_update_eq nth_list_update_neq)
    moreover have "rr_id (?rrs ! j) \<noteq> rr_id (?rrs ! i)"
      using inv i j by (simp add: emitted_inv_def distinct_conv_nth)
    ultimately show ?thesis using rr'(1) by simp
  qed
  have old: "(unat g, unat v) = rank (?rrs ! i) \<or> lex_lt (unat g, unat v) (rank (?rrs ! i))"
    if "(rr_id rr', v, g) \<in> set tr" for v g
    using inv mem that rr'(1) by (auto simp: emitted_inv_def)
  have below: "lex_lt (unat g, unat v) (rank rr')" if "(rr_id rr', v, g) \<in> set tr" for v g
    using old [OF that]
  proof
    assume "(unat g, unat v) = rank (?rrs ! i)"
    then show ?thesis using rr'(2) by (simp only:)
  qed (rule lex_lt_trans [OF _ rr'(2)])
  have new: "rep_key rr' \<notin> set tr"
    using below [of "rr_representationVersion rr'" "rr_generation rr'"] lex_lt_irrefl
    by (auto simp: rep_key_def rank_def)
  have "count_sum rr' \<le> length tr + 1"
    using inv mem rr'(3) by (force simp: emitted_inv_def)
  moreover have "count_sum rr \<le> Suc (length tr) \<and>
      (\<forall>v g. (rr_id rr, v, g) \<in> set (tr @ [rep_key rr']) \<longrightarrow>
         (unat g, unat v) = rank rr \<or> lex_lt (unat g, unat v) (rank rr))"
    if "rr \<in> set (res_reporterResources r')" for rr
  proof (cases "rr = rr'")
    case True
    then show ?thesis using calculation below by (auto simp: rep_key_def rank_def)
  next
    case False
    from other [OF that False] inv show ?thesis
      by (auto simp: emitted_inv_def rep_key_def le_SucI)
  qed
  ultimately show ?thesis
    using inv ids new by (simp add: emitted_inv_def)
qed

lemma emits_inv:
  assumes "emits r0 tr r" "emitted_inv r0 tr0" "length tr0 + length tr < 2 ^ 64"
  shows "emitted_inv r (tr0 @ tr)"
  using assms
proof (induction rule: emits.induct)
  case (report r tr r1 now1 now2 key api console rv rd cd tx r2 i)
  let ?rr = "res_reporterResources r1 ! i"
  have inv: "emitted_inv r1 (tr0 @ tr)" and len: "length (tr0 @ tr) < 2 ^ 64 - 1" using report by auto
  have i: "i < length (res_reporterResources r1)" using report.hyps find_Ok(1) by blast
  then have "count_sum ?rr \<le> length (tr0 @ tr)" using inv by (simp add: emitted_inv_def)
  then have nw: "no_wrap ?rr" using len count_sum_no_wrap by auto
  have r2: "res_reporterResources r2 =
      (res_reporterResources r1)[i := ReporterResource_Update now1 api console ?rr]"
    using report.hyps(2,3) by (auto elim!: Resource_UpdateE)
  then show ?case
    using emitted_inv_step [OF inv i len r2 _ rank_Update [OF nw] count_sum_Update] i
    by (simp only: append_assoc nth_list_update_eq) simp
next
  case (delete r tr r1 now key r2 i)
  let ?rr = "res_reporterResources r1 ! i"
  have inv: "emitted_inv r1 (tr0 @ tr)" and len: "length (tr0 @ tr) < 2 ^ 64 - 1" using delete by auto
  have i: "i < length (res_reporterResources r1)" using delete.hyps find_Ok(1) by blast
  then have "count_sum ?rr \<le> length (tr0 @ tr)" using inv by (simp add: emitted_inv_def)
  then have nw: "no_wrap ?rr" using len count_sum_no_wrap by auto
  have r2: "res_reporterResources r2 = (res_reporterResources r1)[i := ReporterResource_Delete now ?rr]"
    using delete.hyps(2-4) by (auto elim!: Resource_DeleteE)
  then show ?case
    using emitted_inv_step [OF inv i len r2 _ rank_Delete [OF nw] count_sum_Delete] i
    by (simp only: append_assoc nth_list_update_eq) simp
next
  case (delete_again r tr r1 now key r2 i)
  then show ?case by (auto elim!: Resource_DeleteE)
qed simp

text \<open>Representation keys are never reused. Starting from a resource that \<open>NewResource\<close>
  created, the keys (reporter resource id, version, generation) of the representations that any
  sequence of fewer than 2^64 effective reports and deletes produces, together with the one of the
  creation, are pairwise distinct: the unique key of the \<open>reporter_representations\<close> table is never
  violated by the counters, across tombstones and new generations.\<close>

lemma representation_keys_distinct:
  assumes "NewResource now1 now2 i l rt rep inst tx rrId api console rd cd rv = Inr r0"
    and "emits r0 tr r" and "length tr + 1 < 2 ^ 64"
  shows "distinct ((rrId, 0, 0) # tr)"
proof -
  have "emitted_inv r0 [(rrId, 0, 0)]"
    using NewResource_Ok [OF assms(1)]
    by (simp add: emitted_inv_def wf_resource_def count_sum_def rank_def)
  from emits_inv [OF assms(2) this] assms(3) show ?thesis
    by (simp add: emitted_inv_def)
qed

section \<open>Deletion\<close>

lemma find_Resource_list_update:
  assumes "rr_key rr' = rr_key (res_reporterResources r ! i)"
  shows "findReporterResourceToUpdateByKey
      (r\<lparr>res_reporterResources := (res_reporterResources r)[i := rr'], res_resourceDeleteEvents := evs\<rparr>) key =
    findReporterResourceToUpdateByKey r key"
  by (rule find_keys) (simp add: map_list_update_same assms)

text \<open>Deletion of a reporter resource. \<open>Resource.Delete\<close> of a live reporter resource marks it
  tombstoned, advances only its representation version, emits a tombstone representation with that
  version and without common version, keeps the common versions, and leaves all other reporter
  resources alone; deleting again changes nothing and reports no error.\<close>

lemma Delete_tombstones_once:
  assumes "Resource_Delete now key r = (r', None)" "findReporterResourceToUpdateByKey r key = Inr i"
    and "\<not> rr_tombstone (res_reporterResources r ! i)"
  shows "(let rr = res_reporterResources r ! i; rr' = res_reporterResources r' ! i in
      rr' = rr\<lparr>rr_tombstone := True, rr_representationVersion := rr_representationVersion rr + 1, rr_updatedAt := now\<rparr> \<and>
      (\<exists>ev. res_resourceDeleteEvents r' = [ev] \<and> Event_CurrentCommonVersion (DeleteEvent ev) = None \<and>
         rep_tombstone (rde_reporterRepresentation ev) \<and> rep_data (rde_reporterRepresentation ev) = None \<and>
         rep_version (rde_reporterRepresentation ev) = rr_representationVersion rr' \<and>
         rep_generation (rde_reporterRepresentation ev) = rr_generation rr)) \<and>
    (\<forall>j. j \<noteq> i \<longrightarrow> res_reporterResources r' ! j = res_reporterResources r ! j) \<and>
    length (res_reporterResources r') = length (res_reporterResources r) \<and>
    res_commonVersion r' = res_commonVersion r \<and> res_lastCommonVersion r' = res_lastCommonVersion r \<and>
    Resource_Delete now' key r' = (r', None)"
  using assms(1)
proof (cases rule: Resource_DeleteE)
  case (deleted i' ev)
  then have i': "i' = i" and len: "i < length (res_reporterResources r)"
    using assms(2) find_Ok(1) [OF assms(2)] by simp_all
  note d = deleted [unfolded i']
  have f: "findReporterResourceToUpdateByKey r' key = Inr i"
    using d(1,4) by (simp only: find_Resource_list_update ReporterResource_Delete_fields)
  have "Resource_Delete now' key r' = (r', None)"
    using f d(4) len by (simp add: Resource_Delete_def Let_def serde)
  then show ?thesis
    using d len by (auto simp: Let_def ReporterResource_Delete_def Version_Increment_def
        deleteEventAndRepresentations_def NewReporterDeleteRepresentation_def NewResourceDeleteEvent_def
        Event_CurrentCommonVersion_def DeleteEvent_CurrentCommonVersion_def serde split: if_splits)
qed (use assms in simp)

text \<open>Reporting again after a deletion. An update of a tombstoned reporter resource starts the
  next generation: the tombstone is cleared, the generation is incremented and the representation
  version restarts at 0; an update of a live one keeps the generation and increments the version.
  The emitted event carries the key, the new version and the new generation.\<close>

lemma Update_generation:
  assumes "Resource_Update now1 now2 key api console rv (Some d) cd tx r = (r', None)"
    and "findReporterResourceToUpdateByKey r key = Inr i"
  shows "let rr = res_reporterResources r ! i; rr' = res_reporterResources r' ! i in
    \<not> rr_tombstone rr' \<and>
    rr_generation rr' = (if rr_tombstone rr then rr_generation rr + 1 else rr_generation rr) \<and>
    rr_representationVersion rr' = (if rr_tombstone rr then 0 else rr_representationVersion rr + 1) \<and>
    rr_createdAt rr' = rr_createdAt rr \<and>
    (\<exists>ev rep. res_resourceReportEvents r' = [ev] \<and> ReportEvent_ReporterResourceKey ev = key \<and>
       re_reporterRepresentation ev = Some rep \<and> rep_version rep = rr_representationVersion rr' \<and>
       rep_generation rep = rr_generation rr' \<and> rep_reporterResourceID rep = rr_id rr \<and>
       rep_commonVersion rep = res_commonVersion r' \<and> re_createdAt ev = fst (GetTimestamps r))"
  using assms(1)
proof (cases rule: Resource_UpdateE)
  case (1 i' cv ev)
  then have i': "i' = i" and len: "i < length (res_reporterResources r)"
    using assms(2) find_Ok(1) [OF assms(2)] by simp_all
  note ev = resourceEvent_Ok [OF 1(10) [unfolded Let_def]]
  show ?thesis
    using 1(3,4,11) ev len unfolding i'
    by (auto simp: Let_def ReporterResource_Update_counters SetTimestamps_def ReportEvent_ReporterResourceKey_def
        NewReporterId_def rrk_reporterType_def rrk_reporterInstanceId_def)
qed

section \<open>Error conditions\<close>

text \<open>When a report is accepted. \<open>Resource.Update\<close> succeeds exactly when some reporter
  resource matches the key (case-insensitively, an empty instance id of the key matching any) and the
  representations are admissible: at least one is given, a reporter representation is not a nil map
  and its reporter resource has an id, and common data is not empty and comes with a non-blank
  reporter type and instance. When it fails, no report event is replaced and no delete event is added.\<close>

lemma Update_succeeds_iff:
  "(snd (Resource_Update now1 now2 key api console rv rd cd tx r) = None \<longleftrightarrow>
     (\<exists>i. findReporterResourceToUpdateByKey r key = Inr i \<and>
        event_args_ok (rr_resourceID (res_reporterResources r ! i)) (rrk_reporterType key)
          (rrk_reporterInstanceId key) (rr_id (res_reporterResources r ! i)) rd cd)) \<and>
   (snd (Resource_Update now1 now2 key api console rv rd cd tx r) = None \<or>
      res_resourceReportEvents (fst (Resource_Update now1 now2 key api console rv rd cd tx r)) = res_resourceReportEvents r \<and>
      res_resourceDeleteEvents (fst (Resource_Update now1 now2 key api console rv rd cd tx r)) = res_resourceDeleteEvents r)"
proof -
  obtain cv r1 where u: "update_common_version cd r = (cv, r1)" by fastforce
  have f: "findReporterResourceToUpdateByKey r1 key = findReporterResourceToUpdateByKey r key"
    and r1: "res_reporterResources r1 = res_reporterResources r"
      "res_resourceReportEvents r1 = res_resourceReportEvents r"
      "res_resourceDeleteEvents r1 = res_resourceDeleteEvents r"
    using u update_common_version_frame [of cd r] find_update_common_version [of cd r key] by simp_all
  show ?thesis
  proof (cases "findReporterResourceToUpdateByKey r key")
    case (Inl e)
    then show ?thesis using u f r1 by (simp add: Resource_Update_def)
  next
    case (Inr i)
    let ?rr = "ReporterResource_Update now1 api console (res_reporterResources r ! i)"
    let ?m = "resourceEventAndRepresentations (rr_resourceID ?rr) (rrk_resourceType key)
       (rrk_reporterType key) (rrk_reporterInstanceId key) tx (rrk_localResourceID key)
       (rr_id ?rr) api console rd cd rv (rr_representationVersion ?rr) (rr_generation ?rr) cv"
    have "is_ok ?m \<longleftrightarrow> event_args_ok (rr_resourceID (res_reporterResources r ! i)) (rrk_reporterType key)
          (rrk_reporterInstanceId key) (rr_id (res_reporterResources r ! i)) rd cd"
      by (simp add: resourceEvent_Ok_iff)
    then show ?thesis using u f r1 Inr by (cases ?m) (auto simp: Resource_Update_def Let_def)
  qed
qed

text \<open>When a resource is created. \<open>NewResource\<close> succeeds exactly when a representation is given
  (a missing reporter representation beside a common one counts as the empty object), the reporter
  representation is not a nil map and the reporter resource id is not nil, and common data, when
  given, is not empty and comes with a non-nil resource id, reporter type and instance. The new
  resource has one live reporter resource at version 0 of generation 0, and common version 0
  exactly when common data was given.\<close>

lemma NewResource_succeeds_iff:
  "(case NewResource now1 now2 i l rt rep inst tx rrId api console rd cd rv of
      Inl e \<Rightarrow> \<not> event_args_ok i rep inst rrId (if rd = None \<and> cd \<noteq> None then Some (Some []) else rd) cd
    | Inr r \<Rightarrow> event_args_ok i rep inst rrId (if rd = None \<and> cd \<noteq> None then Some (Some []) else rd) cd \<and>
        wf_resource r \<and> res_id r = i \<and> map rep_key (res_reporterResources r) = [(rrId, 0, 0)] \<and>
        map rr_tombstone (res_reporterResources r) = [False] \<and>
        res_commonVersion r = (if cd = None then None else Some 0) \<and>
        res_lastCommonVersion r = res_commonVersion r \<and>
        map re_commonRepresentation (res_resourceReportEvents r) = [map_option (\<lambda>d.
          \<lparr>cr_data = d, cr_resourceId = i, cr_version = 0, cr_reporter = NewReporterId rep inst,
           cr_transactionId = tx\<rparr>) cd])"
proof (cases "NewResource now1 now2 i l rt rep inst tx rrId api console rd cd rv")
  case (Inl e)
  then show ?thesis
    using NewResource_Ok_iff [of now1 now2 i l rt rep inst tx rrId api console rd cd rv] by simp
next
  case (Inr r)
  note N = NewResource_Ok [OF Inr]
  obtain ev where ev: "res_resourceReportEvents r = [SetTimestamps now2 now2 ev]"
    and ok: "resourceEventAndRepresentations i rt rep inst tx l rrId api console
        (if rd = None \<and> cd \<noteq> None then Some (Some []) else rd) cd rv 0 0
        (if has_common cd then Some 0 else None) = Inr ev"
    using N(8) by blast
  note E = resourceEvent_Ok [OF ok]
  have "has_common cd \<longleftrightarrow> cd \<noteq> None"
    using E(1) by (auto simp: event_args_ok_def has_common_def)
  then show ?thesis
    using Inr N(1,2,5,6,7) ev E(1,9) by (simp add: rep_key_def SetTimestamps_def)
qed

section \<open>Snapshot round trip\<close>

lemma ReporterResource_roundtrip [simp]:
  "DeserializeReporterResource (ReporterResource_Serialize rr) = rr"
  by (cases rr) (auto simp: DeserializeReporterResource_def ReporterResource_Serialize_def serde
      DeserializeReporterResourceKey_def DeserializeReporterId_def rrk_reporterType_def
      rrk_reporterInstanceId_def split: option.splits)

lemma CommonRepresentation_roundtrip [simp]:
  "DeserializeCommonRepresentation (CommonRepresentation_Serialize now cr) = cr"
  by (cases cr) (simp add: DeserializeCommonRepresentation_def CommonRepresentation_Serialize_def
      ReporterId_Serialize_def serde)

lemma ReporterRepresentation_roundtrip [simp]:
  "DeserializeReporterDataRepresentation (Some (ReporterRepresentation_Serialize now rr)) = Some rr"
  by (cases rr) (auto simp: DeserializeReporterDataRepresentation_def ReporterRepresentation_Serialize_def
      serde split: option.splits)

text \<open>Persistence round trip. For a resource with one reporter resource, one report event and no
  pending delete event (the state after a report), \<open>DeserializeResource\<close> of the four snapshots of
  \<open>Serialize\<close> restores the aggregate: identity, type, both common versions, token, reporter resource,
  and the representations and timestamps of the event; the other fields of the event are not stored.\<close>

lemma Resource_snapshot_roundtrip:
  assumes "res_reporterResources r = [rr]" "res_resourceReportEvents r = [ev]" "res_resourceDeleteEvents r = []"
  shows "(case Resource_Serialize now r of (rs, rrs, rps, crs) \<Rightarrow> DeserializeResource (Some rs) [rrs] rps crs) =
    Some (r\<lparr>res_resourceReportEvents := [zero_report_event
      \<lparr>re_reporterRepresentation := re_reporterRepresentation ev,
       re_commonRepresentation := re_commonRepresentation ev,
       re_createdAt := re_createdAt ev, re_updatedAt := re_updatedAt ev\<rparr>]\<rparr>)"
proof -
  have "DeserializeReporterDataRepresentation (map_option (ReporterRepresentation_Serialize now) x) = x" for x
    by (cases x) (simp_all add: DeserializeReporterDataRepresentation_def [of None])
  moreover have "(case map_option (CommonRepresentation_Serialize now) x of
      None \<Rightarrow> None | Some s \<Rightarrow> Some (DeserializeCommonRepresentation s)) = x" for x
    by (cases x) simp_all
  ultimately show ?thesis
    using assms by (cases r) (auto simp: Resource_Serialize_def DeserializeResource_def Let_def GetTimestamps_def
        DeserializeResourceEvent_def serde split: option.splits)
qed

end
