(* ===== verification/Resource_Repository.thy ===== *)
theory Resource_Repository
  imports Resource_Aggregate Relations_Tuples "HOL-Library.Product_Lexorder"
begin

text \<open>
  Persistence: \<open>internal/data/resource_repository.go\<close>, the row types of \<open>internal/data/model\<close>,
  the outbox (\<open>internal/biz/model_legacy/outboxevents.go\<close>,
  \<open>internal/data/outboxeventsrepository.go\<close>) and the serializable transaction loop of
  \<open>internal/data/gorm_transaction_manager.go\<close>.

  The database is a record of tables, each a list of rows; the SQL queries written in the source
  are list comprehensions over them (joins, filters, \<open>MAX\<close>, \<open>ORDER BY\<close>). What GORM and PostgreSQL
  execute is not part of the sources: \<open>gorm_ops\<close> holds the primitives the code calls
  (\<open>tx.Save\<close>, \<open>tx.Create\<close> per table, \<open>pg_logical_emit_message\<close>, \<open>uuid.UUID.String\<close>), and the locale
  \<open>gorm_store\<close> the documented behaviour the theorems rely on.
\<close>

section \<open>Rows (\<open>internal/data/model\<close>)\<close>

record data_resource =
  dr_ID :: uuid
  dr_Type :: string
  dr_CommonVersion :: "uint option"
  dr_ConsistencyToken :: string
  dr_CreatedAt :: time
  dr_UpdatedAt :: time

text \<open>The other three row types have the fields of the snapshots, so the snapshot records serve as rows.\<close>

type_synonym data_reporter_resource = reporter_resource_snapshot
type_synonym data_reporter_representation = reporter_representation_snapshot
type_synonym data_common_representation = common_representation_snapshot

definition DeserializeResourceFromSnapshot :: "resource_snapshot \<Rightarrow> data_resource" where
  "DeserializeResourceFromSnapshot s =
     \<lparr>dr_ID = rs_ID s, dr_Type = rs_Type s, dr_CommonVersion = rs_CommonVersion s,
      dr_ConsistencyToken = rs_ConsistencyToken s, dr_CreatedAt = rs_CreatedAt s, dr_UpdatedAt = rs_UpdatedAt s\<rparr>"

definition DataResource_SerializeToSnapshot :: "data_resource \<Rightarrow> resource_snapshot" where
  "DataResource_SerializeToSnapshot r =
     \<lparr>rs_ID = dr_ID r, rs_Type = dr_Type r, rs_CommonVersion = dr_CommonVersion r, rs_LastCommonVersion = None,
      rs_ConsistencyToken = dr_ConsistencyToken r, rs_CreatedAt = dr_CreatedAt r, rs_UpdatedAt = dr_UpdatedAt r\<rparr>"

definition DeserializeReporterResourceFromSnapshot :: "reporter_resource_snapshot \<Rightarrow> data_reporter_resource" where
  "DeserializeReporterResourceFromSnapshot s =
     \<lparr>rrs_ID = rrs_ID s, rrs_Key = rrs_Key s, rrs_ResourceID = rrs_ResourceID s, rrs_APIHref = rrs_APIHref s,
      rrs_ConsoleHref = rrs_ConsoleHref s, rrs_RepresentationVersion = rrs_RepresentationVersion s,
      rrs_Generation = rrs_Generation s, rrs_Tombstone = rrs_Tombstone s, rrs_CreatedAt = rrs_CreatedAt s,
      rrs_UpdatedAt = rrs_UpdatedAt s\<rparr>"

definition DeserializeReporterRepresentationFromSnapshot ::
    "reporter_representation_snapshot \<Rightarrow> data_reporter_representation" where
  "DeserializeReporterRepresentationFromSnapshot s =
     \<lparr>rps_Data = rps_Data s, rps_ReporterResourceID = rps_ReporterResourceID s, rps_Version = rps_Version s,
      rps_Generation = rps_Generation s, rps_ReporterVersion = rps_ReporterVersion s,
      rps_CommonVersion = rps_CommonVersion s, rps_TransactionId = rps_TransactionId s,
      rps_Tombstone = rps_Tombstone s, rps_CreatedAt = rps_CreatedAt s\<rparr>"

definition DeserializeCommonRepresentationFromSnapshot ::
    "common_representation_snapshot \<Rightarrow> data_common_representation" where
  "DeserializeCommonRepresentationFromSnapshot s =
     \<lparr>crs_Data = crs_Data s, crs_ResourceId = crs_ResourceId s, crs_Version = crs_Version s,
      crs_ReportedByReporterType = crs_ReportedByReporterType s,
      crs_ReportedByReporterInstance = crs_ReportedByReporterInstance s,
      crs_TransactionId = crs_TransactionId s, crs_CreatedAt = crs_CreatedAt s\<rparr>"

lemma row_of_snapshot [simp]:
  "DeserializeReporterResourceFromSnapshot s1 = s1"
  "DeserializeReporterRepresentationFromSnapshot s2 = s2"
  "DeserializeCommonRepresentationFromSnapshot s3 = s3"
  by (simp_all add: DeserializeReporterResourceFromSnapshot_def
      DeserializeReporterRepresentationFromSnapshot_def DeserializeCommonRepresentationFromSnapshot_def)

lemma rows_of_snapshots [simp]:
  "map_option DeserializeReporterRepresentationFromSnapshot x = x"
  "map_option DeserializeCommonRepresentationFromSnapshot y = y"
  by (cases x; simp) (cases y; simp)

section \<open>Outbox\<close>

text \<open>The CloudEvent of a resource event, as the struct that is marshalled into the payload; the
  fixed strings of the source are fields too.\<close>

record resource_event_message =
  rem_Specversion :: string
  rem_Type :: string
  rem_Source :: string
  rem_Id :: string
  rem_Subject :: string
  rem_Time :: time
  rem_DataContentType :: string
  rem_MetadataId :: string
  rem_ResourceType :: string
  rem_CreatedAt :: "time option"
  rem_UpdatedAt :: "time option"
  rem_DeletedAt :: "time option"
  rem_WorkspaceId :: "string option"
  rem_ReporterInstanceId :: string
  rem_ReporterType :: string
  rem_ConsoleHref :: "string option"
  rem_ApiHref :: string
  rem_LocalResourceId :: string
  rem_ReporterVersion :: "string option"
  rem_ResourceData :: representation

datatype outbox_payload = EmptyPayload | TuplePayload json | ResourcePayload resource_event_message

datatype aggregate_type = TupleAggregateType | ResourceAggregateType

record outbox_event =
  oe_ID :: uuid
  oe_AggregateType :: aggregate_type
  oe_AggregateID :: string
  oe_Operation :: event_operation_type
  oe_TxId :: string
  oe_Payload :: outbox_payload

definition operation_string :: "event_operation_type \<Rightarrow> string" where
  "operation_string o1 = (case o1 of
     OperationTypeCreated \<Rightarrow> ''created'' | OperationTypeUpdated \<Rightarrow> ''updated'' | OperationTypeDeleted \<Rightarrow> ''deleted'')"

definition makeEventType :: "string \<Rightarrow> string \<Rightarrow> string \<Rightarrow> string" where
  "makeEventType eventType resourceType operation =
     ''redhat.inventory.'' @ eventType @ ''.'' @ resourceType @ ''.'' @ operation"

definition makeEventSubject :: "string \<Rightarrow> string \<Rightarrow> string \<Rightarrow> string" where
  "makeEventSubject eventType resourceType resourceId =
     ''/'' @ eventType @ ''/'' @ resourceType @ ''/'' @ resourceId"

text \<open>\<open>uuid_str\<close> is \<open>uuid.UUID.String\<close>, \<open>eventId\<close> the result of \<open>uuid.NewUUID\<close>, \<open>now\<close> of \<open>time.Now\<close>.\<close>

definition newResourceEvent ::
    "(uuid \<Rightarrow> string) \<Rightarrow> uuid result \<Rightarrow> time \<Rightarrow> event_operation_type \<Rightarrow> resource_report_event \<Rightarrow>
     resource_event_message result" where
  "newResourceEvent uuid_str newUUID now op re =
     bind_res newUUID (\<lambda>eventId.
     (let createdAt = (if op = OperationTypeCreated then Some (re_createdAt re) else None);
          updatedAt = (if op = OperationTypeUpdated then Some (re_updatedAt re) else None);
          deletedAt = (if op = OperationTypeDeleted then Some now else None);
          reportedTime = (case op of OperationTypeCreated \<Rightarrow> re_createdAt re
                          | OperationTypeUpdated \<Rightarrow> re_updatedAt re | OperationTypeDeleted \<Rightarrow> now)
      in Ok \<lparr>rem_Specversion = ''1.0'',
             rem_Type = makeEventType ''resources'' (re_resourceType re) (operation_string op),
             rem_Source = [], rem_Id = uuid_str eventId,
             rem_Subject = makeEventSubject ''resources'' (re_resourceType re) (uuid_str (re_id re)),
             rem_Time = reportedTime, rem_DataContentType = ''application/json'',
             rem_MetadataId = uuid_str (re_id re), rem_ResourceType = re_resourceType re,
             rem_CreatedAt = createdAt, rem_UpdatedAt = updatedAt, rem_DeletedAt = deletedAt,
             rem_WorkspaceId = ReportEvent_WorkspaceId re,
             rem_ReporterInstanceId = rid_reporterInstanceId (re_reporterId re),
             rem_ReporterType = rid_reporterType (re_reporterId re),
             rem_ConsoleHref = SerializeStringPtr (re_consoleHref re),
             rem_ApiHref = re_apiHref re, rem_LocalResourceId = re_localResourceId re,
             rem_ReporterVersion = SerializeStringPtr (ReportEvent_ReporterVersion re),
             rem_ResourceData = ReportEvent_Data re\<rparr>))"

definition convertResourceToResourceEvent ::
    "(uuid \<Rightarrow> string) \<Rightarrow> uuid result \<Rightarrow> time \<Rightarrow> resource_report_event \<Rightarrow> event_operation_type \<Rightarrow>
     outbox_payload result" where
  "convertResourceToResourceEvent uuid_str newUUID now re op =
     bind_res (wrap_err ''failed to create resource event'' (newResourceEvent uuid_str newUUID now op re))
       (\<lambda>m. Ok (ResourcePayload m))"

text \<open>The event is marshalled and decoded into a \<open>JsonObject\<close>, whose numbers are floats.\<close>

definition convertResourceToTupleEvent ::
    "reporter_resource_key \<Rightarrow> version option \<Rightarrow> version option \<Rightarrow> outbox_payload result" where
  "convertResourceToTupleEvent key cv rv =
     bind_res (wrap_err ''failed to create Tuple Event'' (NewTupleEvent key cv rv))
       (\<lambda>te. Ok (TuplePayload (json_floats (TupleEvent_MarshalJSON te))))"

definition NewOutboxEventsFromResourceEvent ::
    "(uuid \<Rightarrow> string) \<Rightarrow> uuid result \<Rightarrow> time \<Rightarrow> resource_event \<Rightarrow> event_operation_type \<Rightarrow> transaction_id \<Rightarrow>
     (outbox_event \<times> outbox_event) result" where
  "NewOutboxEventsFromResourceEvent uuid_str newUUID now ev op txid =
     bind_res (wrap_err ''failed to convert resource to tuple event''
                (convertResourceToTupleEvent (Event_ReporterResourceKey ev) (Event_CurrentCommonVersion ev)
                   (Event_CurrentReporterRepresentationVersion ev))) (\<lambda>tuplePayload.
     bind_res (case op of
                 OperationTypeDeleted \<Rightarrow> Ok EmptyPayload
               | _ \<Rightarrow> (case ev of
                        ReportEvent re \<Rightarrow> wrap_err ''failed to convert resource to payload''
                                            (convertResourceToResourceEvent uuid_str newUUID now re op)
                      | DeleteEvent _ \<Rightarrow> Err (Errorf ''expected ResourceReportEvent for create/update operation''))) (\<lambda>payload.
     Ok (\<lparr>oe_ID = uuid_Nil, oe_AggregateType = ResourceAggregateType, oe_AggregateID = uuid_str (Event_Id ev),
          oe_Operation = op, oe_TxId = [], oe_Payload = payload\<rparr>,
         \<lparr>oe_ID = uuid_Nil, oe_AggregateType = TupleAggregateType, oe_AggregateID = uuid_str (Event_Id ev),
          oe_Operation = op, oe_TxId = txid, oe_Payload = tuplePayload\<rparr>)))"

record wal_outbox_message =
  wal_ID :: string
  wal_AggregateType :: string
  wal_AggregateID :: string
  wal_Operation :: string
  wal_TxID :: string
  wal_Payload :: outbox_payload

type_synonym wal = "(string \<times> wal_outbox_message) list"

definition aggregate_string :: "aggregate_type \<Rightarrow> string" where
  "aggregate_string a = (case a of TupleAggregateType \<Rightarrow> ''kessel.tuples'' | ResourceAggregateType \<Rightarrow> ''kessel.resources'')"

definition mapOutboxEventToWALMessage ::
    "(uuid \<Rightarrow> string) \<Rightarrow> uuid result \<Rightarrow> outbox_event \<Rightarrow> wal_outbox_message result" where
  "mapOutboxEventToWALMessage uuid_str newV7 ev =
     bind_res (if oe_ID ev = uuid_Nil then wrap_err ''failed to generate uuid for WAL message'' newV7
               else Ok (oe_ID ev)) (\<lambda>i.
     Ok \<lparr>wal_ID = uuid_str i, wal_AggregateType = aggregate_string (oe_AggregateType ev),
         wal_AggregateID = oe_AggregateID ev, wal_Operation = operation_string (oe_Operation ev),
         wal_TxID = oe_TxId ev, wal_Payload = oe_Payload ev\<rparr>)"

text \<open>\<open>emit\<close> is \<open>pg_logical_emit_message(true, prefix, content)\<close> on the transaction's write-ahead log.\<close>

definition publishOutboxEventWAL ::
    "(uuid \<Rightarrow> string) \<Rightarrow> uuid result \<Rightarrow> (string \<Rightarrow> wal_outbox_message \<Rightarrow> wal \<Rightarrow> wal result) \<Rightarrow>
     outbox_event \<Rightarrow> wal \<Rightarrow> wal result" where
  "publishOutboxEventWAL uuid_str newV7 emit ev w =
     bind_res (wrap_err ''failed to create WAL message'' (mapOutboxEventToWALMessage uuid_str newV7 ev)) (\<lambda>m.
     wrap_err ''failed to emit WAL message'' (emit (aggregate_string (oe_AggregateType ev)) m w))"

definition publishNoOpOutboxEvent :: "outbox_event \<Rightarrow> wal \<Rightarrow> wal result" where
  "publishNoOpOutboxEvent ev w = Ok w"

definition SetOutboxPublisher ::
    "string \<Rightarrow> (outbox_event \<Rightarrow> wal \<Rightarrow> wal result) \<Rightarrow> outbox_event \<Rightarrow> wal \<Rightarrow> wal result" where
  "SetOutboxPublisher mode walPublisher =
     (if mode = ''wal'' then walPublisher else publishNoOpOutboxEvent)"

section \<open>The database and its primitives\<close>

record db =
  db_resource :: "data_resource list"
  db_reporter_resources :: "data_reporter_resource list"
  db_reporter_representations :: "data_reporter_representation list"
  db_common_representations :: "data_common_representation list"
  db_wal :: wal

record gorm_ops =
  g_save_resource :: "data_resource \<Rightarrow> data_resource list \<Rightarrow> data_resource list result"
  g_save_reporter_resource :: "data_reporter_resource \<Rightarrow> data_reporter_resource list \<Rightarrow> data_reporter_resource list result"
  g_create_reporter_representation ::
    "data_reporter_representation \<Rightarrow> data_reporter_representation list \<Rightarrow> data_reporter_representation list result"
  g_create_common_representation ::
    "data_common_representation \<Rightarrow> data_common_representation list \<Rightarrow> data_common_representation list result"
  g_publish :: "outbox_event \<Rightarrow> wal \<Rightarrow> wal result"
  g_uuid_string :: "uuid \<Rightarrow> string"

section \<open>Repository operations\<close>

definition NextResourceId :: "uuid result \<Rightarrow> resource_id result" where
  "NextResourceId newV7 = bind_res newV7 NewResourceId"

definition NextReporterResourceId :: "uuid result \<Rightarrow> reporter_resource_id result" where
  "NextReporterResourceId newV7 = bind_res newV7 NewReporterResourceId"

definition handleOutboxEvents ::
    "gorm_ops \<Rightarrow> uuid result \<Rightarrow> time \<Rightarrow> resource_event \<Rightarrow> event_operation_type \<Rightarrow> transaction_id \<Rightarrow> wal \<Rightarrow> wal result" where
  "handleOutboxEvents g newUUID now ev op txid w =
     bind_res (NewOutboxEventsFromResourceEvent (g_uuid_string g) newUUID now ev op txid) (\<lambda>(resourceMessage, tupleMessage).
     bind_res (g_publish g resourceMessage w) (\<lambda>w1.
     g_publish g tupleMessage w1))"

definition dup_or_wrap :: "string \<Rightarrow> go_error \<Rightarrow> go_error" where
  "dup_or_wrap ctx e =
     (if errors_Is e ErrDuplicatedKey then KratosError 400 ''NON-UNIQUE TRANSACTION ID'' else Wrap ctx e)"

definition create_row :: "string \<Rightarrow> ('r \<Rightarrow> 'r list \<Rightarrow> 'r list result) \<Rightarrow> 'r option \<Rightarrow> 'r list \<Rightarrow> 'r list result" where
  "create_row ctx create ro rows =
     (case ro of None \<Rightarrow> Ok rows
      | Some r \<Rightarrow> (case create r rows of Inl e \<Rightarrow> Err (dup_or_wrap ctx e) | Inr rows' \<Rightarrow> Ok rows'))"

definition Save ::
    "gorm_ops \<Rightarrow> uuid result \<Rightarrow> time \<Rightarrow> resource \<Rightarrow> event_operation_type \<Rightarrow> transaction_id \<Rightarrow> db \<Rightarrow> db result" where
  "Save g newUUID now r op txid d =
     (let (rs, rrs, rps, crs) = Resource_Serialize now r in
      bind_res (wrap_err ''failed to save resource''
                 (g_save_resource g (DeserializeResourceFromSnapshot rs) (db_resource d))) (\<lambda>t1.
      bind_res (wrap_err ''failed to save reporter resource''
                 (g_save_reporter_resource g (DeserializeReporterResourceFromSnapshot rrs) (db_reporter_resources d))) (\<lambda>t2.
      bind_res (create_row ''failed to save reporter representation'' (g_create_reporter_representation g)
                 (map_option DeserializeReporterRepresentationFromSnapshot rps) (db_reporter_representations d)) (\<lambda>t3.
      bind_res (create_row ''failed to save common representation'' (g_create_common_representation g)
                 (map_option DeserializeCommonRepresentationFromSnapshot crs) (db_common_representations d)) (\<lambda>t4.
      (let d1 = d\<lparr>db_resource := t1, db_reporter_resources := t2,
                  db_reporter_representations := t3, db_common_representations := t4\<rparr>;
           event = (case op of
                      OperationTypeDeleted \<Rightarrow> (case res_resourceDeleteEvents r of
                                                  [] \<Rightarrow> Ok None | e # _ \<Rightarrow> Ok (Some (DeleteEvent e)))
                    | _ \<Rightarrow> (case res_resourceReportEvents r of
                             [] \<Rightarrow> Err (Errorf ''panic: index out of range'') | e # _ \<Rightarrow> Ok (Some (ReportEvent e))))
       in bind_res event (\<lambda>eo.
          case eo of
            None \<Rightarrow> Ok d1
          | Some ev \<Rightarrow> bind_res (handleOutboxEvents g newUUID now ev op txid (db_wal d1)) (\<lambda>w.
                         Ok (d1\<lparr>db_wal := w\<rparr>)))))))))"

text \<open>The \<open>WHERE\<close> clauses of \<open>buildReporterResourceKeyQuery\<close>.\<close>

definition key_query :: "reporter_resource_key \<Rightarrow> data_reporter_resource \<Rightarrow> bool" where
  "key_query key rr \<longleftrightarrow>
     rks_LocalResourceID (rrs_Key rr) = SerializeString (rrk_localResourceID key) \<and>
     rks_ResourceType (rrs_Key rr) = SerializeString (rrk_resourceType key) \<and>
     rks_ReporterType (rrs_Key rr) = SerializeString (rrk_reporterType key) \<and>
     (SerializeString (rrk_reporterInstanceId key) = [] \<or>
      rks_ReporterInstanceID (rrs_Key rr) = SerializeString (rrk_reporterInstanceId key))"

definition max_version :: "uint list \<Rightarrow> uint option" where
  "max_version vs = (case vs of [] \<Rightarrow> None | v # vs' \<Rightarrow> Some (fold max vs' v))"

definition last_common_version :: "db \<Rightarrow> uuid \<Rightarrow> uint option" where
  "last_common_version d resId =
     max_version (map crs_Version (filter (\<lambda>cr. crs_ResourceId cr = resId) (db_common_representations d)))"

record find_resource_result =
  frr_rr :: data_reporter_resource
  frr_CommonVersion :: "uint option"
  frr_LastCommonVersion :: "uint option"
  frr_ResourceID :: uuid
  frr_ConsistencyToken :: string
  frr_CreatedAt :: time
  frr_UpdatedAt :: time

definition find_query :: "db \<Rightarrow> reporter_resource_key \<Rightarrow> find_resource_result list" where
  "find_query d key =
     [\<lparr>frr_rr = rr2, frr_CommonVersion = dr_CommonVersion res,
       frr_LastCommonVersion = last_common_version d (dr_ID res), frr_ResourceID = dr_ID res,
       frr_ConsistencyToken = dr_ConsistencyToken res, frr_CreatedAt = dr_CreatedAt res,
       frr_UpdatedAt = dr_UpdatedAt res\<rparr>.
      rr \<leftarrow> filter (key_query key) (db_reporter_resources d),
      rr2 \<leftarrow> filter (\<lambda>rr2. rrs_ResourceID rr2 = rrs_ResourceID rr) (db_reporter_resources d),
      res \<leftarrow> filter (\<lambda>res. dr_ID res = rrs_ResourceID rr2) (db_resource d)]"

definition order_key :: "find_resource_result \<Rightarrow> bool \<times> int \<times> int" where
  "order_key r = (rrs_Tombstone (frr_rr r), - Word.uint (rrs_RepresentationVersion (frr_rr r)),
                  - Word.uint (rrs_Generation (frr_rr r)))"

definition ToSnapshots :: "find_resource_result \<Rightarrow> resource_snapshot \<times> reporter_resource_snapshot" where
  "ToSnapshots r =
     (\<lparr>rs_ID = frr_ResourceID r, rs_Type = rks_ResourceType (rrs_Key (frr_rr r)),
       rs_CommonVersion = frr_CommonVersion r, rs_LastCommonVersion = frr_LastCommonVersion r,
       rs_ConsistencyToken = frr_ConsistencyToken r, rs_CreatedAt = frr_CreatedAt r, rs_UpdatedAt = frr_UpdatedAt r\<rparr>,
      \<lparr>rrs_ID = rrs_ID (frr_rr r), rrs_Key = rrs_Key (frr_rr r), rrs_ResourceID = frr_ResourceID r,
       rrs_APIHref = rrs_APIHref (frr_rr r), rrs_ConsoleHref = rrs_ConsoleHref (frr_rr r),
       rrs_RepresentationVersion = rrs_RepresentationVersion (frr_rr r),
       rrs_Generation = rrs_Generation (frr_rr r), rrs_Tombstone = rrs_Tombstone (frr_rr r),
       rrs_CreatedAt = frr_CreatedAt r, rrs_UpdatedAt = frr_UpdatedAt r\<rparr>)"

definition ToSnapshotsFromResults ::
    "find_resource_result list \<Rightarrow> resource_snapshot option \<times> reporter_resource_snapshot list" where
  "ToSnapshotsFromResults results =
     (case results of [] \<Rightarrow> (None, [])
      | r # _ \<Rightarrow> (Some (fst (ToSnapshots r)), map (snd \<circ> ToSnapshots) results))"

definition FindResourceByKeys :: "db \<Rightarrow> reporter_resource_key \<Rightarrow> resource option result" where
  "FindResourceByKeys d key =
     (let results = sort_key order_key (find_query d key) in
      if length results = 0 then Err (Sentinel ErrRecordNotFound)
      else (let (rs, rrs) = ToSnapshotsFromResults results
            in Ok (DeserializeResource rs rrs None None)))"

definition common_rows :: "db \<Rightarrow> reporter_resource_key \<Rightarrow> data_common_representation list" where
  "common_rows d key =
     [cr. rr \<leftarrow> filter (key_query key) (db_reporter_resources d),
          cr \<leftarrow> filter (\<lambda>cr. rrs_ResourceID rr = crs_ResourceId cr) (db_common_representations d)]"

fun versioned_loop ::
    "uint \<Rightarrow> data_common_representation list \<Rightarrow> representations option \<times> representations option \<Rightarrow>
     (representations option \<times> representations option) result" where
  "versioned_loop cv [] acc = Ok acc"
| "versioned_loop cv (row # rows) (current, previous) =
     bind_res (wrap_err ''failed to create representation''
                (NewRepresentations (crs_Data row) (Some (NewVersion (crs_Version row))) None None)) (\<lambda>rep.
     versioned_loop cv rows
       (if crs_Version row = cv then (Some rep, previous)
        else if cv > 0 \<and> crs_Version row = cv - 1 then (current, Some rep)
        else (current, previous)))"

text \<open>\<open>queryErr\<close> is the error of the database query, when it fails.\<close>

definition FindCurrentAndPreviousVersionedRepresentations ::
    "go_error option \<Rightarrow> db \<Rightarrow> reporter_resource_key \<Rightarrow> version option \<Rightarrow> event_operation_type \<Rightarrow>
     (representations option \<times> representations option) result" where
  "FindCurrentAndPreviousVersionedRepresentations queryErr d key cvo op =
     (case cvo of None \<Rightarrow> Ok (None, None)
      | Some cv \<Rightarrow> (case queryErr of
          Some e \<Rightarrow> Err (Wrap ''failed to find common representations by version'' e)
        | None \<Rightarrow>
          (let results = (if op = OperationTypeCreated
                          then filter (\<lambda>cr. crs_Version cr = cv) (common_rows d key)
                          else filter (\<lambda>cr. crs_Version cr = cv \<or> crs_Version cr = cv - 1) (common_rows d key))
           in versioned_loop cv results (None, None))))"

text \<open>\<open>Order("cr.version DESC").Limit(1).Scan\<close>: without a row \<open>Scan\<close> leaves the zero struct.\<close>

definition FindLatestRepresentations :: "go_error option \<Rightarrow> db \<Rightarrow> reporter_resource_key \<Rightarrow> representations result" where
  "FindLatestRepresentations queryErr d key = (case queryErr of
     Some e \<Rightarrow> Err (Wrap ''failed to find latest representations'' e)
   | None \<Rightarrow>
     (let (dat, v) = (case sort_key (\<lambda>cr. - Word.uint (crs_Version cr)) (common_rows d key) of
                        [] \<Rightarrow> (None, 0) | cr # _ \<Rightarrow> (crs_Data cr, crs_Version cr))
      in wrap_err ''failed to create representation'' (NewRepresentations dat (Some (NewVersion v)) None None)))"

definition HasTransactionIdBeenProcessed :: "db \<Rightarrow> transaction_id \<Rightarrow> bool" where
  "HasTransactionIdBeenProcessed d tid =
     (list_ex (\<lambda>r. rps_TransactionId r = tid) (db_reporter_representations d) \<or>
      list_ex (\<lambda>r. crs_TransactionId r = tid) (db_common_representations d))"

definition GetCurrentAndPreviousWorkspaceID :: "representations \<Rightarrow> representations \<Rightarrow> string \<times> string" where
  "GetCurrentAndPreviousWorkspaceID current previous = (WorkspaceID current, WorkspaceID previous)"

section \<open>Serializable transactions\<close>

text \<open>
  One attempt runs \<open>txFunc\<close> on the committed state and then commits; \<open>txFunc i\<close> and \<open>commit i\<close> are
  the outcomes of attempt \<open>i\<close> (a serialization conflict depends on concurrent transactions). The
  result is the committed state or the error with the state of before: \<open>tx.Rollback()\<close>
  discards the attempt. \<open>isSer\<close> is \<open>isSerializationFailure\<close>, which reads driver error codes.
\<close>

function tx_loop ::
    "nat \<Rightarrow> (go_error \<Rightarrow> bool) \<Rightarrow> (nat \<Rightarrow> 's \<Rightarrow> 's result) \<Rightarrow> (nat \<Rightarrow> go_error option) \<Rightarrow> nat \<Rightarrow> go_error \<Rightarrow> 's \<Rightarrow> 's result" where
  "tx_loop maxRetries isSer txFunc commit i lastErr s =
     (if i < maxRetries then
        (case txFunc i s of
           Inl e \<Rightarrow> if isSer e then tx_loop maxRetries isSer txFunc commit (i + 1) e s
                    else Err (Wrap ''transaction failed'' e)
         | Inr s' \<Rightarrow>
             (case commit i of
                Some e \<Rightarrow> if isSer e then tx_loop maxRetries isSer txFunc commit (i + 1) e s
                          else Err (Wrap ''committing transaction failed'' e)
              | None \<Rightarrow> Ok s'))
      else Err (Wrap ''transaction failed after attempts'' lastErr))"
  by pat_completeness auto
termination by (relation "measure (\<lambda>(m, _, _, _, i, _, _). m - i)") auto

declare tx_loop.simps [simp del]

definition HandleSerializableTransaction ::
    "nat \<Rightarrow> (go_error \<Rightarrow> bool) \<Rightarrow> (nat \<Rightarrow> 's \<Rightarrow> 's result) \<Rightarrow> (nat \<Rightarrow> go_error option) \<Rightarrow> 's \<Rightarrow> 's result" where
  "HandleSerializableTransaction maxRetries isSer txFunc commit s =
     tx_loop maxRetries isSer txFunc commit 0 (Errorf ''nil'') s"

section \<open>The contract of the primitives\<close>

text \<open>
  \<open>tx.Save\<close> of a row with a primary key replaces the row with that key or inserts it; \<open>tx.Create\<close>
  inserts a row unless it violates the primary key or a unique index of the table (the
  transaction id is unique among the non-empty ones), in which case it reports
  \<open>ErrDuplicatedKey\<close>; a transactional logical message is appended to the log. Every primitive may
  also fail.
\<close>

definition same_rep_key :: "data_reporter_representation \<Rightarrow> data_reporter_representation \<Rightarrow> bool" where
  "same_rep_key a b \<longleftrightarrow> rps_ReporterResourceID a = rps_ReporterResourceID b \<and> rps_Version a = rps_Version b \<and>
     rps_Generation a = rps_Generation b"

definition same_common_key :: "data_common_representation \<Rightarrow> data_common_representation \<Rightarrow> bool" where
  "same_common_key a b \<longleftrightarrow> crs_ResourceId a = crs_ResourceId b \<and> crs_Version a = crs_Version b"

definition same_txid :: "string \<Rightarrow> string \<Rightarrow> bool" where
  "same_txid a b \<longleftrightarrow> a \<noteq> [] \<and> a = b"

definition wal_entry :: "string \<Rightarrow> outbox_event \<Rightarrow> string \<times> wal_outbox_message" where
  "wal_entry i ev = (aggregate_string (oe_AggregateType ev),
     \<lparr>wal_ID = i, wal_AggregateType = aggregate_string (oe_AggregateType ev), wal_AggregateID = oe_AggregateID ev,
      wal_Operation = operation_string (oe_Operation ev), wal_TxID = oe_TxId ev, wal_Payload = oe_Payload ev\<rparr>)"

definition event_of :: "event_operation_type \<Rightarrow> resource \<Rightarrow> resource_event option" where
  "event_of op r = (if op = OperationTypeDeleted
     then (case res_resourceDeleteEvents r of [] \<Rightarrow> None | e # _ \<Rightarrow> Some (DeleteEvent e))
     else (case res_resourceReportEvents r of [] \<Rightarrow> None | e # _ \<Rightarrow> Some (ReportEvent e)))"

locale gorm_store =
  fixes g :: gorm_ops
  assumes save_resource: "g_save_resource g row t = Inr t' \<Longrightarrow>
      set t' = insert row {r \<in> set t. dr_ID r \<noteq> dr_ID row} \<and> (distinct (map dr_ID t) \<longrightarrow> distinct (map dr_ID t'))"
    and save_reporter_resource: "g_save_reporter_resource g rr u = Inr u' \<Longrightarrow>
      set u' = insert rr {r \<in> set u. rrs_ID r \<noteq> rrs_ID rr} \<and> (distinct (map rrs_ID u) \<longrightarrow> distinct (map rrs_ID u'))"
    and create_reporter_representation: "g_create_reporter_representation g rp v = Inr v' \<Longrightarrow>
      set v' = insert rp (set v) \<and> \<not> (\<exists>r \<in> set v. same_rep_key r rp \<or> same_txid (rps_TransactionId r) (rps_TransactionId rp))"
    and create_reporter_representation_dup: "g_create_reporter_representation g rp v = Inl e \<Longrightarrow>
      (\<exists>r \<in> set v. same_txid (rps_TransactionId r) (rps_TransactionId rp)) \<Longrightarrow> errors_Is e ErrDuplicatedKey"
    and create_common_representation: "g_create_common_representation g cr w = Inr w' \<Longrightarrow>
      set w' = insert cr (set w) \<and> \<not> (\<exists>r \<in> set w. same_common_key r cr \<or> same_txid (crs_TransactionId r) (crs_TransactionId cr)) \<and>
      (distinct w \<longrightarrow> distinct w')"
    and create_common_representation_dup: "g_create_common_representation g cr w = Inl e \<Longrightarrow>
      (\<exists>r \<in> set w. same_txid (crs_TransactionId r) (crs_TransactionId cr)) \<Longrightarrow> errors_Is e ErrDuplicatedKey"
    and publish: "g_publish g ev l = Inr l' \<Longrightarrow> \<exists>i. l' = l @ [wal_entry i ev]"
begin

lemma create_row_common:
  assumes "create_row ctx (g_create_common_representation g) ro w = Inr w'"
  shows "set w' = set w \<union> set_option ro" "\<And>cr r. ro = Some cr \<Longrightarrow> r \<in> set w \<Longrightarrow> \<not> same_common_key r cr"
    "distinct w \<Longrightarrow> distinct w'"
  using assms create_common_representation by (fastforce simp: create_row_def split: option.splits sum.splits)+

lemma create_row_reporter:
  assumes "create_row ctx (g_create_reporter_representation g) ro w = Inr w'"
  shows "set w' = set w \<union> set_option ro" "\<And>rp r. ro = Some rp \<Longrightarrow> r \<in> set w \<Longrightarrow> \<not> same_rep_key r rp"
    "\<And>rp r. ro = Some rp \<Longrightarrow> r \<in> set w \<Longrightarrow> \<not> same_txid (rps_TransactionId r) (rps_TransactionId rp)"
  using assms create_reporter_representation by (fastforce simp: create_row_def split: option.splits sum.splits)+

text \<open>The tables after a successful \<open>Save\<close>.\<close>

lemma Save_tables:
  assumes "Save g newUUID now r op txid d = Inr d'" "Resource_Serialize now r = (rs, rrs, rps, crs)"
  shows "set (db_resource d') = insert (DeserializeResourceFromSnapshot rs) {x \<in> set (db_resource d). dr_ID x \<noteq> rs_ID rs}"
    and "distinct (map dr_ID (db_resource d)) \<Longrightarrow> distinct (map dr_ID (db_resource d'))"
    and "set (db_reporter_resources d') = insert rrs {x \<in> set (db_reporter_resources d). rrs_ID x \<noteq> rrs_ID rrs}"
    and "distinct (map rrs_ID (db_reporter_resources d)) \<Longrightarrow> distinct (map rrs_ID (db_reporter_resources d'))"
    and "set (db_reporter_representations d') = set (db_reporter_representations d) \<union> set_option rps"
    and "set (db_common_representations d') = set (db_common_representations d) \<union> set_option crs"
    and "\<And>cr x. crs = Some cr \<Longrightarrow> x \<in> set (db_common_representations d) \<Longrightarrow> \<not> same_common_key x cr"
    and "distinct (db_common_representations d) \<Longrightarrow> distinct (db_common_representations d')"
proof -
  from assms obtain t1 t2 t3 t4 where
    t: "g_save_resource g (DeserializeResourceFromSnapshot rs) (db_resource d) = Inr t1"
      "g_save_reporter_resource g rrs (db_reporter_resources d) = Inr t2"
      "create_row ''failed to save reporter representation'' (g_create_reporter_representation g)
         rps (db_reporter_representations d) = Inr t3"
      "create_row ''failed to save common representation'' (g_create_common_representation g)
         crs (db_common_representations d) = Inr t4"
    and d': "db_resource d' = t1" "db_reporter_resources d' = t2" "db_reporter_representations d' = t3"
      "db_common_representations d' = t4"
    by (auto simp: Save_def Let_def res_iffs split: option.splits)
  note L = save_resource [OF t(1)] save_reporter_resource [OF t(2)] create_row_reporter [OF t(3)]
    create_row_common [OF t(4)]
  have i: "dr_ID (DeserializeResourceFromSnapshot rs) = rs_ID rs"
    by (simp add: DeserializeResourceFromSnapshot_def)
  show "set (db_resource d') = insert (DeserializeResourceFromSnapshot rs) {x \<in> set (db_resource d). dr_ID x \<noteq> rs_ID rs}"
    "distinct (map dr_ID (db_resource d)) \<Longrightarrow> distinct (map dr_ID (db_resource d'))"
    "set (db_reporter_resources d') = insert rrs {x \<in> set (db_reporter_resources d). rrs_ID x \<noteq> rrs_ID rrs}"
    "distinct (map rrs_ID (db_reporter_resources d)) \<Longrightarrow> distinct (map rrs_ID (db_reporter_resources d'))"
    "set (db_reporter_representations d') = set (db_reporter_representations d) \<union> set_option rps"
    "set (db_common_representations d') = set (db_common_representations d) \<union> set_option crs"
    "\<And>cr x. crs = Some cr \<Longrightarrow> x \<in> set (db_common_representations d) \<Longrightarrow> \<not> same_common_key x cr"
    "distinct (db_common_representations d) \<Longrightarrow> distinct (db_common_representations d')"
    using L i d' by simp_all
qed

text \<open>The messages a successful \<open>Save\<close> appends: the resource message and the tuple message of the
  event, or nothing for a delete that had no effect.\<close>

lemma Save_wal:
  assumes "Save g newUUID now r op txid d = Inr d'"
  shows "case event_of op r of
     None \<Rightarrow> op = OperationTypeDeleted \<and> db_wal d' = db_wal d
   | Some ev \<Rightarrow> (\<exists>i j m te. NewTupleEvent (Event_ReporterResourceKey ev) (Event_CurrentCommonVersion ev)
           (Event_CurrentReporterRepresentationVersion ev) = Inr te \<and>
         db_wal d' = db_wal d @ [wal_entry i m,
           wal_entry j \<lparr>oe_ID = uuid_Nil, oe_AggregateType = TupleAggregateType,
             oe_AggregateID = g_uuid_string g (Event_Id ev), oe_Operation = op, oe_TxId = txid,
             oe_Payload = TuplePayload (json_floats (TupleEvent_MarshalJSON te))\<rparr>] \<and>
         oe_AggregateType m = ResourceAggregateType)"
proof (cases "event_of op r")
  case None
  then have "op = OperationTypeDeleted" "res_resourceDeleteEvents r = []"
    using assms by (auto simp: event_of_def Save_def Let_def res_iffs
        split: if_splits list.splits event_operation_type.splits prod.splits)
  with None assms show ?thesis by (auto simp: Save_def Let_def res_iffs split: prod.splits)
next
  case (Some ev)
  then have "\<exists>w. handleOutboxEvents g newUUID now ev op txid (db_wal d) = Inr w \<and> db_wal d' = w"
    using assms by (auto simp: event_of_def Save_def Let_def res_iffs
        split: if_splits list.splits event_operation_type.splits prod.splits)
  then obtain m t w1 where m: "NewOutboxEventsFromResourceEvent (g_uuid_string g) newUUID now ev op txid = Inr (m, t)"
    and w: "g_publish g m (db_wal d) = Inr w1" "g_publish g t w1 = Inr (db_wal d')"
    by (auto simp: handleOutboxEvents_def res_iffs)
  from m obtain te where te: "NewTupleEvent (Event_ReporterResourceKey ev) (Event_CurrentCommonVersion ev)
           (Event_CurrentReporterRepresentationVersion ev) = Inr te"
    and t: "t = \<lparr>oe_ID = uuid_Nil, oe_AggregateType = TupleAggregateType,
             oe_AggregateID = g_uuid_string g (Event_Id ev), oe_Operation = op, oe_TxId = txid,
             oe_Payload = TuplePayload (json_floats (TupleEvent_MarshalJSON te))\<rparr>"
    and "oe_AggregateType m = ResourceAggregateType"
    by (auto simp: NewOutboxEventsFromResourceEvent_def convertResourceToTupleEvent_def res_iffs)
  with publish [OF w(1)] publish [OF w(2)] Some show ?thesis by fastforce
qed

end

text \<open>A concrete store: upsert and insert on lists.\<close>

definition upsert :: "('r \<Rightarrow> 'k) \<Rightarrow> 'r \<Rightarrow> 'r list \<Rightarrow> 'r list result" where
  "upsert k row t = Ok (filter (\<lambda>r. k r \<noteq> k row) t @ [row])"

definition insert_unique :: "('r \<Rightarrow> 'r \<Rightarrow> bool) \<Rightarrow> 'r \<Rightarrow> 'r list \<Rightarrow> 'r list result" where
  "insert_unique dup row t = (if list_ex (\<lambda>r. dup r row) t then Err (Sentinel ErrDuplicatedKey) else Ok (t @ [row]))"

definition append_emit :: "string \<Rightarrow> wal_outbox_message \<Rightarrow> wal \<Rightarrow> wal result" where
  "append_emit prefix m w = Ok (w @ [(prefix, m)])"

definition table_ops :: gorm_ops where
  "table_ops =
     \<lparr>g_save_resource = upsert dr_ID, g_save_reporter_resource = upsert rrs_ID,
      g_create_reporter_representation = insert_unique (\<lambda>r x. same_rep_key r x \<or> same_txid (rps_TransactionId r) (rps_TransactionId x)),
      g_create_common_representation = insert_unique (\<lambda>r x. same_common_key r x \<or> same_txid (crs_TransactionId r) (crs_TransactionId x)),
      g_publish = publishOutboxEventWAL (\<lambda>_. ''u'') (Ok 1) append_emit,
      g_uuid_string = (\<lambda>_. ''u'')\<rparr>"

lemma insert_unique_Ok: "insert_unique dup row t = Inr t' \<longleftrightarrow> \<not> (\<exists>r \<in> set t. dup r row) \<and> t' = t @ [row]"
  by (auto simp: insert_unique_def list_ex_iff)

interpretation tables: gorm_store table_ops
proof unfold_locales
  fix ev :: outbox_event and l l' :: wal
  assume "g_publish table_ops ev l = Inr l'"
  then show "\<exists>i. l' = l @ [wal_entry i ev]"
    by (auto simp: table_ops_def publishOutboxEventWAL_def mapOutboxEventToWALMessage_def append_emit_def
        wal_entry_def res_iffs split: if_splits)
qed (auto simp: distinct_map_filter table_ops_def upsert_def insert_unique_Ok insert_unique_def
       list_ex_iff same_common_key_def split: if_splits)

end
