(* ===== verification/Repository_Laws.thy ===== *)
theory Repository_Laws
  imports Resource_Repository
begin

text \<open>
  Laws of the resource repository: the invariant of the tables, what the queries return on
  tables that satisfy it, and the history of common representations of a resource, which
  the consumer reads back version by version.
\<close>

section \<open>Table invariant\<close>

text \<open>
  Every reporter resource has a natural key, an id and a resource of its own; the versions of the
  common representations of a resource are exactly \<open>0..n\<close> without gaps, each with data; and the
  stored \<open>common_version\<close> is either cleared or the highest version.
\<close>

definition versions_of :: "db \<Rightarrow> uuid \<Rightarrow> version set" where
  "versions_of d i = crs_Version ` {cr \<in> set (db_common_representations d). crs_ResourceId cr = i}"

definition contiguous :: "db \<Rightarrow> uuid \<Rightarrow> bool" where
  "contiguous d i \<longleftrightarrow> (case last_common_version d i of None \<Rightarrow> versions_of d i = {} | Some v \<Rightarrow> versions_of d i = {..v})"

definition common_keys_unique :: "db \<Rightarrow> bool" where
  "common_keys_unique d \<longleftrightarrow> distinct (db_common_representations d) \<and>
     (\<forall>a \<in> set (db_common_representations d). \<forall>b \<in> set (db_common_representations d). same_common_key a b \<longrightarrow> a = b)"

definition db_inv :: "db \<Rightarrow> bool" where
  "db_inv d \<longleftrightarrow>
     distinct (map dr_ID (db_resource d)) \<and>
     distinct (map rrs_ID (db_reporter_resources d)) \<and>
     distinct (map rrs_Key (db_reporter_resources d)) \<and>
     distinct (map rrs_ResourceID (db_reporter_resources d)) \<and>
     rrs_ResourceID ` set (db_reporter_resources d) = dr_ID ` set (db_resource d) \<and>
     common_keys_unique d \<and>
     (\<forall>cr \<in> set (db_common_representations d). map_len (crs_Data cr) > 0 \<and> crs_ResourceId cr \<in> dr_ID ` set (db_resource d)) \<and>
     (\<forall>res \<in> set (db_resource d). contiguous d (dr_ID res) \<and>
        (dr_CommonVersion res = None \<or> dr_CommonVersion res = last_common_version d (dr_ID res)))"

definition empty_db :: db where
  "empty_db = \<lparr>db_resource = [], db_reporter_resources = [], db_reporter_representations = [],
     db_common_representations = [], db_wal = []\<rparr>"

lemma empty_db_inv: "db_inv empty_db"
  by (simp add: db_inv_def empty_db_def common_keys_unique_def)

section \<open>Highest version\<close>

lemma fold_max_mem: "fold max vs v \<in> insert v (set vs) \<and> (\<forall>u \<in> insert v (set vs). u \<le> fold max vs (v :: uint))"
proof (induction vs arbitrary: v)
  case (Cons u us)
  have "v \<le> max u v" "u \<le> max u v" by simp_all
  moreover have "max u v \<in> {u, v}" by (simp add: max_def)
  moreover note Cons.IH [of "max u v"]
  ultimately show ?case by (auto intro: order_trans)
qed simp

lemma max_version_None: "max_version vs = None \<longleftrightarrow> vs = []"
  by (cases vs) (simp_all add: max_version_def)

lemma max_version_Some: "max_version vs = Some m \<Longrightarrow> m \<in> set vs \<and> (\<forall>v \<in> set vs. v \<le> m)"
proof (cases vs)
  case (Cons v us)
  assume "max_version vs = Some m"
  with Cons have "m = fold max us v" by (simp add: max_version_def)
  with fold_max_mem [of us v] Cons show ?thesis by simp
qed (simp add: max_version_def)

lemma max_version_unique: "m \<in> set vs \<Longrightarrow> (\<And>v. v \<in> set vs \<Longrightarrow> v \<le> m) \<Longrightarrow> max_version vs = Some m"
  using max_version_Some [of vs] max_version_None [of vs] by (cases "max_version vs") (auto intro: order_antisym)

lemma versions_of_set: "versions_of d i = set (map crs_Version (filter (\<lambda>cr. crs_ResourceId cr = i) (db_common_representations d)))"
  by (auto simp: versions_of_def)

lemma last_common_version_None: "last_common_version d i = None \<longleftrightarrow> versions_of d i = {}"
  unfolding last_common_version_def max_version_None versions_of_set by (auto simp: filter_empty_conv)

lemma last_common_version_Some:
  "last_common_version d i = Some m \<longleftrightarrow> m \<in> versions_of d i \<and> (\<forall>v \<in> versions_of d i. v \<le> m)"
  unfolding last_common_version_def versions_of_set using max_version_Some max_version_unique by blast

text \<open>The highest version only depends on the set of rows.\<close>

lemma last_common_version_cong: "versions_of d i = versions_of d' i' \<Longrightarrow> last_common_version d i = last_common_version d' i'"
  using last_common_version_None last_common_version_Some by (metis not_None_eq)

lemma contiguous_extend:
  assumes "contiguous d i" "next_common_version (last_common_version d i) = v" "last_common_version d i \<noteq> Some max_uint"
    and "versions_of d' i = insert v (versions_of d i)"
  shows "last_common_version d' i = Some v" "contiguous d' i"
proof -
  have "versions_of d' i = {..v}"
  proof (cases "last_common_version d i")
    case None
    with assms show ?thesis by (auto simp: contiguous_def next_common_version_def)
  next
    case (Some l)
    with assms have "versions_of d' i = insert (l + 1) {..l}" "v = l + 1" "l \<noteq> max_uint"
      by (simp_all add: contiguous_def next_common_version_def)
    moreover have "insert (l + 1) {..l} = {..l + 1}"
    proof -
      have "x \<le> l + 1 \<longleftrightarrow> x = l + 1 \<or> x \<le> l" for x
        using unat_inc_uint [OF \<open>l \<noteq> max_uint\<close>] by (auto simp: word_le_nat_alt word_unat_eq_iff)
      then show ?thesis by auto
    qed
    ultimately show ?thesis by simp
  qed
  then show "last_common_version d' i = Some v" by (simp add: last_common_version_Some)
  with \<open>versions_of d' i = {..v}\<close> show "contiguous d' i" by (simp add: contiguous_def)
qed

section \<open>Queries on well-formed tables\<close>

definition key_snapshot :: "reporter_resource_key \<Rightarrow> reporter_resource_key_snapshot" where
  "key_snapshot key = \<lparr>rks_LocalResourceID = rrk_localResourceID key, rks_ReporterType = rrk_reporterType key,
     rks_ResourceType = rrk_resourceType key, rks_ReporterInstanceID = rrk_reporterInstanceId key\<rparr>"

lemma key_query_exact:
  "rrk_reporterInstanceId key \<noteq> [] \<Longrightarrow> key_query key rr \<longleftrightarrow> rrs_Key rr = key_snapshot key"
  by (cases rr; cases "rrs_Key rr") (auto simp: key_query_def key_snapshot_def serde)

lemma key_rows:
  assumes "db_inv d" "rrk_reporterInstanceId key \<noteq> []"
  shows "rr \<in> set (db_reporter_resources d) \<Longrightarrow> rrs_Key rr = key_snapshot key \<Longrightarrow>
      filter (key_query key) (db_reporter_resources d) = [rr]"
    and "(\<And>rr. rr \<in> set (db_reporter_resources d) \<Longrightarrow> rrs_Key rr \<noteq> key_snapshot key) \<Longrightarrow>
      filter (key_query key) (db_reporter_resources d) = []"
proof -
  have eq: "filter (key_query key) (db_reporter_resources d) =
      filter (\<lambda>rr. rrs_Key rr = key_snapshot key) (db_reporter_resources d)"
    by (rule filter_cong) (simp_all add: key_query_exact assms(2))
  show "rr \<in> set (db_reporter_resources d) \<Longrightarrow> rrs_Key rr = key_snapshot key \<Longrightarrow>
      filter (key_query key) (db_reporter_resources d) = [rr]"
    using distinct_map_filter_unique [of rrs_Key "db_reporter_resources d" rr] assms(1) by (simp add: eq db_inv_def)
  show "(\<And>rr. rr \<in> set (db_reporter_resources d) \<Longrightarrow> rrs_Key rr \<noteq> key_snapshot key) \<Longrightarrow>
      filter (key_query key) (db_reporter_resources d) = []"
    by (simp add: eq filter_empty_conv)
qed

text \<open>Well-formed tables in which a key belongs to resource \<open>i\<close>.\<close>

definition known_key :: "db \<Rightarrow> reporter_resource_key \<Rightarrow> uuid \<Rightarrow> bool" where
  "known_key d key i \<longleftrightarrow> db_inv d \<and> rrk_reporterInstanceId key \<noteq> [] \<and>
     (\<exists>rr \<in> set (db_reporter_resources d). rrs_Key rr = key_snapshot key \<and> rrs_ResourceID rr = i)"

definition loaded :: "db \<Rightarrow> data_resource \<Rightarrow> data_reporter_resource \<Rightarrow> resource" where
  "loaded d res rr =
     \<lparr>res_id = dr_ID res, res_resourceType = rks_ResourceType (rrs_Key rr), res_commonVersion = dr_CommonVersion res,
      res_lastCommonVersion = last_common_version d (dr_ID res), res_consistencyToken = dr_ConsistencyToken res,
      res_reporterResources = [DeserializeReporterResource
        (rr\<lparr>rrs_ResourceID := dr_ID res, rrs_CreatedAt := dr_CreatedAt res, rrs_UpdatedAt := dr_UpdatedAt res\<rparr>)],
      res_resourceReportEvents = [DeserializeResourceEvent None None (dr_CreatedAt res) (dr_UpdatedAt res)],
      res_resourceDeleteEvents = []\<rparr>"

lemma FindResourceByKeys_hit:
  assumes "db_inv d" "rrk_reporterInstanceId key \<noteq> []"
    and "rr \<in> set (db_reporter_resources d)" "rrs_Key rr = key_snapshot key"
  obtains res where "res \<in> set (db_resource d)" "dr_ID res = rrs_ResourceID rr"
    "FindResourceByKeys d key = Inr (Some (loaded d res rr))"
proof -
  have "rrs_ResourceID rr \<in> dr_ID ` set (db_resource d)"
    using assms(1,3) by (auto simp: db_inv_def)
  then obtain res where res: "res \<in> set (db_resource d)" "dr_ID res = rrs_ResourceID rr" by force
  have 1: "filter (\<lambda>rr2. rrs_ResourceID rr2 = rrs_ResourceID rr) (db_reporter_resources d) = [rr]"
    using assms(1,3) by (intro distinct_map_filter_unique) (simp_all add: db_inv_def)
  have 2: "filter (\<lambda>r. dr_ID r = rrs_ResourceID rr) (db_resource d) = [res]"
    using distinct_map_filter_unique [of dr_ID "db_resource d" res] assms(1) res by (simp add: db_inv_def)
  have q: "find_query d key = [\<lparr>frr_rr = rr, frr_CommonVersion = dr_CommonVersion res,
       frr_LastCommonVersion = last_common_version d (dr_ID res), frr_ResourceID = dr_ID res,
       frr_ConsistencyToken = dr_ConsistencyToken res, frr_CreatedAt = dr_CreatedAt res,
       frr_UpdatedAt = dr_UpdatedAt res\<rparr>]"
    unfolding find_query_def key_rows(1) [OF assms] by (simp add: 1 2)
  have "FindResourceByKeys d key = Inr (Some (loaded d res rr))"
    by (cases rr) (auto simp: FindResourceByKeys_def q ToSnapshotsFromResults_def ToSnapshots_def DeserializeResource_def
        loaded_def serde split: option.splits)
  with res that show ?thesis by blast
qed

lemma FindResourceByKeys_miss:
  assumes "db_inv d" "rrk_reporterInstanceId key \<noteq> []"
    and "\<And>rr. rr \<in> set (db_reporter_resources d) \<Longrightarrow> rrs_Key rr \<noteq> key_snapshot key"
  shows "FindResourceByKeys d key = Inl (Sentinel ErrRecordNotFound)"
  using key_rows(2) [OF assms] by (simp add: FindResourceByKeys_def find_query_def)

section \<open>Reading common representations back\<close>

definition rep_of_row :: "data_common_representation \<Rightarrow> representations" where
  "rep_of_row cr = \<lparr>reps_commonData = crs_Data cr, reps_commonVersion = Some (crs_Version cr),
     reps_reporterData = None, reps_reporterRepresentationVersion = None\<rparr>"

definition rep_at :: "db \<Rightarrow> uuid \<Rightarrow> version \<Rightarrow> representations option" where
  "rep_at d i v = (case filter (\<lambda>cr. crs_ResourceId cr = i \<and> crs_Version cr = v) (db_common_representations d) of
     [] \<Rightarrow> None | cr # _ \<Rightarrow> Some (rep_of_row cr))"

lemma NewRepresentations_row:
  "map_len (crs_Data cr) > 0 \<Longrightarrow> NewRepresentations (crs_Data cr) (Some (NewVersion (crs_Version cr))) None None = Inr (rep_of_row cr)"
  by (simp add: NewRepresentations_def rep_of_row_def serde Let_def)

lemma rows_at_version:
  assumes "common_keys_unique d"
  shows "length (filter (\<lambda>cr. crs_ResourceId cr = i \<and> crs_Version cr = v) (db_common_representations d)) \<le> 1"
proof -
  let ?xs = "filter (\<lambda>cr. crs_ResourceId cr = i \<and> crs_Version cr = v) (db_common_representations d)"
  have "distinct ?xs" "\<forall>a \<in> set ?xs. \<forall>b \<in> set ?xs. a = b"
    using assms by (auto simp: common_keys_unique_def same_common_key_def)
  then show ?thesis by (intro length_le_1_if_equal) auto
qed

lemma rep_at_None: "rep_at d i v = None \<longleftrightarrow> v \<notin> versions_of d i"
proof -
  have "rep_at d i v = None \<longleftrightarrow> filter (\<lambda>cr. crs_ResourceId cr = i \<and> crs_Version cr = v) (db_common_representations d) = []"
    by (simp add: rep_at_def split: list.splits)
  then show ?thesis by (auto simp: versions_of_def filter_empty_conv)
qed

lemma rep_at_row:
  assumes "common_keys_unique d" "cr \<in> set (db_common_representations d)"
  shows "rep_at d (crs_ResourceId cr) (crs_Version cr) = Some (rep_of_row cr)"
proof -
  let ?xs = "filter (\<lambda>x. crs_ResourceId x = crs_ResourceId cr \<and> crs_Version x = crs_Version cr) (db_common_representations d)"
  have "cr \<in> set ?xs" using assms(2) by simp
  then have "?xs = [cr]" by (rule singleton_list [OF rows_at_version [OF assms(1)]])
  then show ?thesis by (simp add: rep_at_def)
qed

lemma rep_at_SomeE:
  assumes "rep_at d i v = Some r"
  obtains cr where "cr \<in> set (db_common_representations d)" "crs_ResourceId cr = i" "crs_Version cr = v" "r = rep_of_row cr"
proof -
  let ?P = "\<lambda>cr. crs_ResourceId cr = i \<and> crs_Version cr = v"
  from assms obtain cr xs where f: "filter ?P (db_common_representations d) = cr # xs" and r: "r = rep_of_row cr"
    by (auto simp: rep_at_def split: list.splits)
  have "cr \<in> set (filter ?P (db_common_representations d))" unfolding f by simp
  then have "cr \<in> set (db_common_representations d)" "crs_ResourceId cr = i" "crs_Version cr = v" by simp_all
  from this r show ?thesis by (rule that)
qed

text \<open>Rows are only ever added: what was readable stays readable with the same content.\<close>

lemma rep_at_mono:
  assumes "common_keys_unique d" "common_keys_unique d'"
    "set (db_common_representations d) \<subseteq> set (db_common_representations d')" "rep_at d i v = Some r"
  shows "rep_at d' i v = Some r"
  using rep_at_SomeE [OF assms(4)] rep_at_row [OF assms(2)] assms(3) by blast

lemma versioned_loop_rows:
  assumes "\<forall>cr \<in> set rows. map_len (crs_Data cr) > 0"
  shows "versioned_loop cv rows (c, p) = Inr
    (case rev (filter (\<lambda>cr. crs_Version cr = cv) rows) of [] \<Rightarrow> c | cr # _ \<Rightarrow> Some (rep_of_row cr),
     case rev (filter (\<lambda>cr. crs_Version cr \<noteq> cv \<and> cv > 0 \<and> crs_Version cr = cv - 1) rows) of [] \<Rightarrow> p | cr # _ \<Rightarrow> Some (rep_of_row cr))"
  using assms
proof (induction rows arbitrary: c p)
  case (Cons row rows)
  then show ?case by (auto simp: NewRepresentations_row split: list.splits)
qed simp

lemma common_rows_key:
  assumes "db_inv d" "rrk_reporterInstanceId key \<noteq> []"
    and "rr \<in> set (db_reporter_resources d)" "rrs_Key rr = key_snapshot key"
  shows "common_rows d key = filter (\<lambda>cr. crs_ResourceId cr = rrs_ResourceID rr) (db_common_representations d)"
  unfolding common_rows_def key_rows(1) [OF assms] by (auto intro: filter_cong)

lemma last_of_singleton:
  assumes "length xs \<le> 1"
  shows "(case rev xs of [] \<Rightarrow> a | x # _ \<Rightarrow> f x) = (case xs of [] \<Rightarrow> a | x # _ \<Rightarrow> f x)"
  using assms by (rule length_le_1_cases) simp_all

lemma FindCurrentAndPrevious_eq:
  assumes "db_inv d" "rrk_reporterInstanceId key \<noteq> []"
    and "rr \<in> set (db_reporter_resources d)" "rrs_Key rr = key_snapshot key"
  shows "FindCurrentAndPreviousVersionedRepresentations None d key (Some cv) op =
    Inr (rep_at d (rrs_ResourceID rr) cv,
         if op = OperationTypeCreated \<or> cv = 0 then None else rep_at d (rrs_ResourceID rr) (cv - 1))"
proof -
  let ?C = "db_common_representations d" and ?i = "rrs_ResourceID rr"
  have ne: "\<forall>cr \<in> set ?C. map_len (crs_Data cr) > 0" and ku: "common_keys_unique d"
    using assms(1) by (simp_all add: db_inv_def)
  define rows where "rows = filter (\<lambda>cr. crs_Version cr = cv \<or> op \<noteq> OperationTypeCreated \<and> crs_Version cr = cv - 1)
    (filter (\<lambda>cr. crs_ResourceId cr = ?i) ?C)"
  have 1: "FindCurrentAndPreviousVersionedRepresentations None d key (Some cv) op = versioned_loop cv rows (None, None)"
    by (auto simp: FindCurrentAndPreviousVersionedRepresentations_def common_rows_key [OF assms] rows_def Let_def
        intro!: arg_cong [where f = "\<lambda>r. versioned_loop cv r (None, None)"] filter_cong)
  have f1: "filter (\<lambda>cr. crs_Version cr = cv) rows = filter (\<lambda>cr. crs_ResourceId cr = ?i \<and> crs_Version cr = cv) ?C"
    by (auto simp: rows_def intro: filter_cong)
  have f2: "filter (\<lambda>cr. crs_Version cr \<noteq> cv \<and> cv > 0 \<and> crs_Version cr = cv - 1) rows =
      (if op = OperationTypeCreated \<or> cv = 0 then []
       else filter (\<lambda>cr. crs_ResourceId cr = ?i \<and> crs_Version cr = cv - 1) ?C)"
    by (auto simp: rows_def word_gt_0 filter_empty_conv intro!: filter_cong)
  have "\<forall>cr \<in> set rows. map_len (crs_Data cr) > 0" using ne by (auto simp: rows_def)
  from versioned_loop_rows [OF this, of cv None None] show ?thesis
    unfolding 1 f1 f2 rep_at_def
    by (auto simp: last_of_singleton [OF rows_at_version [OF ku]] simp del: rev_filter)
qed

lemma sort_key_hd:
  assumes "sort_key f xs = x # ys"
  shows "x \<in> set xs" "\<And>y. y \<in> set xs \<Longrightarrow> f x \<le> f y"
proof -
  have s: "set (x # ys) = set xs" "sorted (map f (x # ys))" using assms by (metis set_sort, metis sorted_sort_key)
  then show "x \<in> set xs" by auto
  show "f x \<le> f y" if "y \<in> set xs" for y using that s by (metis dual_order.refl image_eqI list.simps(9) set_ConsD set_map sorted_simps(2))
qed

text \<open>The latest representation is the one with the highest version; without any version the lookup
  fails, as the zero row has no data.\<close>

lemma FindLatestRepresentations_eq:
  assumes "db_inv d" "rrk_reporterInstanceId key \<noteq> []"
    and "rr \<in> set (db_reporter_resources d)" "rrs_Key rr = key_snapshot key"
  shows "last_common_version d (rrs_ResourceID rr) = Some l \<Longrightarrow>
      \<exists>r. rep_at d (rrs_ResourceID rr) l = Some r \<and> FindLatestRepresentations None d key = Inr r"
    and "last_common_version d (rrs_ResourceID rr) = None \<Longrightarrow> \<exists>e. FindLatestRepresentations queryErr d key = Inl e"
proof -
  let ?i = "rrs_ResourceID rr" and ?f = "\<lambda>cr. - Word.uint (crs_Version cr)"
  let ?rows = "filter (\<lambda>cr. crs_ResourceId cr = ?i) (db_common_representations d)"
  have ku: "common_keys_unique d" and ne: "\<And>cr. cr \<in> set (db_common_representations d) \<Longrightarrow> map_len (crs_Data cr) > 0"
    using assms(1) by (simp_all add: db_inv_def)
  show "\<exists>r. rep_at d ?i l = Some r \<and> FindLatestRepresentations None d key = Inr r" if l: "last_common_version d ?i = Some l"
  proof -
    have "?rows \<noteq> []" using l by (auto simp: last_common_version_def max_version_def)
    then obtain cr rest where cr: "sort_key ?f ?rows = cr # rest"
      by (metis list.exhaust set_empty set_sort)
    note hd = sort_key_hd [OF cr]
    have "crs_Version cr = l"
    proof (rule antisym)
      show "crs_Version cr \<le> l" using l hd(1) by (auto simp: last_common_version_Some versions_of_def)
      obtain cr' where "cr' \<in> set ?rows" "crs_Version cr' = l" using l by (auto simp: last_common_version_Some versions_of_def)
      with hd(2) [of cr'] show "l \<le> crs_Version cr" by (simp add: word_le_def)
    qed
    with rep_at_row [OF ku, of cr] hd(1) have "rep_at d ?i l = Some (rep_of_row cr)" by auto
    moreover have "FindLatestRepresentations None d key = Inr (rep_of_row cr)"
      using ne [of cr] hd(1) by (simp add: FindLatestRepresentations_def common_rows_key [OF assms] cr NewRepresentations_row)
    ultimately show ?thesis by blast
  qed
  show "\<exists>e. FindLatestRepresentations queryErr d key = Inl e" if "last_common_version d ?i = None"
  proof -
    have "?rows = []" using that by (auto simp: last_common_version_def max_version_None)
    then show ?thesis
      by (simp add: FindLatestRepresentations_def common_rows_key [OF assms] NewRepresentations_def Let_def split: option.split)
  qed
qed

section \<open>Serializable transactions\<close>

text \<open>The state of an attempt that commits, and the errors that make the loop try again.\<close>

definition tx_conflict :: "(go_error \<Rightarrow> bool) \<Rightarrow> (nat \<Rightarrow> 's \<Rightarrow> 's result) \<Rightarrow> (nat \<Rightarrow> go_error option) \<Rightarrow> 's \<Rightarrow> nat \<Rightarrow> bool" where
  "tx_conflict isSer txFunc commit s i = (case txFunc i s of Inl e \<Rightarrow> isSer e | Inr _ \<Rightarrow> (case commit i of Some e \<Rightarrow> isSer e | None \<Rightarrow> False))"

definition tx_commits :: "(nat \<Rightarrow> 's \<Rightarrow> 's result) \<Rightarrow> (nat \<Rightarrow> go_error option) \<Rightarrow> 's \<Rightarrow> nat \<Rightarrow> 's \<Rightarrow> bool" where
  "tx_commits txFunc commit s i s' \<longleftrightarrow> txFunc i s = Inr s' \<and> commit i = None"

lemma tx_loop_Ok_iff:
  "tx_loop m isSer txFunc commit i le s = Inr s' \<longleftrightarrow>
     (\<exists>k. i \<le> k \<and> k < m \<and> (\<forall>j. i \<le> j \<and> j < k \<longrightarrow> tx_conflict isSer txFunc commit s j) \<and> tx_commits txFunc commit s k s')"
  (is "?L i le \<longleftrightarrow> (\<exists>k. ?R i k)")
proof (induction "m - i" arbitrary: i le)
  case 0
  then show ?case by (subst tx_loop.simps) auto
next
  case (Suc n)
  then have im: "i < m" and IH: "\<And>le. ?L (Suc i) le \<longleftrightarrow> (\<exists>k. ?R (Suc i) k)" by auto
  have split: "(\<exists>k. ?R i k) \<longleftrightarrow> tx_commits txFunc commit s i s' \<or> tx_conflict isSer txFunc commit s i \<and> (\<exists>k. ?R (Suc i) k)"
  proof
    assume "\<exists>k. ?R i k"
    then obtain k where k: "?R i k" ..
    show "tx_commits txFunc commit s i s' \<or> tx_conflict isSer txFunc commit s i \<and> (\<exists>k. ?R (Suc i) k)"
    proof (cases "k = i")
      case False
      with k have "tx_conflict isSer txFunc commit s i" "?R (Suc i) k" by simp_all
      then show ?thesis by blast
    qed (use k in simp)
  next
    assume "tx_commits txFunc commit s i s' \<or> tx_conflict isSer txFunc commit s i \<and> (\<exists>k. ?R (Suc i) k)"
    then show "\<exists>k. ?R i k"
    proof (elim disjE conjE exE)
      assume "tx_commits txFunc commit s i s'"
      then have "?R i i" using im by auto
      then show ?thesis ..
    next
      fix k assume c: "tx_conflict isSer txFunc commit s i" and k: "Suc i \<le> k" "k < m"
        "\<forall>j. Suc i \<le> j \<and> j < k \<longrightarrow> tx_conflict isSer txFunc commit s j" "tx_commits txFunc commit s k s'"
      have "tx_conflict isSer txFunc commit s j" if "i \<le> j" "j < k" for j
        using that c k(3) by (cases "j = i") auto
      then have "?R i k" using k by simp
      then show ?thesis ..
    qed
  qed
  have "?L i le \<longleftrightarrow> tx_commits txFunc commit s i s' \<or> tx_conflict isSer txFunc commit s i \<and> (\<exists>le. ?L (Suc i) le)"
    by (subst tx_loop.simps) (use im IH in \<open>auto simp: tx_commits_def tx_conflict_def split: sum.splits option.splits\<close>)
  with split IH show ?case by simp
qed

text \<open>C35. A serializable transaction has one atomic outcome: it succeeds exactly when some allowed attempt runs to a
  commit and every attempt before it failed with a serialization conflict, and then the new state is that
  of this one attempt on the state of before, nothing of the aborted attempts.\<close>

theorem transaction_atomic:
  "HandleSerializableTransaction m isSer txFunc commit s = Inr s' \<longleftrightarrow>
     (\<exists>k<m. tx_commits txFunc commit s k s' \<and> list_all (tx_conflict isSer txFunc commit s) [0..<k])"
  unfolding HandleSerializableTransaction_def tx_loop_Ok_iff by (auto simp: list_all_iff)

end
