(* ===== verification/Schema_Registry.thy ===== *)
theory Schema_Registry
  imports Relations_Tuples
begin

text \<open>
  The schema registry: \<open>internal/data/inmemory_schema_repository.go\<close> (the repository and its
  construction from JSON), \<open>schema_jsonschema_with_workspaces.go\<close> and
  \<open>schema_json_with_relations.go\<close> (validation), and the domain service
  \<open>internal/biz/model/schema_service.go\<close>. The interface \<open>SchemaRepository\<close> is the locale
  \<open>schema_repository\<close>, interpreted on the in-memory repository.

  The JSON schema validator (\<open>github.com/xeipuuv/gojsonschema\<close>) is the argument \<open>gjs\<close>: given
  the schema text and the data it returns an error (the schema or the data cannot be
  loaded) or the list of validation errors.
\<close>

section \<open>Schema representations\<close>

record resource_schema_representation =
  rsr_resourceType :: resource_type
  rsr_schema :: "schema option"

record reporter_schema_representation =
  psr_resourceType :: resource_type
  psr_reporterType :: reporter_type
  psr_schema :: "schema option"

definition NewResourceSchemaRepresentation ::
    "resource_type \<Rightarrow> schema option \<Rightarrow> resource_schema_representation result" where
  "NewResourceSchemaRepresentation rt s =
     (if rt = [] then Err (Errorf ''resource type is required'')
      else Ok \<lparr>rsr_resourceType = rt, rsr_schema = s\<rparr>)"

definition NewReporterSchemaRepresentation ::
    "resource_type \<Rightarrow> reporter_type \<Rightarrow> schema option \<Rightarrow> reporter_schema_representation result" where
  "NewReporterSchemaRepresentation rt rep s =
     (if rt = [] then Err (Errorf ''resource type is required'')
      else if rep = [] then Err (Errorf ''reporter type is required'')
      else Ok \<lparr>psr_resourceType = rt, psr_reporterType = rep, psr_schema = s\<rparr>)"

section \<open>Validation\<close>

type_synonym gojsonschema = "string \<Rightarrow> json_object \<Rightarrow> string list result"

definition validateJsonSchema :: "gojsonschema \<Rightarrow> string \<Rightarrow> json_object \<Rightarrow> bool result" where
  "validateJsonSchema gjs js d =
     (case gjs js d of
        Inl e \<Rightarrow> Err (Wrap ''validation error'' e)
      | Inr msgs \<Rightarrow> if msgs \<noteq> [] then Err (Errorf ''validation failed'') else Ok True)"

definition Schema_Validate :: "gojsonschema \<Rightarrow> schema \<Rightarrow> json_object \<Rightarrow> bool result" where
  "Schema_Validate gjs s d = (case s of
     DefaultSchema \<Rightarrow> Ok True
   | JsonSchemaWithWorkspaces js \<Rightarrow> validateJsonSchema gjs js d
   | JsonSchemaWithRelations js _ \<Rightarrow> validateJsonSchema gjs js d)"

section \<open>The in-memory repository\<close>

text \<open>Go maps are association lists, updated and deleted with the library's \<open>AList\<close> functions, so
  that the repository is executable; the order of the entries plays no role in the lookups.\<close>

record resource_entry =
  ent_schema :: resource_schema_representation
  ent_reporters :: "(reporter_type \<times> reporter_schema_representation) list"

type_synonym schema_content = "(resource_type \<times> resource_entry) list"

definition NewInMemorySchemaRepository :: schema_content where
  "NewInMemorySchemaRepository = []"

definition GetResourceSchemas :: "schema_content \<Rightarrow> resource_type list" where
  "GetResourceSchemas c = map fst c"

text \<open>An operation that changes the content returns the new content, or the error and no change.\<close>

definition CreateResourceSchema :: "schema_content \<Rightarrow> resource_schema_representation \<Rightarrow> schema_content result" where
  "CreateResourceSchema c r =
     (case map_of c (rsr_resourceType r) of
        Some _ \<Rightarrow> Err (Errorf ''resource already exists'')
      | None \<Rightarrow> Ok (AList.update (rsr_resourceType r) \<lparr>ent_schema = r, ent_reporters = []\<rparr> c))"

definition GetResourceSchema :: "schema_content \<Rightarrow> resource_type \<Rightarrow> resource_schema_representation result" where
  "GetResourceSchema c rt =
     (case map_of c rt of None \<Rightarrow> Err (Sentinel ErrResourceSchemaNotFound) | Some e \<Rightarrow> Ok (ent_schema e))"

definition UpdateResourceSchema :: "schema_content \<Rightarrow> resource_schema_representation \<Rightarrow> schema_content result" where
  "UpdateResourceSchema c r =
     (case map_of c (rsr_resourceType r) of
        None \<Rightarrow> Err (Sentinel ErrResourceSchemaNotFound)
      | Some e \<Rightarrow> Ok (AList.update (rsr_resourceType r) \<lparr>ent_schema = r, ent_reporters = ent_reporters e\<rparr> c))"

definition DeleteResourceSchema :: "schema_content \<Rightarrow> resource_type \<Rightarrow> schema_content result" where
  "DeleteResourceSchema c rt =
     (case map_of c rt of None \<Rightarrow> Err (Sentinel ErrResourceSchemaNotFound) | Some _ \<Rightarrow> Ok (AList.delete rt c))"

definition getResourceEntry :: "schema_content \<Rightarrow> resource_type \<Rightarrow> resource_entry result" where
  "getResourceEntry c rt =
     (case map_of c rt of Some e \<Rightarrow> Ok e | None \<Rightarrow> Err (Sentinel ErrResourceSchemaNotFound))"

definition GetReporterSchemas :: "schema_content \<Rightarrow> resource_type \<Rightarrow> reporter_type list result" where
  "GetReporterSchemas c rt =
     bind_res (getResourceEntry c rt) (\<lambda>e. Ok (map (psr_reporterType \<circ> snd) (ent_reporters e)))"

definition CreateReporterSchema :: "schema_content \<Rightarrow> reporter_schema_representation \<Rightarrow> schema_content result" where
  "CreateReporterSchema c r =
     bind_res (getResourceEntry c (psr_resourceType r)) (\<lambda>e.
     case map_of (ent_reporters e) (psr_reporterType r) of
       Some _ \<Rightarrow> Err (Errorf ''reporter for entry already exist'')
     | None \<Rightarrow> Ok (AList.update (psr_resourceType r)
                   (e\<lparr>ent_reporters := AList.update (psr_reporterType r) r (ent_reporters e)\<rparr>) c))"

definition GetReporterSchema ::
    "schema_content \<Rightarrow> resource_type \<Rightarrow> reporter_type \<Rightarrow> reporter_schema_representation result" where
  "GetReporterSchema c rt rep =
     bind_res (getResourceEntry c rt) (\<lambda>e.
     case map_of (ent_reporters e) rep of None \<Rightarrow> Err (Sentinel ErrReporterSchemaNotFound) | Some r \<Rightarrow> Ok r)"

definition UpdateReporterSchema :: "schema_content \<Rightarrow> reporter_schema_representation \<Rightarrow> schema_content result" where
  "UpdateReporterSchema c r =
     bind_res (getResourceEntry c (psr_resourceType r)) (\<lambda>e.
     case map_of (ent_reporters e) (psr_reporterType r) of
       None \<Rightarrow> Err (Sentinel ErrReporterSchemaNotFound)
     | Some _ \<Rightarrow> Ok (AList.update (psr_resourceType r)
                   (e\<lparr>ent_reporters := AList.update (psr_reporterType r) r (ent_reporters e)\<rparr>) c))"

definition DeleteReporterSchema :: "schema_content \<Rightarrow> resource_type \<Rightarrow> reporter_type \<Rightarrow> schema_content result" where
  "DeleteReporterSchema c rt rep =
     bind_res (getResourceEntry c rt) (\<lambda>e.
     case map_of (ent_reporters e) rep of
       None \<Rightarrow> Err (Sentinel ErrReporterSchemaNotFound)
     | Some _ \<Rightarrow> Ok (AList.update rt (e\<lparr>ent_reporters := AList.delete rep (ent_reporters e)\<rparr>) c))"

section \<open>Construction from JSON\<close>

type_synonym schema_factory = "resource_type \<Rightarrow> string \<Rightarrow> schema"

definition commonPrefix :: string where "commonPrefix = ''common:''"

fun load_common_schemas :: "schema_factory \<Rightarrow> json_object \<Rightarrow> schema_content \<Rightarrow> schema_content result" where
  "load_common_schemas factory [] c = Ok c"
| "load_common_schemas factory ((key, v) # rest) c =
     (if HasPrefix key commonPrefix then
        bind_res (wrap_err ''invalid resource type in schema JSON key''
                   (NewResourceType (drop (length commonPrefix) key))) (\<lambda>rt.
        case v of
          JStr s \<Rightarrow>
            bind_res (NewResourceSchemaRepresentation rt (Some (factory rt s))) (\<lambda>r.
            bind_res (CreateResourceSchema c r) (\<lambda>c'. load_common_schemas factory rest c'))
        | _ \<Rightarrow> Err (Errorf ''expected string schema value for resource type''))
      else load_common_schemas factory rest c)"

fun findResourceTypeFromJsonKey :: "string \<Rightarrow> resource_type list \<Rightarrow> resource_type \<times> string" where
  "findResourceTypeFromJsonKey key [] = ([], [])"
| "findResourceTypeFromJsonKey key (rt # rts) =
     (let prefix = rt @ '':'' in
      if HasPrefix key prefix then (rt, drop (length prefix) key)
      else findResourceTypeFromJsonKey key rts)"

fun load_reporter_schemas ::
    "schema_factory \<Rightarrow> resource_type list \<Rightarrow> json_object \<Rightarrow> schema_content \<Rightarrow> schema_content result" where
  "load_reporter_schemas factory rts [] c = Ok c"
| "load_reporter_schemas factory rts ((key, v) # rest) c =
     (let (rt, remainder) = findResourceTypeFromJsonKey key rts in
      if rt = [] then load_reporter_schemas factory rts rest c
      else
        bind_res (wrap_err ''invalid reporter type in schema JSON key'' (NewReporterType remainder)) (\<lambda>rep.
        case v of
          JStr s \<Rightarrow>
            bind_res (NewReporterSchemaRepresentation rt rep (Some (factory rt s))) (\<lambda>r.
            bind_res (CreateReporterSchema c r) (\<lambda>c'. load_reporter_schemas factory rts rest c'))
        | _ \<Rightarrow> Err (Errorf ''expected string schema value for reporter type'')))"

text \<open>\<open>NewFromJsonBytes\<close> after decoding: the decoder of \<open>encoding/json\<close> yields a JSON value, which
  must be an object (or null, an empty map). Go ranges over the map in an unspecified order, here
  the order of the association list.\<close>

definition NewFromJsonBytes :: "schema_factory \<Rightarrow> json \<Rightarrow> schema_content result" where
  "NewFromJsonBytes factory j =
     (case (case j of JObj o1 \<Rightarrow> Some o1 | JNull \<Rightarrow> Some [] | _ \<Rightarrow> None) of
        None \<Rightarrow> Err (Errorf ''failed to unmarshal schema cache JSON'')
      | Some o1 \<Rightarrow>
          bind_res (load_common_schemas factory o1 NewInMemorySchemaRepository) (\<lambda>c.
          load_reporter_schemas factory (GetResourceSchemas c) o1 c))"

section \<open>The schema service\<close>

text \<open>The service calls the repository only through \<open>GetResourceSchema\<close> and
  \<open>GetReporterSchema\<close>, its arguments \<open>getRes\<close> and \<open>getRep\<close>. A nil \<open>Schema\<close> interface of a
  registered resource type would be dereferenced (a panic) by \<open>CalculateTuplesForResource\<close>;
  \<open>Err\<close> with the text \<open>panic\<close> stands for it.\<close>

definition CalculateTuplesForResource ::
    "(resource_type \<Rightarrow> resource_schema_representation result) \<Rightarrow> representations option \<Rightarrow>
     representations option \<Rightarrow> reporter_resource_key \<Rightarrow> tuples_to_replicate result" where
  "CalculateTuplesForResource getRes current previous key =
     (case getRes (rrk_resourceType key) of
        Inl e \<Rightarrow> if errors_Is e ErrResourceSchemaNotFound
                 then Schema_CalculateTuples DefaultSchema current previous key else Err e
      | Inr r \<Rightarrow> (case rsr_schema r of
                    None \<Rightarrow> Err (Errorf ''panic'')
                  | Some s \<Rightarrow> Schema_CalculateTuples s current previous key))"

definition IsReporterForResource ::
    "(resource_type \<Rightarrow> reporter_type \<Rightarrow> reporter_schema_representation result) \<Rightarrow>
     resource_type \<Rightarrow> reporter_type \<Rightarrow> bool \<times> go_error option" where
  "IsReporterForResource getRep rt rep =
     (case getRep rt rep of
        Inl e \<Rightarrow> if errors_Is e ErrResourceSchemaNotFound \<or> errors_Is e ErrReporterSchemaNotFound
                 then (False, None) else (False, Some e)
      | Inr _ \<Rightarrow> (True, None))"

definition CommonShallowValidate ::
    "gojsonschema \<Rightarrow> (resource_type \<Rightarrow> resource_schema_representation result) \<Rightarrow>
     resource_type \<Rightarrow> representation \<Rightarrow> go_error option" where
  "CommonShallowValidate gjs getRes rt common =
     (case getRes rt of
        Inl e \<Rightarrow> Some (Wrap ''failed to load common representation schema'' e)
      | Inr r \<Rightarrow>
          (case rsr_schema r of
             None \<Rightarrow> Some (Errorf ''no schema found'')
           | Some s \<Rightarrow>
               (let hasData = map_len common > 0;
                    d = (if hasData then (case common of None \<Rightarrow> [] | Some o1 \<Rightarrow> o1) else [])
                in case Schema_Validate gjs s d of
                     Inl e \<Rightarrow> if hasData then Some e
                              else Some (Wrap ''missing 'common' field in payload'' e)
                   | Inr _ \<Rightarrow> None)))"

definition ReporterShallowValidate ::
    "gojsonschema \<Rightarrow> (resource_type \<Rightarrow> reporter_type \<Rightarrow> reporter_schema_representation result) \<Rightarrow>
     resource_type \<Rightarrow> reporter_type \<Rightarrow> representation \<Rightarrow> go_error option" where
  "ReporterShallowValidate gjs getRep rt rep d0 =
     (case getRep rt rep of
        Inl e \<Rightarrow> Some e
      | Inr r \<Rightarrow>
          (case psr_schema r of
             None \<Rightarrow> if map_len d0 > 0
                     then Some (Errorf ''no schema found, but reporter representation was provided'') else None
           | Some s \<Rightarrow>
               (let hasData = map_len d0 > 0;
                    d = (if hasData then (case d0 of None \<Rightarrow> [] | Some o1 \<Rightarrow> o1) else [])
                in case Schema_Validate gjs s d of
                     Inl e \<Rightarrow> if hasData then Some e
                              else Some (Wrap ''missing 'reporter' field in payload'' e)
                   | Inr _ \<Rightarrow> None)))"

definition ValidateReportAgainstSchema ::
    "gojsonschema \<Rightarrow> (resource_type \<Rightarrow> resource_schema_representation result) \<Rightarrow>
     (resource_type \<Rightarrow> reporter_type \<Rightarrow> reporter_schema_representation result) \<Rightarrow>
     resource_type \<Rightarrow> reporter_type \<Rightarrow> representation option \<Rightarrow> representation option \<Rightarrow> go_error option" where
  "ValidateReportAgainstSchema gjs getRes getRep rt rep common reporter =
     (case IsReporterForResource getRep rt rep of
        (False, Some e) \<Rightarrow> Some e
      | (False, None) \<Rightarrow> Some (Errorf ''reporter does not report resource types'')
      | (True, _) \<Rightarrow>
          (case (case reporter of None \<Rightarrow> None | Some d \<Rightarrow> ReporterShallowValidate gjs getRep rt rep d) of
             Some e \<Rightarrow> Some e
           | None \<Rightarrow> (case common of None \<Rightarrow> None | Some d \<Rightarrow> CommonShallowValidate gjs getRes rt d)))"

section \<open>The repository contract\<close>

locale schema_repository =
  fixes getRes :: "'s \<Rightarrow> resource_type \<Rightarrow> resource_schema_representation result"
    and getRep :: "'s \<Rightarrow> resource_type \<Rightarrow> reporter_type \<Rightarrow> reporter_schema_representation result"
    and createRes updateRes :: "'s \<Rightarrow> resource_schema_representation \<Rightarrow> 's result"
    and deleteRes :: "'s \<Rightarrow> resource_type \<Rightarrow> 's result"
    and createRep updateRep :: "'s \<Rightarrow> reporter_schema_representation \<Rightarrow> 's result"
    and deleteRep :: "'s \<Rightarrow> resource_type \<Rightarrow> reporter_type \<Rightarrow> 's result"
  assumes getRes_err: "getRes s rt = Inl e \<Longrightarrow> e = Sentinel ErrResourceSchemaNotFound"
    and getRep_err: "getRep s rt rep = Inl e \<Longrightarrow>
      e = (if is_ok (getRes s rt) then Sentinel ErrReporterSchemaNotFound else Sentinel ErrResourceSchemaNotFound)"
    and getRep_res: "is_ok (getRep s rt rep) \<Longrightarrow> is_ok (getRes s rt)"
    and createRes_ok: "is_ok (createRes s r) \<longleftrightarrow> \<not> is_ok (getRes s (rsr_resourceType r))"
    and createRes_get: "createRes s r = Inr s' \<Longrightarrow>
      getRes s' rt = (if rt = rsr_resourceType r then Inr r else getRes s rt) \<and>
      getRep s' rt rep = (if rt = rsr_resourceType r then Inl (Sentinel ErrReporterSchemaNotFound) else getRep s rt rep)"
    and updateRes_ok: "is_ok (updateRes s r) \<longleftrightarrow> is_ok (getRes s (rsr_resourceType r))"
    and updateRes_get: "updateRes s r = Inr s' \<Longrightarrow>
      getRes s' rt = (if rt = rsr_resourceType r then Inr r else getRes s rt) \<and> getRep s' rt rep = getRep s rt rep"
    and deleteRes_ok: "is_ok (deleteRes s rt) \<longleftrightarrow> is_ok (getRes s rt)"
    and deleteRes_get: "deleteRes s rt0 = Inr s' \<Longrightarrow>
      getRes s' rt = (if rt = rt0 then Inl (Sentinel ErrResourceSchemaNotFound) else getRes s rt) \<and>
      getRep s' rt rep = (if rt = rt0 then Inl (Sentinel ErrResourceSchemaNotFound) else getRep s rt rep)"
    and createRep_ok: "is_ok (createRep s p) \<longleftrightarrow>
      is_ok (getRes s (psr_resourceType p)) \<and> \<not> is_ok (getRep s (psr_resourceType p) (psr_reporterType p))"
    and createRep_get: "createRep s p = Inr s' \<Longrightarrow> getRes s' rt = getRes s rt \<and>
      getRep s' rt rep = (if rt = psr_resourceType p \<and> rep = psr_reporterType p then Inr p else getRep s rt rep)"
    and updateRep_ok: "is_ok (updateRep s p) \<longleftrightarrow> is_ok (getRep s (psr_resourceType p) (psr_reporterType p))"
    and updateRep_get: "updateRep s p = Inr s' \<Longrightarrow> getRes s' rt = getRes s rt \<and>
      getRep s' rt rep = (if rt = psr_resourceType p \<and> rep = psr_reporterType p then Inr p else getRep s rt rep)"
    and deleteRep_ok: "is_ok (deleteRep s rt rep) \<longleftrightarrow> is_ok (getRep s rt rep)"
    and deleteRep_get: "deleteRep s rt0 rep0 = Inr s' \<Longrightarrow> getRes s' rt = getRes s rt \<and>
      getRep s' rt rep = (if rt = rt0 \<and> rep = rep0 then Inl (Sentinel ErrReporterSchemaNotFound) else getRep s rt rep)"
begin

text \<open>With such a repository the reporter check never reports an error.\<close>

lemma IsReporterForResource_exact:
  "IsReporterForResource (getRep s) rt rep = (is_ok (getRep s rt rep), None)"
  by (auto simp: IsReporterForResource_def split: sum.splits if_splits dest!: getRep_err)

lemma updateRes_reporters:
  assumes "updateRes s r = Inr s'"
  shows "IsReporterForResource (getRep s') rt rep = IsReporterForResource (getRep s) rt rep"
  unfolding IsReporterForResource_exact using updateRes_get [OF assms] by simp

text \<open>Registering a reporter makes exactly that pair reportable.\<close>

lemma createRep_reporter:
  assumes "createRep s p = Inr s'"
  shows "fst (IsReporterForResource (getRep s') rt rep) \<longleftrightarrow>
    rt = psr_resourceType p \<and> rep = psr_reporterType p \<or> fst (IsReporterForResource (getRep s) rt rep)"
  unfolding IsReporterForResource_exact using createRep_get [OF assms] by auto

lemma deleteRes_no_reporter:
  assumes "deleteRes s rt = Inr s'"
  shows "\<not> fst (IsReporterForResource (getRep s') rt rep)"
  unfolding IsReporterForResource_exact using deleteRes_get [OF assms] by auto

text \<open>Acceptance of a report by the service.\<close>

lemma ValidateReport_None_iff:
  "ValidateReportAgainstSchema gjs (getRes s) (getRep s) rt rep common reporter = None \<longleftrightarrow>
     is_ok (getRep s rt rep) \<and>
     (\<forall>d. reporter = Some d \<longrightarrow> ReporterShallowValidate gjs (getRep s) rt rep d = None) \<and>
     (\<forall>d. common = Some d \<longrightarrow> CommonShallowValidate gjs (getRes s) rt d = None)"
  by (auto simp: ValidateReportAgainstSchema_def IsReporterForResource_exact split: option.splits bool.splits)

lemma CalculateTuples_registered:
  assumes "\<And>r. getRes s (rrk_resourceType key) = Inr r \<Longrightarrow> rsr_schema r \<noteq> None"
  shows "\<exists>sch. CalculateTuplesForResource (getRes s) current previous key = Schema_CalculateTuples sch current previous key \<and>
    sch = (case getRes s (rrk_resourceType key) of Inl _ \<Rightarrow> DefaultSchema | Inr r \<Rightarrow> the (rsr_schema r))"
  using assms by (auto simp: CalculateTuplesForResource_def split: sum.splits option.splits dest!: getRes_err)

end

lemmas registry_defs = GetResourceSchema_def GetReporterSchema_def getResourceEntry_def
  CreateResourceSchema_def UpdateResourceSchema_def DeleteResourceSchema_def CreateReporterSchema_def
  UpdateReporterSchema_def DeleteReporterSchema_def

lemma map_of_AList [simp]:
  "map_of (AList.update k v al) k' = (if k' = k then Some v else map_of al k')"
  "map_of (AList.delete k al) k' = (if k' = k then None else map_of al k')"
  by (simp_all add: update_conv' delete_conv')

interpretation inmemory: schema_repository GetResourceSchema GetReporterSchema CreateResourceSchema
    UpdateResourceSchema DeleteResourceSchema CreateReporterSchema UpdateReporterSchema DeleteReporterSchema
  by unfold_locales
    (auto simp: registry_defs split: option.splits if_splits)

section \<open>Registries built from JSON\<close>

text \<open>Invariant of construction: every registered resource type is not empty, is stored under its
  own name and has the schema that the factory builds for it.\<close>

definition entry_ok :: "schema_factory \<Rightarrow> resource_type \<Rightarrow> resource_schema_representation \<Rightarrow> bool" where
  "entry_ok factory rt r \<longleftrightarrow>
     rt \<noteq> [] \<and> rsr_resourceType r = rt \<and> (\<exists>js. rsr_schema r = Some (factory rt js))"

definition factory_built :: "schema_factory \<Rightarrow> schema_content \<Rightarrow> bool" where
  "factory_built factory c \<longleftrightarrow> (\<forall>rt r. GetResourceSchema c rt = Inr r \<longrightarrow> entry_ok factory rt r)"

lemma load_common_schemas_built:
  "load_common_schemas factory o1 c = Inr c' \<Longrightarrow> factory_built factory c \<Longrightarrow> factory_built factory c'"
proof (induction o1 arbitrary: c)
  case (Cons kv rest)
  obtain key v where kv: "kv = (key, v)" by fastforce
  show ?case
  proof (cases "HasPrefix key commonPrefix")
    case True
    with Cons.prems(1) kv obtain rt s r c1 where
      r: "NewResourceSchemaRepresentation rt (Some (factory rt s)) = Inr r"
      and c1: "CreateResourceSchema c r = Inr c1" and rest: "load_common_schemas factory rest c1 = Inr c'"
      by (cases v) (auto simp: res_iffs)
    have "entry_ok factory (rsr_resourceType r) r"
      using r by (auto simp: entry_ok_def NewResourceSchemaRepresentation_def split: if_splits)
    then have "factory_built factory c1"
      using Cons.prems(2) inmemory.createRes_get [OF c1] by (simp add: factory_built_def)
    with Cons.IH rest show ?thesis by blast
  next
    case False
    with Cons kv show ?thesis by simp
  qed
qed simp

lemma load_reporter_schemas_built:
  "load_reporter_schemas factory rts o1 c = Inr c' \<Longrightarrow> factory_built factory c \<Longrightarrow> factory_built factory c'"
proof (induction o1 arbitrary: c)
  case (Cons kv rest)
  obtain key v where kv: "kv = (key, v)" by fastforce
  obtain rt rem where fr: "findResourceTypeFromJsonKey key rts = (rt, rem)" by fastforce
  show ?case
  proof (cases "rt = []")
    case False
    with Cons.prems(1) kv fr obtain rep s r c1 where
      r: "NewReporterSchemaRepresentation rt rep (Some (factory rt s)) = Inr r"
      and c1: "CreateReporterSchema c r = Inr c1" and rest: "load_reporter_schemas factory rts rest c1 = Inr c'"
      by (cases v) (auto simp: res_iffs)
    have "factory_built factory c1"
      using Cons.prems(2) inmemory.createRep_get [OF c1] by (simp add: factory_built_def)
    with Cons.IH rest show ?thesis by blast
  next
    case True
    with Cons kv fr show ?thesis by simp
  qed
qed simp

lemma NewFromJsonBytes_built:
  "NewFromJsonBytes factory j = Inr c \<Longrightarrow> factory_built factory c"
proof -
  assume "NewFromJsonBytes factory j = Inr c"
  then obtain o1 c1 where "load_common_schemas factory o1 [] = Inr c1"
    "load_reporter_schemas factory (GetResourceSchemas c1) o1 c1 = Inr c"
    by (auto simp: NewFromJsonBytes_def res_iffs NewInMemorySchemaRepository_def split: option.splits)
  moreover have "factory_built factory []" by (simp add: factory_built_def GetResourceSchema_def)
  ultimately show "factory_built factory c"
    using load_common_schemas_built load_reporter_schemas_built by blast
qed

definition schema_for :: "schema_content \<Rightarrow> resource_type \<Rightarrow> schema" where
  "schema_for c rt = (case GetResourceSchema c rt of Inl _ \<Rightarrow> DefaultSchema
     | Inr r \<Rightarrow> (case rsr_schema r of None \<Rightarrow> DefaultSchema | Some sch \<Rightarrow> sch))"

lemma registry_schema:
  assumes "factory_built FeaturesAwareSchemaFactory c"
  shows "CalculateTuplesForResource (GetResourceSchema c) current previous key =
      Schema_CalculateTuples (schema_for c (rrk_resourceType key)) current previous key"
    and "schema_for c rt = DefaultSchema \<or> (\<exists>js. schema_for c rt = FeaturesAwareSchemaFactory rt js)"
    and "tuple_schema (Schema_CalculateTuples (schema_for c rt)) (schema_tuples (schema_for c rt))"
proof -
  have reg: "\<exists>js. rsr_schema r = Some (FeaturesAwareSchemaFactory rt js)" if "GetResourceSchema c rt = Inr r" for r rt
    using that assms by (simp add: factory_built_def entry_ok_def)
  show "CalculateTuplesForResource (GetResourceSchema c) current previous key =
      Schema_CalculateTuples (schema_for c (rrk_resourceType key)) current previous key"
  proof (cases "GetResourceSchema c (rrk_resourceType key)")
    case (Inr r)
    with inmemory.CalculateTuples_registered [of c key current previous] reg [OF Inr] show ?thesis
      by (auto simp: schema_for_def)
  qed (use inmemory.CalculateTuples_registered [of c key current previous] in \<open>simp add: schema_for_def\<close>)
  show sch: "schema_for c rt = DefaultSchema \<or> (\<exists>js. schema_for c rt = FeaturesAwareSchemaFactory rt js)"
  proof (cases "GetResourceSchema c rt")
    case (Inr r)
    with reg show ?thesis by (fastforce simp: schema_for_def)
  qed (simp add: schema_for_def)
  then show "tuple_schema (Schema_CalculateTuples (schema_for c rt)) (schema_tuples (schema_for c rt))"
    using factory_schema [of "schema_for c rt" rt] by blast
qed

text \<open>Replication with a loaded registry. With a registry that \<open>NewFromJsonBytes\<close> built with the
  features-aware factory, \<open>CalculateTuplesForResource\<close> succeeds for every key, registered type or
  not, and its result moves a store that contains the tuples of the previous representation to the
  one with the tuples of the current representation instead, all other tuples untouched.\<close>

lemma registry_tuples_total:
  assumes "NewFromJsonBytes FeaturesAwareSchemaFactory j = Inr c"
  shows "\<exists>sch t. CalculateTuplesForResource (GetResourceSchema c) current previous key = Inr t \<and>
    (sch = DefaultSchema \<or> (\<exists>js. sch = FeaturesAwareSchemaFactory (rrk_resourceType key) js)) \<and>
    (\<forall>S. schema_tuples sch previous key \<subseteq> S \<longrightarrow>
       replay t S = (S - schema_tuples sch previous key) \<union> schema_tuples sch current key)"
proof -
  let ?sch = "schema_for c (rrk_resourceType key)"
  note reg = registry_schema [OF NewFromJsonBytes_built [OF assms]]
  obtain t where t: "Schema_CalculateTuples ?sch current previous key = Inr t"
    using tuple_schema.calc_total [OF reg(3)] by blast
  with reg(1,2) tuple_schema.calc_replay [OF reg(3) t] show ?thesis
    by (intro exI [of _ ?sch] exI [of _ t]) simp
qed

definition sample_registry_json :: json where
  "sample_registry_json = JObj [(''common:service'', JStr ''{}''), (''config:service'', JStr ''x''),
     (''service:features'', JStr ''{}''), (''common:host'', JStr ''{}'')]"

definition passes :: "gojsonschema \<Rightarrow> schema \<Rightarrow> representation \<Rightarrow> bool" where
  "passes gjs s d = is_ok (Schema_Validate gjs s (case d of None \<Rightarrow> [] | Some o1 \<Rightarrow> o1))"

lemma ReporterShallowValidate_None_iff:
  "ReporterShallowValidate gjs (GetReporterSchema c) rt rep d = None \<longleftrightarrow>
    (\<exists>p. GetReporterSchema c rt rep = Inr p \<and>
      (case psr_schema p of None \<Rightarrow> map_len d = 0 | Some s \<Rightarrow> passes gjs s d))"
  by (cases d; cases "GetReporterSchema c rt rep")
     (auto simp: ReporterShallowValidate_def passes_def is_ok_def Let_def split: option.splits sum.splits)

lemma CommonShallowValidate_None_iff:
  "CommonShallowValidate gjs (GetResourceSchema c) rt d = None \<longleftrightarrow>
    (\<exists>r s. GetResourceSchema c rt = Inr r \<and> rsr_schema r = Some s \<and> passes gjs s d)"
  by (cases d; cases "GetResourceSchema c rt")
     (auto simp: CommonShallowValidate_def passes_def is_ok_def Let_def split: option.splits sum.splits)

text \<open>Admission of a report. With the in-memory registry, \<open>ValidateReportAgainstSchema\<close> accepts a
  report exactly when the reporter is registered for the resource type, the reporter data (when given)
  passes its schema, a missing or empty one being validated as the empty object, and reporter
  data for a reporter without schema is empty, and the common data (when given) passes the schema of
  the resource type.\<close>

lemma ValidateReport_accepts_iff:
  "ValidateReportAgainstSchema gjs (GetResourceSchema c) (GetReporterSchema c) rt rep common reporter = None \<longleftrightarrow>
   (\<exists>p. GetReporterSchema c rt rep = Inr p \<and>
      (case reporter of None \<Rightarrow> True
       | Some d \<Rightarrow> (case psr_schema p of None \<Rightarrow> map_len d = 0 | Some s \<Rightarrow> passes gjs s d))) \<and>
   (case common of None \<Rightarrow> True
    | Some d \<Rightarrow> (\<exists>r s. GetResourceSchema c rt = Inr r \<and> rsr_schema r = Some s \<and> passes gjs s d))"
  unfolding inmemory.ValidateReport_None_iff ReporterShallowValidate_None_iff CommonShallowValidate_None_iff
  by (cases reporter; cases common) (auto simp: is_ok_iff)

end
