(* ===== verification/Consumer.thy ===== *)
theory Consumer
  imports Repository_Laws Schema_Registry Relations_Repo "HOL-Library.Multiset" "HOL-Library.List_Lexorder" "HOL-Library.Char_ord"
begin

text \<open>
  The replication consumer, \<open>internal/consumer/consumer.go\<close>: parsing of headers and messages, the
  calculation and execution of the tuple changes of a message, retries, the consistency token,
  offset bookkeeping, shutdown and rebalancing.

  The Kafka client is not part of the sources: the events it delivers, and the outcome of the calls
  it and the database driver answer, are inputs of a step. A panic of the source is an error value.
\<close>

section \<open>Messages\<close>

record topic_partition =
  tp_Partition :: int
  tp_Offset :: int

text \<open>\<open>km_Key\<close> and \<open>km_Value\<close> are the decoded bytes, \<open>None\<close> when they are not JSON.\<close>

record kafka_message =
  km_TopicPartition :: topic_partition
  km_Headers :: "(string \<times> string) list"
  km_Key :: "json option"
  km_Value :: "json option"

definition requiredHeaders :: "string list" where
  "requiredHeaders = [''operation'', ''txid'']"

definition go_map_get :: "(string \<times> string) list \<Rightarrow> string \<Rightarrow> string" where
  "go_map_get m k = (case map_of m k of Some v \<Rightarrow> v | None \<Rightarrow> [])"

definition ParseHeaders :: "kafka_message \<Rightarrow> (string \<times> string) list result" where
  "ParseHeaders msg =
     (let headers = foldl (\<lambda>m (k, v). if k \<in> set requiredHeaders then AList.update k v m else m) [] (km_Headers msg);
          headerKeys = sort (map fst headers);
          required = sort requiredHeaders
      in if headerKeys \<noteq> required \<or> go_map_get headers ''operation'' = []
         then Err (Errorf ''required headers are missing which would result in message processing failures'')
         else Ok headers)"

definition schema_field_ok :: "json_object \<Rightarrow> bool" where
  "schema_field_ok o1 = (case map_of o1 ''schema'' of None \<Rightarrow> True | Some JNull \<Rightarrow> True | Some (JObj _) \<Rightarrow> True | Some _ \<Rightarrow> False)"

text \<open>A JSON \<open>null\<close> decodes a pointer to nil: for the message that is a nil dereference, for the payload the
  result is a nil event. The payload is decoded into a map, whose numbers are floats, and printed again before it is
  decoded into an event.\<close>

definition ParseMessage :: "json option \<Rightarrow> tuple_event option result" where
  "ParseMessage msg = (case msg of
     None \<Rightarrow> Err (Errorf ''error unmarshaling msgPayload'')
   | Some JNull \<Rightarrow> Err nil_panic
   | Some (JObj o1) \<Rightarrow>
       if \<not> schema_field_ok o1 then Err (Errorf ''error unmarshaling msgPayload'')
       else (let relationsRequest = (case map_of o1 ''payload'' of None \<Rightarrow> JNull | Some p \<Rightarrow> p) in
             case relationsRequest of
               JNull \<Rightarrow> Ok None
             | _ \<Rightarrow> (case TupleEvent_UnmarshalJSON (json_floats relationsRequest) of
                       Inl e \<Rightarrow> Err (Errorf ''error unmarshaling tuple payload'')
                     | Inr te \<Rightarrow> Ok (Some te)))
   | Some _ \<Rightarrow> Err (Errorf ''error unmarshaling msgPayload''))"

definition ParseMessageKey :: "json option \<Rightarrow> string result" where
  "ParseMessageKey msg = (case msg of
     None \<Rightarrow> Err (Errorf ''error unmarshaling msgPayload'')
   | Some JNull \<Rightarrow> Err nil_panic
   | Some (JObj o1) \<Rightarrow>
       if \<not> schema_field_ok o1 then Err (Errorf ''error unmarshaling msgPayload'')
       else (case map_of o1 ''payload'' of
           None \<Rightarrow> Ok [] | Some JNull \<Rightarrow> Ok [] | Some (JStr s) \<Rightarrow> Ok s
         | Some _ \<Rightarrow> Err (Errorf ''error unmarshaling msgPayload''))
   | Some _ \<Rightarrow> Err (Errorf ''error unmarshaling msgPayload''))"

section \<open>Tuple operations\<close>

definition CreateTuple ::
    "'s relations_repository \<Rightarrow> fencing_check \<Rightarrow> relations_tuple list option \<Rightarrow> 's \<Rightarrow> string result \<times> 's" where
  "CreateTuple ops fc tuples s = (case tuples of
     None \<Rightarrow> (Err (Errorf ''no tuples provided''), s)
   | Some [] \<Rightarrow> (Err (Errorf ''no tuples provided''), s)
   | Some (firstTuple # rest) \<Rightarrow>
       (case ro_CreateTuples ops (firstTuple # rest) True (Some fc) s of
          (Inr token, s') \<Rightarrow> (Ok (SerializeString token), s')
        | (Inl err, s') \<Rightarrow>
            if status_code err = FailedPrecondition then (Err (Wrap ''invalid fencing token'' err), s')
            else if status_code err = AlreadyExists then
              (let rel = NewRelationship (rt_object firstTuple) (rt_relation firstTuple) (rt_subject firstTuple) in
               case ro_Check ops rel minimizeLatencyConsistency s' of
                 Inl checkErr \<Rightarrow> (Err (Wrap ''failed to fetch consistency token'' checkErr), s')
               | Inr r \<Rightarrow> (Ok (SerializeString (chk_consistencyToken r)), s'))
            else (Err (Wrap ''error creating tuple'' err), s')))"

definition tupleToFilter :: "relations_tuple \<Rightarrow> tuple_filter" where
  "tupleToFilter tuple =
     (let obj = rt_object tuple;
          sub = sref_resource (rt_subject tuple);
          filter0 = TupleFilter_WithSubject
                      (SubjectFilter_WithSubjectId (oref_resourceId sub)
                        (SubjectFilter_WithSubjectType (oref_resourceType sub) NewTupleSubjectFilter))
                      (TupleFilter_WithRelation (rt_relation tuple)
                        (TupleFilter_WithObjectId (oref_resourceId obj)
                          (TupleFilter_WithObjectType (oref_resourceType obj) NewTupleFilter)));
          filter1 = (case oref_reporter obj of None \<Rightarrow> filter0
                     | Some r \<Rightarrow> TupleFilter_WithReporterType (rref_reporterType r) filter0);
          filter2 = (case oref_reporter sub of None \<Rightarrow> filter1
                     | Some r \<Rightarrow> (case tf_subject filter1 of None \<Rightarrow> filter1
                         | Some sf \<Rightarrow> TupleFilter_WithSubject (SubjectFilter_WithReporterType (rref_reporterType r) sf) filter1))
      in case sref_relation (rt_subject tuple) of None \<Rightarrow> filter2
         | Some rel \<Rightarrow> (case tf_subject filter2 of None \<Rightarrow> filter2
             | Some sf \<Rightarrow> TupleFilter_WithSubject (SubjectFilter_WithRelation rel sf) filter2))"

fun delete_loop ::
    "'s relations_repository \<Rightarrow> fencing_check \<Rightarrow> relations_tuple list \<Rightarrow> string \<Rightarrow> 's \<Rightarrow> string result \<times> 's" where
  "delete_loop ops fc [] token s = (Ok token, s)"
| "delete_loop ops fc (tuple # tuples) token s =
     (case ro_DeleteTuples ops (tupleToFilter tuple) (Some fc) s of
        (Inl err, s') \<Rightarrow>
          if status_code err = FailedPrecondition then (Err (Wrap ''invalid fencing token'' err), s')
          else (Err (Wrap ''error deleting tuple'' err), s')
      | (Inr t, s') \<Rightarrow> delete_loop ops fc tuples (if token = [] then SerializeString t else token) s')"

definition DeleteTuple :: "'s relations_repository \<Rightarrow> fencing_check \<Rightarrow> relations_tuple list \<Rightarrow> 's \<Rightarrow> string result \<times> 's" where
  "DeleteTuple ops fc tuples s = delete_loop ops fc tuples [] s"

definition UpdateTuple ::
    "'s relations_repository \<Rightarrow> fencing_check \<Rightarrow> relations_tuple list option \<Rightarrow> relations_tuple list option \<Rightarrow> 's \<Rightarrow>
     string result \<times> 's" where
  "UpdateTuple ops fc tuplesToCreate tuplesToDelete s =
     (let (created, s1) = (case tuplesToCreate of
          None \<Rightarrow> (Ok [], s)
        | Some cs \<Rightarrow> if length cs > 0
                     then (case CreateTuple ops fc tuplesToCreate s of
                             (Inl e, s1) \<Rightarrow> (Err (Wrap ''failed to create tuples'' e), s1) | (Inr t, s1) \<Rightarrow> (Ok t, s1))
                     else (Ok [], s))
      in case created of
           Inl e \<Rightarrow> (Err e, s1)
         | Inr token \<Rightarrow>
             (case tuplesToDelete of
                None \<Rightarrow> (Ok token, s1)
              | Some ds \<Rightarrow>
                  if length ds > 0 then
                    (case DeleteTuple ops fc ds s1 of
                       (Inl e, s2) \<Rightarrow> (Err (Wrap ''failed to delete tuples'' e), s2)
                     | (Inr deleteToken, s2) \<Rightarrow> (Ok (if token = [] then deleteToken else token), s2))
                  else (Ok token, s1)))"

section \<open>Retry\<close>

text \<open>A negative maximum of -1 retries without bound: not returning is \<open>None\<close>.\<close>

partial_function (option) retry_loop ::
    "('s \<Rightarrow> 'r result \<times> 's) \<Rightarrow> int \<Rightarrow> int \<Rightarrow> 's \<Rightarrow> ('r result \<times> 's) option" where
  "retry_loop operation maxRetries attempts s =
     (if maxRetries = -1 \<or> attempts < maxRetries then
        (case operation s of
           (Inr r, s') \<Rightarrow> Some (Ok r, s')
         | (Inl e, s') \<Rightarrow> retry_loop operation maxRetries (attempts + 1) s')
      else Some (Err (Sentinel ErrMaxRetries), s))"

declare retry_loop.simps [code]

definition Retry :: "('s \<Rightarrow> 'r result \<times> 's) \<Rightarrow> int \<Rightarrow> 's \<Rightarrow> ('r result \<times> 's) option" where
  "Retry operation maxRetries s = retry_loop operation maxRetries 0 s"

section \<open>Processing a message\<close>

record 's consumer_env =
  cv_relations :: "'s relations_repository"
  cv_relationsEnabled :: bool
  cv_schemas :: schema_content
  cv_OperationMaxRetries :: int
  cv_CommitModulo :: int
  cv_ConsumerGroupID :: string
  cv_hasNotifier :: bool
  cv_uuid_parse :: "string \<Rightarrow> uuid option"

definition processRelationsOperation ::
    "'s consumer_env \<Rightarrow> (reporter_resource_key \<Rightarrow> version option \<Rightarrow> (representations option \<times> representations option) result) \<Rightarrow>
     (tuples_to_replicate \<Rightarrow> 's \<Rightarrow> string result \<times> 's) \<Rightarrow> kafka_message \<Rightarrow> 's \<Rightarrow> (string result \<times> 's) option" where
  "processRelationsOperation env fetchRepresentations execute msg s = (case ParseMessage (km_Value msg) of
     Inl e \<Rightarrow> Some (Err e, s)
   | Inr None \<Rightarrow> Some (Err nil_panic, s)
   | Inr (Some tupleEvent) \<Rightarrow>
       (let key = te_reporterResourceKey tupleEvent in
        case fetchRepresentations key (te_commonVersion tupleEvent) of
          Inl e \<Rightarrow> Some (Err e, s)
        | Inr (current, previous) \<Rightarrow>
            (case CalculateTuplesForResource (GetResourceSchema (cv_schemas env)) current previous key of
               Inl e \<Rightarrow> Some (Err e, s)
             | Inr tuplesToReplicate \<Rightarrow>
                 if ttr_IsEmpty tuplesToReplicate then Some (Ok [], s)
                 else Retry (execute tuplesToReplicate) (cv_OperationMaxRetries env) s)))"

text \<open>\<open>queryErr\<close> is the error of the database query for the representations, when it fails.\<close>

definition ProcessMessage ::
    "'s consumer_env \<Rightarrow> fencing_check \<Rightarrow> go_error option \<Rightarrow> db \<Rightarrow> (string \<times> string) list \<Rightarrow> kafka_message \<Rightarrow> 's \<Rightarrow>
     (string result \<times> 's) option" where
  "ProcessMessage env fc queryErr d headers msg s =
     (let operation = go_map_get headers ''operation''; ops = cv_relations env in
      if operation = ''created'' then
        (if cv_relationsEnabled env then
           processRelationsOperation env
             (\<lambda>key v. FindCurrentAndPreviousVersionedRepresentations queryErr d key v OperationTypeCreated)
             (\<lambda>t. CreateTuple ops fc (ttr_tuplesToCreate t)) msg s
         else Some (Ok [], s))
      else if operation = ''updated'' then
        (if cv_relationsEnabled env then
           processRelationsOperation env
             (\<lambda>key v. FindCurrentAndPreviousVersionedRepresentations queryErr d key v OperationTypeUpdated)
             (\<lambda>t. UpdateTuple ops fc (ttr_tuplesToCreate t) (ttr_tuplesToDelete t)) msg s
         else Some (Ok [], s))
      else if operation = ''deleted'' then
        (if cv_relationsEnabled env then
           processRelationsOperation env
             (\<lambda>key v. bind_res (FindLatestRepresentations queryErr d key) (\<lambda>previous. Ok (None, Some previous)))
             (\<lambda>t s1. case ttr_tuplesToDelete t of
                 None \<Rightarrow> (Err nil_panic, s1)
               | Some ds \<Rightarrow> (case DeleteTuple ops fc ds s1 of (Inl e, s2) \<Rightarrow> (Err e, s2) | (Inr _, s2) \<Rightarrow> (Ok [], s2))) msg s
         else Some (Ok [], s))
      else Some (Ok [], s))"

section \<open>Consistency token\<close>

definition UpdateConsistencyToken :: "(string \<Rightarrow> uuid option) \<Rightarrow> string \<Rightarrow> string \<Rightarrow> db \<Rightarrow> db result" where
  "UpdateConsistencyToken uuid_parse resourceId token d = (case uuid_parse resourceId of
     None \<Rightarrow> Err (Errorf ''invalid input syntax for type uuid'')
   | Some i \<Rightarrow> Ok (d\<lparr>db_resource := map (\<lambda>r. if dr_ID r = i then r\<lparr>dr_ConsistencyToken := token\<rparr> else r) (db_resource d)\<rparr>))"

definition UpdateConsistencyTokenIfPresent :: "(string \<Rightarrow> uuid option) \<Rightarrow> string \<Rightarrow> string \<Rightarrow> db \<Rightarrow> db result" where
  "UpdateConsistencyTokenIfPresent uuid_parse resourceId token d =
     (if token = [] then Ok d else UpdateConsistencyToken uuid_parse resourceId token d)"

section \<open>Offsets\<close>

text \<open>\<open>checkIfCommit\<close> takes Go's remainder, which is zero exactly when the modulo divides the offset; a zero
  modulo panics.\<close>

definition checkIfCommit :: "topic_partition \<Rightarrow> int \<Rightarrow> bool result" where
  "checkIfCommit p commitModulo =
     (if commitModulo = 0 then Err (Errorf ''panic: integer divide by zero'') else Ok (tp_Offset p mod commitModulo = 0))"

record 's consumer_state =
  cs_OffsetStorage :: "topic_partition list"
  cs_committed :: "topic_partition list"
  cs_lockId :: lock_id
  cs_lockToken :: lock_token
  cs_shutdownInProgress :: bool
  cs_closed :: bool
  cs_db :: db
  cs_relations :: 's
  cs_notified :: "string list"

text \<open>The two critical sections of \<open>commitStoredOffsets\<close>, before and after the call to the broker.\<close>

definition take_offsets :: "topic_partition list \<Rightarrow> topic_partition list \<times> topic_partition list" where
  "take_offsets storage = (storage, [])"

definition restore_offsets :: "topic_partition list \<Rightarrow> topic_partition list \<Rightarrow> topic_partition list" where
  "restore_offsets offsetsToCommit storage = (if length storage = 0 then offsetsToCommit else offsetsToCommit @ storage)"

definition commitStoredOffsets :: "go_error option \<Rightarrow> 's consumer_state \<Rightarrow> go_error option \<times> 's consumer_state" where
  "commitStoredOffsets brokerErr c =
     (if length (cs_OffsetStorage c) = 0 then (None, c)
      else (let (offsetsToCommit, storage) = take_offsets (cs_OffsetStorage c) in
            case brokerErr of
              Some e \<Rightarrow> (Some e, c\<lparr>cs_OffsetStorage := restore_offsets offsetsToCommit storage\<rparr>)
            | None \<Rightarrow> (None, c\<lparr>cs_OffsetStorage := storage, cs_committed := cs_committed c @ offsetsToCommit\<rparr>)))"

section \<open>One message of the consumption loop\<close>

record step_io =
  io_query :: "go_error option"
  io_update :: "go_error option"
  io_notify :: "go_error option"
  io_commit :: "go_error option"

definition offset_step :: "'s consumer_env \<Rightarrow> go_error option \<Rightarrow> kafka_message \<Rightarrow> 's consumer_state \<Rightarrow> 's consumer_state result" where
  "offset_step env commitErr msg c =
     (let c1 = c\<lparr>cs_OffsetStorage := cs_OffsetStorage c @ [km_TopicPartition msg]\<rparr> in
      bind_res (checkIfCommit (km_TopicPartition msg) (cv_CommitModulo env)) (\<lambda>shouldCommit.
      Ok (if shouldCommit then snd (commitStoredOffsets commitErr c1) else c1)))"

text \<open>The \<open>*kafka.Message\<close> case of \<open>Consume\<close>: whether the loop goes on, and the state. \<open>None\<close> is a message
  whose processing never returns, an error a panic.\<close>

definition store_token :: "'s consumer_env \<Rightarrow> go_error option \<Rightarrow> kafka_message \<Rightarrow> string \<Rightarrow> db \<Rightarrow> db option result" where
  "store_token env updateErr msg resp d =
     (let key = ParseMessageKey (km_Key msg) in
      if key = Inl nil_panic then Err nil_panic
      else (let inventoryID = (case key of Inr i \<Rightarrow> i | Inl _ \<Rightarrow> []) in
            if resp \<noteq> [] \<and> updateErr \<noteq> None then Ok None
            else (case UpdateConsistencyTokenIfPresent (cv_uuid_parse env) inventoryID resp d of
                    Inl e \<Rightarrow> Ok None | Inr d' \<Rightarrow> Ok (Some d'))))"

definition consume_message ::
    "'s consumer_env \<Rightarrow> step_io \<Rightarrow> kafka_message \<Rightarrow> 's consumer_state \<Rightarrow> (bool \<times> 's consumer_state) result option" where
  "consume_message env io msg c = (case ParseHeaders msg of
     Inl e \<Rightarrow> Some (Ok (False, c))
   | Inr headers \<Rightarrow>
       (let operation = go_map_get headers ''operation''; txid = go_map_get headers ''txid'' in
        case ProcessMessage env (NewFencingCheck (cs_lockId c) (cs_lockToken c)) (io_query io) (cs_db c) headers msg (cs_relations c) of
          None \<Rightarrow> None
        | Some (Inl e, s') \<Rightarrow> Some (if e = nil_panic then Err e else Ok (False, c\<lparr>cs_relations := s'\<rparr>))
        | Some (Inr resp, s') \<Rightarrow> Some (
            let c1 = c\<lparr>cs_relations := s'\<rparr> in
            bind_res (if operation \<noteq> ''deleted'' then store_token env (io_update io) msg resp (cs_db c1)
                      else Ok (Some (cs_db c1))) (\<lambda>updated.
            case updated of
              None \<Rightarrow> Ok (True, c1)
            | Some d \<Rightarrow>
                (let c2 = c1\<lparr>cs_db := d\<rparr>;
                     c3 = (if cv_hasNotifier env \<and> txid \<noteq> [] \<and> io_notify io = None
                           then c2\<lparr>cs_notified := cs_notified c2 @ [txid]\<rparr> else c2)
                 in bind_res (offset_step env (io_commit io) msg c3) (\<lambda>c4. Ok (True, c4)))))))"

section \<open>Shutdown and rebalancing\<close>

definition Shutdown :: "go_error option \<Rightarrow> go_error option \<Rightarrow> 's consumer_state \<Rightarrow> go_error \<times> 's consumer_state" where
  "Shutdown commitErr closeErr c =
     (if \<not> cs_closed c then
        (let c1 = c\<lparr>cs_shutdownInProgress := True\<rparr>;
             hasOffsets = length (cs_OffsetStorage c1) > 0;
             c2 = (if hasOffsets then snd (commitStoredOffsets commitErr c1) else c1)
         in case closeErr of
              Some e \<Rightarrow> (e, c2)
            | None \<Rightarrow> (Sentinel ErrClosed, c2\<lparr>cs_closed := True\<rparr>))
      else (Sentinel ErrClosed, c))"

datatype rebalance_event = AssignedPartitions "topic_partition list" | RevokedPartitions "topic_partition list"

definition acquire_lock_operation :: "'s relations_repository \<Rightarrow> lock_id \<Rightarrow> 's \<Rightarrow> string result \<times> 's" where
  "acquire_lock_operation ops lockId s = (case ro_AcquireLock ops lockId s of
     (Inl e, s') \<Rightarrow> (Err e, s') | (Inr t, s') \<Rightarrow> (Ok t, s'))"

definition RebalanceCallback ::
    "'s consumer_env \<Rightarrow> go_error option \<Rightarrow> rebalance_event \<Rightarrow> 's consumer_state \<Rightarrow> (go_error option \<times> 's consumer_state) option" where
  "RebalanceCallback env commitErr event c = (case event of
     AssignedPartitions parts \<Rightarrow>
       (case parts of
          [] \<Rightarrow> Some (None, c)
        | p # _ \<Rightarrow>
            (case NewLockId (cv_ConsumerGroupID env @ ''/'' @ FormatInt (tp_Partition p)) of
               Inl e \<Rightarrow> Some (Some e, c)
             | Inr lockId \<Rightarrow>
                 (case Retry (acquire_lock_operation (cv_relations env) lockId) (cv_OperationMaxRetries env) (cs_relations c) of
                    None \<Rightarrow> None
                  | Some (Inl e, s') \<Rightarrow> Some (Some e, c\<lparr>cs_lockId := lockId, cs_relations := s', cs_lockToken := []\<rparr>)
                  | Some (Inr token, s') \<Rightarrow> Some (None, c\<lparr>cs_lockId := lockId, cs_relations := s', cs_lockToken := token\<rparr>))))
   | RevokedPartitions parts \<Rightarrow>
       (if cs_shutdownInProgress c then Some (None, c\<lparr>cs_lockToken := [], cs_lockId := []\<rparr>)
        else if length (cs_OffsetStorage c) = 0 then Some (None, c\<lparr>cs_lockToken := [], cs_lockId := []\<rparr>)
        else (let (err, c1) = commitStoredOffsets commitErr c
              in Some (err, c1\<lparr>cs_lockToken := [], cs_lockId := []\<rparr>))))"

end
