(* ===== verification/Consumer_Laws.thy ===== *)
theory Consumer_Laws
  imports Consumer
begin

text \<open>
  What the consumer guarantees: retries return and repeat an interrupted change to completion, a
  processed message moves the stored tuples from the previous to the current representation, and no
  stored offset is lost whatever the interleaving of storing and committing.
\<close>

section \<open>Retry\<close>

fun failures :: "('s \<Rightarrow> 'r result \<times> 's) \<Rightarrow> nat \<Rightarrow> 's \<Rightarrow> 's option" where
  "failures operation 0 s = Some s"
| "failures operation (Suc n) s = (case operation s of (Inl e, s') \<Rightarrow> failures operation n s' | (Inr r, s') \<Rightarrow> None)"

lemma retry_loop_success:
  "failures operation n s = Some s1 \<Longrightarrow> operation s1 = (Inr r, s2) \<Longrightarrow> m = -1 \<or> a + int n < m \<Longrightarrow>
     retry_loop operation m a s = Some (Inr r, s2)"
proof (induction n arbitrary: s a)
  case 0
  then show ?case by (subst retry_loop.simps) auto
next
  case (Suc n)
  then show ?case by (subst retry_loop.simps) (auto split: prod.splits sum.splits)
qed

lemma retry_loop_exhausted:
  "failures operation n s = Some s1 \<Longrightarrow> m \<noteq> -1 \<Longrightarrow> a + int n = m \<Longrightarrow> retry_loop operation m a s = Some (Inl (Sentinel ErrMaxRetries), s1)"
proof (induction n arbitrary: s a)
  case 0
  then show ?case by (subst retry_loop.simps) auto
next
  case (Suc n)
  then show ?case by (subst retry_loop.simps) (auto split: prod.splits sum.splits)
qed

lemma failures_or_success:
  "(\<exists>s1. failures operation n s = Some s1) \<or> (\<exists>k s1 r s2. k < n \<and> failures operation k s = Some s1 \<and> operation s1 = (Inr r, s2))"
proof (induction n arbitrary: s)
  case (Suc n)
  obtain x s' where o: "operation s = (x, s')" by fastforce
  show ?case
  proof (cases x)
    case (Inl e)
    have "\<exists>k s1 r s2. k < Suc n \<and> failures operation k s = Some s1 \<and> operation s1 = (Inr r, s2)"
      if "k < n" "failures operation k s' = Some s1" "operation s1 = (Inr r, s2)" for k s1 r s2
      using that o Inl by (intro exI [of _ "Suc k"]) auto
    with Suc.IH [of s'] o Inl show ?thesis by auto
  next
    case (Inr r)
    with o show ?thesis by (intro disjI2 exI [of _ 0]) auto
  qed
qed simp

text \<open>With a bounded number of retries every operation returns: with the result of its first successful
  attempt when one of the allowed attempts succeeds, and otherwise with the retry error, in the
  state the last attempt left.\<close>

lemma Retry_bounded_returns:
  assumes "0 \<le> m"
  shows "(\<exists>n s1 r s2. int n < m \<and> failures operation n s = Some s1 \<and> operation s1 = (Inr r, s2) \<and> Retry operation m s = Some (Inr r, s2)) \<or>
    (\<exists>s1. failures operation (nat m) s = Some s1 \<and> Retry operation m s = Some (Inl (Sentinel ErrMaxRetries), s1))"
  using failures_or_success [of operation "nat m" s]
proof
  assume "\<exists>s1. failures operation (nat m) s = Some s1"
  then obtain s1 where "failures operation (nat m) s = Some s1" ..
  with retry_loop_exhausted [OF this, of m 0] assms show ?thesis by (simp add: Retry_def)
next
  assume "\<exists>k s1 r s2. k < nat m \<and> failures operation k s = Some s1 \<and> operation s1 = (Inr r, s2)"
  then obtain k s1 r s2 where k: "k < nat m" "failures operation k s = Some s1" "operation s1 = (Inr r, s2)" by blast
  with retry_loop_success [OF k(2,3), of m 0] show ?thesis by (auto simp: Retry_def) force
qed

definition flaky :: "nat \<Rightarrow> nat result \<times> nat" where
  "flaky n = (if n = 0 then (Ok 7, 0) else (Err (Errorf ''busy''), n - 1))"

text \<open>Partial correctness with an invariant of the failing attempts, bounded or not.\<close>

lemma retry_loop_invariant:
  assumes "retry_loop operation m a s = Some (x, s')" "P s"
    and step: "\<And>s0 e s1. P s0 \<Longrightarrow> operation s0 = (Inl e, s1) \<Longrightarrow> P s1"
  shows "case x of Inl e \<Rightarrow> P s' | Inr r \<Rightarrow> \<exists>s0. P s0 \<and> operation s0 = (Inr r, s')"
proof -
  let ?Q = "\<lambda>f m' s y. f = operation \<longrightarrow> P s \<longrightarrow>
      (case fst y of Inl e \<Rightarrow> P (snd y) | Inr r \<Rightarrow> \<exists>s0. P s0 \<and> operation s0 = (Inr r, snd y))"
  have "?Q operation m s (x, s')"
  proof (rule retry_loop.raw_induct [where P = "\<lambda>f m a s y. ?Q f m s y", OF _ assms(1)])
    fix rec f m' a' s0 y
    assume IH: "\<And>g m a s y. rec g m a s = Some y \<Longrightarrow> ?Q g m s y"
      and eq: "(if m' = - 1 \<or> a' < m' then case f s0 of (Inl e, s') \<Rightarrow> rec f m' (a' + 1) s' | (Inr r, s') \<Rightarrow> Some (Ok r, s')
            else Some (Err (Sentinel ErrMaxRetries), s0)) = Some y"
    obtain o1 s1 where o1: "f s0 = (o1, s1)" by fastforce
    show "?Q f m' s0 y"
    proof (intro impI)
      assume f: "f = operation" and P: "P s0"
      show "case fst y of Inl e \<Rightarrow> P (snd y) | Inr r \<Rightarrow> \<exists>s0. P s0 \<and> operation s0 = (Inr r, snd y)"
      proof (cases "m' = - 1 \<or> a' < m'")
        case True
        show ?thesis
        proof (cases o1)
          case (Inl e)
          with eq True o1 have "rec f m' (a' + 1) s1 = Some y" by simp
          moreover have "P s1" using step P f o1 Inl by blast
          ultimately show ?thesis using IH [of f m' "a' + 1" s1 y] f by simp
        next
          case (Inr r)
          with eq True o1 have "y = (Inr r, s1)" by auto
          with o1 Inr f P show ?thesis by auto
        qed
      next
        case False
        with eq have "y = (Inl (Sentinel ErrMaxRetries), s0)" by auto
        with P show ?thesis by simp
      qed
    qed
  qed
  with assms(2) show ?thesis by (cases x) auto
qed

lemma Retry_invariant:
  assumes "Retry operation m s = Some (x, s')" "P s" "\<And>s0 e s1. P s0 \<Longrightarrow> operation s0 = (Inl e, s1) \<Longrightarrow> P s1"
  shows "case x of Inl e \<Rightarrow> P s' | Inr r \<Rightarrow> \<exists>s0. P s0 \<and> operation s0 = (Inr r, s')"
  using assms unfolding Retry_def by (rule retry_loop_invariant)

section \<open>Deletion filters\<close>

definition wf_tuple :: "relations_tuple \<Rightarrow> bool" where
  "wf_tuple t \<longleftrightarrow> oref_reporter (rt_object t) \<noteq> None \<and> oref_reporter (sref_resource (rt_subject t)) \<noteq> None"

text \<open>The filter built from a tuple with reporters on both ends matches that tuple's stored key and no
  other, so a deletion never removes more than the tuple it was asked to remove.\<close>

lemma tupleToFilter_exact:
  assumes "wf_tuple t"
  shows "simpleMatchesTupleFilter k (tupleToFilter t) \<longleftrightarrow> k = simpleTupleKeyFromModelTuple t"
proof -
  obtain ro rs where "oref_reporter (rt_object t) = Some ro" "oref_reporter (sref_resource (rt_subject t)) = Some rs"
    using assms by (auto simp: wf_tuple_def)
  then show ?thesis
    by (cases k; cases "sref_relation (rt_subject t)")
      (auto simp: simpleMatchesTupleFilter_def tupleToFilter_def Let_def opt_differs_def simpleTupleKeyFromModelTuple_def serde
        TupleFilter_WithObjectType_def TupleFilter_WithReporterType_def TupleFilter_WithObjectId_def TupleFilter_WithRelation_def
        TupleFilter_WithSubject_def SubjectFilter_WithSubjectType_def SubjectFilter_WithReporterType_def
        SubjectFilter_WithSubjectId_def SubjectFilter_WithRelation_def NewTupleFilter_def NewTupleSubjectFilter_def)
qed

abbreviation tuple_keys :: "relations_tuple set \<Rightarrow> simpleTupleKey set" where
  "tuple_keys S \<equiv> simpleTupleKeyFromModelTuple ` S"

section \<open>Effect of the tuple operations on a store\<close>

text \<open>An operation that adds \<open>C\<close> and removes \<open>D\<close>: completely when it succeeds, possibly in part when it fails.\<close>

definition changes :: "('s \<Rightarrow> simpleTupleKey set) \<Rightarrow> ('s \<Rightarrow> bool) \<Rightarrow> simpleTupleKey set \<Rightarrow> simpleTupleKey set \<Rightarrow>
    ('s \<Rightarrow> string result \<times> 's) \<Rightarrow> bool" where
  "changes keys valid C D operation \<longleftrightarrow> (\<forall>s x s'. valid s \<longrightarrow> operation s = (x, s') \<longrightarrow> valid s' \<and>
     (if is_ok x then keys s' = (keys s \<union> C) - D else keys s - D \<subseteq> keys s' \<and> keys s' \<subseteq> keys s \<union> C))"

lemma changesD:
  assumes "changes keys valid C D operation" "valid s" "operation s = (x, s')"
  shows "valid s'" "x = Inr r \<Longrightarrow> keys s' = (keys s \<union> C) - D"
    "x = Inl e \<Longrightarrow> keys s - D \<subseteq> keys s' \<and> keys s' \<subseteq> keys s \<union> C"
  using assms by (auto simp: changes_def)

lemma changesI:
  assumes "\<And>s r s'. valid s \<Longrightarrow> operation s = (Inr r, s') \<Longrightarrow> valid s' \<and> keys s' = (keys s \<union> C) - D"
    and "\<And>s e s'. valid s \<Longrightarrow> operation s = (Inl e, s') \<Longrightarrow> valid s' \<and> keys s - D \<subseteq> keys s' \<and> keys s' \<subseteq> keys s \<union> C"
  shows "changes keys valid C D operation"
  unfolding changes_def
proof (intro allI impI)
  fix s x s' assume v: "valid s" and o1: "operation s = (x, s')"
  show "valid s' \<and> (if is_ok x then keys s' = (keys s \<union> C) - D else keys s - D \<subseteq> keys s' \<and> keys s' \<subseteq> keys s \<union> C)"
  proof (cases x)
    case (Inl e)
    with assms(2) [OF v] o1 show ?thesis by simp
  next
    case (Inr r)
    with assms(1) [OF v] o1 show ?thesis by simp
  qed
qed

text \<open>Retrying an interrupted operation completes it: the outcome does not depend on what the failed
  attempts already did. When the retries end without success, the operation may have been carried out in part.\<close>

definition outcome :: "('s \<Rightarrow> simpleTupleKey set) \<Rightarrow> ('s \<Rightarrow> bool) \<Rightarrow> simpleTupleKey set \<Rightarrow> simpleTupleKey set \<Rightarrow> 's \<Rightarrow> string result \<Rightarrow> 's \<Rightarrow> bool" where
  "outcome keys valid C D s x s' \<longleftrightarrow> valid s' \<and>
     (if is_ok x then keys s' = (keys s \<union> C) - D else keys s - D \<subseteq> keys s' \<and> keys s' \<subseteq> keys s \<union> C)"

lemma Retry_outcome:
  assumes "changes keys valid C D operation" "valid s" "Retry operation m s = Some (x, s')"
  shows "outcome keys valid C D s x s'"
proof -
  define P where "P t \<longleftrightarrow> valid t \<and> keys s - D \<subseteq> keys t \<and> keys t \<subseteq> keys s \<union> C" for t
  have step: "P s1" if "P s0" "operation s0 = (Inl e, s1)" for s0 s1 e
  proof -
    have "valid s0" using that(1) by (simp add: P_def)
    from changesD(1) [OF assms(1) this that(2)] changesD(3) [OF assms(1) this that(2) refl] that(1)
    show ?thesis by (auto simp: P_def)
  qed
  have "P s" using assms(2) by (auto simp: P_def)
  have R: "case x of Inl e \<Rightarrow> P s' | Inr r \<Rightarrow> \<exists>s0. P s0 \<and> operation s0 = (Inr r, s')"
    by (rule Retry_invariant [where P = P, OF assms(3) \<open>P s\<close>]) (rule step)
  show ?thesis
  proof (cases x)
    case (Inl e)
    with R show ?thesis by (simp add: outcome_def P_def)
  next
    case (Inr r)
    with R obtain s0 where s0: "valid s0" "keys s - D \<subseteq> keys s0" "keys s0 \<subseteq> keys s \<union> C" "operation s0 = (Inr r, s')"
      by (auto simp: P_def)
    have "valid s'" by (rule changesD(1) [OF assms(1) s0(1,4)])
    moreover have "keys s' = (keys s \<union> C) - D" using changesD(2) [OF assms(1) s0(1,4) refl] s0(2,3) by auto
    ultimately show ?thesis using Inr by (simp add: outcome_def)
  qed
qed

lemma changes_skip: "changes keys valid {} {} (\<lambda>s. (Inr x, s))"
  by (simp add: changes_def)

lemma changes_map:
  assumes "changes keys valid C D f"
  shows "changes keys valid C D (\<lambda>s. case f s of (Inl e, s1) \<Rightarrow> (Inl (h e), s1) | (Inr t, s1) \<Rightarrow> (Inr (k t), s1))"
proof (rule changesI)
  fix s r s' assume s: "valid s" "(case f s of (Inl e, s1) \<Rightarrow> (Inl (h e), s1) | (Inr t, s1) \<Rightarrow> (Inr (k t), s1)) = (Inr r, s')"
  then obtain t where "f s = (Inr t, s')" by (auto split: prod.splits sum.splits)
  from changesD(1,2) [OF assms s(1) this] show "valid s' \<and> keys s' = (keys s \<union> C) - D" by simp
next
  fix s e s' assume s: "valid s" "(case f s of (Inl e, s1) \<Rightarrow> (Inl (h e), s1) | (Inr t, s1) \<Rightarrow> (Inr (k t), s1)) = (Inl e, s')"
  then obtain e' where "f s = (Inl e', s')" by (auto split: prod.splits sum.splits)
  from changesD(1,3) [OF assms s(1) this] show "valid s' \<and> keys s - D \<subseteq> keys s' \<and> keys s' \<subseteq> keys s \<union> C" by simp
qed

lemma changes_seq:
  assumes C: "changes keys valid C {} f" and D: "\<And>t. changes keys valid {} D (g t)"
  shows "changes keys valid C D (\<lambda>s. case f s of (Inl e, s1) \<Rightarrow> (Inl e, s1) | (Inr t, s1) \<Rightarrow> g t s1)"
proof (rule changesI)
  fix s r s' assume s: "valid s" "(case f s of (Inl e, s1) \<Rightarrow> (Inl e, s1) | (Inr t, s1) \<Rightarrow> g t s1) = (Inr r, s')"
  then obtain t s1 where 1: "f s = (Inr t, s1)" "g t s1 = (Inr r, s')" by (auto split: prod.splits sum.splits)
  from changesD(1,2) [OF C s(1) 1(1)] have v: "valid s1" "keys s1 = keys s \<union> C" by auto
  from changesD(1,2) [OF D v(1) 1(2)] v(2) show "valid s' \<and> keys s' = (keys s \<union> C) - D" by auto
next
  fix s e s' assume s: "valid s" "(case f s of (Inl e, s1) \<Rightarrow> (Inl e, s1) | (Inr t, s1) \<Rightarrow> g t s1) = (Inl e, s')"
  obtain x s1 where 1: "f s = (x, s1)" by fastforce
  show "valid s' \<and> keys s - D \<subseteq> keys s' \<and> keys s' \<subseteq> keys s \<union> C"
  proof (cases x)
    case (Inl e1)
    with s(2) 1 have "s1 = s'" by simp
    with changesD(1,3) [OF C s(1) 1] Inl show ?thesis by auto
  next
    case (Inr t)
    with s(2) 1 have 2: "g t s1 = (Inl e, s')" by simp
    from changesD(1,2) [OF C s(1) 1] Inr have v: "valid s1" "keys s1 = keys s \<union> C" by auto
    from changesD(1,3) [OF D v(1) 2] v(2) show ?thesis by auto
  qed
qed

text \<open>
  What the consumer relies on of a relations repository, for the tuples \<open>ok\<close> admits: a creation that overwrites adds
  the given tuples, and the deletion of a tuple's filter removes that tuple. A call that fails may have been carried out, wholly
  or in part; a creation that overwrites never fails with \<open>AlreadyExists\<close>.
\<close>

locale tuple_store =
  fixes ops :: "'s relations_repository" and keys :: "'s \<Rightarrow> simpleTupleKey set" and valid :: "'s \<Rightarrow> bool"
    and ok :: "relations_tuple \<Rightarrow> bool"
  assumes touch_ok: "valid s \<Longrightarrow> list_all ok ts \<Longrightarrow> ro_CreateTuples ops ts True f s = (Inr tok, s') \<Longrightarrow>
      keys s' = keys s \<union> tuple_keys (set ts) \<and> valid s'"
    and touch_err: "valid s \<Longrightarrow> list_all ok ts \<Longrightarrow> ro_CreateTuples ops ts True f s = (Inl e, s') \<Longrightarrow>
      keys s \<subseteq> keys s' \<and> keys s' \<subseteq> keys s \<union> tuple_keys (set ts) \<and> valid s' \<and> status_code e \<noteq> AlreadyExists"
    and remove_ok: "valid s \<Longrightarrow> ok t \<Longrightarrow> ro_DeleteTuples ops (tupleToFilter t) f s = (Inr tok, s') \<Longrightarrow>
      keys s' = keys s - {simpleTupleKeyFromModelTuple t} \<and> valid s'"
    and remove_err: "valid s \<Longrightarrow> ok t \<Longrightarrow> ro_DeleteTuples ops (tupleToFilter t) f s = (Inl e, s') \<Longrightarrow>
      keys s - {simpleTupleKeyFromModelTuple t} \<subseteq> keys s' \<and> keys s' \<subseteq> keys s \<and> valid s'"
begin

lemma CreateTuple_changes:
  assumes "list_all ok cs"
  shows "changes keys valid (tuple_keys (set cs)) {} (CreateTuple ops fc (Some cs))"
proof (cases cs)
  case (Cons t ts)
  have eq: "CreateTuple ops fc (Some cs) s = (case ro_CreateTuples ops cs True (Some fc) s of
      (Inr token, s') \<Rightarrow> (Inr (SerializeString token), s')
    | (Inl err, s') \<Rightarrow> if status_code err = FailedPrecondition then (Inl (Wrap ''invalid fencing token'' err), s')
        else (Inl (Wrap ''error creating tuple'' err), s'))" if "valid s" for s
    using touch_err [OF that assms, of "Some fc"] by (auto simp: CreateTuple_def Cons split: prod.splits sum.splits)
  show ?thesis
  proof (rule changesI)
    fix s r s' assume s: "valid s" "CreateTuple ops fc (Some cs) s = (Inr r, s')"
    then obtain token where "ro_CreateTuples ops cs True (Some fc) s = (Inr token, s')"
      by (auto simp: eq split: prod.splits sum.splits if_splits)
    with touch_ok [OF s(1) assms this] show "valid s' \<and> keys s' = (keys s \<union> tuple_keys (set cs)) - {}" by simp
  next
    fix s e s' assume s: "valid s" "CreateTuple ops fc (Some cs) s = (Inl e, s')"
    then obtain err where "ro_CreateTuples ops cs True (Some fc) s = (Inl err, s')"
      by (auto simp: eq split: prod.splits sum.splits if_splits)
    with touch_err [OF s(1) assms this] show "valid s' \<and> keys s - {} \<subseteq> keys s' \<and> keys s' \<subseteq> keys s \<union> tuple_keys (set cs)" by auto
  qed
qed (rule changesI; simp add: CreateTuple_def)

lemma delete_loop_changes:
  assumes "list_all ok ds"
  shows "changes keys valid {} (tuple_keys (set ds)) (delete_loop ops fc ds token)"
  using assms
proof (induction ds arbitrary: token)
  case (Cons d ds)
  have d: "ok d" using Cons.prems by simp
  show ?case unfolding changes_def
  proof (intro allI impI)
    fix s x s' assume s: "valid s" "delete_loop ops fc (d # ds) token s = (x, s')"
    obtain y s1 where y: "ro_DeleteTuples ops (tupleToFilter d) (Some fc) s = (y, s1)" by fastforce
    show "valid s' \<and> (if is_ok x then keys s' = (keys s \<union> {}) - tuple_keys (set (d # ds))
        else keys s - tuple_keys (set (d # ds)) \<subseteq> keys s' \<and> keys s' \<subseteq> keys s \<union> {})"
    proof (cases y)
      case (Inl e)
      with s y remove_err [OF s(1) d] show ?thesis by (fastforce split: if_splits)
    next
      case (Inr t)
      with y remove_ok [OF s(1) d] have s1: "valid s1" "keys s1 = keys s - {simpleTupleKeyFromModelTuple d}" by auto
      have "delete_loop ops fc ds (if token = [] then SerializeString t else token) s1 = (x, s')"
        using s(2) y Inr by simp
      note IH = changesD [OF Cons.IH s1(1) this]
      have "list_all ok ds" using Cons.prems by simp
      then have "valid s' \<and> (if is_ok x then keys s' = keys s1 - tuple_keys (set ds)
        else keys s1 - tuple_keys (set ds) \<subseteq> keys s' \<and> keys s' \<subseteq> keys s1)"
        using IH(1) IH(2) [of "projr x"] IH(3) [of "projl x"] by (cases x) auto
      with s1(2) show ?thesis by (auto split: if_splits)
    qed
  qed
qed (simp add: changes_def)

lemma DeleteTuple_changes:
  "list_all ok ds \<Longrightarrow> changes keys valid {} (tuple_keys (set ds)) (DeleteTuple ops fc ds)"
  unfolding DeleteTuple_def [abs_def] by (rule delete_loop_changes)

definition create_part :: "fencing_check \<Rightarrow> relations_tuple list option \<Rightarrow> 's \<Rightarrow> string result \<times> 's" where
  "create_part fc co = (case co of None \<Rightarrow> (\<lambda>s. (Inr [], s))
     | Some cs \<Rightarrow> (\<lambda>s. case CreateTuple ops fc (Some cs) s of
         (Inl e, s1) \<Rightarrow> (Inl (Wrap ''failed to create tuples'' e), s1) | (Inr tok, s1) \<Rightarrow> (Inr tok, s1)))"

definition delete_part :: "fencing_check \<Rightarrow> relations_tuple list option \<Rightarrow> string \<Rightarrow> 's \<Rightarrow> string result \<times> 's" where
  "delete_part fc do token = (case do of None \<Rightarrow> (\<lambda>s. (Inr token, s))
     | Some ds \<Rightarrow> (\<lambda>s. case DeleteTuple ops fc ds s of
         (Inl e, s1) \<Rightarrow> (Inl (Wrap ''failed to delete tuples'' e), s1)
       | (Inr tok, s1) \<Rightarrow> (Inr (if token = [] then tok else token), s1)))"

lemma UpdateTuple_changes:
  assumes "list_all ok (creates t)" "list_all ok (deletes t)" "wf_ttr t"
  shows "changes keys valid (tuple_keys (set (creates t))) (tuple_keys (set (deletes t)))
    (UpdateTuple ops fc (ttr_tuplesToCreate t) (ttr_tuplesToDelete t))"
proof -
  have "UpdateTuple ops fc (ttr_tuplesToCreate t) (ttr_tuplesToDelete t) =
      (\<lambda>s. case create_part fc (ttr_tuplesToCreate t) s of (Inl e, s1) \<Rightarrow> (Inl e, s1)
         | (Inr token, s1) \<Rightarrow> delete_part fc (ttr_tuplesToDelete t) token s1)"
    using assms(3) by (auto simp: fun_eq_iff UpdateTuple_def create_part_def delete_part_def wf_ttr_def
        split: option.splits prod.splits sum.splits)
  moreover have "changes keys valid (tuple_keys (set (creates t))) {} (create_part fc (ttr_tuplesToCreate t))"
    using assms(1) by (auto simp: create_part_def creates_def changes_skip changes_map [where k = "\<lambda>x. x"] CreateTuple_changes split: option.splits)
  moreover have "changes keys valid {} (tuple_keys (set (deletes t))) (delete_part fc (ttr_tuplesToDelete t) token)" for token
    using assms(2) by (auto simp: delete_part_def deletes_def changes_skip changes_map DeleteTuple_changes split: option.splits)
  ultimately show ?thesis by (simp only: changes_seq)
qed

end

text \<open>The stronger contract of a repository that deletes by any filter gives the consumer's.\<close>

sublocale relations_store \<subseteq> tuple_store ops keys valid wf_tuple
proof unfold_locales
  fix s ts f tok s' assume "valid s" "ro_CreateTuples ops ts True f s = (Inr tok, s')"
  then show "keys s' = keys s \<union> tuple_keys (set ts) \<and> valid s'" by (rule create_ok)
next
  fix s ts f e s' assume "valid s" "ro_CreateTuples ops ts True f s = (Inl e, s')"
  with create_err [OF this] create_touch [OF this]
  show "keys s \<subseteq> keys s' \<and> keys s' \<subseteq> keys s \<union> tuple_keys (set ts) \<and> valid s' \<and> status_code e \<noteq> AlreadyExists" by blast
next
  fix s t f tok s' assume "valid s" "wf_tuple t" "ro_DeleteTuples ops (tupleToFilter t) f s = (Inr tok, s')"
  with delete_ok [OF this(1,3)] show "keys s' = keys s - {simpleTupleKeyFromModelTuple t} \<and> valid s'"
    by (auto simp: tupleToFilter_exact)
next
  fix s t f e s' assume "valid s" "ro_DeleteTuples ops (tupleToFilter t) f s = (Inl e, s')"
  with delete_err [OF this] show "keys s - {simpleTupleKeyFromModelTuple t} \<subseteq> keys s' \<and> keys s' \<subseteq> keys s \<and> valid s'" by blast
qed

section \<open>Tuples of a resource\<close>

lemma schema_tuples_shape:
  "t \<in> schema_tuples sch ro key \<Longrightarrow> \<exists>rel ns ty sid. t = NewRelationTupleForSubject key rel ns ty sid"
  by (auto simp: schema_tuples_def workspace_tuples_def defs_tuples_def def_tuples_def NewWorkspaceRelationsTuple_def
      split: schema.splits if_splits)

lemma subject_tuple_wf: "wf_tuple (NewRelationTupleForSubject key rel ns ty sid)"
  by (simp add: wf_tuple_def NewRelationTupleForSubject_def Let_def NewResourceReference_def NewSubjectReferenceWithoutRelation_def)

lemma subject_tuple_key:
  "simpleTupleKeyFromModelTuple (NewRelationTupleForSubject key rel ns ty sid) =
     \<lparr>stk_ResourceNamespace = rrk_reporterType key, stk_ResourceType = rrk_resourceType key, stk_ResourceID = rrk_localResourceID key,
      stk_Relation = rel, stk_SubjectNamespace = ns, stk_SubjectType = ty, stk_SubjectID = sid\<rparr>"
  by (simp add: simpleTupleKeyFromModelTuple_def NewRelationTupleForSubject_def Let_def NewResourceReference_def
      NewReporterReference_def NewSubjectReferenceWithoutRelation_def serde)

lemma schema_keys_inj: "inj_on simpleTupleKeyFromModelTuple (schema_tuples sch ro key \<union> schema_tuples sch ro' key)"
proof (rule inj_onI)
  fix x y assume xy: "x \<in> schema_tuples sch ro key \<union> schema_tuples sch ro' key" "y \<in> schema_tuples sch ro key \<union> schema_tuples sch ro' key"
    and eq: "simpleTupleKeyFromModelTuple x = simpleTupleKeyFromModelTuple y"
  have shape: "\<exists>rel ns ty sid. z = NewRelationTupleForSubject key rel ns ty sid"
    if "z \<in> schema_tuples sch ro key \<union> schema_tuples sch ro' key" for z
    using that schema_tuples_shape by auto
  obtain rel ns ty sid rel' ns' ty' sid' where
    "x = NewRelationTupleForSubject key rel ns ty sid" "y = NewRelationTupleForSubject key rel' ns' ty' sid'"
    using shape [OF xy(1)] shape [OF xy(2)] by auto
  with eq show "x = y" by (simp add: subject_tuple_key)
qed

text \<open>Every tuple of a representation is one the store admits.\<close>

definition storable :: "(relations_tuple \<Rightarrow> bool) \<Rightarrow> schema_content \<Rightarrow> reporter_resource_key \<Rightarrow> representations option \<Rightarrow> bool" where
  "storable ok c key ro \<longleftrightarrow> (\<forall>t \<in> schema_tuples (schema_for c (rrk_resourceType key)) ro key. ok t)"

lemma storable_wf [simp]: "storable wf_tuple c key ro"
  using schema_tuples_shape subject_tuple_wf unfolding storable_def by blast

definition tuples_at :: "schema_content \<Rightarrow> reporter_resource_key \<Rightarrow> representations option \<Rightarrow> simpleTupleKey set" where
  "tuples_at c key ro = tuple_keys (schema_tuples (schema_for c (rrk_resourceType key)) ro key)"

text \<open>Calculated changes, as sets of stored keys.\<close>

lemma calculated_changes:
  assumes "factory_built FeaturesAwareSchemaFactory c" "CalculateTuplesForResource (GetResourceSchema c) current previous key = Inr t"
  shows "tuple_keys (set (creates t)) = tuples_at c key current - tuples_at c key previous"
    and "tuple_keys (set (deletes t)) = tuples_at c key previous - tuples_at c key current"
    and "storable ok c key current \<Longrightarrow> list_all ok (creates t)" "storable ok c key previous \<Longrightarrow> list_all ok (deletes t)" and "wf_ttr t"
    and "current = None \<Longrightarrow> creates t = []" and "previous = None \<Longrightarrow> deletes t = []"
proof -
  let ?T = "\<lambda>ro. schema_tuples (schema_for c (rrk_resourceType key)) ro key"
  have calc: "Schema_CalculateTuples (schema_for c (rrk_resourceType key)) current previous key = Inr t"
    using registry_schema(1) [OF assms(1), of current previous key] assms(2) by simp
  note sch = registry_schema(3) [OF assms(1), of "rrk_resourceType key"]
  have s: "set (creates t) = ?T current - ?T previous" "set (deletes t) = ?T previous - ?T current"
    using tuple_schema.calc_creates [OF sch calc] tuple_schema.calc_deletes [OF sch calc] by simp_all
  show "tuple_keys (set (creates t)) = tuples_at c key current - tuples_at c key previous"
    "tuple_keys (set (deletes t)) = tuples_at c key previous - tuples_at c key current"
    unfolding s tuples_at_def by (auto intro!: inj_on_image_set_diff [OF schema_keys_inj])
  show "list_all ok (creates t)" if "storable ok c key current" using that by (simp add: list_all_iff s storable_def)
  show "list_all ok (deletes t)" if "storable ok c key previous" using that by (simp add: list_all_iff s storable_def)
  show "wf_ttr t" by (rule tuple_schema.calc_wf [OF sch calc])
  show "creates t = []" if "current = None"
    using that s(1) tuple_schema.rels_nil [OF sch, of key] by simp
  show "deletes t = []" if "previous = None"
    using that s(2) tuple_schema.rels_nil [OF sch, of key] by simp
qed

text \<open>How an operation carries out calculated changes: the \<open>executeSpiceDB\<close> field of the source.\<close>

definition executes :: "('s \<Rightarrow> simpleTupleKey set) \<Rightarrow> ('s \<Rightarrow> bool) \<Rightarrow> (tuples_to_replicate \<Rightarrow> 's \<Rightarrow> string result \<times> 's) \<Rightarrow>
    tuples_to_replicate \<Rightarrow> bool" where
  "executes keys valid execute t \<longleftrightarrow> changes keys valid (tuple_keys (set (creates t))) (tuple_keys (set (deletes t))) (execute t)"

lemma process_outcome:
  assumes "factory_built FeaturesAwareSchemaFactory (cv_schemas env)" "ParseMessage (km_Value msg) = Inr (Some te)"
    and "te_reporterResourceKey te = key" "fetch key (te_commonVersion te) = Inr (current, previous)"
    and exec: "\<And>t. CalculateTuplesForResource (GetResourceSchema (cv_schemas env)) current previous key = Inr t \<Longrightarrow>
      \<not> ttr_IsEmpty t \<Longrightarrow> executes keys valid execute t"
    and "valid s" "processRelationsOperation env fetch execute msg s = Some (x, s')"
  shows "outcome keys valid (tuples_at (cv_schemas env) key current - tuples_at (cv_schemas env) key previous)
    (tuples_at (cv_schemas env) key previous - tuples_at (cv_schemas env) key current) s x s'"
proof -
  let ?A = "\<lambda>ro. tuples_at (cv_schemas env) key ro"
  obtain t where t: "CalculateTuplesForResource (GetResourceSchema (cv_schemas env)) current previous key = Inr t"
    using registry_schema(1,3) [OF assms(1)] tuple_schema.calc_total by metis
  note c = calculated_changes [OF assms(1) t]
  show ?thesis
  proof (cases "ttr_IsEmpty t")
    case True
    then have "?A current - ?A previous = {}" "?A previous - ?A current = {}" using c(1,2) by (auto simp: ttr_IsEmpty_iff)
    moreover have "s' = s" using assms(2-4,7) t True by (simp add: processRelationsOperation_def)
    ultimately show ?thesis using assms(6) by (simp add: outcome_def)
  next
    case False
    then have r: "Retry (execute t) (cv_OperationMaxRetries env) s = Some (x, s')"
      using assms(2-4,7) t by (simp add: processRelationsOperation_def)
    from Retry_outcome [OF exec [OF t False, unfolded executes_def] assms(6) r] c(1,2) show ?thesis by simp
  qed
qed

section \<open>Replication of one message\<close>

context tuple_store
begin

lemma created_executes:
  assumes "factory_built FeaturesAwareSchemaFactory c" "CalculateTuplesForResource (GetResourceSchema c) current None key = Inr t"
    "\<not> ttr_IsEmpty t" "storable ok c key current"
  shows "executes keys valid (\<lambda>t. CreateTuple ops fc (ttr_tuplesToCreate t)) t"
proof -
  note c = calculated_changes [OF assms(1,2)]
  have "deletes t = []" using c(7) by simp
  then have "ttr_tuplesToCreate t = Some (creates t)" using assms(3) wf_ttr_Some(1) [OF c(5)] by (simp add: ttr_IsEmpty_iff)
  with CreateTuple_changes [OF c(3) [OF assms(4)]] \<open>deletes t = []\<close> show ?thesis by (simp add: executes_def)
qed

lemma updated_executes:
  assumes "factory_built FeaturesAwareSchemaFactory c" "CalculateTuplesForResource (GetResourceSchema c) current previous key = Inr t"
    "storable ok c key current" "storable ok c key previous"
  shows "executes keys valid (\<lambda>t. UpdateTuple ops fc (ttr_tuplesToCreate t) (ttr_tuplesToDelete t)) t"
  using UpdateTuple_changes [OF calculated_changes(3,4,5) [OF assms(1,2)]] assms(3,4) by (simp add: executes_def)

lemma deleted_executes:
  assumes "factory_built FeaturesAwareSchemaFactory c" "CalculateTuplesForResource (GetResourceSchema c) None previous key = Inr t"
    "\<not> ttr_IsEmpty t" "storable ok c key previous"
  shows "executes keys valid (\<lambda>t s1. case ttr_tuplesToDelete t of None \<Rightarrow> (Inl nil_panic, s1)
     | Some ds \<Rightarrow> (case DeleteTuple ops fc ds s1 of (Inl e, s2) \<Rightarrow> (Inl e, s2) | (Inr _, s2) \<Rightarrow> (Inr [], s2))) t"
proof -
  note c = calculated_changes [OF assms(1,2)]
  have "creates t = []" using c(6) by simp
  then have "ttr_tuplesToDelete t = Some (deletes t)" using assms(3) wf_ttr_Some(2) [OF c(5)] by (simp add: ttr_IsEmpty_iff)
  with changes_map [OF DeleteTuple_changes [OF c(4) [OF assms(4)]], of "\<lambda>e. e" "\<lambda>_. []" fc] \<open>creates t = []\<close> show ?thesis
    by (simp add: executes_def)
qed

end

text \<open>What the representations of a message are, on well-formed tables: \<open>previous_of\<close> for the stored
  version before, \<open>current_of\<close> for the announced one.\<close>

definition current_of :: "db \<Rightarrow> uuid \<Rightarrow> string \<Rightarrow> version option \<Rightarrow> representations option" where
  "current_of d i operation v = (if operation = ''deleted'' then None
     else (case v of None \<Rightarrow> None | Some cv \<Rightarrow> rep_at d i cv))"

definition previous_of :: "db \<Rightarrow> uuid \<Rightarrow> string \<Rightarrow> version option \<Rightarrow> representations option" where
  "previous_of d i operation v =
     (if operation = ''deleted'' then (case last_common_version d i of None \<Rightarrow> None | Some l \<Rightarrow> rep_at d i l)
      else if operation = ''created'' then None
      else (case v of None \<Rightarrow> None | Some cv \<Rightarrow> if cv = 0 then None else rep_at d i (cv - 1)))"

text \<open>What the fetch of each operation returns, on well-formed tables that know the key.\<close>

lemma fetch_versions:
  assumes "known_key d key i" "operation = ''created'' \<and> op = OperationTypeCreated \<or> operation = ''updated'' \<and> op = OperationTypeUpdated"
  shows "FindCurrentAndPreviousVersionedRepresentations None d key v op = Inr (current_of d i operation v, previous_of d i operation v)"
    and "FindCurrentAndPreviousVersionedRepresentations queryErr d key v op = Inr r \<Longrightarrow> r = (current_of d i operation v, previous_of d i operation v)"
proof -
  show "FindCurrentAndPreviousVersionedRepresentations None d key v op = Inr (current_of d i operation v, previous_of d i operation v)"
  proof (cases v)
    case None
    with assms(2) show ?thesis
      by (auto simp: FindCurrentAndPreviousVersionedRepresentations_def current_of_def previous_of_def)
  next
    case (Some cv)
    with assms FindCurrentAndPrevious_eq [of d key] show ?thesis
      by (auto simp: known_key_def current_of_def previous_of_def)
  qed
  then show "r = (current_of d i operation v, previous_of d i operation v)" if "FindCurrentAndPreviousVersionedRepresentations queryErr d key v op = Inr r"
    using that by (cases queryErr) (auto simp: FindCurrentAndPreviousVersionedRepresentations_def split: option.splits)
qed

lemma fetch_latest:
  assumes "known_key d key i" "FindLatestRepresentations queryErr d key = Inr r"
  shows "previous_of d i ''deleted'' v = Some r"
proof -
  obtain rr where rr: "db_inv d" "rrk_reporterInstanceId key \<noteq> []" "rr \<in> set (db_reporter_resources d)"
    "rrs_Key rr = key_snapshot key" "rrs_ResourceID rr = i"
    using assms(1) by (auto simp: known_key_def)
  have "queryErr = None" using assms(2) by (auto simp: FindLatestRepresentations_def split: option.splits)
  with FindLatestRepresentations_eq(1) [OF rr(1-4)] FindLatestRepresentations_eq(2) [OF rr(1-4), of queryErr] assms(2) rr(5) show ?thesis
    by (cases "last_common_version d i") (auto simp: previous_of_def)
qed

definition event_message :: "kafka_message \<Rightarrow> reporter_resource_key \<Rightarrow> version option \<Rightarrow> bool" where
  "event_message msg key v \<longleftrightarrow> (\<exists>te. ParseMessage (km_Value msg) = Inr (Some te) \<and> te_reporterResourceKey te = key \<and> te_commonVersion te = v)"

lemma ProcessMessage_cases:
  assumes "cv_relationsEnabled env"
  shows "go_map_get headers ''operation'' = ''created'' \<Longrightarrow> ProcessMessage env fc queryErr d headers msg s =
      processRelationsOperation env (\<lambda>key v. FindCurrentAndPreviousVersionedRepresentations queryErr d key v OperationTypeCreated)
        (\<lambda>t. CreateTuple (cv_relations env) fc (ttr_tuplesToCreate t)) msg s"
    and "go_map_get headers ''operation'' = ''updated'' \<Longrightarrow> ProcessMessage env fc queryErr d headers msg s =
      processRelationsOperation env (\<lambda>key v. FindCurrentAndPreviousVersionedRepresentations queryErr d key v OperationTypeUpdated)
        (\<lambda>t. UpdateTuple (cv_relations env) fc (ttr_tuplesToCreate t) (ttr_tuplesToDelete t)) msg s"
    and "go_map_get headers ''operation'' = ''deleted'' \<Longrightarrow> ProcessMessage env fc queryErr d headers msg s =
      processRelationsOperation env (\<lambda>key v. bind_res (FindLatestRepresentations queryErr d key) (\<lambda>previous. Inr (None, Some previous)))
        (\<lambda>t s1. case ttr_tuplesToDelete t of None \<Rightarrow> (Inl nil_panic, s1)
          | Some ds \<Rightarrow> (case DeleteTuple (cv_relations env) fc ds s1 of (Inl e, s2) \<Rightarrow> (Inl e, s2) | (Inr _, s2) \<Rightarrow> (Inr [], s2))) msg s"
  using assms by (simp_all add: ProcessMessage_def)

lemma message_outcome:
  assumes "tuple_store (cv_relations env) keys valid ok" "factory_built FeaturesAwareSchemaFactory (cv_schemas env)"
    and "cv_relationsEnabled env" "known_key d key i" "event_message msg key v"
    and "operation \<in> {''created'', ''updated'', ''deleted''}" "go_map_get headers ''operation'' = operation" "valid s"
    and ok: "storable ok (cv_schemas env) key (previous_of d i operation v)" "storable ok (cv_schemas env) key (current_of d i operation v)"
    and "ProcessMessage env fc queryErr d headers msg s = Some (x, s')"
  defines "old \<equiv> tuples_at (cv_schemas env) key (previous_of d i operation v)"
    and "new \<equiv> tuples_at (cv_schemas env) key (current_of d i operation v)"
  shows "outcome keys valid (new - old) (old - new) s x s'"
proof -
  obtain te where te: "ParseMessage (km_Value msg) = Inr (Some te)" "te_reporterResourceKey te = key" "te_commonVersion te = v"
    using assms(5) by (auto simp: event_message_def)
  have failed: "outcome keys valid (new - old) (old - new) s x s'" if "fetch key v = Inl e" "processRelationsOperation env fetch execute msg s = Some (x, s')" for fetch execute e
    using that te assms(8) by (auto simp: processRelationsOperation_def outcome_def)
  note pc = process_outcome [where keys = keys and valid = valid and s = s and current = "current_of d i operation v"
      and previous = "previous_of d i operation v", OF assms(2) te(1,2), folded old_def new_def]
  from assms(6) consider "operation = ''created''" | "operation = ''updated''" | "operation = ''deleted''" by blast
  then show ?thesis
  proof cases
    case 1
    have prev: "previous_of d i operation v = None" using 1 by (simp add: previous_of_def)
    note run = assms(11) [unfolded ProcessMessage_cases(1) [OF assms(3) assms(7) [unfolded 1]]]
    show ?thesis
    proof (cases "FindCurrentAndPreviousVersionedRepresentations queryErr d key v OperationTypeCreated")
      case (Inr r)
      show ?thesis
        by (rule pc [OF _ _ assms(8) run])
          (use 1 Inr fetch_versions(2) [OF assms(4) _ Inr, of operation] te(3) prev ok tuple_store.created_executes [OF assms(1,2)] in auto)
    qed (rule failed [OF _ run])
  next
    case 2
    note run = assms(11) [unfolded ProcessMessage_cases(2) [OF assms(3) assms(7) [unfolded 2]]]
    show ?thesis
    proof (cases "FindCurrentAndPreviousVersionedRepresentations queryErr d key v OperationTypeUpdated")
      case (Inr r)
      show ?thesis
        by (rule pc [OF _ _ assms(8) run])
          (use 2 Inr fetch_versions(2) [OF assms(4) _ Inr, of operation] te(3) ok tuple_store.updated_executes [OF assms(1,2)] in auto)
    qed (rule failed [OF _ run])
  next
    case 3
    note run = assms(11) [unfolded ProcessMessage_cases(3) [OF assms(3) assms(7) [unfolded 3]]]
    show ?thesis
    proof (cases "FindLatestRepresentations queryErr d key")
      case (Inr r)
      have prev: "previous_of d i operation v = Some r" "current_of d i operation v = None"
        using fetch_latest [OF assms(4) Inr] 3 by (simp_all add: current_of_def)
      show ?thesis
        by (rule pc [OF _ _ assms(8) run])
          (use 3 Inr prev ok tuple_store.deleted_executes [OF assms(1,2)] in auto)
    qed (rule failed [OF _ run], simp)
  qed
qed

lemma message_effect:
  assumes "tuple_store (cv_relations env) keys valid ok" "factory_built FeaturesAwareSchemaFactory (cv_schemas env)"
    and "cv_relationsEnabled env" "known_key d key i" "event_message msg key v"
    and "operation \<in> {''created'', ''updated'', ''deleted''}" "go_map_get headers ''operation'' = operation"
    and "valid s" "tuples_at (cv_schemas env) key (previous_of d i operation v) \<subseteq> keys s"
    and "ProcessMessage env fc queryErr d headers msg s = Some (Inr resp, s')"
    and ok: "storable ok (cv_schemas env) key (previous_of d i operation v)" "storable ok (cv_schemas env) key (current_of d i operation v)"
  shows "valid s' \<and> keys s' = (keys s - tuples_at (cv_schemas env) key (previous_of d i operation v)) \<union>
    tuples_at (cv_schemas env) key (current_of d i operation v)"
  using message_outcome [OF assms(1-8) ok assms(10)] assms(9) unfolding outcome_def by auto

section \<open>Messages are processed\<close>

text \<open>A repository that answers the calls made with the fencing check \<open>fc\<close>.\<close>

definition reliable :: "'s relations_repository \<Rightarrow> ('s \<Rightarrow> bool) \<Rightarrow> (relations_tuple \<Rightarrow> bool) \<Rightarrow> fencing_check \<Rightarrow> bool" where
  "reliable ops valid ok fc \<longleftrightarrow> (\<forall>s ts. valid s \<longrightarrow> list_all ok ts \<longrightarrow> is_ok (fst (ro_CreateTuples ops ts True (Some fc) s))) \<and>
     (\<forall>s t. valid s \<longrightarrow> ok t \<longrightarrow> is_ok (fst (ro_DeleteTuples ops (tupleToFilter t) (Some fc) s)))"

lemma is_ok_pairE:
  assumes "is_ok (fst p)"
  obtains r s' where "p = (Inr r, s')"
  using assms by (cases p) (auto simp: is_ok_iff)

lemma Retry_first: "is_ok (fst (operation s)) \<Longrightarrow> m = -1 \<or> 0 < m \<Longrightarrow> \<exists>r s'. Retry operation m s = Some (Inr r, s')"
  unfolding Retry_def by (erule is_ok_pairE, subst retry_loop.simps) auto

context tuple_store
begin

lemma CreateTuple_reliable:
  assumes "reliable ops valid ok fc" "valid s" "cs \<noteq> []" "list_all ok cs"
  shows "is_ok (fst (CreateTuple ops fc (Some cs) s))"
proof -
  have "is_ok (fst (ro_CreateTuples ops cs True (Some fc) s))" using assms by (simp add: reliable_def)
  with assms(3) show ?thesis by (cases cs) (auto simp: CreateTuple_def elim!: is_ok_pairE)
qed

lemma delete_loop_reliable:
  "reliable ops valid ok fc \<Longrightarrow> valid s \<Longrightarrow> list_all ok ds \<Longrightarrow> is_ok (fst (delete_loop ops fc ds token s))"
proof (induction ds arbitrary: token s)
  case (Cons d ds)
  have "is_ok (fst (ro_DeleteTuples ops (tupleToFilter d) (Some fc) s))" using Cons.prems by (simp add: reliable_def)
  then obtain t s1 where t: "ro_DeleteTuples ops (tupleToFilter d) (Some fc) s = (Inr t, s1)" by (rule is_ok_pairE)
  with remove_ok [OF Cons.prems(2) _ t] Cons.prems Cons.IH show ?case by simp
qed simp

lemma UpdateTuple_reliable:
  assumes "reliable ops valid ok fc" "valid s" "wf_ttr t" "list_all ok (creates t)" "list_all ok (deletes t)"
  shows "is_ok (fst (UpdateTuple ops fc (ttr_tuplesToCreate t) (ttr_tuplesToDelete t) s))"
proof -
  have d: "is_ok (fst (DeleteTuple ops fc ds s1))" if "valid s1" "list_all ok ds" for ds s1
    unfolding DeleteTuple_def by (rule delete_loop_reliable [OF assms(1) that])
  have c: "\<exists>r s1. CreateTuple ops fc (Some cs) s = (Inr r, s1) \<and> valid s1" if ne: "cs \<noteq> []" "list_all ok cs" for cs
  proof -
    obtain r s1 where r: "CreateTuple ops fc (Some cs) s = (Inr r, s1)"
      using CreateTuple_reliable [OF assms(1,2) ne] by (rule is_ok_pairE)
    with changesD(1) [OF CreateTuple_changes [OF ne(2)] assms(2)] show ?thesis by blast
  qed
  have step: "is_ok (fst (case ttr_tuplesToDelete t of None \<Rightarrow> (Inr token, s1)
      | Some ds \<Rightarrow> if length ds > 0 then (case DeleteTuple ops fc ds s1 of
           (Inl e, s2) \<Rightarrow> (Inl (Wrap ''failed to delete tuples'' e), s2)
         | (Inr deleteToken, s2) \<Rightarrow> (Inr (if token = [] then deleteToken else token), s2)) else (Inr token, s1)))"
    if v: "valid s1" for token s1
  proof (cases "ttr_tuplesToDelete t")
    case (Some ds)
    have "list_all ok ds" using assms(5) Some by (simp add: deletes_def)
    then obtain r s2 where "DeleteTuple ops fc ds s1 = (Inr r, s2)" using d [OF v] by (blast intro: is_ok_pairE)
    with Some show ?thesis by simp
  qed simp
  show ?thesis
  proof (cases "ttr_tuplesToCreate t")
    case None
    with step [OF assms(2)] show ?thesis by (simp add: UpdateTuple_def)
  next
    case (Some cs)
    with assms(3) have "cs \<noteq> []" by (auto simp: wf_ttr_def)
    moreover have "list_all ok cs" using assms(4) Some by (simp add: creates_def)
    ultimately obtain r s1 where "CreateTuple ops fc (Some cs) s = (Inr r, s1)" "valid s1" using c by blast
    with step [of s1 r] Some \<open>cs \<noteq> []\<close> show ?thesis by (simp add: UpdateTuple_def)
  qed
qed

end

lemma process_runs:
  assumes "factory_built FeaturesAwareSchemaFactory (cv_schemas env)" "ParseMessage (km_Value msg) = Inr (Some te)"
    and "fetch (te_reporterResourceKey te) (te_commonVersion te) = Inr (current, previous)"
    and exec: "\<And>t. CalculateTuplesForResource (GetResourceSchema (cv_schemas env)) current previous (te_reporterResourceKey te) = Inr t \<Longrightarrow>
      \<not> ttr_IsEmpty t \<Longrightarrow> is_ok (fst (execute t s))"
    and "cv_OperationMaxRetries env = -1 \<or> 0 < cv_OperationMaxRetries env"
  shows "\<exists>resp s'. processRelationsOperation env fetch execute msg s = Some (Inr resp, s')"
proof -
  let ?key = "te_reporterResourceKey te"
  obtain t where t: "CalculateTuplesForResource (GetResourceSchema (cv_schemas env)) current previous ?key = Inr t"
    using registry_schema(1,3) [OF assms(1)] tuple_schema.calc_total by metis
  show ?thesis
  proof (cases "ttr_IsEmpty t")
    case True
    with assms(2,3) t show ?thesis by (simp add: processRelationsOperation_def)
  next
    case False
    with Retry_first [where operation = "execute t" and s = s, OF exec [OF t False] assms(5)] assms(2,3) t show ?thesis by (simp add: processRelationsOperation_def)
  qed
qed

lemma message_runs:
  assumes "tuple_store (cv_relations env) keys valid ok" "reliable (cv_relations env) valid ok fc" "valid s"
    and "factory_built FeaturesAwareSchemaFactory (cv_schemas env)" "cv_relationsEnabled env" "known_key d key i" "event_message msg key v"
    and "operation \<in> {''created'', ''updated'', ''deleted''}" "go_map_get headers ''operation'' = operation"
    and "cv_OperationMaxRetries env = -1 \<or> 0 < cv_OperationMaxRetries env"
    and deletable: "operation = ''deleted'' \<Longrightarrow> last_common_version d i \<noteq> None"
    and ok: "storable ok (cv_schemas env) key (previous_of d i operation v)" "storable ok (cv_schemas env) key (current_of d i operation v)"
  shows "\<exists>resp s'. ProcessMessage env fc None d headers msg s = Some (Inr resp, s')"
proof -
  obtain te where te: "ParseMessage (km_Value msg) = Inr (Some te)" "te_reporterResourceKey te = key" "te_commonVersion te = v"
    using assms(7) by (auto simp: event_message_def)
  note pr = process_runs [where s = s, OF assms(4) te(1) _ _ assms(10)]
  from assms(8) consider "operation = ''created''" | "operation = ''updated''" | "operation = ''deleted''" by blast
  then show ?thesis
  proof cases
    case 1
    have f: "FindCurrentAndPreviousVersionedRepresentations None d key v OperationTypeCreated = Inr (current_of d i operation v, None)"
      using 1 fetch_versions(1) [OF assms(6), of operation OperationTypeCreated v] by (simp add: previous_of_def)
    have "is_ok (fst (CreateTuple (cv_relations env) fc (ttr_tuplesToCreate t) s))"
      if t: "CalculateTuplesForResource (GetResourceSchema (cv_schemas env)) (current_of d i operation v) None key = Inr t" "\<not> ttr_IsEmpty t" for t
    proof -
      note c = calculated_changes [OF assms(4) t(1)]
      have "creates t \<noteq> []" "ttr_tuplesToCreate t = Some (creates t)"
        using c(5,7) t(2) by (auto simp: ttr_IsEmpty_iff wf_ttr_Some)
      with tuple_store.CreateTuple_reliable [OF assms(1-3)] c(3) [OF ok(2)] show ?thesis by simp
    qed
    then show ?thesis unfolding ProcessMessage_cases(1) [OF assms(5) assms(9) [unfolded 1]] using f te by (intro pr) auto
  next
    case 2
    have "is_ok (fst (UpdateTuple (cv_relations env) fc (ttr_tuplesToCreate t) (ttr_tuplesToDelete t) s))"
      if t: "CalculateTuplesForResource (GetResourceSchema (cv_schemas env)) (current_of d i operation v) (previous_of d i operation v) key = Inr t" for t
      using tuple_store.UpdateTuple_reliable [OF assms(1-3)] calculated_changes(3-5) [OF assms(4) t] ok by blast
    then show ?thesis unfolding ProcessMessage_cases(2) [OF assms(5) assms(9) [unfolded 2]]
      using fetch_versions(1) [OF assms(6), of operation OperationTypeUpdated v] 2 te by (intro pr) auto
  next
    case 3
    obtain rr where rr: "db_inv d" "rrk_reporterInstanceId key \<noteq> []" "rr \<in> set (db_reporter_resources d)"
      "rrs_Key rr = key_snapshot key" "rrs_ResourceID rr = i"
      using assms(6) by (auto simp: known_key_def)
    then obtain r where r: "FindLatestRepresentations None d key = Inr r"
      using FindLatestRepresentations_eq(1) [OF rr(1-4)] deletable [OF 3] by auto
    have "is_ok (fst (case ttr_tuplesToDelete t of None \<Rightarrow> (Inl nil_panic, s)
          | Some ds \<Rightarrow> (case DeleteTuple (cv_relations env) fc ds s of (Inl e, s2) \<Rightarrow> (Inl e, s2) | (Inr _, s2) \<Rightarrow> (Inr [], s2))))"
      if t: "CalculateTuplesForResource (GetResourceSchema (cv_schemas env)) None (Some r) key = Inr t" "\<not> ttr_IsEmpty t" for t
    proof -
      note c = calculated_changes [OF assms(4) t(1)]
      have "ttr_tuplesToDelete t = Some (deletes t)" using c(5,6) t(2) by (auto simp: ttr_IsEmpty_iff wf_ttr_Some)
      with tuple_store.delete_loop_reliable [OF assms(1-3), of "deletes t" "[]"] c(4) ok(1) fetch_latest [OF assms(6) r] 3 show ?thesis
        by (auto simp: DeleteTuple_def elim!: is_ok_pairE)
    qed
    then show ?thesis unfolding ProcessMessage_cases(3) [OF assms(5) assms(9) [unfolded 3]] using r te by (intro pr) auto
  qed
qed

section \<open>Replication properties\<close>

text \<open>A resource with two common representations, moved from one workspace to another.\<close>

definition moved_row :: "version \<Rightarrow> string \<Rightarrow> data_common_representation" where
  "moved_row v w = \<lparr>crs_Data = Some [(''workspace_id'', JStr w)], crs_ResourceId = 1, crs_Version = v,
     crs_ReportedByReporterType = ''features'', crs_ReportedByReporterInstance = ''i'', crs_TransactionId = [], crs_CreatedAt = 0\<rparr>"

definition moved_db :: db where
  "moved_db = \<lparr>db_resource = [\<lparr>dr_ID = 1, dr_Type = ''service'', dr_CommonVersion = Some 1, dr_ConsistencyToken = [],
        dr_CreatedAt = 0, dr_UpdatedAt = 0\<rparr>],
     db_reporter_resources = [\<lparr>rrs_ID = 2, rrs_Key = key_snapshot sample_service_key, rrs_ResourceID = 1, rrs_APIHref = ''/a'',
        rrs_ConsoleHref = None, rrs_RepresentationVersion = 1, rrs_Generation = 0, rrs_Tombstone = False, rrs_CreatedAt = 0, rrs_UpdatedAt = 0\<rparr>],
     db_reporter_representations = [], db_common_representations = [moved_row 0 ''w1'', moved_row 1 ''w2''], db_wal = []\<rparr>"

lemma moved_key: "known_key moved_db sample_service_key 1"
proof -
  have "{..1 :: version} = {0, 1}"
  proof (rule set_eqI)
    fix x :: version
    have "unat x \<le> 1 \<longleftrightarrow> unat x = 0 \<or> unat x = 1" by linarith
    then show "x \<in> {..1} \<longleftrightarrow> x \<in> {0, 1}" by (simp add: word_le_nat_alt word_unat_eq_iff)
  qed
  moreover have "versions_of moved_db 1 = {0, 1}"
    unfolding versions_of_set by (simp add: moved_db_def moved_row_def insert_commute)
  ultimately have v: "versions_of moved_db 1 = {..1}" by simp
  have l: "last_common_version moved_db 1 = Some 1" using v by (simp add: last_common_version_Some)
  have "db_inv moved_db" unfolding db_inv_def
    using v l by (auto simp: contiguous_def common_keys_unique_def same_common_key_def moved_row_def moved_db_def map_len_def)
  then show ?thesis by (simp add: known_key_def moved_db_def sample_service_key_def rrk_reporterInstanceId_def)
qed

definition moved_message :: kafka_message where
  "moved_message = \<lparr>km_TopicPartition = \<lparr>tp_Partition = 0, tp_Offset = 7\<rparr>, km_Headers = [(''operation'', ''updated''), (''txid'', ''t2'')],
     km_Key = Some (JObj [(''payload'', JStr ''u'')]),
     km_Value = Some (JObj [(''payload'', TupleEvent_MarshalJSON \<lparr>te_reporterResourceKey = sample_service_key,
       te_commonVersion = Some 1, te_reporterRepresentationVersion = Some 1\<rparr>)])\<rparr>"

lemma TupleEvent_JObj: "\<exists>o1. TupleEvent_MarshalJSON te = JObj o1"
  by (simp add: TupleEvent_MarshalJSON_def)

lemma ParseMessage_envelope:
  assumes "map_of o1 ''payload'' = Some (json_floats (TupleEvent_MarshalJSON te))" "schema_field_ok o1"
    and "exact_version (te_commonVersion te)" "exact_version (te_reporterRepresentationVersion te)"
  shows "ParseMessage (Some (JObj o1)) = Inr (Some te)"
  using assms(1,2) TupleEvent_floats [OF assms(3,4)] TupleEvent_JObj [of te] TupleEvent_json_roundtrip [of te] by (auto simp: ParseMessage_def)

lemma moved_event: "event_message moved_message sample_service_key (Some 1)"
proof -
  let ?te = "\<lparr>te_reporterResourceKey = sample_service_key, te_commonVersion = Some 1, te_reporterRepresentationVersion = Some (1 :: version)\<rparr>"
  have "ParseMessage (km_Value moved_message) = Inr (Some ?te)"
    unfolding moved_message_def kafka_message.simps by (rule ParseMessage_envelope) (simp_all add: TupleEvent_floats schema_field_ok_def)
  then show ?thesis by (simp add: event_message_def)
qed

definition moved_env :: "simple_relations_repository consumer_env" where
  "moved_env = \<lparr>cv_relations = simple_relations, cv_relationsEnabled = True, cv_schemas = [], cv_OperationMaxRetries = 3,
     cv_CommitModulo = 5, cv_ConsumerGroupID = ''g'', cv_hasNotifier = True, cv_uuid_parse = (\<lambda>_. Some 1)\<rparr>"

definition moved_store :: simple_relations_repository where
  "moved_store = NewSimpleRelationsRepository\<lparr>sr_tuples := [simpleTupleKeyFromModelTuple (NewWorkspaceRelationsTuple ''w1'' sample_service_key)]\<rparr>"

definition moved_headers :: "(string \<times> string) list" where
  "moved_headers = [(''operation'', ''updated''), (''txid'', ''t2'')]"

lemma moved_schemas: "factory_built FeaturesAwareSchemaFactory []"
  by (simp add: factory_built_def GetResourceSchema_def)

lemma simple_reliable: "reliable simple_relations (\<lambda>s. simple_inv s \<and> sr_createTuplesError s = None \<and> sr_deleteTuplesError s = None) wf_tuple fc"
  by (simp add: reliable_def simple_relations_def Simple_CreateTuples_def Simple_DeleteTuples_def Let_def)

interpretation simple_reliable_store: relations_store simple_relations "\<lambda>s. set (sr_tuples s)"
  "\<lambda>s. simple_inv s \<and> sr_createTuplesError s = None \<and> sr_deleteTuplesError s = None"
  by unfold_locales
    (auto simp: simple_relations_def Simple_CreateTuples_def Simple_DeleteTuples_def Let_def set_fold_insert simple_inv_def
      advanceVersion_def)

lemma moved_tuples:
  "tuples_at [] sample_service_key (previous_of moved_db 1 ''updated'' (Some 1)) =
     {simpleTupleKeyFromModelTuple (NewWorkspaceRelationsTuple ''w1'' sample_service_key)}"
  "tuples_at [] sample_service_key (current_of moved_db 1 ''updated'' (Some 1)) =
     {simpleTupleKeyFromModelTuple (NewWorkspaceRelationsTuple ''w2'' sample_service_key)}"
  by code_simp+


text \<open>C7. Replication of one message, whatever fails on the way: when processing of a create, update or delete
  message returns success, with any number of failed and repeated attempts before it, the relations
  store holds exactly the tuples of the current representation in place of those of the previous
  one, and every other tuple as before.\<close>

theorem message_replicated:
  assumes "tuple_store (cv_relations env) keys valid ok" "factory_built FeaturesAwareSchemaFactory (cv_schemas env)"
    and "cv_relationsEnabled env" "known_key d key i" "event_message msg key v"
    and "operation \<in> {''created'', ''updated'', ''deleted''}" "go_map_get headers ''operation'' = operation"
    and "valid s" "tuples_at (cv_schemas env) key (previous_of d i operation v) \<subseteq> keys s"
    and "ProcessMessage env fc queryErr d headers msg s = Some (Inr resp, s')"
    and "storable ok (cv_schemas env) key (previous_of d i operation v)" "storable ok (cv_schemas env) key (current_of d i operation v)"
  shows "keys s' = (keys s - tuples_at (cv_schemas env) key (previous_of d i operation v)) \<union>
    tuples_at (cv_schemas env) key (current_of d i operation v)"
  using message_effect [OF assms] by blast

lemma moved_keys: "set (sr_tuples moved_store) = {simpleTupleKeyFromModelTuple (NewWorkspaceRelationsTuple ''w1'' sample_service_key)}"
  by (simp add: moved_store_def NewSimpleRelationsRepository_def)

lemma moved_valid: "simple_inv moved_store" "sr_createTuplesError moved_store = None" "sr_deleteTuplesError moved_store = None"
  by (simp_all add: moved_store_def NewSimpleRelationsRepository_def simple_inv_def)

lemma moved_env_simps [simp]:
  "cv_relations moved_env = simple_relations" "cv_relationsEnabled moved_env" "cv_schemas moved_env = []" "cv_OperationMaxRetries moved_env = 3"
  by (simp_all add: moved_env_def)

theorem message_replicated_witness:
  "\<exists>resp s'. ProcessMessage moved_env (NewFencingCheck ''l'' ''t'') None moved_db moved_headers moved_message moved_store = Some (Inr resp, s') \<and>
     set (sr_tuples s') = {simpleTupleKeyFromModelTuple (NewWorkspaceRelationsTuple ''w2'' sample_service_key)}"
proof -
  have h: "go_map_get moved_headers ''operation'' = ''updated''" by (simp add: moved_headers_def go_map_get_def)
  obtain resp s' where r: "ProcessMessage moved_env (NewFencingCheck ''l'' ''t'') None moved_db moved_headers moved_message moved_store = Some (Inr resp, s')"
    using message_runs [OF simple_reliable_store.tuple_store_axioms [folded moved_env_simps(1)] simple_reliable [folded moved_env_simps(1)]
        _ _ _ moved_key moved_event _ h, of moved_store "NewFencingCheck ''l'' ''t''"] moved_valid moved_schemas by auto
  have "set (sr_tuples s') = (set (sr_tuples moved_store) - tuples_at [] sample_service_key (previous_of moved_db 1 ''updated'' (Some 1))) \<union>
      tuples_at [] sample_service_key (current_of moved_db 1 ''updated'' (Some 1))"
    using message_replicated [of moved_env "\<lambda>s. set (sr_tuples s)" simple_inv wf_tuple, OF _ _ _ moved_key moved_event _ h _ _ r]
      simple_store.tuple_store_axioms moved_valid moved_schemas
    by (simp add: moved_tuples moved_keys)
  with r show ?thesis by (auto simp: moved_tuples moved_keys)
qed

text \<open>The representations a message refers to can be read: the query does not fail, and a deletion finds a common
  representation. A message without a common version needs no query.\<close>

definition representations_readable :: "go_error option \<Rightarrow> db \<Rightarrow> uuid \<Rightarrow> string \<Rightarrow> version option \<Rightarrow> bool" where
  "representations_readable queryErr d i operation v \<longleftrightarrow>
     (if operation = ''deleted'' then queryErr = None \<and> last_common_version d i \<noteq> None else v = None \<or> queryErr = None)"

lemma unreadable_message_fails:
  assumes "cv_relationsEnabled env" "known_key d key i" "event_message msg key v"
    and "operation \<in> {''created'', ''updated'', ''deleted''}" "go_map_get headers ''operation'' = operation"
    and "\<not> representations_readable queryErr d i operation v"
  shows "\<exists>e. ProcessMessage env fc queryErr d headers msg s = Some (Inl e, s)"
proof -
  obtain te where te: "ParseMessage (km_Value msg) = Inr (Some te)" "te_reporterResourceKey te = key" "te_commonVersion te = v"
    using assms(3) by (auto simp: event_message_def)
  from assms(4) consider "operation = ''created''" | "operation = ''updated''" | "operation = ''deleted''" by blast
  then show ?thesis
  proof cases
    case 1
    with assms(6) show ?thesis unfolding ProcessMessage_cases(1) [OF assms(1) assms(5) [unfolded 1]]
      by (auto simp: te processRelationsOperation_def FindCurrentAndPreviousVersionedRepresentations_def representations_readable_def)
  next
    case 2
    with assms(6) show ?thesis unfolding ProcessMessage_cases(2) [OF assms(1) assms(5) [unfolded 2]]
      by (auto simp: te processRelationsOperation_def FindCurrentAndPreviousVersionedRepresentations_def representations_readable_def)
  next
    case 3
    obtain rr where rr: "db_inv d" "rrk_reporterInstanceId key \<noteq> []" "rr \<in> set (db_reporter_resources d)"
      "rrs_Key rr = key_snapshot key" "rrs_ResourceID rr = i"
      using assms(2) by (auto simp: known_key_def)
    have "\<exists>e. FindLatestRepresentations queryErr d key = Inl e"
      using 3 assms(6) FindLatestRepresentations_eq(2) [OF rr(1-4), of queryErr] rr(5)
      by (cases queryErr) (auto simp: representations_readable_def FindLatestRepresentations_def)
    then show ?thesis unfolding ProcessMessage_cases(3) [OF assms(1) assms(5) [unfolded 3]]
      by (auto simp: te processRelationsOperation_def)
  qed
qed

lemma readable_query:
  assumes "cv_relationsEnabled env" "event_message msg key v" "operation \<in> {''created'', ''updated'', ''deleted''}"
    and "go_map_get headers ''operation'' = operation" "representations_readable queryErr d i operation v"
  shows "ProcessMessage env fc queryErr d headers msg s = ProcessMessage env fc None d headers msg s"
proof (cases "queryErr")
  case (Some e)
  with assms(5) have v: "v = None" "operation \<noteq> ''deleted''" by (auto simp: representations_readable_def split: if_splits)
  obtain te where te: "ParseMessage (km_Value msg) = Inr (Some te)" "te_commonVersion te = None"
    using assms(2) v(1) by (auto simp: event_message_def)
  from assms(3) v(2) consider "operation = ''created''" | "operation = ''updated''" by blast
  then show ?thesis
    by cases (use assms(4) te in \<open>simp_all add: ProcessMessage_cases [OF assms(1)] processRelationsOperation_def
      FindCurrentAndPreviousVersionedRepresentations_def\<close>)
qed simp

text \<open>C32. When the relations service answers, a message of a known resource is processed exactly if the representations it refers to can
  be read. Then processing succeeds after its first attempt, and the tuples of the previous representation are replaced by those of the
  current one. Otherwise, when the query fails or a deleted resource never had a common representation, processing fails and
  leaves the tuples alone.\<close>

theorem message_processed:
  assumes "tuple_store (cv_relations env) keys valid ok" "reliable (cv_relations env) valid ok fc" "valid s"
    and "factory_built FeaturesAwareSchemaFactory (cv_schemas env)" "cv_relationsEnabled env" "known_key d key i" "event_message msg key v"
    and "operation \<in> {''created'', ''updated'', ''deleted''}" "go_map_get headers ''operation'' = operation"
    and "cv_OperationMaxRetries env = -1 \<or> 0 < cv_OperationMaxRetries env"
    and "storable ok (cv_schemas env) key (previous_of d i operation v)" "storable ok (cv_schemas env) key (current_of d i operation v)"
    and "tuples_at (cv_schemas env) key (previous_of d i operation v) \<subseteq> keys s"
  shows "if representations_readable queryErr d i operation v
    then \<exists>resp s'. ProcessMessage env fc queryErr d headers msg s = Some (Inr resp, s') \<and> valid s' \<and>
      keys s' = (keys s - tuples_at (cv_schemas env) key (previous_of d i operation v)) \<union>
        tuples_at (cv_schemas env) key (current_of d i operation v)
    else \<exists>e. ProcessMessage env fc queryErr d headers msg s = Some (Inl e, s)"
proof (cases "representations_readable queryErr d i operation v")
  case True
  then have "operation = ''deleted'' \<Longrightarrow> last_common_version d i \<noteq> None" by (simp add: representations_readable_def)
  then show ?thesis
    using True readable_query [OF assms(5,7-9) True] message_runs [OF assms(1-10) _ assms(11,12)]
      message_effect [OF assms(1,4-9,3,13) _ assms(11,12)] by force
qed (simp add: unreadable_message_fails [OF assms(5-9)])

theorem message_processed_witness:
  "(\<exists>resp s'. ProcessMessage moved_env (NewFencingCheck ''l'' ''t'') None moved_db moved_headers moved_message moved_store = Some (Inr resp, s') \<and>
     simple_inv s' \<and> set (sr_tuples s') = {simpleTupleKeyFromModelTuple (NewWorkspaceRelationsTuple ''w2'' sample_service_key)}) \<and>
   (\<exists>e. ProcessMessage moved_env (NewFencingCheck ''l'' ''t'') (Some (Errorf ''refused'')) moved_db moved_headers moved_message moved_store =
     Some (Inl e, moved_store))"
proof -
  have h: "go_map_get moved_headers ''operation'' = ''updated''" by (simp add: moved_headers_def go_map_get_def)
  note processed = message_processed [of moved_env, OF _ _ _ _ _ moved_key moved_event _ h, where s = moved_store and fc = "NewFencingCheck ''l'' ''t''",
        OF simple_reliable_store.tuple_store_axioms [folded moved_env_simps(1)] simple_reliable [folded moved_env_simps(1)]]
  show ?thesis
    using processed [where queryErr = None] processed [where queryErr = "Some (Errorf ''refused'')"] moved_valid moved_schemas
    by (auto simp: moved_tuples moved_keys representations_readable_def)
qed

text \<open>What the outbox writes the consumer reads back: the payload of a tuple event, in the envelope the
  connector puts around it, parses to the same event, for versions below \<open>2 ^ 53\<close>.\<close>

lemma outbox_message_parsed:
  assumes "convertResourceToTupleEvent key cv rv = Inr (TuplePayload payload)"
    and "map_of envelope ''payload'' = Some payload" "schema_field_ok envelope" "exact_version cv" "exact_version rv"
  shows "\<exists>te. ParseMessage (Some (JObj envelope)) = Inr (Some te) \<and> te_reporterResourceKey te = key \<and> te_commonVersion te = cv \<and>
    te_reporterRepresentationVersion te = rv"
proof -
  from assms(1) obtain te where te: "NewTupleEvent key cv rv = Inr te" "payload = json_floats (TupleEvent_MarshalJSON te)"
    by (auto simp: convertResourceToTupleEvent_def res_iffs)
  from te(1) have "te = \<lparr>te_reporterResourceKey = key, te_commonVersion = cv, te_reporterRepresentationVersion = rv\<rparr>"
    by (auto simp: NewTupleEvent_def split: if_splits)
  with ParseMessage_envelope assms(2-5) te(2) show ?thesis by auto
qed

end
