(* ===== verification/Offset_Laws.thy ===== *)
theory Offset_Laws
  imports Consumer_Laws
begin

text \<open>
  Offsets of the consumer: no processed offset is lost or committed twice, in any run of the
  consumption loop with rebalances and shutdowns, and in any interleaving of storing offsets with
  the two critical sections of a commit. Also the messages and tokens for which the consumer falls
  short.
\<close>

section \<open>Runs of the consumer\<close>

text \<open>A message is completed when its processing and the update of the consistency token succeed.\<close>

definition completed :: "'s consumer_env \<Rightarrow> step_io \<Rightarrow> kafka_message \<Rightarrow> 's consumer_state \<Rightarrow> bool" where
  "completed env io msg c = (case ParseHeaders msg of
     Inl _ \<Rightarrow> False
   | Inr headers \<Rightarrow>
       (case ProcessMessage env (NewFencingCheck (cs_lockId c) (cs_lockToken c)) (io_query io) (cs_db c) headers msg (cs_relations c) of
          Some (Inr resp, s') \<Rightarrow> go_map_get headers ''operation'' = ''deleted'' \<or>
            (case store_token env (io_update io) msg resp (cs_db c) of Inr (Some d) \<Rightarrow> True | _ \<Rightarrow> False)
        | _ \<Rightarrow> False))"

definition all_offsets :: "'s consumer_state \<Rightarrow> topic_partition list" where
  "all_offsets c = cs_committed c @ cs_OffsetStorage c"

inductive consumer_run :: "'s consumer_env \<Rightarrow> 's consumer_state \<Rightarrow> topic_partition list \<Rightarrow> 's consumer_state \<Rightarrow> bool"
  for env c where
  start: "consumer_run env c [] c"
| message: "consumer_run env c ps c1 \<Longrightarrow> consume_message env io msg c1 = Some (Inr (True, c2)) \<Longrightarrow>
    consumer_run env c (ps @ (if completed env io msg c1 then [km_TopicPartition msg] else [])) c2"
| stopped: "consumer_run env c ps c1 \<Longrightarrow> consume_message env io msg c1 = Some (Inr (False, c2)) \<Longrightarrow> consumer_run env c ps c2"
| rebalance: "consumer_run env c ps c1 \<Longrightarrow> RebalanceCallback env e event c1 = Some (err, c2) \<Longrightarrow> consumer_run env c ps c2"
| shutdown: "consumer_run env c ps c1 \<Longrightarrow> Shutdown e1 e2 c1 = (err, c2) \<Longrightarrow> consumer_run env c ps c2"

lemma commit_offsets [simp]: "all_offsets (snd (commitStoredOffsets e c)) = all_offsets c"
  by (simp add: all_offsets_def commitStoredOffsets_def take_offsets_def restore_offsets_def split: option.splits)

lemma commit_success [simp]: "cs_OffsetStorage (snd (commitStoredOffsets None c)) = []"
  by (simp add: commitStoredOffsets_def take_offsets_def)

lemma offset_step_offsets: "offset_step env e msg c = Inr c' \<Longrightarrow> all_offsets c' = all_offsets c @ [km_TopicPartition msg]"
  by (auto simp: offset_step_def Let_def res_iffs) (simp_all add: all_offsets_def)

text \<open>The part of a step after a successful \<open>ProcessMessage\<close>.\<close>

definition after_process :: "'s consumer_env \<Rightarrow> step_io \<Rightarrow> kafka_message \<Rightarrow> string \<Rightarrow> db option \<Rightarrow> 's consumer_state \<Rightarrow> (bool \<times> 's consumer_state) result" where
  "after_process env io msg txid updated c1 = (case updated of
     None \<Rightarrow> Inr (True, c1)
   | Some d \<Rightarrow> (let c2 = c1\<lparr>cs_db := d\<rparr>;
       c3 = (if cv_hasNotifier env \<and> txid \<noteq> [] \<and> io_notify io = None then c2\<lparr>cs_notified := cs_notified c2 @ [txid]\<rparr> else c2)
     in bind_res (offset_step env (io_commit io) msg c3) (\<lambda>c4. Inr (True, c4))))"

lemma after_process_offsets:
  assumes "after_process env io msg txid updated c1 = Inr (go, c')"
  shows "go" "all_offsets c' = all_offsets c1 @ (if updated = None then [] else [km_TopicPartition msg])"
proof -
  show "go" using assms by (auto simp: after_process_def Let_def res_iffs split: option.splits)
  show "all_offsets c' = all_offsets c1 @ (if updated = None then [] else [km_TopicPartition msg])"
  proof (cases updated)
    case (Some d)
    with assms obtain c3 where "offset_step env (io_commit io) msg c3 = Inr c'" "all_offsets c3 = all_offsets c1"
      by (auto simp: after_process_def Let_def res_iffs all_offsets_def split: if_splits)
    with offset_step_offsets Some show ?thesis by fastforce
  qed (use assms in \<open>simp add: after_process_def\<close>)
qed

lemma consume_offsets:
  assumes "consume_message env io msg c = Some (Inr (go, c'))"
  shows "all_offsets c' = all_offsets c @ (if go \<and> completed env io msg c then [km_TopicPartition msg] else [])"
proof (cases "ParseHeaders msg")
  case (Inl e)
  with assms show ?thesis by (simp add: consume_message_def)
next
  case (Inr headers)
  let ?P = "ProcessMessage env (NewFencingCheck (cs_lockId c) (cs_lockToken c)) (io_query io) (cs_db c) headers msg (cs_relations c)"
  let ?t = "\<lambda>resp. if go_map_get headers ''operation'' \<noteq> ''deleted'' then store_token env (io_update io) msg resp (cs_db c) else Inr (Some (cs_db c))"
  from assms Inr obtain x s' where x: "?P = Some (x, s')" by (cases ?P) (auto simp: consume_message_def Let_def)
  show ?thesis
  proof (cases x)
    case (Inl e)
    with assms Inr x show ?thesis by (auto simp: consume_message_def all_offsets_def Let_def split: if_splits)
  next
    case r: (Inr resp)
    from assms Inr x r have "bind_res (?t resp) (\<lambda>updated. after_process env io msg (go_map_get headers ''txid'') updated (c\<lparr>cs_relations := s'\<rparr>)) = Inr (go, c')"
      by (simp add: consume_message_def Let_def after_process_def cong: option.case_cong if_cong)
    then obtain updated where u: "?t resp = Inr updated"
      "after_process env io msg (go_map_get headers ''txid'') updated (c\<lparr>cs_relations := s'\<rparr>) = Inr (go, c')" by (auto simp: res_iffs)
    have "completed env io msg c \<longleftrightarrow> updated \<noteq> None"
      using Inr x r u(1) by (auto simp: completed_def split: if_splits option.splits)
    with after_process_offsets [OF u(2)] show ?thesis by (simp add: all_offsets_def)
  qed
qed

lemma rebalance_offsets:
  "RebalanceCallback env e event c = Some (err, c') \<Longrightarrow> all_offsets c' = all_offsets c"
  using commit_offsets [of e c]
  by (auto simp: RebalanceCallback_def Let_def all_offsets_def split: rebalance_event.splits list.splits sum.splits option.splits prod.splits if_splits)

lemma shutdown_offsets: "Shutdown e1 e2 c = (err, c') \<Longrightarrow> all_offsets c' = all_offsets c"
proof -
  assume "Shutdown e1 e2 c = (err, c')"
  then have "c' = snd (Shutdown e1 e2 c)" by simp
  also have "all_offsets \<dots> = all_offsets c"
    using commit_offsets [of e1 "c\<lparr>cs_shutdownInProgress := True\<rparr>"]
    by (auto simp: Shutdown_def Let_def all_offsets_def split: option.splits)
  finally show ?thesis .
qed

lemma run_offsets: "consumer_run env c ps c' \<Longrightarrow> all_offsets c' = all_offsets c @ ps"
proof (induction rule: consumer_run.induct)
  case (message ps c1 io msg c2)
  with consume_offsets [OF message.hyps(2)] show ?case by simp
next
  case (stopped ps c1 io msg c2)
  with consume_offsets [OF stopped.hyps(2)] show ?case by simp
qed (simp_all add: rebalance_offsets shutdown_offsets)

text \<open>C33. No processed offset is lost, repeated or reordered: after any run of messages, rebalances and
  shutdowns, with any failures of the broker, the committed offsets followed by the stored ones are
  those of the completed messages in the order of processing, and a shutdown whose commit
  succeeds commits all of them.\<close>

theorem offsets_conserved:
  assumes "consumer_run env c ps c'" "cs_committed c = []" "cs_OffsetStorage c = []"
  shows "cs_committed c' @ cs_OffsetStorage c' = ps \<and>
    (\<not> cs_closed c' \<longrightarrow> cs_committed (snd (Shutdown None closeErr c')) = ps)"
proof -
  have all: "cs_committed c' @ cs_OffsetStorage c' = ps"
    using run_offsets [OF assms(1)] assms(2,3) by (simp add: all_offsets_def)
  then have "cs_committed (snd (Shutdown None closeErr c')) = ps" if "\<not> cs_closed c'"
    using that by (auto simp: Shutdown_def Let_def commitStoredOffsets_def take_offsets_def split: option.splits)
  with all show ?thesis by blast
qed

definition moved_state :: "simple_relations_repository consumer_state" where
  "moved_state = \<lparr>cs_OffsetStorage = [], cs_committed = [], cs_lockId = ''l'', cs_lockToken = ''t'', cs_shutdownInProgress = False,
     cs_closed = False, cs_db = moved_db, cs_relations = moved_store, cs_notified = []\<rparr>"

definition quiet_io :: step_io where
  "quiet_io = \<lparr>io_query = None, io_update = None, io_notify = None, io_commit = None\<rparr>"

theorem offsets_conserved_witness:
  "\<exists>c'. consume_message moved_env quiet_io moved_message moved_state = Some (Inr (True, c')) \<and>
     cs_committed (snd (Shutdown None None c')) = [\<lparr>tp_Partition = 0, tp_Offset = 7\<rparr>]"
proof -
  have "case consume_message moved_env quiet_io moved_message moved_state of Some (Inr (go, c')) \<Rightarrow> go \<and> \<not> cs_closed c' | _ \<Rightarrow> False"
    by code_simp
  then obtain c' where c': "consume_message moved_env quiet_io moved_message moved_state = Some (Inr (True, c'))" "\<not> cs_closed c'"
    by (auto split: option.splits sum.splits)
  have "completed moved_env quiet_io moved_message moved_state" by code_simp
  then have "consumer_run moved_env moved_state ([] @ [km_TopicPartition moved_message]) c'"
    using consumer_run.message [OF consumer_run.start c'(1)] by simp
  with offsets_conserved [of moved_env moved_state "[km_TopicPartition moved_message]" c' None] c' show ?thesis
    by (simp add: moved_state_def moved_message_def)
qed

section \<open>Interleaved commits\<close>

text \<open>
  The lock of the source protects the storage only: the call to the broker runs outside it. Batches
  that were taken and whose commit has not been answered are in flight, several at a time when the
  loop, a rebalance and a shutdown commit concurrently.
\<close>

record offset_system =
  os_storage :: "topic_partition list"
  os_inflight :: "topic_partition list list"
  os_committed :: "topic_partition list"

inductive offset_move :: "offset_system \<Rightarrow> topic_partition list \<Rightarrow> offset_system \<Rightarrow> bool" where
  store: "offset_move \<sigma> [p] (\<sigma>\<lparr>os_storage := os_storage \<sigma> @ [p]\<rparr>)"
| take: "os_storage \<sigma> \<noteq> [] \<Longrightarrow> take_offsets (os_storage \<sigma>) = (batch, rest) \<Longrightarrow>
    offset_move \<sigma> [] (\<sigma>\<lparr>os_storage := rest, os_inflight := os_inflight \<sigma> @ [batch]\<rparr>)"
| ack: "os_inflight \<sigma> = bs @ batch # bs' \<Longrightarrow>
    offset_move \<sigma> [] (\<sigma>\<lparr>os_inflight := bs @ bs', os_committed := os_committed \<sigma> @ batch\<rparr>)"
| nack: "os_inflight \<sigma> = bs @ batch # bs' \<Longrightarrow>
    offset_move \<sigma> [] (\<sigma>\<lparr>os_inflight := bs @ bs', os_storage := restore_offsets batch (os_storage \<sigma>)\<rparr>)"

inductive offset_moves :: "offset_system \<Rightarrow> topic_partition list \<Rightarrow> offset_system \<Rightarrow> bool" for \<sigma> where
  no_moves: "offset_moves \<sigma> [] \<sigma>"
| more_moves: "offset_moves \<sigma> ps \<sigma>1 \<Longrightarrow> offset_move \<sigma>1 qs \<sigma>2 \<Longrightarrow> offset_moves \<sigma> (ps @ qs) \<sigma>2"

definition held :: "offset_system \<Rightarrow> topic_partition multiset" where
  "held \<sigma> = mset (os_committed \<sigma>) + mset (concat (os_inflight \<sigma>)) + mset (os_storage \<sigma>)"

lemma held_move: "offset_move \<sigma> ps \<sigma>' \<Longrightarrow> held \<sigma>' = held \<sigma> + mset ps"
  by (induction rule: offset_move.induct) (auto simp: held_def take_offsets_def restore_offsets_def)

lemma held_moves: "offset_moves \<sigma> ps \<sigma>' \<Longrightarrow> held \<sigma>' = held \<sigma> + mset ps"
  by (induction rule: offset_moves.induct) (simp_all add: held_move)

definition offset_view :: "'s consumer_state \<Rightarrow> offset_system" where
  "offset_view c = \<lparr>os_storage = cs_OffsetStorage c, os_inflight = [], os_committed = cs_committed c\<rparr>"

lemma offset_moves_two: "offset_move \<sigma> ps \<sigma>1 \<Longrightarrow> offset_move \<sigma>1 qs \<sigma>2 \<Longrightarrow> offset_moves \<sigma> (ps @ qs) \<sigma>2"
  using offset_moves.more_moves [OF offset_moves.more_moves [OF offset_moves.no_moves]] by fastforce

lemma commit_refines: "offset_moves (offset_view c) [] (offset_view (snd (commitStoredOffsets e c)))"
proof (cases "cs_OffsetStorage c = []")
  case True
  then show ?thesis by (simp add: commitStoredOffsets_def offset_moves.no_moves)
next
  case False
  let ?\<sigma> = "(offset_view c)\<lparr>os_storage := [], os_inflight := [cs_OffsetStorage c]\<rparr>"
  have 1: "offset_move (offset_view c) [] ?\<sigma>"
    using offset_move.take [of "offset_view c" "cs_OffsetStorage c" "[]"] False by (simp add: offset_view_def take_offsets_def)
  have 2: "offset_move ?\<sigma> [] (offset_view (snd (commitStoredOffsets e c)))"
    using offset_move.ack [of ?\<sigma> "[]" "cs_OffsetStorage c" "[]"] offset_move.nack [of ?\<sigma> "[]" "cs_OffsetStorage c" "[]"] False
    by (cases e) (simp_all add: offset_view_def commitStoredOffsets_def take_offsets_def restore_offsets_def)
  from offset_moves_two [OF 1 2] show ?thesis by simp
qed

text \<open>C34. Commits may overlap: in every interleaving of storing offsets, taking the stored ones, and the broker's
  acknowledgements and refusals, each processed offset is exactly once among the stored, the
  in-flight and the committed ones; \<open>commitStoredOffsets\<close> is one such sequence of moves.\<close>

theorem interleaved_commits_conserve:
  assumes "offset_moves (offset_view c) ps \<sigma>" "all_offsets c = []"
  shows "mset (os_committed \<sigma>) + mset (concat (os_inflight \<sigma>)) + mset (os_storage \<sigma>) = mset ps \<and>
    offset_moves (offset_view c2) [] (offset_view (snd (commitStoredOffsets e c2)))"
  using held_moves [OF assms(1)] assms(2) commit_refines [of c2 e] by (simp add: held_def offset_view_def all_offsets_def)

text \<open>Two offsets, the first refused by the broker after the second was stored.\<close>

theorem interleaved_commits_conserve_witness:
  "\<exists>\<sigma>. offset_moves (offset_view moved_state) [\<lparr>tp_Partition = 0, tp_Offset = 5\<rparr>, \<lparr>tp_Partition = 0, tp_Offset = 6\<rparr>] \<sigma> \<and>
     os_storage \<sigma> = [\<lparr>tp_Partition = 0, tp_Offset = 5\<rparr>, \<lparr>tp_Partition = 0, tp_Offset = 6\<rparr>] \<and>
     mset (os_committed \<sigma>) + mset (concat (os_inflight \<sigma>)) + mset (os_storage \<sigma>) =
       mset [\<lparr>tp_Partition = 0, tp_Offset = 5\<rparr>, \<lparr>tp_Partition = 0, tp_Offset = 6\<rparr>]"
proof -
  let ?p = "\<lparr>tp_Partition = 0, tp_Offset = 5\<rparr> :: topic_partition" and ?q = "\<lparr>tp_Partition = 0, tp_Offset = 6\<rparr> :: topic_partition"
  let ?v = "offset_view moved_state" and ?m = "\<lambda>s i. \<lparr>os_storage = s, os_inflight = i, os_committed = []\<rparr> :: offset_system"
  have v: "?v = ?m [] []" "all_offsets moved_state = []" by (simp_all add: offset_view_def all_offsets_def moved_state_def)
  have "offset_move (?m [] []) [?p] (?m [?p] [])" using offset_move.store [of "?m [] []" ?p] by simp
  moreover have "offset_move (?m [?p] []) [] (?m [] [[?p]])"
    using offset_move.take [of "?m [?p] []" "[?p]" "[]"] by (simp add: take_offsets_def)
  moreover have "offset_move (?m [] [[?p]]) [?q] (?m [?q] [[?p]])" using offset_move.store [of "?m [] [[?p]]" ?q] by simp
  moreover have "offset_move (?m [?q] [[?p]]) [] (?m [?p, ?q] [])"
    using offset_move.nack [of "?m [?q] [[?p]]" "[]" "[?p]" "[]"] by (simp add: restore_offsets_def)
  ultimately have "offset_moves ?v ((([] @ [?p]) @ []) @ [?q] @ []) (?m [?p, ?q] [])"
    using offset_moves.more_moves [OF offset_moves.more_moves [OF offset_moves.more_moves [OF offset_moves.more_moves [OF offset_moves.no_moves]]]] v(1) by fastforce
  then have m: "offset_moves ?v [?p, ?q] (?m [?p, ?q] [])" by simp
  from interleaved_commits_conserve [OF m v(2), of moved_state None] m show ?thesis by (intro exI [of _ "?m [?p, ?q] []"]) simp
qed

section \<open>Where the consumer falls short\<close>

text \<open>A delete message of a resource that never had a common representation stops the consumer: its processing
  fails for every state of the relations store, so consumption ends, no offset is stored for it, and
  the message is the next one after every restart.\<close>

lemma delete_without_common_data_stops:
  assumes "known_key (cs_db c) key i" "last_common_version (cs_db c) i = None" "event_message msg key v"
    and "ParseHeaders msg = Inr headers" "go_map_get headers ''operation'' = ''deleted''" "cv_relationsEnabled env"
  shows "consume_message env io msg c = Some (Inr (False, c))"
proof -
  obtain te where te: "ParseMessage (km_Value msg) = Inr (Some te)" "te_reporterResourceKey te = key" "te_commonVersion te = v"
    using assms(3) by (auto simp: event_message_def)
  obtain rr where rr: "db_inv (cs_db c)" "rrk_reporterInstanceId key \<noteq> []" "rr \<in> set (db_reporter_resources (cs_db c))"
    "rrs_Key rr = key_snapshot key" "rrs_ResourceID rr = i"
    using assms(1) by (auto simp: known_key_def)
  obtain e where e: "FindLatestRepresentations (io_query io) (cs_db c) key = Inl e"
    using FindLatestRepresentations_eq(2) [OF rr(1-4)] assms(2) rr(5) by auto
  then have "e \<noteq> nil_panic"
    by (auto simp: FindLatestRepresentations_def wrap_err_def nil_panic_def split: prod.splits sum.splits option.splits)
  moreover have "ProcessMessage env fc (io_query io) (cs_db c) headers msg s = Some (Inl e, s)" for fc s
    unfolding ProcessMessage_cases(3) [OF assms(6,5)] using te e by (simp add: processRelationsOperation_def)
  ultimately show ?thesis by (simp add: consume_message_def assms(4))
qed

definition unlinked_db :: db where
  "unlinked_db = moved_db\<lparr>db_common_representations := [], db_resource := map (\<lambda>r. r\<lparr>dr_CommonVersion := None\<rparr>) (db_resource moved_db)\<rparr>"

definition unlinked_message :: kafka_message where
  "unlinked_message = moved_message\<lparr>km_Headers := [(''operation'', ''deleted''), (''txid'', [])]\<rparr>"

text \<open>The token of an update is that of its creation.\<close>

lemma UpdateTuple_token:
  assumes "CreateTuple ops fc (Some cs) s = (Inr token, s1)" "token \<noteq> []" "cs \<noteq> []" "ds \<noteq> []" "is_ok (fst (DeleteTuple ops fc ds s1))"
  shows "fst (UpdateTuple ops fc (Some cs) (Some ds) s) = Inr token"
proof -
  obtain t s2 where "DeleteTuple ops fc ds s1 = (Inr t, s2)" using assms(5) by (rule is_ok_pairE)
  with assms(1-4) show ?thesis by (simp add: UpdateTuple_def)
qed

lemma Simple_Check_at: "sr_inv s \<Longrightarrow> Simple_Check rel (atLeastAsFreshConsistency (FormatInt (sr_version s))) s = Inr r \<Longrightarrow>
    chk_allowed r \<longleftrightarrow> rel_key rel \<in> set (sr_tuples s)"
  by (auto simp: Simple_Check_def Let_def consistencyToSimpleToken_def ConsistencyAtLeastAsFreshToken_def AsAtLeastAsFresh_def
      normalizeConsistency_def NewCheckResult_def rel_in_snapshot_iff getTuples_fresh serde)

lemma Simple_Check_snapshot:
  assumes "sr_snapshots s = [(v, ts)]" "0 \<le> v" "v < sr_version s" "v < 2 ^ 63"
    and "Simple_Check rel (atLeastAsFreshConsistency (FormatInt v)) s = Inr r"
  shows "chk_allowed r \<longleftrightarrow> rel_key rel \<in> set ts"
proof -
  have "ParseInt (FormatInt v) = Inr v" using assms(2,4) by (simp add: ParseInt_FormatInt)
  moreover have "sort [v, sr_version s] = [v, sr_version s]" using assms(3) by simp
  ultimately have "getTuplesForToken (FormatInt v) s = ts"
    using assms(1,3) by (simp add: getTuplesForToken_def simpleParseConsistencyToken_def Let_def)
  with assms(5) show ?thesis
    by (auto simp: Simple_Check_def Let_def consistencyToSimpleToken_def ConsistencyAtLeastAsFreshToken_def AsAtLeastAsFresh_def
        normalizeConsistency_def NewCheckResult_def rel_in_snapshot_iff serde)
qed

text \<open>C39. The token of an update is not as fresh as the update: when a tuple is replaced, the returned token is that
  of the creation, so a check at that token may still be answered from the snapshot between creation and
  deletion, where the replaced tuple is allowed, while at the deletion's own token it is refused.\<close>

theorem update_token_misses_delete:
  assumes "sr_inv s" "sr_snapshots s = []" "sr_version s < 2 ^ 63 - 2" "sr_createTuplesError s = None" "sr_deleteTuplesError s = None"
    and "simpleTupleKeyFromModelTuple old \<in> set (sr_tuples s)" "wf_tuple old"
    and "rel = NewRelationship (rt_object old) (rt_relation old) (rt_subject old)"
    and "CreateTuple simple_relations fc (Some [new]) s = (Inr ct, s1)"
    and "DeleteTuple simple_relations fc [old] (RetainCurrentSnapshot s1) = (Inr dt, s2)"
  shows "fst (UpdateTuple simple_relations fc (Some [new]) (Some [old]) s) = Inr ct \<and>
    (\<exists>r. Simple_Check rel (atLeastAsFreshConsistency ct) s2 = Inr r \<and> chk_allowed r) \<and>
    (\<exists>r. Simple_Check rel (atLeastAsFreshConsistency dt) s2 = Inr r \<and> \<not> chk_allowed r)"
proof -
  let ?k = simpleTupleKeyFromModelTuple
  have s1: "s1 = advanceVersion (s\<lparr>sr_tuples := List.insert (?k new) (sr_tuples s)\<rparr>)" and ct: "ct = FormatInt (sr_version s1)"
    using assms(4,9) by (auto simp: CreateTuple_def simple_relations_def Simple_CreateTuples_def Let_def serde)
  have v1: "sr_version s1 = sr_version s + 1" "sr_snapshots s1 = []" "?k old \<in> set (sr_tuples s1)" "sr_deleteTuplesError s1 = None"
    using assms(2,3,5,6) by (auto simp: s1 advanceVersion_def)
  have s2: "s2 = advanceVersion ((RetainCurrentSnapshot s1)\<lparr>sr_tuples := filter (\<lambda>key. \<not> simpleMatchesTupleFilter key (tupleToFilter old)) (sr_tuples s1)\<rparr>)"
    and dt: "dt = FormatInt (sr_version s2)"
    using v1(4) assms(10) by (auto simp: DeleteTuple_def simple_relations_def Simple_DeleteTuples_def RetainCurrentSnapshot_def Let_def serde)
  have v2: "sr_version s2 = sr_version s + 2" "sr_snapshots s2 = [(sr_version s1, sr_tuples s1)]" "?k old \<notin> set (sr_tuples s2)"
    using assms(3,7) v1 tupleToFilter_exact [of old "?k old"] by (auto simp: s2 RetainCurrentSnapshot_def advanceVersion_def)
  have inv: "sr_inv s2" using assms(1,3) v1 v2 by (simp add: sr_inv_def)
  have "is_ok (fst (DeleteTuple simple_relations fc [old] s1))"
    using v1(4) by (simp add: DeleteTuple_def simple_relations_def Simple_DeleteTuples_def Let_def)
  from UpdateTuple_token [OF assms(9) _ _ _ this]
  have 1: "fst (UpdateTuple simple_relations fc (Some [new]) (Some [old]) s) = Inr ct" by (simp add: ct)
  have ex: "\<exists>r. Simple_Check rel (atLeastAsFreshConsistency t) s2 = Inr r" for t by (simp add: Simple_Check_def Let_def)
  have 2: "chk_allowed r" if "Simple_Check rel (atLeastAsFreshConsistency ct) s2 = Inr r" for r
    using Simple_Check_snapshot [OF v2(2) _ _ _ that [unfolded ct]] v1(1,3) v2(1) assms(1,3,8) by (simp add: sr_inv_def)
  have 3: "\<not> chk_allowed r" if "Simple_Check rel (atLeastAsFreshConsistency dt) s2 = Inr r" for r
    using Simple_Check_at [OF inv that [unfolded dt]] v2(3) assms(8) by simp
  from 1 2 3 ex show ?thesis by blast
qed

theorem update_token_misses_delete_witness:
  "\<exists>ct. fst (UpdateTuple simple_relations (NewFencingCheck ''l'' ''t'') (Some [NewWorkspaceRelationsTuple ''w2'' sample_service_key])
       (Some [sample_tuple]) moved_store) = Inr ct \<and>
     (\<exists>s2 r. Simple_Check sample_relationship (atLeastAsFreshConsistency ct) s2 = Inr r \<and> chk_allowed r)"
proof -
  let ?fc = "NewFencingCheck ''l'' ''t''" and ?new = "NewWorkspaceRelationsTuple ''w2'' sample_service_key"
  have i: "sr_inv moved_store" "sr_snapshots moved_store = []" "sr_version moved_store < 2 ^ 63 - 2"
    by (simp_all add: moved_store_def NewSimpleRelationsRepository_def sr_inv_def)
  obtain ct s1 where c: "CreateTuple simple_relations ?fc (Some [?new]) moved_store = (Inr ct, s1)" and s1: "sr_deleteTuplesError s1 = None"
    using moved_valid by (auto simp: CreateTuple_def simple_relations_def Simple_CreateTuples_def Let_def advanceVersion_def)
  obtain dt s2 where d: "DeleteTuple simple_relations ?fc [sample_tuple] (RetainCurrentSnapshot s1) = (Inr dt, s2)"
    using s1 by (auto simp: DeleteTuple_def simple_relations_def Simple_DeleteTuples_def RetainCurrentSnapshot_def Let_def)
  have "wf_tuple sample_tuple" by (simp add: sample_tuple_def NewWorkspaceRelationsTuple_def subject_tuple_wf)
  from update_token_misses_delete [OF i moved_valid(2,3) _ this refl c d] show ?thesis
    by (auto simp: moved_keys sample_tuple_def sample_relationship_def)
qed

end
