(* ===== verification/Authn.thy ===== *)
theory Authn
  imports Tiny_Types
begin

text \<open>
  Authentication: \<open>internal/authn\<close> (claims, the authorization context, the x-rh-identity, OIDC and
  unauthenticated authenticators, the first-match aggregation, protocol routing, completion of the
  configuration) and the authentication middleware of \<open>internal/middleware\<close>.

  Token verification (\<open>go-oidc\<close>), the decoding of the identity header (\<open>platform-go-middlewares\<close>) and
  provider discovery are not part of the sources: they are the fields of \<open>authn_env\<close>.
\<close>

section \<open>Claims and authorization context (\<open>internal/authn/api\<close>)\<close>

record claims =
  cl_SubjectId :: string
  cl_OrganizationId :: string
  cl_Issuer :: string
  cl_ClientID :: string
  cl_AuthType :: string

abbreviation AuthTypeOIDC :: string where "AuthTypeOIDC \<equiv> ''oidc''"
abbreviation AuthTypeXRhIdentity :: string where "AuthTypeXRhIdentity \<equiv> ''x-rh-identity''"
abbreviation AuthTypeAllowUnauthenticated :: string where "AuthTypeAllowUnauthenticated \<equiv> ''allow-unauthenticated''"
abbreviation ProtocolHTTP :: string where "ProtocolHTTP \<equiv> ''http''"
abbreviation ProtocolGRPC :: string where "ProtocolGRPC \<equiv> ''grpc''"
abbreviation ProtocolUnknown :: string where "ProtocolUnknown \<equiv> ''unknown''"

definition UnauthenticatedClaims :: claims where
  "UnauthenticatedClaims =
     \<lparr>cl_SubjectId = [], cl_OrganizationId = [], cl_Issuer = [], cl_ClientID = [], cl_AuthType = AuthTypeAllowUnauthenticated\<rparr>"

definition Claims_IsAuthenticated :: "claims option \<Rightarrow> bool" where
  "Claims_IsAuthenticated c = (case c of None \<Rightarrow> False | Some cl \<Rightarrow> cl_AuthType cl \<noteq> AuthTypeAllowUnauthenticated)"

record authz_context =
  ac_Protocol :: string
  ac_Subject :: "claims option"

definition AuthzContext_IsAuthenticated :: "authz_context \<Rightarrow> bool" where
  "AuthzContext_IsAuthenticated a = (case ac_Subject a of None \<Rightarrow> False | Some c \<Rightarrow> Claims_IsAuthenticated (Some c))"

definition ExtractPrincipal :: "authz_context \<Rightarrow> string" where
  "ExtractPrincipal a = (case ac_Subject a of
     None \<Rightarrow> ''unknown''
   | Some c \<Rightarrow> if cl_ClientID c \<noteq> [] then cl_ClientID c
               else if cl_SubjectId c \<noteq> [] then cl_SubjectId c
               else ''unknown'')"

datatype decision = Allow | Deny | Ignore

section \<open>Authenticators\<close>

record transport =
  tr_Kind :: string
  tr_Operation :: string
  tr_RequestHeader :: "string \<Rightarrow> string"

record oidc_options =
  oo_ClientId :: string
  oo_AuthorizationServerURL :: string
  oo_InsecureClient :: bool
  oo_SkipClientIDCheck :: bool
  oo_EnforceAudCheck :: bool
  oo_SkipIssuerCheck :: bool
  oo_PrincipalUserDomain :: string
  oo_GrpcEndpoints :: "string list"

record token_claims =
  tc_Audience :: string
  tc_Issuer :: string
  tc_Subject :: string
  tc_PreferredUsername :: string
  tc_ClientID :: string

record platform_identity =
  pi_Type :: string
  pi_OrgID :: string
  pi_UserID :: "string option"

record authn_env =
  ae_NewProvider :: "oidc_options \<Rightarrow> unit result"
  ae_Verify :: "oidc_options \<Rightarrow> string \<Rightarrow> string result"
  ae_Claims :: "string \<Rightarrow> token_claims result"
  ae_DecodeAndCheckIdentity :: "string \<Rightarrow> platform_identity result"

definition GetBearerToken :: "transport \<Rightarrow> string" where
  "GetBearerToken t =
     (let bearer = tr_RequestHeader t ''Authorization'' in
      if length bearer > 7 \<and> ToLower (take 6 bearer) = ''bearer'' then drop 7 bearer else [])"

definition OIDC_Authenticate :: "authn_env \<Rightarrow> oidc_options \<Rightarrow> transport \<Rightarrow> claims option \<times> decision" where
  "OIDC_Authenticate env o1 t =
     (if length (oo_GrpcEndpoints o1) > 0 \<and> \<not> list_ex (\<lambda>endpoint. endpoint = tr_Operation t) (oo_GrpcEndpoints o1)
      then (None, Ignore)
      else let rawToken = GetBearerToken t in
        if rawToken = [] then
          (if length (oo_GrpcEndpoints o1) > 0 then (None, Deny) else (None, Ignore))
        else (case ae_Verify env o1 rawToken of
            Inl _ \<Rightarrow> (None, Deny)
          | Inr tok \<Rightarrow> (case ae_Claims env tok of
                Inl _ \<Rightarrow> (None, Deny)
              | Inr u \<Rightarrow>
                  if oo_EnforceAudCheck o1 \<and> tc_Audience u \<noteq> oo_ClientId o1 then (None, Deny)
                  else if tc_Subject u \<noteq> [] \<and> oo_PrincipalUserDomain o1 \<noteq> []
                  then (Some \<lparr>cl_SubjectId = tc_Subject u, cl_OrganizationId = [], cl_Issuer = tc_Issuer u,
                              cl_ClientID = tc_ClientID u, cl_AuthType = AuthTypeOIDC\<rparr>, Allow)
                  else (None, Deny))))"

definition convertPlatformClaims :: "platform_identity \<Rightarrow> claims" where
  "convertPlatformClaims p =
     (let c = \<lparr>cl_SubjectId = [], cl_OrganizationId = [], cl_Issuer = [], cl_ClientID = [],
               cl_AuthType = AuthTypeXRhIdentity\<rparr> in
      if pi_Type p = ''User'' then
        (let c1 = (if pi_OrgID p \<noteq> [] then c\<lparr>cl_OrganizationId := pi_OrgID p\<rparr> else c)
         in case pi_UserID p of
              Some u \<Rightarrow> if u \<noteq> [] then c1\<lparr>cl_SubjectId := u\<rparr> else c1
            | None \<Rightarrow> c1)
      else c)"

definition XRhIdentity_Authenticate :: "authn_env \<Rightarrow> transport \<Rightarrow> claims option \<times> decision" where
  "XRhIdentity_Authenticate env t =
     (let identityHeader = tr_RequestHeader t ''x-rh-identity'' in
      if identityHeader = [] then (None, Ignore)
      else case ae_DecodeAndCheckIdentity env identityHeader of
          Inl _ \<Rightarrow> (None, Deny)
        | Inr p \<Rightarrow> (Some (convertPlatformClaims p), Allow))"

definition Unauthenticated_Authenticate :: "transport \<Rightarrow> claims option \<times> decision" where
  "Unauthenticated_Authenticate t = (Some UnauthenticatedClaims, Allow)"

datatype authenticator = OAuth2Authenticator oidc_options | UnauthenticatedAuthenticator | XRhIdentityAuthenticator

definition Authenticate :: "authn_env \<Rightarrow> transport \<Rightarrow> authenticator \<Rightarrow> claims option \<times> decision" where
  "Authenticate env t a = (case a of
     OAuth2Authenticator o1 \<Rightarrow> OIDC_Authenticate env o1 t
   | UnauthenticatedAuthenticator \<Rightarrow> Unauthenticated_Authenticate t
   | XRhIdentityAuthenticator \<Rightarrow> XRhIdentity_Authenticate env t)"

section \<open>First-match aggregation\<close>

text \<open>The loop over the chain: the claims of the first \<open>Allow\<close>, or the two counters.\<close>

fun first_match_loop :: "('a \<Rightarrow> claims option \<times> decision) \<Rightarrow> 'a list \<Rightarrow> nat \<Rightarrow> nat \<Rightarrow> claims option + nat \<times> nat" where
  "first_match_loop run [] denyCount ignoreCount = Inr (denyCount, ignoreCount)"
| "first_match_loop run (a # as) denyCount ignoreCount =
     (case run a of
        (c, Allow) \<Rightarrow> Inl c
      | (c, Deny) \<Rightarrow> first_match_loop run as (denyCount + 1) ignoreCount
      | (c, Ignore) \<Rightarrow> first_match_loop run as denyCount (ignoreCount + 1))"

definition FirstMatch_Authenticate :: "('a \<Rightarrow> claims option \<times> decision) \<Rightarrow> 'a list \<Rightarrow> claims option \<times> decision" where
  "FirstMatch_Authenticate run as =
     (case first_match_loop run as 0 0 of
        Inl c \<Rightarrow> (c, Allow)
      | Inr (denyCount, ignoreCount) \<Rightarrow>
          if length as = 0 then (None, Deny)
          else if denyCount = length as then (None, Deny)
          else if ignoreCount = length as then (None, Ignore)
          else (None, Deny))"

record protocol_routing_authenticator =
  pra_http :: "authenticator list"
  pra_grpc :: "authenticator list"

definition Routing_Authenticate ::
    "authn_env \<Rightarrow> protocol_routing_authenticator \<Rightarrow> transport \<Rightarrow> claims option \<times> decision" where
  "Routing_Authenticate env a t =
     (if tr_Kind t = ''http'' then FirstMatch_Authenticate (Authenticate env t) (pra_http a)
      else if tr_Kind t = ''grpc'' then FirstMatch_Authenticate (Authenticate env t) (pra_grpc a)
      else (None, Deny))"

section \<open>Configuration (\<open>internal/authn/config.go\<close>, \<open>options.go\<close>)\<close>

record transport_config =
  tpc_HTTP :: "bool option"
  tpc_GRPC :: "bool option"

record chain_entry =
  ce_Type :: string
  ce_Enable :: "bool option"
  ce_Transport :: "transport_config option"
  ce_Config :: representation

record authenticator_config =
  acfg_Type :: string
  acfg_Chain :: "chain_entry list"

record authn_options =
  ao_Authenticator :: "authenticator_config option"
  ao_AllowUnauthenticated :: "bool option"
  ao_OIDC :: "oidc_options option"

record chain_completed_config =
  ccc_Type :: string
  ccc_EnabledHTTP :: bool
  ccc_EnabledGRPC :: bool
  ccc_OIDCConfig :: "oidc_options option"

record authenticator_completed_config =
  acc_Type :: string
  acc_ChainConfigs :: "chain_completed_config list"

definition OIDCConfigKeyAuthServerURL :: string where "OIDCConfigKeyAuthServerURL = ''authn-server-url''"
definition OIDCConfigKeyClientID :: string where "OIDCConfigKeyClientID = ''client-id''"

definition validTypes :: "string list" where
  "validTypes = [''oidc'', ''guest'', ''allow-unauthenticated'', ''x-rh-identity'']"

definition Options_Validate :: "authn_options \<Rightarrow> go_error list" where
  "Options_Validate o1 = (case ao_Authenticator o1 of
     Some a \<Rightarrow>
       (if acfg_Type a = [] then [Errorf ''authenticator type is required''] else []) @
       (if length (acfg_Chain a) = 0 then [Errorf ''authenticator chain must contain at least one entry''] else []) @
       concat (map (\<lambda>e. if ce_Type e = [] then [Errorf ''chain entry type is required'']
                        else if \<not> List.member validTypes (ce_Type e) then [Errorf ''invalid chain entry type''] else [])
                (acfg_Chain a))
   | None \<Rightarrow>
       (if ao_AllowUnauthenticated o1 = Some True
        then (if ao_OIDC o1 \<noteq> None then [Errorf ''cannot use both formats''] else [])
        else if ao_OIDC o1 \<noteq> None then []
        else [Errorf ''authenticator configuration is required'']))"

definition legacy_oidc_config :: "oidc_options \<Rightarrow> json_object" where
  "legacy_oidc_config o1 =
     (if oo_AuthorizationServerURL o1 \<noteq> [] then [(OIDCConfigKeyAuthServerURL, JStr (oo_AuthorizationServerURL o1))] else []) @
     (if oo_ClientId o1 \<noteq> [] then [(OIDCConfigKeyClientID, JStr (oo_ClientId o1))] else []) @
     (if oo_InsecureClient o1 then [(''insecure-client'', JBool (oo_InsecureClient o1))] else []) @
     (if oo_SkipClientIDCheck o1 then [(''skip-client-id-check'', JBool (oo_SkipClientIDCheck o1))] else []) @
     (if oo_EnforceAudCheck o1 then [(''enforce-aud-check'', JBool (oo_EnforceAudCheck o1))] else []) @
     (if oo_SkipIssuerCheck o1 then [(''skip-issuer-check'', JBool (oo_SkipIssuerCheck o1))] else []) @
     (if oo_PrincipalUserDomain o1 \<noteq> [] then [(''principal-user-domain'', JStr (oo_PrincipalUserDomain o1))] else [])"

definition NewConfig :: "authn_options \<Rightarrow> authenticator_config option" where
  "NewConfig o1 = (case ao_Authenticator o1 of
     Some a \<Rightarrow> Some a
   | None \<Rightarrow>
       if ao_AllowUnauthenticated o1 = Some True
       then Some \<lparr>acfg_Type = ''first_match'', acfg_Chain =
              [\<lparr>ce_Type = ''allow-unauthenticated'', ce_Enable = None, ce_Transport = None, ce_Config = None\<rparr>]\<rparr>
       else (case ao_OIDC o1 of
           Some oidc \<Rightarrow> Some \<lparr>acfg_Type = ''first_match'', acfg_Chain =
              [\<lparr>ce_Type = ''oidc'', ce_Enable = None, ce_Transport = None, ce_Config = Some (legacy_oidc_config oidc)\<rparr>]\<rparr>
         | None \<Rightarrow> None))"

definition get_string :: "json_object \<Rightarrow> string \<Rightarrow> string" where
  "get_string m k = (case map_of m k of Some (JStr s) \<Rightarrow> s | _ \<Rightarrow> [])"

definition get_bool :: "json_object \<Rightarrow> string \<Rightarrow> bool" where
  "get_bool m k = (case map_of m k of Some (JBool b) \<Rightarrow> b | _ \<Rightarrow> False)"

fun grpc_endpoints :: "json list \<Rightarrow> string list result" where
  "grpc_endpoints [] = Ok []"
| "grpc_endpoints (ep # eps) =
     (case ep of
        JStr s \<Rightarrow> if s = [] then Err (Errorf ''grpc-endpoints is empty at chain index'')
                  else bind_res (grpc_endpoints eps) (\<lambda>rest. Ok (s # rest))
      | _ \<Rightarrow> Err (Errorf ''grpc-endpoints is not a string at chain index''))"

definition complete_oidc_options :: "json_object \<Rightarrow> oidc_options result" where
  "complete_oidc_options m =
     bind_res (case map_of m ''grpc-endpoints'' of
         None \<Rightarrow> Ok []
       | Some (JArr eps) \<Rightarrow> grpc_endpoints eps
       | Some _ \<Rightarrow> Err (Errorf ''grpc-endpoints must be an array at chain index'')) (\<lambda>endpoints.
     Ok \<lparr>oo_ClientId = get_string m OIDCConfigKeyClientID,
         oo_AuthorizationServerURL = get_string m OIDCConfigKeyAuthServerURL,
         oo_InsecureClient = get_bool m ''insecure-client'',
         oo_SkipClientIDCheck = get_bool m ''skip-client-id-check'',
         oo_EnforceAudCheck = get_bool m ''enforce-aud-check'',
         oo_SkipIssuerCheck = get_bool m ''skip-issuer-check'',
         oo_PrincipalUserDomain = get_string m ''principal-user-domain'',
         oo_GrpcEndpoints = endpoints\<rparr>)"

definition completeChainEntry :: "chain_entry \<Rightarrow> chain_completed_config result" where
  "completeChainEntry entry =
     (let baseEnabled = (case ce_Enable entry of None \<Rightarrow> True | Some b \<Rightarrow> b);
          transportHTTP = (case ce_Transport entry of None \<Rightarrow> True
                           | Some tp \<Rightarrow> (case tpc_HTTP tp of None \<Rightarrow> True | Some b \<Rightarrow> b));
          transportGRPC = (case ce_Transport entry of None \<Rightarrow> True
                           | Some tp \<Rightarrow> (case tpc_GRPC tp of None \<Rightarrow> True | Some b \<Rightarrow> b));
          enableHTTP = (baseEnabled \<and> transportHTTP);
          enableGRPC = (baseEnabled \<and> transportGRPC);
          chainConfig = \<lparr>ccc_Type = ce_Type entry, ccc_EnabledHTTP = enableHTTP, ccc_EnabledGRPC = enableGRPC,
                         ccc_OIDCConfig = None\<rparr>
      in if ce_Type entry = ''guest'' \<or> ce_Type entry = ''allow-unauthenticated'' \<or> ce_Type entry = ''x-rh-identity''
         then Ok chainConfig
         else if ce_Type entry = ''oidc'' then
           (if \<not> enableHTTP \<and> \<not> enableGRPC then Ok chainConfig
            else (case ce_Config entry of
                None \<Rightarrow> Err (Errorf ''oidc authenticator requires config at chain index'')
              | Some m \<Rightarrow> bind_res (complete_oidc_options m) (\<lambda>oidcOpts.
                  Ok (chainConfig\<lparr>ccc_OIDCConfig := Some oidcOpts\<rparr>))))
         else Err (Errorf ''unknown authenticator type at chain index''))"

fun complete_chain :: "chain_entry list \<Rightarrow> chain_completed_config list \<times> go_error list" where
  "complete_chain [] = ([], [])"
| "complete_chain (e # es) =
     (let (cs, errs) = complete_chain es in
      case completeChainEntry e of Inl er \<Rightarrow> (cs, er # errs) | Inr c \<Rightarrow> (c # cs, errs))"

definition Config_Complete :: "authenticator_config option \<Rightarrow> authenticator_completed_config option \<times> go_error list" where
  "Config_Complete c = (case c of
     None \<Rightarrow> (None, [Errorf ''authenticator configuration is required''])
   | Some a \<Rightarrow>
       if acfg_Type a \<noteq> ''first_match'' then (None, [Errorf ''invalid authenticator strategy type''])
       else (let (chainConfigs, errs) = complete_chain (acfg_Chain a);
                 errs1 = (if length (filter ccc_EnabledHTTP chainConfigs) = 0
                          then errs @ [Errorf ''at least one authenticator in the chain must be enabled for http''] else errs);
                 errs2 = (if length (filter ccc_EnabledGRPC chainConfigs) = 0
                          then errs1 @ [Errorf ''at least one authenticator in the chain must be enabled for grpc''] else errs1)
             in if length errs2 > 0 then (None, errs2)
                else (Some \<lparr>acc_Type = acfg_Type a, acc_ChainConfigs = chainConfigs\<rparr>, [])))"

section \<open>Construction (\<open>internal/authn/authn.go\<close>, \<open>factory\<close>)\<close>

definition oidc_New :: "authn_env \<Rightarrow> oidc_options \<Rightarrow> authenticator result" where
  "oidc_New env c =
     bind_res (wrap_err ''failed to create provider'' (ae_NewProvider env c)) (\<lambda>_.
     Ok (OAuth2Authenticator
           (if oo_PrincipalUserDomain c = [] then c\<lparr>oo_PrincipalUserDomain := ''localhost''\<rparr> else c)))"

definition CreateAuthenticator :: "authn_env \<Rightarrow> string \<Rightarrow> oidc_options option \<Rightarrow> authenticator result" where
  "CreateAuthenticator env authType config =
     (if authType = ''oidc'' then
        (case config of None \<Rightarrow> Err (Errorf ''oidc authenticator requires non-nil config'') | Some c \<Rightarrow> oidc_New env c)
      else if authType = ''guest'' \<or> authType = ''allow-unauthenticated'' then
        (case config of None \<Rightarrow> Ok UnauthenticatedAuthenticator
         | Some _ \<Rightarrow> Err (Errorf ''guest authenticator does not require config''))
      else if authType = ''x-rh-identity'' then
        (case config of None \<Rightarrow> Ok XRhIdentityAuthenticator
         | Some _ \<Rightarrow> Err (Errorf ''x-rh-identity authenticator does not require config''))
      else Err (Errorf ''unknown authenticator type''))"

definition entry_authenticator :: "authn_env \<Rightarrow> chain_completed_config \<Rightarrow> authenticator result" where
  "entry_authenticator env c =
     (if ccc_Type c = ''oidc'' then
        (case ccc_OIDCConfig c of None \<Rightarrow> Err (Errorf ''oidc authenticator requires config'')
         | Some oc \<Rightarrow> wrap_err ''failed to create oidc authenticator'' (CreateAuthenticator env ''oidc'' (Some oc)))
      else if ccc_Type c = ''guest'' \<or> ccc_Type c = ''allow-unauthenticated'' then
        wrap_err ''failed to create allow-unauthenticated authenticator'' (CreateAuthenticator env ''allow-unauthenticated'' None)
      else if ccc_Type c = ''x-rh-identity'' then
        wrap_err ''failed to create x-rh-identity authenticator'' (CreateAuthenticator env ''x-rh-identity'' None)
      else Err (Errorf ''unknown authenticator type in chain''))"

fun chain_loop :: "authn_env \<Rightarrow> string \<Rightarrow> chain_completed_config list \<Rightarrow> authenticator list result" where
  "chain_loop env protocol [] = Ok []"
| "chain_loop env protocol (c # cs) =
     (if protocol = ProtocolHTTP \<and> \<not> ccc_EnabledHTTP c then chain_loop env protocol cs
      else if protocol = ProtocolGRPC \<and> \<not> ccc_EnabledGRPC c then chain_loop env protocol cs
      else if protocol \<noteq> ProtocolHTTP \<and> protocol \<noteq> ProtocolGRPC then Err (Errorf ''unknown protocol'')
      else bind_res (entry_authenticator env c) (\<lambda>a.
           bind_res (chain_loop env protocol cs) (\<lambda>as. Ok (a # as))))"

definition NewForProtocol :: "authn_env \<Rightarrow> authenticator_completed_config option \<Rightarrow> string \<Rightarrow> authenticator list result" where
  "NewForProtocol env config protocol = (case config of
     None \<Rightarrow> Err (Errorf ''authenticator configuration is required'')
   | Some a \<Rightarrow>
       if acc_Type a \<noteq> ''first_match'' then Err (Errorf ''unknown authenticator strategy type'')
       else bind_res (chain_loop env protocol (acc_ChainConfigs a)) (\<lambda>as.
            if length as = 0
            then Err (Errorf ''no authenticators were successfully created or enabled in the authentication chain'')
            else Ok as))"

definition New :: "authn_env \<Rightarrow> authenticator_completed_config option \<Rightarrow> protocol_routing_authenticator result" where
  "New env config =
     bind_res (NewForProtocol env config ProtocolHTTP) (\<lambda>httpAuth.
     bind_res (NewForProtocol env config ProtocolGRPC) (\<lambda>grpcAuth.
     Ok \<lparr>pra_http = httpAuth, pra_grpc = grpcAuth\<rparr>))"

section \<open>Middleware (\<open>internal/middleware/authn.go\<close>, \<open>authn_common.go\<close>)\<close>

record request_context =
  rc_Transport :: "transport option"
  rc_AuthzContext :: "authz_context option"
  rc_Token :: "string option"
  rc_RawToken :: "string option"

definition validateAuthDecision :: "decision \<Rightarrow> claims option \<Rightarrow> unit result" where
  "validateAuthDecision decision claims =
     (if decision = Deny then Err (KratosError 401 ''UNAUTHORIZED'')
      else if decision = Ignore then Err (KratosError 401 ''UNAUTHORIZED'')
      else if claims = None then Err (KratosError 401 ''UNAUTHORIZED'')
      else Ok ())"

definition ensureAuthzContext :: "request_context \<Rightarrow> claims option \<Rightarrow> request_context" where
  "ensureAuthzContext ctx claims = (case rc_AuthzContext ctx of
     Some _ \<Rightarrow> ctx
   | None \<Rightarrow>
       (let protocol = (case rc_Transport ctx of None \<Rightarrow> ProtocolUnknown
                        | Some t \<Rightarrow> if tr_Kind t = ''http'' then ProtocolHTTP
                                    else if tr_Kind t = ''grpc'' then ProtocolGRPC else ProtocolUnknown)
        in ctx\<lparr>rc_AuthzContext := Some \<lparr>ac_Protocol = protocol, ac_Subject = claims\<rparr>\<rparr>))"

definition SplitN2 :: "string \<Rightarrow> string list" where
  "SplitN2 s = (if CHR '' '' \<in> set s
     then [takeWhile (\<lambda>c. c \<noteq> CHR '' '') s, tl (dropWhile (\<lambda>c. c \<noteq> CHR '' '') s)] else [s])"

definition Authentication ::
    "(transport \<Rightarrow> claims option \<times> decision) \<Rightarrow> (request_context \<Rightarrow> 'r result) \<Rightarrow> request_context \<Rightarrow> 'r result" where
  "Authentication authenticate next_handler ctx = (case rc_Transport ctx of
     None \<Rightarrow> Err (KratosError 401 ''UNAUTHORIZED'')
   | Some t \<Rightarrow>
       (let (claims, decision) = authenticate t in
        bind_res (validateAuthDecision decision claims) (\<lambda>_.
        (let ctx1 = ensureAuthzContext ctx claims in
         case rc_Token ctx1 of
           Some tok \<Rightarrow> next_handler (ctx1\<lparr>rc_Token := Some tok\<rparr>)
         | None \<Rightarrow>
             (let authHeader = tr_RequestHeader t ''Authorization'' in
              if authHeader \<noteq> [] then
                (let parts = SplitN2 authHeader in
                 if length parts = 2 \<and> EqualFold (parts ! 0) ''bearer''
                 then next_handler (ctx1\<lparr>rc_RawToken := Some (parts ! 1)\<rparr>)
                 else next_handler ctx1)
              else next_handler ctx1)))))"


section \<open>First match as a search\<close>

lemma first_match_loop_Allow:
  "List.find (\<lambda>a. snd (run a) = Allow) as = Some a \<Longrightarrow> first_match_loop run as d i = Inl (fst (run a))"
  by (induction as arbitrary: d i) (auto split: prod.splits decision.splits if_splits)

lemma first_match_loop_counts:
  "List.find (\<lambda>a. snd (run a) = Allow) as = None \<Longrightarrow> first_match_loop run as d i =
     Inr (d + length (filter (\<lambda>a. snd (run a) = Deny) as), i + length (filter (\<lambda>a. snd (run a) = Ignore) as))"
  by (induction as arbitrary: d i) (auto split: prod.splits decision.splits if_splits)

lemma filter_full: "length (filter P xs) = length xs \<longleftrightarrow> list_all P xs"
  by (metis filter_id_conv length_filter_less list_all_iff nat_neq_iff)

text \<open>The chain grants the claims of its first allowing authenticator, whatever the others say; without
  one it defers only when it is not empty and every authenticator defers, and denies in every other
  case, mixed answers and the empty chain included.\<close>

lemma FirstMatch_decides:
  "FirstMatch_Authenticate run as = (case List.find (\<lambda>a. snd (run a) = Allow) as of
     Some a \<Rightarrow> (fst (run a), Allow)
   | None \<Rightarrow> (None, if as \<noteq> [] \<and> list_all (\<lambda>a. snd (run a) = Ignore) as then Ignore else Deny))"
proof (cases "List.find (\<lambda>a. snd (run a) = Allow) as")
  case None
  let ?D = "\<lambda>a. snd (run a) = Deny" and ?I = "\<lambda>a. snd (run a) = Ignore"
  have "as \<noteq> [] \<Longrightarrow> list_all ?D as \<Longrightarrow> \<not> list_all ?I as" by (cases as) auto
  then show ?thesis
    using None filter_full [of ?D as] filter_full [of ?I as]
    by (auto simp: FirstMatch_Authenticate_def first_match_loop_counts)
qed (simp add: FirstMatch_Authenticate_def first_match_loop_Allow)

lemma FirstMatch_Allow_iff:
  "FirstMatch_Authenticate run as = (c, Allow) \<longleftrightarrow> (\<exists>a. List.find (\<lambda>a. snd (run a) = Allow) as = Some a \<and> c = fst (run a))"
proof (cases "List.find (\<lambda>a. snd (run a) = Allow) as")
  case None
  then show ?thesis
    by (auto simp: FirstMatch_Authenticate_def first_match_loop_counts split: if_splits)
qed (auto simp: FirstMatch_Authenticate_def first_match_loop_Allow)

section \<open>Soundness of the built authenticator\<close>

text \<open>The evidence a request carries for the claims it is granted.\<close>

definition verified :: "authn_env \<Rightarrow> transport \<Rightarrow> authenticator \<Rightarrow> claims \<Rightarrow> bool" where
  "verified env t a c = (case a of
     OAuth2Authenticator o1 \<Rightarrow>
       (case ae_Verify env o1 (GetBearerToken t) of
          Inl _ \<Rightarrow> False
        | Inr tok \<Rightarrow> (case ae_Claims env tok of Inl _ \<Rightarrow> False
            | Inr u \<Rightarrow> GetBearerToken t \<noteq> [] \<and> tc_Subject u \<noteq> [] \<and> cl_SubjectId c = tc_Subject u \<and>
                cl_Issuer c = tc_Issuer u \<and> cl_ClientID c = tc_ClientID u \<and> cl_OrganizationId c = [] \<and> cl_AuthType c = AuthTypeOIDC \<and>
                (oo_EnforceAudCheck o1 \<longrightarrow> tc_Audience u = oo_ClientId o1)))
   | XRhIdentityAuthenticator \<Rightarrow>
       (case ae_DecodeAndCheckIdentity env (tr_RequestHeader t ''x-rh-identity'') of
          Inl _ \<Rightarrow> False
        | Inr p \<Rightarrow> tr_RequestHeader t ''x-rh-identity'' \<noteq> [] \<and> c = convertPlatformClaims p)
   | UnauthenticatedAuthenticator \<Rightarrow> c = UnauthenticatedClaims)"

lemma Authenticate_Allow:
  "Authenticate env t a = (c, Allow) \<Longrightarrow> \<exists>cl. c = Some cl \<and> verified env t a cl"
  by (cases a) (auto simp: Authenticate_def OIDC_Authenticate_def XRhIdentity_Authenticate_def
      Unauthenticated_Authenticate_def verified_def Let_def split: if_splits sum.splits)

definition entry_enabled :: "string \<Rightarrow> chain_completed_config \<Rightarrow> bool" where
  "entry_enabled protocol c \<longleftrightarrow> (if protocol = ProtocolHTTP then ccc_EnabledHTTP c else ccc_EnabledGRPC c)"

lemma chain_loop_Ok:
  assumes "protocol = ProtocolHTTP \<or> protocol = ProtocolGRPC"
  shows "chain_loop env protocol cs = Inr as \<longleftrightarrow>
    list_all2 (\<lambda>c a. entry_authenticator env c = Inr a) (filter (entry_enabled protocol) cs) as"
  using assms by (induction cs arbitrary: as) (auto simp: entry_enabled_def res_iffs list_all2_Cons1)

lemma NewForProtocol_Ok:
  assumes "protocol = ProtocolHTTP \<or> protocol = ProtocolGRPC"
  shows "NewForProtocol env (Some cfg) protocol = Inr as \<longleftrightarrow> acc_Type cfg = ''first_match'' \<and> as \<noteq> [] \<and>
    list_all2 (\<lambda>c a. entry_authenticator env c = Inr a) (filter (entry_enabled protocol) (acc_ChainConfigs cfg)) as"
  by (auto simp: NewForProtocol_def res_iffs chain_loop_Ok [OF assms])

definition chain_of :: "protocol_routing_authenticator \<Rightarrow> string \<Rightarrow> authenticator list" where
  "chain_of a kind = (if kind = ''http'' then pra_http a else if kind = ''grpc'' then pra_grpc a else [])"

lemma Routing_chain: "Routing_Authenticate env a t = FirstMatch_Authenticate (Authenticate env t) (chain_of a (tr_Kind t))"
  by (simp add: Routing_Authenticate_def chain_of_def FirstMatch_Authenticate_def)

lemma New_chain:
  assumes "New env (Some cfg) = Inr a" "x \<in> set (chain_of a kind)"
  obtains c where "c \<in> set (acc_ChainConfigs cfg)" "entry_enabled kind c" "entry_authenticator env c = Inr x"
proof -
  from assms(2) have k: "kind = ProtocolHTTP \<or> kind = ProtocolGRPC" by (auto simp: chain_of_def split: if_splits)
  from assms(1) k have "NewForProtocol env (Some cfg) kind = Inr (chain_of a kind)"
    by (auto simp: New_def chain_of_def res_iffs)
  then have l: "list_all2 (\<lambda>c a. entry_authenticator env c = Inr a) (filter (entry_enabled kind) (acc_ChainConfigs cfg)) (chain_of a kind)"
    by (simp add: NewForProtocol_Ok [OF k])
  from assms(2) obtain i where i: "i < length (chain_of a kind)" "chain_of a kind ! i = x" by (auto simp: in_set_conv_nth)
  let ?c = "filter (entry_enabled kind) (acc_ChainConfigs cfg) ! i"
  have "?c \<in> set (filter (entry_enabled kind) (acc_ChainConfigs cfg))"
    using i(1) list_all2_lengthD [OF l] by (intro nth_mem) simp
  moreover have "entry_authenticator env ?c = Inr x" using list_all2_nthD2 [OF l i(1)] i(2) by simp
  ultimately show ?thesis by (intro that [of ?c]) simp_all
qed

lemma Authentication_admits:
  assumes "Authentication auth Ok ctx = Inr ctx'" "rc_AuthzContext ctx = None"
  obtains t c where "rc_Transport ctx = Some t" "auth t = (Some c, Allow)"
    "\<exists>p. rc_AuthzContext ctx' = Some \<lparr>ac_Protocol = p, ac_Subject = Some c\<rparr>"
proof -
  from assms obtain t where t: "rc_Transport ctx = Some t" by (auto simp: Authentication_def split: option.splits)
  obtain co d where cd: "auth t = (co, d)" by (cases "auth t")
  from assms t cd have "validateAuthDecision d co = Inr ()" by (auto simp: Authentication_def res_iffs split: option.splits)
  then obtain c where c: "co = Some c" "d = Allow"
    by (cases d; cases co) (auto simp: validateAuthDecision_def)
  have "\<exists>p. rc_AuthzContext ctx' = Some \<lparr>ac_Protocol = p, ac_Subject = Some c\<rparr>"
    using assms t cd c by (auto simp: Authentication_def validateAuthDecision_def ensureAuthzContext_def Let_def split: option.splits if_splits)
  with t cd c that show ?thesis by blast
qed

text \<open>C37. Whatever configuration the authenticator is built from, a request that passes the middleware carries
  claims that an authenticator of the chain, built from an entry enabled for the transport of the
  request, has verified: the subject, issuer and client of a checked token (with its audience, where enforced), those
  of a valid identity header, or the sentinel of unauthenticated access where that entry is configured.\<close>

theorem authentication_sound:
  assumes "New env (Some cfg) = Inr a" "rc_AuthzContext ctx = None" "rc_Transport ctx = Some t"
    and "Authentication (Routing_Authenticate env a) Ok ctx = Inr ctx'"
  shows "\<exists>p c e x. rc_AuthzContext ctx' = Some \<lparr>ac_Protocol = p, ac_Subject = Some c\<rparr> \<and>
    e \<in> set (acc_ChainConfigs cfg) \<and> entry_enabled (tr_Kind t) e \<and> entry_authenticator env e = Inr x \<and> verified env t x c"
proof -
  obtain c p where auth: "Routing_Authenticate env a t = (Some c, Allow)"
    and p: "rc_AuthzContext ctx' = Some \<lparr>ac_Protocol = p, ac_Subject = Some c\<rparr>"
    by (rule Authentication_admits [OF assms(4,2)]) (auto simp: assms(3))
  then obtain x where x: "List.find (\<lambda>a. snd (Authenticate env t a) = Allow) (chain_of a (tr_Kind t)) = Some x"
    and c: "Some c = fst (Authenticate env t x)"
    unfolding Routing_chain FirstMatch_Allow_iff by blast
  have "x \<in> set (chain_of a (tr_Kind t))" "snd (Authenticate env t x) = Allow"
    using x by (auto simp: find_Some_iff)
  moreover from this c have "verified env t x c"
    using Authenticate_Allow [of env t x "Some c"] by (metis option.inject prod.collapse)
  ultimately show ?thesis using New_chain [OF assms(1)] p by metis
qed

definition sample_oidc :: oidc_options where
  "sample_oidc = \<lparr>oo_ClientId = ''svc'', oo_AuthorizationServerURL = ''https://sso'', oo_InsecureClient = False,
     oo_SkipClientIDCheck = False, oo_EnforceAudCheck = True, oo_SkipIssuerCheck = False,
     oo_PrincipalUserDomain = [], oo_GrpcEndpoints = []\<rparr>"

definition sample_options :: authn_options where
  "sample_options = \<lparr>ao_Authenticator = None, ao_AllowUnauthenticated = None, ao_OIDC = Some sample_oidc\<rparr>"

definition sample_env :: authn_env where
  "sample_env = \<lparr>ae_NewProvider = (\<lambda>_. Ok ()),
     ae_Verify = (\<lambda>_ tok. if tok = ''good'' then Ok ''payload'' else Err (Errorf ''bad signature'')),
     ae_Claims = (\<lambda>_. Ok \<lparr>tc_Audience = ''svc'', tc_Issuer = ''sso'', tc_Subject = ''alice'', tc_PreferredUsername = [], tc_ClientID = ''cli''\<rparr>),
     ae_DecodeAndCheckIdentity = (\<lambda>_. Err (Errorf ''bad header''))\<rparr>"

definition sample_transport :: "string \<Rightarrow> transport" where
  "sample_transport auth = \<lparr>tr_Kind = ''grpc'', tr_Operation = ''/op'',
     tr_RequestHeader = (\<lambda>k. if k = ''Authorization'' then auth else [])\<rparr>"

definition sample_request :: "string \<Rightarrow> request_context" where
  "sample_request auth = \<lparr>rc_Transport = Some (sample_transport auth),
     rc_AuthzContext = None, rc_Token = None, rc_RawToken = None\<rparr>"

definition sample_completed :: authenticator_completed_config where
  "sample_completed = \<lparr>acc_Type = ''first_match'', acc_ChainConfigs =
     [\<lparr>ccc_Type = ''oidc'', ccc_EnabledHTTP = True, ccc_EnabledGRPC = True, ccc_OIDCConfig = Some sample_oidc\<rparr>]\<rparr>"

lemma sample_config: "Config_Complete (NewConfig sample_options) = (Some sample_completed, [])"
  by (simp add: sample_completed_def Config_Complete_def NewConfig_def sample_options_def completeChainEntry_def legacy_oidc_config_def
      complete_oidc_options_def get_string_def get_bool_def OIDCConfigKeyClientID_def OIDCConfigKeyAuthServerURL_def sample_oidc_def)

definition sample_chain :: "authenticator list" where
  "sample_chain = [OAuth2Authenticator (sample_oidc\<lparr>oo_PrincipalUserDomain := ''localhost''\<rparr>)]"

lemma sample_New:
  "New sample_env (Some sample_completed) = Inr \<lparr>pra_http = sample_chain, pra_grpc = sample_chain\<rparr>"
  by (simp add: sample_completed_def New_def NewForProtocol_def entry_authenticator_def CreateAuthenticator_def
      oidc_New_def sample_env_def sample_chain_def sample_oidc_def)

lemma sample_served:
  "\<exists>ctx'. Authentication (Routing_Authenticate sample_env \<lparr>pra_http = sample_chain, pra_grpc = sample_chain\<rparr>) Ok
     (sample_request ''bearer good'') = Inr ctx'"
  by (simp add: Authentication_def Routing_Authenticate_def FirstMatch_Authenticate_def sample_chain_def Authenticate_def
      OIDC_Authenticate_def GetBearerToken_def sample_request_def sample_transport_def sample_env_def sample_oidc_def validateAuthDecision_def
      ensureAuthzContext_def ToLower_def lower_char_def SplitN2_def EqualFold_def Let_def)

theorem authentication_sound_witness:
  "\<exists>(ctx' :: request_context) p c e x. rc_AuthzContext ctx' = Some \<lparr>ac_Protocol = p, ac_Subject = Some c\<rparr> \<and>
    e \<in> set (acc_ChainConfigs sample_completed) \<and> entry_enabled (tr_Kind (sample_transport ''bearer good'')) e \<and>
    entry_authenticator sample_env e = Inr x \<and> verified sample_env (sample_transport ''bearer good'') x c"
proof -
  obtain ctx' where "Authentication (Routing_Authenticate sample_env \<lparr>pra_http = sample_chain, pra_grpc = sample_chain\<rparr>) Ok
     (sample_request ''bearer good'') = Inr ctx'" using sample_served by blast
  from authentication_sound [OF sample_New _ _ this, of "sample_transport ''bearer good''"] show ?thesis
    by (intro exI [of _ ctx']) (simp add: sample_request_def)
qed

section \<open>Denials do not end the chain\<close>

text \<open>A denial by an authenticator does not end the chain: when unauthenticated access is configured
  behind authenticators that all refuse the request, a request with an invalid token, or without the
  token its endpoint requires, is admitted with the claims of an unauthenticated caller.\<close>

lemma denied_request_falls_through:
  assumes "\<forall>a \<in> set as. snd (Authenticate env t a) \<noteq> Allow"
  shows "FirstMatch_Authenticate (Authenticate env t) (as @ UnauthenticatedAuthenticator # bs) = (Some UnauthenticatedClaims, Allow)"
proof -
  have "List.find (\<lambda>a. snd (Authenticate env t a) = Allow) as = None"
    using assms by (auto simp: find_None_iff)
  then have "List.find (\<lambda>a. snd (Authenticate env t a) = Allow) (as @ UnauthenticatedAuthenticator # bs) = Some UnauthenticatedAuthenticator"
    by (induction as) (auto simp: Authenticate_def Unauthenticated_Authenticate_def split: if_splits)
  then show ?thesis unfolding FirstMatch_Allow_iff
    by (auto simp: Authenticate_def Unauthenticated_Authenticate_def)
qed

section \<open>A completed configuration can be built\<close>

lemma completed_entry_builds:
  assumes "completeChainEntry e = Inr c" "entry_enabled protocol c" "\<And>oc. ae_NewProvider env oc = Inr ()"
  shows "\<exists>a. entry_authenticator env c = Inr a"
  using assms(1,2) by (auto simp: completeChainEntry_def Let_def entry_authenticator_def CreateAuthenticator_def oidc_New_def
      assms(3) res_iffs entry_enabled_def split: if_splits option.splits)

lemma complete_chain_entries:
  "c \<in> set (fst (complete_chain es)) \<Longrightarrow> \<exists>e \<in> set es. completeChainEntry e = Inr c"
  by (induction es) (auto split: prod.splits sum.splits)

lemma Config_Complete_Some:
  assumes "Config_Complete c = (Some cfg, errs)"
  obtains a where "c = Some a" "acc_Type cfg = ''first_match''" "acc_ChainConfigs cfg = fst (complete_chain (acfg_Chain a))"
    "\<And>p. p = ProtocolHTTP \<or> p = ProtocolGRPC \<Longrightarrow> filter (entry_enabled p) (acc_ChainConfigs cfg) \<noteq> []"
proof -
  from assms obtain a where a: "c = Some a" by (auto simp: Config_Complete_def split: option.splits)
  obtain cs es where ce: "complete_chain (acfg_Chain a) = (cs, es)" by (cases "complete_chain (acfg_Chain a)")
  from assms a ce have "cfg = \<lparr>acc_Type = acfg_Type a, acc_ChainConfigs = cs\<rparr>" "acfg_Type a = ''first_match''"
    "filter ccc_EnabledHTTP cs \<noteq> []" "filter ccc_EnabledGRPC cs \<noteq> []"
    by (auto simp: Config_Complete_def Let_def split: if_splits)
  moreover from this have "filter (entry_enabled p) cs \<noteq> []" if "p = ProtocolHTTP \<or> p = ProtocolGRPC" for p
    using that by (auto simp: entry_enabled_def filter_empty_conv)
  ultimately show ?thesis using that [OF a] ce by simp
qed

lemma list_all2_total: "(\<And>x. x \<in> set xs \<Longrightarrow> \<exists>y. R x y) \<Longrightarrow> \<exists>ys. list_all2 R xs ys"
proof (induction xs)
  case (Cons x xs)
  then obtain y ys where "R x y" "list_all2 R xs ys" by fastforce
  then have "list_all2 R (x # xs) (y # ys)" by simp
  then show ?case by blast
qed (auto intro: exI [of _ "[]"])

lemma NewForProtocol_builds:
  assumes "Config_Complete c = (Some cfg, errs)" "\<And>oc. ae_NewProvider env oc = Inr ()" "p = ProtocolHTTP \<or> p = ProtocolGRPC"
  shows "\<exists>as. NewForProtocol env (Some cfg) p = Inr as \<and> length as = length (filter (entry_enabled p) (acc_ChainConfigs cfg))"
proof -
  from assms(1) obtain a where a: "c = Some a" "acc_Type cfg = ''first_match''"
    "acc_ChainConfigs cfg = fst (complete_chain (acfg_Chain a))" "filter (entry_enabled p) (acc_ChainConfigs cfg) \<noteq> []"
    by (rule Config_Complete_Some) (use assms(3) in blast)
  have "\<exists>as. list_all2 (\<lambda>c a. entry_authenticator env c = Inr a) (filter (entry_enabled p) (acc_ChainConfigs cfg)) as"
    by (rule list_all2_total) (use a(3) complete_chain_entries completed_entry_builds [OF _ _ assms(2)] in fastforce)
  then obtain as where as: "list_all2 (\<lambda>c a. entry_authenticator env c = Inr a) (filter (entry_enabled p) (acc_ChainConfigs cfg)) as" ..
  moreover from this a(4) have "as \<noteq> []" by auto
  ultimately show ?thesis unfolding NewForProtocol_Ok [OF assms(3)] using list_all2_lengthD [OF as] a(2) by metis
qed

text \<open>When completing a configuration succeeds and the identity providers can be reached, building the
  authenticator succeeds, with one authenticator per entry enabled for the protocol and at least one
  for each protocol, so that no transport is left with an empty chain.\<close>

lemma completed_config_builds:
  assumes "Config_Complete c = (Some cfg, errs)" "\<And>oc. ae_NewProvider env oc = Inr ()"
  shows "\<exists>a. New env (Some cfg) = Inr a \<and> pra_http a \<noteq> [] \<and> pra_grpc a \<noteq> [] \<and>
    length (pra_http a) = length (filter ccc_EnabledHTTP (acc_ChainConfigs cfg)) \<and>
    length (pra_grpc a) = length (filter ccc_EnabledGRPC (acc_ChainConfigs cfg))"
proof -
  have e: "entry_enabled ProtocolHTTP = ccc_EnabledHTTP" "entry_enabled ProtocolGRPC = ccc_EnabledGRPC"
    by (auto simp: entry_enabled_def)
  obtain hs gs where hs: "NewForProtocol env (Some cfg) ProtocolHTTP = Inr hs" "length hs = length (filter ccc_EnabledHTTP (acc_ChainConfigs cfg))"
    and gs: "NewForProtocol env (Some cfg) ProtocolGRPC = Inr gs" "length gs = length (filter ccc_EnabledGRPC (acc_ChainConfigs cfg))"
    using NewForProtocol_builds [where p = ProtocolHTTP, OF assms] NewForProtocol_builds [where p = ProtocolGRPC, OF assms]
    unfolding e by auto
  moreover from this have "hs \<noteq> []" "gs \<noteq> []" by (auto simp: NewForProtocol_def res_iffs split: if_splits)
  ultimately show ?thesis by (simp add: New_def)
qed

section \<open>Legacy configuration\<close>

text \<open>Converting a legacy OIDC configuration into the chain format and completing it gives back every option
  of the legacy block except its endpoint restriction, which the conversion drops.\<close>

lemma legacy_oidc_conversion:
  "Config_Complete (NewConfig \<lparr>ao_Authenticator = None, ao_AllowUnauthenticated = None, ao_OIDC = Some o1\<rparr>) =
     (Some \<lparr>acc_Type = ''first_match'', acc_ChainConfigs = [\<lparr>ccc_Type = ''oidc'', ccc_EnabledHTTP = True, ccc_EnabledGRPC = True,
        ccc_OIDCConfig = Some (o1\<lparr>oo_GrpcEndpoints := []\<rparr>)\<rparr>]\<rparr>, [])"
proof -
  have "get_string (legacy_oidc_config o1) ''client-id'' = oo_ClientId o1"
    "get_string (legacy_oidc_config o1) ''authn-server-url'' = oo_AuthorizationServerURL o1"
    "get_string (legacy_oidc_config o1) ''principal-user-domain'' = oo_PrincipalUserDomain o1"
    "get_bool (legacy_oidc_config o1) ''insecure-client'' = oo_InsecureClient o1"
    "get_bool (legacy_oidc_config o1) ''skip-client-id-check'' = oo_SkipClientIDCheck o1"
    "get_bool (legacy_oidc_config o1) ''enforce-aud-check'' = oo_EnforceAudCheck o1"
    "get_bool (legacy_oidc_config o1) ''skip-issuer-check'' = oo_SkipIssuerCheck o1"
    "map_of (legacy_oidc_config o1) ''grpc-endpoints'' = None"
    by (simp_all add: get_string_def get_bool_def legacy_oidc_config_def OIDCConfigKeyClientID_def OIDCConfigKeyAuthServerURL_def map_add_def)
  then have "complete_oidc_options (legacy_oidc_config o1) = Inr (o1\<lparr>oo_GrpcEndpoints := []\<rparr>)"
    by (simp add: complete_oidc_options_def OIDCConfigKeyClientID_def OIDCConfigKeyAuthServerURL_def)
  then show ?thesis by (simp add: Config_Complete_def NewConfig_def completeChainEntry_def)
qed

end
