(* ===== verification/Meta_Authz.thy ===== *)
theory Meta_Authz
  imports Authn Relations_Tuples
begin

text \<open>
  Who may call the use cases: \<open>internal/biz/usecase/metaauthorizer\<close> (the two meta-authorizers and
  their enforcement) and the self-subject strategy of \<open>internal/biz/usecase/resources\<close> (options, the
  issuer map, the derivation of the RBAC principal). The interface \<open>MetaAuthorizer\<close> is the locale
  \<open>meta_authorizer\<close>, which both implementations satisfy.
\<close>

section \<open>Objects and relations (\<open>metaauthorizer.go\<close>)\<close>

datatype meta_object =
    InventoryResource reporter_type resource_type local_resource_id
  | ResourceTypeRef reporter_type resource_type
  | TupleSystem

type_synonym meta_relation = string

abbreviation RelationCheckSelf :: meta_relation where "RelationCheckSelf \<equiv> ''check_self''"
abbreviation RelationLookupResources :: meta_relation where "RelationLookupResources \<equiv> ''lookup_resources''"
abbreviation RelationLookupSubjects :: meta_relation where "RelationLookupSubjects \<equiv> ''lookup_subjects''"
abbreviation RelationReportResource :: meta_relation where "RelationReportResource \<equiv> ''report_resource''"
abbreviation RelationCheckForUpdate :: meta_relation where "RelationCheckForUpdate \<equiv> ''check_for_update''"
abbreviation RelationDeleteResource :: meta_relation where "RelationDeleteResource \<equiv> ''delete_resource''"
abbreviation RelationCheck :: meta_relation where "RelationCheck \<equiv> ''check''"
abbreviation RelationCheckBulk :: meta_relation where "RelationCheckBulk \<equiv> ''check_bulk''"
abbreviation RelationCheckForUpdateBulk :: meta_relation where "RelationCheckForUpdateBulk \<equiv> ''check_for_update_bulk''"
abbreviation RelationCreateTuples :: meta_relation where "RelationCreateTuples \<equiv> ''create_tuples''"
abbreviation RelationDeleteTuples :: meta_relation where "RelationDeleteTuples \<equiv> ''delete_tuples''"
abbreviation RelationReadTuples :: meta_relation where "RelationReadTuples \<equiv> ''read_tuples''"
abbreviation RelationAcquireLock :: meta_relation where "RelationAcquireLock \<equiv> ''acquire_lock''"

definition NewInventoryResource :: "reporter_type \<Rightarrow> resource_type \<Rightarrow> local_resource_id \<Rightarrow> meta_object" where
  "NewInventoryResource reporterType resourceType localResourceId = InventoryResource reporterType resourceType localResourceId"

definition NewInventoryResourceFromKey :: "reporter_resource_key \<Rightarrow> meta_object" where
  "NewInventoryResourceFromKey key =
     InventoryResource (rrk_reporterType key) (rrk_resourceType key) (rrk_localResourceID key)"

definition NewResourceTypeRef :: "reporter_type \<Rightarrow> resource_type \<Rightarrow> meta_object" where
  "NewResourceTypeRef reporterType resourceType = ResourceTypeRef reporterType resourceType"

definition NewTupleSystem :: meta_object where "NewTupleSystem = TupleSystem"

type_synonym meta_authorizer_check = "meta_object \<Rightarrow> meta_relation \<Rightarrow> authz_context \<Rightarrow> bool result"

section \<open>The authorizers\<close>

definition SimpleMetaAuthorizer_Check :: meta_authorizer_check where
  "SimpleMetaAuthorizer_Check ob relation authzCtx =
     (if ac_Protocol authzCtx = ProtocolUnknown then Ok False
      else if ac_Protocol authzCtx = ProtocolGRPC then Ok (relation \<noteq> RelationCheckSelf)
      else if AuthzContext_IsAuthenticated authzCtx \<and>
              (case ac_Subject authzCtx of None \<Rightarrow> False | Some c \<Rightarrow> cl_AuthType c = AuthTypeXRhIdentity)
      then Ok (relation = RelationCheckSelf)
      else Ok False)"

fun allowlisted :: "string \<Rightarrow> string list \<Rightarrow> bool" where
  "allowlisted clientId [] = False"
| "allowlisted clientId (allowed # rest) =
     (if allowed = ''*'' then True else if allowed = clientId then True else allowlisted clientId rest)"

definition isInAllowlist :: "claims \<Rightarrow> string list \<Rightarrow> bool" where
  "isInAllowlist claims allowlist = (if cl_ClientID claims = [] then False else allowlisted (cl_ClientID claims) allowlist)"

definition WhitelistMetaAuthorizer_Check :: "string list \<Rightarrow> meta_authorizer_check" where
  "WhitelistMetaAuthorizer_Check allowlist ob relation authzCtx =
     (if \<not> AuthzContext_IsAuthenticated authzCtx then Ok False
      else if ac_Protocol authzCtx \<noteq> ProtocolGRPC then Ok False
      else (case ac_Subject authzCtx of
          None \<Rightarrow> Err (Errorf ''panic: nil pointer dereference'')
        | Some c \<Rightarrow> if cl_AuthType c \<noteq> AuthTypeOIDC then Ok False else Ok (isInAllowlist c allowlist)))"

text \<open>\<open>authorizer\<close> is \<open>None\<close> for a nil interface.\<close>

definition EnforceMetaAuthzObject ::
    "authz_context option \<Rightarrow> meta_authorizer_check option \<Rightarrow> meta_relation \<Rightarrow> meta_object \<Rightarrow> unit result" where
  "EnforceMetaAuthzObject ctx authorizer relation metaObject = (case ctx of
     None \<Rightarrow> Err (Sentinel ErrMetaAuthzContextMissing)
   | Some authzCtx \<Rightarrow> (case authorizer of
         None \<Rightarrow> Err (Sentinel ErrMetaAuthorizerUnavailable)
       | Some check \<Rightarrow>
           bind_res (check metaObject relation authzCtx) (\<lambda>allowed.
           if \<not> allowed then Err (Sentinel ErrMetaAuthorizationDenied) else Ok ())))"

section \<open>Contract of the authorizers\<close>

text \<open>Authorizers decide without error and fail closed on a protocol they do not know.\<close>

locale meta_authorizer =
  fixes check :: meta_authorizer_check
  assumes total: "\<exists>b. check ob rel a = Inr b"
    and fail_closed: "ac_Protocol a \<noteq> ProtocolHTTP \<Longrightarrow> ac_Protocol a \<noteq> ProtocolGRPC \<Longrightarrow> ac_Subject a = None \<Longrightarrow> check ob rel a = Inr False"
    and unknown_denied: "ac_Protocol a = ProtocolUnknown \<Longrightarrow> check ob rel a = Inr False"
begin

lemma enforce_cases:
  "EnforceMetaAuthzObject ctx (Some check) rel ob =
     (case ctx of None \<Rightarrow> Err (Sentinel ErrMetaAuthzContextMissing)
      | Some a \<Rightarrow> if check ob rel a = Inr True then Ok () else Err (Sentinel ErrMetaAuthorizationDenied))"
proof (cases ctx)
  case (Some a)
  obtain b where "check ob rel a = Inr b" using total by blast
  with Some show ?thesis by (simp add: EnforceMetaAuthzObject_def)
qed (simp add: EnforceMetaAuthzObject_def)

lemma enforce_unknown:
  "ac_Protocol a = ProtocolUnknown \<Longrightarrow>
     EnforceMetaAuthzObject (Some a) (Some check) rel ob = Err (Sentinel ErrMetaAuthorizationDenied)"
  by (simp add: enforce_cases unknown_denied)

end

lemma IsAuthenticated_Subject: "AuthzContext_IsAuthenticated a \<Longrightarrow> \<exists>c. ac_Subject a = Some c"
  by (auto simp: AuthzContext_IsAuthenticated_def split: option.splits)

lemma IsAuthenticated_None [simp]: "ac_Subject a = None \<Longrightarrow> \<not> AuthzContext_IsAuthenticated a"
  by (simp add: AuthzContext_IsAuthenticated_def)

interpretation simple_authz: meta_authorizer SimpleMetaAuthorizer_Check
  by unfold_locales (auto simp: SimpleMetaAuthorizer_Check_def)

interpretation whitelist_authz: meta_authorizer "WhitelistMetaAuthorizer_Check allowlist" for allowlist
  by unfold_locales (auto simp: WhitelistMetaAuthorizer_Check_def split: option.splits)

lemma allowlisted_iff: "allowlisted c xs \<longleftrightarrow> ''*'' \<in> set xs \<or> c \<in> set xs"
  by (induction xs) auto

text \<open>Tuple administration is reserved to listed services: enforcement with the allowlist authorizer
  succeeds exactly for a gRPC caller authenticated with OIDC whose non-empty client id is listed (or
  the list has the wildcard), whatever relation and object are asked for.\<close>

lemma allowlist_enforced:
  "EnforceMetaAuthzObject ctx (Some (WhitelistMetaAuthorizer_Check allowlist)) rel ob = Inr () \<longleftrightarrow>
     (\<exists>c. ctx = Some \<lparr>ac_Protocol = ProtocolGRPC, ac_Subject = Some c\<rparr> \<and> cl_AuthType c = AuthTypeOIDC \<and>
        cl_ClientID c \<noteq> [] \<and> (''*'' \<in> set allowlist \<or> cl_ClientID c \<in> set allowlist))"
proof (cases ctx)
  case (Some a)
  have "WhitelistMetaAuthorizer_Check allowlist ob rel a = Inr True \<longleftrightarrow>
     (\<exists>c. a = \<lparr>ac_Protocol = ProtocolGRPC, ac_Subject = Some c\<rparr> \<and> cl_AuthType c = AuthTypeOIDC \<and>
        cl_ClientID c \<noteq> [] \<and> (''*'' \<in> set allowlist \<or> cl_ClientID c \<in> set allowlist))"
    by (cases a) (auto simp: WhitelistMetaAuthorizer_Check_def isInAllowlist_def allowlisted_iff
        AuthzContext_IsAuthenticated_def Claims_IsAuthenticated_def split: option.splits if_splits)
  with Some show ?thesis by (simp add: whitelist_authz.enforce_cases)
qed (simp add: whitelist_authz.enforce_cases)

text \<open>With the default authorizer the self check is the only operation open to HTTP callers, and only to
  those with an identity header, and it is the one operation closed to gRPC callers.\<close>

lemma simple_authorizer_enforced:
  "EnforceMetaAuthzObject ctx (Some SimpleMetaAuthorizer_Check) rel ob = Inr () \<longleftrightarrow>
     (\<exists>a. ctx = Some a \<and>
        (if rel = RelationCheckSelf
         then ac_Protocol a \<noteq> ProtocolUnknown \<and> ac_Protocol a \<noteq> ProtocolGRPC \<and>
              (\<exists>c. ac_Subject a = Some c \<and> cl_AuthType c = AuthTypeXRhIdentity)
         else ac_Protocol a = ProtocolGRPC))"
  by (cases ctx) (auto simp: simple_authz.enforce_cases SimpleMetaAuthorizer_Check_def
      AuthzContext_IsAuthenticated_def Claims_IsAuthenticated_def split: option.splits if_splits)

section \<open>Self subject (\<open>selfsubject_options.go\<close>, \<open>selfsubject_redhat_rbac.go\<close>)\<close>

record redhat_rbac_strategy =
  rh_enabled :: bool
  rh_xRhIdentityDomain :: string
  rh_oidcIssuerDomains :: "(string \<times> string) list option"

record redhat_rbac_options =
  rho_Enabled :: bool
  rho_XRhIdentityDomain :: string
  rho_OIDCIssuerDomains :: "(string \<times> string) list"
  rho_OIDCIssuerDomainMap :: "(string \<times> string) list option"

fun issuer_loop :: "(string \<times> string) list \<Rightarrow> (string \<times> string) list \<Rightarrow> (string \<times> string) list result" where
  "issuer_loop out [] = Ok out"
| "issuer_loop out ((issuer, domain) # entries) =
     (if issuer = [] then Err (Errorf ''selfsubject.redhat-rbac.oidcIssuerDomains.iss is required'')
      else if domain = [] then Err (Errorf ''selfsubject.redhat-rbac.oidcIssuerDomains.domain is required'')
      else issuer_loop (AList.update issuer domain out) entries)"

definition buildOIDCIssuerDomainMap :: "(string \<times> string) list \<Rightarrow> (string \<times> string) list result" where
  "buildOIDCIssuerDomainMap entries = issuer_loop [] entries"

definition SelfSubjectOptions_Complete :: "redhat_rbac_options option \<Rightarrow> redhat_rbac_options option result" where
  "SelfSubjectOptions_Complete oo1 = (case oo1 of
     None \<Rightarrow> Ok None
   | Some rh \<Rightarrow>
       if length (rho_OIDCIssuerDomains rh) > 0 then
         bind_res (buildOIDCIssuerDomainMap (rho_OIDCIssuerDomains rh)) (\<lambda>mapped.
         Ok (Some (rh\<lparr>rho_OIDCIssuerDomainMap := Some mapped\<rparr>)))
       else if rho_OIDCIssuerDomainMap rh = None then Ok (Some (rh\<lparr>rho_OIDCIssuerDomainMap := Some []\<rparr>))
       else Ok (Some rh))"

definition SelfSubjectOptions_Validate :: "redhat_rbac_options option \<Rightarrow> go_error list" where
  "SelfSubjectOptions_Validate oo1 = (case oo1 of
     None \<Rightarrow> []
   | Some rh \<Rightarrow>
       if rho_Enabled rh then
         (if rho_XRhIdentityDomain rh = [] then [Errorf ''selfsubject.redhat-rbac.issuer-domain is required when enabled''] else []) @
         (if (case rho_OIDCIssuerDomainMap rh of None \<Rightarrow> 0 | Some m \<Rightarrow> length m) = 0
          then [Errorf ''selfsubject.redhat-rbac.oidcIssuerDomains is required when enabled''] else [])
       else [])"

definition SelfSubjectOptions_Build :: "redhat_rbac_options option \<Rightarrow> redhat_rbac_strategy option" where
  "SelfSubjectOptions_Build oo1 = (case oo1 of
     None \<Rightarrow> None
   | Some rh \<Rightarrow> if \<not> rho_Enabled rh then None
       else Some \<lparr>rh_enabled = rho_Enabled rh, rh_xRhIdentityDomain = rho_XRhIdentityDomain rh,
                  rh_oidcIssuerDomains = rho_OIDCIssuerDomainMap rh\<rparr>)"

definition resolveOIDCIssuerDomain :: "redhat_rbac_strategy \<Rightarrow> string \<Rightarrow> string" where
  "resolveOIDCIssuerDomain s issuer =
     (if issuer = [] then [] else (case rh_oidcIssuerDomains s of None \<Rightarrow> []
      | Some m \<Rightarrow> (case map_of m issuer of Some domain \<Rightarrow> if domain \<noteq> [] then domain else [] | None \<Rightarrow> [])))"

definition deriveSubjectID :: "redhat_rbac_strategy option \<Rightarrow> authz_context \<Rightarrow> string result" where
  "deriveSubjectID so a = (case so of
     None \<Rightarrow> Err (Errorf ''self-subject strategy disabled'')
   | Some s \<Rightarrow>
       if \<not> rh_enabled s then Err (Errorf ''self-subject strategy disabled'')
       else if \<not> AuthzContext_IsAuthenticated a then Ok []
       else (case ac_Subject a of
           None \<Rightarrow> Err (Errorf ''panic: nil pointer dereference'')
         | Some claims \<Rightarrow>
             (let subjectID = TrimSpace (cl_SubjectId claims) in
              if cl_AuthType claims = AuthTypeXRhIdentity then
                (if subjectID = [] then Err (Errorf ''missing subject for x-rh-identity'')
                 else if rh_xRhIdentityDomain s = [] then Err (Errorf ''missing x-rh-identity domain configuration'')
                 else Ok (rh_xRhIdentityDomain s @ ''/'' @ subjectID))
              else if cl_AuthType claims = AuthTypeOIDC then
                (if cl_Issuer claims = [] then Err (Errorf ''missing issuer for oidc'')
                 else (let domain = resolveOIDCIssuerDomain s (cl_Issuer claims) in
                       if domain = [] then Err (Errorf ''unsupported issuer for oidc'')
                       else if subjectID = [] then Err (Errorf ''missing subject for oidc'')
                       else Ok (domain @ ''/'' @ subjectID)))
              else Err (Errorf ''unsupported auth type''))))"

definition buildSubjectReference :: "string \<Rightarrow> subject_reference result" where
  "buildSubjectReference subjectID =
     bind_res (wrap_err ''invalid subject ID'' (NewLocalResourceId subjectID)) (\<lambda>localResourceId.
     bind_res (wrap_err ''invalid resource type'' (NewResourceType ''principal'')) (\<lambda>resourceType.
     bind_res (wrap_err ''invalid reporter type'' (NewReporterType ''rbac'')) (\<lambda>reporterType.
     (let reporter = NewReporterReference reporterType None;
          resource = NewResourceReference resourceType localResourceId (Some reporter)
      in Ok (NewSubjectReferenceWithoutRelation resource)))))"

definition SubjectFromAuthorizationContext :: "redhat_rbac_strategy option \<Rightarrow> authz_context \<Rightarrow> subject_reference result" where
  "SubjectFromAuthorizationContext s a =
     bind_res (deriveSubjectID s a) (\<lambda>subjectID.
     if subjectID = [] then Err (Errorf ''subject not found'') else buildSubjectReference subjectID)"


section \<open>Self subjects are unambiguous\<close>

lemma TrimSpace_fixed: "TrimSpace s = s \<longleftrightarrow> s = [] \<or> \<not> is_space (hd s) \<and> \<not> is_space (last s)"
proof
  assume s: "TrimSpace s = s"
  have "length (dropWhile is_space t) < length t" if "t \<noteq> []" "is_space (hd t)" for t
    using that by (cases t) (auto simp: le_imp_less_Suc length_dropWhile_le)
  moreover have "length (TrimSpace s) \<le> length (dropWhile is_space s)"
    unfolding TrimSpace_def by (metis length_dropWhile_le length_rev)
  ultimately have 1: "s \<noteq> [] \<longrightarrow> \<not> is_space (hd s)" using s by fastforce
  then have "dropWhile is_space s = s" by (cases s) auto
  with s have "rev (dropWhile is_space (rev s)) = s" by (simp add: TrimSpace_def)
  then have "s \<noteq> [] \<longrightarrow> \<not> is_space (last s)"
    by (metis hd_dropWhile hd_rev rev.simps(1) rev_rev_ident)
  with 1 show "s = [] \<or> \<not> is_space (hd s) \<and> \<not> is_space (last s)" by blast
next
  assume s: "s = [] \<or> \<not> is_space (hd s) \<and> \<not> is_space (last s)"
  have d: "dropWhile is_space t = t" if "t = [] \<or> \<not> is_space (hd t)" for t
    using that by (cases t) auto
  have "dropWhile is_space s = s" "dropWhile is_space (rev s) = rev s" using s by (auto intro!: d simp: hd_rev)
  then show "TrimSpace s = s" by (simp add: TrimSpace_def)
qed

lemma split_at_char: "c \<notin> set d \<Longrightarrow> c \<notin> set d' \<Longrightarrow> d @ c # t = d' @ c # t' \<Longrightarrow> d = d' \<and> t = t'"
proof (induction d arbitrary: d')
  case (Cons x d)
  then show ?case by (cases d') auto
qed (metis append_Nil hd_append list.sel(1) list.sel(3) list.set_sel(1) neq_Nil_conv append_Cons)

definition self_domain :: "redhat_rbac_strategy \<Rightarrow> claims \<Rightarrow> string" where
  "self_domain s c = (if cl_AuthType c = AuthTypeXRhIdentity then rh_xRhIdentityDomain s
                      else resolveOIDCIssuerDomain s (cl_Issuer c))"

definition plain_domain :: "string \<Rightarrow> bool" where
  "plain_domain d \<longleftrightarrow> TrimSpace d = d \<and> CHR ''/'' \<notin> set d"

lemma deriveSubjectID_Ok:
  assumes "deriveSubjectID (Some s) a = Inr i" "i \<noteq> []"
  obtains c where "ac_Subject a = Some c" "i = self_domain s c @ ''/'' @ TrimSpace (cl_SubjectId c)"
    "self_domain s c \<noteq> []" "TrimSpace (cl_SubjectId c) \<noteq> []"
  using assms that by (auto simp: deriveSubjectID_def Let_def self_domain_def split: if_splits option.splits)

definition principal_reference :: "string \<Rightarrow> subject_reference" where
  "principal_reference i = \<lparr>sref_resource = \<lparr>oref_resourceType = ''principal'', oref_resourceId = i,
     oref_reporter = Some \<lparr>rref_reporterType = ''rbac'', rref_instanceId = None\<rparr>\<rparr>, sref_relation = None\<rparr>"

lemma buildSubjectReference_Ok: "buildSubjectReference i = Inr r \<Longrightarrow> r = principal_reference (TrimSpace i)"
proof -
  have "NewResourceType ''principal'' = Inr ''principal''" "NewReporterType ''rbac'' = Inr ''rbac''" by (code_simp, code_simp)
  then show "buildSubjectReference i = Inr r \<Longrightarrow> r = principal_reference (TrimSpace i)"
    by (auto simp: buildSubjectReference_def res_iffs local_id_ctor.mk_Ok_iff NewSubjectReferenceWithoutRelation_def NewResourceReference_def
        NewReporterReference_def principal_reference_def)
qed

lemma SubjectFrom_Ok:
  assumes "SubjectFromAuthorizationContext (Some s) a = Inr r" "ac_Subject a = Some c"
  shows "self_domain s c \<noteq> []" "TrimSpace (cl_SubjectId c) \<noteq> []"
    "r = principal_reference (TrimSpace (self_domain s c @ ''/'' @ TrimSpace (cl_SubjectId c)))"
proof -
  from assms(1) obtain i where i: "deriveSubjectID (Some s) a = Inr i" "i \<noteq> []" "buildSubjectReference i = Inr r"
    by (auto simp: SubjectFromAuthorizationContext_def res_iffs split: if_splits)
  with deriveSubjectID_Ok [OF i(1,2)] buildSubjectReference_Ok [OF i(3)] assms(2)
  show "self_domain s c \<noteq> []" "TrimSpace (cl_SubjectId c) \<noteq> []"
    "r = principal_reference (TrimSpace (self_domain s c @ ''/'' @ TrimSpace (cl_SubjectId c)))" by auto
qed

lemma TrimSpace_qualified:
  assumes "plain_domain d" "d \<noteq> []" "TrimSpace t \<noteq> []"
  shows "TrimSpace (d @ ''/'' @ TrimSpace t) = d @ ''/'' @ TrimSpace t"
proof -
  have "\<not> is_space (hd d)" using assms(1,2) TrimSpace_fixed [of d] by (simp add: plain_domain_def)
  moreover have "\<not> is_space (last (TrimSpace t))" using assms(3) TrimSpace_fixed [of "TrimSpace t"] by simp
  ultimately show ?thesis unfolding TrimSpace_fixed using assms(2,3) by simp
qed

text \<open>C38. Two callers are given the same self subject exactly when they have the same domain and the same subject id up to surrounding
  blanks, provided their domains are trimmed and contain no slash. The domain is the configured one of the identity header or the one the
  issuer of the OIDC token is mapped to: callers of different authentication types or issuers with one domain are not told apart.\<close>

theorem self_subject_unambiguous:
  assumes "SubjectFromAuthorizationContext (Some s) a = Inr r" "ac_Subject a = Some c" "plain_domain (self_domain s c)"
    and "SubjectFromAuthorizationContext (Some s) b = Inr r'" "ac_Subject b = Some c'" "plain_domain (self_domain s c')"
  shows "r = r' \<longleftrightarrow> self_domain s c = self_domain s c' \<and> TrimSpace (cl_SubjectId c) = TrimSpace (cl_SubjectId c')"
proof -
  note a = SubjectFrom_Ok [OF assms(1,2)] and b = SubjectFrom_Ok [OF assms(4,5)]
  have "r = principal_reference (self_domain s c @ ''/'' @ TrimSpace (cl_SubjectId c))"
    "r' = principal_reference (self_domain s c' @ ''/'' @ TrimSpace (cl_SubjectId c'))"
    using a b TrimSpace_qualified [OF assms(3) a(1,2)] TrimSpace_qualified [OF assms(6) b(1,2)] by simp_all
  moreover have "principal_reference i = principal_reference j \<longleftrightarrow> i = j" for i j by (simp add: principal_reference_def)
  ultimately have "r = r' \<longleftrightarrow> self_domain s c @ ''/'' @ TrimSpace (cl_SubjectId c) = self_domain s c' @ ''/'' @ TrimSpace (cl_SubjectId c')"
    by simp
  then show ?thesis using assms(3,6) split_at_char [where c = "CHR ''/''" and d = "self_domain s c" and d' = "self_domain s c'"]
    by (auto simp: plain_domain_def)
qed

definition sample_strategy :: redhat_rbac_strategy where
  "sample_strategy = \<lparr>rh_enabled = True, rh_xRhIdentityDomain = ''redhat'', rh_oidcIssuerDomains = Some [(''sso'', ''partner'')]\<rparr>"

definition sample_caller :: "string \<Rightarrow> string \<Rightarrow> authz_context" where
  "sample_caller auth sub = \<lparr>ac_Protocol = ProtocolHTTP, ac_Subject = Some \<lparr>cl_SubjectId = sub, cl_OrganizationId = [],
     cl_Issuer = ''sso'', cl_ClientID = [], cl_AuthType = auth\<rparr>\<rparr>"

definition sample_self :: subject_reference where
  "sample_self = principal_reference ''redhat/7''"

lemma sample_self_subjects:
  "SubjectFromAuthorizationContext (Some sample_strategy) (sample_caller AuthTypeXRhIdentity ''7'') = Inr sample_self"
  "SubjectFromAuthorizationContext (Some sample_strategy) (sample_caller AuthTypeOIDC ''7'') = Inr (principal_reference ''partner/7'')"
  by (code_simp, code_simp)

theorem self_subject_unambiguous_witness:
  "SubjectFromAuthorizationContext (Some sample_strategy) (sample_caller AuthTypeXRhIdentity ''7'') = Inr sample_self \<and>
   SubjectFromAuthorizationContext (Some sample_strategy) (sample_caller AuthTypeOIDC ''7'') = Inr (principal_reference ''partner/7'') \<and>
   sample_self \<noteq> principal_reference ''partner/7''"
proof -
  obtain c c' where c: "ac_Subject (sample_caller AuthTypeXRhIdentity ''7'') = Some c" "ac_Subject (sample_caller AuthTypeOIDC ''7'') = Some c'"
    by (simp add: sample_caller_def)
  then have d: "self_domain sample_strategy c = ''redhat''" "self_domain sample_strategy c' = ''partner''"
    by (auto simp: sample_caller_def sample_strategy_def self_domain_def resolveOIDCIssuerDomain_def)
  then have "plain_domain (self_domain sample_strategy c)" "plain_domain (self_domain sample_strategy c')"
    by (simp_all add: plain_domain_def TrimSpace_fixed is_space_def)
  from self_subject_unambiguous [OF sample_self_subjects(1) c(1) this(1) sample_self_subjects(2) c(2) this(2)] d sample_self_subjects show ?thesis by simp
qed

text \<open>A slash in a domain, which \<open>Validate\<close> accepts, lets two domains share a subject: the issuer mapped to \<open>redhat/eu\<close> with the id \<open>7\<close>
  and the identity header of the domain \<open>redhat\<close> with the id \<open>eu/7\<close>.\<close>

lemma slashed_domains_collide:
  "\<exists>options s a b. SelfSubjectOptions_Validate (Some options) = [] \<and> SelfSubjectOptions_Build (Some options) = Some s \<and>
     SubjectFromAuthorizationContext (Some s) a = SubjectFromAuthorizationContext (Some s) b \<and>
     is_ok (SubjectFromAuthorizationContext (Some s) a) \<and> self_domain s (the (ac_Subject a)) \<noteq> self_domain s (the (ac_Subject b))"
proof -
  let ?options = "\<lparr>rho_Enabled = True, rho_XRhIdentityDomain = ''redhat'', rho_OIDCIssuerDomains = [(''sso'', ''redhat/eu'')],
    rho_OIDCIssuerDomainMap = Some [(''sso'', ''redhat/eu'')]\<rparr>"
  let ?s = "\<lparr>rh_enabled = True, rh_xRhIdentityDomain = ''redhat'', rh_oidcIssuerDomains = Some [(''sso'', ''redhat/eu'')]\<rparr>"
  let ?a = "sample_caller AuthTypeXRhIdentity ''eu/7''" and ?b = "sample_caller AuthTypeOIDC ''7''"
  have "SelfSubjectOptions_Validate (Some ?options) = []" "SelfSubjectOptions_Build (Some ?options) = Some ?s"
    "SubjectFromAuthorizationContext (Some ?s) ?a = Inr (principal_reference ''redhat/eu/7'')"
    "SubjectFromAuthorizationContext (Some ?s) ?b = Inr (principal_reference ''redhat/eu/7'')"
    "self_domain ?s (the (ac_Subject ?a)) \<noteq> self_domain ?s (the (ac_Subject ?b))"
    by code_simp+
  then show ?thesis by (intro exI [of _ ?options] exI [of _ ?s] exI [of _ ?a] exI [of _ ?b]) simp
qed

end
