(* ===== verification/Resource_Service.thy ===== *)
theory Resource_Service
  imports Repository_Laws Schema_Registry Relations_Repo Meta_Authz
begin

text \<open>
  The use cases: \<open>internal/biz/usecase/resources\<close> (\<open>resource_service.go\<close>, \<open>commands.go\<close>) and
  \<open>internal/biz/usecase/tuples\<close>.

  A handler takes the authorization context of the request and the state it works on, the
  database or the relations service, and returns its result with the new state. What the environment
  decides is an input: generated identifiers, clock readings, and the outcome of commits, reads and of
  the wait behind the circuit breaker. Logging and metrics are left out; a panic is an error value.
\<close>

section \<open>Commands and configuration\<close>

datatype write_visibility = WriteVisibilityUnspecified | WriteVisibilityMinimizeLatency | WriteVisibilityConsistent

record report_resource_command =
  rc_LocalResourceId :: local_resource_id
  rc_ResourceType :: resource_type
  rc_ReporterType :: reporter_type
  rc_ReporterInstanceId :: reporter_instance_id
  rc_ApiHref :: uri
  rc_ConsoleHref :: "uri option"
  rc_ReporterVersion :: "reporter_version option"
  rc_TransactionId :: "transaction_id option"
  rc_ReporterRepresentation :: "representation option"
  rc_CommonRepresentation :: "representation option"
  rc_WriteVisibility :: write_visibility

record check_bulk_item =
  bi_Resource :: resource_reference
  bi_Relation :: relation
  bi_Subject :: subject_reference

record check_self_bulk_item =
  si_Resource :: resource_reference
  si_Relation :: relation

record bulk_result_item =
  bri_Allowed :: bool
  bri_Error :: "go_error option"
  bri_ErrorCode :: int

record bulk_result_pair =
  brp_Request :: check_bulk_item
  brp_Result :: bulk_result_item

record bulk_result =
  br_Pairs :: "bulk_result_pair list"
  br_ConsistencyToken :: consistency_token

record lookup_objects_command =
  lo_ObjectType :: representation_type
  lo_Relation :: relation
  lo_Subject :: subject_reference
  lo_Pagination :: "pagination option"
  lo_Consistency :: "consistency option"

record lookup_subjects_command =
  ls_Resource :: resource_reference
  ls_Relation :: relation
  ls_SubjectType :: representation_type
  ls_SubjectRelation :: "relation option"
  ls_Pagination :: "pagination option"
  ls_Consistency :: "consistency option"

record usecase_config =
  uc_ReadAfterWriteEnabled :: bool
  uc_ReadAfterWriteAllowlist :: "string list"
  uc_ConsumerEnabled :: bool
  uc_DefaultToAtLeastAsAcknowledged :: bool
  uc_IdempotencyCheckEnabled :: bool

definition NewUsecaseConfig :: usecase_config where
  "NewUsecaseConfig = \<lparr>uc_ReadAfterWriteEnabled = False, uc_ReadAfterWriteAllowlist = [], uc_ConsumerEnabled = False,
     uc_DefaultToAtLeastAsAcknowledged = False, uc_IdempotencyCheckEnabled = True\<rparr>"

text \<open>\<open>us_gorm\<close>, \<open>us_isSer\<close> and \<open>us_gjs\<close> are the database driver and the JSON-schema library.\<close>

record 's usecase =
  us_gorm :: gorm_ops
  us_isSer :: "go_error \<Rightarrow> bool"
  us_maxRetries :: nat
  us_gjs :: gojsonschema
  us_schemas :: schema_content
  us_relations :: "'s relations_repository"
  us_meta :: "meta_authorizer_check option"
  us_listenManager :: bool
  us_config :: usecase_config
  us_self :: "redhat_rbac_strategy option option"

text \<open>The constructor replaces a missing meta authorizer by the simple one.\<close>

definition Usecase_New ::
    "gorm_ops \<Rightarrow> (go_error \<Rightarrow> bool) \<Rightarrow> nat \<Rightarrow> gojsonschema \<Rightarrow> schema_content \<Rightarrow> 's relations_repository \<Rightarrow> bool \<Rightarrow> usecase_config \<Rightarrow>
     meta_authorizer_check option \<Rightarrow> redhat_rbac_strategy option option \<Rightarrow> 's usecase" where
  "Usecase_New gorm isSer maxRetries gjs schemas relations listenManager config metaAuthorizer selfSubjectStrategy =
     \<lparr>us_gorm = gorm, us_isSer = isSer, us_maxRetries = maxRetries, us_gjs = gjs, us_schemas = schemas, us_relations = relations,
      us_meta = (case metaAuthorizer of None \<Rightarrow> Some SimpleMetaAuthorizer_Check | Some m \<Rightarrow> Some m),
      us_listenManager = listenManager, us_config = config, us_self = selfSubjectStrategy\<rparr>"

section \<open>Helpers\<close>

definition isDuplicateTransactionError :: "go_error \<Rightarrow> bool" where
  "isDuplicateTransactionError err = (kratos_reason err = Some ''NON-UNIQUE TRANSACTION ID'')"

text \<open>\<open>newV7\<close> is the text of the generated UUID, or the error of the generator.\<close>

definition getNextTransactionID :: "string result \<Rightarrow> transaction_id result" where
  "getNextTransactionID newV7 = bind_res newV7 (\<lambda>s. Ok (NewTransactionId s))"

fun isSPInAllowlist :: "string \<Rightarrow> string list \<Rightarrow> bool" where
  "isSPInAllowlist callerSubject [] = False"
| "isSPInAllowlist callerSubject (sp # rest) =
     (if sp = callerSubject \<or> sp = ''*'' then True else isSPInAllowlist callerSubject rest)"

definition computeReadAfterWrite :: "'s usecase \<Rightarrow> write_visibility \<Rightarrow> string \<Rightarrow> bool" where
  "computeReadAfterWrite uc wv callerSubject =
     (if wv = WriteVisibilityUnspecified \<or> wv = WriteVisibilityMinimizeLatency then False
      else us_listenManager uc \<and> uc_ReadAfterWriteEnabled (us_config uc) \<and>
           isSPInAllowlist callerSubject (uc_ReadAfterWriteAllowlist (us_config uc)))"

definition enforceMetaAuthzObject :: "'s usecase \<Rightarrow> authz_context option \<Rightarrow> meta_relation \<Rightarrow> meta_object \<Rightarrow> unit result" where
  "enforceMetaAuthzObject uc ctx relation metaObject = EnforceMetaAuthzObject ctx (us_meta uc) relation metaObject"

text \<open>\<open>metaauthorizer.NewInventoryResource(ref.Reporter().ReporterType(), ...)\<close>: a nil reporter is dereferenced.\<close>

definition meta_object_of :: "resource_reference \<Rightarrow> meta_object result" where
  "meta_object_of ref = (case oref_reporter ref of
     None \<Rightarrow> Err nil_panic
   | Some r \<Rightarrow> Ok (NewInventoryResource (rref_reporterType r) (oref_resourceType ref) (oref_resourceId ref)))"

definition enforce_on :: "'s usecase \<Rightarrow> authz_context option \<Rightarrow> meta_relation \<Rightarrow> resource_reference \<Rightarrow> unit result" where
  "enforce_on uc ctx relation ref = bind_res (meta_object_of ref) (\<lambda>ob. enforceMetaAuthzObject uc ctx relation ob)"

definition reporterKeyFromResourceRef :: "resource_reference \<Rightarrow> reporter_resource_key result" where
  "reporterKeyFromResourceRef ref =
     (let reporterType = (case oref_reporter ref of None \<Rightarrow> [] | Some r \<Rightarrow> rref_reporterType r);
          instanceId = (case oref_reporter ref of None \<Rightarrow> []
                        | Some r \<Rightarrow> (case rref_instanceId r of None \<Rightarrow> [] | Some i \<Rightarrow> i))
      in NewReporterResourceKey (oref_resourceId ref) (oref_resourceType ref) reporterType instanceId)"

section \<open>Reporting a resource\<close>

text \<open>What one attempt of a transaction meets.\<close>

record attempt =
  at_findErr :: "go_error option"
  at_resourceId :: "uuid result"
  at_reporterResourceId :: "uuid result"
  at_newUUID :: "uuid result"
  at_now1 :: time
  at_now2 :: time
  at_now3 :: time
  at_commit :: "go_error option"

definition find_resource :: "attempt \<Rightarrow> reporter_resource_key \<Rightarrow> db \<Rightarrow> resource option result" where
  "find_resource a key d = (case at_findErr a of Some e \<Rightarrow> Err e | None \<Rightarrow> FindResourceByKeys d key)"

definition createResource ::
    "'s usecase \<Rightarrow> attempt \<Rightarrow> report_resource_command \<Rightarrow> transaction_id \<Rightarrow> transaction_id \<Rightarrow> db \<Rightarrow> db result" where
  "createResource uc a cmd tid txid d =
     bind_res (NextResourceId (at_resourceId a)) (\<lambda>resourceId.
     bind_res (NextReporterResourceId (at_reporterResourceId a)) (\<lambda>reporterResourceId.
     bind_res (NewResource (at_now1 a) (at_now2 a) resourceId (rc_LocalResourceId cmd) (rc_ResourceType cmd) (rc_ReporterType cmd)
                 (rc_ReporterInstanceId cmd) tid reporterResourceId (rc_ApiHref cmd) (rc_ConsoleHref cmd)
                 (rc_ReporterRepresentation cmd) (rc_CommonRepresentation cmd) (rc_ReporterVersion cmd)) (\<lambda>resource.
     Save (us_gorm uc) (at_newUUID a) (at_now3 a) resource OperationTypeCreated txid d)))"

definition updateResource ::
    "'s usecase \<Rightarrow> attempt \<Rightarrow> report_resource_command \<Rightarrow> transaction_id \<Rightarrow> resource \<Rightarrow> transaction_id \<Rightarrow> db \<Rightarrow> db result" where
  "updateResource uc a cmd tid existingResource txid d =
     bind_res (NewReporterResourceKey (rc_LocalResourceId cmd) (rc_ResourceType cmd) (rc_ReporterType cmd) (rc_ReporterInstanceId cmd)) (\<lambda>key.
     case Resource_Update (at_now1 a) (at_now2 a) key (rc_ApiHref cmd) (rc_ConsoleHref cmd) (rc_ReporterVersion cmd)
            (rc_ReporterRepresentation cmd) (rc_CommonRepresentation cmd) tid existingResource of
       (_, Some e) \<Rightarrow> Err (Wrap ''failed to update resource'' e)
     | (updated, None) \<Rightarrow> Save (us_gorm uc) (at_newUUID a) (at_now3 a) updated OperationTypeUpdated txid d)"

text \<open>The function that \<open>ReportResource\<close> runs in a serializable transaction.\<close>

definition report_tx ::
    "'s usecase \<Rightarrow> report_resource_command \<Rightarrow> reporter_resource_key \<Rightarrow> transaction_id \<Rightarrow> transaction_id \<Rightarrow> attempt \<Rightarrow> db \<Rightarrow> db result" where
  "report_tx uc cmd key tid txid a d = (case find_resource a key d of
     Inl err \<Rightarrow> if \<not> errors_Is err ErrRecordNotFound then Err (Wrap ''failed to lookup existing resource'' err)
                else createResource uc a cmd tid txid d
   | Inr (Some res) \<Rightarrow> updateResource uc a cmd tid res txid d
   | Inr None \<Rightarrow> createResource uc a cmd tid txid d)"

definition reportResource ::
    "'s usecase \<Rightarrow> report_resource_command \<Rightarrow> reporter_resource_key \<Rightarrow> transaction_id \<Rightarrow> transaction_id \<Rightarrow> (nat \<Rightarrow> attempt) \<Rightarrow> db \<Rightarrow> db result" where
  "reportResource uc cmd key tid txid attempts d =
     HandleSerializableTransaction (us_maxRetries uc) (us_isSer uc) (\<lambda>i. report_tx uc cmd key tid txid (attempts i))
       (\<lambda>i. at_commit (attempts i)) d"

record report_io =
  ri_txid :: "string result"
  ri_processedErr :: "go_error option"
  ri_attempts :: "nat \<Rightarrow> attempt"
  ri_retryTxid :: "string result"
  ri_retryAttempts :: "nat \<Rightarrow> attempt"
  ri_wait :: "go_error option"

text \<open>The wait for the consumer, after the commit. \<open>ri_wait\<close> is the outcome of \<open>waitForNotifBreaker.Execute\<close>.\<close>

definition wait_for_notification :: "bool \<Rightarrow> go_error option \<Rightarrow> unit result" where
  "wait_for_notification waiting outcome =
     (if \<not> waiting then Ok ()
      else (case outcome of
          None \<Rightarrow> Ok ()
        | Some err \<Rightarrow> if errors_Is err ErrWaitContextCancelled then Ok ()
                      else if errors_Is err ErrOpenState then Ok ()
                      else if errors_Is err ErrTooManyRequests then Ok ()
                      else Err err))"

definition already_processed :: "'s usecase \<Rightarrow> report_io \<Rightarrow> transaction_id \<Rightarrow> db \<Rightarrow> bool result" where
  "already_processed uc io tid d =
     (if uc_IdempotencyCheckEnabled (us_config uc) then
        (case ri_processedErr io of
           Some e \<Rightarrow> Err (Wrap ''failed to check transaction ID'' e)
         | None \<Rightarrow> Ok (HasTransactionIdBeenProcessed d tid))
      else Ok False)"

definition run_report ::
    "'s usecase \<Rightarrow> report_io \<Rightarrow> report_resource_command \<Rightarrow> reporter_resource_key \<Rightarrow> transaction_id \<Rightarrow> transaction_id \<Rightarrow> db \<Rightarrow> db result" where
  "run_report uc io cmd key tid txid d = (case reportResource uc cmd key tid txid (ri_attempts io) d of
     Inr d' \<Rightarrow> Ok d'
   | Inl err \<Rightarrow>
       if \<not> uc_IdempotencyCheckEnabled (us_config uc) \<and> isDuplicateTransactionError err
       then bind_res (getNextTransactionID (ri_retryTxid io)) (\<lambda>retryTxid.
              reportResource uc cmd key retryTxid txid (ri_retryAttempts io) d)
       else Err err)"

definition ReportResource ::
    "'s usecase \<Rightarrow> report_io \<Rightarrow> authz_context option \<Rightarrow> report_resource_command \<Rightarrow> db \<Rightarrow> unit result \<times> db" where
  "ReportResource uc io ctx cmd d = (case ctx of
     None \<Rightarrow> (Err (StatusError Unauthenticated ''authentication required''), d)
   | Some authzCtx \<Rightarrow> (case ac_Subject authzCtx of
       None \<Rightarrow> (Err (StatusError Unauthenticated ''authentication required''), d)
     | Some subject \<Rightarrow>
     (case NewReporterResourceKey (rc_LocalResourceId cmd) (rc_ResourceType cmd) (rc_ReporterType cmd) (rc_ReporterInstanceId cmd) of
       Inl err \<Rightarrow> (Err (StatusError InvalidArgument ''failed to create reporter resource key''), d)
     | Inr key \<Rightarrow>
     (case enforceMetaAuthzObject uc ctx RelationReportResource (NewInventoryResourceFromKey key) of
       Inl err \<Rightarrow> (Err err, d)
     | Inr _ \<Rightarrow>
     (case getNextTransactionID (ri_txid io) of
       Inl err \<Rightarrow> (Err err, d)
     | Inr txid \<Rightarrow>
     (let tid = (case rc_TransactionId cmd of None \<Rightarrow> txid | Some t \<Rightarrow> if t = [] then txid else t) in
     (case ValidateReportAgainstSchema (us_gjs uc) (GetResourceSchema (us_schemas uc)) (GetReporterSchema (us_schemas uc))
             (rc_ResourceType cmd) (rc_ReporterType cmd) (rc_CommonRepresentation cmd) (rc_ReporterRepresentation cmd) of
       Some err \<Rightarrow> (Err (StatusError InvalidArgument ''failed validation for report resource''), d)
     | None \<Rightarrow>
     (let waiting = (computeReadAfterWrite uc (rc_WriteVisibility cmd) (cl_SubjectId subject) \<and> uc_ConsumerEnabled (us_config uc)) in
     (case already_processed uc io tid d of
       Inl err \<Rightarrow> (Err err, d)
     | Inr True \<Rightarrow> (Ok (), d)
     | Inr False \<Rightarrow>
     (case run_report uc io cmd key tid txid d of
       Inl err \<Rightarrow> (Err err, d)
     | Inr d' \<Rightarrow> (wait_for_notification waiting (ri_wait io), d')))))))))))"

section \<open>Deleting a resource\<close>

definition delete_tx ::
    "'s usecase \<Rightarrow> reporter_resource_key \<Rightarrow> transaction_id \<Rightarrow> attempt \<Rightarrow> db \<Rightarrow> db result" where
  "delete_tx uc key txid a d = (case find_resource a key d of
     Inr (Some res) \<Rightarrow>
       (case Resource_Delete (at_now1 a) key res of
          (_, Some e) \<Rightarrow> Err (Wrap ''failed to delete resource'' e)
        | (deleted, None) \<Rightarrow> Save (us_gorm uc) (at_newUUID a) (at_now3 a) deleted OperationTypeDeleted txid d)
   | Inr None \<Rightarrow> Err (Sentinel ErrDatabaseError)
   | Inl err \<Rightarrow> if errors_Is err ErrRecordNotFound then Err (Sentinel ErrResourceNotFound) else Err (Sentinel ErrDatabaseError))"

definition Usecase_Delete ::
    "'s usecase \<Rightarrow> report_io \<Rightarrow> authz_context option \<Rightarrow> reporter_resource_key \<Rightarrow> db \<Rightarrow> unit result \<times> db" where
  "Usecase_Delete uc io ctx key d = (case enforceMetaAuthzObject uc ctx RelationDeleteResource (NewInventoryResourceFromKey key) of
     Inl err \<Rightarrow> (Err err, d)
   | Inr _ \<Rightarrow>
     (case getNextTransactionID (ri_txid io) of
        Inl err \<Rightarrow> (Err err, d)
      | Inr txid \<Rightarrow>
        (case HandleSerializableTransaction (us_maxRetries uc) (us_isSer uc) (\<lambda>i. delete_tx uc key txid (ri_attempts io i))
                (\<lambda>i. at_commit (ri_attempts io i)) d of
           Inl err \<Rightarrow> (Err err, d)
         | Inr d' \<Rightarrow> (Ok (), d'))))"

section \<open>Consistency of checks\<close>

text \<open>A read outside any transaction: \<open>findErr\<close> is a failure of the database.\<close>

definition lookupConsistencyTokenFromDB :: "go_error option \<Rightarrow> db \<Rightarrow> resource_reference \<Rightarrow> string result" where
  "lookupConsistencyTokenFromDB findErr d ref = (case reporterKeyFromResourceRef ref of
     Inl err \<Rightarrow> Err (Wrap ''failed to build reporter resource key from reference'' err)
   | Inr key \<Rightarrow>
       (case (case findErr of Some e \<Rightarrow> Err e | None \<Rightarrow> FindResourceByKeys d key) of
          Inl err \<Rightarrow> if errors_Is err ErrRecordNotFound then Ok [] else Err err
        | Inr None \<Rightarrow> Err nil_panic
        | Inr (Some res) \<Rightarrow> Ok (SerializeString (res_consistencyToken res))))"

definition resolveFromDB :: "go_error option \<Rightarrow> db \<Rightarrow> resource_reference \<Rightarrow> consistency result" where
  "resolveFromDB findErr d ref =
     bind_res (lookupConsistencyTokenFromDB findErr d ref) (\<lambda>tokenStr.
     if tokenStr = [] then Ok minimizeLatencyConsistency
     else Ok (atLeastAsFreshConsistency (DeserializeConsistencyToken tokenStr)))"

definition resolveConsistency ::
    "'s usecase \<Rightarrow> go_error option \<Rightarrow> db \<Rightarrow> consistency option \<Rightarrow> resource_reference \<Rightarrow> bool \<Rightarrow> consistency result" where
  "resolveConsistency uc findErr d consistency ref overrideFeatureFlag =
     (let featureFlagEnabled = uc_DefaultToAtLeastAsAcknowledged (us_config uc) in
      case ConsistencyTypeOf consistency of
        ConsistencyMinimizeLatency \<Rightarrow> Ok minimizeLatencyConsistency
      | ConsistencyAtLeastAsFresh \<Rightarrow> Ok (normalizeConsistency consistency)
      | ConsistencyAtLeastAsAcknowledged \<Rightarrow> resolveFromDB findErr d ref
      | ConsistencyUnspecified \<Rightarrow>
          if featureFlagEnabled \<and> \<not> overrideFeatureFlag then resolveFromDB findErr d ref
          else Ok minimizeLatencyConsistency)"

definition selfSubjectFromContext :: "'s usecase \<Rightarrow> authz_context option \<Rightarrow> subject_reference result" where
  "selfSubjectFromContext uc ctx = (case ctx of
     None \<Rightarrow> Err (Sentinel ErrMetaAuthzContextMissing)
   | Some authzCtx \<Rightarrow> (case us_self uc of
       None \<Rightarrow> Err (Sentinel ErrSelfSubjectMissing)
     | Some strategy \<Rightarrow> (case SubjectFromAuthorizationContext strategy authzCtx of
         Inl _ \<Rightarrow> Err (Sentinel ErrSelfSubjectMissing) | Inr subjectRef \<Rightarrow> Ok subjectRef)))"

section \<open>Checks\<close>

definition checkPermission ::
    "'s usecase \<Rightarrow> relation \<Rightarrow> subject_reference \<Rightarrow> resource_reference \<Rightarrow> consistency \<Rightarrow> 's \<Rightarrow> check_result result" where
  "checkPermission uc relation sub ref consistency s = ro_Check (us_relations uc) (NewRelationship ref relation sub) consistency s"

definition Check ::
    "'s usecase \<Rightarrow> go_error option \<Rightarrow> authz_context option \<Rightarrow> relation \<Rightarrow> subject_reference \<Rightarrow> resource_reference \<Rightarrow> consistency option \<Rightarrow>
     db \<Rightarrow> 's \<Rightarrow> check_result result" where
  "Check uc findErr ctx relation sub ref consistency d s =
     bind_res (enforce_on uc ctx RelationCheck ref) (\<lambda>_.
     bind_res (resolveConsistency uc findErr d consistency ref False) (\<lambda>resolved.
     checkPermission uc relation sub ref resolved s))"

definition CheckSelf ::
    "'s usecase \<Rightarrow> go_error option \<Rightarrow> authz_context option \<Rightarrow> relation \<Rightarrow> resource_reference \<Rightarrow> consistency option \<Rightarrow> db \<Rightarrow> 's \<Rightarrow>
     check_result result" where
  "CheckSelf uc findErr ctx relation ref consistency d s =
     bind_res (enforce_on uc ctx RelationCheckSelf ref) (\<lambda>_.
     bind_res (selfSubjectFromContext uc ctx) (\<lambda>subjectRef.
     bind_res (resolveConsistency uc findErr d consistency ref True) (\<lambda>resolved.
     checkPermission uc relation subjectRef ref resolved s)))"

definition CheckForUpdate ::
    "'s usecase \<Rightarrow> authz_context option \<Rightarrow> relation \<Rightarrow> subject_reference \<Rightarrow> resource_reference \<Rightarrow> 's \<Rightarrow> check_result result" where
  "CheckForUpdate uc ctx relation sub ref s =
     bind_res (enforce_on uc ctx RelationCheckForUpdate ref) (\<lambda>_.
     ro_CheckForUpdate (us_relations uc) (NewRelationship ref relation sub) s)"

fun enforce_all :: "'s usecase \<Rightarrow> authz_context option \<Rightarrow> meta_relation \<Rightarrow> resource_reference list \<Rightarrow> unit result" where
  "enforce_all uc ctx relation [] = Ok ()"
| "enforce_all uc ctx relation (ref # refs) = bind_res (enforce_on uc ctx relation ref) (\<lambda>_. enforce_all uc ctx relation refs)"

definition checkBulkItemsToRelationships :: "check_bulk_item list \<Rightarrow> relationship list" where
  "checkBulkItemsToRelationships items = map (\<lambda>item. NewRelationship (bi_Resource item) (bi_Relation item) (bi_Subject item)) items"

definition validateBulkResultLength :: "nat \<Rightarrow> nat \<Rightarrow> unit result" where
  "validateBulkResultLength expected actual =
     (if actual \<noteq> expected then Err (StatusError Internal ''internal error: mismatched check results'') else Ok ())"

definition checkBulkResultFromModel :: "check_bulk_result \<Rightarrow> bulk_result" where
  "checkBulkResultFromModel result =
     \<lparr>br_Pairs = map (\<lambda>p. \<lparr>brp_Request = \<lparr>bi_Resource = rl_object (cbp_request p), bi_Relation = rl_relation (cbp_request p),
                                           bi_Subject = rl_subject (cbp_request p)\<rparr>,
                          brp_Result = \<lparr>bri_Allowed = cbi_allowed (cbp_result p), bri_Error = cbi_err (cbp_result p),
                                        bri_ErrorCode = cbi_errorCode (cbp_result p)\<rparr>\<rparr>) (cbr_pairs result),
      br_ConsistencyToken = cbr_consistencyToken result\<rparr>"

text \<open>The common end of the three bulk checks.\<close>

definition bulk_answer :: "relationship list \<Rightarrow> check_bulk_result result \<Rightarrow> bulk_result result" where
  "bulk_answer rels answer =
     bind_res answer (\<lambda>result.
     bind_res (validateBulkResultLength (length rels) (length (cbr_pairs result))) (\<lambda>_.
     Ok (checkBulkResultFromModel result)))"

definition CheckForUpdateBulk :: "'s usecase \<Rightarrow> authz_context option \<Rightarrow> check_bulk_item list \<Rightarrow> 's \<Rightarrow> bulk_result result" where
  "CheckForUpdateBulk uc ctx items s =
     bind_res (enforce_all uc ctx RelationCheckForUpdateBulk (map bi_Resource items)) (\<lambda>_.
     (let rels = checkBulkItemsToRelationships items in bulk_answer rels (ro_CheckForUpdateBulk (us_relations uc) rels s)))"

definition acknowledged_unavailable :: go_error where
  "acknowledged_unavailable = StatusError InvalidArgument ''inventory-managed consistency tokens aren't available''"

definition CheckBulk ::
    "'s usecase \<Rightarrow> authz_context option \<Rightarrow> check_bulk_item list \<Rightarrow> consistency option \<Rightarrow> 's \<Rightarrow> bulk_result result" where
  "CheckBulk uc ctx items consistency s =
     (if ConsistencyTypeOf consistency = ConsistencyAtLeastAsAcknowledged then Err acknowledged_unavailable
      else bind_res (enforce_all uc ctx RelationCheckBulk (map bi_Resource items)) (\<lambda>_.
           (let rels = checkBulkItemsToRelationships items in bulk_answer rels (ro_CheckBulk (us_relations uc) rels consistency s))))"

definition CheckSelfBulk ::
    "'s usecase \<Rightarrow> authz_context option \<Rightarrow> check_self_bulk_item list \<Rightarrow> consistency option \<Rightarrow> 's \<Rightarrow> bulk_result result" where
  "CheckSelfBulk uc ctx items consistency s =
     (if ConsistencyTypeOf consistency = ConsistencyAtLeastAsAcknowledged then Err acknowledged_unavailable
      else bind_res (enforce_all uc ctx RelationCheckSelf (map si_Resource items)) (\<lambda>_.
           bind_res (selfSubjectFromContext uc ctx) (\<lambda>subjectRef.
           (let rels = map (\<lambda>item. NewRelationship (si_Resource item) (si_Relation item) subjectRef) items
            in bulk_answer rels (ro_CheckBulk (us_relations uc) rels consistency s)))))"

section \<open>Lookups\<close>

definition LookupObjects ::
    "'s usecase \<Rightarrow> authz_context option \<Rightarrow> lookup_objects_command \<Rightarrow> 's \<Rightarrow> lookup_objects_item list result" where
  "LookupObjects uc ctx cmd s =
     (if ConsistencyTypeOf (lo_Consistency cmd) = ConsistencyAtLeastAsAcknowledged then Err acknowledged_unavailable
      else (let reporterType = (case rpt_reporterType (lo_ObjectType cmd) of None \<Rightarrow> [] | Some r \<Rightarrow> r);
                metaObject = NewResourceTypeRef reporterType (rpt_resourceType (lo_ObjectType cmd))
            in bind_res (enforceMetaAuthzObject uc ctx RelationLookupResources metaObject) (\<lambda>_.
               ro_LookupObjects (us_relations uc) (lo_ObjectType cmd) (lo_Relation cmd) (lo_Subject cmd) (lo_Pagination cmd)
                 (lo_Consistency cmd) s)))"

definition LookupSubjects ::
    "'s usecase \<Rightarrow> authz_context option \<Rightarrow> lookup_subjects_command \<Rightarrow> 's \<Rightarrow> lookup_subjects_item list result" where
  "LookupSubjects uc ctx cmd s =
     (if ConsistencyTypeOf (ls_Consistency cmd) = ConsistencyAtLeastAsAcknowledged then Err acknowledged_unavailable
      else bind_res (enforce_on uc ctx RelationLookupSubjects (ls_Resource cmd)) (\<lambda>_.
           ro_LookupSubjects (us_relations uc) (ls_Resource cmd) (ls_Relation cmd) (ls_SubjectType cmd) (ls_SubjectRelation cmd)
             (ls_Pagination cmd) (ls_Consistency cmd) s))"

section \<open>Tuples (\<open>internal/biz/usecase/tuples\<close>)\<close>

record 's tuple_crud =
  tc_Authz :: "'s relations_repository"
  tc_MetaAuthorizer :: "meta_authorizer_check option"

record create_tuples_command =
  ct_Tuples :: "relations_tuple list"
  ct_Upsert :: bool
  ct_FencingCheck :: "(lock_id \<times> lock_token) option"

record delete_tuples_command =
  dt_Filter :: tuple_filter
  dt_FencingCheck :: "(lock_id \<times> lock_token) option"

record read_tuples_command =
  rt_Filter :: tuple_filter
  rt_Pagination :: "pagination option"
  rt_Consistency :: "consistency option"

definition fencing_of :: "(lock_id \<times> lock_token) option \<Rightarrow> fencing_check option" where
  "fencing_of f = (case f of None \<Rightarrow> None | Some (i, t) \<Rightarrow> Some (NewFencingCheck i t))"

definition TupleCrud_CreateTuples ::
    "'s tuple_crud \<Rightarrow> authz_context option \<Rightarrow> create_tuples_command \<Rightarrow> 's \<Rightarrow> consistency_token result \<times> 's" where
  "TupleCrud_CreateTuples uc ctx cmd s =
     (case EnforceMetaAuthzObject ctx (tc_MetaAuthorizer uc) RelationCreateTuples NewTupleSystem of
        Inl err \<Rightarrow> (Err err, s)
      | Inr _ \<Rightarrow> ro_CreateTuples (tc_Authz uc) (ct_Tuples cmd) (ct_Upsert cmd) (fencing_of (ct_FencingCheck cmd)) s)"

definition TupleCrud_DeleteTuples ::
    "'s tuple_crud \<Rightarrow> authz_context option \<Rightarrow> delete_tuples_command \<Rightarrow> 's \<Rightarrow> consistency_token result \<times> 's" where
  "TupleCrud_DeleteTuples uc ctx cmd s =
     (case EnforceMetaAuthzObject ctx (tc_MetaAuthorizer uc) RelationDeleteTuples NewTupleSystem of
        Inl err \<Rightarrow> (Err err, s)
      | Inr _ \<Rightarrow> ro_DeleteTuples (tc_Authz uc) (dt_Filter cmd) (fencing_of (dt_FencingCheck cmd)) s)"

definition TupleCrud_ReadTuples ::
    "'s tuple_crud \<Rightarrow> authz_context option \<Rightarrow> read_tuples_command \<Rightarrow> 's \<Rightarrow> read_tuples_item list result" where
  "TupleCrud_ReadTuples uc ctx cmd s =
     bind_res (EnforceMetaAuthzObject ctx (tc_MetaAuthorizer uc) RelationReadTuples NewTupleSystem) (\<lambda>_.
     ro_ReadTuples (tc_Authz uc) (rt_Filter cmd) (rt_Pagination cmd) (rt_Consistency cmd) s)"

definition TupleCrud_AcquireLock :: "'s tuple_crud \<Rightarrow> authz_context option \<Rightarrow> lock_id \<Rightarrow> 's \<Rightarrow> lock_token result \<times> 's" where
  "TupleCrud_AcquireLock uc ctx lockId s =
     (case EnforceMetaAuthzObject ctx (tc_MetaAuthorizer uc) RelationAcquireLock NewTupleSystem of
        Inl err \<Rightarrow> (Err err, s)
      | Inr _ \<Rightarrow> ro_AcquireLock (tc_Authz uc) lockId s)"

end
