(* ===== verification/Service_Laws.thy ===== *)
theory Service_Laws
  imports Resource_Service
begin

text \<open>
  What the use cases guarantee: every report and delete transaction keeps the invariant of the
  tables and announces exactly what it stored, the handlers write nothing for a request that is not
  authenticated, authorized and valid, a transaction id is applied once, and the checks ask the
  relations service for the consistency the request stands for.
\<close>

section \<open>The table invariant\<close>

text \<open>One generic step: a resource row and its reporter resource row are inserted or replaced, and at most one common
  representation with the next version is added.\<close>

definition row_step :: "data_resource \<Rightarrow> data_reporter_resource \<Rightarrow> data_common_representation option \<Rightarrow> db \<Rightarrow> db \<Rightarrow> bool" where
  "row_step R RR crs d d' \<longleftrightarrow>
     set (db_resource d') = insert R {x \<in> set (db_resource d). dr_ID x \<noteq> dr_ID R} \<and> distinct (map dr_ID (db_resource d')) \<and>
     set (db_reporter_resources d') = insert RR {x \<in> set (db_reporter_resources d). rrs_ID x \<noteq> rrs_ID RR} \<and>
     distinct (map rrs_ID (db_reporter_resources d')) \<and>
     set (db_common_representations d') = set (db_common_representations d) \<union> set_option crs \<and>
     distinct (db_common_representations d') \<and>
     (\<forall>cr x. crs = Some cr \<longrightarrow> x \<in> set (db_common_representations d) \<longrightarrow> \<not> same_common_key x cr)"

definition row_ok :: "data_resource \<Rightarrow> data_reporter_resource \<Rightarrow> data_common_representation option \<Rightarrow> db \<Rightarrow> bool" where
  "row_ok R RR crs d \<longleftrightarrow> rrs_ResourceID RR = dr_ID R \<and>
     (\<forall>x \<in> set (db_reporter_resources d). (rrs_ID x = rrs_ID RR \<longleftrightarrow> rrs_Key x = rrs_Key RR) \<and> (rrs_ID x = rrs_ID RR \<longleftrightarrow> rrs_ResourceID x = dr_ID R)) \<and>
     (case crs of
        None \<Rightarrow> dr_CommonVersion R = None \<or> dr_CommonVersion R = last_common_version d (dr_ID R)
      | Some cr \<Rightarrow> crs_ResourceId cr = dr_ID R \<and> crs_Version cr = next_common_version (last_common_version d (dr_ID R)) \<and>
          map_len (crs_Data cr) > 0 \<and> (dr_CommonVersion R = None \<or> dr_CommonVersion R = Some (crs_Version cr)))"

lemma versions_step:
  assumes "row_step R RR crs d d'"
  shows "versions_of d' j = versions_of d j \<union> {crs_Version cr |cr. crs = Some cr \<and> crs_ResourceId cr = j}"
  using assms by (cases crs) (auto simp: row_step_def versions_of_def)

lemma contiguous_resource:
  assumes "db_inv d"
  shows "contiguous d j"
proof (cases "j \<in> dr_ID ` set (db_resource d)")
  case False
  with assms have "versions_of d j = {}" by (auto simp: db_inv_def versions_of_def)
  then show ?thesis by (simp add: contiguous_def last_common_version_None [symmetric])
qed (use assms in \<open>auto simp: db_inv_def\<close>)

lemma row_step_versions:
  assumes "db_inv d" "row_step R RR crs d d'" "row_ok R RR crs d" "last_common_version d (dr_ID R) \<noteq> Some max_uint"
  shows "contiguous d' j"
    and "last_common_version d' j = (case crs of Some cr \<Rightarrow> if j = dr_ID R then Some (crs_Version cr) else last_common_version d j
           | None \<Rightarrow> last_common_version d j)"
proof -
  have same: "contiguous d' j \<and> last_common_version d' j = last_common_version d j" if "versions_of d' j = versions_of d j"
    using that contiguous_resource [OF assms(1), of j] last_common_version_cong [of d' j d j] by (simp add: contiguous_def split: option.splits)
  have "contiguous d' j \<and> last_common_version d' j = (case crs of Some cr \<Rightarrow> if j = dr_ID R then Some (crs_Version cr) else last_common_version d j
           | None \<Rightarrow> last_common_version d j)"
  proof (cases "\<exists>cr. crs = Some cr \<and> j = dr_ID R")
    case True
    then obtain cr where cr: "crs = Some cr" "j = dr_ID R" by blast
    have v: "next_common_version (last_common_version d j) = crs_Version cr" "versions_of d' j = insert (crs_Version cr) (versions_of d j)"
      using assms(3) cr versions_step [OF assms(2), of j] by (auto simp: row_ok_def)
    from contiguous_extend [OF contiguous_resource [OF assms(1)] v(1) _ v(2)] assms(4) cr show ?thesis by simp
  next
    case False
    then have "versions_of d' j = versions_of d j" using assms(3) versions_step [OF assms(2), of j] by (auto simp: row_ok_def split: option.splits)
    with same False show ?thesis by (auto split: option.splits)
  qed
  then show "contiguous d' j" "last_common_version d' j = (case crs of Some cr \<Rightarrow> if j = dr_ID R then Some (crs_Version cr) else last_common_version d j
           | None \<Rightarrow> last_common_version d j)" by auto
qed

lemma distinct_map_via: "distinct (map f xs) \<Longrightarrow> inj_on g (set xs) \<Longrightarrow> distinct (map g xs)"
  by (simp add: distinct_map)

lemma row_step_inv:
  assumes "db_inv d" "row_step R RR crs d d'" "row_ok R RR crs d" "last_common_version d (dr_ID R) \<noteq> Some max_uint"
  shows "db_inv d'"
proof -
  let ?u = "set (db_reporter_resources d)" and ?u' = "set (db_reporter_resources d')"
  let ?t = "set (db_resource d)" and ?t' = "set (db_resource d')"
  note S = assms(2) [unfolded row_step_def] and K = assms(3) [unfolded row_ok_def] and V = row_step_versions [OF assms]
  have u': "?u' = insert RR {x \<in> ?u. rrs_ID x \<noteq> rrs_ID RR}" and t': "?t' = insert R {x \<in> ?t. dr_ID x \<noteq> dr_ID R}" using S by blast+
  have inj: "inj_on rrs_Key ?u" "inj_on rrs_ResourceID ?u" and img: "rrs_ResourceID ` ?u = dr_ID ` ?t"
    using assms(1) by (simp_all add: db_inv_def distinct_map)
  have "inj_on rrs_Key ?u'" "inj_on rrs_ResourceID ?u'"
    unfolding u' using K inj by (auto simp: inj_on_def)
  then have 1: "distinct (map rrs_Key (db_reporter_resources d'))" "distinct (map rrs_ResourceID (db_reporter_resources d'))"
    using S distinct_map_via by blast+
  have "rrs_ResourceID ` {x \<in> ?u. rrs_ID x \<noteq> rrs_ID RR} = rrs_ResourceID ` {x \<in> ?u. rrs_ResourceID x \<noteq> dr_ID R}" using K by blast
  also have "\<dots> = rrs_ResourceID ` ?u - {dr_ID R}" by auto
  finally have 2: "rrs_ResourceID ` ?u' = dr_ID ` ?t'" unfolding u' t' using K img by auto
  have ids: "dr_ID ` ?t \<subseteq> dr_ID ` ?t'" unfolding t' by auto
  have 3: "common_keys_unique d'"
    using assms(1) S by (cases crs) (auto simp: db_inv_def common_keys_unique_def same_common_key_def)
  have 4: "map_len (crs_Data cr) > 0 \<and> crs_ResourceId cr \<in> dr_ID ` ?t'" if "cr \<in> set (db_common_representations d')" for cr
  proof (cases "cr \<in> set (db_common_representations d)")
    case True
    then have "map_len (crs_Data cr) > 0" "crs_ResourceId cr \<in> dr_ID ` ?t" using assms(1) by (auto simp: db_inv_def)
    with ids show ?thesis by blast
  next
    case False
    with that S have "crs = Some cr" by (cases crs) auto
    with K t' show ?thesis by simp
  qed
  have 5: "dr_CommonVersion res = None \<or> dr_CommonVersion res = last_common_version d' (dr_ID res)" if "res \<in> ?t'" for res
  proof (cases "res = R")
    case True
    then show ?thesis using K V(2) [of "dr_ID R"] by (auto split: option.splits)
  next
    case False
    then have "res \<in> ?t" "dr_ID res \<noteq> dr_ID R" using that t' by auto
    with assms(1) V(2) [of "dr_ID res"] show ?thesis by (auto simp: db_inv_def split: option.splits)
  qed
  show ?thesis unfolding db_inv_def using S 1 2 3 4 5 V(1) by blast
qed

section \<open>Transactions keep the invariant\<close>

lemma serialized_reporter_resource [simp]:
  "rrs_ID (ReporterResource_Serialize x) = rr_id x" "rrs_ResourceID (ReporterResource_Serialize x) = rr_resourceID x"
  "rrs_Key (ReporterResource_Serialize x) = key_snapshot (rr_key x)"
  by (simp_all add: ReporterResource_Serialize_def key_snapshot_def serde)

lemma loaded_reporter_resource [simp]:
  "rr_id (DeserializeReporterResource y) = rrs_ID y" "rr_resourceID (DeserializeReporterResource y) = rrs_ResourceID y"
  "key_snapshot (rr_key (DeserializeReporterResource y)) = rrs_Key y"
  by (simp_all add: DeserializeReporterResource_def DeserializeReporterResourceKey_def DeserializeReporterId_def key_snapshot_def
      rrk_reporterType_def rrk_reporterInstanceId_def serde)

lemma serialized_common [simp]:
  "crs_ResourceId (CommonRepresentation_Serialize now x) = cr_resourceId x" "crs_Version (CommonRepresentation_Serialize now x) = cr_version x"
  "crs_Data (CommonRepresentation_Serialize now x) = cr_data x" "crs_TransactionId (CommonRepresentation_Serialize now x) = cr_transactionId x"
  by (simp_all add: CommonRepresentation_Serialize_def serde split: prod.splits)

text \<open>What reading the database may report: a failure is not mistaken for a missing row. Generated identifiers are new.\<close>

definition sound_read :: "attempt \<Rightarrow> bool" where
  "sound_read a \<longleftrightarrow> (case at_findErr a of None \<Rightarrow> True | Some e \<Rightarrow> \<not> errors_Is e ErrRecordNotFound)"

definition fresh_ids :: "attempt \<Rightarrow> db \<Rightarrow> bool" where
  "fresh_ids a d \<longleftrightarrow> (case at_resourceId a of Inl _ \<Rightarrow> True | Inr i \<Rightarrow> i \<notin> dr_ID ` set (db_resource d)) \<and>
     (case at_reporterResourceId a of Inl _ \<Rightarrow> True | Inr i \<Rightarrow> i \<notin> rrs_ID ` set (db_reporter_resources d))"

definition no_overflow :: "db \<Rightarrow> bool" where
  "no_overflow d \<longleftrightarrow> list_all (\<lambda>cr. crs_Version cr \<noteq> max_uint) (db_common_representations d)"

lemma no_overflow_last: "no_overflow d \<Longrightarrow> last_common_version d i \<noteq> Some max_uint"
  by (auto simp: no_overflow_def list_all_iff last_common_version_Some versions_of_def)

definition command_key :: "report_resource_command \<Rightarrow> reporter_resource_key" where
  "command_key cmd = \<lparr>rrk_localResourceID = rc_LocalResourceId cmd, rrk_resourceType = rc_ResourceType cmd,
     rrk_reporter = NewReporterId (rc_ReporterType cmd) (rc_ReporterInstanceId cmd)\<rparr>"

lemma NewReporterResourceKey_command [simp]:
  "NewReporterResourceKey (rc_LocalResourceId cmd) (rc_ResourceType cmd) (rc_ReporterType cmd) (rc_ReporterInstanceId cmd) = Inr (command_key cmd)"
  by (simp add: NewReporterResourceKey_def command_key_def Let_def)

lemma find_cases:
  assumes "db_inv d" "rrk_reporterInstanceId key \<noteq> []"
  obtains (hit) res rr where "rr \<in> set (db_reporter_resources d)" "rrs_Key rr = key_snapshot key" "res \<in> set (db_resource d)"
      "dr_ID res = rrs_ResourceID rr" "FindResourceByKeys d key = Inr (Some (loaded d res rr))"
  | (miss) "\<forall>rr \<in> set (db_reporter_resources d). rrs_Key rr \<noteq> key_snapshot key" "FindResourceByKeys d key = Inl (Sentinel ErrRecordNotFound)"
proof (cases "\<exists>rr \<in> set (db_reporter_resources d). rrs_Key rr = key_snapshot key")
  case True
  then obtain rr where rr: "rr \<in> set (db_reporter_resources d)" "rrs_Key rr = key_snapshot key" by blast
  from FindResourceByKeys_hit [OF assms rr] rr hit show thesis by blast
next
  case False
  with FindResourceByKeys_miss [OF assms] miss show thesis by blast
qed

lemma loaded_wf: "db_inv d \<Longrightarrow> res \<in> set (db_resource d) \<Longrightarrow> wf_resource (loaded d res rr)"
  by (auto simp: wf_resource_def loaded_def db_inv_def)

context gorm_store
begin

lemma Save_row_step:
  assumes "db_inv d" "Save g newUUID now r op txid d = Inr d'" "Resource_Serialize now r = (rs, RR, rps, crs)"
  shows "row_step (DeserializeResourceFromSnapshot rs) RR crs d d'"
  using Save_tables [OF assms(2,3)] assms(1)
  by (auto simp: row_step_def db_inv_def common_keys_unique_def DeserializeResourceFromSnapshot_def)

lemma Save_inv:
  assumes "db_inv d" "no_overflow d" "Save g newUUID now r op txid d = Inr d'" "Resource_Serialize now r = (rs, RR, rps, crs)"
    and "row_ok (DeserializeResourceFromSnapshot rs) RR crs d"
  shows "db_inv d'"
  by (rule row_step_inv [OF assms(1) Save_row_step [OF assms(1,3,4)] assms(5) no_overflow_last [OF assms(2)]])

end

definition reported_version :: "representation option \<Rightarrow> version option \<Rightarrow> version option" where
  "reported_version cd lst = (case cd of None \<Rightarrow> None | Some _ \<Rightarrow> Some (next_common_version lst))"

text \<open>The reporter resource row a report writes, from the row \<open>old\<close> of its key, and the reporter representation it
  writes beside it: the next version of a live resource, version 0 of the next generation of a deleted one, version 0 of
  generation 0 of a new one. A new resource reported with common data only gets an empty reporter representation.\<close>

definition reporter_data :: "report_resource_command \<Rightarrow> data_reporter_resource option \<Rightarrow> representation option" where
  "reporter_data cmd old = (if old = None \<and> rc_ReporterRepresentation cmd = None \<and> rc_CommonRepresentation cmd \<noteq> None
     then Some (Some []) else rc_ReporterRepresentation cmd)"

definition counters_after :: "data_reporter_resource option \<Rightarrow> version \<times> generation" where
  "counters_after old = (case old of None \<Rightarrow> (0, 0)
     | Some x \<Rightarrow> if rrs_Tombstone x then (0, rrs_Generation x + 1) else (rrs_RepresentationVersion x + 1, rrs_Generation x))"

definition written :: "report_resource_command \<Rightarrow> data_reporter_resource option \<Rightarrow> version option \<Rightarrow> data_reporter_resource \<Rightarrow>
    data_reporter_representation option \<Rightarrow> bool" where
  "written cmd old cv row rep \<longleftrightarrow> \<not> rrs_Tombstone row \<and> rrs_APIHref row = rc_ApiHref cmd \<and> rrs_ConsoleHref row = rc_ConsoleHref cmd \<and>
     (rrs_RepresentationVersion row, rrs_Generation row) = counters_after old \<and> (\<forall>x. old = Some x \<longrightarrow> rrs_ID row = rrs_ID x) \<and>
     (case reporter_data cmd old of
        None \<Rightarrow> rep = None
      | Some x \<Rightarrow> (\<exists>r. rep = Some r \<and> rps_Data r = x \<and> rps_ReporterResourceID r = rrs_ID row \<and> rps_Version r = rrs_RepresentationVersion row \<and>
          rps_Generation r = rrs_Generation row \<and> rps_ReporterVersion r = rc_ReporterVersion cmd \<and> rps_CommonVersion r = cv \<and> \<not> rps_Tombstone r))"

lemma serialized_representation [simp]:
  "rps_Data (ReporterRepresentation_Serialize now x) = rep_data x" "rps_ReporterResourceID (ReporterRepresentation_Serialize now x) = rep_reporterResourceID x"
  "rps_Version (ReporterRepresentation_Serialize now x) = rep_version x" "rps_Generation (ReporterRepresentation_Serialize now x) = rep_generation x"
  "rps_ReporterVersion (ReporterRepresentation_Serialize now x) = rep_reporterVersion x" "rps_CommonVersion (ReporterRepresentation_Serialize now x) = rep_commonVersion x"
  "rps_Tombstone (ReporterRepresentation_Serialize now x) = rep_tombstone x"
  by (simp_all add: ReporterRepresentation_Serialize_def serde split: option.split)

lemma serialized_counters [simp]:
  "rrs_RepresentationVersion (ReporterResource_Serialize x) = rr_representationVersion x" "rrs_Generation (ReporterResource_Serialize x) = rr_generation x"
  "rrs_Tombstone (ReporterResource_Serialize x) = rr_tombstone x" "rrs_APIHref (ReporterResource_Serialize x) = rr_apiHref x"
  "rrs_ConsoleHref (ReporterResource_Serialize x) = rr_consoleHref x"
  by (simp_all add: ReporterResource_Serialize_def serde split: option.split)

lemma loaded_counters [simp]:
  "rr_representationVersion (DeserializeReporterResource y) = rrs_RepresentationVersion y" "rr_generation (DeserializeReporterResource y) = rrs_Generation y"
  "rr_tombstone (DeserializeReporterResource y) = rrs_Tombstone y"
  by (simp_all add: DeserializeReporterResource_def serde)

lemma ReporterResource_Update_row [simp]:
  "rr_apiHref (ReporterResource_Update now api console x) = api" "rr_consoleHref (ReporterResource_Update now api console x) = console"
  "\<not> rr_tombstone (ReporterResource_Update now api console x)"
  by (auto simp: ReporterResource_Update_def startNewGeneration_def tombstoned_def Let_def serde initialTombstone_def)

lemma created_row_ok:
  assumes "db_inv d" "fresh_ids a d" "\<forall>rr \<in> set (db_reporter_resources d). rrs_Key rr \<noteq> key_snapshot (command_key cmd)"
    and "at_resourceId a = Inr i" "at_reporterResourceId a = Inr j"
    and "NewResource now1 now2 i (rc_LocalResourceId cmd) (rc_ResourceType cmd) (rc_ReporterType cmd) (rc_ReporterInstanceId cmd) tid j
      (rc_ApiHref cmd) (rc_ConsoleHref cmd) (rc_ReporterRepresentation cmd) (rc_CommonRepresentation cmd) (rc_ReporterVersion cmd) = Inr r"
    and "Resource_Serialize now r = (rs, RR, rps, crs)"
  defines "cd \<equiv> rc_CommonRepresentation cmd"
  shows "row_ok (DeserializeResourceFromSnapshot rs) RR crs d" "rs_ID rs = i"
    and "crs = map_option (\<lambda>x. CommonRepresentation_Serialize now \<lparr>cr_data = x, cr_resourceId = i, cr_version = 0,
       cr_reporter = NewReporterId (rc_ReporterType cmd) (rc_ReporterInstanceId cmd), cr_transactionId = tid\<rparr>) cd"
    and "rrs_Key RR = key_snapshot (command_key cmd)" "rrs_ResourceID RR = i"
    and "written cmd None (reported_version cd (last_common_version d i)) RR rps"
proof -
  note N = NewResource_Ok [OF assms(6), folded cd_def]
  obtain ev where ev: "res_resourceReportEvents r = [SetTimestamps now2 now2 ev]"
    and ok: "resourceEventAndRepresentations i (rc_ResourceType cmd) (rc_ReporterType cmd) (rc_ReporterInstanceId cmd) tid (rc_LocalResourceId cmd) j
        (rc_ApiHref cmd) (rc_ConsoleHref cmd) (reporter_data cmd None) cd (rc_ReporterVersion cmd) 0 0 (if has_common cd then Some 0 else None) = Inr ev"
    using N(8) by (auto simp: reporter_data_def cd_def)
  note E = resourceEvent_Ok [OF ok]
  have hc: "has_common cd \<longleftrightarrow> cd \<noteq> None" using E(1) by (auto simp: event_args_ok_def has_common_def)
  have i: "i \<notin> dr_ID ` set (db_resource d)" and j: "j \<notin> rrs_ID ` set (db_reporter_resources d)" using assms(2,4,5) by (simp_all add: fresh_ids_def)
  then have rows: "\<forall>x \<in> set (db_reporter_resources d). rrs_ID x \<noteq> j \<and> rrs_ResourceID x \<noteq> i" and last: "last_common_version d i = None"
    using assms(1) by (auto simp: db_inv_def last_common_version_None versions_of_def)
  show rs: "rs_ID rs = i" and crs: "crs = map_option (\<lambda>x. CommonRepresentation_Serialize now \<lparr>cr_data = x, cr_resourceId = i, cr_version = 0,
       cr_reporter = NewReporterId (rc_ReporterType cmd) (rc_ReporterInstanceId cmd), cr_transactionId = tid\<rparr>) cd"
    and key: "rrs_Key RR = key_snapshot (command_key cmd)" and rid: "rrs_ResourceID RR = i"
    using assms(7) N(2,5) ev E(9) hc
    by (auto simp: Resource_Serialize_def Let_def serde command_key_def SetTimestamps_def option.map_comp comp_def split: option.splits)
  have "rrs_ID RR = j" "rs_CommonVersion rs = (if cd = None then None else Some 0)"
    using assms(7) N(5,6) hc by (auto simp: Resource_Serialize_def Let_def serde split: option.splits)
  with rs crs key rid rows last assms(3) E(1) show "row_ok (DeserializeResourceFromSnapshot rs) RR crs d"
    by (cases cd) (simp_all add: row_ok_def DeserializeResourceFromSnapshot_def next_common_version_def event_args_ok_def)
  have RR: "rr_representationVersion (hd (res_reporterResources r)) = 0 \<and> rr_generation (hd (res_reporterResources r)) = 0 \<and>
      RR = ReporterResource_Serialize (hd (res_reporterResources r)) \<and> rr_id (hd (res_reporterResources r)) = j \<and> \<not> rr_tombstone (hd (res_reporterResources r)) \<and>
      rr_apiHref (hd (res_reporterResources r)) = rc_ApiHref cmd \<and> rr_consoleHref (hd (res_reporterResources r)) = rc_ConsoleHref cmd"
    using assms(7) N(5) by (auto simp: Resource_Serialize_def Let_def)
  have "rps = map_option (ReporterRepresentation_Serialize now) (re_reporterRepresentation ev)"
    using assms(7) N(4) ev by (auto simp: Resource_Serialize_def Let_def SetTimestamps_def)
  with RR E(8) hc last show "written cmd None (reported_version cd (last_common_version d i)) RR rps"
    by (auto simp: written_def counters_after_def reported_version_def next_common_version_def split: option.split)
qed

lemma rows_unique:
  assumes "db_inv d" "rr \<in> set (db_reporter_resources d)" "x \<in> set (db_reporter_resources d)"
  shows "rrs_ID x = rrs_ID rr \<longleftrightarrow> x = rr" "rrs_Key x = rrs_Key rr \<longleftrightarrow> x = rr" "rrs_ResourceID x = rrs_ResourceID rr \<longleftrightarrow> x = rr"
  using assms by (auto simp: db_inv_def distinct_map inj_on_def)

lemma replaced_row_ok:
  assumes "db_inv d" "rr \<in> set (db_reporter_resources d)" "dr_ID R = rrs_ResourceID rr"
    and "rrs_ID RR = rrs_ID rr" "rrs_Key RR = rrs_Key rr" "rrs_ResourceID RR = rrs_ResourceID rr"
    and "case crs of
        None \<Rightarrow> dr_CommonVersion R = None \<or> dr_CommonVersion R = last_common_version d (dr_ID R)
      | Some cr \<Rightarrow> crs_ResourceId cr = dr_ID R \<and> crs_Version cr = next_common_version (last_common_version d (dr_ID R)) \<and>
          map_len (crs_Data cr) > 0 \<and> (dr_CommonVersion R = None \<or> dr_CommonVersion R = Some (crs_Version cr))"
  shows "row_ok R RR crs d"
  unfolding row_ok_def using assms rows_unique [OF assms(1,2)] by simp

lemma updated_row_ok:
  assumes "db_inv d" "rr \<in> set (db_reporter_resources d)" "rrs_Key rr = key_snapshot key" "res \<in> set (db_resource d)"
    and "dr_ID res = rrs_ResourceID rr"
    and "Resource_Update now1 now2 key (rc_ApiHref cmd) (rc_ConsoleHref cmd) (rc_ReporterVersion cmd) (rc_ReporterRepresentation cmd) (rc_CommonRepresentation cmd)
      tid (loaded d res rr) = (r', None)"
    and "Resource_Serialize now r' = (rs, RR, rps, crs)"
  defines "cd \<equiv> rc_CommonRepresentation cmd"
  shows "row_ok (DeserializeResourceFromSnapshot rs) RR crs d \<and> rs_ID rs = dr_ID res \<and>
    crs = map_option (\<lambda>x. CommonRepresentation_Serialize now \<lparr>cr_data = x, cr_resourceId = dr_ID res,
       cr_version = next_common_version (last_common_version d (dr_ID res)),
       cr_reporter = NewReporterId (rrk_reporterType key) (rrk_reporterInstanceId key), cr_transactionId = tid\<rparr>) cd \<and>
    rrs_Key RR = key_snapshot key \<and> rrs_ResourceID RR = dr_ID res \<and>
    written cmd (Some rr) (reported_version cd (last_common_version d (dr_ID res))) RR rps"
  using assms(6) [folded cd_def]
proof (cases rule: Resource_UpdateE)
  case (1 i cv ev)
  have "i = 0" using find_Ok(1) [OF 1(1)] by (simp add: loaded_def)
  define y where "y = DeserializeReporterResource (rr\<lparr>rrs_ResourceID := dr_ID res, rrs_CreatedAt := dr_CreatedAt res, rrs_UpdatedAt := dr_UpdatedAt res\<rparr>)"
  have rrs: "res_reporterResources (loaded d res rr) = [y]" by (simp add: loaded_def y_def)
  have y: "rr_id y = rrs_ID rr" "rr_resourceID y = dr_ID res" "key_snapshot (rr_key y) = rrs_Key rr" by (simp_all add: y_def)
  have r': "res_reporterResources r' = [ReporterResource_Update now1 (rc_ApiHref cmd) (rc_ConsoleHref cmd) y]" using 1(3) rrs \<open>i = 0\<close> by simp
  note E = resourceEvent_Ok [OF 1(10) [unfolded Let_def]]
  have hc: "has_common cd \<longleftrightarrow> cd \<noteq> None" using E(1) by (auto simp: event_args_ok_def has_common_def)
  let ?v = "next_common_version (last_common_version d (dr_ID res))"
  have cv: "cv = (if cd = None then None else Some ?v)"
    using 1(2) update_common_version_wf(1) [OF loaded_wf [OF assms(1,4)], of cd rr] hc by (simp add: loaded_def)
  have rs: "rs_ID rs = dr_ID res" using assms(7) 1(6) by (auto simp: Resource_Serialize_def Let_def serde loaded_def)
  have crs: "crs = map_option (\<lambda>x. CommonRepresentation_Serialize now \<lparr>cr_data = x, cr_resourceId = dr_ID res, cr_version = ?v,
       cr_reporter = NewReporterId (rrk_reporterType key) (rrk_reporterInstanceId key), cr_transactionId = tid\<rparr>) cd"
    using assms(7) 1(11) E(9) r' y(2) cv \<open>i = 0\<close>
    by (cases cd) (auto simp: Resource_Serialize_def Let_def SetTimestamps_def)
  have RR: "RR = ReporterResource_Serialize (ReporterResource_Update now1 (rc_ApiHref cmd) (rc_ConsoleHref cmd) y)"
    using assms(7) r' by (auto simp: Resource_Serialize_def Let_def)
  then have k: "rrs_Key RR = key_snapshot key" "rrs_ResourceID RR = dr_ID res" using y assms(3) by simp_all
  have rv: "rs_CommonVersion rs = cv" using assms(7) 1(4) by (auto simp: Resource_Serialize_def Let_def serde split: option.splits)
  have "row_ok (DeserializeResourceFromSnapshot rs) RR crs d"
    by (rule replaced_row_ok [OF assms(1,2)], unfold crs)
      (use RR y rs rv cv E(1) assms(5) in \<open>auto simp: DeserializeResourceFromSnapshot_def event_args_ok_def split: option.splits\<close>)
  moreover have "rps = map_option (ReporterRepresentation_Serialize now) (re_reporterRepresentation ev)"
    using assms(7) 1(9,11) by (auto simp: Resource_Serialize_def Let_def SetTimestamps_def loaded_def)
  then have "written cmd (Some rr) (reported_version cd (last_common_version d (dr_ID res))) RR rps"
    using RR E(8) cv r' \<open>i = 0\<close> y
    by (auto simp: written_def counters_after_def reporter_data_def reported_version_def ReporterResource_Update_counters y_def split: option.split)
  ultimately show ?thesis using rs crs k by blast
qed

text \<open>The reporter resource row a delete writes and the tombstone representation beside it; nothing changes for a row
  that is deleted already.\<close>

definition tombstoned_row :: "data_reporter_resource \<Rightarrow> data_reporter_resource \<Rightarrow> data_reporter_representation option \<Rightarrow> bool" where
  "tombstoned_row old row rep \<longleftrightarrow> rrs_Tombstone row \<and> rrs_ID row = rrs_ID old \<and> rrs_Generation row = rrs_Generation old \<and>
     (if rrs_Tombstone old then rrs_RepresentationVersion row = rrs_RepresentationVersion old \<and> rep = None
      else rrs_RepresentationVersion row = rrs_RepresentationVersion old + 1 \<and>
        (\<exists>r. rep = Some r \<and> rps_Tombstone r \<and> rps_Data r = None \<and> rps_ReporterResourceID r = rrs_ID row \<and>
           rps_Version r = rrs_RepresentationVersion row \<and> rps_Generation r = rrs_Generation row \<and> rps_CommonVersion r = None))"

lemma deleted_row_ok:
  assumes "db_inv d" "rr \<in> set (db_reporter_resources d)" "rrs_Key rr = key_snapshot key" "res \<in> set (db_resource d)"
    and "dr_ID res = rrs_ResourceID rr"
    and "Resource_Delete now1 key (loaded d res rr) = (r', None)"
    and "Resource_Serialize now r' = (rs, RR, rps, crs)"
  shows "row_ok (DeserializeResourceFromSnapshot rs) RR crs d" "rs_ID rs = dr_ID res" "crs = None"
    "rrs_Key RR = key_snapshot key" "rrs_ResourceID RR = dr_ID res"
    and "tombstoned_row rr RR rps"
proof -
  define y where "y = DeserializeReporterResource (rr\<lparr>rrs_ResourceID := dr_ID res, rrs_CreatedAt := dr_CreatedAt res, rrs_UpdatedAt := dr_UpdatedAt res\<rparr>)"
  have rrs: "res_reporterResources (loaded d res rr) = [y]" by (simp add: loaded_def y_def)
  have y: "rr_id y = rrs_ID rr" "rr_resourceID y = dr_ID res" "key_snapshot (rr_key y) = rrs_Key rr" by (simp_all add: y_def)
  have f: "i = 0" if "findReporterResourceToUpdateByKey (loaded d res rr) key = Inr i" for i using find_Ok(1) [OF that] by (simp add: loaded_def)
  have "\<exists>z. res_reporterResources r' = [z] \<and> rr_id z = rr_id y \<and> rr_resourceID z = rr_resourceID y \<and> rr_key z = rr_key y"
    and same: "res_id r' = dr_ID res" "res_commonVersion r' = dr_CommonVersion res"
    "res_resourceReportEvents r' = res_resourceReportEvents (loaded d res rr)"
    using assms(6) f rrs by (auto elim!: Resource_DeleteE simp: loaded_def)
  then obtain z where z: "res_reporterResources r' = [z]" "rr_id z = rrs_ID rr" "rr_resourceID z = dr_ID res" "rr_key z = rr_key y" using y by auto
  show crs: "crs = None" using assms(7) same(3) by (auto simp: Resource_Serialize_def Let_def loaded_def DeserializeResourceEvent_def)
  show rs: "rs_ID rs = dr_ID res" using assms(7) same(1) by (auto simp: Resource_Serialize_def Let_def serde)
  have RR: "RR = ReporterResource_Serialize z" using assms(7) z by (auto simp: Resource_Serialize_def Let_def)
  then show key: "rrs_Key RR = key_snapshot key" and rid: "rrs_ResourceID RR = dr_ID res" using z y assms(3) by simp_all
  have cv: "rs_CommonVersion rs = dr_CommonVersion res" using assms(7) same(2) by (auto simp: Resource_Serialize_def Let_def serde split: option.splits)
  have "dr_CommonVersion res = None \<or> dr_CommonVersion res = last_common_version d (dr_ID res)" using assms(1,4) by (auto simp: db_inv_def)
  then show "row_ok (DeserializeResourceFromSnapshot rs) RR crs d"
    by (intro replaced_row_ok [OF assms(1,2)]) (use RR z rs cv crs key rid assms(3,5) in \<open>auto simp: DeserializeResourceFromSnapshot_def\<close>)
  from assms(6) show "tombstoned_row rr RR rps"
  proof (cases rule: Resource_DeleteE)
    case (noop i)
    with f [of i] rrs RR z assms(7) show ?thesis
      by (auto simp: tombstoned_row_def y_def Resource_Serialize_def Let_def loaded_def DeserializeResourceEvent_def DeserializeReporterDataRepresentation_def)
  next
    case (deleted i ev)
    with f [of i] rrs RR z assms(7) show ?thesis
      by (auto simp: tombstoned_row_def y_def Resource_Serialize_def Let_def deleteEventAndRepresentations_def NewReporterDeleteRepresentation_def
          NewResourceDeleteEvent_def res_iffs serde split: if_splits)
  qed
qed

section \<open>What a report stores and announces\<close>

definition stored_common :: "representation option \<Rightarrow> uuid \<Rightarrow> db \<Rightarrow> db \<Rightarrow> bool" where
  "stored_common cd i d d' \<longleftrightarrow> (case cd of
     None \<Rightarrow> set (db_common_representations d') = set (db_common_representations d)
   | Some x \<Rightarrow> (\<exists>row. set (db_common_representations d') = insert row (set (db_common_representations d)) \<and> crs_ResourceId row = i \<and>
       crs_Version row = next_common_version (last_common_version d i) \<and> crs_Data row = x))"

text \<open>The row of a key in the table of reporter resources takes the place of the one with the same key.\<close>

definition stored_row :: "reporter_resource_key \<Rightarrow> uuid \<Rightarrow> data_reporter_resource \<Rightarrow> db \<Rightarrow> db \<Rightarrow> bool" where
  "stored_row key i row d d' \<longleftrightarrow> rrs_Key row = key_snapshot key \<and> rrs_ResourceID row = i \<and>
     set (db_reporter_resources d') = insert row {x \<in> set (db_reporter_resources d). rrs_Key x \<noteq> key_snapshot key}"

definition old_row :: "reporter_resource_key \<Rightarrow> db \<Rightarrow> data_reporter_resource option" where
  "old_row key d = find (\<lambda>x. rrs_Key x = key_snapshot key) (db_reporter_resources d)"

lemma old_row_None: "\<forall>rr \<in> set (db_reporter_resources d). rrs_Key rr \<noteq> key_snapshot key \<Longrightarrow> old_row key d = None"
  by (simp add: old_row_def find_None_iff)

lemma old_row_Some: "db_inv d \<Longrightarrow> rr \<in> set (db_reporter_resources d) \<Longrightarrow> rrs_Key rr = key_snapshot key \<Longrightarrow> old_row key d = Some rr"
  using rows_unique(2) [of d rr] by (cases "old_row key d") (auto simp: old_row_def find_None_iff find_Some_iff)

definition tuple_message :: "string \<Rightarrow> event_operation_type \<Rightarrow> transaction_id \<Rightarrow> tuple_event \<Rightarrow> outbox_event" where
  "tuple_message aggregateId op txid te = \<lparr>oe_ID = uuid_Nil, oe_AggregateType = TupleAggregateType, oe_AggregateID = aggregateId,
     oe_Operation = op, oe_TxId = txid, oe_Payload = TuplePayload (json_floats (TupleEvent_MarshalJSON te))\<rparr>"

definition announced ::
    "(uuid \<Rightarrow> string) \<Rightarrow> reporter_resource_key \<Rightarrow> uuid \<Rightarrow> version option \<Rightarrow> version option \<Rightarrow> event_operation_type \<Rightarrow> transaction_id \<Rightarrow>
     db \<Rightarrow> db \<Rightarrow> bool" where
  "announced uuid_str key i cv rv op txid d d' \<longleftrightarrow> (\<exists>m1 m2 ev te. te_reporterResourceKey te = key \<and> te_commonVersion te = cv \<and>
     te_reporterRepresentationVersion te = rv \<and>
     oe_AggregateType ev = ResourceAggregateType \<and>
     db_wal d' = db_wal d @ [wal_entry m1 ev, wal_entry m2 (tuple_message (uuid_str i) op txid te)])"

lemma key_snapshot_inj: "key_snapshot key = key_snapshot key' \<longleftrightarrow> key = key'"
  by (cases key; cases key'; cases "rrk_reporter key"; cases "rrk_reporter key'")
    (auto simp: key_snapshot_def rrk_reporterType_def rrk_reporterInstanceId_def)

lemma known_key_step:
  assumes "known_key d key j" "row_step R RR crs d d'" "row_ok R RR crs d" "db_inv d'"
  shows "known_key d' key j"
proof -
  obtain x where x: "x \<in> set (db_reporter_resources d)" "rrs_Key x = key_snapshot key" "rrs_ResourceID x = j" "rrk_reporterInstanceId key \<noteq> []"
    using assms(1) by (auto simp: known_key_def)
  show ?thesis
  proof (cases "rrs_ID x = rrs_ID RR")
    case True
    with x assms(3) have "rrs_Key RR = key_snapshot key" "rrs_ResourceID RR = j" by (auto simp: row_ok_def)
    with assms(2,4) x show ?thesis by (auto simp: known_key_def row_step_def)
  qed (use x assms(2,4) in \<open>auto simp: known_key_def row_step_def\<close>)
qed

lemma NewTupleEvent_fields: "NewTupleEvent key cv rv = Inr te \<Longrightarrow>
    te_reporterResourceKey te = key \<and> te_commonVersion te = cv \<and> te_reporterRepresentationVersion te = rv"
  by (auto simp: NewTupleEvent_def split: if_splits)

context gorm_store
begin

lemma Save_announced:
  assumes "Save g newUUID now r op txid d = Inr d'" "event_of op r = Some ev"
  shows "announced (g_uuid_string g) (Event_ReporterResourceKey ev) (Event_Id ev) (Event_CurrentCommonVersion ev)
    (Event_CurrentReporterRepresentationVersion ev) op txid d d'"
proof -
  obtain m1 m2 m te where "NewTupleEvent (Event_ReporterResourceKey ev) (Event_CurrentCommonVersion ev)
        (Event_CurrentReporterRepresentationVersion ev) = Inr te"
    "db_wal d' = db_wal d @ [wal_entry m1 m, wal_entry m2 (tuple_message (g_uuid_string g (Event_Id ev)) op txid te)]"
    "oe_AggregateType m = ResourceAggregateType"
    using Save_wal [OF assms(1)] assms(2) by (auto simp: tuple_message_def)
  with NewTupleEvent_fields show ?thesis unfolding announced_def by blast
qed

lemma Save_effect:
  assumes "db_inv d" "no_overflow d" "Save g newUUID now r op txid d = Inr d'" "Resource_Serialize now r = (rs, RR, rps, crs)"
    and "row_ok (DeserializeResourceFromSnapshot rs) RR crs d" "rrs_Key RR = key_snapshot key" "rrs_ResourceID RR = i"
    and "rrk_reporterInstanceId key \<noteq> []" "rs_ID rs = i"
  shows "known_key d' key i" "\<And>key' j. known_key d key' j \<Longrightarrow> known_key d' key' j"
    and "set (db_common_representations d') = set (db_common_representations d) \<union> set_option crs"
    and "\<And>key' j. known_key d' key' j \<Longrightarrow> known_key d key' j \<or> key' = key \<and> j = i"
    and "stored_row key i RR d d'" "set (db_reporter_representations d') = set (db_reporter_representations d) \<union> set_option rps"
proof -
  have inv: "db_inv d'" by (rule Save_inv [OF assms(1-5)])
  note step = Save_row_step [OF assms(1,3,4)]
  show "known_key d' key i" using inv step assms(6-8) by (auto simp: known_key_def row_step_def)
  show "known_key d' key' j" if "known_key d key' j" for key' j by (rule known_key_step [OF that step assms(5) inv])
  show "set (db_common_representations d') = set (db_common_representations d) \<union> set_option crs" using step by (simp add: row_step_def)
  show "known_key d key' j \<or> key' = key \<and> j = i" if "known_key d' key' j" for key' j
    using that assms(1,6,7) step key_snapshot_inj [of key' key] by (auto simp: known_key_def row_step_def)
  show "stored_row key i RR d d'" using step assms(5-7) by (auto simp: stored_row_def row_step_def row_ok_def)
  show "set (db_reporter_representations d') = set (db_reporter_representations d) \<union> set_option rps" by (rule Save_tables(5) [OF assms(3,4)])
qed

end

text \<open>What a committed report leaves behind, for the resource identifier \<open>i\<close>: the common data as the next version, the
  reporter resource row and its representation, every other row as before, and the messages that announce both versions.\<close>

definition reported :: "(uuid \<Rightarrow> string) \<Rightarrow> report_resource_command \<Rightarrow> transaction_id \<Rightarrow> uuid \<Rightarrow> db \<Rightarrow> db \<Rightarrow> bool" where
  "reported uuid_str cmd txid i d d' \<longleftrightarrow> known_key d' (command_key cmd) i \<and> (\<forall>key j. known_key d key j \<longrightarrow> known_key d' key j) \<and>
     (\<forall>key j. known_key d' key j \<longrightarrow> known_key d key j \<or> key = command_key cmd \<and> j = i) \<and>
     (known_key d (command_key cmd) i \<or> last_common_version d i = None) \<and>
     stored_common (rc_CommonRepresentation cmd) i d d' \<and>
     (\<exists>row rep. stored_row (command_key cmd) i row d d' \<and>
        written cmd (old_row (command_key cmd) d) (reported_version (rc_CommonRepresentation cmd) (last_common_version d i)) row rep \<and>
        set (db_reporter_representations d') = set (db_reporter_representations d) \<union> set_option rep \<and>
        announced uuid_str (command_key cmd) i (reported_version (rc_CommonRepresentation cmd) (last_common_version d i)) (map_option rps_Version rep)
          (if \<exists>j. known_key d (command_key cmd) j then OperationTypeUpdated else OperationTypeCreated) txid d d')"

lemma report_event_of:
  assumes "resourceEventAndRepresentations i rt rep inst tid l rrId api console rd cd rv v g cv = Inr ev" "op \<noteq> OperationTypeDeleted"
    and "res_resourceReportEvents r = [SetTimestamps t1 t2 ev]" "cv = (if cd = None then None else Some cv0)"
  shows "event_of op r = Some (ReportEvent (SetTimestamps t1 t2 ev))"
    "Event_ReporterResourceKey (ReportEvent (SetTimestamps t1 t2 ev)) = \<lparr>rrk_localResourceID = l, rrk_resourceType = rt, rrk_reporter = NewReporterId rep inst\<rparr>"
    "Event_Id (ReportEvent (SetTimestamps t1 t2 ev)) = i"
    "Event_CurrentCommonVersion (ReportEvent (SetTimestamps t1 t2 ev)) = (if cd = None then None else Some cv0)"
  using assms resourceEvent_Ok [OF assms(1)]
  by (cases op; auto simp: event_of_def Event_ReporterResourceKey_def ReportEvent_ReporterResourceKey_def Event_Id_def
      Event_CurrentCommonVersion_def ReportEvent_CurrentCommonVersion_def SetTimestamps_def split: option.splits)+

text \<open>The event announces the version of the reporter representation that is stored.\<close>

lemma event_representation:
  assumes "event_of op r = Some ev" "Resource_Serialize now r = (rs, RR, rps, crs)" "op \<noteq> OperationTypeDeleted \<Longrightarrow> res_resourceDeleteEvents r = []"
  shows "Event_CurrentReporterRepresentationVersion ev = map_option rps_Version rps"
  using assms
  by (cases op) (auto simp: event_of_def Resource_Serialize_def Let_def Event_CurrentReporterRepresentationVersion_def
      ReportEvent_CurrentReporterRepresentationVersion_def DeleteEvent_CurrentReporterRepresentationVersion_def option.map_comp comp_def split: list.splits option.splits)

lemma key_eta: "\<lparr>rrk_localResourceID = rrk_localResourceID key, rrk_resourceType = rrk_resourceType key,
    rrk_reporter = NewReporterId (rrk_reporterType key) (rrk_reporterInstanceId key)\<rparr> = key"
  by (cases key) (simp add: NewReporterId_def rrk_reporterType_def rrk_reporterInstanceId_def)

lemma updated_event:
  assumes "db_inv d" "res \<in> set (db_resource d)" "Resource_Update now1 now2 key api console rv rd cd tid (loaded d res rr) = (r', None)"
  shows "\<exists>ev. event_of OperationTypeUpdated r' = Some ev \<and> Event_ReporterResourceKey ev = key \<and> Event_Id ev = dr_ID res \<and>
    Event_CurrentCommonVersion ev = reported_version cd (last_common_version d (dr_ID res))"
  using assms(3)
proof (cases rule: Resource_UpdateE)
  case (1 i cv ev)
  have "i = 0" using find_Ok(1) [OF 1(1)] by (simp add: loaded_def)
  note E = resourceEvent_Ok [OF 1(10) [unfolded Let_def]]
  have hc: "has_common cd \<longleftrightarrow> cd \<noteq> None" using E(1) by (auto simp: event_args_ok_def has_common_def)
  have cv: "cv = (if cd = None then None else Some (next_common_version (last_common_version d (dr_ID res))))"
    using 1(2) update_common_version_wf(1) [OF loaded_wf [OF assms(1,2)], of cd rr] hc by (simp add: loaded_def)
  have rid: "rr_resourceID (res_reporterResources r' ! i) = dr_ID res" using 1(3) \<open>i = 0\<close> by (simp add: loaded_def)
  note R = report_event_of [OF 1(10) [unfolded Let_def] _ 1(11) cv, of OperationTypeUpdated]
  show ?thesis
    using R rid by (intro exI [of _ "ReportEvent (SetTimestamps (fst (GetTimestamps (loaded d res rr))) now2 ev)"])
      (auto simp: key_eta reported_version_def split: option.splits)
qed

lemma updated_no_delete:
  "Resource_Update now1 now2 key api console rv rd cd tid (loaded d res rr) = (r', None) \<Longrightarrow> res_resourceDeleteEvents r' = []"
  by (auto elim!: Resource_UpdateE simp: loaded_def)

lemma created_event:
  assumes "NewResource now1 now2 i (rc_LocalResourceId cmd) (rc_ResourceType cmd) (rc_ReporterType cmd) (rc_ReporterInstanceId cmd) tid j
      api console rd cd rv = Inr r"
  shows "\<exists>ev. event_of OperationTypeCreated r = Some ev \<and> Event_ReporterResourceKey ev = command_key cmd \<and> Event_Id ev = i \<and>
    Event_CurrentCommonVersion ev = reported_version cd None"
proof -
  obtain ev where ev: "res_resourceReportEvents r = [SetTimestamps now2 now2 ev]"
    and ok: "resourceEventAndRepresentations i (rc_ResourceType cmd) (rc_ReporterType cmd) (rc_ReporterInstanceId cmd) tid (rc_LocalResourceId cmd) j api console
        (if rd = None \<and> cd \<noteq> None then Some (Some []) else rd) cd rv 0 0 (if has_common cd then Some 0 else None) = Inr ev"
    using NewResource_Ok(8) [OF assms] by blast
  have "has_common cd \<longleftrightarrow> cd \<noteq> None" using resourceEvent_Ok(1) [OF ok] by (auto simp: event_args_ok_def has_common_def)
  then have cv: "(if has_common cd then Some 0 else None) = (if cd = None then None else Some (0 :: version))" by simp
  from report_event_of [OF ok _ ev cv, of OperationTypeCreated] show ?thesis
    by (intro exI [of _ "ReportEvent (SetTimestamps now2 now2 ev)"])
      (auto simp: command_key_def reported_version_def next_common_version_def split: option.splits)
qed

lemma no_key: "\<forall>rr \<in> set (db_reporter_resources d). rrs_Key rr \<noteq> key_snapshot key \<Longrightarrow> \<not> (\<exists>j. known_key d key j)"
  by (auto simp: known_key_def)

lemma NextResourceId_Ok: "NextResourceId x = Inr i \<Longrightarrow> x = Inr i" "NextReporterResourceId x = Inr j \<Longrightarrow> x = Inr j"
  by (auto simp: NextResourceId_def NextReporterResourceId_def NewResourceId_def NewReporterResourceId_def res_iffs split: if_splits)

context gorm_store
begin

lemma createResource_effect:
  assumes inv: "db_inv d" "no_overflow d" and fresh: "fresh_ids a d" and inst: "rrk_reporterInstanceId (command_key cmd) \<noteq> []"
    and gorm: "us_gorm uc = g" and miss: "\<forall>rr \<in> set (db_reporter_resources d). rrs_Key rr \<noteq> key_snapshot (command_key cmd)"
    and run: "createResource uc a cmd tid txid d = Inr d'"
  shows "\<exists>i. reported (g_uuid_string g) cmd txid i d d'"
proof -
  from run gorm obtain i j r where ids: "at_resourceId a = Inr i" "at_reporterResourceId a = Inr j"
    and r: "NewResource (at_now1 a) (at_now2 a) i (rc_LocalResourceId cmd) (rc_ResourceType cmd) (rc_ReporterType cmd) (rc_ReporterInstanceId cmd) tid j
      (rc_ApiHref cmd) (rc_ConsoleHref cmd) (rc_ReporterRepresentation cmd) (rc_CommonRepresentation cmd) (rc_ReporterVersion cmd) = Inr r"
    and s: "Save g (at_newUUID a) (at_now3 a) r OperationTypeCreated txid d = Inr d'"
    by (auto simp: createResource_def res_iffs dest!: NextResourceId_Ok)
  obtain rs RR rps crs where ser: "Resource_Serialize (at_now3 a) r = (rs, RR, rps, crs)" by (cases "Resource_Serialize (at_now3 a) r") auto
  note C = created_row_ok [OF inv(1) fresh miss ids r ser]
  note E = Save_effect [OF inv s ser C(1,4,5) inst C(2)]
  have last: "last_common_version d i = None"
    using fresh ids inv(1) by (auto simp: fresh_ids_def db_inv_def last_common_version_None versions_of_def)
  have "stored_common (rc_CommonRepresentation cmd) i d d'"
    using E(3) C(3) last by (auto simp: stored_common_def next_common_version_def split: option.splits)
  moreover have "announced (g_uuid_string g) (command_key cmd) i (reported_version (rc_CommonRepresentation cmd) (last_common_version d i))
      (map_option rps_Version rps) OperationTypeCreated txid d d'"
    using created_event [OF r] Save_announced [OF s] event_representation [OF _ ser] NewResource_Ok(4) [OF r] last by metis
  ultimately have "reported (g_uuid_string g) cmd txid i d d'"
    unfolding reported_def old_row_None [OF miss] using E C(6) no_key [OF miss] last by auto
  then show ?thesis ..
qed

lemma updateResource_effect:
  assumes inv: "db_inv d" "no_overflow d" and inst: "rrk_reporterInstanceId (command_key cmd) \<noteq> []" and gorm: "us_gorm uc = g"
    and hit: "rr \<in> set (db_reporter_resources d)" "rrs_Key rr = key_snapshot (command_key cmd)" "res \<in> set (db_resource d)" "dr_ID res = rrs_ResourceID rr"
    and run: "updateResource uc a cmd tid (loaded d res rr) txid d = Inr d'"
  shows "\<exists>i. reported (g_uuid_string g) cmd txid i d d'"
proof -
  from run gorm obtain r' where r': "Resource_Update (at_now1 a) (at_now2 a) (command_key cmd) (rc_ApiHref cmd) (rc_ConsoleHref cmd) (rc_ReporterVersion cmd)
      (rc_ReporterRepresentation cmd) (rc_CommonRepresentation cmd) tid (loaded d res rr) = (r', None)"
    and s: "Save g (at_newUUID a) (at_now3 a) r' OperationTypeUpdated txid d = Inr d'"
    by (auto simp: updateResource_def split: prod.splits option.splits)
  obtain rs RR rps crs where ser: "Resource_Serialize (at_now3 a) r' = (rs, RR, rps, crs)" by (cases "Resource_Serialize (at_now3 a) r'") auto
  from updated_row_ok [OF inv(1) hit r' ser] have C: "row_ok (DeserializeResourceFromSnapshot rs) RR crs d" "rrs_Key RR = key_snapshot (command_key cmd)"
    "rrs_ResourceID RR = dr_ID res" "rs_ID rs = dr_ID res"
    and W: "written cmd (Some rr) (reported_version (rc_CommonRepresentation cmd) (last_common_version d (dr_ID res))) RR rps"
    and crs: "crs = map_option (\<lambda>x. CommonRepresentation_Serialize (at_now3 a) \<lparr>cr_data = x, cr_resourceId = dr_ID res,
       cr_version = next_common_version (last_common_version d (dr_ID res)),
       cr_reporter = NewReporterId (rrk_reporterType (command_key cmd)) (rrk_reporterInstanceId (command_key cmd)), cr_transactionId = tid\<rparr>) (rc_CommonRepresentation cmd)"
    by blast+
  note E = Save_effect [OF inv s ser C(1,2,3) inst C(4)]
  have "stored_common (rc_CommonRepresentation cmd) (dr_ID res) d d'"
    using E(3) crs by (auto simp: stored_common_def split: option.splits)
  moreover have "announced (g_uuid_string g) (command_key cmd) (dr_ID res)
      (reported_version (rc_CommonRepresentation cmd) (last_common_version d (dr_ID res))) (map_option rps_Version rps) OperationTypeUpdated txid d d'"
    using updated_event [OF inv(1) hit(3) r'] Save_announced [OF s] event_representation [OF _ ser] updated_no_delete [OF r'] by metis
  moreover have "known_key d (command_key cmd) (dr_ID res)" using inv(1) inst hit by (auto simp: known_key_def)
  ultimately have "reported (g_uuid_string g) cmd txid (dr_ID res) d d'"
    unfolding reported_def old_row_Some [OF inv(1) hit(1,2)] using E W by auto
  then show ?thesis ..
qed

lemma report_tx_effect:
  assumes "db_inv d" "no_overflow d" "fresh_ids a d" "sound_read a" "rrk_reporterInstanceId (command_key cmd) \<noteq> []" "us_gorm uc = g"
    and "report_tx uc cmd (command_key cmd) tid txid a d = Inr d'"
  shows "\<exists>i. reported (g_uuid_string g) cmd txid i d d'"
proof -
  have f: "at_findErr a = None" using assms(4,7) by (auto simp: report_tx_def find_resource_def sound_read_def split: option.splits if_splits)
  from assms(1,5) show ?thesis
  proof (cases rule: find_cases)
    case (hit res rr)
    with assms(7) f have "updateResource uc a cmd tid (loaded d res rr) txid d = Inr d'" by (simp add: report_tx_def find_resource_def)
    from updateResource_effect [OF assms(1,2,5,6) hit(1-4) this] show ?thesis .
  next
    case miss
    with assms(7) f have "createResource uc a cmd tid txid d = Inr d'" by (simp add: report_tx_def find_resource_def)
    from createResource_effect [OF assms(1-3,5,6) miss(1) this] show ?thesis .
  qed
qed

end

text \<open>Representations are only added: a transaction removes no row of the two tables of representations.\<close>

definition grows :: "db \<Rightarrow> db \<Rightarrow> bool" where
  "grows d d' \<longleftrightarrow> set (db_common_representations d) \<subseteq> set (db_common_representations d') \<and>
     set (db_reporter_representations d) \<subseteq> set (db_reporter_representations d')"

lemma Save_grows: "gorm_store g \<Longrightarrow> Save g newUUID now r op txid d = Inr d' \<Longrightarrow> grows d d'"
  using gorm_store.Save_tables(5,6) [of g newUUID now r op txid d d'] unfolding grows_def by (cases "Resource_Serialize now r") blast

lemma report_tx_grows: "gorm_store (us_gorm uc) \<Longrightarrow> report_tx uc cmd key tid txid a d = Inr d' \<Longrightarrow> grows d d'"
  by (auto simp: report_tx_def find_resource_def createResource_def updateResource_def res_iffs intro: Save_grows
      split: sum.splits option.splits if_splits prod.splits)

lemma delete_tx_grows: "gorm_store (us_gorm uc) \<Longrightarrow> delete_tx uc key txid a d = Inr d' \<Longrightarrow> grows d d'"
  by (auto simp: delete_tx_def intro: Save_grows split: sum.splits option.splits if_splits prod.splits)

section \<open>What a delete stores and announces\<close>

text \<open>What a committed delete leaves behind: the reporter resource row is tombstoned, with one more tombstone representation
  and the message that announces it unless it was tombstoned before; every other row stays.\<close>

definition removed :: "(uuid \<Rightarrow> string) \<Rightarrow> reporter_resource_key \<Rightarrow> transaction_id \<Rightarrow> uuid \<Rightarrow> db \<Rightarrow> db \<Rightarrow> bool" where
  "removed uuid_str key txid i d d' \<longleftrightarrow> known_key d key i \<and> (\<forall>key' j. known_key d key' j \<longrightarrow> known_key d' key' j) \<and>
     (\<forall>key' j. known_key d' key' j \<longrightarrow> known_key d key' j) \<and>
     set (db_common_representations d') = set (db_common_representations d) \<and>
     (\<exists>old row rep. old_row key d = Some old \<and> stored_row key i row d d' \<and> tombstoned_row old row rep \<and>
        set (db_reporter_representations d') = set (db_reporter_representations d) \<union> set_option rep \<and>
        (if rrs_Tombstone old then db_wal d' = db_wal d
         else announced uuid_str key i None (Some (rrs_RepresentationVersion row)) OperationTypeDeleted txid d d'))"

lemma deleted_event:
  assumes "Resource_Delete now1 key (loaded d res rr) = (r', None)"
  shows "case event_of OperationTypeDeleted r' of
     None \<Rightarrow> rrs_Tombstone rr
   | Some ev \<Rightarrow> \<not> rrs_Tombstone rr \<and> Event_ReporterResourceKey ev = key \<and> Event_Id ev = dr_ID res \<and> Event_CurrentCommonVersion ev = None"
proof -
  have t: "rr_tombstone (res_reporterResources (loaded d res rr) ! 0) = rrs_Tombstone rr" "rr_resourceID (res_reporterResources (loaded d res rr) ! 0) = dr_ID res"
    by (simp_all add: loaded_def DeserializeReporterResource_def serde)
  have f: "i = 0" if "findReporterResourceToUpdateByKey (loaded d res rr) key = Inr i" for i using find_Ok(1) [OF that] by (simp add: loaded_def)
  from assms show ?thesis
  proof (cases rule: Resource_DeleteE)
    case (noop i)
    with f t show ?thesis by (simp add: event_of_def loaded_def)
  next
    case (deleted i ev)
    with f have "i = 0" by simp
    with deleted(3) t have "rde_id ev = dr_ID res" "DeleteEvent_ReporterResourceKey ev = key"
      using key_eta [of key] by (auto simp: deleteEventAndRepresentations_def NewResourceDeleteEvent_def DeleteEvent_ReporterResourceKey_def res_iffs)
    with deleted t \<open>i = 0\<close> show ?thesis
      by (simp add: event_of_def Event_ReporterResourceKey_def Event_Id_def Event_CurrentCommonVersion_def DeleteEvent_CurrentCommonVersion_def)
  qed
qed

context gorm_store
begin

lemma delete_tx_effect:
  assumes "db_inv d" "no_overflow d" "rrk_reporterInstanceId key \<noteq> []" "us_gorm uc = g" "delete_tx uc key txid a d = Inr d'"
  shows "\<exists>i. removed (g_uuid_string g) key txid i d d' \<and> known_key d' key i"
proof -
  have f: "find_resource a key d = FindResourceByKeys d key" using assms(5) by (auto simp: delete_tx_def find_resource_def split: option.splits if_splits)
  from assms(1,3) show ?thesis
  proof (cases rule: find_cases)
    case (hit res rr)
    with assms(4,5) f obtain r' where r': "Resource_Delete (at_now1 a) key (loaded d res rr) = (r', None)"
      and s: "Save g (at_newUUID a) (at_now3 a) r' OperationTypeDeleted txid d = Inr d'"
      by (auto simp: delete_tx_def split: prod.splits option.splits)
    obtain rs RR rps crs where ser: "Resource_Serialize (at_now3 a) r' = (rs, RR, rps, crs)" by (cases "Resource_Serialize (at_now3 a) r'") auto
    note C = deleted_row_ok [OF assms(1) hit(1-4) r' ser]
    note E = Save_effect [OF assms(1,2) s ser C(1,4,5) assms(3) C(2)]
    have wal: "if rrs_Tombstone rr then db_wal d' = db_wal d
      else announced (g_uuid_string g) key (dr_ID res) None (Some (rrs_RepresentationVersion RR)) OperationTypeDeleted txid d d'"
    proof (cases "event_of OperationTypeDeleted r'")
      case None
      with deleted_event [OF r'] Save_wal [OF s] show ?thesis by simp
    next
      case (Some ev)
      with deleted_event [OF r'] event_representation [OF Some ser] C(6) Save_announced [OF s Some] show ?thesis
        by (auto simp: tombstoned_row_def)
    qed
    have k: "known_key d key (dr_ID res)" using assms(1,3) hit by (auto simp: known_key_def)
    have "\<exists>old row rep. old_row key d = Some old \<and> stored_row key (dr_ID res) row d d' \<and> tombstoned_row old row rep \<and>
        set (db_reporter_representations d') = set (db_reporter_representations d) \<union> set_option rep \<and>
        (if rrs_Tombstone old then db_wal d' = db_wal d
         else announced (g_uuid_string g) key (dr_ID res) None (Some (rrs_RepresentationVersion row)) OperationTypeDeleted txid d d')"
      by (intro exI conjI) (fact old_row_Some [OF assms(1) hit(1,2)] E(5) C(6) E(6) wal)+
    moreover have "known_key d key' j" if "known_key d' key' j" for key' j using E(4) [OF that] k by blast
    ultimately show ?thesis unfolding removed_def using k E(1-3) C(3) by (intro exI [of _ "dr_ID res"] conjI) auto
  next
    case miss
    with assms(5) f show ?thesis by (simp add: delete_tx_def)
  qed
qed

end

section \<open>The handlers\<close>

lemma transaction_attempt:
  "HandleSerializableTransaction m isSer txFunc commit s = Inr s' \<Longrightarrow> \<exists>k<m. txFunc k s = Inr s'"
  unfolding HandleSerializableTransaction_def tx_loop_Ok_iff tx_commits_def by blast

definition good_attempts :: "report_io \<Rightarrow> db \<Rightarrow> bool" where
  "good_attempts io d \<longleftrightarrow> (\<forall>k. fresh_ids (ri_attempts io k) d \<and> sound_read (ri_attempts io k) \<and>
     fresh_ids (ri_retryAttempts io k) d \<and> sound_read (ri_retryAttempts io k))"

definition effective_txid :: "report_resource_command \<Rightarrow> transaction_id \<Rightarrow> transaction_id" where
  "effective_txid cmd txid = (case rc_TransactionId cmd of None \<Rightarrow> txid | Some t \<Rightarrow> if t = [] then txid else t)"

text \<open>A report that reaches the database: the request is authenticated, authorized and valid, and its transaction id new.\<close>

definition admitted :: "'s usecase \<Rightarrow> report_io \<Rightarrow> authz_context option \<Rightarrow> report_resource_command \<Rightarrow> transaction_id \<Rightarrow> db \<Rightarrow> bool" where
  "admitted uc io ctx cmd txid d \<longleftrightarrow> (\<exists>a c. ctx = Some a \<and> ac_Subject a = Some c) \<and>
     enforceMetaAuthzObject uc ctx RelationReportResource (NewInventoryResourceFromKey (command_key cmd)) = Inr () \<and>
     getNextTransactionID (ri_txid io) = Inr txid \<and>
     ValidateReportAgainstSchema (us_gjs uc) (GetResourceSchema (us_schemas uc)) (GetReporterSchema (us_schemas uc))
       (rc_ResourceType cmd) (rc_ReporterType cmd) (rc_CommonRepresentation cmd) (rc_ReporterRepresentation cmd) = None \<and>
     already_processed uc io (effective_txid cmd txid) d = Inr False"

lemma ReportResource_cases:
  assumes "ReportResource uc io ctx cmd d = (r, d')"
  obtains (unchanged) "d' = d"
  | (committed) txid where "admitted uc io ctx cmd txid d" "run_report uc io cmd (command_key cmd) (effective_txid cmd txid) txid d = Inr d'"
  using assms
  by (auto simp: ReportResource_def admitted_def effective_txid_def Let_def split: option.splits sum.splits bool.splits)

lemma reportResource_attempt: "reportResource uc cmd key tid txid attempts d = Inr d' \<Longrightarrow> \<exists>k. report_tx uc cmd key tid txid (attempts k) d = Inr d'"
  unfolding reportResource_def by (drule transaction_attempt) blast

lemma run_report_attempt:
  assumes "run_report uc io cmd key tid txid d = Inr d'"
  obtains (first) k where "report_tx uc cmd key tid txid (ri_attempts io k) d = Inr d'"
  | (retried) k tid' where "report_tx uc cmd key tid' txid (ri_retryAttempts io k) d = Inr d'" "\<not> uc_IdempotencyCheckEnabled (us_config uc)"
proof (cases "reportResource uc cmd key tid txid (ri_attempts io) d")
  case (Inr d2)
  with assms have "reportResource uc cmd key tid txid (ri_attempts io) d = Inr d'" by (simp add: run_report_def)
  from reportResource_attempt [OF this] first show thesis by blast
next
  case (Inl e)
  with assms obtain t where t: "reportResource uc cmd key t txid (ri_retryAttempts io) d = Inr d'" "\<not> uc_IdempotencyCheckEnabled (us_config uc)"
    by (auto simp: run_report_def res_iffs split: if_splits)
  from reportResource_attempt [OF t(1)] t(2) retried show thesis by blast
qed

lemma run_report_grows: "gorm_store (us_gorm uc) \<Longrightarrow> run_report uc io cmd key tid txid d = Inr d' \<Longrightarrow> grows d d'"
  by (erule run_report_attempt) (auto intro: report_tx_grows)

text \<open>Transaction ids of the stored rows.\<close>

lemma serialized_reporter [simp]: "rps_TransactionId (ReporterRepresentation_Serialize now x) = rep_transactionId x"
  by (simp add: ReporterRepresentation_Serialize_def serde)

lemma event_txid:
  assumes "resourceEventAndRepresentations i rt rep inst tid l rrId api console rd cd rv v g cv = Inr ev"
    and "res_resourceReportEvents r = [SetTimestamps t1 t2 ev]" "res_resourceDeleteEvents r = []"
    and "Resource_Serialize now r = (rs, RR, rps, crs)"
  shows "(\<exists>x. rps = Some x \<and> rps_TransactionId x = tid) \<or> (\<exists>x. crs = Some x \<and> crs_TransactionId x = tid)"
  using assms(2-4) resourceEvent_Ok(1,8,9) [OF assms(1)]
  by (cases rd; cases cd) (auto simp: Resource_Serialize_def Let_def SetTimestamps_def event_args_ok_def)

context gorm_store
begin

lemma Save_txid:
  assumes "Save g newUUID now r op txid d = Inr d'" "Resource_Serialize now r = (rs, RR, rps, crs)"
    and "(\<exists>x. rps = Some x \<and> rps_TransactionId x = tid) \<or> (\<exists>x. crs = Some x \<and> crs_TransactionId x = tid)"
  shows "HasTransactionIdBeenProcessed d' tid"
  using Save_tables(5,6) [OF assms(1,2)] assms(3) by (auto simp: HasTransactionIdBeenProcessed_def list_ex_iff)

lemma createResource_txid:
  assumes "us_gorm uc = g" "createResource uc a cmd tid txid d = Inr d'"
  shows "HasTransactionIdBeenProcessed d' tid"
proof -
  from assms obtain i j r where
    r: "NewResource (at_now1 a) (at_now2 a) i (rc_LocalResourceId cmd) (rc_ResourceType cmd) (rc_ReporterType cmd) (rc_ReporterInstanceId cmd) tid j
      (rc_ApiHref cmd) (rc_ConsoleHref cmd) (rc_ReporterRepresentation cmd) (rc_CommonRepresentation cmd) (rc_ReporterVersion cmd) = Inr r"
    and s: "Save g (at_newUUID a) (at_now3 a) r OperationTypeCreated txid d = Inr d'"
    by (auto simp: createResource_def res_iffs)
  obtain rs RR rps crs where ser: "Resource_Serialize (at_now3 a) r = (rs, RR, rps, crs)" by (cases "Resource_Serialize (at_now3 a) r") auto
  obtain ev where ev: "res_resourceReportEvents r = [SetTimestamps (at_now2 a) (at_now2 a) ev]"
    and ok: "resourceEventAndRepresentations i (rc_ResourceType cmd) (rc_ReporterType cmd) (rc_ReporterInstanceId cmd) tid (rc_LocalResourceId cmd) j
      (rc_ApiHref cmd) (rc_ConsoleHref cmd)
      (if rc_ReporterRepresentation cmd = None \<and> rc_CommonRepresentation cmd \<noteq> None then Some (Some []) else rc_ReporterRepresentation cmd)
      (rc_CommonRepresentation cmd) (rc_ReporterVersion cmd) 0 0 (if has_common (rc_CommonRepresentation cmd) then Some 0 else None) = Inr ev"
    using NewResource_Ok(8) [OF r] by blast
  from event_txid [OF ok ev NewResource_Ok(4) [OF r] ser] show ?thesis by (rule Save_txid [OF s ser])
qed

lemma updateResource_txid:
  assumes "us_gorm uc = g" "res_resourceDeleteEvents res = []" "updateResource uc a cmd tid res txid d = Inr d'"
  shows "HasTransactionIdBeenProcessed d' tid"
proof -
  from assms obtain r' where r': "Resource_Update (at_now1 a) (at_now2 a) (command_key cmd) (rc_ApiHref cmd) (rc_ConsoleHref cmd) (rc_ReporterVersion cmd)
      (rc_ReporterRepresentation cmd) (rc_CommonRepresentation cmd) tid res = (r', None)"
    and s: "Save g (at_newUUID a) (at_now3 a) r' OperationTypeUpdated txid d = Inr d'"
    by (auto simp: updateResource_def split: prod.splits option.splits)
  obtain rs RR rps crs where ser: "Resource_Serialize (at_now3 a) r' = (rs, RR, rps, crs)" by (cases "Resource_Serialize (at_now3 a) r'") auto
  from r' show ?thesis
  proof (cases rule: Resource_UpdateE)
    case (1 i cv ev)
    with assms(2) have "res_resourceDeleteEvents r' = []" by simp
    from event_txid [OF 1(10) [unfolded Let_def] 1(11) this ser] show ?thesis by (rule Save_txid [OF s ser])
  qed
qed

end

lemma found_no_delete: "FindResourceByKeys d key = Inr (Some res) \<Longrightarrow> res_resourceDeleteEvents res = []"
  by (auto simp: FindResourceByKeys_def DeserializeResource_def Let_def split: if_splits prod.splits option.splits)

lemma report_tx_txid:
  assumes "gorm_store (us_gorm uc)" "report_tx uc cmd key tid txid a d = Inr d'"
  shows "HasTransactionIdBeenProcessed d' tid"
proof -
  consider "createResource uc a cmd tid txid d = Inr d'" | res where "FindResourceByKeys d key = Inr (Some res)" "updateResource uc a cmd tid res txid d = Inr d'"
    using assms(2) by (auto simp: report_tx_def find_resource_def split: sum.splits option.splits if_splits)
  then show ?thesis
  proof cases
    case 1
    then show ?thesis by (rule gorm_store.createResource_txid [OF assms(1) refl])
  next
    case 2
    from found_no_delete [OF 2(1)] 2(2) show ?thesis by (rule gorm_store.updateResource_txid [OF assms(1) refl])
  qed
qed

lemma run_report_effect:
  assumes "gorm_store (us_gorm uc)" "db_inv d" "no_overflow d" "good_attempts io d" "rrk_reporterInstanceId (command_key cmd) \<noteq> []"
    and "run_report uc io cmd (command_key cmd) tid txid d = Inr d'"
  shows "\<exists>i. reported (g_uuid_string (us_gorm uc)) cmd txid i d d'"
proof -
  have ok: "fresh_ids (ri_attempts io k) d" "sound_read (ri_attempts io k)" "fresh_ids (ri_retryAttempts io k) d" "sound_read (ri_retryAttempts io k)" for k
    using assms(4) by (auto simp: good_attempts_def)
  note eff = gorm_store.report_tx_effect [OF assms(1-3) _ _ assms(5) refl]
  from assms(6) show ?thesis
  proof (cases rule: run_report_attempt)
    case (first k)
    from eff [OF ok(1,2) this] show ?thesis .
  next
    case (retried k tid')
    from eff [OF ok(3,4) this(1)] show ?thesis .
  qed
qed

text \<open>A request to report a service, on empty tables.\<close>

definition sample_usecase :: "simple_relations_repository usecase" where
  "sample_usecase = Usecase_New table_ops (\<lambda>_. False) 3 (\<lambda>_ _. Inr []) (projr (NewFromJsonBytes FeaturesAwareSchemaFactory sample_registry_json))
     simple_relations False NewUsecaseConfig None None"

definition sample_command :: report_resource_command where
  "sample_command = \<lparr>rc_LocalResourceId = ''s1'', rc_ResourceType = ''service'', rc_ReporterType = ''features'', rc_ReporterInstanceId = ''i'',
     rc_ApiHref = ''/a'', rc_ConsoleHref = None, rc_ReporterVersion = None, rc_TransactionId = Some ''t1'', rc_ReporterRepresentation = None,
     rc_CommonRepresentation = Some (sample_common ''w1''), rc_WriteVisibility = WriteVisibilityUnspecified\<rparr>"

definition sample_attempt :: attempt where
  "sample_attempt = \<lparr>at_findErr = None, at_resourceId = Inr 7, at_reporterResourceId = Inr 9, at_newUUID = Inr 11, at_now1 = 1, at_now2 = 2, at_now3 = 3,
     at_commit = None\<rparr>"

definition sample_io :: report_io where
  "sample_io = \<lparr>ri_txid = Inr ''x1'', ri_processedErr = None, ri_attempts = (\<lambda>_. sample_attempt), ri_retryTxid = Inr ''x2'',
     ri_retryAttempts = (\<lambda>_. sample_attempt), ri_wait = None\<rparr>"

definition sample_ctx :: "authz_context option" where
  "sample_ctx = Some \<lparr>ac_Protocol = ProtocolGRPC, ac_Subject = Some UnauthenticatedClaims\<rparr>"

lemma sample_hypotheses:
  "gorm_store (us_gorm sample_usecase)" "uc_IdempotencyCheckEnabled (us_config sample_usecase)" "no_overflow empty_db" "good_attempts sample_io empty_db"
  "rrk_reporterInstanceId (command_key sample_command) \<noteq> []"
  using tables.gorm_store_axioms
  by (simp_all add: sample_usecase_def Usecase_New_def NewUsecaseConfig_def no_overflow_def empty_db_def good_attempts_def sample_io_def sample_attempt_def
      fresh_ids_def sound_read_def command_key_def sample_command_def rrk_reporterInstanceId_def NewReporterId_def)

lemma sample_report: "\<exists>d'. ReportResource sample_usecase sample_io sample_ctx sample_command empty_db = (Inr (), d') \<and> d' \<noteq> empty_db"
proof -
  have "case ReportResource sample_usecase sample_io sample_ctx sample_command empty_db of (r, d') \<Rightarrow> is_ok r \<and> db_resource d' \<noteq> []" by code_simp
  then show ?thesis by (auto simp: is_ok_iff empty_db_def split: prod.splits)
qed

lemma report_outcome:
  assumes "gorm_store (us_gorm uc)" "db_inv d" "no_overflow d" "good_attempts io d" "rrk_reporterInstanceId (command_key cmd) \<noteq> []"
    and "ReportResource uc io ctx cmd d = (r, d')"
  shows "db_inv d' \<and> (d' = d \<or> (\<exists>txid i. admitted uc io ctx cmd txid d \<and> reported (g_uuid_string (us_gorm uc)) cmd txid i d d'))"
  using assms(6)
proof (cases rule: ReportResource_cases)
  case unchanged
  with assms(2) show ?thesis by simp
next
  case (committed txid)
  from run_report_effect [OF assms(1-5) committed(2)] obtain i where "reported (g_uuid_string (us_gorm uc)) cmd txid i d d'" ..
  moreover from this have "db_inv d'" by (simp add: reported_def known_key_def)
  ultimately show ?thesis using committed(1) by blast
qed



text \<open>C5. A transaction id takes effect once: when a report with a transaction id has changed the database and the
  idempotency check is on, every later report with the same id leaves the database as it is.\<close>

theorem report_idempotent:
  assumes "gorm_store (us_gorm uc)" "uc_IdempotencyCheckEnabled (us_config uc)"
    and "ReportResource uc io ctx cmd d = (r, d')" "d' \<noteq> d" "rc_TransactionId cmd = Some t" "t \<noteq> []"
    and "rc_TransactionId cmd2 = Some t" "ReportResource uc io2 ctx2 cmd2 d' = (r2, d2)"
  shows "d2 = d'"
  using assms(3)
proof (cases rule: ReportResource_cases)
  case unchanged
  with assms(4) show ?thesis by simp
next
  case (committed txid)
  have "effective_txid cmd txid = t" using assms(5,6) by (simp add: effective_txid_def)
  with committed(2) have "run_report uc io cmd (command_key cmd) t txid d = Inr d'" by simp
  then have "HasTransactionIdBeenProcessed d' t"
    by (cases rule: run_report_attempt) (use assms(1,2) report_tx_txid in auto)
  then have "already_processed uc io2 (effective_txid cmd2 x) d' \<noteq> Inr False" for x
    using assms(2,6,7) by (simp add: already_processed_def effective_txid_def split: option.splits)
  with assms(8) show ?thesis by (cases rule: ReportResource_cases) (auto simp: admitted_def)
qed

theorem report_idempotent_witness:
  "\<exists>d'. ReportResource sample_usecase sample_io sample_ctx sample_command empty_db = (Inr (), d') \<and> d' \<noteq> empty_db \<and>
     snd (ReportResource sample_usecase sample_io sample_ctx (sample_command\<lparr>rc_CommonRepresentation := Some (sample_common ''w2'')\<rparr>) d') = d'"
proof -
  let ?cmd2 = "sample_command\<lparr>rc_CommonRepresentation := Some (sample_common ''w2'')\<rparr>"
  obtain d' where r: "ReportResource sample_usecase sample_io sample_ctx sample_command empty_db = (Inr (), d')" "d' \<noteq> empty_db"
    using sample_report by blast
  obtain r2 d2 where r2: "ReportResource sample_usecase sample_io sample_ctx ?cmd2 d' = (r2, d2)" by fastforce
  from report_idempotent [OF sample_hypotheses(1,2) r _ _ _ r2] have "d2 = d'" by (simp add: sample_command_def)
  with r r2 show ?thesis by auto
qed

lemma Usecase_Delete_cases:
  assumes "Usecase_Delete uc io ctx key d = (r, d')"
  obtains (unchanged) "d' = d" "\<exists>e. r = Inl e"
  | (committed) txid k where "enforceMetaAuthzObject uc ctx RelationDeleteResource (NewInventoryResourceFromKey key) = Inr ()" "r = Inr ()"
      "delete_tx uc key txid (ri_attempts io k) d = Inr d'"
proof (cases "enforceMetaAuthzObject uc ctx RelationDeleteResource (NewInventoryResourceFromKey key)")
  case (Inl e)
  with assms have "d' = d" "r = Inl e" by (simp_all add: Usecase_Delete_def)
  with unchanged show thesis by blast
next
  case (Inr u)
  show thesis
  proof (cases r)
    case (Inl e)
    with Inr assms have "d' = d" by (auto simp: Usecase_Delete_def split: sum.splits)
    with Inl unchanged show thesis by blast
  next
    case r: (Inr u')
    with Inr assms obtain txid where "HandleSerializableTransaction (us_maxRetries uc) (us_isSer uc) (\<lambda>i. delete_tx uc key txid (ri_attempts io i))
        (\<lambda>i. at_commit (ri_attempts io i)) d = Inr d'"
      by (auto simp: Usecase_Delete_def split: sum.splits)
    from transaction_attempt [OF this] Inr r committed [of txid] show thesis by auto
  qed
qed



section \<open>Checks\<close>

lemma lookup_stored_token:
  assumes "known_key d key i" "reporterKeyFromResourceRef ref = Inr key"
  shows "\<exists>res \<in> set (db_resource d). dr_ID res = i \<and> lookupConsistencyTokenFromDB None d ref = Inr (dr_ConsistencyToken res)"
proof -
  obtain rr where rr: "db_inv d" "rrk_reporterInstanceId key \<noteq> []" "rr \<in> set (db_reporter_resources d)" "rrs_Key rr = key_snapshot key" "rrs_ResourceID rr = i"
    using assms(1) by (auto simp: known_key_def)
  obtain res where "res \<in> set (db_resource d)" "dr_ID res = rrs_ResourceID rr" "FindResourceByKeys d key = Inr (Some (loaded d res rr))"
    using FindResourceByKeys_hit [OF rr(1-4)] by blast
  with assms(2) rr(5) show ?thesis by (auto simp: lookupConsistencyTokenFromDB_def loaded_def serde)
qed

text \<open>C6. Which consistency a check asks for: a check that is authorized calls the relations service once, with
  minimize-latency when requested or by default, with the caller's token when one is given, and otherwise,
  for at-least-as-acknowledged and for no preference under the feature flag, with the token stored for the
  resource, or minimize-latency while none is stored.\<close>

theorem check_consistency:
  assumes "enforce_on uc ctx RelationCheck ref = Inr ()" "known_key d key i" "reporterKeyFromResourceRef ref = Inr key"
  shows "\<exists>res \<in> set (db_resource d). dr_ID res = i \<and>
    Check uc None ctx relation sub ref preference d s = ro_Check (us_relations uc) (NewRelationship ref relation sub)
      (let stored = (if dr_ConsistencyToken res = [] then minimizeLatencyConsistency else atLeastAsFreshConsistency (dr_ConsistencyToken res)) in
       case preference of
         None \<Rightarrow> if uc_DefaultToAtLeastAsAcknowledged (us_config uc) then stored else minimizeLatencyConsistency
       | Some unspecifiedConsistency \<Rightarrow> if uc_DefaultToAtLeastAsAcknowledged (us_config uc) then stored else minimizeLatencyConsistency
       | Some minimizeLatencyConsistency \<Rightarrow> minimizeLatencyConsistency
       | Some atLeastAsAcknowledgedConsistency \<Rightarrow> stored
       | Some (atLeastAsFreshConsistency t) \<Rightarrow> atLeastAsFreshConsistency t) s"
proof -
  obtain res where res: "res \<in> set (db_resource d)" "dr_ID res = i" "lookupConsistencyTokenFromDB None d ref = Inr (dr_ConsistencyToken res)"
    using lookup_stored_token [OF assms(2,3)] by blast
  have "resolveFromDB None d ref = Inr (if dr_ConsistencyToken res = [] then minimizeLatencyConsistency else atLeastAsFreshConsistency (dr_ConsistencyToken res))"
    using res(3) by (simp add: resolveFromDB_def serde)
  with assms(1) res(1,2) show ?thesis
    by (intro bexI [of _ res]) (auto simp: Check_def resolveConsistency_def checkPermission_def ConsistencyTypeOf_def normalizeConsistency_def
        Consistency_Type_def Let_def split: option.splits consistency.splits)
qed

definition sample_ref :: resource_reference where
  "sample_ref = NewResourceReference ''service'' ''s1'' (Some (NewReporterReference ''features'' (Some ''i'')))"

theorem check_consistency_witness:
  "\<exists>d1 res. ReportResource sample_usecase sample_io sample_ctx sample_command empty_db = (Inr (), d1) \<and> res \<in> set (db_resource d1) \<and>
     Check sample_usecase None sample_ctx ''view'' sample_self sample_ref (Some atLeastAsAcknowledgedConsistency) d1 NewSimpleRelationsRepository =
       ro_Check simple_relations (NewRelationship sample_ref ''view'' sample_self)
         (if dr_ConsistencyToken res = [] then minimizeLatencyConsistency else atLeastAsFreshConsistency (dr_ConsistencyToken res)) NewSimpleRelationsRepository"
proof -
  obtain d1 where r: "ReportResource sample_usecase sample_io sample_ctx sample_command empty_db = (Inr (), d1)" "d1 \<noteq> empty_db"
    using sample_report by blast
  from report_outcome [OF sample_hypotheses(1) empty_db_inv sample_hypotheses(3-5) r(1)] r(2)
  obtain i where k: "known_key d1 (command_key sample_command) i" by (auto simp: reported_def)
  have e: "enforce_on sample_usecase sample_ctx RelationCheck sample_ref = Inr ()" by code_simp
  have f: "reporterKeyFromResourceRef sample_ref = Inr (command_key sample_command)" by code_simp
  have "us_relations sample_usecase = simple_relations" by (simp add: sample_usecase_def Usecase_New_def)
  with check_consistency [OF e k f, of "''view''" sample_self "Some atLeastAsAcknowledgedConsistency" NewSimpleRelationsRepository] r show ?thesis
    by (auto simp: Let_def)
qed

lemma enforce_all_Ok: "enforce_all uc ctx rel refs = Inr u \<longleftrightarrow> list_all (\<lambda>ref. enforce_on uc ctx rel ref = Inr ()) refs"
  by (induction refs) (auto simp: res_iffs)

lemma bulk_answer_Ok: "bulk_answer rels x = Inr r \<longleftrightarrow> (\<exists>y. x = Inr y \<and> length (cbr_pairs y) = length rels \<and> r = checkBulkResultFromModel y)"
  by (auto simp: bulk_answer_def validateBulkResultLength_def res_iffs split: if_splits)

text \<open>Bulk checks answer all of an authorized request or nothing: success means every item was authorized on its own,
  the request did not ask for inventory-managed tokens, and the answer has one pair per item; a relations
  service that answers with another number of pairs is an internal error.\<close>

lemma bulk_check_complete:
  "(CheckBulk uc ctx items consistency s = Inr r \<longleftrightarrow>
     consistency \<noteq> Some atLeastAsAcknowledgedConsistency \<and> list_all (\<lambda>item. enforce_on uc ctx RelationCheckBulk (bi_Resource item) = Inr ()) items \<and>
     (\<exists>y. ro_CheckBulk (us_relations uc) (checkBulkItemsToRelationships items) consistency s = Inr y \<and>
        length (cbr_pairs y) = length items \<and> r = checkBulkResultFromModel y)) \<and>
   (CheckSelfBulk uc ctx sitems consistency s = Inr r \<longleftrightarrow>
     consistency \<noteq> Some atLeastAsAcknowledgedConsistency \<and> list_all (\<lambda>item. enforce_on uc ctx RelationCheckSelf (si_Resource item) = Inr ()) sitems \<and>
     (\<exists>self y. selfSubjectFromContext uc ctx = Inr self \<and>
        ro_CheckBulk (us_relations uc) (map (\<lambda>item. NewRelationship (si_Resource item) (si_Relation item) self) sitems) consistency s = Inr y \<and>
        length (cbr_pairs y) = length sitems \<and> r = checkBulkResultFromModel y))"
proof -
  have c: "ConsistencyTypeOf consistency = ConsistencyAtLeastAsAcknowledged \<longleftrightarrow> consistency = Some atLeastAsAcknowledgedConsistency"
    by (auto simp: ConsistencyTypeOf_def normalizeConsistency_def Consistency_Type_def split: option.splits consistency.splits)
  show ?thesis
    by (auto simp: CheckBulk_def CheckSelfBulk_def c res_iffs enforce_all_Ok bulk_answer_Ok Let_def checkBulkItemsToRelationships_def list_all_iff)
qed

end
