(* ===== verification/End_To_End.thy ===== *)
theory End_To_End
  imports Offset_Laws Service_Laws
begin

text \<open>
  The whole path of a report: the use case stores it and announces it in the outbox, the connector
  delivers the announcements in the order of the log, and the consumer turns each into changes of
  the relations store, reading the representations back from the database of its own time. The
  database may be any number of reports ahead of the consumer. Then the two ways in which replication fails: resources that share the
  object of their tuples, and resources that are deleted and reported again.
\<close>

section \<open>The log of tuple messages\<close>

text \<open>The tuple messages of the write-ahead log with their payloads, and the events the consumer decodes from them.\<close>

definition tuple_entries :: "wal \<Rightarrow> (string \<times> json) list" where
  "tuple_entries w = concat (map (\<lambda>(prefix, m). if prefix = aggregate_string TupleAggregateType
     then (case wal_Payload m of TuplePayload j \<Rightarrow> [(wal_Operation m, j)] | _ \<Rightarrow> []) else []) w)"

definition entry_event :: "json \<Rightarrow> tuple_event" where
  "entry_event j = (case TupleEvent_UnmarshalJSON (json_floats j) of Inr te \<Rightarrow> te
     | Inl _ \<Rightarrow> \<lparr>te_reporterResourceKey = zero_key, te_commonVersion = None, te_reporterRepresentationVersion = None\<rparr>)"

definition tuple_log :: "wal \<Rightarrow> (string \<times> tuple_event) list" where
  "tuple_log w = map (map_prod id entry_event) (tuple_entries w)"

text \<open>A payload from which the consumer decodes the announced event: its versions passed through floats unharmed.\<close>

definition readable :: "json \<Rightarrow> bool" where
  "readable j \<longleftrightarrow> (\<exists>te. j = json_floats (TupleEvent_MarshalJSON te) \<and> exact_version (te_commonVersion te) \<and>
     exact_version (te_reporterRepresentationVersion te))"

lemma entry_event_exact:
  "exact_version (te_commonVersion te) \<Longrightarrow> exact_version (te_reporterRepresentationVersion te) \<Longrightarrow> entry_event (json_floats (TupleEvent_MarshalJSON te)) = te"
  by (simp add: entry_event_def TupleEvent_floats TupleEvent_json_roundtrip)

lemma announced_entries:
  assumes "announced uuid_str key i cv rv op txid d d'"
  shows "\<exists>te. te_reporterResourceKey te = key \<and> te_commonVersion te = cv \<and> te_reporterRepresentationVersion te = rv \<and>
    tuple_entries (db_wal d') = tuple_entries (db_wal d) @ [(operation_string op, json_floats (TupleEvent_MarshalJSON te))]"
  using assms by (auto simp: announced_def tuple_entries_def wal_entry_def tuple_message_def aggregate_string_def)

lemma announced_log:
  assumes "announced uuid_str key i cv rv op txid d d'" "exact_version cv" "exact_version rv"
  shows "\<exists>te. tuple_log (db_wal d') = tuple_log (db_wal d) @ [(operation_string op, te)] \<and> te_reporterResourceKey te = key \<and> te_commonVersion te = cv"
    "(\<forall>(op, j) \<in> set (tuple_entries (db_wal d)). readable j) \<Longrightarrow> (\<forall>(op, j) \<in> set (tuple_entries (db_wal d')). readable j)"
proof -
  obtain te where te: "te_reporterResourceKey te = key" "te_commonVersion te = cv" "te_reporterRepresentationVersion te = rv"
    "tuple_entries (db_wal d') = tuple_entries (db_wal d) @ [(operation_string op, json_floats (TupleEvent_MarshalJSON te))]"
    using announced_entries [OF assms(1)] by blast
  with assms(2,3) show "\<exists>te. tuple_log (db_wal d') = tuple_log (db_wal d) @ [(operation_string op, te)] \<and> te_reporterResourceKey te = key \<and> te_commonVersion te = cv"
    by (auto simp: tuple_log_def entry_event_exact)
  show "\<forall>(op, j) \<in> set (tuple_entries (db_wal d')). readable j" if "\<forall>(op, j) \<in> set (tuple_entries (db_wal d)). readable j"
    using that te assms(2,3) by (auto simp: readable_def)
qed

text \<open>Versions a float holds exactly: every stored version is below \<open>2 ^ 53\<close>.\<close>

definition exact_versions :: "db \<Rightarrow> bool" where
  "exact_versions d \<longleftrightarrow> list_all (\<lambda>cr. exact_version (Some (crs_Version cr))) (db_common_representations d) \<and>
     list_all (\<lambda>r. exact_version (Some (rps_Version r))) (db_reporter_representations d)"

lemma exact_no_overflow: "exact_versions d \<Longrightarrow> no_overflow d"
proof -
  have "\<not> exact_version (Some max_uint)" by code_simp
  then have "v \<noteq> max_uint" if "exact_version (Some v)" for v using that by blast
  then show "no_overflow d" if "exact_versions d"
    using that unfolding exact_versions_def no_overflow_def list_all_iff by (intro ballI) (drule conjunct1, drule bspec, assumption, blast)
qed

lemma reported_exact:
  assumes "reported us cmd txid i d d'" "exact_versions d'"
  obtains rv where "announced us (command_key cmd) i (reported_version (rc_CommonRepresentation cmd) (last_common_version d i)) rv
      (if \<exists>j. known_key d (command_key cmd) j then OperationTypeUpdated else OperationTypeCreated) txid d d'"
    "exact_version (reported_version (rc_CommonRepresentation cmd) (last_common_version d i))" "exact_version rv"
proof -
  obtain rep where rep: "set (db_reporter_representations d') = set (db_reporter_representations d) \<union> set_option rep"
    "announced us (command_key cmd) i (reported_version (rc_CommonRepresentation cmd) (last_common_version d i)) (map_option rps_Version rep)
      (if \<exists>j. known_key d (command_key cmd) j then OperationTypeUpdated else OperationTypeCreated) txid d d'"
    and sc: "stored_common (rc_CommonRepresentation cmd) i d d'"
    using assms(1) unfolding reported_def by blast
  have "exact_version (map_option rps_Version rep)"
    using assms(2) rep(1) by (cases rep) (auto simp: exact_versions_def list_all_iff)
  moreover have "exact_version (reported_version (rc_CommonRepresentation cmd) (last_common_version d i))"
    using assms(2) sc by (auto simp: exact_versions_def list_all_iff stored_common_def reported_version_def split: option.splits)
  ultimately show thesis using rep(2) that by blast
qed

lemma reported_log:
  assumes "reported us cmd txid i d d'" "exact_versions d'"
  shows "\<exists>te. tuple_log (db_wal d') = tuple_log (db_wal d) @
      [(operation_string (if \<exists>j. known_key d (command_key cmd) j then OperationTypeUpdated else OperationTypeCreated), te)] \<and>
    te_reporterResourceKey te = command_key cmd \<and> te_commonVersion te = reported_version (rc_CommonRepresentation cmd) (last_common_version d i)"
    "(\<forall>(op, j) \<in> set (tuple_entries (db_wal d)). readable j) \<Longrightarrow> (\<forall>(op, j) \<in> set (tuple_entries (db_wal d')). readable j)"
  using reported_exact [OF assms] announced_log by metis+

text \<open>The versions of a key the log announces, in order.\<close>

definition logged :: "reporter_resource_key \<Rightarrow> (string \<times> tuple_event) list \<Rightarrow> version list" where
  "logged key log = concat (map (\<lambda>(op, te). if te_reporterResourceKey te = key
     then (case te_commonVersion te of None \<Rightarrow> [] | Some v \<Rightarrow> [v]) else []) log)"

lemma logged_append [simp]: "logged key (log @ log') = logged key log @ logged key log'"
  by (simp add: logged_def)

lemma logged_single:
  "logged key [(op, te)] = (if te_reporterResourceKey te = key then (case te_commonVersion te of None \<Rightarrow> [] | Some v \<Rightarrow> [v]) else [])"
  by (simp add: logged_def)

definition version_count :: "db \<Rightarrow> uuid \<Rightarrow> nat" where
  "version_count d i = (case last_common_version d i of None \<Rightarrow> 0 | Some v \<Rightarrow> unat v + 1)"

lemma version_count_next:
  "last_common_version d i \<noteq> Some max_uint \<Longrightarrow> next_common_version (last_common_version d i) = of_nat (version_count d i) \<and> version_count d i < 2 ^ 64"
proof (cases "last_common_version d i")
  case (Some v)
  assume "last_common_version d i \<noteq> Some max_uint"
  with Some have "unat (v + 1) = unat v + 1" by (simp add: unat_inc_uint)
  moreover have "unat (v + 1) < 2 ^ 64" using unsigned_less [of "v + 1", where 'a = nat] by simp
  ultimately show ?thesis using Some by (simp add: version_count_def next_common_version_def)
qed (simp add: version_count_def next_common_version_def)

section \<open>Objects of a resource\<close>

definition object_keys :: "reporter_resource_key \<Rightarrow> simpleTupleKey set" where
  "object_keys key = {k. stk_ResourceNamespace k = rrk_reporterType key \<and> stk_ResourceType k = rrk_resourceType key \<and>
     stk_ResourceID k = rrk_localResourceID key}"

definition same_object :: "reporter_resource_key \<Rightarrow> reporter_resource_key \<Rightarrow> bool" where
  "same_object key key' \<longleftrightarrow> rrk_reporterType key = rrk_reporterType key' \<and> rrk_resourceType key = rrk_resourceType key' \<and>
     rrk_localResourceID key = rrk_localResourceID key'"

lemma tuples_at_object: "tuples_at c key r \<subseteq> object_keys key"
  using schema_tuples_shape by (fastforce simp: tuples_at_def object_keys_def subject_tuple_key)

lemma object_keys_disjoint: "\<not> same_object key key' \<Longrightarrow> object_keys key \<inter> object_keys key' = {}"
  by (auto simp: object_keys_def same_object_def)

lemma tuples_at_None [simp]: "factory_built FeaturesAwareSchemaFactory c \<Longrightarrow> tuples_at c key None = {}"
  using tuple_schema.rels_nil [OF registry_schema(3)] by (simp add: tuples_at_def)

section \<open>The system\<close>

text \<open>Every tuple of every stored representation is one the store admits.\<close>

definition storable_db :: "(relations_tuple \<Rightarrow> bool) \<Rightarrow> schema_content \<Rightarrow> db \<Rightarrow> bool" where
  "storable_db ok c d \<longleftrightarrow> (\<forall>key i v. known_key d key i \<longrightarrow> storable ok c key (rep_at d i v))"

lemma storable_db_wf [simp]: "storable_db wf_tuple c d"
  by (simp add: storable_db_def)

lemma storable_None [simp]: "factory_built FeaturesAwareSchemaFactory c \<Longrightarrow> storable ok c key None"
  using tuple_schema.rels_nil [OF registry_schema(3)] by (simp add: storable_def)

lemma storable_versions:
  assumes "storable_db ok c d" "factory_built FeaturesAwareSchemaFactory c" "known_key d key i"
  shows "storable ok c key (previous_of d i op v)" "storable ok c key (current_of d i op v)"
  using assms by (auto simp: previous_of_def current_of_def storable_db_def split: option.splits)

text \<open>A tuple names the object of a resource by its reporter type, resource type and local identifier: two instances of one
  reporter type that report the same local identifier own the same tuples. \<open>unshared\<close> says that this does not happen.\<close>

definition unshared :: "db \<Rightarrow> bool" where
  "unshared d \<longleftrightarrow> (\<forall>key key' i j. known_key d key i \<longrightarrow> known_key d key' j \<longrightarrow> same_object key key' \<longrightarrow> key = key')"

lemma unsharedD: "unshared d \<Longrightarrow> known_key d key i \<Longrightarrow> known_key d key' j \<Longrightarrow> same_object key key' \<Longrightarrow> key = key'"
  unfolding unshared_def by blast

text \<open>A message with the payload in the connector's envelope.\<close>

definition carries :: "kafka_message \<Rightarrow> json \<Rightarrow> bool" where
  "carries msg j \<longleftrightarrow> (\<exists>envelope. km_Value msg = Some (JObj envelope) \<and> map_of envelope ''payload'' = Some j \<and> schema_field_ok envelope)"

lemma carries_event: "carries msg j \<Longrightarrow> readable j \<Longrightarrow> event_message msg (te_reporterResourceKey (entry_event j)) (te_commonVersion (entry_event j))"
  by (auto simp: carries_def readable_def event_message_def ParseMessage_envelope entry_event_exact)

text \<open>A state is the database, the number of messages consumed, and the relations store. A report commits one
  transaction. A consumption step processes the next message of the log, as the connector wraps it, successfully.\<close>

inductive system :: "'u usecase \<Rightarrow> 's consumer_env \<Rightarrow> db \<times> nat \<times> 's \<Rightarrow> db \<times> nat \<times> 's \<Rightarrow> bool" for uc env \<sigma> where
  start: "system uc env \<sigma> \<sigma>"
| report: "system uc env \<sigma> (d, n, s) \<Longrightarrow> report_tx uc cmd (command_key cmd) tid txid a d = Inr d' \<Longrightarrow>
    fresh_ids a d \<Longrightarrow> sound_read a \<Longrightarrow> rrk_reporterInstanceId (command_key cmd) \<noteq> [] \<Longrightarrow> system uc env \<sigma> (d', n, s)"
| consume: "system uc env \<sigma> (d, n, s) \<Longrightarrow> n < length (tuple_entries (db_wal d)) \<Longrightarrow> tuple_entries (db_wal d) ! n = (op, j) \<Longrightarrow>
    carries msg j \<Longrightarrow> go_map_get headers ''operation'' = op \<Longrightarrow>
    ProcessMessage env fc queryErr d headers msg s = Some (Inr resp, s') \<Longrightarrow> system uc env \<sigma> (d, Suc n, s')"

text \<open>The tuples of a key after the first \<open>m\<close> of its versions.\<close>

definition tuples_after :: "schema_content \<Rightarrow> db \<Rightarrow> reporter_resource_key \<Rightarrow> uuid \<Rightarrow> nat \<Rightarrow> simpleTupleKey set" where
  "tuples_after c d key i m = tuples_at c key (if m = 0 then None else rep_at d i (of_nat (m - 1)))"

definition log_ok :: "db \<Rightarrow> reporter_resource_key \<Rightarrow> uuid \<Rightarrow> bool" where
  "log_ok d key i \<longleftrightarrow> logged key (tuple_log (db_wal d)) = map of_nat [0..<version_count d i] \<and>
     (\<forall>op te. (op, te) \<in> set (tuple_log (db_wal d)) \<longrightarrow> te_reporterResourceKey te = key \<longrightarrow>
        op = ''updated'' \<or> op = ''created'' \<and> te_commonVersion te \<in> {None, Some 0})"

definition replicated :: "schema_content \<Rightarrow> ('s \<Rightarrow> simpleTupleKey set) \<Rightarrow> db \<Rightarrow> nat \<Rightarrow> 's \<Rightarrow> bool" where
  "replicated c keys d n s \<longleftrightarrow> db_inv d \<and> n \<le> length (tuple_log (db_wal d)) \<and>
     (\<forall>op te. (op, te) \<in> set (tuple_log (db_wal d)) \<longrightarrow> (\<exists>i. known_key d (te_reporterResourceKey te) i)) \<and>
     unshared d \<and>
     (\<forall>key i. known_key d key i \<longrightarrow> log_ok d key i \<and>
        keys s \<inter> object_keys key = tuples_after c d key i (length (logged key (take n (tuple_log (db_wal d)))))) \<and>
     (\<forall>k \<in> keys s. \<exists>key i. known_key d key i \<and> k \<in> object_keys key) \<and>
     (\<forall>(op, j) \<in> set (tuple_entries (db_wal d)). readable j)"

lemma replicatedD:
  assumes "replicated c keys d n s"
  shows "db_inv d" "n \<le> length (tuple_log (db_wal d))"
    and "(op, te) \<in> set (tuple_log (db_wal d)) \<Longrightarrow> \<exists>i. known_key d (te_reporterResourceKey te) i"
    and "known_key d key i \<Longrightarrow> known_key d key' j \<Longrightarrow> same_object key key' \<Longrightarrow> key = key'"
    and "known_key d key i \<Longrightarrow> log_ok d key i"
    and "known_key d key i \<Longrightarrow> keys s \<inter> object_keys key = tuples_after c d key i (length (logged key (take n (tuple_log (db_wal d)))))"
    and "k \<in> keys s \<Longrightarrow> \<exists>key i. known_key d key i \<and> k \<in> object_keys key"
    and "\<forall>(op, j) \<in> set (tuple_entries (db_wal d)). readable j"
  using assms unfolding replicated_def unshared_def by blast+

lemma known_key_unique: "known_key d key i \<Longrightarrow> known_key d key j \<Longrightarrow> i = j" "known_key d key i \<Longrightarrow> known_key d key' i \<Longrightarrow> key = key'"
  using rows_unique by (fastforce simp: known_key_def key_snapshot_inj [symmetric])+

section \<open>Reports\<close>

lemma report_versions:
  assumes "db_inv d" "db_inv d'" "no_overflow d" "stored_common cd i d d'" "known_key d' key i"
  shows "version_count d' i = version_count d i + (if cd = None then 0 else 1)" "j \<noteq> i \<Longrightarrow> version_count d' j = version_count d j"
    and "set (db_common_representations d) \<subseteq> set (db_common_representations d')"
proof -
  show "set (db_common_representations d) \<subseteq> set (db_common_representations d')"
    using assms(4) by (auto simp: stored_common_def split: option.splits)
  show "version_count d' j = version_count d j" if "j \<noteq> i"
  proof -
    have "versions_of d' j = versions_of d j" using assms(4) that by (auto simp: stored_common_def versions_of_def split: option.splits)
    then show ?thesis by (simp add: version_count_def last_common_version_cong [of d' j d j])
  qed
  show "version_count d' i = version_count d i + (if cd = None then 0 else 1)"
  proof (cases cd)
    case None
    then have "versions_of d' i = versions_of d i" using assms(4) by (auto simp: stored_common_def versions_of_def)
    with None show ?thesis by (simp add: version_count_def last_common_version_cong [of d' i d i])
  next
    case (Some x)
    note nx = no_overflow_last [OF assms(3), of i]
    have "versions_of d' i = insert (next_common_version (last_common_version d i)) (versions_of d i)"
    proof -
      obtain row where row: "set (db_common_representations d') = insert row (set (db_common_representations d))" "crs_ResourceId row = i"
        "crs_Version row = next_common_version (last_common_version d i)"
        using assms(4) Some by (auto simp: stored_common_def)
      then have "{cr \<in> set (db_common_representations d'). crs_ResourceId cr = i} = insert row {cr \<in> set (db_common_representations d). crs_ResourceId cr = i}" by auto
      with row(3) show ?thesis by (simp add: versions_of_def)
    qed
    from contiguous_extend(1) [OF contiguous_resource [OF assms(1)] refl nx this]
    have "last_common_version d' i = Some (of_nat (version_count d i))" using version_count_next [OF nx] by simp
    with version_count_next [OF nx] Some show ?thesis
      by (simp add: version_count_def [of d'] unat_of_nat take_bit_eq_mod)
  qed
qed

lemma tuples_after_mono:
  assumes "db_inv d" "db_inv d'" "set (db_common_representations d) \<subseteq> set (db_common_representations d')" "m \<le> version_count d i"
  shows "tuples_after c d' key i m = tuples_after c d key i m"
proof (cases "m = 0")
  case False
  obtain l where l: "last_common_version d i = Some l" "m - 1 \<le> unat l" using assms(4) False by (auto simp: version_count_def split: option.splits)
  have "of_nat (m - 1) \<le> l" using l(2) unsigned_less [of l, where 'a = nat]
    by (simp add: word_le_nat_alt unat_of_nat take_bit_eq_mod)
  then have "of_nat (m - 1) \<in> versions_of d i" using contiguous_resource [OF assms(1), of i] l(1) by (simp add: contiguous_def)
  then obtain r where "rep_at d i (of_nat (m - 1)) = Some r" using rep_at_None [of d i] by fastforce
  moreover have "rep_at d' i (of_nat (m - 1)) = Some r"
    by (rule rep_at_mono [OF _ _ assms(3) calculation]) (use assms(1,2) in \<open>simp_all add: db_inv_def\<close>)
  ultimately show ?thesis using False by (simp add: tuples_after_def)
qed (simp add: tuples_after_def)

lemma logged_take_le: "length (logged key (take n log)) \<le> length (logged key log)"
  by (metis append_take_drop_id le_add1 length_append logged_append)

lemma logged_unknown:
  assumes "\<forall>op te. (op, te) \<in> set log \<longrightarrow> te_reporterResourceKey te \<noteq> key"
  shows "logged key log = []"
  using assms by (auto simp: logged_def)

lemma report_log:
  assumes rep: "replicated c keys d n s" and r: "reported us cmd txid i d d'" and ov: "no_overflow d" and ex: "exact_versions d'" and k: "known_key d' key j"
  shows "log_ok d' key j" "known_key d key j \<or> logged key (tuple_log (db_wal d)) = []"
    "known_key d key j \<Longrightarrow> log_ok d key j \<and> version_count d j \<ge> length (logged key (tuple_log (db_wal d)))"
proof -
  let ?k = "command_key cmd" and ?log = "tuple_log (db_wal d)"
  have inv: "db_inv d" "db_inv d'" using rep k by (simp_all add: replicated_def known_key_def)
  obtain te where te: "tuple_log (db_wal d') = ?log @ [(operation_string (if \<exists>j. known_key d ?k j then OperationTypeUpdated else OperationTypeCreated), te)]"
    "te_reporterResourceKey te = ?k" "te_commonVersion te = reported_version (rc_CommonRepresentation cmd) (last_common_version d i)"
    using reported_log(1) [OF r ex] by blast
  have ki: "known_key d' ?k i" and sc: "stored_common (rc_CommonRepresentation cmd) i d d'"
    and old: "known_key d key j \<or> key = ?k \<and> j = i" and hist: "known_key d ?k i \<or> last_common_version d i = None"
    using r k by (auto simp: reported_def)
  note V = report_versions [OF inv ov sc ki]
  show U: "known_key d key j \<or> logged key ?log = []"
  proof (cases "\<exists>j'. known_key d key j'")
    case True
    then obtain j' where j': "known_key d key j'" by blast
    then have "known_key d' key j'" using r by (auto simp: reported_def)
    with k known_key_unique(1) j' show ?thesis by blast
  next
    case False
    then have "\<forall>op te. (op, te) \<in> set ?log \<longrightarrow> te_reporterResourceKey te \<noteq> key" using rep unfolding replicated_def by blast
    then show ?thesis by (simp add: logged_unknown)
  qed
  have L: "log_ok d key j" if "known_key d key j" using that rep by (simp add: replicated_def)
  then show "log_ok d key j \<and> version_count d j \<ge> length (logged key ?log)" if "known_key d key j"
    using that by (simp add: log_ok_def)
  have base: "logged key ?log = map of_nat [0..<version_count d j]"
    using U L old hist known_key_unique(1) k by (auto simp: log_ok_def version_count_def)
  show "log_ok d' key j"
  proof (cases "key = ?k")
    case True
    then have j: "j = i" using k ki known_key_unique(1) by blast
    have "logged key (tuple_log (db_wal d')) = map of_nat [0..<version_count d' j]"
      using te base True V(1) j version_count_next [OF no_overflow_last [OF ov], of i]
      by (auto simp: logged_single reported_version_def split: option.splits)
    moreover have "op = ''updated'' \<or> op = ''created'' \<and> te_commonVersion te' \<in> {None, Some 0}"
      if m: "(op, te') \<in> set (tuple_log (db_wal d'))" "te_reporterResourceKey te' = key" for op te'
    proof (cases "(op, te') \<in> set ?log")
      case True
      then obtain j' where "known_key d key j'" using replicatedD(3) [OF rep] m(2) by blast
      from replicatedD(5) [OF rep this] True m show ?thesis unfolding log_ok_def by blast
    next
      case False
      with m te have *: "te' = te" "op = operation_string (if \<exists>j. known_key d ?k j then OperationTypeUpdated else OperationTypeCreated)" by auto
      have "te_commonVersion te \<in> {None, Some 0}" if "\<not> (\<exists>j. known_key d ?k j)"
        using te(3) that hist by (auto simp: reported_version_def next_common_version_def split: option.splits)
      with * show ?thesis by (auto simp: operation_string_def)
    qed
    ultimately show ?thesis by (simp add: log_ok_def)
  next
    case False
    with old have kk: "known_key d key j" by blast
    have "j \<noteq> i" using kk False r ki known_key_unique(2) k by blast
    with L [OF kk] te False V(2) show ?thesis by (auto simp: log_ok_def logged_single)
  qed
qed

lemma replicated_report:
  assumes rep: "replicated c keys d n s" and r: "reported us cmd txid i d d'" and ov: "no_overflow d" and ex: "exact_versions d'"
    and c: "factory_built FeaturesAwareSchemaFactory c" and uniq: "unshared d'"
  shows "replicated c keys d' n s"
proof -
  let ?log = "tuple_log (db_wal d)"
  obtain op te where te: "tuple_log (db_wal d') = ?log @ [(op, te)]" "te_reporterResourceKey te = command_key cmd"
    using reported_log(1) [OF r ex] by blast
  have n: "n \<le> length ?log" using rep by (simp add: replicated_def)
  have ki: "known_key d' (command_key cmd) i" and sc: "stored_common (rc_CommonRepresentation cmd) i d d'" using r by (auto simp: reported_def)
  then have inv: "db_inv d" "db_inv d'" using rep by (simp_all add: replicated_def known_key_def)
  have bwd: "known_key d key j \<or> key = command_key cmd \<and> j = i" if "known_key d' key j" for key j using r that by (auto simp: reported_def)
  have fwd: "known_key d' key j" if "known_key d key j" for key j using r that by (auto simp: reported_def)
  note one = unsharedD [OF uniq]
  have keys: "keys s \<inter> object_keys key = tuples_after c d' key j (length (logged key (take n (tuple_log (db_wal d')))))" if k: "known_key d' key j" for key j
  proof (cases "known_key d key j")
    case True
    have "length (logged key (take n ?log)) \<le> version_count d j"
      using report_log(3) [OF rep r ov ex k True] logged_take_le [of key n ?log] by linarith
    from tuples_after_mono [OF inv report_versions(3) [OF inv ov sc ki] this] True rep n te show ?thesis by (simp add: replicated_def)
  next
    case False
    then have "logged key ?log = []" using report_log(2) [OF rep r ov ex k] by simp
    then have "logged key (take n ?log) = []" using logged_take_le [of key n ?log] by simp
    moreover have "keys s \<inter> object_keys key = {}"
    proof (rule ccontr)
      assume "keys s \<inter> object_keys key \<noteq> {}"
      then obtain t key' j' where t: "t \<in> object_keys key" "known_key d key' j'" "t \<in> object_keys key'" using rep by (fastforce simp: replicated_def)
      then have "same_object key' key" using object_keys_disjoint by blast
      then have "key' = key" using one [OF fwd [OF t(2)] k] by blast
      with t(2) k fwd known_key_unique(1) False show False by blast
    qed
    ultimately show ?thesis using n te c by (simp add: tuples_after_def)
  qed
  have "\<forall>op te. (op, te) \<in> set (tuple_log (db_wal d')) \<longrightarrow> (\<exists>i. known_key d' (te_reporterResourceKey te) i)"
  proof (intro allI impI)
    fix op' te' assume "(op', te') \<in> set (tuple_log (db_wal d'))"
    then have "(op', te') \<in> set ?log \<or> te' = te" using te(1) by auto
    then show "\<exists>i. known_key d' (te_reporterResourceKey te') i" using replicatedD(3) [OF rep] fwd ki te(2) by metis
  qed
  moreover have "\<forall>k \<in> keys s. \<exists>key i. known_key d' key i \<and> k \<in> object_keys key" using rep fwd unfolding replicated_def by blast
  moreover have "n \<le> length (tuple_log (db_wal d'))" using n te(1) by simp
  moreover have "\<forall>(op, j) \<in> set (tuple_entries (db_wal d')). readable j" by (rule reported_log(2) [OF r ex replicatedD(8) [OF rep]])
  ultimately show ?thesis using inv(2) uniq keys report_log(1) [OF rep r ov ex] unfolding replicated_def by blast
qed

section \<open>Consumption\<close>

lemma version_count_bound: "version_count d i \<le> 2 ^ 64"
  using unsigned_less [where 'a = nat and 'b = 64] by (auto simp: version_count_def less_eq_Suc_le split: option.splits)

text \<open>The position of a message among those of its key determines the version it carries.\<close>

lemma logged_position:
  assumes ok: "log_ok d key i" and n: "n < length (tuple_log (db_wal d))" "tuple_log (db_wal d) ! n = (op, te)"
    and te: "te_reporterResourceKey te = key" "te_commonVersion te = Some w"
  defines "m \<equiv> length (logged key (take n (tuple_log (db_wal d))))"
  shows "w = of_nat m" "m < version_count d i" "unat w = m"
proof -
  let ?log = "tuple_log (db_wal d)"
  have "logged key ?log = logged key (take n ?log @ [(op, te)] @ drop (Suc n) ?log)" using id_take_nth_drop [OF n(1)] n(2) by simp
  also have "\<dots> = logged key (take n ?log) @ w # logged key (drop (Suc n) ?log)"
    using te by (simp add: logged_single del: append_Cons append_Nil)
  finally have *: "map of_nat [0..<version_count d i] = logged key (take n ?log) @ w # logged key (drop (Suc n) ?log)"
    using ok by (simp add: log_ok_def)
  from arg_cong [OF this, of length] show m: "m < version_count d i" by (simp add: m_def)
  from arg_cong [OF *, of "\<lambda>xs. xs ! m"] m show w: "w = of_nat m" by (simp add: m_def nth_append)
  show "unat w = m" using m version_count_bound [of d i] w by (simp add: unat_of_nat take_bit_eq_mod)
qed

lemma message_transition:
  assumes rep: "replicated c keys d n s" and c: "factory_built FeaturesAwareSchemaFactory c"
    and n: "n < length (tuple_log (db_wal d))" "tuple_log (db_wal d) ! n = (op, te)"
    and k: "known_key d (te_reporterResourceKey te) i"
  defines "key \<equiv> te_reporterResourceKey te"
  shows "op \<in> {''created'', ''updated'', ''deleted''}"
    "te_commonVersion te \<noteq> None \<Longrightarrow> tuples_at c key (previous_of d i op (te_commonVersion te)) = keys s \<inter> object_keys key"
    "te_commonVersion te = None \<Longrightarrow> tuples_at c key (previous_of d i op (te_commonVersion te)) = {}"
    "te_commonVersion te = None \<Longrightarrow> tuples_at c key (current_of d i op (te_commonVersion te)) = {}"
    "te_commonVersion te \<noteq> None \<Longrightarrow> tuples_at c key (current_of d i op (te_commonVersion te)) =
       tuples_after c d key i (length (logged key (take (Suc n) (tuple_log (db_wal d)))))"
proof -
  let ?log = "tuple_log (db_wal d)"
  have ok: "log_ok d key i" using replicatedD(5) [OF rep k] by (simp add: key_def)
  have mem: "(op, te) \<in> set ?log" using n by (metis nth_mem)
  then have op: "op = ''updated'' \<or> op = ''created'' \<and> te_commonVersion te \<in> {None, Some 0}" using ok unfolding log_ok_def key_def by blast
  then show "op \<in> {''created'', ''updated'', ''deleted''}" by blast
  show "te_commonVersion te = None \<Longrightarrow> tuples_at c key (previous_of d i op (te_commonVersion te)) = {}"
    "te_commonVersion te = None \<Longrightarrow> tuples_at c key (current_of d i op (te_commonVersion te)) = {}"
    using op c by (auto simp: previous_of_def current_of_def)
  assume "te_commonVersion te \<noteq> None"
  then obtain w where w: "te_commonVersion te = Some w" by blast
  note pos = logged_position [OF ok n _ w, unfolded key_def, OF refl, folded key_def]
  have m': "length (logged key (take (Suc n) ?log)) = Suc (length (logged key (take n ?log)))"
    using n w by (simp add: take_Suc_conv_app_nth logged_single key_def)
  show "tuples_at c key (current_of d i op (te_commonVersion te)) = tuples_after c d key i (length (logged key (take (Suc n) ?log)))"
    using op w m' pos(1) by (auto simp: current_of_def tuples_after_def)
  have "tuples_at c key (previous_of d i op (te_commonVersion te)) = tuples_after c d key i (length (logged key (take n ?log)))"
    using op w pos(1,3) by (cases "length (logged key (take n ?log))") (auto simp: previous_of_def tuples_after_def unat_eq_zero)
  also have "\<dots> = keys s \<inter> object_keys key" using replicatedD(6) [OF rep k] by (simp add: key_def)
  finally show "tuples_at c key (previous_of d i op (te_commonVersion te)) = keys s \<inter> object_keys key" .
qed

lemma log_entry:
  assumes "n < length (tuple_entries w)" "tuple_entries w ! n = (op, j)" "\<forall>(op, j) \<in> set (tuple_entries w). readable j" "carries msg j"
  shows "n < length (tuple_log w)" "tuple_log w ! n = (op, entry_event j)"
    "event_message msg (te_reporterResourceKey (entry_event j)) (te_commonVersion (entry_event j))"
proof -
  show "n < length (tuple_log w)" "tuple_log w ! n = (op, entry_event j)" using assms(1,2) by (simp_all add: tuple_log_def)
  have "(op, j) \<in> set (tuple_entries w)" using assms(1,2) by (metis nth_mem)
  with assms(3) have "readable j" by blast
  with assms(4) show "event_message msg (te_reporterResourceKey (entry_event j)) (te_commonVersion (entry_event j))" by (rule carries_event)
qed

lemma replicated_consume:
  assumes rep: "replicated (cv_schemas env) keys d n s" and store: "tuple_store (cv_relations env) keys valid ok"
    and c: "factory_built FeaturesAwareSchemaFactory (cv_schemas env)" and on: "cv_relationsEnabled env" and v: "valid s"
    and entry: "n < length (tuple_entries (db_wal d))" "tuple_entries (db_wal d) ! n = (op, j)"
    and msg: "carries msg j" and h: "go_map_get headers ''operation'' = op"
    and run: "ProcessMessage env fc queryErr d headers msg s = Some (Inr resp, s')" and ok: "storable_db ok (cv_schemas env) d"
  shows "replicated (cv_schemas env) keys d (Suc n) s' \<and> valid s'"
proof -
  define te where "te = entry_event j"
  note E = log_entry [OF entry replicatedD(8) [OF rep] msg, folded te_def]
  note n = E(1,2) and msg = E(3)
  let ?log = "tuple_log (db_wal d)" and ?c = "cv_schemas env" and ?key = "te_reporterResourceKey te"
  have "(op, te) \<in> set ?log" using n by (metis nth_mem)
  then obtain i where k: "known_key d ?key i" using replicatedD(3) [OF rep] by blast
  note T = message_transition [OF rep c n k]
  let ?old = "tuples_at ?c ?key (previous_of d i op (te_commonVersion te))" and ?new = "tuples_at ?c ?key (current_of d i op (te_commonVersion te))"
  have "?old \<subseteq> keys s" using T(2,3) by (cases "te_commonVersion te = None") auto
  from message_effect [OF store c on k msg T(1) h v this run storable_versions [OF ok c k]] have eff: "valid s'" "keys s' = (keys s - ?old) \<union> ?new" by simp_all
  note obj = tuples_at_object [of ?c ?key]
  have step: "logged key (take (Suc n) ?log) = logged key (take n ?log) @ logged key [(op, te)]" for key
    using n by (simp add: take_Suc_conv_app_nth)
  have "keys s' \<inter> object_keys key = tuples_after ?c d key j (length (logged key (take (Suc n) ?log)))" if kj: "known_key d key j" for key j
  proof (cases "key = ?key")
    case True
    then have j: "j = i" using kj k known_key_unique(1) by blast
    show ?thesis
    proof (cases "te_commonVersion te = None")
      case None: True
      then have "keys s' = keys s" using eff T(3,4) by simp
      with None replicatedD(6) [OF rep kj] step [of key] show ?thesis by (simp add: logged_single)
    next
      case False
      have "?new \<subseteq> object_keys ?key" by (rule obj)
      with T(5) [OF False] have "tuples_after ?c d ?key i (length (logged ?key (take (Suc n) ?log))) \<subseteq> object_keys ?key" by simp
      with T(2,5) [OF False] eff(2) True j show ?thesis by auto
    qed
  next
    case False
    then have "object_keys ?key \<inter> object_keys key = {}" using object_keys_disjoint replicatedD(4) [OF rep k kj] by blast
    then have "keys s' \<inter> object_keys key = keys s \<inter> object_keys key" using eff(2) obj by blast
    with replicatedD(6) [OF rep kj] step [of key] False show ?thesis by (simp add: logged_single)
  qed
  moreover have "\<exists>key i. known_key d key i \<and> x \<in> object_keys key" if "x \<in> keys s'" for x
    using that eff(2) obj k replicatedD(7) [OF rep, of x] by blast
  ultimately show ?thesis using rep n(1) eff(1) unfolding replicated_def by (simp add: Suc_le_eq)
qed

text \<open>What the theorems ask of the tables. Since rows are only added, tables that satisfy it satisfied it before every report.\<close>

definition replicable :: "(relations_tuple \<Rightarrow> bool) \<Rightarrow> schema_content \<Rightarrow> db \<Rightarrow> bool" where
  "replicable ok c d \<longleftrightarrow> unshared d \<and> storable_db ok c d \<and> exact_versions d"

lemma exact_versions_back: "grows d d' \<Longrightarrow> exact_versions d' \<Longrightarrow> exact_versions d"
  by (auto simp: exact_versions_def grows_def list_all_iff)

lemma storable_db_back:
  assumes "storable_db ok c d'" "grows d d'" "\<And>key j. known_key d key j \<Longrightarrow> known_key d' key j"
    and "common_keys_unique d" "common_keys_unique d'" "factory_built FeaturesAwareSchemaFactory c"
  shows "storable_db ok c d"
  unfolding storable_db_def
proof (intro allI impI)
  fix key j v assume k: "known_key d key j"
  show "storable ok c key (rep_at d j v)"
  proof (cases "rep_at d j v")
    case (Some r)
    have "rep_at d' j v = Some r" by (rule rep_at_mono [OF assms(4,5) _ Some]) (use assms(2) in \<open>simp add: grows_def\<close>)
    with assms(1) assms(3) [OF k] show ?thesis unfolding Some storable_db_def by metis
  qed (simp add: assms(6))
qed

lemma report_step:
  assumes "gorm_store (us_gorm uc)" "db_inv d" "exact_versions d'" "report_tx uc cmd (command_key cmd) tid txid a d = Inr d'"
    and "fresh_ids a d" "sound_read a" "rrk_reporterInstanceId (command_key cmd) \<noteq> []" and c: "factory_built FeaturesAwareSchemaFactory c"
  shows "exact_versions d" "\<exists>i. reported (g_uuid_string (us_gorm uc)) cmd txid i d d'" "replicable ok c d' \<Longrightarrow> replicable ok c d"
proof -
  note grows = report_tx_grows [OF assms(1,4)]
  show ex: "exact_versions d" by (rule exact_versions_back [OF grows assms(3)])
  obtain i where r: "reported (g_uuid_string (us_gorm uc)) cmd txid i d d'"
    using gorm_store.report_tx_effect [OF assms(1,2) exact_no_overflow [OF ex] assms(5-7) refl assms(4)] by blast
  then show "\<exists>i. reported (g_uuid_string (us_gorm uc)) cmd txid i d d'" ..
  have fwd: "known_key d' key j" if "known_key d key j" for key j using r that by (auto simp: reported_def)
  have "db_inv d'" using r by (auto simp: reported_def known_key_def)
  then have u: "common_keys_unique d" "common_keys_unique d'" using assms(2) by (simp_all add: db_inv_def)
  show "replicable ok c d" if d': "replicable ok c d'"
    using d' ex fwd storable_db_back [OF _ grows fwd u c] unfolding replicable_def unshared_def by blast
qed

lemma system_replicated:
  assumes "system uc env \<sigma> \<tau>" "tuple_store (cv_relations env) keys valid ok" "factory_built FeaturesAwareSchemaFactory (cv_schemas env)"
    and "cv_relationsEnabled env" "gorm_store (us_gorm uc)"
    and "replicated (cv_schemas env) keys (fst \<sigma>) (fst (snd \<sigma>)) (snd (snd \<sigma>))" "valid (snd (snd \<sigma>))"
  shows "(exact_versions (fst \<tau>) \<longrightarrow> db_inv (fst \<tau>)) \<and> (replicable ok (cv_schemas env) (fst \<tau>) \<longrightarrow>
    replicated (cv_schemas env) keys (fst \<tau>) (fst (snd \<tau>)) (snd (snd \<tau>)) \<and> valid (snd (snd \<tau>)))"
  using assms(1)
proof induction
  case start
  then show ?case using assms(6,7) replicatedD(1) [OF assms(6)] by simp
next
  case (report d n s cmd tid txid a d')
  have step: "db_inv d' \<and> (replicable ok (cv_schemas env) d' \<longrightarrow> replicated (cv_schemas env) keys d' n s \<and> valid s)" if ex: "exact_versions d'"
  proof -
    have "exact_versions d" by (rule exact_versions_back [OF report_tx_grows [OF assms(5) report(2)] ex])
    then have "db_inv d" using report.IH by simp
    note R = report_step [OF assms(5) this ex report(2-5) assms(3)]
    obtain i where i: "reported (g_uuid_string (us_gorm uc)) cmd txid i d d'" using R(2) ..
    have "replicated (cv_schemas env) keys d' n s \<and> valid s" if d': "replicable ok (cv_schemas env) d'"
      using replicated_report [OF _ i exact_no_overflow [OF R(1)] ex assms(3)] report.IH R(3) [OF d'] d' by (auto simp: replicable_def)
    then show ?thesis using i by (auto simp: reported_def known_key_def)
  qed
  then show ?case by (auto simp: replicable_def)
next
  case (consume d n s op j msg headers fc queryErr resp s')
  then show ?case using replicated_consume [OF _ assms(2,3,4) _ consume(2-6)] by (auto simp: replicable_def)
qed

section \<open>Replication of a history of reports\<close>

definition latest_tuples :: "schema_content \<Rightarrow> db \<Rightarrow> reporter_resource_key \<Rightarrow> uuid \<Rightarrow> simpleTupleKey set" where
  "latest_tuples c d key i = tuples_at c key (case last_common_version d i of None \<Rightarrow> None | Some v \<Rightarrow> rep_at d i v)"

lemma tuples_after_all: "tuples_after c d key i (version_count d i) = latest_tuples c d key i"
  by (auto simp: tuples_after_def latest_tuples_def version_count_def split: option.splits)

lemma no_known_key [simp]: "\<not> known_key empty_db key i"
  by (simp add: known_key_def empty_db_def)

lemma replicable_start: "replicable ok c empty_db"
  by (simp add: replicable_def storable_db_def unshared_def) (simp add: exact_versions_def empty_db_def)

lemma replicated_start: "keys s = {} \<Longrightarrow> replicated c keys empty_db 0 s"
  using empty_db_inv by (simp add: replicated_def unshared_def) (simp add: empty_db_def tuple_log_def tuple_entries_def)

lemma replicated_union:
  assumes "replicated c keys d n s"
  shows "keys s = (\<Union>(key, i) \<in> {(key, i). known_key d key i}. tuples_after c d key i (length (logged key (take n (tuple_log (db_wal d))))))"
    (is "_ = ?U")
proof (intro set_eqI iffI)
  fix x assume "x \<in> keys s"
  moreover from this obtain key i where "known_key d key i" "x \<in> object_keys key" using replicatedD(7) [OF assms] by blast
  ultimately show "x \<in> ?U" using replicatedD(6) [OF assms] by blast
next
  fix x assume "x \<in> ?U"
  then show "x \<in> keys s" using replicatedD(6) [OF assms] by blast
qed

text \<open>The message of a log entry, as the connector wraps it.\<close>

definition relayed :: "string \<times> json \<Rightarrow> kafka_message" where
  "relayed entry = \<lparr>km_TopicPartition = \<lparr>tp_Partition = 0, tp_Offset = 7\<rparr>, km_Headers = [(''operation'', fst entry), (''txid'', [])],
     km_Key = Some (JObj [(''payload'', JStr ''u'')]), km_Value = Some (JObj [(''payload'', snd entry)])\<rparr>"

lemma relayed_carries: "carries (relayed (op, j)) j"
  by (simp add: carries_def relayed_def schema_field_ok_def)

text \<open>Processing of the entry of the log at a position, with the representations read from the given database.\<close>

definition process_entry :: "'s consumer_env \<Rightarrow> db \<Rightarrow> nat \<Rightarrow> 's \<Rightarrow> (string result \<times> 's) option" where
  "process_entry env d n s = (let entry = tuple_entries (db_wal d) ! n in
     ProcessMessage env (NewFencingCheck ''l'' ''t'') None d [(''operation'', fst entry), (''txid'', [])] (relayed entry) s)"

lemma consume_entry:
  assumes "system uc env \<sigma> (d, n, s)" "n < length (tuple_entries (db_wal d))" "process_entry env d n s = Some (Inr resp, s')"
  shows "system uc env \<sigma> (d, Suc n, s')"
proof (cases "tuple_entries (db_wal d) ! n")
  case (Pair op j)
  show ?thesis
    by (rule system.consume [OF assms(1,2) Pair relayed_carries])
      (use assms(3) Pair in \<open>simp_all add: process_entry_def Let_def go_map_get_def\<close>)
qed

lemma system_tuples:
  assumes "tuple_store (cv_relations env) keys valid ok" "factory_built FeaturesAwareSchemaFactory (cv_schemas env)"
    and "cv_relationsEnabled env" "gorm_store (us_gorm uc)" "keys s0 = {}" "valid s0" "system uc env (empty_db, 0, s0) (d, n, s)"
    and "replicable ok (cv_schemas env) d"
  shows "keys s = (\<Union>(key, i) \<in> {(key, i). known_key d key i}.
      tuples_after (cv_schemas env) d key i (length (logged key (take n (tuple_log (db_wal d)))))) \<and>
    (n = length (tuple_log (db_wal d)) \<longrightarrow>
      keys s = (\<Union>(key, i) \<in> {(key, i). known_key d key i}. latest_tuples (cv_schemas env) d key i))"
proof -
  have rep: "replicated (cv_schemas env) keys d n s"
    using system_replicated [OF assms(7,1-4)] replicated_start [of keys s0 "cv_schemas env", OF assms(5)] assms(6,8) by simp
  have "tuples_after (cv_schemas env) d key i (length (logged key (tuple_log (db_wal d)))) = latest_tuples (cv_schemas env) d key i" if "known_key d key i" for key i
    using replicatedD(5) [OF rep that] by (simp add: log_ok_def tuples_after_all)
  with replicated_union [OF rep] show ?thesis by auto
qed

text \<open>C1. Reports reach the relations store: however reports and consumption interleave, from empty tables and an
  empty store, the stored tuples are at every moment those of the versions consumed so far, resource by
  resource; once the log is consumed they are exactly the tuples of the latest common representation of
  every resource, with nothing left over from earlier versions. The tables reached must satisfy three conditions: no two reported resources
  have the reporter type, resource type and local identifier in common, since tuples do not name the reporter instance; the store admits the
  tuples of the stored representations; and versions are below \<open>2 ^ 53\<close>, which messages carry exactly.\<close>

theorem reports_replicated:
  assumes "tuple_store (cv_relations env) keys valid ok" "factory_built FeaturesAwareSchemaFactory (cv_schemas env)"
    and "cv_relationsEnabled env" "gorm_store (us_gorm uc)" "keys s0 = {}" "valid s0" "system uc env (empty_db, 0, s0) (d, n, s)"
    and "unshared d" "storable_db ok (cv_schemas env) d" "exact_versions d"
  shows "keys s = (\<Union>(key, i) \<in> {(key, i). known_key d key i}.
      tuples_after (cv_schemas env) d key i (length (logged key (take n (tuple_log (db_wal d)))))) \<and>
    (n = length (tuple_log (db_wal d)) \<longrightarrow>
      keys s = (\<Union>(key, i) \<in> {(key, i). known_key d key i}. latest_tuples (cv_schemas env) d key i))"
  by (rule system_tuples [OF assms(1-7)]) (use assms(8-10) in \<open>simp add: replicable_def\<close>)

text \<open>A service is reported in one workspace and then in another; the consumer runs after the second report.\<close>

definition moved_command :: report_resource_command where
  "moved_command = sample_command\<lparr>rc_TransactionId := Some ''t2'', rc_CommonRepresentation := Some (sample_common ''w2'')\<rparr>"

definition moved_attempt :: attempt where
  "moved_attempt = sample_attempt\<lparr>at_resourceId := Inr 17, at_reporterResourceId := Inr 19, at_newUUID := Inr 21\<rparr>"

definition sample_report_db :: "db result" where
  "sample_report_db = report_tx sample_usecase sample_command (command_key sample_command) ''t1'' ''x1'' sample_attempt empty_db"

definition moved_report_db :: "db result" where
  "moved_report_db = (case sample_report_db of Inl e \<Rightarrow> Inl e
     | Inr d \<Rightarrow> report_tx sample_usecase moved_command (command_key moved_command) ''t2'' ''x2'' moved_attempt d)"

definition moved_run :: "(string result \<times> simple_relations_repository) option" where
  "moved_run = (case moved_report_db of Inl e \<Rightarrow> None
     | Inr d \<Rightarrow> (case process_entry moved_env d 0 NewSimpleRelationsRepository of
          Some (Inr _, s) \<Rightarrow> process_entry moved_env d 1 s | _ \<Rightarrow> None))"

lemma moved_run_evaluates:
  "case moved_run of Some (Inr _, s) \<Rightarrow> sr_tuples s = [simpleTupleKeyFromModelTuple (NewWorkspaceRelationsTuple ''w2'' (command_key sample_command))] | _ \<Rightarrow> False"
  by code_simp

lemma reported_keys:
  assumes "reported us cmd txid i d d'"
  shows "db_inv d'" "known_key d' key j \<Longrightarrow> known_key d key j \<or> key = command_key cmd"
  using assms unfolding reported_def known_key_def by blast+

lemma one_resource:
  assumes "\<And>key i. known_key d key i \<Longrightarrow> key = key0" "\<And>ro. storable ok c key0 ro" "exact_versions d"
  shows "replicable ok c d"
  using assms unfolding replicable_def unshared_def storable_db_def by blast

lemma moved_reports:
  assumes "cv_schemas env = []" "\<And>ro. storable ok [] (command_key sample_command) ro"
  shows "\<exists>d'. system sample_usecase env (empty_db, 0, s) (d', 0, s) \<and> moved_report_db = Inr d' \<and> length (tuple_log (db_wal d')) = 2 \<and> replicable ok [] d'"
proof -
  have "case sample_report_db of Inr d \<Rightarrow> no_overflow d \<and> fresh_ids moved_attempt d \<and>
      (case moved_report_db of Inr d' \<Rightarrow> length (tuple_log (db_wal d')) = 2 \<and> exact_versions d' | _ \<Rightarrow> False) | _ \<Rightarrow> False"
    by code_simp
  then obtain d d' where d: "sample_report_db = Inr d" "no_overflow d" "fresh_ids moved_attempt d" "moved_report_db = Inr d'" "length (tuple_log (db_wal d')) = 2"
    "exact_versions d'" by (auto split: sum.splits)
  have fresh: "fresh_ids sample_attempt empty_db" "sound_read sample_attempt" "sound_read moved_attempt"
    by (simp_all add: fresh_ids_def sound_read_def moved_attempt_def sample_attempt_def empty_db_def)
  have key: "command_key moved_command = command_key sample_command" by (simp add: command_key_def moved_command_def)
  have tx: "report_tx sample_usecase sample_command (command_key sample_command) ''t1'' ''x1'' sample_attempt empty_db = Inr d"
    "report_tx sample_usecase moved_command (command_key moved_command) ''t2'' ''x2'' moved_attempt d = Inr d'"
    using d(1,4) by (simp_all add: sample_report_db_def moved_report_db_def)
  have id: "rrk_reporterInstanceId (command_key moved_command) \<noteq> []" using sample_hypotheses(5) key by simp
  obtain i1 where r1: "reported (g_uuid_string (us_gorm sample_usecase)) sample_command ''x1'' i1 empty_db d"
    using gorm_store.report_tx_effect [OF sample_hypotheses(1) empty_db_inv sample_hypotheses(3) fresh(1,2) sample_hypotheses(5) refl tx(1)] by blast
  obtain i2 where r2: "reported (g_uuid_string (us_gorm sample_usecase)) moved_command ''x2'' i2 d d'"
    using gorm_store.report_tx_effect [OF sample_hypotheses(1) reported_keys(1) [OF r1] d(2,3) fresh(3) id refl tx(2)] by blast
  have known: "key = command_key sample_command" if "known_key d' key i" for key i
    using reported_keys(2) [OF r2 that] reported_keys(2) [OF r1] key by auto
  have "system sample_usecase env (empty_db, 0, s) (d, 0, s)"
    by (rule system.report [OF system.start tx(1) fresh(1,2) sample_hypotheses(5)])
  then have "system sample_usecase env (empty_db, 0, s) (d', 0, s)"
    by (rule system.report [OF _ tx(2) d(3) fresh(3) id])
  moreover have "replicable ok [] d'" by (rule one_resource [OF _ assms(2) d(6)]) (rule known)
  ultimately show ?thesis using d(4,5) by blast
qed

lemma two_steps:
  assumes "case (case p of Some (Inr _, s) \<Rightarrow> f s | _ \<Rightarrow> None) of Some (Inr _, s) \<Rightarrow> P s | _ \<Rightarrow> False"
  shows "\<exists>r1 s1 r2 s2. p = Some (Inr r1, s1) \<and> f s1 = Some (Inr r2, s2) \<and> P s2"
  using assms by (auto split: option.splits prod.splits sum.splits)

theorem reports_replicated_witness:
  "\<exists>d s. system sample_usecase moved_env (empty_db, 0, NewSimpleRelationsRepository) (d, 2, s) \<and> length (tuple_log (db_wal d)) = 2 \<and>
     set (sr_tuples s) = (\<Union>(key, i) \<in> {(key, i). known_key d key i}. latest_tuples [] d key i) \<and>
     set (sr_tuples s) = {simpleTupleKeyFromModelTuple (NewWorkspaceRelationsTuple ''w2'' (command_key sample_command))}"
proof -
  let ?s0 = NewSimpleRelationsRepository
  obtain d where d: "system sample_usecase moved_env (empty_db, 0, ?s0) (d, 0, ?s0)" "moved_report_db = Inr d" "length (tuple_log (db_wal d)) = 2"
    and rd: "replicable wf_tuple [] d"
    using moved_reports [of moved_env wf_tuple ?s0] by auto
  have len: "length (tuple_entries (db_wal d)) = 2" using d(3) by (simp add: tuple_log_def)
  obtain r1 s1 r2 s2 where r: "process_entry moved_env d 0 ?s0 = Some (Inr r1, s1)" "process_entry moved_env d 1 s1 = Some (Inr r2, s2)"
    and t: "sr_tuples s2 = [simpleTupleKeyFromModelTuple (NewWorkspaceRelationsTuple ''w2'' (command_key sample_command))]"
    using two_steps [OF moved_run_evaluates [unfolded moved_run_def d(2) sum.case]] by blast
  have "system sample_usecase moved_env (empty_db, 0, ?s0) (d, Suc 0, s1)" by (rule consume_entry [OF d(1) _ r(1)]) (simp add: len)
  then have run: "system sample_usecase moved_env (empty_db, 0, ?s0) (d, 2, s2)"
    using consume_entry [of _ _ _ d "Suc 0" s1, OF _ _ r(2) [unfolded One_nat_def]] len by (simp add: numeral_2_eq_2)
  have env: "cv_relations moved_env = simple_relations" "cv_schemas moved_env = []" "cv_relationsEnabled moved_env" by (simp_all add: moved_env_def)
  have "set (sr_tuples s2) = (\<Union>(key, i) \<in> {(key, i). known_key d key i}. latest_tuples [] d key i)"
    using reports_replicated [of moved_env, unfolded env(1,2), OF simple_store.tuple_store_axioms moved_schemas env(3) sample_hypotheses(1) _ _ run, THEN conjunct2, THEN mp] d(3) rd
    by (simp add: NewSimpleRelationsRepository_def simple_inv_def replicable_def)
  moreover have "set (sr_tuples s2) = {simpleTupleKeyFromModelTuple (NewWorkspaceRelationsTuple ''w2'' (command_key sample_command))}" using t by simp
  ultimately show ?thesis using run d(3) by (intro exI conjI)
qed

section \<open>Reporting again after a deletion\<close>

lemma announced_message:
  assumes "announced us key i cv rv op txid d d'" "tuple_entries (db_wal d') = tuple_entries (db_wal d) @ [(op', j)]"
    and "exact_version cv" "exact_version rv" "carries msg j"
  shows "op' = operation_string op" "event_message msg key cv"
proof -
  obtain te where te: "te_reporterResourceKey te = key" "te_commonVersion te = cv" "te_reporterRepresentationVersion te = rv"
    "op' = operation_string op" "j = json_floats (TupleEvent_MarshalJSON te)"
    using announced_entries [OF assms(1)] assms(2) by auto
  then have "readable j" "entry_event j = te" using assms(3,4) by (auto simp: readable_def entry_event_exact)
  with carries_event [OF assms(5)] te show "op' = operation_string op" "event_message msg key cv" by auto
qed

text \<open>The versions around a report: the one before it and the one it stores.\<close>

lemma reported_transition:
  assumes "reported us cmd txid i d d'" "db_inv d" "db_inv d'" "no_overflow d" "factory_built FeaturesAwareSchemaFactory c"
  defines "cv \<equiv> reported_version (rc_CommonRepresentation cmd) (last_common_version d i)"
  shows "tuples_at c key (current_of d' i ''updated'' cv) - tuples_at c key (previous_of d' i ''updated'' cv) = latest_tuples c d' key i - latest_tuples c d key i"
    "tuples_at c key (previous_of d' i ''updated'' cv) - tuples_at c key (current_of d' i ''updated'' cv) = latest_tuples c d key i - latest_tuples c d' key i"
proof -
  let ?n = "version_count d i"
  have sc: "stored_common (rc_CommonRepresentation cmd) i d d'" and k: "known_key d' (command_key cmd) i" using assms(1) by (simp_all add: reported_def)
  note V = report_versions [OF assms(2-4) sc k]
  have old: "tuples_after c d' key i ?n = latest_tuples c d key i"
    using tuples_after_mono [OF assms(2,3) V(3) order_refl] by (simp add: tuples_after_all)
  have new: "tuples_after c d' key i (version_count d' i) = latest_tuples c d' key i" by (rule tuples_after_all)
  have "tuples_at c key (current_of d' i ''updated'' cv) - tuples_at c key (previous_of d' i ''updated'' cv) = latest_tuples c d' key i - latest_tuples c d key i \<and>
    tuples_at c key (previous_of d' i ''updated'' cv) - tuples_at c key (current_of d' i ''updated'' cv) = latest_tuples c d key i - latest_tuples c d' key i"
  proof (cases "rc_CommonRepresentation cmd")
    case None
    then have "latest_tuples c d' key i = latest_tuples c d key i" using old new V(1) by simp
    with None assms(5) show ?thesis by (simp add: cv_def reported_version_def current_of_def previous_of_def)
  next
    case (Some x)
    note nx = version_count_next [OF no_overflow_last [OF assms(4)], of i]
    have cv: "cv = Some (of_nat ?n)" using Some nx by (simp add: cv_def reported_version_def)
    have "tuples_at c key (current_of d' i ''updated'' cv) = latest_tuples c d' key i"
      using new V(1) Some cv by (simp add: current_of_def tuples_after_def)
    moreover have "tuples_at c key (previous_of d' i ''updated'' cv) = latest_tuples c d key i"
    proof (cases ?n)
      case (Suc n)
      have "unat (of_nat ?n :: version) = ?n" using nx by (simp add: unat_of_nat take_bit_eq_mod)
      then have "of_nat ?n \<noteq> (0 :: version)" using Suc by (metis unat_0 nat.distinct(1))
      with old cv Suc show ?thesis by (simp add: previous_of_def tuples_after_def)
    qed (use old cv in \<open>simp add: previous_of_def tuples_after_def\<close>)
    ultimately show ?thesis by simp
  qed
  then show "tuples_at c key (current_of d' i ''updated'' cv) - tuples_at c key (previous_of d' i ''updated'' cv) = latest_tuples c d' key i - latest_tuples c d key i"
    "tuples_at c key (previous_of d' i ''updated'' cv) - tuples_at c key (current_of d' i ''updated'' cv) = latest_tuples c d key i - latest_tuples c d' key i" by simp_all
qed

lemma reported_message_effect:
  assumes "tuple_store (cv_relations env) keys valid ok" "factory_built FeaturesAwareSchemaFactory (cv_schemas env)" "cv_relationsEnabled env"
    and r: "reported us cmd txid i d d'" and inv: "db_inv d" "no_overflow d" "known_key d (command_key cmd) i"
    and ex: "exact_versions d'" and ok: "storable_db ok (cv_schemas env) d'" and v: "valid s"
    and m: "tuple_entries (db_wal d') = tuple_entries (db_wal d) @ [(op, j)]" "carries msg j" "go_map_get headers ''operation'' = op"
    and run: "ProcessMessage env fc queryErr d' headers msg s = Some (Inr resp, s')"
  shows "keys s' = (keys s \<union> (latest_tuples (cv_schemas env) d' (command_key cmd) i - latest_tuples (cv_schemas env) d (command_key cmd) i)) -
    (latest_tuples (cv_schemas env) d (command_key cmd) i - latest_tuples (cv_schemas env) d' (command_key cmd) i)"
proof -
  have k: "known_key d' (command_key cmd) i" using r by (simp add: reported_def)
  then have inv': "db_inv d'" by (simp add: known_key_def)
  obtain rv where an: "announced us (command_key cmd) i (reported_version (rc_CommonRepresentation cmd) (last_common_version d i)) rv
      (if \<exists>j. known_key d (command_key cmd) j then OperationTypeUpdated else OperationTypeCreated) txid d d'"
    "exact_version (reported_version (rc_CommonRepresentation cmd) (last_common_version d i))" "exact_version rv"
    by (rule reported_exact [OF r ex])
  note e = announced_message [OF an(1) m(1) an(2,3) m(2)]
  have op: "op = ''updated''" using e(1) inv(3) by (auto simp: operation_string_def)
  from message_outcome [OF assms(1-3) k e(2) _ m(3) v storable_versions [OF ok assms(2) k] run] op reported_transition [OF r inv(1) inv' inv(2) assms(2)]
  show ?thesis by (simp add: outcome_def)
qed

lemma removed_message_effect:
  assumes "tuple_store (cv_relations env) keys valid ok" "factory_built FeaturesAwareSchemaFactory (cv_schemas env)" "cv_relationsEnabled env"
    and r: "removed us key txid i d d'" and inv: "db_inv d" "db_inv d'" and ex: "exact_versions d'" and ok: "storable_db ok (cv_schemas env) d'" and v: "valid s"
    and m: "tuple_entries (db_wal d') = tuple_entries (db_wal d) @ [(op, j)]" "carries msg j" "go_map_get headers ''operation'' = op"
    and run: "ProcessMessage env fc queryErr d' headers msg s = Some (Inr resp, s')"
  shows "keys s' = keys s - latest_tuples (cv_schemas env) d key i" "valid s'" "latest_tuples (cv_schemas env) d' key i = latest_tuples (cv_schemas env) d key i"
proof -
  obtain old row rep where o: "tombstoned_row old row rep" "set (db_reporter_representations d') = set (db_reporter_representations d) \<union> set_option rep"
    "if rrs_Tombstone old then db_wal d' = db_wal d else announced us key i None (Some (rrs_RepresentationVersion row)) OperationTypeDeleted txid d d'"
    and k: "known_key d' key i" and common: "set (db_common_representations d') = set (db_common_representations d)"
    using r unfolding removed_def by blast
  have "\<not> rrs_Tombstone old" using o(3) m(1) by auto
  with o ex have an: "announced us key i None (Some (rrs_RepresentationVersion row)) OperationTypeDeleted txid d d'"
    "exact_version (Some (rrs_RepresentationVersion row))"
    by (auto simp: tombstoned_row_def exact_versions_def list_all_iff)
  note e = announced_message [OF an(1) m(1) _ an(2) m(2)]
  have op: "op = ''deleted''" using e(1) by (simp add: operation_string_def)
  have "versions_of d' i = versions_of d i" using common by (simp add: versions_of_def)
  then have "version_count d' i = version_count d i" by (simp add: version_count_def last_common_version_cong [of d' i d i])
  then show latest: "latest_tuples (cv_schemas env) d' key i = latest_tuples (cv_schemas env) d key i"
    using tuples_after_mono [OF inv, of "version_count d i" i "cv_schemas env" key] common by (simp add: tuples_after_all [symmetric])
  from message_outcome [OF assms(1-3) k e(2) _ m(3) v storable_versions [OF ok assms(2) k] run] op
  have "outcome keys valid (tuples_at (cv_schemas env) key (current_of d' i op None) - tuples_at (cv_schemas env) key (previous_of d' i op None))
      (tuples_at (cv_schemas env) key (previous_of d' i op None) - tuples_at (cv_schemas env) key (current_of d' i op None)) s (Inr resp) s'" by simp
  moreover have "tuples_at (cv_schemas env) key (current_of d' i op None) = {}" "tuples_at (cv_schemas env) key (previous_of d' i op None) = latest_tuples (cv_schemas env) d' key i"
    using op assms(2) by (simp_all add: current_of_def previous_of_def latest_tuples_def)
  ultimately show "keys s' = keys s - latest_tuples (cv_schemas env) d key i" "valid s'" using latest by (simp_all add: outcome_def)
qed

text \<open>C40. A resource that is deleted and reported again gets only the tuples that its last representation before the deletion did not have: when the
  messages of the deletion and of the report are processed, the store holds what it held before less the tuples of the old
  representation, and of the new one those that the old one lacks, because the consumer compares the new
  representation with the one before the deletion. Reported again in its former workspace it is not linked at all.\<close>

theorem revived_resource_not_linked:
  assumes "tuple_store (cv_relations env) keys valid ok" "factory_built FeaturesAwareSchemaFactory (cv_schemas env)" "cv_relationsEnabled env"
    and "gorm_store (us_gorm uc)" "db_inv d0" "rrk_reporterInstanceId (command_key cmd) \<noteq> []" "known_key d0 (command_key cmd) i" "valid s0"
    and "Usecase_Delete uc io1 ctx1 (command_key cmd) d0 = (Inr (), d1)" "tuple_entries (db_wal d1) = tuple_entries (db_wal d0) @ [(op1, j1)]"
    and "carries msg1 j1" "go_map_get h1 ''operation'' = op1" "ProcessMessage env fc1 q1 d1 h1 msg1 s0 = Some (Inr resp1, s1)"
    and "ReportResource uc io2 ctx2 cmd d1 = (Inr (), d2)" "good_attempts io2 d1" "tuple_entries (db_wal d2) = tuple_entries (db_wal d1) @ [(op2, j2)]"
    and "carries msg2 j2" "go_map_get h2 ''operation'' = op2" "ProcessMessage env fc2 q2 d2 h2 msg2 s1 = Some (Inr resp2, s2)"
    and "exact_versions d2" "storable_db ok (cv_schemas env) d2"
  shows "keys s2 = (keys s0 - latest_tuples (cv_schemas env) d0 (command_key cmd) i) \<union>
      (latest_tuples (cv_schemas env) d2 (command_key cmd) i - latest_tuples (cv_schemas env) d0 (command_key cmd) i) \<and>
    (latest_tuples (cv_schemas env) d2 (command_key cmd) i = latest_tuples (cv_schemas env) d0 (command_key cmd) i \<longrightarrow>
      keys s2 \<inter> latest_tuples (cv_schemas env) d2 (command_key cmd) i = {})"
proof -
  let ?key = "command_key cmd" and ?L = "\<lambda>d. latest_tuples (cv_schemas env) d (command_key cmd) i"
  have "d2 \<noteq> d1" using assms(16) by auto
  with assms(14) obtain txid2 tid where run: "run_report uc io2 cmd ?key tid txid2 d1 = Inr d2" by (cases rule: ReportResource_cases) auto
  have ex1: "exact_versions d1" by (rule exact_versions_back [OF run_report_grows [OF assms(4) run] assms(20)])
  obtain txid1 k where del: "delete_tx uc ?key txid1 (ri_attempts io1 k) d0 = Inr d1" using assms(9) by (cases rule: Usecase_Delete_cases) auto
  have ex0: "exact_versions d0" by (rule exact_versions_back [OF delete_tx_grows [OF assms(4) del] ex1])
  obtain i' where i': "removed (g_uuid_string (us_gorm uc)) ?key txid1 i' d0 d1" "known_key d1 ?key i'"
    using gorm_store.delete_tx_effect [OF assms(4,5) exact_no_overflow [OF ex0] assms(6) refl del] by blast
  then have "known_key d0 ?key i'" by (simp add: removed_def)
  then have "i' = i" using assms(7) known_key_unique(1) by blast
  note D = i' [unfolded \<open>i' = i\<close>]
  have inv1: "db_inv d1" using D(2) by (simp add: known_key_def)
  obtain i2 where r: "reported (g_uuid_string (us_gorm uc)) cmd txid2 i2 d1 d2"
    using run_report_effect [OF assms(4) inv1 exact_no_overflow [OF ex1] assms(15,6) run] by blast
  then have "known_key d2 ?key i2" "known_key d2 ?key i" using D(2) by (auto simp: reported_def)
  then have "i2 = i" and inv2: "db_inv d2" using known_key_unique(1) by (auto simp: known_key_def)
  note R = r [unfolded \<open>i2 = i\<close>]
  have ok1: "storable_db ok (cv_schemas env) d1"
    by (rule storable_db_back [OF assms(21) run_report_grows [OF assms(4) run] _ _ _ assms(2)]) (use R inv1 inv2 in \<open>auto simp: reported_def db_inv_def\<close>)
  note E1 = removed_message_effect [OF assms(1-3) D(1) assms(5) inv1 ex1 ok1 assms(8,10-13)]
  have "keys s2 = (keys s1 \<union> (?L d2 - ?L d1)) - (?L d1 - ?L d2)"
    by (rule reported_message_effect [OF assms(1-3) R inv1 exact_no_overflow [OF ex1] D(2) assms(20,21) E1(2) assms(16-19)])
  then show ?thesis using E1(1,3) by auto
qed

text \<open>The consumer follows each request: report, delete and report of the same resource. The result lists database and store after every request.\<close>

definition lifecycle_io :: "string \<Rightarrow> uuid \<Rightarrow> report_io" where
  "lifecycle_io txid u = sample_io\<lparr>ri_txid := Inr txid, ri_attempts := (\<lambda>_. sample_attempt\<lparr>at_resourceId := Inr (u + 1), at_reporterResourceId := Inr (u + 2), at_newUUID := Inr (u + 3)\<rparr>)\<rparr>"

definition lifecycle_command :: "string \<Rightarrow> string \<Rightarrow> report_resource_command" where
  "lifecycle_command tid w = sample_command\<lparr>rc_TransactionId := Some tid, rc_CommonRepresentation := Some (sample_common w)\<rparr>"

definition follow :: "unit result \<times> db \<Rightarrow> nat \<Rightarrow> simple_relations_repository \<Rightarrow> (db \<times> simple_relations_repository) option" where
  "follow r n s = (case r of (Inr _, d) \<Rightarrow> (case process_entry moved_env d n s of Some (Inr _, s') \<Rightarrow> Some (d, s') | _ \<Rightarrow> None) | _ \<Rightarrow> None)"

lemma follow_Some: "follow r n s = Some (d, s') \<longleftrightarrow> (\<exists>resp. r = (Inr (), d) \<and> process_entry moved_env d n s = Some (Inr resp, s'))"
  by (cases r; cases "fst r") (auto simp: follow_def split: sum.splits option.splits prod.splits)

definition lifecycle :: "string \<Rightarrow> string \<Rightarrow> ((db \<times> simple_relations_repository) \<times> (db \<times> simple_relations_repository) \<times> (db \<times> simple_relations_repository)) option" where
  "lifecycle w w' = Option.bind (follow (ReportResource sample_usecase (lifecycle_io ''x1'' 10) sample_ctx (lifecycle_command ''t1'' w) empty_db) 0 NewSimpleRelationsRepository) (\<lambda>(d1, s1).
     Option.bind (follow (Usecase_Delete sample_usecase (lifecycle_io ''x2'' 20) sample_ctx (command_key sample_command) d1) 1 s1) (\<lambda>(d2, s2).
     Option.bind (follow (ReportResource sample_usecase (lifecycle_io ''x3'' 30) sample_ctx (lifecycle_command ''t2'' w') d2) 2 s2) (\<lambda>(d3, s3).
     Some ((d1, s1), (d2, s2), (d3, s3)))))"

definition workspace_key :: "string \<Rightarrow> simpleTupleKey" where
  "workspace_key w = simpleTupleKeyFromModelTuple (NewWorkspaceRelationsTuple w (command_key sample_command))"

lemma lifecycle_evaluates:
  "case lifecycle ''w1'' ''w1'' of None \<Rightarrow> False | Some ((d1, s1), (d2, s2), (d3, s3)) \<Rightarrow>
     map rrs_ResourceID (db_reporter_resources d1) = [11] \<and> sr_tuples s1 = [workspace_key ''w1''] \<and> simple_inv s1 \<and>
     tuple_entries (db_wal d2) = tuple_entries (db_wal d1) @ [tuple_entries (db_wal d2) ! 1] \<and>
     tuple_entries (db_wal d3) = tuple_entries (db_wal d2) @ [tuple_entries (db_wal d3) ! 2] \<and>
     fresh_ids (ri_attempts (lifecycle_io ''x3'' 30) 0) d2 \<and> fresh_ids sample_attempt d2 \<and> exact_versions d3 \<and>
     latest_tuples [] d1 (command_key sample_command) 11 = {workspace_key ''w1''} \<and> latest_tuples [] d3 (command_key sample_command) 11 = {workspace_key ''w1''}"
  by code_simp

lemma lifecycle_good: "fresh_ids (ri_attempts (lifecycle_io txid u) 0) d \<Longrightarrow> fresh_ids sample_attempt d \<Longrightarrow> good_attempts (lifecycle_io txid u) d"
  by (simp add: good_attempts_def lifecycle_io_def sample_io_def sound_read_def sample_attempt_def fresh_ids_def)

theorem revived_resource_not_linked_witness:
  "\<exists>d1 s1 d2 s2 d3 s3. lifecycle ''w1'' ''w1'' = Some ((d1, s1), (d2, s2), (d3, s3)) \<and> set (sr_tuples s1) = {workspace_key ''w1''} \<and>
     latest_tuples [] d3 (command_key sample_command) 11 = {workspace_key ''w1''} \<and> set (sr_tuples s3) = {}"
proof -
  let ?key = "command_key sample_command" and ?c3 = "lifecycle_command ''t2'' ''w1''"
  obtain d1 s1 d2 s2 d3 s3 where run: "lifecycle ''w1'' ''w1'' = Some ((d1, s1), (d2, s2), (d3, s3))"
    and id: "map rrs_ResourceID (db_reporter_resources d1) = [11]" and s1: "sr_tuples s1 = [workspace_key ''w1'']" "simple_inv s1"
    and m2: "tuple_entries (db_wal d2) = tuple_entries (db_wal d1) @ [tuple_entries (db_wal d2) ! 1]"
    and m3: "tuple_entries (db_wal d3) = tuple_entries (db_wal d2) @ [tuple_entries (db_wal d3) ! 2]"
    and fresh: "fresh_ids (ri_attempts (lifecycle_io ''x3'' 30) 0) d2" "fresh_ids sample_attempt d2" and ex: "exact_versions d3"
    and L: "latest_tuples [] d1 ?key 11 = {workspace_key ''w1''}" "latest_tuples [] d3 ?key 11 = {workspace_key ''w1''}"
    using lifecycle_evaluates by (auto split: option.splits)
  obtain r1 r2 where f: "ReportResource sample_usecase (lifecycle_io ''x1'' 10) sample_ctx (lifecycle_command ''t1'' ''w1'') empty_db = (Inr (), d1)"
    "Usecase_Delete sample_usecase (lifecycle_io ''x2'' 20) sample_ctx ?key d1 = (Inr (), d2)" "process_entry moved_env d2 1 s1 = Some (Inr r1, s2)"
    "ReportResource sample_usecase (lifecycle_io ''x3'' 30) sample_ctx ?c3 d2 = (Inr (), d3)" "process_entry moved_env d3 2 s2 = Some (Inr r2, s3)"
    using run by (auto simp: lifecycle_def bind_eq_Some_conv follow_Some)
  have key: "command_key (lifecycle_command t w) = ?key" for t w by (simp add: command_key_def lifecycle_command_def)
  have inst: "rrk_reporterInstanceId ?key \<noteq> []" by (rule sample_hypotheses(5))
  have "good_attempts (lifecycle_io ''x1'' 10) empty_db"
    by (rule lifecycle_good) (simp_all add: fresh_ids_def empty_db_def lifecycle_io_def sample_attempt_def)
  note rep = report_outcome [OF sample_hypotheses(1) empty_db_inv sample_hypotheses(3) this _ f(1)]
  have "d1 \<noteq> empty_db" using id by (auto simp: empty_db_def)
  then obtain i where k: "known_key d1 ?key i" and inv: "db_inv d1" using rep inst key by (auto simp: reported_def)
  then have i: "i = 11" using id by (auto simp: known_key_def map_eq_Cons_conv)
  obtain op1 j1 op2 j2 where j: "tuple_entries (db_wal d2) ! 1 = (op1, j1)" "tuple_entries (db_wal d3) ! 2 = (op2, j2)" by fastforce
  have env: "cv_relations moved_env = simple_relations" "cv_schemas moved_env = []" by (simp_all add: moved_env_def)
  have on: "cv_relationsEnabled moved_env" and op: "go_map_get [(''operation'', op), (''txid'', [])] ''operation'' = op" for op
    by (simp_all add: moved_env_def go_map_get_def)
  note f3 = f(3) [unfolded process_entry_def Let_def j fst_conv] and f5 = f(5) [unfolded process_entry_def Let_def j fst_conv]
  have "set (sr_tuples s3) = (set (sr_tuples s1) - latest_tuples [] d1 ?key i) \<union> (latest_tuples [] d3 ?key i - latest_tuples [] d1 ?key i)"
    by (rule revived_resource_not_linked [where env = moved_env and cmd = ?c3 and i = i and ok = wf_tuple, unfolded env key, THEN conjunct1,
        OF simple_store.tuple_store_axioms moved_schemas on sample_hypotheses(1) inv inst k s1(2) f(2) m2 [unfolded j] relayed_carries op f3 f(4)
        lifecycle_good [OF fresh] m3 [unfolded j] relayed_carries op f5 ex storable_db_wf])
  then have "set (sr_tuples s3) = {}" using s1(1) L i by simp
  moreover have "set (sr_tuples s1) = {workspace_key ''w1''}" using s1(1) by simp
  ultimately show ?thesis using run L(2) by blast
qed

section \<open>Instances of a reporter that share a local identifier\<close>

lemma committed_report:
  assumes "ReportResource uc io ctx cmd d = (r, d')" "d' \<noteq> d" "gorm_store (us_gorm uc)" "db_inv d" "exact_versions d'" "good_attempts io d"
    and "rrk_reporterInstanceId (command_key cmd) \<noteq> []" "known_key d (command_key cmd) i"
  shows "exact_versions d" "\<exists>txid. reported (g_uuid_string (us_gorm uc)) cmd txid i d d'"
proof -
  obtain txid tid where run: "run_report uc io cmd (command_key cmd) tid txid d = Inr d'" using assms(1,2) by (cases rule: ReportResource_cases) auto
  show ex: "exact_versions d" by (rule exact_versions_back [OF run_report_grows [OF assms(3) run] assms(5)])
  obtain i2 where r: "reported (g_uuid_string (us_gorm uc)) cmd txid i2 d d'"
    using run_report_effect [OF assms(3,4) exact_no_overflow [OF ex] assms(6,7) run] by blast
  moreover have "i2 = i" using r assms(8) known_key_unique(1) by (auto simp: reported_def)
  ultimately show "\<exists>txid. reported (g_uuid_string (us_gorm uc)) cmd txid i d d'" by blast
qed

text \<open>C13. Two instances of a reporter type that report the same local identifier take each other's tuples away: when a report moves the resource of
  one instance and its message is processed, every tuple of the resource's former representation is gone from the store, also one that
  the latest representation of the other instance's resource still has. Such resources are exactly those with the same tuple object.\<close>

theorem shared_object_unlinked:
  assumes "tuple_store (cv_relations env) keys valid ok" "factory_built FeaturesAwareSchemaFactory (cv_schemas env)" "cv_relationsEnabled env"
    and "gorm_store (us_gorm uc)" "db_inv d" "rrk_reporterInstanceId (command_key cmd) \<noteq> []" "known_key d (command_key cmd) i" "valid s"
    and "ReportResource uc io ctx cmd d = (Inr (), d')" "good_attempts io d" "tuple_entries (db_wal d') = tuple_entries (db_wal d) @ [(op, j)]"
    and "carries msg j" "go_map_get headers ''operation'' = op" "ProcessMessage env fc queryErr d' headers msg s = Some (Inr resp, s')"
    and "exact_versions d'" "storable_db ok (cv_schemas env) d'"
    and "known_key d other k" "other \<noteq> command_key cmd" "x \<in> latest_tuples (cv_schemas env) d other k"
    and "x \<in> latest_tuples (cv_schemas env) d (command_key cmd) i" "x \<notin> latest_tuples (cv_schemas env) d' (command_key cmd) i"
  shows "same_object other (command_key cmd) \<and> x \<in> latest_tuples (cv_schemas env) d' other k \<and> x \<notin> keys s'"
proof -
  have ne: "d' \<noteq> d" using assms(11) by auto
  note C = committed_report [OF assms(9) ne assms(4,5,15,10,6,7)]
  obtain txid where r: "reported (g_uuid_string (us_gorm uc)) cmd txid i d d'" using C(2) ..
  have k: "known_key d' (command_key cmd) i" and sc: "stored_common (rc_CommonRepresentation cmd) i d d'" using r by (simp_all add: reported_def)
  then have inv': "db_inv d'" by (simp add: known_key_def)
  note V = report_versions [OF assms(5) inv' exact_no_overflow [OF C(1)] sc k]
  have "k \<noteq> i" using assms(7,17,18) known_key_unique(2) by blast
  then have "latest_tuples (cv_schemas env) d' other k = latest_tuples (cv_schemas env) d other k"
    using V(2) [of k] tuples_after_mono [OF assms(5) inv' V(3) order_refl, of "cv_schemas env" other k] by (metis tuples_after_all)
  moreover have "x \<in> object_keys other \<inter> object_keys (command_key cmd)"
    using assms(19,20) subsetD [OF tuples_at_object] by (auto simp: latest_tuples_def)
  then have "same_object other (command_key cmd)" using object_keys_disjoint by blast
  moreover have "x \<notin> keys s'"
    using reported_message_effect [OF assms(1-3) r assms(5) exact_no_overflow [OF C(1)] assms(7,15,16,8,11-14)] assms(20,21) by blast
  ultimately show ?thesis using assms(19) by simp
qed

text \<open>Two instances report the same service in one workspace; then the first moves it to another.\<close>

definition twin_command :: "string \<Rightarrow> string \<Rightarrow> string \<Rightarrow> report_resource_command" where
  "twin_command inst tid w = (lifecycle_command tid w)\<lparr>rc_ReporterInstanceId := inst\<rparr>"

definition twins :: "((db \<times> simple_relations_repository) \<times> (db \<times> simple_relations_repository) \<times> (db \<times> simple_relations_repository)) option" where
  "twins = Option.bind (follow (ReportResource sample_usecase (lifecycle_io ''x1'' 10) sample_ctx (twin_command ''a'' ''t1'' ''w1'') empty_db) 0 NewSimpleRelationsRepository) (\<lambda>(d1, s1).
     Option.bind (follow (ReportResource sample_usecase (lifecycle_io ''x2'' 20) sample_ctx (twin_command ''b'' ''t2'' ''w1'') d1) 1 s1) (\<lambda>(d2, s2).
     Option.bind (follow (ReportResource sample_usecase (lifecycle_io ''x3'' 30) sample_ctx (twin_command ''a'' ''t3'' ''w2'') d2) 2 s2) (\<lambda>(d3, s3).
     Some ((d1, s1), (d2, s2), (d3, s3)))))"

lemma twins_evaluate:
  "case twins of None \<Rightarrow> False | Some ((d1, s1), (d2, s2), (d3, s3)) \<Rightarrow>
     map rrs_ResourceID (db_reporter_resources d1) = [11] \<and> map rrs_ResourceID (db_reporter_resources d2) = [11, 21] \<and>
     map rrs_Key (db_reporter_resources d2) = map (key_snapshot \<circ> command_key) [twin_command ''a'' ''t1'' ''w1'', twin_command ''b'' ''t2'' ''w1''] \<and> simple_inv s2 \<and>
     fresh_ids (ri_attempts (lifecycle_io ''x2'' 20) 0) d1 \<and> fresh_ids sample_attempt d1 \<and>
     tuple_entries (db_wal d3) = tuple_entries (db_wal d2) @ [tuple_entries (db_wal d3) ! 2] \<and>
     fresh_ids (ri_attempts (lifecycle_io ''x3'' 30) 0) d2 \<and> fresh_ids sample_attempt d2 \<and> no_overflow d1 \<and> exact_versions d3 \<and> sr_tuples s3 = [workspace_key ''w2''] \<and>
     latest_tuples [] d2 (command_key (twin_command ''a'' ''t1'' ''w1'')) 11 = {workspace_key ''w1''} \<and>
     latest_tuples [] d2 (command_key (twin_command ''b'' ''t2'' ''w1'')) 21 = {workspace_key ''w1''} \<and>
     latest_tuples [] d3 (command_key (twin_command ''a'' ''t1'' ''w1'')) 11 = {workspace_key ''w2''}"
  by code_simp

theorem shared_object_unlinked_witness:
  "\<exists>d1 s1 d2 s2 d3 s3. twins = Some ((d1, s1), (d2, s2), (d3, s3)) \<and> set (sr_tuples s3) = {workspace_key ''w2''} \<and>
     workspace_key ''w1'' \<in> latest_tuples [] d3 (command_key (twin_command ''b'' ''t2'' ''w1'')) 21 \<and> workspace_key ''w1'' \<notin> set (sr_tuples s3)"
proof -
  let ?a = "command_key (twin_command ''a'' ''t1'' ''w1'')" and ?b = "command_key (twin_command ''b'' ''t2'' ''w1'')" and ?c3 = "twin_command ''a'' ''t3'' ''w2''"
  obtain d1 s1 d2 s2 d3 s3 where run: "twins = Some ((d1, s1), (d2, s2), (d3, s3))"
    and id: "map rrs_ResourceID (db_reporter_resources d1) = [11]" "map rrs_ResourceID (db_reporter_resources d2) = [11, 21]"
    and keys: "map rrs_Key (db_reporter_resources d2) = [key_snapshot ?a, key_snapshot ?b]" and s2: "simple_inv s2" and s3: "sr_tuples s3 = [workspace_key ''w2'']"
    and m3: "tuple_entries (db_wal d3) = tuple_entries (db_wal d2) @ [tuple_entries (db_wal d3) ! 2]"
    and fresh1: "fresh_ids (ri_attempts (lifecycle_io ''x2'' 20) 0) d1" "fresh_ids sample_attempt d1" and ov: "no_overflow d1"
    and fresh: "fresh_ids (ri_attempts (lifecycle_io ''x3'' 30) 0) d2" "fresh_ids sample_attempt d2" and ex: "exact_versions d3"
    and L: "latest_tuples [] d2 ?a 11 = {workspace_key ''w1''}" "latest_tuples [] d2 ?b 21 = {workspace_key ''w1''}" "latest_tuples [] d3 ?a 11 = {workspace_key ''w2''}"
    using twins_evaluate by (auto split: option.splits)
  obtain r3 where f: "ReportResource sample_usecase (lifecycle_io ''x1'' 10) sample_ctx (twin_command ''a'' ''t1'' ''w1'') empty_db = (Inr (), d1)"
    "ReportResource sample_usecase (lifecycle_io ''x2'' 20) sample_ctx (twin_command ''b'' ''t2'' ''w1'') d1 = (Inr (), d2)"
    "ReportResource sample_usecase (lifecycle_io ''x3'' 30) sample_ctx ?c3 d2 = (Inr (), d3)" "process_entry moved_env d3 2 s2 = Some (Inr r3, s3)"
    using run by (auto simp: twins_def bind_eq_Some_conv follow_Some)
  have key: "command_key ?c3 = ?a" by (simp add: command_key_def twin_command_def lifecycle_command_def)
  have inst: "rrk_reporterInstanceId ?a \<noteq> []" "rrk_reporterInstanceId ?b \<noteq> []" "?b \<noteq> ?a"
    by (simp_all add: command_key_def twin_command_def lifecycle_command_def rrk_reporterInstanceId_def NewReporterId_def)
  have "good_attempts (lifecycle_io ''x1'' 10) empty_db"
    by (rule lifecycle_good) (simp_all add: fresh_ids_def empty_db_def lifecycle_io_def sample_attempt_def)
  then have "db_inv d1" using report_outcome [OF sample_hypotheses(1) empty_db_inv sample_hypotheses(3) _ inst(1) f(1)] by blast
  then have inv: "db_inv d2" using report_outcome [OF sample_hypotheses(1) _ ov lifecycle_good [OF fresh1] inst(2) f(2)] by blast
  have "map (\<lambda>r. (rrs_ResourceID r, rrs_Key r)) (db_reporter_resources d2) = zip [11, 21] [key_snapshot ?a, key_snapshot ?b]"
    unfolding id(2) [symmetric] keys [symmetric] by (simp add: zip_map_map map_zip_map map2_map_map zip_same_conv_map)
  then have k: "known_key d2 ?a 11" "known_key d2 ?b 21" using inv inst by (auto simp: known_key_def map_eq_Cons_conv)
  obtain op j where j: "tuple_entries (db_wal d3) ! 2 = (op, j)" by fastforce
  have env: "cv_relations moved_env = simple_relations" "cv_schemas moved_env = []" by (simp_all add: moved_env_def)
  have on: "cv_relationsEnabled moved_env" and op: "go_map_get [(''operation'', op), (''txid'', [])] ''operation'' = op"
    by (simp_all add: moved_env_def go_map_get_def)
  note f4 = f(4) [unfolded process_entry_def Let_def j fst_conv]
  have "same_object ?b ?a \<and> workspace_key ''w1'' \<in> latest_tuples [] d3 ?b 21 \<and> workspace_key ''w1'' \<notin> set (sr_tuples s3)"
    by (rule shared_object_unlinked [where env = moved_env and cmd = ?c3 and i = 11 and ok = wf_tuple, unfolded env key,
        OF simple_store.tuple_store_axioms moved_schemas on sample_hypotheses(1) inv inst(1) k(1) s2 f(3) lifecycle_good [OF fresh] m3 [unfolded j] relayed_carries op f4
        ex storable_db_wf k(2) inst(3)])
      (simp_all add: L workspace_key_def NewWorkspaceRelationsTuple_def subject_tuple_key)
  moreover have "set (sr_tuples s3) = {workspace_key ''w2''}" using s3 by simp
  ultimately show ?thesis using run by blast
qed

end
