(* ===== verification/Spicedb_Laws.thy ===== *)
theory Spicedb_Laws
  imports Spicedb End_To_End
begin

text \<open>
  The repository over SpiceDB implements the contract the consumer relies on, given what SpiceDB documents of its calls: a write
  is atomic, its preconditions are checked in the same transaction, an empty field of a filter matches anything. Then the
  fencing of writes by locks, under every interleaving of the clients that acquire one, and the round trip of a tuple.
\<close>

section \<open>Documented behaviour of SpiceDB\<close>

definition sp_matches :: "sp_filter \<Rightarrow> sp_relationship \<Rightarrow> bool" where
  "sp_matches f r \<longleftrightarrow> (xf_ResourceType f = [] \<or> xf_ResourceType f = so_ObjectType (sx_Resource r)) \<and>
     (xf_OptionalResourceId f = [] \<or> xf_OptionalResourceId f = so_ObjectId (sx_Resource r)) \<and>
     (xf_OptionalRelation f = [] \<or> xf_OptionalRelation f = sx_Relation r) \<and>
     (case xf_OptionalSubjectFilter f of None \<Rightarrow> True
      | Some g \<Rightarrow> sf_SubjectType g = so_ObjectType (ss_Object (sx_Subject r)) \<and>
          (sf_OptionalSubjectId g = [] \<or> sf_OptionalSubjectId g = so_ObjectId (ss_Object (sx_Subject r))) \<and>
          (case sf_OptionalRelation g of None \<Rightarrow> True | Some x \<Rightarrow> x = ss_OptionalRelation (sx_Subject r)))"

definition apply_update :: "sp_update \<Rightarrow> sp_relationship set \<Rightarrow> sp_relationship set" where
  "apply_update u R = (if su_Operation u = OPERATION_DELETE then R - {su_Relationship u} else insert (su_Relationship u) R)"

definition satisfied :: "sp_filter list \<Rightarrow> sp_relationship set \<Rightarrow> bool" where
  "satisfied ps R \<longleftrightarrow> (\<forall>p \<in> set ps. \<exists>r \<in> R. sp_matches p r)"

text \<open>\<open>rels\<close> is the set of relationships stored and \<open>up\<close> the states a client may meet. A write or a deletion that fails may
  have been carried out, if its preconditions were satisfied.\<close>

locale spicedb_service =
  fixes env :: "'s spicedb_env" and rels :: "'s \<Rightarrow> sp_relationship set" and up :: "'s \<Rightarrow> bool"
  assumes write_ok: "up s \<Longrightarrow> sc_WriteRelationships (se_client env) us ps s = (Inr tok, s') \<Longrightarrow>
      satisfied ps (rels s) \<and> rels s' = fold apply_update us (rels s) \<and> up s'"
    and write_err: "up s \<Longrightarrow> sc_WriteRelationships (se_client env) us ps s = (Inl e, s') \<Longrightarrow>
      (rels s' = rels s \<or> satisfied ps (rels s) \<and> rels s' = fold apply_update us (rels s)) \<and> up s'"
    and write_touch: "up s \<Longrightarrow> \<forall>u \<in> set us. su_Operation u = OPERATION_TOUCH \<Longrightarrow>
      sc_WriteRelationships (se_client env) us ps s = (Inl e, s') \<Longrightarrow> status_code e \<noteq> AlreadyExists"
    and delete_ok: "up s \<Longrightarrow> sc_DeleteRelationships (se_client env) flt ps s = (Inr tok, s') \<Longrightarrow>
      satisfied ps (rels s) \<and> rels s' = {r \<in> rels s. \<not> sp_matches flt r} \<and> up s'"
    and delete_err: "up s \<Longrightarrow> sc_DeleteRelationships (se_client env) flt ps s = (Inl e, s') \<Longrightarrow>
      (rels s' = rels s \<or> satisfied ps (rels s) \<and> {r \<in> rels s. \<not> sp_matches flt r} \<subseteq> rels s' \<and> rels s' \<subseteq> rels s) \<and> up s'"
    and read_messages: "up s \<Longrightarrow> sc_ReadRelationships (se_client env) FullyConsistent flt 0 None s = Inr (ms, fin) \<Longrightarrow>
      sm_Relationship ` set ms \<subseteq> {r \<in> rels s. sp_matches flt r} \<and>
      (fin = None \<longrightarrow> sm_Relationship ` set ms = {r \<in> rels s. sp_matches flt r})"
    and init_error: "se_initErr env = Some e \<Longrightarrow> status_code e \<noteq> AlreadyExists"

section \<open>Encoding of tuples\<close>

lemma append_slash_inj:
  assumes "CHR ''/'' \<notin> set a" "CHR ''/'' \<notin> set b" "a @ CHR ''/'' # c = b @ CHR ''/'' # d"
  shows "a = b \<and> c = d"
  using assms
proof (induction a arbitrary: b)
  case Nil
  then show ?case by (cases b) auto
next
  case (Cons x xs)
  then show ?case by (cases b) auto
qed

text \<open>The keys SpiceDB can tell apart: no slash in the parts of a type, identifiers that are not empty, a relation that does
  not start with the prefix. Locks are kept apart.\<close>

definition plain_key :: "simpleTupleKey \<Rightarrow> bool" where
  "plain_key k \<longleftrightarrow> CHR ''/'' \<notin> set (stk_ResourceNamespace k) \<and> CHR ''/'' \<notin> set (stk_SubjectNamespace k) \<and>
     stk_ResourceID k \<noteq> [] \<and> stk_SubjectID k \<noteq> [] \<and> \<not> HasPrefix (stk_Relation k) relationPrefix \<and>
     stk_ResourceNamespace k @ ''/'' @ stk_ResourceType k \<noteq> lockType"

definition encoded :: "simpleTupleKey \<Rightarrow> sp_relationship" where
  "encoded k = \<lparr>sx_Resource = \<lparr>so_ObjectType = stk_ResourceNamespace k @ ''/'' @ stk_ResourceType k, so_ObjectId = stk_ResourceID k\<rparr>,
     sx_Relation = addRelationPrefix (stk_Relation k) relationPrefix,
     sx_Subject = \<lparr>ss_Object = \<lparr>so_ObjectType = stk_SubjectNamespace k @ ''/'' @ stk_SubjectType k, so_ObjectId = stk_SubjectID k\<rparr>,
       ss_OptionalRelation = []\<rparr>\<rparr>"

definition spicedb_tuple :: "relations_tuple \<Rightarrow> bool" where
  "spicedb_tuple t \<longleftrightarrow> wf_tuple t \<and> sref_relation (rt_subject t) = None \<and> plain_key (simpleTupleKeyFromModelTuple t)"

lemma addRelationPrefix_plain: "\<not> HasPrefix r relationPrefix \<Longrightarrow> addRelationPrefix r relationPrefix = relationPrefix @ r"
  by (simp add: addRelationPrefix_def)

lemma slash_type_iff:
  "CHR ''/'' \<notin> set n \<Longrightarrow> CHR ''/'' \<notin> set m \<Longrightarrow> n @ CHR ''/'' # t = m @ CHR ''/'' # u \<longleftrightarrow> n = m \<and> t = u"
  using append_slash_inj by blast

lemma relationPrefix_nonempty [simp]: "relationPrefix \<noteq> []"
  by (simp add: relationPrefix_def)

lemma encoded_inj:
  assumes "plain_key k" "plain_key k'" "encoded k = encoded k'"
  shows "k = k'"
proof (rule simpleTupleKey.equality)
  have "stk_ResourceNamespace k @ CHR ''/'' # stk_ResourceType k = stk_ResourceNamespace k' @ CHR ''/'' # stk_ResourceType k'"
    "stk_SubjectNamespace k @ CHR ''/'' # stk_SubjectType k = stk_SubjectNamespace k' @ CHR ''/'' # stk_SubjectType k'"
    and r: "addRelationPrefix (stk_Relation k) relationPrefix = addRelationPrefix (stk_Relation k') relationPrefix"
    using assms(3) by (simp_all add: encoded_def)
  with assms(1,2) show "stk_ResourceNamespace k = stk_ResourceNamespace k'" "stk_ResourceType k = stk_ResourceType k'"
    "stk_SubjectNamespace k = stk_SubjectNamespace k'" "stk_SubjectType k = stk_SubjectType k'"
    by (simp_all add: plain_key_def slash_type_iff)
  show "stk_Relation k = stk_Relation k'" using r assms(1,2) by (simp add: plain_key_def addRelationPrefix_plain)
qed (use assms(3) in \<open>simp_all add: encoded_def\<close>)

lemma spicedb_tupleE:
  assumes "spicedb_tuple t"
  obtains ro rs where "oref_reporter (rt_object t) = Some ro" "oref_reporter (sref_resource (rt_subject t)) = Some rs"
    "sref_relation (rt_subject t) = None" "plain_key (simpleTupleKeyFromModelTuple t)"
  using assms by (auto simp: spicedb_tuple_def wf_tuple_def)

lemma tuple_encoded: "spicedb_tuple t \<Longrightarrow> relationsTupleToSpiceDBRelationship t = encoded (simpleTupleKeyFromModelTuple t)"
  by (elim spicedb_tupleE)
    (simp add: relationsTupleToSpiceDBRelationship_def encoded_def simpleTupleKeyFromModelTuple_def Let_def object_of_reference_def
      resourceReferenceToSpiceDBType_def subject_of_reference_def optionalRelationToString_def serde)

text \<open>Filters: SpiceDB matches a converted filter as the in-memory repository matches the filter itself.\<close>

definition plain_filter :: "tuple_filter \<Rightarrow> bool" where
  "plain_filter f \<longleftrightarrow> tf_objectId f \<noteq> Some [] \<and> (case tf_relation f of None \<Rightarrow> True | Some r \<Rightarrow> \<not> HasPrefix r relationPrefix) \<and>
     (case tf_reporterType f of None \<Rightarrow> True | Some n \<Rightarrow> CHR ''/'' \<notin> set n) \<and>
     (case tf_subject f of None \<Rightarrow> True
      | Some g \<Rightarrow> sf_subjectType g \<noteq> None \<and> sf_subjectId g \<noteq> Some [] \<and> sf_relation g = None \<and>
          (case sf_reporterType g of None \<Rightarrow> True | Some n \<Rightarrow> CHR ''/'' \<notin> set n))"

lemma converted_filter_matches:
  assumes "tupleFilterToSpiceDBFilter f = Inr F" "plain_filter f" "plain_key k"
  shows "sp_matches F (encoded k) \<longleftrightarrow> simpleMatchesTupleFilter k f"
proof -
  have ob: "xf_ResourceType F = typed (tf_reporterType f) (tf_objectType f)"
    "xf_OptionalResourceId F = optionalLocalResourceIdToString (tf_objectId f)"
    "xf_OptionalRelation F = optionalRelationToStringWithPrefix (tf_relation f)"
    "tf_reporterType f = None \<longleftrightarrow> tf_objectType f = None"
    using assms(1) by (auto simp: tupleFilterToSpiceDBFilter_def Let_def split: if_splits option.splits)
  have sb: "xf_OptionalSubjectFilter F = (case tf_subject f of None \<Rightarrow> None | Some g \<Rightarrow>
      Some \<lparr>sf_SubjectType = typed (sf_reporterType g) (sf_subjectType g), sf_OptionalSubjectId = optionalLocalResourceIdToString (sf_subjectId g),
        sf_OptionalRelation = (case sf_relation g of None \<Rightarrow> None | Some r \<Rightarrow> Some (SerializeString r))\<rparr>)"
    "\<And>g. tf_subject f = Some g \<Longrightarrow> sf_reporterType g = None \<longleftrightarrow> sf_subjectType g = None"
    using assms(1) by (auto simp: tupleFilterToSpiceDBFilter_def Let_def split: if_splits option.splits)
  have r: "(xf_ResourceType F = [] \<or> xf_ResourceType F = so_ObjectType (sx_Resource (encoded k))) \<longleftrightarrow>
      \<not> opt_differs (tf_reporterType f) (stk_ResourceNamespace k) \<and> \<not> opt_differs (tf_objectType f) (stk_ResourceType k)"
    using assms(2,3) ob(4) by (auto simp: ob(1) typed_def encoded_def opt_differs_def plain_filter_def plain_key_def serde slash_type_iff split: option.splits)
  have i: "(xf_OptionalResourceId F = [] \<or> xf_OptionalResourceId F = so_ObjectId (sx_Resource (encoded k))) \<longleftrightarrow>
      \<not> opt_differs (tf_objectId f) (stk_ResourceID k)"
    using assms(2) by (auto simp: ob(2) optionalLocalResourceIdToString_def encoded_def opt_differs_def plain_filter_def serde split: option.splits)
  have l: "(xf_OptionalRelation F = [] \<or> xf_OptionalRelation F = sx_Relation (encoded k)) \<longleftrightarrow> \<not> opt_differs (tf_relation f) (stk_Relation k)"
    using assms(2,3) by (auto simp: ob(3) optionalRelationToStringWithPrefix_def encoded_def opt_differs_def plain_filter_def plain_key_def
        addRelationPrefix_plain serde split: option.splits)
  have s: "(case xf_OptionalSubjectFilter F of None \<Rightarrow> True
      | Some g \<Rightarrow> sf_SubjectType g = so_ObjectType (ss_Object (sx_Subject (encoded k))) \<and>
          (sf_OptionalSubjectId g = [] \<or> sf_OptionalSubjectId g = so_ObjectId (ss_Object (sx_Subject (encoded k)))) \<and>
          (case sf_OptionalRelation g of None \<Rightarrow> True | Some x \<Rightarrow> x = ss_OptionalRelation (sx_Subject (encoded k)))) \<longleftrightarrow>
      (case tf_subject f of None \<Rightarrow> True | Some g \<Rightarrow> \<not> opt_differs (sf_reporterType g) (stk_SubjectNamespace k) \<and>
         \<not> opt_differs (sf_subjectType g) (stk_SubjectType k) \<and> \<not> opt_differs (sf_subjectId g) (stk_SubjectID k))"
  proof (cases "tf_subject f")
    case (Some g)
    with assms(2,3) sb(2) [OF Some] show ?thesis
      by (auto simp: sb(1) typed_def optionalLocalResourceIdToString_def encoded_def opt_differs_def plain_filter_def plain_key_def serde slash_type_iff
          split: option.splits)
  qed (simp add: sb(1))
  show ?thesis unfolding sp_matches_def simpleMatchesTupleFilter_def r i l s by (auto split: option.splits)
qed

lemma tupleToFilter_converts:
  assumes "spicedb_tuple t"
  obtains F where "tupleFilterToSpiceDBFilter (tupleToFilter t) = Inr F" "plain_filter (tupleToFilter t)"
  using assms
  by (elim spicedb_tupleE)
    (simp add: tupleToFilter_def Let_def tupleFilterToSpiceDBFilter_def plain_filter_def plain_key_def simpleTupleKeyFromModelTuple_def serde
      TupleFilter_WithObjectType_def TupleFilter_WithReporterType_def TupleFilter_WithObjectId_def TupleFilter_WithRelation_def
      TupleFilter_WithSubject_def SubjectFilter_WithSubjectType_def SubjectFilter_WithReporterType_def
      SubjectFilter_WithSubjectId_def SubjectFilter_WithRelation_def NewTupleFilter_def NewTupleSubjectFilter_def)

section \<open>The repository implements the contract\<close>

definition stored_keys :: "('s \<Rightarrow> sp_relationship set) \<Rightarrow> 's \<Rightarrow> simpleTupleKey set" where
  "stored_keys rels s = {k. plain_key k \<and> encoded k \<in> rels s}"

lemma apply_updates_insert:
  "\<forall>u \<in> set us. su_Operation u \<noteq> OPERATION_DELETE \<Longrightarrow> fold apply_update us R = R \<union> su_Relationship ` set us"
  by (induction us arbitrary: R) (auto simp: apply_update_def)

lemma tuple_encoded_iff:
  assumes "spicedb_tuple t" "plain_key k"
  shows "encoded k = relationsTupleToSpiceDBRelationship t \<longleftrightarrow> k = simpleTupleKeyFromModelTuple t"
  using assms encoded_inj [of k "simpleTupleKeyFromModelTuple t"] by (auto simp: tuple_encoded spicedb_tuple_def)

lemma stored_keys_insert:
  assumes "list_all spicedb_tuple ts" "rels s' = rels s \<union> relationsTupleToSpiceDBRelationship ` set ts"
  shows "stored_keys rels s' = stored_keys rels s \<union> tuple_keys (set ts)"
proof -
  have "plain_key k \<and> encoded k \<in> relationsTupleToSpiceDBRelationship ` set ts \<longleftrightarrow> k \<in> tuple_keys (set ts)" for k
    using assms(1) tuple_encoded_iff by (fastforce simp: list_all_iff spicedb_tuple_def)
  with assms(2) show ?thesis by (auto simp: stored_keys_def)
qed

context spicedb_service
begin

lemma CreateTuples_ok:
  assumes "up s" "SpiceDB_CreateTuples env ts u fc s = (Inr tok, s')"
  shows "satisfied (fencing_preconditions fc) (rels s)" "rels s' = rels s \<union> relationsTupleToSpiceDBRelationship ` set ts" "up s'"
  using assms write_ok [OF assms(1)]
  by (fastforce simp: SpiceDB_CreateTuples_def Let_def apply_updates_insert image_image split: sum.splits prod.splits if_splits)+

lemma CreateTuples_err:
  assumes "up s" "SpiceDB_CreateTuples env ts u fc s = (Inl e, s')"
  shows "rels s' = rels s \<or> satisfied (fencing_preconditions fc) (rels s) \<and> rels s' = rels s \<union> relationsTupleToSpiceDBRelationship ` set ts" "up s'"
    and "u \<Longrightarrow> status_code e \<noteq> AlreadyExists"
proof -
  let ?us = "map (\<lambda>t. \<lparr>su_Operation = if u then OPERATION_TOUCH else OPERATION_CREATE, su_Relationship = relationsTupleToSpiceDBRelationship t\<rparr>) ts"
  have us: "fold apply_update ?us (rels s) = rels s \<union> relationsTupleToSpiceDBRelationship ` set ts"
    by (simp add: apply_updates_insert image_image)
  from assms(2) consider (init) "se_initErr env = Some e" "s' = s"
    | (call) e' where "sc_WriteRelationships (se_client env) ?us (fencing_preconditions fc) s = (Inl e', s')" "status_code e = status_code e'"
    by (auto simp: SpiceDB_CreateTuples_def Let_def initialized_def split: sum.splits prod.splits option.splits)
  note c = this
  show "rels s' = rels s \<or> satisfied (fencing_preconditions fc) (rels s) \<and> rels s' = rels s \<union> relationsTupleToSpiceDBRelationship ` set ts" "up s'"
    using c write_err [OF assms(1)] assms(1) us by (cases; metis)+
  show "status_code e \<noteq> AlreadyExists" if "u"
    using c by cases (use init_error write_touch [OF assms(1), of ?us] that in auto)
qed

lemma DeleteTuples_ok:
  assumes "up s" "tupleFilterToSpiceDBFilter flt = Inr F" "SpiceDB_DeleteTuples env flt fc s = (Inr tok, s')"
  shows "satisfied (fencing_preconditions fc) (rels s)" "rels s' = {r \<in> rels s. \<not> sp_matches F r}" "up s'"
  using assms delete_ok [OF assms(1)] by (auto simp: SpiceDB_DeleteTuples_def split: sum.splits prod.splits)

lemma DeleteTuples_err:
  assumes "up s" "SpiceDB_DeleteTuples env flt fc s = (Inl e, s')"
  shows "rels s' = rels s \<or> satisfied (fencing_preconditions fc) (rels s) \<and>
      (\<exists>F. tupleFilterToSpiceDBFilter flt = Inr F \<and> {r \<in> rels s. \<not> sp_matches F r} \<subseteq> rels s' \<and> rels s' \<subseteq> rels s)" "up s'"
proof -
  from assms(2) consider "s' = s"
    | (call) F e' where "tupleFilterToSpiceDBFilter flt = Inr F" "sc_DeleteRelationships (se_client env) F (fencing_preconditions fc) s = (Inl e', s')"
    by (auto simp: SpiceDB_DeleteTuples_def split: sum.splits prod.splits)
  then have "(rels s' = rels s \<or> satisfied (fencing_preconditions fc) (rels s) \<and>
      (\<exists>F. tupleFilterToSpiceDBFilter flt = Inr F \<and> {r \<in> rels s. \<not> sp_matches F r} \<subseteq> rels s' \<and> rels s' \<subseteq> rels s)) \<and> up s'"
  proof cases
    case call
    with delete_err [OF assms(1) call(2)] show ?thesis by blast
  qed (simp add: assms(1))
  then show "rels s' = rels s \<or> satisfied (fencing_preconditions fc) (rels s) \<and>
      (\<exists>F. tupleFilterToSpiceDBFilter flt = Inr F \<and> {r \<in> rels s. \<not> sp_matches F r} \<subseteq> rels s' \<and> rels s' \<subseteq> rels s)" "up s'" by blast+
qed

lemma CreateTuples_effect:
  assumes "up s" "SpiceDB_CreateTuples env ts u fc s = (x, s')"
  shows "up s' \<and> (rels s' = rels s \<and> \<not> is_ok x \<or>
    satisfied (fencing_preconditions fc) (rels s) \<and> rels s' = rels s \<union> relationsTupleToSpiceDBRelationship ` set ts)"
proof (cases x)
  case (Inl e)
  with CreateTuples_err(1,2) [OF assms(1), of ts u fc e s'] assms(2) show ?thesis by fastforce
next
  case (Inr tok)
  with CreateTuples_ok [OF assms(1), of ts u fc tok s'] assms(2) show ?thesis by blast
qed

lemma DeleteTuples_effect:
  assumes "up s" "SpiceDB_DeleteTuples env flt fc s = (x, s')"
  shows "up s' \<and> (rels s' = rels s \<and> \<not> is_ok x \<or> satisfied (fencing_preconditions fc) (rels s) \<and>
    (\<exists>F. tupleFilterToSpiceDBFilter flt = Inr F \<and> {r \<in> rels s. \<not> sp_matches F r} \<subseteq> rels s' \<and> rels s' \<subseteq> rels s))"
proof (cases x)
  case (Inl e)
  with DeleteTuples_err [OF assms(1), of flt fc e s'] assms(2) show ?thesis by fastforce
next
  case (Inr tok)
  then obtain F where F: "tupleFilterToSpiceDBFilter flt = Inr F" using assms(2) by (auto simp: SpiceDB_DeleteTuples_def split: sum.splits prod.splits)
  with DeleteTuples_ok [OF assms(1) F, of fc tok s'] assms(2) Inr show ?thesis by blast
qed

end

sublocale spicedb_service \<subseteq> tuple_store "spicedb_relations env" "stored_keys rels" up spicedb_tuple
proof unfold_locales
  fix s ts f tok s' assume "up s" "list_all spicedb_tuple ts" "ro_CreateTuples (spicedb_relations env) ts True f s = (Inr tok, s')"
  then show "stored_keys rels s' = stored_keys rels s \<union> tuple_keys (set ts) \<and> up s'"
    using CreateTuples_ok [of s ts True f tok s'] by (simp add: spicedb_relations_def stored_keys_insert)
next
  fix s ts f e s' assume a: "up s" "list_all spicedb_tuple ts" "ro_CreateTuples (spicedb_relations env) ts True f s = (Inl e, s')"
  then have c: "SpiceDB_CreateTuples env ts True f s = (Inl e, s')" by (simp add: spicedb_relations_def)
  have "stored_keys rels s' \<in> {stored_keys rels s, stored_keys rels s \<union> tuple_keys (set ts)}"
    using CreateTuples_err(1) [OF a(1) c]
  proof
    assume "rels s' = rels s"
    then show ?thesis by (simp add: stored_keys_def)
  next
    assume "satisfied (fencing_preconditions f) (rels s) \<and> rels s' = rels s \<union> relationsTupleToSpiceDBRelationship ` set ts"
    then show ?thesis by (simp add: stored_keys_insert [OF a(2)])
  qed
  with CreateTuples_err(2,3) [OF a(1) c]
  show "stored_keys rels s \<subseteq> stored_keys rels s' \<and> stored_keys rels s' \<subseteq> stored_keys rels s \<union> tuple_keys (set ts) \<and> up s' \<and>
      status_code e \<noteq> AlreadyExists" by auto
next
  fix s t f tok s' assume a: "up s" "spicedb_tuple t" "ro_DeleteTuples (spicedb_relations env) (tupleToFilter t) f s = (Inr tok, s')"
  obtain F where F: "tupleFilterToSpiceDBFilter (tupleToFilter t) = Inr F" "plain_filter (tupleToFilter t)"
    using tupleToFilter_converts [OF a(2)] by blast
  have "wf_tuple t" using a(2) by (simp add: spicedb_tuple_def)
  with converted_filter_matches [OF F] have "plain_key k \<Longrightarrow> sp_matches F (encoded k) \<longleftrightarrow> k = simpleTupleKeyFromModelTuple t" for k
    by (simp add: tupleToFilter_exact)
  with DeleteTuples_ok [OF a(1) F(1), of f tok s'] a(3)
  show "stored_keys rels s' = stored_keys rels s - {simpleTupleKeyFromModelTuple t} \<and> up s'"
    by (auto simp: spicedb_relations_def stored_keys_def)
next
  fix s t f e s' assume a: "up s" "spicedb_tuple t" "ro_DeleteTuples (spicedb_relations env) (tupleToFilter t) f s = (Inl e, s')"
  obtain F where F: "tupleFilterToSpiceDBFilter (tupleToFilter t) = Inr F" "plain_filter (tupleToFilter t)"
    using tupleToFilter_converts [OF a(2)] by blast
  have "wf_tuple t" using a(2) by (simp add: spicedb_tuple_def)
  with converted_filter_matches [OF F] have m: "plain_key k \<Longrightarrow> sp_matches F (encoded k) \<longleftrightarrow> k = simpleTupleKeyFromModelTuple t" for k
    by (simp add: tupleToFilter_exact)
  have c: "SpiceDB_DeleteTuples env (tupleToFilter t) f s = (Inl e, s')" using a(3) by (simp add: spicedb_relations_def)
  from DeleteTuples_err(1) [OF a(1) c] F(1) have "{r \<in> rels s. \<not> sp_matches F r} \<subseteq> rels s' \<and> rels s' \<subseteq> rels s" by auto
  with m DeleteTuples_err(2) [OF a(1) c]
  show "stored_keys rels s - {simpleTupleKeyFromModelTuple t} \<subseteq> stored_keys rels s' \<and> stored_keys rels s' \<subseteq> stored_keys rels s \<and> up s'"
    by (auto simp: stored_keys_def)
qed

context spicedb_service
begin

lemma store_contract: "tuple_store (spicedb_relations env) (stored_keys rels) up spicedb_tuple"
  by unfold_locales

end

section \<open>Locks and fencing\<close>

definition lock_rels :: "lock_id \<Rightarrow> sp_relationship set \<Rightarrow> sp_relationship set" where
  "lock_rels l R = {r \<in> R. sp_matches (lock_filter l None) r}"

text \<open>A run of the clients of one lock: any number of them acquire it, each reading and writing at a time of its own, while
  tuples of other types are written and deleted, fenced or not. The second component holds what every client between its two
  calls has read, and the token it will write.\<close>

inductive lock_run :: "'s spicedb_env \<Rightarrow> lock_id \<Rightarrow> 's \<Rightarrow> 's \<Rightarrow> (nat \<rightharpoonup> lock_token \<times> sp_relationship option) \<Rightarrow> bool" for env l s0 where
  begin_run: "lock_run env l s0 s0 Map.empty"
| read_lock: "lock_run env l s0 s p \<Longrightarrow> acquire_read env l s = Inr existing \<Longrightarrow> token \<noteq> [] \<Longrightarrow> lock_run env l s0 s (p(c \<mapsto> (token, existing)))"
| write_lock: "lock_run env l s0 s p \<Longrightarrow> p c = Some (token, existing) \<Longrightarrow> acquire_write env l token existing s = (x, s') \<Longrightarrow>
    lock_run env l s0 s' (p(c := None))"
| create_tuples: "lock_run env l s0 s p \<Longrightarrow> SpiceDB_CreateTuples env ts u fc s = (x, s') \<Longrightarrow>
    (\<And>t. t \<in> set ts \<Longrightarrow> resourceReferenceToSpiceDBType (rt_object t) \<noteq> lockType) \<Longrightarrow> lock_run env l s0 s' p"
| delete_tuples: "lock_run env l s0 s p \<Longrightarrow> SpiceDB_DeleteTuples env flt fc s = (x, s') \<Longrightarrow>
    (\<And>F. tupleFilterToSpiceDBFilter flt = Inr F \<Longrightarrow> xf_ResourceType F \<notin> {[], lockType}) \<Longrightarrow> lock_run env l s0 s' p"

lemma lock_filter_matches:
  "sp_matches (lock_filter l None) (lock_relationship l t)"
  "l \<noteq> [] \<Longrightarrow> sp_matches (lock_filter l None) r \<Longrightarrow> so_ObjectType (sx_Resource r) = lockType \<and> so_ObjectId (sx_Resource r) = l"
  "l \<noteq> [] \<Longrightarrow> t \<noteq> [] \<Longrightarrow> sp_matches (existing_filter (lock_relationship l t)) r \<Longrightarrow> sp_matches (lock_filter l None) r"
  "t \<noteq> [] \<Longrightarrow> sp_matches (existing_filter (lock_relationship l t)) (lock_relationship l t') \<longleftrightarrow> t = t'"
  "l \<noteq> [] \<Longrightarrow> sp_matches (lock_filter l (Some t)) r \<Longrightarrow> sp_matches (lock_filter l None) r"
  "t \<noteq> [] \<Longrightarrow> sp_matches (lock_filter l (Some t)) (lock_relationship l t') \<longleftrightarrow> t = t'"
  by (auto simp: sp_matches_def lock_filter_def existing_filter_def lock_relationship_def lockType_def serde addRelationPrefix_def relationPrefix_def
      split: option.splits if_splits)

lemma lock_rels_other:
  assumes "l \<noteq> []" "\<And>r. r \<in> R - R' \<union> (R' - R) \<Longrightarrow> so_ObjectType (sx_Resource r) \<noteq> lockType"
  shows "lock_rels l R' = lock_rels l R"
  using assms lock_filter_matches(2) [OF assms(1)] unfolding lock_rels_def by blast

definition one_token :: "lock_id \<Rightarrow> sp_relationship set \<Rightarrow> lock_token \<Rightarrow> bool" where
  "one_token l R t \<longleftrightarrow> t \<noteq> [] \<and> lock_rels l R = {lock_relationship l t}"

lemma one_token_precondition:
  assumes "one_token l R t" "l \<noteq> []" "t' \<noteq> []" "t' \<noteq> t"
  shows "\<not> satisfied (fencing_preconditions (Some (NewFencingCheck l t'))) R" "\<not> satisfied [existing_filter (lock_relationship l t')] R"
proof -
  have "r = lock_relationship l t" if "r \<in> R" "sp_matches (lock_filter l None) r" for r
    using assms(1) that by (auto simp: one_token_def lock_rels_def)
  with lock_filter_matches(3-6) [OF assms(2)] assms(3,4)
  show "\<not> satisfied (fencing_preconditions (Some (NewFencingCheck l t'))) R" "\<not> satisfied [existing_filter (lock_relationship l t')] R"
    by (auto simp: satisfied_def fencing_preconditions_def NewFencingCheck_def) (metis lock_filter_matches)+
qed

lemma current_precondition:
  assumes "one_token l R t" "l \<noteq> []"
  shows "satisfied (fencing_preconditions (Some (NewFencingCheck l t'))) R \<longleftrightarrow> t' = t \<or> t' = []"
    "satisfied (fencing_preconditions (Some (NewFencingCheck [] []))) R"
proof -
  have r: "lock_relationship l t \<in> R" using assms(1) by (auto simp: one_token_def lock_rels_def)
  have "sp_matches (lock_filter l' (Some t'')) (lock_relationship l t)" if "l' = l \<or> l' = []" "t'' = t \<or> t'' = []" for l' t''
    using that by (auto simp: sp_matches_def lock_filter_def lock_relationship_def serde)
  with r show "satisfied (fencing_preconditions (Some (NewFencingCheck [] []))) R"
    and "satisfied (fencing_preconditions (Some (NewFencingCheck l t'))) R \<longleftrightarrow> t' = t \<or> t' = []"
    using one_token_precondition(1) [OF assms, of t'] by (auto simp: satisfied_def fencing_preconditions_def NewFencingCheck_def)
qed

lemma replaced_token:
  assumes "one_token l R t" "token \<noteq> []"
    and "R' = fold apply_update [\<lparr>su_Operation = OPERATION_DELETE, su_Relationship = lock_relationship l t\<rparr>,
      \<lparr>su_Operation = OPERATION_CREATE, su_Relationship = lock_relationship l token\<rparr>] R"
  shows "one_token l R' token"
proof -
  have "R' = insert (lock_relationship l token) (R - {lock_relationship l t})" using assms(3) by (simp add: apply_update_def)
  then have "lock_rels l R' = insert (lock_relationship l token) (lock_rels l R - {lock_relationship l t})"
    using lock_filter_matches(1) [of l token] unfolding lock_rels_def by blast
  with assms(1,2) show ?thesis by (simp add: one_token_def)
qed

text \<open>Every client between its calls has read a relationship of the lock, and one token is current.\<close>

definition lock_inv :: "'s spicedb_env \<Rightarrow> ('s \<Rightarrow> sp_relationship set) \<Rightarrow> lock_id \<Rightarrow> 's \<Rightarrow> (nat \<rightharpoonup> lock_token \<times> sp_relationship option) \<Rightarrow> bool" where
  "lock_inv env rels l s p \<longleftrightarrow> (\<exists>t. one_token l (rels s) t) \<and>
     (\<forall>c token existing. p c = Some (token, existing) \<longrightarrow> token \<noteq> [] \<and> (\<exists>t. t \<noteq> [] \<and> existing = Some (lock_relationship l t)))"

context spicedb_service
begin

lemma acquire_read_one:
  assumes "up s" "one_token l (rels s) t" "acquire_read env l s = Inr existing"
  shows "existing = Some (lock_relationship l t)"
proof -
  obtain ms fin where r: "sc_ReadRelationships (se_client env) FullyConsistent (lock_filter l None) 0 None s = Inr (ms, fin)"
    using assms(3) by (auto simp: acquire_read_def split: sum.splits prod.splits)
  have sub: "sm_Relationship ` set ms \<subseteq> {lock_relationship l t}" "fin = None \<Longrightarrow> ms \<noteq> []"
    using read_messages [OF assms(1) r] assms(2) by (auto simp: one_token_def lock_rels_def)
  show ?thesis
  proof (cases ms)
    case Nil
    with sub(2) r assms(3) show ?thesis by (cases fin) (auto simp: acquire_read_def)
  next
    case (Cons m ms')
    with sub(1) r assms(3) show ?thesis by (cases fin) (auto simp: acquire_read_def)
  qed
qed

lemma acquire_write_cases:
  assumes "up s" "acquire_write env l token (Some r) s = (x, s')"
  shows "up s'" "rels s' = rels s \<and> \<not> is_ok x \<or> satisfied [existing_filter r] (rels s) \<and>
    rels s' = fold apply_update [\<lparr>su_Operation = OPERATION_DELETE, su_Relationship = r\<rparr>,
      \<lparr>su_Operation = OPERATION_CREATE, su_Relationship = lock_relationship l token\<rparr>] (rels s)"
proof -
  obtain y where w: "sc_WriteRelationships (se_client env) [\<lparr>su_Operation = OPERATION_DELETE, su_Relationship = r\<rparr>,
      \<lparr>su_Operation = OPERATION_CREATE, su_Relationship = lock_relationship l token\<rparr>] [existing_filter r] s = (y, s')" "is_ok y = is_ok x"
    using assms(2) by (auto simp: acquire_write_def Let_def split: prod.splits sum.splits)
  show "up s'" "rels s' = rels s \<and> \<not> is_ok x \<or> satisfied [existing_filter r] (rels s) \<and>
    rels s' = fold apply_update [\<lparr>su_Operation = OPERATION_DELETE, su_Relationship = r\<rparr>,
      \<lparr>su_Operation = OPERATION_CREATE, su_Relationship = lock_relationship l token\<rparr>] (rels s)"
    using w write_ok [OF assms(1)] write_err [OF assms(1)] by (cases y; fastforce)+
qed

lemma acquire_write_one:
  assumes "up s" "l \<noteq> []" "one_token l (rels s) t" "token \<noteq> []" "t' \<noteq> []" "acquire_write env l token (Some (lock_relationship l t')) s = (x, s')"
  shows "rels s' = rels s \<and> \<not> is_ok x \<or> one_token l (rels s') token"
  using acquire_write_cases(2) [OF assms(1,6)] one_token_precondition(2) [OF assms(3,2,5)] replaced_token [OF assms(3,4)] by blast

lemma tuple_steps_keep_lock:
  assumes "up s" "l \<noteq> []"
  shows "SpiceDB_CreateTuples env ts u fc s = (x, s') \<Longrightarrow> (\<And>t. t \<in> set ts \<Longrightarrow> resourceReferenceToSpiceDBType (rt_object t) \<noteq> lockType) \<Longrightarrow>
      up s' \<and> lock_rels l (rels s') = lock_rels l (rels s)"
    and "SpiceDB_DeleteTuples env flt fc s = (x, s') \<Longrightarrow> (\<And>F. tupleFilterToSpiceDBFilter flt = Inr F \<Longrightarrow> xf_ResourceType F \<notin> {[], lockType}) \<Longrightarrow>
      up s' \<and> lock_rels l (rels s') = lock_rels l (rels s)"
proof -
  assume c: "SpiceDB_CreateTuples env ts u fc s = (x, s')" and n: "\<And>t. t \<in> set ts \<Longrightarrow> resourceReferenceToSpiceDBType (rt_object t) \<noteq> lockType"
  have "so_ObjectType (sx_Resource r) \<noteq> lockType" if "r \<in> relationsTupleToSpiceDBRelationship ` set ts" for r
    using that n by (auto simp: relationsTupleToSpiceDBRelationship_def object_of_reference_def)
  then have "so_ObjectType (sx_Resource r) \<noteq> lockType" if "r \<in> rels s - rels s' \<union> (rels s' - rels s)" for r
    using that CreateTuples_effect [OF assms(1) c] by auto
  with lock_rels_other [OF assms(2)] CreateTuples_effect [OF assms(1) c] show "up s' \<and> lock_rels l (rels s') = lock_rels l (rels s)" by metis
next
  assume d: "SpiceDB_DeleteTuples env flt fc s = (x, s')"
    and n: "\<And>F. tupleFilterToSpiceDBFilter flt = Inr F \<Longrightarrow> xf_ResourceType F \<notin> {[], lockType}"
  have "so_ObjectType (sx_Resource r) \<noteq> lockType" if "tupleFilterToSpiceDBFilter flt = Inr F" "sp_matches F r" for F r
    using n [OF that(1)] that(2) by (auto simp: sp_matches_def)
  then have "so_ObjectType (sx_Resource r) \<noteq> lockType" if "r \<in> rels s - rels s' \<union> (rels s' - rels s)" for r
    using that DeleteTuples_effect [OF assms(1) d] by auto
  with lock_rels_other [OF assms(2)] DeleteTuples_effect [OF assms(1) d] show "up s' \<and> lock_rels l (rels s') = lock_rels l (rels s)" by metis
qed

lemma lock_run_inv:
  assumes "lock_run env l s0 s p" "up s0" "l \<noteq> []" "one_token l (rels s0) t0"
  shows "up s \<and> lock_inv env rels l s p"
  using assms(1)
proof induction
  case begin_run
  then show ?case using assms(2,4) by (auto simp: lock_inv_def)
next
  case (read_lock s p existing token c)
  then obtain t where "one_token l (rels s) t" by (auto simp: lock_inv_def)
  with read_lock acquire_read_one [of s l t existing] show ?case by (auto simp: lock_inv_def one_token_def)
next
  case (write_lock s p c token existing x s')
  then obtain t t' where t: "one_token l (rels s) t" "existing = Some (lock_relationship l t')" "t' \<noteq> []" "token \<noteq> []"
    unfolding lock_inv_def by blast
  from write_lock t have "up s'" "rels s' = rels s \<or> one_token l (rels s') token"
    using acquire_write_cases(1) acquire_write_one [OF _ assms(3) t(1,4,3)] by blast+
  with write_lock t(1) show ?case by (auto simp: lock_inv_def)
next
  case (create_tuples s p ts u fc x s')
  then show ?case using tuple_steps_keep_lock(1) [OF _ assms(3)] by (auto simp: lock_inv_def one_token_def)
next
  case (delete_tuples s p flt fc x s')
  then show ?case using tuple_steps_keep_lock(2) [OF _ assms(3)] by (auto simp: lock_inv_def one_token_def)
qed

lemma stale_token_rejected:
  assumes "up s" "one_token l (rels s) t" "l \<noteq> []" "t' \<noteq> []" "t' \<noteq> t"
  shows "SpiceDB_CreateTuples env ts u (Some (NewFencingCheck l t')) s = (x, s') \<Longrightarrow> \<not> is_ok x \<and> rels s' = rels s"
    and "SpiceDB_DeleteTuples env flt (Some (NewFencingCheck l t')) s = (x, s') \<Longrightarrow> \<not> is_ok x \<and> rels s' = rels s"
  using one_token_precondition(1) [OF assms(2-5)] CreateTuples_effect [OF assms(1)] DeleteTuples_effect [OF assms(1)] by blast+

end

section \<open>A service in memory\<close>

text \<open>An implementation of the documented behaviour on a list of relationships: it shows that the laws can hold. Without a schema, a
  permission is the relation of its name.\<close>

definition memory_write :: "sp_update list \<Rightarrow> sp_filter list \<Rightarrow> sp_relationship list \<Rightarrow> string result \<times> sp_relationship list" where
  "memory_write us ps s =
     (if \<not> list_all (\<lambda>p. list_ex (sp_matches p) s) ps then (Err (StatusError FailedPrecondition ''unable to satisfy write precondition''), s)
      else if list_ex (\<lambda>u. su_Operation u = OPERATION_CREATE \<and> List.member s (su_Relationship u)) us
      then (Err (StatusError AlreadyExists ''relationship already exists''), s)
      else (Ok ''z'', fold (\<lambda>u s. if su_Operation u = OPERATION_DELETE then removeAll (su_Relationship u) s else List.insert (su_Relationship u) s) us s))"

definition memory_delete :: "sp_filter \<Rightarrow> sp_filter list \<Rightarrow> sp_relationship list \<Rightarrow> string result \<times> sp_relationship list" where
  "memory_delete flt ps s =
     (if \<not> list_all (\<lambda>p. list_ex (sp_matches p) s) ps then (Err (StatusError FailedPrecondition ''unable to satisfy delete precondition''), s)
      else (Ok ''z'', filter (\<lambda>r. \<not> sp_matches flt r) s))"

definition memory_read :: "sp_consistency \<Rightarrow> sp_filter \<Rightarrow> 32 word \<Rightarrow> string option \<Rightarrow> sp_relationship list \<Rightarrow>
    (sp_read_message list \<times> go_error option) result" where
  "memory_read c flt limit cursor s =
     (let ms = map (\<lambda>r. \<lparr>sm_Relationship = r, sm_AfterResultCursor = None, sm_ReadAt = ''z''\<rparr>) (filter (sp_matches flt) s)
      in Ok (if limit = 0 then ms else take (unat limit) ms, None))"

definition memory_check :: "sp_check_item \<Rightarrow> sp_relationship list \<Rightarrow> permissionship" where
  "memory_check item s = (case item of (ob, p, sub) \<Rightarrow>
     if List.member s \<lparr>sx_Resource = ob, sx_Relation = addRelationPrefix p relationPrefix, sx_Subject = sub\<rparr>
     then PERMISSIONSHIP_HAS_PERMISSION else PERMISSIONSHIP_NO_PERMISSION)"

definition memory_client :: "sp_relationship list spicedb_client" where
  "memory_client = \<lparr>sc_CheckPermission = (\<lambda>c item s. Ok (memory_check item s, ''z'')),
     sc_CheckBulkPermissions = (\<lambda>c items s. Ok (map (\<lambda>i. Inr (memory_check i s)) items, ''z'')),
     sc_LookupResources = (\<lambda>c t p sub limit cursor s. Ok (map (\<lambda>r. (so_ObjectId (sx_Resource r), None))
       (filter (\<lambda>r. so_ObjectType (sx_Resource r) = t \<and> sx_Relation r = addRelationPrefix p relationPrefix \<and> sx_Subject r = sub) s), None)),
     sc_LookupSubjects = (\<lambda>c ob p t rel limit cursor s. Ok (map (\<lambda>r. (so_ObjectId (ss_Object (sx_Subject r)), None))
       (filter (\<lambda>r. sx_Resource r = ob \<and> sx_Relation r = addRelationPrefix p relationPrefix \<and> so_ObjectType (ss_Object (sx_Subject r)) = t) s), None)),
     sc_ReadRelationships = memory_read, sc_WriteRelationships = memory_write, sc_DeleteRelationships = memory_delete,
     sc_newUUID = (\<lambda>s. replicate (Suc (length s)) CHR ''u'')\<rparr>"

definition memory_env :: "sp_relationship list spicedb_env" where
  "memory_env = \<lparr>se_client = memory_client, se_initErr = None, se_fullyConsistentAsDefault = True\<rparr>"

lemma memory_satisfied: "list_all (\<lambda>p. list_ex (sp_matches p) s) ps \<longleftrightarrow> satisfied ps (set s)"
  by (simp add: list_all_iff list_ex_iff satisfied_def)

lemma memory_updates:
  "set (fold (\<lambda>u s. if su_Operation u = OPERATION_DELETE then removeAll (su_Relationship u) s else List.insert (su_Relationship u) s) us s) =
     fold apply_update us (set s)"
  by (induction us arbitrary: s) (simp_all add: apply_update_def)

interpretation memory_service: spicedb_service memory_env set "\<lambda>_. True"
  by unfold_locales
    (auto simp: memory_env_def memory_client_def memory_write_def memory_delete_def memory_read_def memory_satisfied memory_updates list.pred_set
      Let_def image_image list_ex_iff satisfied_def split: if_splits)

text \<open>The repository over SpiceDB implements the contract the consumer relies on: with the laws SpiceDB documents for its calls,
  creations that overwrite add exactly the given tuples and the deletion of a tuple's filter removes exactly that tuple, whatever
  else is stored, for tuples whose types hold no slash, whose identifiers are not empty and whose relation does not start with the
  prefix the repository adds, and which are not locks. A failing call leaves the tuples as they were or as they would be, and is never answered by
  \<open>AlreadyExists\<close>.\<close>

lemma spicedb_implements_store:
  assumes "spicedb_service env rels up"
  shows "tuple_store (spicedb_relations env) (stored_keys rels) up spicedb_tuple"
  using assms by (rule spicedb_service.store_contract)

text \<open>Workspace tuples are tuples SpiceDB can store when the reporter type holds no slash, the identifier is not
  empty and the resource is not a lock.\<close>

lemma subject_tuple_spicedb:
  "spicedb_tuple (NewRelationTupleForSubject key rel ns ty sid) \<longleftrightarrow> CHR ''/'' \<notin> set (rrk_reporterType key) \<and> CHR ''/'' \<notin> set ns \<and>
     rrk_localResourceID key \<noteq> [] \<and> sid \<noteq> [] \<and> \<not> HasPrefix rel relationPrefix \<and> rrk_reporterType key @ ''/'' @ rrk_resourceType key \<noteq> lockType"
proof -
  have "sref_relation (rt_subject (NewRelationTupleForSubject key rel ns ty sid)) = None"
    by (simp add: NewRelationTupleForSubject_def Let_def NewSubjectReferenceWithoutRelation_def)
  then show ?thesis by (simp add: spicedb_tuple_def subject_tuple_wf plain_key_def subject_tuple_key)
qed

lemma storable_workspace:
  assumes "CHR ''/'' \<notin> set (rrk_reporterType key)" "rrk_localResourceID key \<noteq> []" "rrk_reporterType key @ ''/'' @ rrk_resourceType key \<noteq> lockType"
  shows "storable spicedb_tuple [] key ro"
proof -
  have "schema_tuples (schema_for [] (rrk_resourceType key)) = workspace_tuples"
    by (simp add: schema_for_def GetResourceSchema_def schema_tuples_def)
  with assms show ?thesis
    by (auto simp: storable_def workspace_tuples_def NewWorkspaceRelationsTuple_def subject_tuple_spicedb
        HasPrefix_def relationPrefix_def WorkspaceRelation_def RbacNamespace_def split: if_splits)
qed

text \<open>A tuple read back is the tuple written: what the reader of SpiceDB's stream makes of the relationship a tuple was written as
  is the tuple, its subject relation included, for types without a slash and a relation without the prefix.\<close>

lemma spicedb_tuple_roundtrip:
  assumes "CHR ''/'' \<notin> set (oref_resourceType (rt_object t))" "CHR ''/'' \<notin> set (oref_resourceType (sref_resource (rt_subject t)))"
    and "\<And>r. oref_reporter (rt_object t) = Some r \<or> oref_reporter (sref_resource (rt_subject t)) = Some r \<Longrightarrow>
      CHR ''/'' \<notin> set (rref_reporterType r) \<and> rref_instanceId r = None"
    and "\<not> HasPrefix (rt_relation t) relationPrefix" "sref_relation (rt_subject t) \<noteq> Some []"
  shows "\<exists>item. spicedbReadTuplesStream_Recv \<lparr>sm_Relationship = relationsTupleToSpiceDBRelationship t, sm_AfterResultCursor = c, sm_ReadAt = z\<rparr> = Inr item \<and>
    rti_object item = rt_object t \<and> rti_relation item = rt_relation t \<and> rti_subject item = rt_subject t"
proof -
  have plain: "split_slash x = [x]" if "CHR ''/'' \<notin> set x" for x
    using that by (induction x) auto
  have pair: "split_slash (x @ CHR ''/'' # y) = [x, y]" if "CHR ''/'' \<notin> set x" "CHR ''/'' \<notin> set y" for x y
    using that by (induction x) (auto simp: plain)
  have ref: "spiceDBTypeToResourceReference (resourceReferenceToSpiceDBType o1) (SerializeString (oref_resourceId o1)) = Inr o1"
    if "CHR ''/'' \<notin> set (oref_resourceType o1)"
      "\<And>r. oref_reporter o1 = Some r \<Longrightarrow> CHR ''/'' \<notin> set (rref_reporterType r) \<and> rref_instanceId r = None" for o1
    using that by (cases o1; cases "oref_reporter o1")
      (auto simp: spiceDBTypeToResourceReference_def resourceReferenceToSpiceDBType_def serde plain pair NewResourceReference_def NewReporterReference_def)
  have rel: "DeserializeRelation (stripRelationPrefix (addRelationPrefix (SerializeString (rt_relation t)) relationPrefix) relationPrefix) = rt_relation t"
    using assms(4) by (simp add: stripRelationPrefix_def addRelationPrefix_plain TrimPrefix_def serde)
  have sub: "NewSubjectReference (sref_resource x) (if optionalRelationToString (sref_relation x) \<noteq> []
      then Some (DeserializeRelation (optionalRelationToString (sref_relation x))) else None) = x" if "sref_relation x \<noteq> Some []" for x
    using that by (cases x; cases "sref_relation x") (auto simp: optionalRelationToString_def NewSubjectReference_def serde)
  show ?thesis
    using ref [OF assms(1)] ref [OF assms(2)] assms(3) rel sub [OF assms(5)]
    by (cases "optionalRelationToString (sref_relation (rt_subject t)) = []")
      (simp_all add: spicedbReadTuplesStream_Recv_def relationsTupleToSpiceDBRelationship_def object_of_reference_def subject_of_reference_def Let_def)
qed

definition member_tuple :: relations_tuple where
  "member_tuple = NewRelationsTuple (NewResourceReference ''group'' ''g1'' (Some (NewReporterReference ''rbac'' None))) ''member''
     (NewSubjectReference (NewResourceReference ''group'' ''g2'' (Some (NewReporterReference ''rbac'' None))) (Some ''member''))"

text \<open>Both repositories read a filter alike: SpiceDB matches the converted filter against a stored tuple exactly when the in-memory
  repository matches the filter itself against it.\<close>

lemma filters_agree:
  assumes "tupleFilterToSpiceDBFilter f = Inr F" "plain_filter f" "spicedb_tuple t"
  shows "sp_matches F (relationsTupleToSpiceDBRelationship t) \<longleftrightarrow> simpleMatchesTupleFilter (simpleTupleKeyFromModelTuple t) f"
  using converted_filter_matches [OF assms(1,2)] assms(3) by (simp add: tuple_encoded spicedb_tuple_def)

definition workspace_filter :: tuple_filter where
  "workspace_filter = TupleFilter_WithReporterType ''hbi'' (TupleFilter_WithObjectType ''host'' NewTupleFilter)"

section \<open>Fencing\<close>

text \<open>C15. Fencing by locks, whatever the interleaving: once a lock has been acquired, any number of clients may acquire it again, each
  reading and writing in two calls, among writes and deletions of other tuples and calls that fail after taking effect. At every
  moment exactly one token of the lock is current: a creation or deletion of tuples fenced with another token that is not empty fails and changes
  nothing, and a client that succeeds in acquiring the lock holds the current token. The empty token, which the consumer has before its
  first acquisition and after a failed one, and the empty lock with the empty token, which it has after losing its partition, are not fenced off: their precondition
  is satisfied by any version of the lock.\<close>

theorem stale_tokens_fenced_off:
  assumes "spicedb_service env rels up" "up s0" "l \<noteq> []" "one_token l (rels s0) t0" "lock_run env l s0 s p"
  shows "\<exists>t. one_token l (rels s) t \<and>
    (\<forall>t'. satisfied (fencing_preconditions (Some (NewFencingCheck l t'))) (rels s) \<longleftrightarrow> t' = t \<or> t' = []) \<and>
    satisfied (fencing_preconditions (Some (NewFencingCheck [] []))) (rels s) \<and>
    (\<forall>t' ts u flt x y s1 s2. t' \<noteq> t \<longrightarrow> t' \<noteq> [] \<longrightarrow> SpiceDB_CreateTuples env ts u (Some (NewFencingCheck l t')) s = (x, s1) \<longrightarrow>
       SpiceDB_DeleteTuples env flt (Some (NewFencingCheck l t')) s = (y, s2) \<longrightarrow>
       \<not> is_ok x \<and> rels s1 = rels s \<and> \<not> is_ok y \<and> rels s2 = rels s) \<and>
    (\<forall>c token existing x s'. p c = Some (token, existing) \<longrightarrow> acquire_write env l token existing s = (Inr x, s') \<longrightarrow> one_token l (rels s') token)"
proof -
  note run = spicedb_service.lock_run_inv [OF assms(1,5,2-4)]
  then have up: "up s" by simp
  obtain t where t: "one_token l (rels s) t"
    and p: "\<And>c token existing. p c = Some (token, existing) \<Longrightarrow> token \<noteq> [] \<and> (\<exists>t. t \<noteq> [] \<and> existing = Some (lock_relationship l t))"
    using run unfolding lock_inv_def by blast
  have "one_token l (rels s') token" if "p c = Some (token, existing)" "acquire_write env l token existing s = (Inr x, s')" for c token existing x s'
    using p [OF that(1)] that(2) spicedb_service.acquire_write_one [OF assms(1) up assms(3) t] by fastforce
  moreover have "\<forall>t' ts u flt x y s1 s2. t' \<noteq> t \<longrightarrow> t' \<noteq> [] \<longrightarrow> SpiceDB_CreateTuples env ts u (Some (NewFencingCheck l t')) s = (x, s1) \<longrightarrow>
       SpiceDB_DeleteTuples env flt (Some (NewFencingCheck l t')) s = (y, s2) \<longrightarrow> \<not> is_ok x \<and> rels s1 = rels s \<and> \<not> is_ok y \<and> rels s2 = rels s"
    using spicedb_service.stale_token_rejected [OF assms(1) up t assms(3)] by blast
  ultimately show ?thesis
    by (intro exI [of _ t] conjI allI) (use t current_precondition [OF t assms(3)] in \<open>blast+\<close>)
qed

definition locked_store :: "sp_relationship list" where
  "locked_store = [lock_relationship ''l'' ''t0'']"

lemma locked_store_one: "one_token ''l'' (set locked_store) ''t0''"
  by (simp add: one_token_def lock_rels_def locked_store_def lock_filter_matches(1) conj_commute cong: conj_cong)

theorem stale_tokens_fenced_off_witness:
  "\<exists>s. lock_run memory_env ''l'' locked_store s (Map.empty(0 := None)) \<and> one_token ''l'' (set s) ''t1'' \<and>
     \<not> is_ok (fst (SpiceDB_CreateTuples memory_env [member_tuple] True (Some (NewFencingCheck ''l'' ''t0'')) s)) \<and>
     is_ok (fst (SpiceDB_CreateTuples memory_env [member_tuple] True (Some (NewFencingCheck ''l'' [])) s))"
proof -
  have r: "acquire_read memory_env ''l'' locked_store = Inr (Some (lock_relationship ''l'' ''t0''))" by code_simp
  have w: "acquire_write memory_env ''l'' ''t1'' (Some (lock_relationship ''l'' ''t0'')) locked_store = (Inr ''t1'', [lock_relationship ''l'' ''t1''])" by code_simp
  have read: "lock_run memory_env ''l'' locked_store locked_store (Map.empty(0 \<mapsto> (''t1'', Some (lock_relationship ''l'' ''t0''))))"
    by (rule lock_run.read_lock [OF lock_run.begin_run r]) simp
  have run: "lock_run memory_env ''l'' locked_store [lock_relationship ''l'' ''t1''] (Map.empty(0 := None))"
    using lock_run.write_lock [OF read _ w, of 0] by simp
  let ?s = "[lock_relationship ''l'' ''t1'']"
  obtain t where t: "one_token ''l'' (set ?s) t"
    and f: "\<forall>t' ts u flt x y s1 s2. t' \<noteq> t \<longrightarrow> t' \<noteq> [] \<longrightarrow> SpiceDB_CreateTuples memory_env ts u (Some (NewFencingCheck ''l'' t')) ?s = (x, s1) \<longrightarrow>
       SpiceDB_DeleteTuples memory_env flt (Some (NewFencingCheck ''l'' t')) ?s = (y, s2) \<longrightarrow>
       \<not> is_ok x \<and> set s1 = set ?s \<and> \<not> is_ok y \<and> set s2 = set ?s"
    using stale_tokens_fenced_off [OF memory_service.spicedb_service_axioms TrueI list.distinct(2) locked_store_one run]
    by (elim exE conjE) (rule that; assumption)
  obtain x s1 where x: "SpiceDB_CreateTuples memory_env [member_tuple] True (Some (NewFencingCheck ''l'' ''t0'')) ?s = (x, s1)" by (meson surj_pair)
  obtain y s2 where y: "SpiceDB_DeleteTuples memory_env NewTupleFilter (Some (NewFencingCheck ''l'' ''t0'')) ?s = (y, s2)" by (meson surj_pair)
  have "lock_relationship ''l'' t \<in> set ?s" using t unfolding one_token_def lock_rels_def by blast
  then have t1: "t = ''t1''" by (simp add: lock_relationship_def)
  have "\<not> is_ok x" using f [rule_format, OF _ _ x y] t1 by simp
  moreover have "is_ok (fst (SpiceDB_CreateTuples memory_env [member_tuple] True (Some (NewFencingCheck ''l'' [])) ?s))" by code_simp
  ultimately show ?thesis using run t t1 x by (intro exI [of _ ?s]) simp
qed

text \<open>C16. The first acquisition of a lock is not exclusive, for every service and every state without a relationship of the lock: a client that reads then finds
  none and writes its token without a precondition. When two clients both read before either writes and their writes are carried out, both are told they
  have the lock, both tokens are stored, and the precondition of writes fenced with either of them is satisfied.\<close>

theorem first_acquisition_races:
  assumes "spicedb_service env rels up" "up s0" "lock_rels l (rels s0) = {}" "acquire_read env l s0 = Inr existing"
    and "acquire_write env l t1 existing s0 = (Inr x1, s1)" "acquire_write env l t2 existing s1 = (Inr x2, s2)"
  shows "existing = None \<and> x1 = t1 \<and> x2 = t2 \<and> lock_rels l (rels s2) = {lock_relationship l t1, lock_relationship l t2} \<and>
    satisfied (fencing_preconditions (Some (NewFencingCheck l t1))) (rels s2) \<and> satisfied (fencing_preconditions (Some (NewFencingCheck l t2))) (rels s2)"
proof -
  note S = spicedb_service.read_messages [OF assms(1,2)] spicedb_service.write_ok [OF assms(1)]
  have none: "existing = None"
    using assms(3,4) S(1) [of "lock_filter l None"] by (fastforce simp: acquire_read_def lock_rels_def split: sum.splits prod.splits list.splits option.splits)
  have step: "rels s' = insert (lock_relationship l t) (rels s) \<and> up s' \<and> x = t" if "up s" "acquire_write env l t None s = (Inr x, s')" for s s' t x
    using that S(2) [OF that(1)] by (fastforce simp: acquire_write_def apply_update_def serde split: prod.splits sum.splits)
  have 1: "rels s1 = insert (lock_relationship l t1) (rels s0)" "up s1" "x1 = t1" using step [OF assms(2)] assms(5) none by blast+
  have 2: "rels s2 = insert (lock_relationship l t2) (rels s1)" "x2 = t2" using step [OF 1(2)] assms(6) none by blast+
  have "lock_rels l (rels s2) = {lock_relationship l t1, lock_relationship l t2}"
    using assms(3) lock_filter_matches(1) [of l] unfolding 1(1) 2(1) lock_rels_def by blast
  moreover have "satisfied (fencing_preconditions (Some (NewFencingCheck l t))) (rels s2)" if "t = t1 \<or> t = t2" for t
    using that 1(1) 2(1) by (auto simp: satisfied_def fencing_preconditions_def NewFencingCheck_def sp_matches_def lock_filter_def lock_relationship_def serde)
  ultimately show ?thesis using none 1(3) 2(2) by simp
qed

theorem first_acquisition_races_witness:
  "\<exists>s1 s2. acquire_write memory_env ''l'' ''t1'' None [] = (Inr ''t1'', s1) \<and> acquire_write memory_env ''l'' ''t2'' None s1 = (Inr ''t2'', s2) \<and>
     lock_rels ''l'' (set s2) = {lock_relationship ''l'' ''t1'', lock_relationship ''l'' ''t2''}"
proof -
  let ?s1 = "snd (acquire_write memory_env ''l'' ''t1'' None [])" and ?s2 = "snd (acquire_write memory_env ''l'' ''t2'' None (snd (acquire_write memory_env ''l'' ''t1'' None [])))"
  have r: "acquire_read memory_env ''l'' [] = Inr None" by code_simp
  have w1: "acquire_write memory_env ''l'' ''t1'' None [] = (Inr ''t1'', ?s1)" by code_simp
  have w2: "acquire_write memory_env ''l'' ''t2'' None ?s1 = (Inr ''t2'', ?s2)" by code_simp
  have "lock_rels ''l'' (set []) = {}" by (simp add: lock_rels_def)
  from first_acquisition_races [OF memory_service.spicedb_service_axioms TrueI this r w1 w2] w1 w2 show ?thesis by blast
qed

section \<open>Initialisation\<close>

text \<open>The outcome of the first initialisation is final: after it, every call returns what it returned, whatever the schema file and the
  service have become, and calls neither. A repository that met an unavailable service once fails until the process ends.\<close>

lemma initialize_once:
  assumes "initialize readFile writeSchema repo s = (x, repo', s')"
  shows "initialize readFile' writeSchema' repo' t = (x, repo', t)"
  using assms by (auto simp: initialize_def Let_def split: if_splits sum.splits prod.splits)

lemma uninitialized_fails:
  assumes "sp_initErr repo = Some e"
  shows "SpiceDB_CreateTuples (spicedb_env_of repo) ts u fc s = (Err e, s)" "SpiceDB_DeleteTuples (spicedb_env_of repo) flt fc s = (Err e, s)"
    "SpiceDB_Check (spicedb_env_of repo) rel c s = Err e" "SpiceDB_AcquireLock (spicedb_env_of repo) l s = (Err e, s)"
  using assms by (simp_all add: SpiceDB_CreateTuples_def SpiceDB_DeleteTuples_def SpiceDB_Check_def SpiceDB_AcquireLock_def initialized_def spicedb_env_of_def)

section \<open>Reports reach SpiceDB\<close>

text \<open>C14. The whole path with SpiceDB at its end: however reports and consumption interleave, from empty tables and no tuples, once the
  log is consumed the relationships SpiceDB stores, decoded, are exactly the tuples of the latest common representation of every
  resource. As for \<open>reports_replicated\<close>, no two reported resources have the reporter type, resource type and local identifier in common, SpiceDB can hold the tuples,
  and versions are below \<open>2 ^ 53\<close>.\<close>

theorem reports_reach_spicedb:
  assumes "spicedb_service env rels up" "cv_relations cenv = spicedb_relations env" "factory_built FeaturesAwareSchemaFactory (cv_schemas cenv)"
    and "cv_relationsEnabled cenv" "gorm_store (us_gorm uc)" "stored_keys rels s0 = {}" "up s0"
    and "system uc cenv (empty_db, 0, s0) (d, n, s)" "n = length (tuple_log (db_wal d))"
    and "unshared d" "storable_db spicedb_tuple (cv_schemas cenv) d" "exact_versions d"
  shows "{k. plain_key k \<and> encoded k \<in> rels s} = (\<Union>(key, i) \<in> {(key, i). known_key d key i}. latest_tuples (cv_schemas cenv) d key i)"
proof -
  have "tuple_store (cv_relations cenv) (stored_keys rels) up spicedb_tuple"
    unfolding assms(2) using assms(1) by (rule spicedb_service.store_contract)
  from system_tuples [OF this assms(3-8), THEN conjunct2, THEN mp, OF _ assms(9)] assms(10-12) show ?thesis unfolding stored_keys_def by (simp add: replicable_def)
qed

definition spicedb_consumer :: "sp_relationship list consumer_env" where
  "spicedb_consumer = \<lparr>cv_relations = spicedb_relations memory_env, cv_relationsEnabled = True, cv_schemas = [], cv_OperationMaxRetries = 3,
     cv_CommitModulo = 5, cv_ConsumerGroupID = ''g'', cv_hasNotifier = True, cv_uuid_parse = (\<lambda>_. Some 1)\<rparr>"

text \<open>The consumer has acquired its lock; the resource moves from one workspace to another before it consumes.\<close>

definition consumer_lock :: "sp_relationship list" where
  "consumer_lock = [lock_relationship ''l'' ''t'']"

definition spicedb_run :: "(string result \<times> sp_relationship list) option" where
  "spicedb_run = (case moved_report_db of Inl e \<Rightarrow> None
     | Inr d \<Rightarrow> (case process_entry spicedb_consumer d 0 consumer_lock of
          Some (Inr _, s) \<Rightarrow> process_entry spicedb_consumer d 1 s | _ \<Rightarrow> None))"

lemma spicedb_run_evaluates:
  "case spicedb_run of Some (Inr _, s) \<Rightarrow> s = [encoded (simpleTupleKeyFromModelTuple (NewWorkspaceRelationsTuple ''w2'' (command_key sample_command))),
     lock_relationship ''l'' ''t''] | _ \<Rightarrow> False"
  by code_simp

lemma lock_not_stored: "stored_keys set consumer_lock = {}"
  by (auto simp: stored_keys_def plain_key_def consumer_lock_def encoded_def lock_relationship_def)

theorem reports_reach_spicedb_witness:
  "\<exists>d s. system sample_usecase spicedb_consumer (empty_db, 0, consumer_lock) (d, 2, s) \<and> length (tuple_log (db_wal d)) = 2 \<and>
     encoded (simpleTupleKeyFromModelTuple (NewWorkspaceRelationsTuple ''w2'' (command_key sample_command))) \<in> set s \<and>
     {k. plain_key k \<and> encoded k \<in> set s} = (\<Union>(key, i) \<in> {(key, i). known_key d key i}. latest_tuples [] d key i)"
proof -
  have env: "cv_relations spicedb_consumer = spicedb_relations memory_env" "cv_schemas spicedb_consumer = []" "cv_relationsEnabled spicedb_consumer"
    by (simp_all add: spicedb_consumer_def)
  have key: "storable spicedb_tuple [] (command_key sample_command) ro" for ro
    by (rule storable_workspace) code_simp+
  obtain d where d: "system sample_usecase spicedb_consumer (empty_db, 0, consumer_lock) (d, 0, consumer_lock)"
    "moved_report_db = Inr d" "length (tuple_log (db_wal d)) = 2" and rd: "replicable spicedb_tuple [] d"
    using moved_reports [OF env(2) key, of consumer_lock] by blast
  have len: "length (tuple_entries (db_wal d)) = 2" using d(3) by (simp add: tuple_log_def)
  obtain r1 s1 r2 s2 where r: "process_entry spicedb_consumer d 0 consumer_lock = Some (Inr r1, s1)" "process_entry spicedb_consumer d 1 s1 = Some (Inr r2, s2)"
    and t: "s2 = [encoded (simpleTupleKeyFromModelTuple (NewWorkspaceRelationsTuple ''w2'' (command_key sample_command))), lock_relationship ''l'' ''t'']"
    using two_steps [OF spicedb_run_evaluates [unfolded spicedb_run_def d(2) sum.case]] by blast
  have "system sample_usecase spicedb_consumer (empty_db, 0, consumer_lock) (d, Suc 0, s1)" by (rule consume_entry [OF d(1) _ r(1)]) (simp add: len)
  then have run: "system sample_usecase spicedb_consumer (empty_db, 0, consumer_lock) (d, 2, s2)"
    using consume_entry [of _ _ _ d "Suc 0" s1, OF _ _ r(2) [unfolded One_nat_def]] len by (simp add: numeral_2_eq_2)
  have "{k. plain_key k \<and> encoded k \<in> set s2} = (\<Union>(key, i) \<in> {(key, i). known_key d key i}. latest_tuples [] d key i)"
    using reports_reach_spicedb [OF memory_service.spicedb_service_axioms env(1) _ env(3) sample_hypotheses(1) lock_not_stored TrueI run] d(3) moved_schemas rd
    by (simp add: env(2) replicable_def)
  moreover have "encoded (simpleTupleKeyFromModelTuple (NewWorkspaceRelationsTuple ''w2'' (command_key sample_command))) \<in> set s2" using t by simp
  ultimately show ?thesis using run d(3) by (intro exI conjI)
qed

end
