(* ===== verification/Inventory_Service.thy ===== *)
theory Inventory_Service
  imports Resource_Service
begin

text \<open>
  The gRPC services: \<open>internal/service/resources/kesselinventoryservice.go\<close>. A generated protobuf message is a record
  of its fields: a message field and an optional field are option values, \<open>None\<close> being nil; a getter of
  a nil message returns the zero value. A dereference of a nil message without a getter panics, which is the error
  \<open>nil_panic\<close>. A message of \<open>status.Errorf\<close> with a format is represented by its format, and the message
  of a per-item status by the error whose text it is. A handler takes the claims of its context, the outcome of the
  input and output of the use case, the tables and the relations store.
\<close>

section \<open>Messages\<close>

record pb_reporter_reference =
  prr_Type :: string
  prr_InstanceId :: "string option"

record pb_resource_reference =
  pro_ResourceType :: string
  pro_ResourceId :: string
  pro_Reporter :: "pb_reporter_reference option"

record pb_subject_reference =
  psr_Relation :: "string option"
  psr_Resource :: "pb_resource_reference option"

datatype pb_requirement = MinimizeLatency bool | AtLeastAsFresh "string option" | AtLeastAsAcknowledged bool

type_synonym pb_consistency = "pb_requirement option"

record pb_request_pagination =
  ppg_Limit :: "32 word"
  ppg_ContinuationToken :: "string option"

record pb_representation_type =
  prt_ResourceType :: string
  prt_ReporterType :: "string option"

record pb_metadata =
  pm_LocalResourceId :: string
  pm_ApiHref :: string
  pm_ConsoleHref :: "string option"
  pm_ReporterVersion :: "string option"
  pm_TransactionId :: "string option"

record pb_representations =
  prs_Metadata :: "pb_metadata option"
  prs_Common :: "json_object option"
  prs_Reporter :: "json_object option"

datatype pb_write_visibility = WRITE_VISIBILITY_UNSPECIFIED | MINIMIZE_LATENCY | IMMEDIATE

record report_resource_request =
  prq_Type :: string
  prq_ReporterType :: string
  prq_ReporterInstanceId :: string
  prq_Representations :: "pb_representations option"
  prq_WriteVisibility :: pb_write_visibility

record check_request =
  pcq_Object :: "pb_resource_reference option"
  pcq_Relation :: string
  pcq_Subject :: "pb_subject_reference option"
  pcq_Consistency :: pb_consistency

record check_bulk_request_item =
  pbi_Object :: "pb_resource_reference option"
  pbi_Relation :: string
  pbi_Subject :: "pb_subject_reference option"

record check_self_bulk_request_item =
  psi_Object :: "pb_resource_reference option"
  psi_Relation :: string

datatype pb_allowed = ALLOWED_UNSPECIFIED | ALLOWED_TRUE | ALLOWED_FALSE

record check_response =
  pcr_Allowed :: pb_allowed
  pcr_ConsistencyToken :: "string option"

record rpc_status =
  sta_Code :: int
  sta_Message :: go_error

record 'i bulk_response_pair =
  pbp_Request :: "'i option"
  pbp_Response :: "rpc_status + pb_allowed"

record 'i bulk_response =
  pbr_Pairs :: "'i bulk_response_pair list"
  pbr_ConsistencyToken :: "string option"

record streamed_list_objects_request =
  slo_ObjectType :: "pb_representation_type option"
  slo_Relation :: string
  slo_Subject :: "pb_subject_reference option"
  slo_Pagination :: "pb_request_pagination option"
  slo_Consistency :: pb_consistency

record streamed_list_subjects_request =
  sls_Resource :: "pb_resource_reference option"
  sls_Relation :: string
  sls_SubjectType :: "pb_representation_type option"
  sls_SubjectRelation :: "string option"
  sls_Pagination :: "pb_request_pagination option"
  sls_Consistency :: pb_consistency

record streamed_list_objects_response =
  lor_Object :: pb_resource_reference
  lor_ContinuationToken :: string

record streamed_list_subjects_response =
  lsr_Subject :: pb_subject_reference
  lsr_ContinuationToken :: string

text \<open>A generated getter on a message that may be nil, and the value of an optional string.\<close>

definition pb_get :: "('m \<Rightarrow> 'a) \<Rightarrow> 'a \<Rightarrow> 'm option \<Rightarrow> 'a" where
  "pb_get f z m = (case m of None \<Rightarrow> z | Some x \<Rightarrow> f x)"

definition pb_string :: "string option \<Rightarrow> string" where
  "pb_string s = (case s of None \<Rightarrow> [] | Some x \<Rightarrow> x)"

lemma pb_get_simps [simp]: "pb_get f z None = z" "pb_get f z (Some x) = f x"
  by (simp_all add: pb_get_def)

lemma pb_string_simps [simp]: "pb_string None = []" "pb_string (Some x) = x"
  by (simp_all add: pb_string_def)

section \<open>References\<close>

definition GetInstanceId :: "pb_reporter_reference option \<Rightarrow> string" where
  "GetInstanceId r = pb_get (\<lambda>x. pb_string (prr_InstanceId x)) [] r"

definition resourceReferenceFromProto :: "pb_resource_reference option \<Rightarrow> resource_reference result" where
  "resourceReferenceFromProto resource =
     bind_res (NewLocalResourceId (pb_get pro_ResourceId [] resource)) (\<lambda>localResourceId.
     bind_res (NewResourceType (pb_get pro_ResourceType [] resource)) (\<lambda>resourceType.
     (let rep = pb_get pro_Reporter None resource in
     bind_res (NewReporterType (pb_get prr_Type [] rep)) (\<lambda>reporterType.
     bind_res (if GetInstanceId rep \<noteq> [] then bind_res (NewReporterInstanceId (GetInstanceId rep)) (\<lambda>rid. Ok (Some rid)) else Ok None) (\<lambda>instanceId.
     Ok (NewResourceReference resourceType localResourceId (Some (NewReporterReference reporterType instanceId))))))))"

definition subjectReferenceFromProto :: "pb_subject_reference option \<Rightarrow> subject_reference result" where
  "subjectReferenceFromProto sub = (case sub of
     None \<Rightarrow> Err nil_panic
   | Some subject \<Rightarrow>
     bind_res (NewLocalResourceId (pb_get pro_ResourceId [] (psr_Resource subject))) (\<lambda>localResourceId.
     bind_res (NewResourceType (pb_get pro_ResourceType [] (psr_Resource subject))) (\<lambda>resourceType.
     bind_res (NewReporterType (pb_get prr_Type [] (pb_get pro_Reporter None (psr_Resource subject)))) (\<lambda>reporterType.
     (let resource = NewResourceReference resourceType localResourceId (Some (NewReporterReference reporterType None)) in
      if pb_string (psr_Relation subject) \<noteq> []
      then bind_res (NewRelation (pb_string (psr_Relation subject))) (\<lambda>relation. Ok (NewSubjectReference resource (Some relation)))
      else Ok (NewSubjectReferenceWithoutRelation resource))))))"

definition reporterKeyFromResourceReference :: "pb_resource_reference option \<Rightarrow> reporter_resource_key result" where
  "reporterKeyFromResourceReference resource =
     bind_res (NewLocalResourceId (pb_get pro_ResourceId [] resource)) (\<lambda>localResourceId.
     bind_res (NewResourceType (pb_get pro_ResourceType [] resource)) (\<lambda>resourceType.
     (let rep = pb_get pro_Reporter None resource in
     bind_res (NewReporterType (pb_get prr_Type [] rep)) (\<lambda>reporterType.
     bind_res (if GetInstanceId rep \<noteq> [] then NewReporterInstanceId (GetInstanceId rep) else Ok []) (\<lambda>reporterInstanceId.
     NewReporterResourceKey localResourceId resourceType reporterType reporterInstanceId)))))"

definition consistencyFromProto :: "pb_consistency \<Rightarrow> consistency" where
  "consistencyFromProto c = (case c of
     Some (MinimizeLatency True) \<Rightarrow> minimizeLatencyConsistency
   | Some (AtLeastAsAcknowledged True) \<Rightarrow> atLeastAsAcknowledgedConsistency
   | Some (AtLeastAsFresh (Some token)) \<Rightarrow> atLeastAsFreshConsistency (DeserializeConsistencyToken token)
   | _ \<Rightarrow> unspecifiedConsistency)"

definition paginationFromProto :: "pb_request_pagination option \<Rightarrow> pagination option" where
  "paginationFromProto p = (case p of
     None \<Rightarrow> None
   | Some x \<Rightarrow> Some \<lparr>pg_Limit = ppg_Limit x,
       pg_Continuation = (case ppg_ContinuationToken x of None \<Rightarrow> None
         | Some t \<Rightarrow> Some (case NewContinuationToken t of Inl _ \<Rightarrow> [] | Inr ct \<Rightarrow> ct))\<rparr>)"

section \<open>Reports\<close>

definition representationFromProtoStruct :: "json_object option \<Rightarrow> string \<Rightarrow> representation option result" where
  "representationFromProtoStruct s name = (case s of
     None \<Rightarrow> Ok None
   | Some m \<Rightarrow> if m = [] then Ok None
       else (case NewRepresentation (Some m) of
               Inl err \<Rightarrow> Err (Wrap (''invalid '' @ name @ '' representation'') err)
             | Inr rep \<Rightarrow> Ok (Some rep)))"

definition writeVisibilityFromProto :: "pb_write_visibility \<Rightarrow> write_visibility" where
  "writeVisibilityFromProto wv = (case wv of
     IMMEDIATE \<Rightarrow> WriteVisibilityConsistent | MINIMIZE_LATENCY \<Rightarrow> WriteVisibilityMinimizeLatency
   | WRITE_VISIBILITY_UNSPECIFIED \<Rightarrow> WriteVisibilityUnspecified)"

definition toReportResourceCommand :: "report_resource_request \<Rightarrow> report_resource_command result" where
  "toReportResourceCommand r =
     (let reps = prq_Representations r; md = pb_get prs_Metadata None reps;
          consoleHrefVal = pb_get (\<lambda>m. pb_string (pm_ConsoleHref m)) [] md;
          reporterVersionVal = pb_get (\<lambda>m. pb_string (pm_ReporterVersion m)) [] md;
          txIdVal = pb_get (\<lambda>m. pb_string (pm_TransactionId m)) [] md in
      bind_res (wrap_err ''invalid local resource ID'' (NewLocalResourceId (pb_get pm_LocalResourceId [] md))) (\<lambda>localResourceId.
      bind_res (wrap_err ''invalid resource type'' (NewResourceType (prq_Type r))) (\<lambda>resourceType.
      bind_res (wrap_err ''invalid reporter type'' (NewReporterType (prq_ReporterType r))) (\<lambda>reporterType.
      bind_res (wrap_err ''invalid reporter instance ID'' (NewReporterInstanceId (prq_ReporterInstanceId r))) (\<lambda>reporterInstanceId.
      bind_res (wrap_err ''invalid API href'' (NewApiHref (pb_get pm_ApiHref [] md))) (\<lambda>apiHref.
      bind_res (if consoleHrefVal \<noteq> []
                then bind_res (wrap_err ''invalid console href'' (NewConsoleHref consoleHrefVal)) (\<lambda>ch. Ok (Some ch)) else Ok None) (\<lambda>consoleHref.
      bind_res (if reporterVersionVal \<noteq> []
                then bind_res (wrap_err ''invalid reporter version'' (NewReporterVersion reporterVersionVal)) (\<lambda>rv. Ok (Some rv)) else Ok None)
        (\<lambda>reporterVersion.
      bind_res (representationFromProtoStruct (pb_get prs_Reporter None reps) ''reporter'') (\<lambda>reporterRepresentation.
      bind_res (representationFromProtoStruct (pb_get prs_Common None reps) ''common'') (\<lambda>commonRepresentation.
      Ok \<lparr>rc_LocalResourceId = localResourceId, rc_ResourceType = resourceType, rc_ReporterType = reporterType,
          rc_ReporterInstanceId = reporterInstanceId, rc_ApiHref = apiHref, rc_ConsoleHref = consoleHref, rc_ReporterVersion = reporterVersion,
          rc_TransactionId = (if txIdVal \<noteq> [] then Some (NewTransactionId txIdVal) else None),
          rc_ReporterRepresentation = reporterRepresentation, rc_CommonRepresentation = commonRepresentation,
          rc_WriteVisibility = writeVisibilityFromProto (prq_WriteVisibility r)\<rparr>))))))))))"

text \<open>A conversion error becomes a status; a panic passes.\<close>

definition as_status :: "grpc_code \<Rightarrow> string \<Rightarrow> go_error \<Rightarrow> go_error" where
  "as_status code msg e = (if e = nil_panic then nil_panic else StatusError code msg)"

definition InventoryService_ReportResource ::
    "'s usecase \<Rightarrow> report_io \<Rightarrow> authz_context option \<Rightarrow> report_resource_request \<Rightarrow> db \<Rightarrow> unit result \<times> db" where
  "InventoryService_ReportResource uc io ctx r d = (case toReportResourceCommand r of
     Inl err \<Rightarrow> (Err (as_status InvalidArgument ''invalid request: %v'' err), d)
   | Inr cmd \<Rightarrow> ReportResource uc io ctx cmd d)"

definition InventoryService_DeleteResource ::
    "'s usecase \<Rightarrow> report_io \<Rightarrow> authz_context option \<Rightarrow> pb_resource_reference option \<Rightarrow> db \<Rightarrow> unit result \<times> db" where
  "InventoryService_DeleteResource uc io ctx reference d = (case reporterKeyFromResourceReference reference of
     Inl err \<Rightarrow> (Err err, d)
   | Inr key \<Rightarrow> Usecase_Delete uc io ctx key d)"

section \<open>Checks\<close>

definition viewResponseFromAuthzRequestV1beta2 :: "bool \<Rightarrow> consistency_token \<Rightarrow> check_response" where
  "viewResponseFromAuthzRequestV1beta2 allowed token =
     \<lparr>pcr_Allowed = (if allowed then ALLOWED_TRUE else ALLOWED_FALSE),
      pcr_ConsistencyToken = (if token \<noteq> MinimizeLatencyToken then Some (SerializeString token) else None)\<rparr>"

definition updateResponseFromAuthzRequestV1beta2 :: "bool \<Rightarrow> consistency_token \<Rightarrow> check_response" where
  "updateResponseFromAuthzRequestV1beta2 allowed token =
     \<lparr>pcr_Allowed = (if allowed then ALLOWED_TRUE else ALLOWED_FALSE),
      pcr_ConsistencyToken = (if token \<noteq> [] then Some (SerializeString token) else None)\<rparr>"

definition InventoryService_Check ::
    "'s usecase \<Rightarrow> go_error option \<Rightarrow> authz_context option \<Rightarrow> check_request \<Rightarrow> db \<Rightarrow> 's \<Rightarrow> check_response result" where
  "InventoryService_Check uc findErr ctx req d s =
     bind_res (resourceReferenceFromProto (pcq_Object req)) (\<lambda>resourceRef.
     bind_res (subjectReferenceFromProto (pcq_Subject req)) (\<lambda>subjectRef.
     bind_res (NewRelation (pcq_Relation req)) (\<lambda>relation.
     bind_res (Check uc findErr ctx relation subjectRef resourceRef (Some (consistencyFromProto (pcq_Consistency req))) d s) (\<lambda>result.
     Ok (viewResponseFromAuthzRequestV1beta2 (chk_allowed result) (chk_consistencyToken result))))))"

definition InventoryService_CheckForUpdate ::
    "'s usecase \<Rightarrow> authz_context option \<Rightarrow> check_request \<Rightarrow> 's \<Rightarrow> check_response result" where
  "InventoryService_CheckForUpdate uc ctx req s =
     bind_res (resourceReferenceFromProto (pcq_Object req)) (\<lambda>resourceRef.
     bind_res (subjectReferenceFromProto (pcq_Subject req)) (\<lambda>subjectRef.
     bind_res (NewRelation (pcq_Relation req)) (\<lambda>relation.
     bind_res (CheckForUpdate uc ctx relation subjectRef resourceRef s) (\<lambda>result.
     Ok (updateResponseFromAuthzRequestV1beta2 (chk_allowed result) (chk_consistencyToken result))))))"

definition InventoryService_CheckSelf ::
    "'s usecase \<Rightarrow> go_error option \<Rightarrow> authz_context option \<Rightarrow> check_request \<Rightarrow> db \<Rightarrow> 's \<Rightarrow> check_response result" where
  "InventoryService_CheckSelf uc findErr ctx req d s =
     bind_res (resourceReferenceFromProto (pcq_Object req)) (\<lambda>resourceRef.
     bind_res (NewRelation (pcq_Relation req)) (\<lambda>relation.
     bind_res (CheckSelf uc findErr ctx relation resourceRef (Some (consistencyFromProto (pcq_Consistency req))) d s) (\<lambda>result.
     (let allowed = (if chk_allowed result then ALLOWED_TRUE else ALLOWED_FALSE) in
      Ok \<lparr>pcr_Allowed = allowed,
          pcr_ConsistencyToken = (if chk_consistencyToken result \<noteq> MinimizeLatencyToken then Some (SerializeString (chk_consistencyToken result))
                                  else None)\<rparr>))))"

section \<open>Bulk checks\<close>

definition at_index :: "string \<Rightarrow> nat \<Rightarrow> string" where
  "at_index what i = ''invalid '' @ what @ '' at index '' @ FormatInt (int i)"

definition protoToCheckBulkItem :: "check_bulk_request_item \<Rightarrow> nat \<Rightarrow> check_bulk_item result" where
  "protoToCheckBulkItem item idx =
     bind_res (wrap_err (at_index ''resource'' idx) (resourceReferenceFromProto (pbi_Object item))) (\<lambda>resourceRef.
     bind_res (if pbi_Subject item = None then Err nil_panic
               else wrap_err (at_index ''subject'' idx) (subjectReferenceFromProto (pbi_Subject item))) (\<lambda>subjectRef.
     bind_res (wrap_err (at_index ''relation'' idx) (NewRelation (pbi_Relation item))) (\<lambda>relation.
     Ok \<lparr>bi_Resource = resourceRef, bi_Relation = relation, bi_Subject = subjectRef\<rparr>)))"

fun bulk_items_loop :: "('i \<Rightarrow> nat \<Rightarrow> 'c result) \<Rightarrow> nat \<Rightarrow> 'i list \<Rightarrow> 'c list result" where
  "bulk_items_loop conv i [] = Ok []"
| "bulk_items_loop conv i (item # items) =
     bind_res (conv item i) (\<lambda>c. bind_res (bulk_items_loop conv (Suc i) items) (\<lambda>cs. Ok (c # cs)))"

definition toCheckForUpdateBulkCommand :: "check_bulk_request_item list \<Rightarrow> check_bulk_item list result" where
  "toCheckForUpdateBulkCommand items = bulk_items_loop protoToCheckBulkItem 0 items"

definition toCheckBulkCommand :: "check_bulk_request_item list \<Rightarrow> pb_consistency \<Rightarrow> (check_bulk_item list \<times> consistency) result" where
  "toCheckBulkCommand items c =
     bind_res (bulk_items_loop protoToCheckBulkItem 0 items) (\<lambda>cs. Ok (cs, consistencyFromProto c))"

definition self_bulk_item :: "check_self_bulk_request_item \<Rightarrow> nat \<Rightarrow> check_self_bulk_item result" where
  "self_bulk_item item i =
     bind_res (wrap_err (at_index ''resource'' i) (resourceReferenceFromProto (psi_Object item))) (\<lambda>resourceRef.
     bind_res (wrap_err (at_index ''relation'' i) (NewRelation (psi_Relation item))) (\<lambda>relation.
     Ok \<lparr>si_Resource = resourceRef, si_Relation = relation\<rparr>))"

definition toCheckSelfBulkCommand ::
    "check_self_bulk_request_item list \<Rightarrow> pb_consistency \<Rightarrow> (check_self_bulk_item list \<times> consistency) result" where
  "toCheckSelfBulkCommand items c = bind_res (bulk_items_loop self_bulk_item 0 items) (\<lambda>cs. Ok (cs, consistencyFromProto c))"

text \<open>\<open>codes.Internal\<close> as an integer.\<close>

definition codes_Internal :: int where "codes_Internal = 13"

definition checkBulkResultItemToProtoFields :: "bulk_result_item \<Rightarrow> pb_allowed \<times> rpc_status option" where
  "checkBulkResultItemToProtoFields item =
     (let allowed = (if bri_Allowed item then ALLOWED_TRUE else ALLOWED_FALSE) in
      case bri_Error item of
        None \<Rightarrow> (allowed, None)
      | Some e \<Rightarrow> (let errorCode = (if bri_ErrorCode item = 0 then codes_Internal else bri_ErrorCode item)
                  in (allowed, Some \<lparr>sta_Code = errorCode, sta_Message = e\<rparr>)))"

definition request_item :: "'i list \<Rightarrow> nat \<Rightarrow> 'i option" where
  "request_item items i = (if i < length items then Some (items ! i) else None)"

definition fromCheckBulkResult :: "bulk_result \<Rightarrow> check_bulk_request_item list \<Rightarrow> check_bulk_request_item bulk_response" where
  "fromCheckBulkResult result items =
     \<lparr>pbr_Pairs = map (\<lambda>(i, pair). (case checkBulkResultItemToProtoFields (brp_Result pair) of (allowed, errStatus) \<Rightarrow>
        \<lparr>pbp_Request = request_item items i,
         pbp_Response = (case errStatus of Some st \<Rightarrow> Inl st | None \<Rightarrow> Inr allowed)\<rparr>)) (enumerate 0 (br_Pairs result)),
      pbr_ConsistencyToken = (if br_ConsistencyToken result \<noteq> [] then Some (SerializeString (br_ConsistencyToken result)) else None)\<rparr>"

definition fromCheckForUpdateBulkResult :: "bulk_result \<Rightarrow> check_bulk_request_item list \<Rightarrow> check_bulk_request_item bulk_response" where
  "fromCheckForUpdateBulkResult result items =
     \<lparr>pbr_Pairs = map (\<lambda>(i, pair). (case checkBulkResultItemToProtoFields (brp_Result pair) of (allowed, errStatus) \<Rightarrow>
        \<lparr>pbp_Request = request_item items i,
         pbp_Response = (case errStatus of Some st \<Rightarrow> Inl st | None \<Rightarrow> Inr allowed)\<rparr>)) (enumerate 0 (br_Pairs result)),
      pbr_ConsistencyToken = (if br_ConsistencyToken result \<noteq> [] then Some (SerializeString (br_ConsistencyToken result)) else None)\<rparr>"

text \<open>The self bulk check builds its responses without the shared helper.\<close>

definition fromCheckSelfBulkResult :: "bulk_result \<Rightarrow> check_self_bulk_request_item list \<Rightarrow> check_self_bulk_request_item bulk_response" where
  "fromCheckSelfBulkResult result items =
     \<lparr>pbr_Pairs = map (\<lambda>(i, pair).
        (let errResponse = (case bri_Error (brp_Result pair) of
               None \<Rightarrow> None
             | Some e \<Rightarrow> (let errorCode = bri_ErrorCode (brp_Result pair);
                             errorCode = (if errorCode = 0 then codes_Internal else errorCode)
                         in Some \<lparr>sta_Code = errorCode, sta_Message = e\<rparr>));
             allowedResponse = (if bri_Allowed (brp_Result pair) then ALLOWED_TRUE else ALLOWED_FALSE)
         in \<lparr>pbp_Request = request_item items i,
             pbp_Response = (case errResponse of Some st \<Rightarrow> Inl st | None \<Rightarrow> Inr allowedResponse)\<rparr>)) (enumerate 0 (br_Pairs result)),
      pbr_ConsistencyToken = (if br_ConsistencyToken result \<noteq> [] then Some (SerializeString (br_ConsistencyToken result)) else None)\<rparr>"

definition InventoryService_CheckForUpdateBulk ::
    "'s usecase \<Rightarrow> authz_context option \<Rightarrow> check_bulk_request_item list \<Rightarrow> 's \<Rightarrow> check_bulk_request_item bulk_response result" where
  "InventoryService_CheckForUpdateBulk uc ctx items s = (case toCheckForUpdateBulkCommand items of
     Inl err \<Rightarrow> Err (as_status InvalidArgument ''%v'' err)
   | Inr cmd \<Rightarrow> bind_res (CheckForUpdateBulk uc ctx cmd s) (\<lambda>resp. Ok (fromCheckForUpdateBulkResult resp items)))"

definition InventoryService_CheckBulk ::
    "'s usecase \<Rightarrow> authz_context option \<Rightarrow> check_bulk_request_item list \<Rightarrow> pb_consistency \<Rightarrow> 's \<Rightarrow> check_bulk_request_item bulk_response result" where
  "InventoryService_CheckBulk uc ctx items consistency s = (case toCheckBulkCommand items consistency of
     Inl err \<Rightarrow> Err (as_status InvalidArgument ''%v'' err)
   | Inr (cmd, c) \<Rightarrow> bind_res (CheckBulk uc ctx cmd (Some c) s) (\<lambda>resp. Ok (fromCheckBulkResult resp items)))"

definition InventoryService_CheckSelfBulk ::
    "'s usecase \<Rightarrow> authz_context option \<Rightarrow> check_self_bulk_request_item list \<Rightarrow> pb_consistency \<Rightarrow> 's \<Rightarrow>
     check_self_bulk_request_item bulk_response result" where
  "InventoryService_CheckSelfBulk uc ctx items consistency s =
     (if items = [] then Err (StatusError InvalidArgument ''items array cannot be empty'')
      else bind_res (toCheckSelfBulkCommand items consistency) (\<lambda>(cmd, c).
           bind_res (CheckSelfBulk uc ctx cmd (Some c) s) (\<lambda>resp. Ok (fromCheckSelfBulkResult resp items))))"

section \<open>Lookups\<close>

definition NewRepresentationTypeRequired :: "resource_type \<Rightarrow> reporter_type \<Rightarrow> representation_type" where
  "NewRepresentationTypeRequired t r = \<lparr>rpt_resourceType = t, rpt_reporterType = Some r\<rparr>"

definition GetReporterType :: "pb_representation_type option \<Rightarrow> string" where
  "GetReporterType t = pb_get (\<lambda>x. pb_string (prt_ReporterType x)) [] t"

text \<open>The subject of a request that is not nil: a conversion error is wrapped, a panic is not.\<close>

definition wrapped_subject :: "string \<Rightarrow> pb_subject_reference option \<Rightarrow> subject_reference result" where
  "wrapped_subject msg sub = (if sub = None then Err nil_panic else wrap_err msg (subjectReferenceFromProto sub))"

definition ToLookupObjectsCommand :: "streamed_list_objects_request option \<Rightarrow> lookup_objects_command result" where
  "ToLookupObjectsCommand request = (case request of
     None \<Rightarrow> Err (Errorf ''request is nil'')
   | Some r \<Rightarrow>
     bind_res (wrap_err ''invalid resource type'' (NewResourceType (pb_get prt_ResourceType [] (slo_ObjectType r)))) (\<lambda>resourceType.
     bind_res (wrap_err ''invalid reporter type'' (NewReporterType (GetReporterType (slo_ObjectType r)))) (\<lambda>reporterType.
     bind_res (wrap_err ''invalid relation'' (NewRelation (slo_Relation r))) (\<lambda>relation.
     bind_res (wrapped_subject ''invalid subject'' (slo_Subject r)) (\<lambda>subjectRef.
     Ok \<lparr>lo_ObjectType = NewRepresentationTypeRequired resourceType reporterType, lo_Relation = relation, lo_Subject = subjectRef,
         lo_Pagination = paginationFromProto (slo_Pagination r), lo_Consistency = Some (consistencyFromProto (slo_Consistency r))\<rparr>)))))"

definition ToLookupSubjectsCommand :: "streamed_list_subjects_request option \<Rightarrow> lookup_subjects_command result" where
  "ToLookupSubjectsCommand request = (case request of
     None \<Rightarrow> Err (Errorf ''request is nil'')
   | Some r \<Rightarrow>
     bind_res (wrap_err ''invalid resource'' (resourceReferenceFromProto (sls_Resource r))) (\<lambda>resourceRef.
     bind_res (wrap_err ''invalid relation'' (NewRelation (sls_Relation r))) (\<lambda>relation.
     bind_res (wrap_err ''invalid subject type'' (NewResourceType (pb_get prt_ResourceType [] (sls_SubjectType r)))) (\<lambda>subjectResType.
     bind_res (wrap_err ''invalid subject reporter'' (NewReporterType (GetReporterType (sls_SubjectType r)))) (\<lambda>subjectReporter.
     bind_res (case sls_SubjectRelation r of
         None \<Rightarrow> Ok None
       | Some x \<Rightarrow> if x \<noteq> [] then bind_res (wrap_err ''invalid subject relation'' (NewRelation x)) (\<lambda>rel. Ok (Some rel)) else Ok None) (\<lambda>subjectRelation.
     Ok \<lparr>ls_Resource = resourceRef, ls_Relation = relation, ls_SubjectType = NewRepresentationTypeRequired subjectResType subjectReporter,
         ls_SubjectRelation = subjectRelation, ls_Pagination = paginationFromProto (sls_Pagination r),
         ls_Consistency = Some (consistencyFromProto (sls_Consistency r))\<rparr>))))))"

definition reference_to_proto :: "resource_reference \<Rightarrow> pb_resource_reference" where
  "reference_to_proto obj = \<lparr>pro_ResourceType = oref_resourceType obj, pro_ResourceId = oref_resourceId obj,
     pro_Reporter = (case oref_reporter obj of None \<Rightarrow> None | Some r \<Rightarrow> Some \<lparr>prr_Type = rref_reporterType r, prr_InstanceId = None\<rparr>)\<rparr>"

definition ToLookupObjectsResponse :: "lookup_objects_item \<Rightarrow> streamed_list_objects_response" where
  "ToLookupObjectsResponse item = \<lparr>lor_Object = reference_to_proto (loi_object item), lor_ContinuationToken = loi_continuationToken item\<rparr>"

definition ToLookupSubjectsResponse :: "lookup_subjects_item \<Rightarrow> streamed_list_subjects_response" where
  "ToLookupSubjectsResponse item =
     \<lparr>lsr_Subject = \<lparr>psr_Relation = sref_relation (lsi_subject item), psr_Resource = Some (reference_to_proto (sref_resource (lsi_subject item)))\<rparr>,
      lsr_ContinuationToken = lsi_continuationToken item\<rparr>"

text \<open>The loop of a streaming handler. \<open>send\<close> is the outcome of each \<open>Send\<close>; \<open>fin\<close> is how the stream of the
  relations service ends after its items, \<open>None\<close> being \<open>io.EOF\<close>. The result lists what has been sent.\<close>

fun stream_loop :: "('i \<Rightarrow> 'r) \<Rightarrow> (nat \<Rightarrow> go_error option) \<Rightarrow> go_error option \<Rightarrow> nat \<Rightarrow> 'i list \<Rightarrow> unit result \<times> 'r list" where
  "stream_loop conv send fin n [] = ((case fin of None \<Rightarrow> Ok () | Some err \<Rightarrow> Err err), [])"
| "stream_loop conv send fin n (item # items) = (case send n of
     Some err \<Rightarrow> (Err err, [])
   | None \<Rightarrow> (case stream_loop conv send fin (Suc n) items of (r, sent) \<Rightarrow> (r, conv item # sent)))"

definition StreamedListObjects ::
    "'s usecase \<Rightarrow> (nat \<Rightarrow> go_error option) \<Rightarrow> go_error option \<Rightarrow> authz_context option \<Rightarrow> streamed_list_objects_request option \<Rightarrow> 's \<Rightarrow>
     unit result \<times> streamed_list_objects_response list" where
  "StreamedListObjects uc send fin ctx req s = (case ToLookupObjectsCommand req of
     Inl err \<Rightarrow> (Err err, [])
   | Inr cmd \<Rightarrow> (case LookupObjects uc ctx cmd s of
       Inl err \<Rightarrow> (Err err, [])
     | Inr items \<Rightarrow> stream_loop ToLookupObjectsResponse send fin 0 items))"

definition StreamedListSubjects ::
    "'s usecase \<Rightarrow> (nat \<Rightarrow> go_error option) \<Rightarrow> go_error option \<Rightarrow> authz_context option \<Rightarrow> streamed_list_subjects_request option \<Rightarrow> 's \<Rightarrow>
     unit result \<times> streamed_list_subjects_response list" where
  "StreamedListSubjects uc send fin ctx req s = (case ToLookupSubjectsCommand req of
     Inl err \<Rightarrow> (Err err, [])
   | Inr cmd \<Rightarrow> (case LookupSubjects uc ctx cmd s of
       Inl err \<Rightarrow> (Err err, [])
     | Inr items \<Rightarrow> stream_loop ToLookupSubjectsResponse send fin 0 items))"

end
