(* ===== verification/Tuple_Service.thy ===== *)
theory Tuple_Service
  imports Inventory_Service
begin

text \<open>
  The tuple service (\<open>internal/service/tuples/tuples.go\<close>): its messages, the conversions to and from the domain and the
  handlers over the tuple use case.
\<close>

section \<open>Messages\<close>

record relation_object_type =
  rot_Namespace :: string
  rot_Name :: string

record relation_object_reference =
  ror_Type :: "relation_object_type option"
  ror_Id :: string

record relation_subject_reference =
  rsr_Relation :: "string option"
  rsr_Subject :: "relation_object_reference option"

record pb_relationship =
  prl_Resource :: "relation_object_reference option"
  prl_Relation :: string
  prl_Subject :: "relation_subject_reference option"

record relation_subject_filter =
  rsf_SubjectNamespace :: "string option"
  rsf_SubjectType :: "string option"
  rsf_SubjectId :: "string option"
  rsf_Relation :: "string option"

record relation_tuple_filter =
  rtf_ResourceNamespace :: "string option"
  rtf_ResourceType :: "string option"
  rtf_ResourceId :: "string option"
  rtf_Relation :: "string option"
  rtf_SubjectFilter :: "relation_subject_filter option"

record relation_fencing_check =
  rfc_LockId :: string
  rfc_LockToken :: string

record create_tuples_request =
  ctq_Upsert :: bool
  ctq_Tuples :: "pb_relationship list"
  ctq_FencingCheck :: "relation_fencing_check option"

record delete_tuples_request =
  dtq_Filter :: "relation_tuple_filter option"
  dtq_FencingCheck :: "relation_fencing_check option"

record read_tuples_request =
  rtq_Filter :: "relation_tuple_filter option"
  rtq_Pagination :: "pb_request_pagination option"
  rtq_Consistency :: pb_consistency

record read_tuples_response =
  rtr_Tuple :: pb_relationship
  rtr_Pagination :: "string option"
  rtr_ConsistencyToken :: "string option"

section \<open>Messages to commands\<close>

definition fencingCheckFromProto :: "relation_fencing_check option \<Rightarrow> (lock_id \<times> lock_token) option result" where
  "fencingCheckFromProto fc = (case fc of
     None \<Rightarrow> Ok None
   | Some f \<Rightarrow>
     bind_res (wrap_err ''invalid fencing lock id'' (NewLockId (rfc_LockId f))) (\<lambda>lockId.
     bind_res (wrap_err ''invalid fencing lock token'' (NewLockToken (rfc_LockToken f))) (\<lambda>lockToken.
     Ok (Some (lockId, lockToken)))))"

definition object_from_proto :: "relation_object_reference option \<Rightarrow> local_resource_id \<Rightarrow> resource_reference" where
  "object_from_proto ob i =
     (let t = pb_get ror_Type None ob in
      NewResourceReference (DeserializeResourceType (pb_get rot_Name [] t)) i
        (Some (NewReporterReference (DeserializeReporterType (pb_get rot_Namespace [] t)) None)))"

definition relationshipToRelationsTuple :: "pb_relationship \<Rightarrow> relations_tuple result" where
  "relationshipToRelationsTuple rel =
     (let sub = pb_get rsr_Subject None (prl_Subject rel) in
      bind_res (wrap_err ''invalid resource ID'' (NewLocalResourceId (pb_get ror_Id [] (prl_Resource rel)))) (\<lambda>resourceId.
      bind_res (wrap_err ''invalid subject ID'' (NewLocalResourceId (pb_get ror_Id [] sub))) (\<lambda>subjectId.
      (case prl_Subject rel of
         None \<Rightarrow> Err nil_panic
       | Some x \<Rightarrow>
           (let subResource = object_from_proto sub subjectId;
                subjectRef = (case rsr_Relation x of
                    Some r \<Rightarrow> NewSubjectReference subResource (Some (DeserializeRelation r))
                  | None \<Rightarrow> NewSubjectReferenceWithoutRelation subResource)
            in Ok (NewRelationsTuple (object_from_proto (prl_Resource rel) resourceId) (DeserializeRelation (prl_Relation rel)) subjectRef))))))"

text \<open>A panic is not wrapped: it is recognised by a subject that is nil after both identifiers are valid.\<close>

definition relationship_at :: "pb_relationship \<Rightarrow> nat \<Rightarrow> relations_tuple result" where
  "relationship_at rel i = (case relationshipToRelationsTuple rel of
     Inl e \<Rightarrow> Err (if e = nil_panic then nil_panic else Wrap (at_index ''relationship'' i) e)
   | Inr t \<Rightarrow> Ok t)"

definition relationshipsToRelationsTuples :: "pb_relationship list \<Rightarrow> relations_tuple list result" where
  "relationshipsToRelationsTuples rels = bulk_items_loop relationship_at 0 rels"

definition when_some :: "'a option \<Rightarrow> ('a \<Rightarrow> 'f \<Rightarrow> 'f) \<Rightarrow> 'f \<Rightarrow> 'f" where
  "when_some x f filt = (case x of None \<Rightarrow> filt | Some v \<Rightarrow> f v filt)"

definition subject_filter_from_proto :: "relation_subject_filter \<Rightarrow> tuple_subject_filter" where
  "subject_filter_from_proto sf =
     when_some (rsf_Relation sf) (\<lambda>v. SubjectFilter_WithRelation (DeserializeRelation v))
       (when_some (rsf_SubjectId sf) (\<lambda>v. SubjectFilter_WithSubjectId (DeserializeLocalResourceId v))
         (when_some (rsf_SubjectType sf) (\<lambda>v. SubjectFilter_WithSubjectType (DeserializeResourceType v))
           (when_some (rsf_SubjectNamespace sf) (\<lambda>v. SubjectFilter_WithReporterType (DeserializeReporterType v)) NewTupleSubjectFilter)))"

definition tupleFilterFromProto :: "relation_tuple_filter option \<Rightarrow> tuple_filter" where
  "tupleFilterFromProto pf = (case pf of
     None \<Rightarrow> NewTupleFilter
   | Some p \<Rightarrow>
     when_some (rtf_SubjectFilter p) (\<lambda>sf. TupleFilter_WithSubject (subject_filter_from_proto sf))
       (when_some (rtf_Relation p) (\<lambda>v. TupleFilter_WithRelation (DeserializeRelation v))
         (when_some (rtf_ResourceId p) (\<lambda>v. TupleFilter_WithObjectId (DeserializeLocalResourceId v))
           (when_some (rtf_ResourceType p) (\<lambda>v. TupleFilter_WithObjectType (DeserializeResourceType v))
             (when_some (rtf_ResourceNamespace p) (\<lambda>v. TupleFilter_WithReporterType (DeserializeReporterType v)) NewTupleFilter)))))"

definition tuples_paginationFromProto :: "pb_request_pagination option \<Rightarrow> pagination option" where
  "tuples_paginationFromProto p = (case p of
     None \<Rightarrow> None
   | Some x \<Rightarrow> Some \<lparr>pg_Limit = ppg_Limit x, pg_Continuation = ppg_ContinuationToken x\<rparr>)"

definition tuples_consistencyFromProto :: "pb_consistency \<Rightarrow> consistency" where
  "tuples_consistencyFromProto c = (case c of
     None \<Rightarrow> unspecifiedConsistency
   | Some (MinimizeLatency True) \<Rightarrow> minimizeLatencyConsistency
   | Some (AtLeastAsAcknowledged True) \<Rightarrow> atLeastAsAcknowledgedConsistency
   | Some (AtLeastAsFresh (Some token)) \<Rightarrow> atLeastAsFreshConsistency (DeserializeConsistencyToken token)
   | Some _ \<Rightarrow> unspecifiedConsistency)"

definition toCreateTuplesCommand :: "create_tuples_request \<Rightarrow> create_tuples_command result" where
  "toCreateTuplesCommand req =
     bind_res (relationshipsToRelationsTuples (ctq_Tuples req)) (\<lambda>tuples.
     bind_res (fencingCheckFromProto (ctq_FencingCheck req)) (\<lambda>fc.
     Ok \<lparr>ct_Tuples = tuples, ct_Upsert = ctq_Upsert req, ct_FencingCheck = fc\<rparr>))"

definition toDeleteTuplesCommand :: "delete_tuples_request \<Rightarrow> delete_tuples_command result" where
  "toDeleteTuplesCommand req =
     bind_res (fencingCheckFromProto (dtq_FencingCheck req)) (\<lambda>fc.
     Ok \<lparr>dt_Filter = tupleFilterFromProto (dtq_Filter req), dt_FencingCheck = fc\<rparr>)"

definition toReadTuplesCommand :: "read_tuples_request \<Rightarrow> read_tuples_command result" where
  "toReadTuplesCommand req = Ok \<lparr>rt_Filter = tupleFilterFromProto (rtq_Filter req),
     rt_Pagination = tuples_paginationFromProto (rtq_Pagination req),
     rt_Consistency = Some (tuples_consistencyFromProto (rtq_Consistency req))\<rparr>"

definition toAcquireLockCommand :: "string \<Rightarrow> lock_id result" where
  "toAcquireLockCommand lockId = wrap_err ''invalid lock id'' (NewLockId lockId)"

section \<open>Results to messages\<close>

definition fromCreateTuplesResult :: "consistency_token \<Rightarrow> string option" where
  "fromCreateTuplesResult token = (if token = [] then None else Some (SerializeString token))"

definition fromDeleteTuplesResult :: "consistency_token \<Rightarrow> string option" where
  "fromDeleteTuplesResult token = (if token = [] then None else Some (SerializeString token))"

definition object_to_proto :: "resource_reference \<Rightarrow> relation_object_reference" where
  "object_to_proto obj = \<lparr>ror_Type = Some \<lparr>rot_Namespace = (case oref_reporter obj of None \<Rightarrow> [] | Some r \<Rightarrow> rref_reporterType r),
     rot_Name = oref_resourceType obj\<rparr>, ror_Id = oref_resourceId obj\<rparr>"

definition readTuplesItemToProto :: "read_tuples_item \<Rightarrow> read_tuples_response" where
  "readTuplesItemToProto item =
     \<lparr>rtr_Tuple = \<lparr>prl_Resource = Some (object_to_proto (rti_object item)), prl_Relation = rti_relation item,
        prl_Subject = Some \<lparr>rsr_Relation = sref_relation (rti_subject item),
          rsr_Subject = Some (object_to_proto (sref_resource (rti_subject item)))\<rparr>\<rparr>,
      rtr_Pagination = (if rti_continuationToken item \<noteq> [] then Some (rti_continuationToken item) else None),
      rtr_ConsistencyToken = (if rti_consistencyToken item \<noteq> [] then Some (SerializeString (rti_consistencyToken item)) else None)\<rparr>"

section \<open>Handlers\<close>

definition TupleService_CreateTuples ::
    "'s tuple_crud \<Rightarrow> authz_context option \<Rightarrow> create_tuples_request \<Rightarrow> 's \<Rightarrow> string option result \<times> 's" where
  "TupleService_CreateTuples uc ctx req s = (case toCreateTuplesCommand req of
     Inl err \<Rightarrow> (Err err, s)
   | Inr cmd \<Rightarrow> (case TupleCrud_CreateTuples uc ctx cmd s of
       (Inl err, s') \<Rightarrow> (Err err, s')
     | (Inr token, s') \<Rightarrow> (Ok (fromCreateTuplesResult token), s')))"

definition TupleService_DeleteTuples ::
    "'s tuple_crud \<Rightarrow> authz_context option \<Rightarrow> delete_tuples_request \<Rightarrow> 's \<Rightarrow> string option result \<times> 's" where
  "TupleService_DeleteTuples uc ctx req s = (case toDeleteTuplesCommand req of
     Inl err \<Rightarrow> (Err err, s)
   | Inr cmd \<Rightarrow> (case TupleCrud_DeleteTuples uc ctx cmd s of
       (Inl err, s') \<Rightarrow> (Err err, s')
     | (Inr token, s') \<Rightarrow> (Ok (fromDeleteTuplesResult token), s')))"

definition TupleService_ReadTuples ::
    "'s tuple_crud \<Rightarrow> (nat \<Rightarrow> go_error option) \<Rightarrow> go_error option \<Rightarrow> authz_context option \<Rightarrow> read_tuples_request \<Rightarrow> 's \<Rightarrow>
     unit result \<times> read_tuples_response list" where
  "TupleService_ReadTuples uc send fin ctx req s = (case toReadTuplesCommand req of
     Inl err \<Rightarrow> (Err err, [])
   | Inr cmd \<Rightarrow> (case TupleCrud_ReadTuples uc ctx cmd s of
       Inl err \<Rightarrow> (Err err, [])
     | Inr items \<Rightarrow> stream_loop readTuplesItemToProto send fin 0 items))"

definition TupleService_AcquireLock ::
    "'s tuple_crud \<Rightarrow> authz_context option \<Rightarrow> string \<Rightarrow> 's \<Rightarrow> string result \<times> 's" where
  "TupleService_AcquireLock uc ctx req s = (case toAcquireLockCommand req of
     Inl err \<Rightarrow> (Err err, s)
   | Inr lockId \<Rightarrow> TupleCrud_AcquireLock uc ctx lockId s)"

end
