(* ===== verification/Grpc_Relations.thy ===== *)
theory Grpc_Relations
  imports Tuple_Service Spicedb
begin

text \<open>
  The relations repository over the gRPC relations API (\<open>internal/data/grpc_relations_repository.go\<close>) with the client of
  its bearer tokens (\<open>grpc_relations_repository_token.go\<close>). The messages of that API have the shape of those of the tuple
  service and share their records. The remote service is a record of its calls on its state; the HTTP client, the token cache and
  the JWT parser are parameters.
\<close>

section \<open>Tokens\<close>

record token_client_config =
  tcc_clientId :: string
  tcc_clientSecret :: string
  tcc_url :: string
  tcc_enableOIDCAuth :: bool
  tcc_insecure :: bool

record 'c token_client =
  tk_ClientID :: string
  tk_ClientSecret :: string
  tk_URL :: string
  tk_EnableOIDCAuth :: bool
  tk_Insecure :: bool
  tk_cache :: 'c

record token_response =
  tr_AccessToken :: string
  tr_ExpiresIn :: int
  tr_RefreshToken :: string

text \<open>An HTTP exchange: the status code and the body, read as far as the connection allowed and parsed as JSON.\<close>

record http_answer =
  ha_StatusCode :: int
  ha_Body :: "json result result"

record 'c token_env =
  tv_cacheGet :: "'c \<Rightarrow> string \<Rightarrow> string option"
  tv_cacheSet :: "'c \<Rightarrow> string \<Rightarrow> string \<Rightarrow> 'c"
  tv_jwtClaims :: "string \<Rightarrow> json_object option"
  tv_now :: time
  tv_newRequest :: "string \<Rightarrow> unit result"
  tv_post :: "string \<Rightarrow> (string \<times> string) list \<Rightarrow> http_answer result"

definition client_credentials_granttype :: string where "client_credentials_granttype = ''client_credentials''"

definition NewTokenClient :: "'c \<Rightarrow> token_client_config \<Rightarrow> 'c token_client" where
  "NewTokenClient cache config = \<lparr>tk_ClientID = tcc_clientId config, tk_ClientSecret = tcc_clientSecret config, tk_URL = tcc_url config,
     tk_EnableOIDCAuth = tcc_enableOIDCAuth config, tk_Insecure = tcc_insecure config, tk_cache = cache\<rparr>"

definition GetCachedToken :: "'c token_env \<Rightarrow> 'c token_client \<Rightarrow> string \<Rightarrow> string result" where
  "GetCachedToken env a tokenKey = (case tv_cacheGet env (tk_cache a) tokenKey of
     Some ct \<Rightarrow> Ok ct | None \<Rightarrow> Err (Errorf ''failed to retrieve cached token''))"

text \<open>The claim \<open>exp\<close> must be a number: the assertion \<open>.(float64)\<close> panics otherwise.\<close>

definition IsJWTTokenExpired :: "'c token_env \<Rightarrow> string \<Rightarrow> (bool \<times> time) result" where
  "IsJWTTokenExpired env accessToken = (case tv_jwtClaims env accessToken of
     None \<Rightarrow> Ok (True, zero_time)
   | Some tokenClaims \<Rightarrow> (case map_of tokenClaims ''exp'' of
       None \<Rightarrow> Ok (True, zero_time)
     | Some (JNum e) \<Rightarrow> Ok (tv_now env > e, e)
     | Some _ \<Rightarrow> Err (Errorf ''panic: interface conversion'')))"

text \<open>\<open>json.Unmarshal\<close> into the response: absent and null fields keep their zero value, a field of another type fails.\<close>

definition token_string :: "json_object \<Rightarrow> string \<Rightarrow> string result" where
  "token_string o1 field = (case map_of o1 field of None \<Rightarrow> Ok [] | Some JNull \<Rightarrow> Ok [] | Some (JStr x) \<Rightarrow> Ok x
     | Some _ \<Rightarrow> Err (Errorf ''json: cannot unmarshal''))"

definition token_int :: "json_object \<Rightarrow> string \<Rightarrow> int result" where
  "token_int o1 field = (case map_of o1 field of None \<Rightarrow> Ok 0 | Some JNull \<Rightarrow> Ok 0 | Some (JNum x) \<Rightarrow> Ok x
     | Some _ \<Rightarrow> Err (Errorf ''json: cannot unmarshal''))"

definition TokenResponse_Unmarshal :: "json \<Rightarrow> token_response result" where
  "TokenResponse_Unmarshal j = (case j of
     JNull \<Rightarrow> Ok \<lparr>tr_AccessToken = [], tr_ExpiresIn = 0, tr_RefreshToken = []\<rparr>
   | JObj o1 \<Rightarrow>
       bind_res (token_string o1 ''access_token'') (\<lambda>a.
       bind_res (token_int o1 ''expires_in'') (\<lambda>e.
       bind_res (token_string o1 ''refresh_token'') (\<lambda>r.
       Ok \<lparr>tr_AccessToken = a, tr_ExpiresIn = e, tr_RefreshToken = r\<rparr>)))
   | _ \<Rightarrow> Err (Errorf ''json: cannot unmarshal''))"

definition request_token :: "'c token_env \<Rightarrow> 'c token_client \<Rightarrow> token_response result" where
  "request_token env a =
     bind_res (wrap_err ''failed to create token request'' (tv_newRequest env (tk_URL a))) (\<lambda>_.
     bind_res (wrap_err ''token request failed'' (tv_post env (tk_URL a)
       [(''client_id'', tk_ClientID a), (''client_secret'', tk_ClientSecret a), (''grant_type'', client_credentials_granttype)])) (\<lambda>resp.
     bind_res (wrap_err ''failed to parse token response'' (ha_Body resp)) (\<lambda>body.
     if ha_StatusCode resp \<noteq> 200 then Err (Errorf ''unexpected status code'')
     else wrap_err ''failed to unmarshal token response'' (bind_res body TokenResponse_Unmarshal))))"

definition getToken :: "'c token_env \<Rightarrow> 'c token_client \<Rightarrow> token_response result \<times> 'c token_client" where
  "getToken env a =
     (let cachedTokenKey = tk_URL a @ tk_ClientID a;
          cachedToken = (case GetCachedToken env a cachedTokenKey of Inl _ \<Rightarrow> [] | Inr ct \<Rightarrow> ct)
      in case IsJWTTokenExpired env cachedToken of
           Inl e \<Rightarrow> (Err e, a)
         | Inr (isExpired, _) \<Rightarrow>
             if cachedToken \<noteq> [] \<and> \<not> isExpired
             then (Ok \<lparr>tr_AccessToken = cachedToken, tr_ExpiresIn = 0, tr_RefreshToken = []\<rparr>, a)
             else (case request_token env a of
                 Inl e \<Rightarrow> (Err e, a)
               | Inr r \<Rightarrow> (Ok r, a\<lparr>tk_cache := tv_cacheSet env (tk_cache a) cachedTokenKey (tr_AccessToken r)\<rparr>)))"

datatype call_option = EmptyCallOption | WithInsecureBearerToken string | WithBearerToken string

definition getCallOptions :: "'c token_env \<Rightarrow> 'c token_client \<Rightarrow> call_option list result \<times> 'c token_client" where
  "getCallOptions env a =
     (if tk_EnableOIDCAuth a then
        (case getToken env a of
           (Inl err, a') \<Rightarrow> (Err (Wrap ''failed to request token'' err), a')
         | (Inr token, a') \<Rightarrow> (Ok [EmptyCallOption, if tk_Insecure a then WithInsecureBearerToken (tr_AccessToken token)
             else WithBearerToken (tr_AccessToken token)], a'))
      else (Ok [EmptyCallOption], a))"

section \<open>The remote service\<close>

record v1_check_request =
  vc_Resource :: relation_object_reference
  vc_Relation :: string
  vc_Subject :: relation_subject_reference
  vc_Consistency :: pb_consistency

record v1_bulk_item =
  vb_Resource :: relation_object_reference
  vb_Relation :: string
  vb_Subject :: relation_subject_reference

datatype v1_bulk_pair = BulkError string int | BulkItem pb_allowed | BulkNeither

record v1_lookup_resources_request =
  vr_ResourceType :: relation_object_type
  vr_Relation :: string
  vr_Subject :: relation_subject_reference
  vr_Pagination :: "pb_request_pagination option"
  vr_Consistency :: pb_consistency

record v1_lookup_subjects_request =
  vs_Resource :: relation_object_reference
  vs_Relation :: string
  vs_SubjectType :: relation_object_type
  vs_SubjectRelation :: "string option"
  vs_Pagination :: "pb_request_pagination option"
  vs_Consistency :: pb_consistency

record v1_lookup_resources_response =
  vro_Resource :: "relation_object_reference option"
  vro_Pagination :: "string option"

record v1_lookup_subjects_response =
  vso_Subject :: "relation_subject_reference option"
  vso_Pagination :: "string option"

record v1_read_response =
  vto_Tuple :: "pb_relationship option"
  vto_Pagination :: "string option"
  vto_ConsistencyToken :: "string option"

text \<open>The calls; the token of a response is absent or a string. A stream is the list of its messages and the error that ends it.\<close>

record 's relations_api =
  ra_GetReadyz :: "call_option list \<Rightarrow> 's \<Rightarrow> (string \<times> 32 word) result"
  ra_Check :: "call_option list \<Rightarrow> v1_check_request \<Rightarrow> 's \<Rightarrow> (pb_allowed \<times> string option) result"
  ra_CheckForUpdate :: "call_option list \<Rightarrow> v1_bulk_item \<Rightarrow> 's \<Rightarrow> (pb_allowed \<times> string option) result"
  ra_CheckBulk :: "call_option list \<Rightarrow> v1_bulk_item list \<Rightarrow> pb_consistency \<Rightarrow> 's \<Rightarrow> (v1_bulk_pair list \<times> string option) result"
  ra_CheckForUpdateBulk :: "call_option list \<Rightarrow> v1_bulk_item list \<Rightarrow> 's \<Rightarrow> (v1_bulk_pair list \<times> string option) result"
  ra_LookupResources :: "call_option list \<Rightarrow> v1_lookup_resources_request \<Rightarrow> 's \<Rightarrow> (v1_lookup_resources_response list \<times> go_error option) result"
  ra_LookupSubjects :: "call_option list \<Rightarrow> v1_lookup_subjects_request \<Rightarrow> 's \<Rightarrow> (v1_lookup_subjects_response list \<times> go_error option) result"
  ra_CreateTuples :: "call_option list \<Rightarrow> create_tuples_request \<Rightarrow> 's \<Rightarrow> string option result \<times> 's"
  ra_DeleteTuples :: "call_option list \<Rightarrow> delete_tuples_request \<Rightarrow> 's \<Rightarrow> string option result \<times> 's"
  ra_ReadTuples :: "call_option list \<Rightarrow> read_tuples_request \<Rightarrow> 's \<Rightarrow> (v1_read_response list \<times> go_error option) result"
  ra_AcquireLock :: "call_option list \<Rightarrow> string \<Rightarrow> 's \<Rightarrow> string result \<times> 's"

text \<open>The repository with what \<open>getCallOptions\<close> returns at the time of the call.\<close>

record 's grpc_env =
  ge_api :: "'s relations_api"
  ge_callOptions :: "call_option list result"

section \<open>Conversions\<close>

definition resourceReferenceToV1Beta1 :: "resource_reference \<Rightarrow> relation_object_reference" where
  "resourceReferenceToV1Beta1 ref = \<lparr>ror_Type = Some \<lparr>rot_Namespace = (case oref_reporter ref of None \<Rightarrow> []
       | Some r \<Rightarrow> SerializeString (rref_reporterType r)), rot_Name = SerializeString (oref_resourceType ref)\<rparr>,
     ror_Id = SerializeString (oref_resourceId ref)\<rparr>"

definition subjectToV1Beta1 :: "subject_reference \<Rightarrow> relation_subject_reference" where
  "subjectToV1Beta1 sub = \<lparr>rsr_Relation = (case sref_relation sub of None \<Rightarrow> None | Some r \<Rightarrow> Some (SerializeString r)),
     rsr_Subject = Some (resourceReferenceToV1Beta1 (sref_resource sub))\<rparr>"

definition consistencyToV1Beta1 :: "consistency option \<Rightarrow> pb_consistency" where
  "consistencyToV1Beta1 c = (case ConsistencyAtLeastAsFreshToken c of
     Some token \<Rightarrow> Some (AtLeastAsFresh (Some (SerializeString token)))
   | None \<Rightarrow> Some (MinimizeLatency True))"

definition tokenFromV1Beta1 :: "string option \<Rightarrow> consistency_token" where
  "tokenFromV1Beta1 t = (case t of None \<Rightarrow> MinimizeLatencyToken | Some x \<Rightarrow> DeserializeConsistencyToken x)"

definition paginationToV1Beta1 :: "pagination option \<Rightarrow> pb_request_pagination option" where
  "paginationToV1Beta1 pagination = (case pagination of
     None \<Rightarrow> None
   | Some p \<Rightarrow> Some \<lparr>ppg_Limit = pg_Limit p, ppg_ContinuationToken = pg_Continuation p\<rparr>)"

definition fencingCheckToV1Beta1 :: "fencing_check \<Rightarrow> relation_fencing_check" where
  "fencingCheckToV1Beta1 fencing = \<lparr>rfc_LockId = fc_lockId fencing, rfc_LockToken = fc_lockToken fencing\<rparr>"

definition relationshipsToCheckBulkV1Beta1 :: "relationship list \<Rightarrow> v1_bulk_item list" where
  "relationshipsToCheckBulkV1Beta1 rels = map (\<lambda>rel. \<lparr>vb_Resource = resourceReferenceToV1Beta1 (rl_object rel),
     vb_Relation = SerializeString (rl_relation rel), vb_Subject = subjectToV1Beta1 (rl_subject rel)\<rparr>) rels"

definition checkBulkItemFromV1Beta1 :: "v1_bulk_pair \<Rightarrow> check_bulk_result_item" where
  "checkBulkItemFromV1Beta1 pair = (case pair of
     BulkError msg code \<Rightarrow> NewCheckBulkResultItem False (Some (Errorf (''check failed: '' @ msg))) code
   | BulkItem allowed \<Rightarrow> NewCheckBulkResultItem (allowed = ALLOWED_TRUE) None 0
   | BulkNeither \<Rightarrow> NewCheckBulkResultItem False (Some (Errorf ''malformed backend response'')) codes_Internal)"

definition checkBulkResultFromV1Beta1 :: "v1_bulk_pair list \<Rightarrow> relationship list \<Rightarrow> string option \<Rightarrow> check_bulk_result result" where
  "checkBulkResultFromV1Beta1 respPairs rels protoToken =
     (if length respPairs \<noteq> length rels then Err (StatusError Internal ''internal error: mismatched backend check results'')
      else Ok (NewCheckBulkResult (map2 (\<lambda>pair rel. NewCheckBulkResultPair rel (checkBulkItemFromV1Beta1 pair)) respPairs rels)
        (tokenFromV1Beta1 protoToken)))"

definition tuplesToV1Beta1 :: "relations_tuple list \<Rightarrow> pb_relationship list" where
  "tuplesToV1Beta1 tuples = map (\<lambda>t. \<lparr>prl_Resource = Some (resourceReferenceToV1Beta1 (rt_object t)),
     prl_Relation = SerializeString (rt_relation t), prl_Subject = Some (subjectToV1Beta1 (rt_subject t))\<rparr>) tuples"

definition subjectFilterToV1Beta1 :: "tuple_subject_filter \<Rightarrow> relation_subject_filter" where
  "subjectFilterToV1Beta1 sf = \<lparr>rsf_SubjectNamespace = map_option SerializeString (sf_reporterType sf),
     rsf_SubjectType = map_option SerializeString (sf_subjectType sf), rsf_SubjectId = map_option SerializeString (sf_subjectId sf),
     rsf_Relation = map_option SerializeString (sf_relation sf)\<rparr>"

definition tupleFilterToV1Beta1 :: "tuple_filter \<Rightarrow> relation_tuple_filter" where
  "tupleFilterToV1Beta1 f = \<lparr>rtf_ResourceNamespace = map_option SerializeString (tf_reporterType f),
     rtf_ResourceType = map_option SerializeString (tf_objectType f), rtf_ResourceId = map_option SerializeString (tf_objectId f),
     rtf_Relation = map_option SerializeString (tf_relation f), rtf_SubjectFilter = map_option subjectFilterToV1Beta1 (tf_subject f)\<rparr>"

section \<open>Streams\<close>

definition v1_object :: "relation_object_reference option \<Rightarrow> resource_reference" where
  "v1_object ob = (let t = pb_get ror_Type None ob in
     NewResourceReference (DeserializeResourceType (pb_get rot_Name [] t)) (DeserializeLocalResourceId (pb_get ror_Id [] ob))
       (Some (NewReporterReference (DeserializeReporterType (pb_get rot_Namespace [] t)) None)))"

text \<open>\<open>subject.Relation\<close> is read through the pointer: a response without a subject panics.\<close>

definition v1_subject :: "relation_subject_reference option \<Rightarrow> subject_reference result" where
  "v1_subject sub = (case sub of
     None \<Rightarrow> Err nil_panic
   | Some x \<Rightarrow> Ok (case rsr_Relation x of
       Some rel \<Rightarrow> NewSubjectReference (v1_object (rsr_Subject x)) (Some (DeserializeRelation rel))
     | None \<Rightarrow> NewSubjectReferenceWithoutRelation (v1_object (rsr_Subject x))))"

definition lookupObjectsStream_Recv :: "v1_lookup_resources_response \<Rightarrow> lookup_objects_item result" where
  "lookupObjectsStream_Recv resp = Ok \<lparr>loi_object = v1_object (vro_Resource resp), loi_continuationToken = cursor_token (vro_Pagination resp)\<rparr>"

definition lookupSubjectsStream_Recv :: "v1_lookup_subjects_response \<Rightarrow> lookup_subjects_item result" where
  "lookupSubjectsStream_Recv resp = bind_res (v1_subject (vso_Subject resp)) (\<lambda>subjectRef.
     Ok \<lparr>lsi_subject = subjectRef, lsi_continuationToken = cursor_token (vso_Pagination resp)\<rparr>)"

definition readTuplesStream_Recv :: "v1_read_response \<Rightarrow> read_tuples_item result" where
  "readTuplesStream_Recv resp =
     (let tuple = vto_Tuple resp in
      bind_res (v1_subject (pb_get prl_Subject None tuple)) (\<lambda>subjectRef.
      Ok \<lparr>rti_object = v1_object (pb_get prl_Resource None tuple), rti_relation = DeserializeRelation (pb_get prl_Relation [] tuple),
          rti_subject = subjectRef, rti_continuationToken = cursor_token (vto_Pagination resp),
          rti_consistencyToken = (case vto_ConsistencyToken resp of None \<Rightarrow> [] | Some t \<Rightarrow> if t \<noteq> [] then DeserializeConsistencyToken t else [])\<rparr>))"

section \<open>Operations\<close>

definition GRPC_Health :: "'s grpc_env \<Rightarrow> 's \<Rightarrow> health_result result" where
  "GRPC_Health env s = bind_res (ge_callOptions env) (\<lambda>opts.
     bind_res (ra_GetReadyz (ge_api env) opts s) (\<lambda>(status, code). Ok (NewHealthResult status (uint code))))"

definition GRPC_Check :: "'s grpc_env \<Rightarrow> relationship \<Rightarrow> consistency \<Rightarrow> 's \<Rightarrow> check_result result" where
  "GRPC_Check env rel consistency s = bind_res (ge_callOptions env) (\<lambda>opts.
     bind_res (ra_Check (ge_api env) opts \<lparr>vc_Resource = resourceReferenceToV1Beta1 (rl_object rel), vc_Relation = SerializeString (rl_relation rel),
       vc_Subject = subjectToV1Beta1 (rl_subject rel), vc_Consistency = consistencyToV1Beta1 (Some consistency)\<rparr> s) (\<lambda>(allowed, token).
     Ok (NewCheckResult (allowed = ALLOWED_TRUE) (tokenFromV1Beta1 token))))"

definition GRPC_CheckForUpdate :: "'s grpc_env \<Rightarrow> relationship \<Rightarrow> 's \<Rightarrow> check_result result" where
  "GRPC_CheckForUpdate env rel s = bind_res (ge_callOptions env) (\<lambda>opts.
     bind_res (ra_CheckForUpdate (ge_api env) opts \<lparr>vb_Resource = resourceReferenceToV1Beta1 (rl_object rel), vb_Relation = SerializeString (rl_relation rel),
       vb_Subject = subjectToV1Beta1 (rl_subject rel)\<rparr> s) (\<lambda>(allowed, token).
     Ok (NewCheckResult (allowed = ALLOWED_TRUE) (tokenFromV1Beta1 token))))"

definition GRPC_CheckBulk :: "'s grpc_env \<Rightarrow> relationship list \<Rightarrow> consistency option \<Rightarrow> 's \<Rightarrow> check_bulk_result result" where
  "GRPC_CheckBulk env rels consistency s = bind_res (ge_callOptions env) (\<lambda>opts.
     bind_res (ra_CheckBulk (ge_api env) opts (relationshipsToCheckBulkV1Beta1 rels) (consistencyToV1Beta1 consistency) s) (\<lambda>(pairs, token).
     checkBulkResultFromV1Beta1 pairs rels token))"

definition GRPC_CheckForUpdateBulk :: "'s grpc_env \<Rightarrow> relationship list \<Rightarrow> 's \<Rightarrow> check_bulk_result result" where
  "GRPC_CheckForUpdateBulk env rels s = bind_res (ge_callOptions env) (\<lambda>opts.
     bind_res (ra_CheckForUpdateBulk (ge_api env) opts (relationshipsToCheckBulkV1Beta1 rels) s) (\<lambda>(pairs, token).
     checkBulkResultFromV1Beta1 pairs rels token))"

definition RequireReporterType :: "representation_type \<Rightarrow> reporter_type result" where
  "RequireReporterType rt = (case rpt_reporterType rt of
     None \<Rightarrow> Err (Errorf ''RepresentationType: reporter type is required but not set'') | Some r \<Rightarrow> Ok r)"

definition GRPC_LookupObjects ::
    "'s grpc_env \<Rightarrow> representation_type \<Rightarrow> relation \<Rightarrow> subject_reference \<Rightarrow> pagination option \<Rightarrow> consistency option \<Rightarrow> 's \<Rightarrow>
     lookup_objects_item list result" where
  "GRPC_LookupObjects env objectType relation sub pagination consistency s = bind_res (ge_callOptions env) (\<lambda>opts.
     bind_res (wrap_err ''LookupObjects requires reporter type'' (RequireReporterType objectType)) (\<lambda>reporterType.
     bind_res (ra_LookupResources (ge_api env) opts \<lparr>vr_ResourceType = \<lparr>rot_Namespace = SerializeString reporterType,
         rot_Name = SerializeString (rpt_resourceType objectType)\<rparr>, vr_Relation = SerializeString relation, vr_Subject = subjectToV1Beta1 sub,
       vr_Pagination = paginationToV1Beta1 pagination, vr_Consistency = consistencyToV1Beta1 consistency\<rparr> s) (\<lambda>stream.
     drain lookupObjectsStream_Recv stream)))"

definition GRPC_LookupSubjects ::
    "'s grpc_env \<Rightarrow> resource_reference \<Rightarrow> relation \<Rightarrow> representation_type \<Rightarrow> relation option \<Rightarrow> pagination option \<Rightarrow> consistency option \<Rightarrow> 's \<Rightarrow>
     lookup_subjects_item list result" where
  "GRPC_LookupSubjects env ob relation subjectType subjectRelation pagination consistency s = bind_res (ge_callOptions env) (\<lambda>opts.
     bind_res (wrap_err ''LookupSubjects requires subject reporter type'' (RequireReporterType subjectType)) (\<lambda>subReporterType.
     bind_res (ra_LookupSubjects (ge_api env) opts \<lparr>vs_Resource = resourceReferenceToV1Beta1 ob, vs_Relation = SerializeString relation,
       vs_SubjectType = \<lparr>rot_Namespace = SerializeString subReporterType, rot_Name = SerializeString (rpt_resourceType subjectType)\<rparr>,
       vs_SubjectRelation = map_option SerializeString subjectRelation, vs_Pagination = paginationToV1Beta1 pagination,
       vs_Consistency = consistencyToV1Beta1 consistency\<rparr> s) (\<lambda>stream.
     drain lookupSubjectsStream_Recv stream)))"

definition GRPC_CreateTuples ::
    "'s grpc_env \<Rightarrow> relations_tuple list \<Rightarrow> bool \<Rightarrow> fencing_check option \<Rightarrow> 's \<Rightarrow> consistency_token result \<times> 's" where
  "GRPC_CreateTuples env tuples isUpsert fencing s = (case ge_callOptions env of
     Inl e \<Rightarrow> (Err e, s)
   | Inr opts \<Rightarrow> (case ra_CreateTuples (ge_api env) opts \<lparr>ctq_Upsert = isUpsert, ctq_Tuples = tuplesToV1Beta1 tuples,
         ctq_FencingCheck = map_option fencingCheckToV1Beta1 fencing\<rparr> s of
       (Inl e, s') \<Rightarrow> (Err e, s')
     | (Inr token, s') \<Rightarrow> (Ok (tokenFromV1Beta1 token), s')))"

definition GRPC_DeleteTuples ::
    "'s grpc_env \<Rightarrow> tuple_filter \<Rightarrow> fencing_check option \<Rightarrow> 's \<Rightarrow> consistency_token result \<times> 's" where
  "GRPC_DeleteTuples env flt fencing s = (case ge_callOptions env of
     Inl e \<Rightarrow> (Err e, s)
   | Inr opts \<Rightarrow> (case ra_DeleteTuples (ge_api env) opts \<lparr>dtq_Filter = Some (tupleFilterToV1Beta1 flt),
         dtq_FencingCheck = map_option fencingCheckToV1Beta1 fencing\<rparr> s of
       (Inl e, s') \<Rightarrow> (Err e, s')
     | (Inr token, s') \<Rightarrow> (Ok (tokenFromV1Beta1 token), s')))"

definition GRPC_ReadTuples ::
    "'s grpc_env \<Rightarrow> tuple_filter \<Rightarrow> pagination option \<Rightarrow> consistency option \<Rightarrow> 's \<Rightarrow> read_tuples_item list result" where
  "GRPC_ReadTuples env flt pagination consistency s = bind_res (ge_callOptions env) (\<lambda>opts.
     bind_res (ra_ReadTuples (ge_api env) opts \<lparr>rtq_Filter = Some (tupleFilterToV1Beta1 flt), rtq_Pagination = paginationToV1Beta1 pagination,
       rtq_Consistency = consistencyToV1Beta1 consistency\<rparr> s) (\<lambda>stream.
     drain readTuplesStream_Recv stream))"

definition GRPC_AcquireLock :: "'s grpc_env \<Rightarrow> lock_id \<Rightarrow> 's \<Rightarrow> lock_token result \<times> 's" where
  "GRPC_AcquireLock env lockId s = (case ge_callOptions env of
     Inl e \<Rightarrow> (Err e, s)
   | Inr opts \<Rightarrow> (case ra_AcquireLock (ge_api env) opts lockId s of
       (Inl e, s') \<Rightarrow> (Err e, s')
     | (Inr token, s') \<Rightarrow> (Ok (DeserializeLockToken token), s')))"

definition grpc_relations :: "'s grpc_env \<Rightarrow> 's relations_repository" where
  "grpc_relations env = \<lparr>ro_Check = GRPC_Check env, ro_CheckForUpdate = GRPC_CheckForUpdate env, ro_CheckBulk = GRPC_CheckBulk env,
     ro_CheckForUpdateBulk = GRPC_CheckForUpdateBulk env, ro_LookupObjects = GRPC_LookupObjects env,
     ro_LookupSubjects = GRPC_LookupSubjects env, ro_CreateTuples = GRPC_CreateTuples env, ro_DeleteTuples = GRPC_DeleteTuples env,
     ro_ReadTuples = GRPC_ReadTuples env, ro_AcquireLock = GRPC_AcquireLock env\<rparr>"

end
