(* ===== verification/Grpc_Laws.thy ===== *)
theory Grpc_Laws
  imports Grpc_Relations End_To_End
begin

text \<open>
  The repository over the gRPC relations API. Given what the API promises of its own messages, that an upsert adds the relationships of the
  request and a deletion removes those its filter matches, the messages the repository sends for tuples and filters have exactly the
  effect the consumer relies on; so reports reach the relations API. Bearer tokens are requested once and reused until they expire.
\<close>

section \<open>Relationships on the wire\<close>

text \<open>What identifies a relationship message, absent parts read as their zero values. The relation of the subject, which no tuple of a
  resource has, is left out as it is in the keys of tuples.\<close>

definition wire_key :: "pb_relationship \<Rightarrow> simpleTupleKey" where
  "wire_key r =
     (let ob = prl_Resource r; sub = pb_get rsr_Subject None (prl_Subject r) in
      \<lparr>stk_ResourceNamespace = pb_get rot_Namespace [] (pb_get ror_Type None ob), stk_ResourceType = pb_get rot_Name [] (pb_get ror_Type None ob),
       stk_ResourceID = pb_get ror_Id [] ob, stk_Relation = prl_Relation r,
       stk_SubjectNamespace = pb_get rot_Namespace [] (pb_get ror_Type None sub), stk_SubjectType = pb_get rot_Name [] (pb_get ror_Type None sub),
       stk_SubjectID = pb_get ror_Id [] sub\<rparr>)"

text \<open>A filter message matches the relationships that have the value of every field it sets.\<close>

definition field_matches :: "'a option \<Rightarrow> 'a \<Rightarrow> bool" where
  "field_matches f v \<longleftrightarrow> (case f of None \<Rightarrow> True | Some x \<Rightarrow> x = v)"

definition pb_matches :: "relation_tuple_filter \<Rightarrow> pb_relationship \<Rightarrow> bool" where
  "pb_matches f r \<longleftrightarrow> (let k = wire_key r in
     field_matches (rtf_ResourceNamespace f) (stk_ResourceNamespace k) \<and> field_matches (rtf_ResourceType f) (stk_ResourceType k) \<and>
     field_matches (rtf_ResourceId f) (stk_ResourceID k) \<and> field_matches (rtf_Relation f) (stk_Relation k) \<and>
     (case rtf_SubjectFilter f of None \<Rightarrow> True | Some g \<Rightarrow>
        field_matches (rsf_SubjectNamespace g) (stk_SubjectNamespace k) \<and> field_matches (rsf_SubjectType g) (stk_SubjectType k) \<and>
        field_matches (rsf_SubjectId g) (stk_SubjectID k) \<and>
        (case rsf_Relation g of None \<Rightarrow> True | Some x \<Rightarrow> pb_get rsr_Relation None (prl_Subject r) = Some x)))"

text \<open>Tuples keep their identity on the wire.\<close>

lemma tuples_wire: "wire_key ` set (tuplesToV1Beta1 ts) = tuple_keys (set ts)"
proof -
  have "wire_key \<lparr>prl_Resource = Some (resourceReferenceToV1Beta1 (rt_object t)), prl_Relation = SerializeString (rt_relation t),
      prl_Subject = Some (subjectToV1Beta1 (rt_subject t))\<rparr> = simpleTupleKeyFromModelTuple t" for t
    by (simp add: wire_key_def simpleTupleKeyFromModelTuple_def resourceReferenceToV1Beta1_def subjectToV1Beta1_def Let_def serde split: option.splits)
  then show ?thesis by (simp add: tuplesToV1Beta1_def image_image)
qed

text \<open>Tuples of resources: both ends have a reporter, and the subject no relation.\<close>

definition api_tuple :: "relations_tuple \<Rightarrow> bool" where
  "api_tuple t \<longleftrightarrow> wf_tuple t \<and> sref_relation (rt_subject t) = None"

text \<open>The filter message for such a tuple matches that tuple and nothing else.\<close>

lemma filter_wire:
  assumes "api_tuple t"
  shows "pb_matches (tupleFilterToV1Beta1 (tupleToFilter t)) r \<longleftrightarrow> wire_key r = simpleTupleKeyFromModelTuple t"
proof -
  obtain ro rs where r: "oref_reporter (rt_object t) = Some ro" "oref_reporter (sref_resource (rt_subject t)) = Some rs"
      "sref_relation (rt_subject t) = None"
    using assms by (auto simp: api_tuple_def wf_tuple_def)
  then show ?thesis
    by (cases "wire_key r") (auto simp: pb_matches_def tupleFilterToV1Beta1_def subjectFilterToV1Beta1_def field_matches_def Let_def
        tupleToFilter_def simpleTupleKeyFromModelTuple_def serde
        TupleFilter_WithObjectType_def TupleFilter_WithReporterType_def TupleFilter_WithObjectId_def TupleFilter_WithRelation_def
        TupleFilter_WithSubject_def SubjectFilter_WithSubjectType_def SubjectFilter_WithReporterType_def
        SubjectFilter_WithSubjectId_def NewTupleFilter_def NewTupleSubjectFilter_def)
qed

section \<open>The contract of the API\<close>

text \<open>What the API promises of its messages: an upsert adds the relationships of the request and never reports that one exists; a deletion
  removes those its filter matches; a call that fails may have done a part. A failing token request is not such a report either.\<close>

locale relations_service =
  fixes env :: "'s grpc_env" and rels :: "'s \<Rightarrow> pb_relationship set" and up :: "'s \<Rightarrow> bool"
  assumes upsert_ok: "up s \<Longrightarrow> ctq_Upsert req \<Longrightarrow> ra_CreateTuples (ge_api env) opts req s = (Inr tok, s') \<Longrightarrow>
      rels s' = rels s \<union> set (ctq_Tuples req) \<and> up s'"
    and upsert_err: "up s \<Longrightarrow> ctq_Upsert req \<Longrightarrow> ra_CreateTuples (ge_api env) opts req s = (Inl e, s') \<Longrightarrow>
      rels s \<subseteq> rels s' \<and> rels s' \<subseteq> rels s \<union> set (ctq_Tuples req) \<and> up s' \<and> status_code e \<noteq> AlreadyExists"
    and delete_ok: "up s \<Longrightarrow> dtq_Filter del = Some f \<Longrightarrow> ra_DeleteTuples (ge_api env) opts del s = (Inr tok, s') \<Longrightarrow>
      rels s' = {r \<in> rels s. \<not> pb_matches f r} \<and> up s'"
    and delete_err: "up s \<Longrightarrow> dtq_Filter del = Some f \<Longrightarrow> ra_DeleteTuples (ge_api env) opts del s = (Inl e, s') \<Longrightarrow>
      {r \<in> rels s. \<not> pb_matches f r} \<subseteq> rels s' \<and> rels s' \<subseteq> rels s \<and> up s'"
    and token_error: "ge_callOptions env = Inl e \<Longrightarrow> status_code e \<noteq> AlreadyExists"
begin

definition api_keys :: "'s \<Rightarrow> simpleTupleKey set" where
  "api_keys s = wire_key ` rels s"

lemma unmatched_keys:
  assumes "api_tuple t"
  shows "wire_key ` {r \<in> rels s. \<not> pb_matches (tupleFilterToV1Beta1 (tupleToFilter t)) r} = api_keys s - {simpleTupleKeyFromModelTuple t}"
  unfolding api_keys_def filter_wire [OF assms] by auto

lemma created:
  assumes "up s" "ro_CreateTuples (grpc_relations env) ts True f s = (x, s')"
  shows "up s' \<and> (case x of Inr _ \<Rightarrow> api_keys s' = api_keys s \<union> tuple_keys (set ts)
    | Inl e \<Rightarrow> api_keys s \<subseteq> api_keys s' \<and> api_keys s' \<subseteq> api_keys s \<union> tuple_keys (set ts) \<and> status_code e \<noteq> AlreadyExists)"
proof (cases "ge_callOptions env")
  case (Inl e)
  with assms token_error show ?thesis by (auto simp: grpc_relations_def GRPC_CreateTuples_def)
next
  case (Inr opts)
  let ?req = "\<lparr>ctq_Upsert = True, ctq_Tuples = tuplesToV1Beta1 ts, ctq_FencingCheck = map_option fencingCheckToV1Beta1 f\<rparr>"
  obtain y t where y: "ra_CreateTuples (ge_api env) opts ?req s = (y, t)" by (metis surj_pair)
  with assms(2) Inr have x: "x = (case y of Inl e \<Rightarrow> Inl e | Inr tok \<Rightarrow> Inr (tokenFromV1Beta1 tok))" "s' = t"
    by (auto simp: grpc_relations_def GRPC_CreateTuples_def split: sum.splits)
  show ?thesis
  proof (cases y)
    case (Inl e)
    have *: "rels s \<subseteq> rels s'" "rels s' \<subseteq> rels s \<union> set (tuplesToV1Beta1 ts)" "up s'" "status_code e \<noteq> AlreadyExists"
      using upsert_err [OF assms(1), of ?req opts e s'] y Inl x(2) by simp_all
    with image_mono [OF *(1), of wire_key] image_mono [OF *(2), of wire_key] show ?thesis
      by (simp add: x(1) Inl api_keys_def image_Un tuples_wire)
  next
    case (Inr tok)
    have "rels s' = rels s \<union> set (tuplesToV1Beta1 ts)" "up s'" using upsert_ok [OF assms(1), of ?req opts tok s'] y Inr x(2) by simp_all
    then show ?thesis by (simp add: x(1) Inr api_keys_def image_Un tuples_wire)
  qed
qed

lemma deleted:
  assumes "up s" "api_tuple t" "ro_DeleteTuples (grpc_relations env) (tupleToFilter t) f s = (x, s')"
  shows "up s' \<and> (case x of Inr _ \<Rightarrow> api_keys s' = api_keys s - {simpleTupleKeyFromModelTuple t}
    | Inl e \<Rightarrow> api_keys s - {simpleTupleKeyFromModelTuple t} \<subseteq> api_keys s' \<and> api_keys s' \<subseteq> api_keys s)"
proof (cases "ge_callOptions env")
  case (Inl e)
  with assms show ?thesis by (auto simp: grpc_relations_def GRPC_DeleteTuples_def)
next
  case (Inr opts)
  let ?flt = "tupleFilterToV1Beta1 (tupleToFilter t)"
  let ?req = "\<lparr>dtq_Filter = Some ?flt, dtq_FencingCheck = map_option fencingCheckToV1Beta1 f\<rparr>"
  obtain y u where y: "ra_DeleteTuples (ge_api env) opts ?req s = (y, u)" by (metis surj_pair)
  with assms(3) Inr have x: "x = (case y of Inl e \<Rightarrow> Inl e | Inr tok \<Rightarrow> Inr (tokenFromV1Beta1 tok))" "s' = u"
    by (auto simp: grpc_relations_def GRPC_DeleteTuples_def split: sum.splits)
  show ?thesis
  proof (cases y)
    case (Inl e)
    have *: "{r \<in> rels s. \<not> pb_matches ?flt r} \<subseteq> rels s'" "rels s' \<subseteq> rels s" "up s'"
      using delete_err [OF assms(1), of ?req ?flt opts e s'] y Inl x(2) by simp_all
    with image_mono [OF *(1), of wire_key] image_mono [OF *(2), of wire_key] show ?thesis
      unfolding unmatched_keys [OF assms(2)] by (simp add: x(1) Inl api_keys_def)
  next
    case (Inr tok)
    have *: "rels s' = {r \<in> rels s. \<not> pb_matches ?flt r}" "up s'"
      using delete_ok [OF assms(1), of ?req ?flt opts tok s'] y Inr x(2) by simp_all
    then have "api_keys s' = api_keys s - {simpleTupleKeyFromModelTuple t}" using unmatched_keys [OF assms(2)] by (simp add: api_keys_def)
    with *(2) show ?thesis by (simp add: x(1) Inr)
  qed
qed

end

sublocale relations_service \<subseteq> tuple_store "grpc_relations env" "\<lambda>s. wire_key ` rels s" up api_tuple
proof unfold_locales
  fix s ts f tok s' assume "up s" "ro_CreateTuples (grpc_relations env) ts True f s = (Inr tok, s')"
  from created [OF this] show "wire_key ` rels s' = wire_key ` rels s \<union> tuple_keys (set ts) \<and> up s'" by (simp add: api_keys_def)
next
  fix s ts f e s' assume "up s" "ro_CreateTuples (grpc_relations env) ts True f s = (Inl e, s')"
  from created [OF this] show "wire_key ` rels s \<subseteq> wire_key ` rels s' \<and> wire_key ` rels s' \<subseteq> wire_key ` rels s \<union> tuple_keys (set ts) \<and> up s' \<and>
    status_code e \<noteq> AlreadyExists" by (simp add: api_keys_def)
next
  fix s t f tok s' assume "up s" "api_tuple t" "ro_DeleteTuples (grpc_relations env) (tupleToFilter t) f s = (Inr tok, s')"
  from deleted [OF this] show "wire_key ` rels s' = wire_key ` rels s - {simpleTupleKeyFromModelTuple t} \<and> up s'" by (simp add: api_keys_def)
next
  fix s t f e s' assume "up s" "api_tuple t" "ro_DeleteTuples (grpc_relations env) (tupleToFilter t) f s = (Inl e, s')"
  from deleted [OF this] show "wire_key ` rels s - {simpleTupleKeyFromModelTuple t} \<subseteq> wire_key ` rels s' \<and> wire_key ` rels s' \<subseteq> wire_key ` rels s \<and> up s'"
    by (simp add: api_keys_def)
qed

context relations_service
begin

lemma api_contract: "tuple_store (grpc_relations env) (\<lambda>s. wire_key ` rels s) up api_tuple"
  by unfold_locales

end

lemma storable_api [simp]: "storable api_tuple c key ro"
proof -
  have "api_tuple (NewRelationTupleForSubject key rel ns ty sid)" for rel ns ty sid
    using subject_tuple_wf by (simp add: api_tuple_def NewRelationTupleForSubject_def Let_def NewSubjectReferenceWithoutRelation_def)
  then show ?thesis using schema_tuples_shape unfolding storable_def by blast
qed

section \<open>A service that keeps a list\<close>

definition listed_messages :: "relation_tuple_filter \<Rightarrow> pb_relationship list \<Rightarrow> v1_read_response list" where
  "listed_messages f s = map (\<lambda>r. \<lparr>vto_Tuple = Some r, vto_Pagination = None, vto_ConsistencyToken = None\<rparr>) (filter (pb_matches f) s)"

definition listed_api :: "pb_relationship list relations_api" where
  "listed_api = (let unserved = StatusError Unavailable ''not served'' in
     \<lparr>ra_GetReadyz = (\<lambda>_ _. Ok (''OK'', 200)), ra_Check = (\<lambda>_ _ _. Err unserved), ra_CheckForUpdate = (\<lambda>_ _ _. Err unserved),
      ra_CheckBulk = (\<lambda>_ _ _ _. Err unserved), ra_CheckForUpdateBulk = (\<lambda>_ _ _. Err unserved), ra_LookupResources = (\<lambda>_ _ _. Err unserved),
      ra_LookupSubjects = (\<lambda>_ _ _. Err unserved),
      ra_CreateTuples = (\<lambda>_ req s. if \<not> ctq_Upsert req \<and> list_ex (\<lambda>r. r \<in> set s) (ctq_Tuples req) then (Err (StatusError AlreadyExists ''exists''), s)
        else (Ok (Some ''1''), fold List.insert (ctq_Tuples req) s)),
      ra_DeleteTuples = (\<lambda>_ req s. case dtq_Filter req of None \<Rightarrow> (Err (StatusError InvalidArgument ''filter''), s)
        | Some f \<Rightarrow> (Ok (Some ''1''), filter (\<lambda>r. \<not> pb_matches f r) s)),
      ra_ReadTuples = (\<lambda>_ req s. case rtq_Filter req of None \<Rightarrow> Err (StatusError InvalidArgument ''filter'')
        | Some f \<Rightarrow> Ok (listed_messages f s, None)),
      ra_AcquireLock = (\<lambda>_ _ s. (Err unserved, s))\<rparr>)"

definition listed_env :: "pb_relationship list grpc_env" where
  "listed_env = \<lparr>ge_api = listed_api, ge_callOptions = Ok [EmptyCallOption]\<rparr>"

interpretation listed_service: relations_service listed_env set "\<lambda>_. True"
proof
  have insert: "set (fold List.insert xs ys) = set ys \<union> set xs" for xs ys :: "pb_relationship list"
    by (induction xs arbitrary: ys) auto
  fix s req opts tok s' assume "ctq_Upsert req" "ra_CreateTuples (ge_api listed_env) opts req s = (Inr tok, s')"
  then show "set s' = set s \<union> set (ctq_Tuples req) \<and> True" by (auto simp: listed_env_def listed_api_def Let_def insert)
qed (auto simp: listed_env_def listed_api_def Let_def)

section \<open>Reports reach the relations API\<close>

text \<open>C17. The whole path with the relations API at its end: however reports and consumption interleave, from empty tables and no
  relationships, once the log is consumed the relationships the API stores are exactly the tuples of the latest common representation of
  every resource. As for \<open>reports_replicated\<close>, no two reported resources have the reporter type, resource type and local
  identifier in common and versions are below \<open>2 ^ 53\<close>; every tuple of a resource can be stored.\<close>

theorem reports_reach_relations_api:
  assumes "relations_service env rels up" "cv_relations cenv = grpc_relations env" "factory_built FeaturesAwareSchemaFactory (cv_schemas cenv)"
    and "cv_relationsEnabled cenv" "gorm_store (us_gorm uc)" "rels s0 = {}" "up s0"
    and "system uc cenv (empty_db, 0, s0) (d, n, s)" "n = length (tuple_log (db_wal d))"
    and "unshared d" "exact_versions d"
  shows "wire_key ` rels s = (\<Union>(key, i) \<in> {(key, i). known_key d key i}. latest_tuples (cv_schemas cenv) d key i)"
proof -
  have "tuple_store (cv_relations cenv) (\<lambda>s. wire_key ` rels s) up api_tuple"
    unfolding assms(2) using assms(1) by (rule relations_service.api_contract)
  from system_tuples [OF this assms(3-5) _ assms(7,8), THEN conjunct2, THEN mp, OF _ _ assms(9)] assms(6,10,11) show ?thesis
    by (simp add: replicable_def storable_db_def)
qed

definition api_consumer :: "pb_relationship list consumer_env" where
  "api_consumer = \<lparr>cv_relations = grpc_relations listed_env, cv_relationsEnabled = True, cv_schemas = [], cv_OperationMaxRetries = 3,
     cv_CommitModulo = 5, cv_ConsumerGroupID = ''g'', cv_hasNotifier = True, cv_uuid_parse = (\<lambda>_. Some 1)\<rparr>"

definition api_run :: "(string result \<times> pb_relationship list) option" where
  "api_run = (case moved_report_db of Inl e \<Rightarrow> None
     | Inr d \<Rightarrow> (case process_entry api_consumer d 0 [] of Some (Inr _, s) \<Rightarrow> process_entry api_consumer d 1 s | _ \<Rightarrow> None))"

lemma api_run_evaluates:
  "case api_run of Some (Inr _, s) \<Rightarrow> s = tuplesToV1Beta1 [NewWorkspaceRelationsTuple ''w2'' (command_key sample_command)] | _ \<Rightarrow> False"
  by code_simp

theorem reports_reach_relations_api_witness:
  "\<exists>d s. system sample_usecase api_consumer (empty_db, 0, []) (d, 2, s) \<and> length (tuple_log (db_wal d)) = 2 \<and>
     s = tuplesToV1Beta1 [NewWorkspaceRelationsTuple ''w2'' (command_key sample_command)] \<and>
     wire_key ` set s = (\<Union>(key, i) \<in> {(key, i). known_key d key i}. latest_tuples [] d key i)"
proof -
  have env: "cv_relations api_consumer = grpc_relations listed_env" "cv_schemas api_consumer = []" "cv_relationsEnabled api_consumer"
    by (simp_all add: api_consumer_def)
  obtain d where d: "system sample_usecase api_consumer (empty_db, 0, []) (d, 0, [])"
    "moved_report_db = Inr d" "length (tuple_log (db_wal d)) = 2" and rd: "replicable api_tuple [] d"
    using moved_reports [OF env(2) storable_api, of "[]"] by blast
  have len: "length (tuple_entries (db_wal d)) = 2" using d(3) by (simp add: tuple_log_def)
  obtain r1 s1 r2 s2 where r: "process_entry api_consumer d 0 [] = Some (Inr r1, s1)" "process_entry api_consumer d 1 s1 = Some (Inr r2, s2)"
    and t: "s2 = tuplesToV1Beta1 [NewWorkspaceRelationsTuple ''w2'' (command_key sample_command)]"
    using two_steps [OF api_run_evaluates [unfolded api_run_def d(2) sum.case]] by blast
  have "system sample_usecase api_consumer (empty_db, 0, []) (d, Suc 0, s1)" by (rule consume_entry [OF d(1) _ r(1)]) (simp add: len)
  then have run: "system sample_usecase api_consumer (empty_db, 0, []) (d, 2, s2)"
    using consume_entry [of _ _ _ d "Suc 0" s1, OF _ _ r(2) [unfolded One_nat_def]] len by (simp add: numeral_2_eq_2)
  have "wire_key ` set s2 = (\<Union>(key, i) \<in> {(key, i). known_key d key i}. latest_tuples [] d key i)"
    using reports_reach_relations_api [OF listed_service.relations_service_axioms env(1) _ env(3) sample_hypotheses(1) _ TrueI run] d(3) moved_schemas rd
    by (simp add: env(2) replicable_def)
  with t run d(3) show ?thesis by (intro exI conjI)
qed

section \<open>Bearer tokens\<close>

text \<open>Calls carry a token that is valid when it is taken: with authentication enabled, the options of a call hold exactly one bearer token, which
  is the cached one, unexpired, with no request made, or the one of a fresh and successful request, which is cached; while it is in the cache and
  not expired, later calls use it without any request.\<close>

lemma bearer_token_current:
  assumes "tk_EnableOIDCAuth a" "getCallOptions env a = (Inr opts, a')"
  shows "\<exists>token. opts = [EmptyCallOption, if tk_Insecure a then WithInsecureBearerToken token else WithBearerToken token] \<and>
    (a' = a \<and> token \<noteq> [] \<and> tv_cacheGet env (tk_cache a) (tk_URL a @ tk_ClientID a) = Some token \<and> (\<exists>e. IsJWTTokenExpired env token = Inr (False, e)) \<or>
     (\<exists>r. request_token env a = Inr r \<and> token = tr_AccessToken r \<and>
        a' = a\<lparr>tk_cache := tv_cacheSet env (tk_cache a) (tk_URL a @ tk_ClientID a) token\<rparr>)) \<and>
    (\<forall>env' e. token \<noteq> [] \<longrightarrow> tv_cacheGet env' (tk_cache a') (tk_URL a @ tk_ClientID a) = Some token \<longrightarrow>
       IsJWTTokenExpired env' token = Inr (False, e) \<longrightarrow> getCallOptions env' a' = (Inr opts, a'))"
proof -
  obtain r where r: "getToken env a = (Inr r, a')"
    "opts = [EmptyCallOption, if tk_Insecure a then WithInsecureBearerToken (tr_AccessToken r) else WithBearerToken (tr_AccessToken r)]"
    using assms by (auto simp: getCallOptions_def split: sum.splits prod.splits)
  have cases: "a' = a \<and> tr_AccessToken r \<noteq> [] \<and> tv_cacheGet env (tk_cache a) (tk_URL a @ tk_ClientID a) = Some (tr_AccessToken r) \<and>
        (\<exists>e. IsJWTTokenExpired env (tr_AccessToken r) = Inr (False, e)) \<or>
      request_token env a = Inr r \<and> a' = a\<lparr>tk_cache := tv_cacheSet env (tk_cache a) (tk_URL a @ tk_ClientID a) (tr_AccessToken r)\<rparr>"
    using r(1) by (auto simp: getToken_def GetCachedToken_def Let_def split: sum.splits option.splits prod.splits if_splits)
  then have same: "tk_URL a' = tk_URL a" "tk_ClientID a' = tk_ClientID a" "tk_EnableOIDCAuth a'" "tk_Insecure a' = tk_Insecure a" using assms(1) by auto
  have "getCallOptions env' a' = (Inr opts, a')" if "tr_AccessToken r \<noteq> []"
      "tv_cacheGet env' (tk_cache a') (tk_URL a @ tk_ClientID a) = Some (tr_AccessToken r)" "IsJWTTokenExpired env' (tr_AccessToken r) = Inr (False, e)" for env' e
    using that by (simp add: getCallOptions_def getToken_def GetCachedToken_def same r(2))
  with cases r(2) show ?thesis by (intro exI [of _ "tr_AccessToken r"]) blast
qed

definition token_sample :: "(string \<times> string) list token_client" where
  "token_sample = NewTokenClient [] \<lparr>tcc_clientId = ''svc'', tcc_clientSecret = ''s'', tcc_url = ''https://sso/token'', tcc_enableOIDCAuth = True, tcc_insecure = False\<rparr>"

definition token_sample_env :: "time \<Rightarrow> (string \<times> string) list token_env" where
  "token_sample_env now = \<lparr>tv_cacheGet = map_of, tv_cacheSet = (\<lambda>c k v. AList.update k v c),
     tv_jwtClaims = (\<lambda>t. if t = ''jwt'' then Some [(''exp'', JNum 100)] else None), tv_now = now, tv_newRequest = (\<lambda>_. Ok ()),
     tv_post = (\<lambda>_ _. Ok \<lparr>ha_StatusCode = 200, ha_Body = Ok (Ok (JObj [(''access_token'', JStr ''jwt''), (''expires_in'', JNum 60)]))\<rparr>)\<rparr>"

end
