(* ===== verification/Middleware.thy ===== *)
theory Middleware
  imports Tuple_Service
begin

text \<open>
  The middleware around the services (\<open>internal/middleware\<close> without authentication): error mapping, read-only mode,
  validation and sanitising of reports, stream authentication and pagination, and the order in which the servers
  (\<open>internal/server/grpc/grpc.go\<close>, \<open>internal/server/http/http.go\<close>) apply them to a unary request.
\<close>

section \<open>Error mapping (\<open>error_mapping.go\<close>)\<close>

text \<open>\<open>status.FromError\<close>: the first error of the chain with a status of its own. A Kratos error has the gRPC code its
  library assigns to its HTTP code, the argument \<open>kratos\<close>.\<close>

fun FromError :: "(nat \<Rightarrow> grpc_code) \<Rightarrow> go_error \<Rightarrow> grpc_code option" where
  "FromError kratos (StatusError c _) = Some c"
| "FromError kratos (KratosError n _) = Some (kratos n)"
| "FromError kratos (Wrap _ e) = FromError kratos e"
| "FromError kratos _ = None"

definition MapError :: "(nat \<Rightarrow> grpc_code) \<Rightarrow> go_error \<Rightarrow> go_error" where
  "MapError kratos err =
     (if FromError kratos err \<noteq> None \<and> FromError kratos err \<noteq> Some Unknown then err
      else if errors_Is err ErrNoRepresentationProvided then StatusError InvalidArgument ''%v''
      else if errors_Is err ErrMetaAuthzContextMissing then StatusError Unauthenticated ''authz context missing''
      else if errors_Is err ErrSelfSubjectMissing then StatusError Unauthenticated ''self subject missing''
      else if errors_Is err ErrMetaAuthorizerUnavailable then StatusError Internal ''meta authorizer unavailable''
      else if errors_Is err ErrMetaAuthorizationDenied then StatusError PermissionDenied ''meta authorization denied''
      else if errors_Is err ErrResourceNotFound then StatusError NotFound ''resource not found''
      else if errors_Is err ErrResourceAlreadyExists then StatusError AlreadyExists ''resource already exists''
      else if errors_Is err ErrInventoryIdMismatch then StatusError FailedPrecondition ''resource inventory id mismatch''
      else if errors_Is err ErrDatabaseError then StatusError Internal ''internal error''
      else if errors_Is err ErrEmpty then StatusError InvalidArgument ''required field is empty''
      else if errors_Is err ErrTooLong then StatusError InvalidArgument ''field exceeds maximum length''
      else if errors_Is err ErrTooSmall then StatusError InvalidArgument ''field below minimum value''
      else if errors_Is err ErrInvalidURL then StatusError InvalidArgument ''invalid URL''
      else if errors_Is err ErrInvalidUUID then StatusError InvalidArgument ''invalid UUID''
      else if errors_Is err ErrInvalidData then StatusError InvalidArgument ''invalid data structure''
      else if errors_Is err ErrContextCanceled then StatusError Canceled ''request canceled''
      else if errors_Is err ErrContextDeadlineExceeded then StatusError DeadlineExceeded ''request deadline exceeded''
      else err)"

definition ErrorMapping :: "(nat \<Rightarrow> grpc_code) \<Rightarrow> ('q \<Rightarrow> 's \<Rightarrow> 'r result \<times> 's) \<Rightarrow> 'q \<Rightarrow> 's \<Rightarrow> 'r result \<times> 's" where
  "ErrorMapping kratos next req s = (case next req s of
     (Inl err, s') \<Rightarrow> (Err (MapError kratos err), s')
   | (Inr resp, s') \<Rightarrow> (Ok resp, s'))"

definition ErrorMappingStreamInterceptor ::
    "(nat \<Rightarrow> grpc_code) \<Rightarrow> ('q \<Rightarrow> unit result \<times> 'r list) \<Rightarrow> 'q \<Rightarrow> unit result \<times> 'r list" where
  "ErrorMappingStreamInterceptor kratos handler req = (case handler req of
     (Inl err, sent) \<Rightarrow> (Err (MapError kratos err), sent)
   | (Inr u, sent) \<Rightarrow> (Ok u, sent))"

section \<open>Read-only mode (\<open>read_only.go\<close>)\<close>

definition writeEndpoints :: "string list" where
  "writeEndpoints = [''/kessel.inventory.v1beta2.KesselInventoryService/ReportResource'',
     ''/kessel.inventory.v1beta2.KesselInventoryService/DeleteResource'', ''/api/kessel/v1beta2/resources'']"

definition IsWriteEndpoint :: "string \<Rightarrow> bool" where
  "IsWriteEndpoint endpoint \<longleftrightarrow> List.member writeEndpoints endpoint"

definition UnaryReadOnlyInterceptor :: "string \<Rightarrow> ('q \<Rightarrow> 's \<Rightarrow> 'r result \<times> 's) \<Rightarrow> 'q \<Rightarrow> 's \<Rightarrow> 'r result \<times> 's" where
  "UnaryReadOnlyInterceptor fullMethod handler req s =
     (if IsWriteEndpoint fullMethod
      then (Err (StatusError Unavailable ''endpoint %s is a write endpoint and server is in read-only mode''), s)
      else handler req s)"

definition HTTPReadOnlyMiddleware :: "request_context \<Rightarrow> ('q \<Rightarrow> 's \<Rightarrow> 'r result \<times> 's) \<Rightarrow> 'q \<Rightarrow> 's \<Rightarrow> 'r result \<times> 's" where
  "HTTPReadOnlyMiddleware ctx handler req s = (case rc_Transport ctx of
     None \<Rightarrow> handler req s
   | Some t \<Rightarrow> if IsWriteEndpoint (tr_Operation t) then (Err (KratosError 503 ''READ_ONLY_MODE''), s) else handler req s)"

section \<open>Sanitising (\<open>sanitize.go\<close>, \<open>validation.go\<close>)\<close>

fun hasNullsRecursive :: "json_object \<Rightarrow> bool" where
  "hasNullsRecursive m = list_ex (\<lambda>kv. case snd kv of
     JNull \<Rightarrow> True
   | JStr v \<Rightarrow> EqualFold v ''null''
   | JObj o1 \<Rightarrow> hasNullsRecursive o1
   | _ \<Rightarrow> False) m"

declare hasNullsRecursive.simps [simp del]

fun RemoveNulls :: "json_object \<Rightarrow> json_object" where
  "RemoveNulls m =
     (if \<not> hasNullsRecursive m then m
      else concat (map (\<lambda>kv. case snd kv of
          JNull \<Rightarrow> []
        | JStr v \<Rightarrow> if EqualFold v ''null'' then [] else [kv]
        | JObj o1 \<Rightarrow> (let cleaned = RemoveNulls o1 in if length cleaned > 0 then [(fst kv, JObj cleaned)] else [])
        | _ \<Rightarrow> [kv]) m))"

declare RemoveNulls.simps [simp del]

text \<open>\<open>structpb.NewStruct\<close> is the argument \<open>newStruct\<close>.\<close>

definition sanitizeStruct :: "(json_object \<Rightarrow> json_object result) \<Rightarrow> json_object option \<Rightarrow> string \<Rightarrow> json_object option result" where
  "sanitizeStruct newStruct s name = (case s of
     None \<Rightarrow> Ok None
   | Some m \<Rightarrow> if \<not> hasNullsRecursive m then Ok (Some m)
       else bind_res (wrap_err (''failed to rebuild '' @ name @ '' struct'') (newStruct (RemoveNulls m))) (\<lambda>rebuilt. Ok (Some rebuilt)))"

definition sanitizeReportResourceRequest ::
    "(json_object \<Rightarrow> json_object result) \<Rightarrow> report_resource_request \<Rightarrow> report_resource_request result" where
  "sanitizeReportResourceRequest newStruct rr = (case prq_Representations rr of
     None \<Rightarrow> Ok rr
   | Some reps \<Rightarrow> (case prs_Reporter reps of
       None \<Rightarrow> Ok rr
     | Some m \<Rightarrow> bind_res (sanitizeStruct newStruct (Some m) ''reporter'') (\<lambda>st.
         Ok (rr\<lparr>prq_Representations := Some (reps\<lparr>prs_Reporter := st\<rparr>)\<rparr>))))"

text \<open>\<open>protovalidate\<close> is the argument \<open>validate\<close>; \<open>sanitize\<close> is \<open>sanitizeReportResourceRequest\<close> on a
  report and does nothing on other requests.\<close>

definition Validation ::
    "('q \<Rightarrow> go_error option) \<Rightarrow> ('q \<Rightarrow> 'q result) \<Rightarrow> ('q \<Rightarrow> 's \<Rightarrow> 'r result \<times> 's) \<Rightarrow> 'q \<Rightarrow> 's \<Rightarrow> 'r result \<times> 's" where
  "Validation validate sanitize handler req s = (case validate req of
     Some err \<Rightarrow> (Err (KratosError 400 ''VALIDATOR''), s)
   | None \<Rightarrow> (case sanitize req of
       Inl err \<Rightarrow> (Err (KratosError 400 ''SANITIZER''), s)
     | Inr req' \<Rightarrow> handler req' s))"

definition requestValidatingWrapper_RecvMsg :: "('q \<Rightarrow> go_error option) \<Rightarrow> 'q result \<Rightarrow> 'q result" where
  "requestValidatingWrapper_RecvMsg validate recv =
     bind_res recv (\<lambda>m. case validate m of Some err \<Rightarrow> Err (KratosError 400 ''VALIDATOR'') | None \<Rightarrow> Ok m)"

section \<open>Stream authentication (\<open>stream_authn.go\<close>)\<close>

text \<open>\<open>metadata.MD\<close> has lower-case keys, each with its values; \<open>md.Get\<close> lowers its argument.\<close>

type_synonym metadata = "(string \<times> string list) list"

definition md_Get :: "metadata \<Rightarrow> string \<Rightarrow> string list" where
  "md_Get md key = (case map_of md (ToLower key) of None \<Rightarrow> [] | Some vs \<Rightarrow> vs)"

definition grpcMetadataHeader_Get :: "metadata \<Rightarrow> string \<Rightarrow> string" where
  "grpcMetadataHeader_Get md key = (let vals = md_Get md key in if vals = [] then [] else vals ! 0)"

definition authorizationKey :: string where "authorizationKey = ''authorization''"

definition grpcStreamTransporter :: "metadata \<Rightarrow> string \<Rightarrow> transport" where
  "grpcStreamTransporter md op = \<lparr>tr_Kind = ''grpc'', tr_Operation = op, tr_RequestHeader = grpcMetadataHeader_Get md\<rparr>"

definition preserveStreamTokenContext :: "request_context \<Rightarrow> metadata \<Rightarrow> request_context" where
  "preserveStreamTokenContext ctx md = (case rc_Token ctx of
     Some token \<Rightarrow> ctx\<lparr>rc_Token := Some token\<rparr>
   | None \<Rightarrow>
       (let authHeader = md_Get md authorizationKey in
        if authHeader = [] then ctx
        else (let parts = SplitN2 (authHeader ! 0) in
              if length parts = 2 \<and> EqualFold (parts ! 0) ''bearer'' then ctx\<lparr>rc_RawToken := Some (parts ! 1)\<rparr> else ctx)))"

text \<open>The interceptor up to the call of the handler: the context the handler runs in, or the error.\<close>

definition StreamAuthInterceptor ::
    "(transport \<Rightarrow> claims option \<times> decision) \<Rightarrow> metadata option \<Rightarrow> string \<Rightarrow> request_context \<Rightarrow> request_context result" where
  "StreamAuthInterceptor authenticate mdo fullMethod ctx = (case mdo of
     None \<Rightarrow> Err (KratosError 401 ''UNAUTHORIZED'')
   | Some md \<Rightarrow>
       (let (claims, decision) = authenticate (grpcStreamTransporter md fullMethod) in
        bind_res (validateAuthDecision decision claims) (\<lambda>_.
        Ok (preserveStreamTokenContext (ensureAuthzContext ctx claims) md))))"

section \<open>The chain of the servers\<close>

definition NewWhiteListMatcher :: "string \<Rightarrow> bool" where
  "NewWhiteListMatcher operation \<longleftrightarrow> \<not> List.member
     [''/kessel.inventory.v1.KesselInventoryHealthService/GetReadyz'', ''/kessel.inventory.v1.KesselInventoryHealthService/GetLivez'',
      ''/grpc.health.v1.Health/Check'', ''/metrics''] operation"

text \<open>A unary request: validation, authentication unless the operation is listed, error mapping, read-only mode, handler.
  Recovery, logging and metrics leave the result alone.\<close>

record 'q server_config =
  sv_validate :: "'q \<Rightarrow> go_error option"
  sv_sanitize :: "'q \<Rightarrow> 'q result"
  sv_authenticate :: "transport \<Rightarrow> claims option \<times> decision"
  sv_kratos :: "nat \<Rightarrow> grpc_code"
  sv_ReadOnlyMode :: bool

definition admit :: "'q server_config \<Rightarrow> string \<Rightarrow> request_context \<Rightarrow> request_context result" where
  "admit sv op ctx = (if NewWhiteListMatcher op then Authentication (sv_authenticate sv) Ok ctx else Ok ctx)"

definition grpc_unary ::
    "'q server_config \<Rightarrow> (request_context \<Rightarrow> 'q \<Rightarrow> 's \<Rightarrow> 'r result \<times> 's) \<Rightarrow> string \<Rightarrow> request_context \<Rightarrow> 'q \<Rightarrow> 's \<Rightarrow> 'r result \<times> 's" where
  "grpc_unary sv handler op ctx req s =
     Validation (sv_validate sv) (sv_sanitize sv) (\<lambda>req' s'. (case admit sv op ctx of
         Inl err \<Rightarrow> (Err err, s')
       | Inr ctx' \<Rightarrow> ErrorMapping (sv_kratos sv)
           (if sv_ReadOnlyMode sv then UnaryReadOnlyInterceptor op (handler ctx') else handler ctx') req' s')) req s"

definition http_unary ::
    "'q server_config \<Rightarrow> (request_context \<Rightarrow> 'q \<Rightarrow> 's \<Rightarrow> 'r result \<times> 's) \<Rightarrow> string \<Rightarrow> request_context \<Rightarrow> 'q \<Rightarrow> 's \<Rightarrow> 'r result \<times> 's" where
  "http_unary sv handler op ctx req s =
     Validation (sv_validate sv) (sv_sanitize sv) (\<lambda>req' s'. (case admit sv op ctx of
         Inl err \<Rightarrow> (Err err, s')
       | Inr ctx' \<Rightarrow> ErrorMapping (sv_kratos sv)
           (if sv_ReadOnlyMode sv then HTTPReadOnlyMiddleware ctx' (handler ctx') else handler ctx') req' s')) req s"

section \<open>Pagination (\<open>pagination.go\<close>)\<close>

text \<open>Go's \<open>int\<close> has 64 bits: the offset is computed modulo \<open>2 ^ 64\<close>.\<close>

record pagination_request =
  pq_Page :: int
  pq_MaxSize :: int

definition query_number :: "string \<Rightarrow> int \<Rightarrow> int" where
  "query_number s dflt = (if s = [] then dflt else (case ParseInt s of Inl _ \<Rightarrow> dflt | Inr p \<Rightarrow> if p > 0 then p else dflt))"

definition Pagination :: "string \<Rightarrow> string \<Rightarrow> pagination_request" where
  "Pagination pageStr sizeStr =
     (let page = query_number pageStr 1; size = query_number sizeStr 10; size = (if size > 100 then 100 else size)
      in \<lparr>pq_Page = page, pq_MaxSize = size\<rparr>)"

definition Pagination_Offset :: "pagination_request \<Rightarrow> int" where
  "Pagination_Offset p = int64 ((pq_Page p - 1) * pq_MaxSize p)"

end
