(* ===== verification/API_Laws.thy ===== *)
theory API_Laws
  imports Middleware Service_Laws
begin

text \<open>
  Properties of the services and the middleware: requests of different kinds address the same resource, bulk responses
  follow their requests, relationships created through the tuple service are read back, sanitising, read-only mode, and the statuses
  of a deletion.
\<close>

section \<open>Addressing\<close>

lemma NewRelation_idem: "NewRelation s = Inr t \<Longrightarrow> NewRelation t = Inr t"
  by (auto simp: NewRelation_def Let_def split: if_splits)

text \<open>The strings of a command are fixed points of the constructors.\<close>

definition normalised :: "report_resource_command \<Rightarrow> bool" where
  "normalised cmd \<longleftrightarrow> NewLocalResourceId (rc_LocalResourceId cmd) = Inr (rc_LocalResourceId cmd) \<and>
     NewResourceType (rc_ResourceType cmd) = Inr (rc_ResourceType cmd) \<and> NewReporterType (rc_ReporterType cmd) = Inr (rc_ReporterType cmd) \<and>
     NewReporterInstanceId (rc_ReporterInstanceId cmd) = Inr (rc_ReporterInstanceId cmd) \<and> NewApiHref (rc_ApiHref cmd) = Inr (rc_ApiHref cmd) \<and>
     rc_ReporterRepresentation cmd \<noteq> Some None \<and> rc_ReporterRepresentation cmd \<noteq> Some (Some []) \<and>
     rc_CommonRepresentation cmd \<noteq> Some None \<and> rc_CommonRepresentation cmd \<noteq> Some (Some []) \<and>
     rc_TransactionId cmd \<noteq> Some [] \<and> rrk_reporterInstanceId (command_key cmd) \<noteq> []"

lemma representationFromProtoStruct_Ok:
  "representationFromProtoStruct s name = Inr r \<longleftrightarrow> r = (case s of None \<Rightarrow> None | Some m \<Rightarrow> if m = [] then None else Some (Some m))"
  by (auto simp: representationFromProtoStruct_def NewRepresentation_def split: option.splits)

lemma toReportResourceCommand_Ok:
  assumes "toReportResourceCommand r = Inr cmd"
  shows "NewLocalResourceId (pb_get pm_LocalResourceId [] (pb_get prs_Metadata None (prq_Representations r))) = Inr (rc_LocalResourceId cmd)"
    "NewResourceType (prq_Type r) = Inr (rc_ResourceType cmd)" "NewReporterType (prq_ReporterType r) = Inr (rc_ReporterType cmd)"
    "NewReporterInstanceId (prq_ReporterInstanceId r) = Inr (rc_ReporterInstanceId cmd)"
    "\<exists>h. NewApiHref h = Inr (rc_ApiHref cmd)" "rc_TransactionId cmd \<noteq> Some []"
    "representationFromProtoStruct (pb_get prs_Reporter None (prq_Representations r)) ''reporter'' = Inr (rc_ReporterRepresentation cmd)"
    "representationFromProtoStruct (pb_get prs_Common None (prq_Representations r)) ''common'' = Inr (rc_CommonRepresentation cmd)"
  using assms by (auto simp: toReportResourceCommand_def Let_def res_iffs NewTransactionId_def split: if_splits)

lemma toReportResourceCommand_normalised:
  assumes "toReportResourceCommand r = Inr cmd"
  shows "normalised cmd"
  using toReportResourceCommand_Ok [OF assms] resource_type_ctor.mk_idem reporter_type_ctor.mk_idem reporter_instance_ctor.mk_idem
    local_id_ctor.mk_idem api_href_ctor.mk_idem reporter_instance_ctor.mk_nonempty_result
  unfolding normalised_def representationFromProtoStruct_Ok
  by (auto simp: command_key_def rrk_reporterInstanceId_def NewReporterId_def split: option.splits if_splits)

definition request_reference :: "report_resource_request \<Rightarrow> pb_resource_reference" where
  "request_reference r = \<lparr>pro_ResourceType = prq_Type r, pro_ResourceId = pb_get pm_LocalResourceId [] (pb_get prs_Metadata None (prq_Representations r)),
     pro_Reporter = Some \<lparr>prr_Type = prq_ReporterType r, prr_InstanceId = Some (prq_ReporterInstanceId r)\<rparr>\<rparr>"

text \<open>C8. A report and the requests that refer to it by the same strings address the same resource: the command of a
  report has normalised, non-empty fields, and a reference with the request's strings is the key under which the
  report stores the resource, for a deletion and for the token lookup of a check alike.\<close>

theorem request_addresses_report:
  assumes "toReportResourceCommand r = Inr cmd"
  shows "normalised cmd \<and> reporterKeyFromResourceReference (Some (request_reference r)) = Inr (command_key cmd) \<and>
    (\<exists>ref. resourceReferenceFromProto (Some (request_reference r)) = Inr ref \<and> reporterKeyFromResourceRef ref = Inr (command_key cmd))"
proof -
  note ok = toReportResourceCommand_Ok(1-4) [OF assms]
  have "prq_ReporterInstanceId r \<noteq> []" using ok(4) by (auto simp: NewReporterInstanceId_def)
  with ok toReportResourceCommand_normalised [OF assms] show ?thesis
    by (simp add: reporterKeyFromResourceReference_def resourceReferenceFromProto_def request_reference_def GetInstanceId_def Let_def
        reporterKeyFromResourceRef_def NewResourceReference_def NewReporterReference_def)
qed

definition sample_report_request :: report_resource_request where
  "sample_report_request = \<lparr>prq_Type = ''K8s/Cluster'', prq_ReporterType = '' ACM '', prq_ReporterInstanceId = ''I-1'',
     prq_Representations = Some \<lparr>prs_Metadata = Some \<lparr>pm_LocalResourceId = '' c1'', pm_ApiHref = ''/a'', pm_ConsoleHref = None,
       pm_ReporterVersion = None, pm_TransactionId = None\<rparr>, prs_Common = Some [(''workspace_id'', JStr ''w1'')],
       prs_Reporter = Some [(''name'', JStr ''c''), (''owner'', JNull), (''labels'', JObj [(''a'', JStr ''NULL'')])]\<rparr>,
     prq_WriteVisibility = WRITE_VISIBILITY_UNSPECIFIED\<rparr>"

theorem request_addresses_report_witness:
  "\<exists>cmd. toReportResourceCommand sample_report_request = Inr cmd \<and> normalised cmd \<and>
     reporterKeyFromResourceReference (Some (request_reference sample_report_request)) = Inr (command_key cmd) \<and>
     rc_ResourceType cmd = ''k8s_cluster'' \<and> rc_ReporterType cmd = ''acm''"
proof -
  have "case toReportResourceCommand sample_report_request of Inr cmd \<Rightarrow> rc_ResourceType cmd = ''k8s_cluster'' \<and> rc_ReporterType cmd = ''acm'' | _ \<Rightarrow> False"
    by code_simp
  then obtain cmd where "toReportResourceCommand sample_report_request = Inr cmd" "rc_ResourceType cmd = ''k8s_cluster''" "rc_ReporterType cmd = ''acm''"
    by (auto split: sum.splits)
  with request_addresses_report show ?thesis by blast
qed

section \<open>Bulk responses\<close>

lemma bulk_items_loop_Ok:
  "bulk_items_loop conv i items = Inr cs \<Longrightarrow> length cs = length items"
  by (induction items arbitrary: i cs) (auto simp: res_iffs)

lemma request_items: "length xs = length items \<Longrightarrow> map (\<lambda>x. request_item items (fst x)) (enumerate 0 xs) = map Some items"
  by (rule nth_equalityI) (auto simp: request_item_def nth_enumerate_eq)

text \<open>The response of an item: the error with its code, internal when none is given, otherwise the decision.\<close>

definition item_response :: "check_bulk_result_item \<Rightarrow> rpc_status + pb_allowed" where
  "item_response a = (case cbi_err a of
     Some e \<Rightarrow> Inl \<lparr>sta_Code = (if cbi_errorCode a = 0 then codes_Internal else cbi_errorCode a), sta_Message = e\<rparr>
   | None \<Rightarrow> Inr (if cbi_allowed a then ALLOWED_TRUE else ALLOWED_FALSE))"

lemma fromCheckBulkResult_pairs:
  assumes "length (cbr_pairs y) = length items"
  shows "map pbp_Request (pbr_Pairs (fromCheckBulkResult (checkBulkResultFromModel y) items)) = map Some items"
    "map pbp_Response (pbr_Pairs (fromCheckBulkResult (checkBulkResultFromModel y) items)) = map (item_response \<circ> cbp_result) (cbr_pairs y)"
proof -
  let ?ps = "br_Pairs (checkBulkResultFromModel y)"
  have len: "length ?ps = length items" using assms by (simp add: checkBulkResultFromModel_def)
  show "map pbp_Request (pbr_Pairs (fromCheckBulkResult (checkBulkResultFromModel y) items)) = map Some items"
    using request_items [OF len] by (simp add: fromCheckBulkResult_def comp_def split_beta)
  have "map pbp_Response (pbr_Pairs (fromCheckBulkResult (checkBulkResultFromModel y) items)) =
      map (\<lambda>x. item_response (cbp_result (snd x))) (enumerate 0 (cbr_pairs y))"
    by (simp add: fromCheckBulkResult_def checkBulkResultFromModel_def comp_def enumerate_map_upt [symmetric] enumerate_eq_zip zip_map2 split_beta
        checkBulkResultItemToProtoFields_def item_response_def Let_def split: option.splits)
  also have "\<dots> = map (item_response \<circ> cbp_result) (map snd (enumerate 0 (cbr_pairs y)))" by (simp only: map_map comp_def)
  finally show "map pbp_Response (pbr_Pairs (fromCheckBulkResult (checkBulkResultFromModel y) items)) = map (item_response \<circ> cbp_result) (cbr_pairs y)"
    by simp
qed

lemma bulk_converters_agree:
  "map pbp_Response (pbr_Pairs (fromCheckSelfBulkResult result sitems)) = map pbp_Response (pbr_Pairs (fromCheckBulkResult result items))"
  "pbr_ConsistencyToken (fromCheckSelfBulkResult result sitems) = pbr_ConsistencyToken (fromCheckBulkResult result items)"
  "map pbp_Request (pbr_Pairs (fromCheckSelfBulkResult result sitems)) = map (\<lambda>x. request_item sitems (fst x)) (enumerate 0 (br_Pairs result))"
  "fromCheckForUpdateBulkResult result items = fromCheckBulkResult result items"
  by (auto simp: fromCheckSelfBulkResult_def fromCheckBulkResult_def fromCheckForUpdateBulkResult_def checkBulkResultItemToProtoFields_def Let_def
      split: option.splits)

text \<open>C9. Bulk responses follow their requests: a successful bulk check, bulk check for update or self bulk check answers
  with one pair per item of the request, in its order, each with the request's own item and the answer of the
  relations service for it, where an item error keeps its code and an error without one is internal. The self
  bulk check, which builds its pairs separately, agrees with the others.\<close>

theorem bulk_responses_follow_requests:
  "(\<forall>resp. InventoryService_CheckBulk uc ctx items c s = Inr resp \<longrightarrow>
      (\<exists>cmd y. toCheckBulkCommand items c = Inr (cmd, consistencyFromProto c) \<and>
         ro_CheckBulk (us_relations uc) (checkBulkItemsToRelationships cmd) (Some (consistencyFromProto c)) s = Inr y \<and>
         map pbp_Request (pbr_Pairs resp) = map Some items \<and> map pbp_Response (pbr_Pairs resp) = map (item_response \<circ> cbp_result) (cbr_pairs y))) \<and>
   (\<forall>resp. InventoryService_CheckForUpdateBulk uc ctx items s = Inr resp \<longrightarrow>
      (\<exists>cmd y. toCheckForUpdateBulkCommand items = Inr cmd \<and> ro_CheckForUpdateBulk (us_relations uc) (checkBulkItemsToRelationships cmd) s = Inr y \<and>
         map pbp_Request (pbr_Pairs resp) = map Some items \<and> map pbp_Response (pbr_Pairs resp) = map (item_response \<circ> cbp_result) (cbr_pairs y))) \<and>
   (\<forall>resp. InventoryService_CheckSelfBulk uc ctx sitems c s = Inr resp \<longrightarrow>
      (\<exists>cmd self y. toCheckSelfBulkCommand sitems c = Inr (cmd, consistencyFromProto c) \<and> selfSubjectFromContext uc ctx = Inr self \<and>
         ro_CheckBulk (us_relations uc) (map (\<lambda>item. NewRelationship (si_Resource item) (si_Relation item) self) cmd) (Some (consistencyFromProto c)) s = Inr y \<and>
         map pbp_Request (pbr_Pairs resp) = map Some sitems \<and> map pbp_Response (pbr_Pairs resp) = map (item_response \<circ> cbp_result) (cbr_pairs y)))"
proof (intro conjI allI impI)
  fix resp assume "InventoryService_CheckBulk uc ctx items c s = Inr resp"
  then obtain cmd y where cmd: "toCheckBulkCommand items c = Inr (cmd, consistencyFromProto c)"
    and y: "ro_CheckBulk (us_relations uc) (checkBulkItemsToRelationships cmd) (Some (consistencyFromProto c)) s = Inr y" "length (cbr_pairs y) = length cmd"
    and resp: "resp = fromCheckBulkResult (checkBulkResultFromModel y) items"
    by (auto simp: InventoryService_CheckBulk_def toCheckBulkCommand_def CheckBulk_def bulk_answer_Ok Let_def checkBulkItemsToRelationships_def res_iffs
        split: sum.splits if_splits)
  have "length cmd = length items" using cmd by (auto simp: toCheckBulkCommand_def res_iffs dest: bulk_items_loop_Ok)
  with fromCheckBulkResult_pairs [of y items] cmd y resp show "\<exists>cmd y. toCheckBulkCommand items c = Inr (cmd, consistencyFromProto c) \<and>
         ro_CheckBulk (us_relations uc) (checkBulkItemsToRelationships cmd) (Some (consistencyFromProto c)) s = Inr y \<and>
         map pbp_Request (pbr_Pairs resp) = map Some items \<and> map pbp_Response (pbr_Pairs resp) = map (item_response \<circ> cbp_result) (cbr_pairs y)"
    by (intro exI conjI) simp_all
next
  fix resp assume "InventoryService_CheckForUpdateBulk uc ctx items s = Inr resp"
  then obtain cmd y where cmd: "toCheckForUpdateBulkCommand items = Inr cmd"
    and y: "ro_CheckForUpdateBulk (us_relations uc) (checkBulkItemsToRelationships cmd) s = Inr y" "length (cbr_pairs y) = length cmd"
    and resp: "resp = fromCheckBulkResult (checkBulkResultFromModel y) items"
    by (auto simp: InventoryService_CheckForUpdateBulk_def CheckForUpdateBulk_def bulk_answer_Ok Let_def checkBulkItemsToRelationships_def
        bulk_converters_agree(4) res_iffs split: sum.splits)
  have "length cmd = length items" using cmd by (auto simp: toCheckForUpdateBulkCommand_def dest: bulk_items_loop_Ok)
  with fromCheckBulkResult_pairs [of y items] cmd y resp show "\<exists>cmd y. toCheckForUpdateBulkCommand items = Inr cmd \<and>
         ro_CheckForUpdateBulk (us_relations uc) (checkBulkItemsToRelationships cmd) s = Inr y \<and>
         map pbp_Request (pbr_Pairs resp) = map Some items \<and> map pbp_Response (pbr_Pairs resp) = map (item_response \<circ> cbp_result) (cbr_pairs y)"
    by (intro exI conjI) simp_all
next
  fix resp assume "InventoryService_CheckSelfBulk uc ctx sitems c s = Inr resp"
  then obtain cmd self y where cmd: "toCheckSelfBulkCommand sitems c = Inr (cmd, consistencyFromProto c)" "selfSubjectFromContext uc ctx = Inr self"
    and y: "ro_CheckBulk (us_relations uc) (map (\<lambda>item. NewRelationship (si_Resource item) (si_Relation item) self) cmd) (Some (consistencyFromProto c)) s = Inr y"
      "length (cbr_pairs y) = length cmd"
    and resp: "resp = fromCheckSelfBulkResult (checkBulkResultFromModel y) sitems"
    by (auto simp: InventoryService_CheckSelfBulk_def toCheckSelfBulkCommand_def CheckSelfBulk_def bulk_answer_Ok Let_def res_iffs split: if_splits)
  have len: "length (cbr_pairs y) = length sitems" using cmd y(2) by (auto simp: toCheckSelfBulkCommand_def res_iffs dest: bulk_items_loop_Ok)
  have "map pbp_Request (pbr_Pairs resp) = map Some sitems"
    unfolding resp bulk_converters_agree(3) by (rule request_items) (use len in \<open>simp add: checkBulkResultFromModel_def\<close>)
  moreover have "map pbp_Response (pbr_Pairs resp) = map (item_response \<circ> cbp_result) (cbr_pairs y)"
    unfolding resp bulk_converters_agree(1) [of _ sitems "replicate (length sitems) undefined"] by (rule fromCheckBulkResult_pairs(2)) (use len in simp)
  ultimately show "\<exists>cmd self y. toCheckSelfBulkCommand sitems c = Inr (cmd, consistencyFromProto c) \<and> selfSubjectFromContext uc ctx = Inr self \<and>
         ro_CheckBulk (us_relations uc) (map (\<lambda>item. NewRelationship (si_Resource item) (si_Relation item) self) cmd) (Some (consistencyFromProto c)) s = Inr y \<and>
         map pbp_Request (pbr_Pairs resp) = map Some sitems \<and> map pbp_Response (pbr_Pairs resp) = map (item_response \<circ> cbp_result) (cbr_pairs y)"
    using cmd y(1) by blast
qed

definition sample_bulk_item :: check_bulk_request_item where
  "sample_bulk_item = \<lparr>pbi_Object = Some (request_reference sample_report_request), pbi_Relation = ''view'',
     pbi_Subject = Some \<lparr>psr_Relation = None, psr_Resource = Some \<lparr>pro_ResourceType = ''principal'', pro_ResourceId = ''alice'',
       pro_Reporter = Some \<lparr>prr_Type = ''rbac'', prr_InstanceId = None\<rparr>\<rparr>\<rparr>\<rparr>"

theorem bulk_responses_follow_requests_witness:
  "\<exists>resp. InventoryService_CheckBulk sample_usecase sample_ctx [sample_bulk_item, sample_bulk_item] None NewSimpleRelationsRepository = Inr resp \<and>
     map pbp_Request (pbr_Pairs resp) = [Some sample_bulk_item, Some sample_bulk_item]"
proof -
  have "is_ok (InventoryService_CheckBulk sample_usecase sample_ctx [sample_bulk_item, sample_bulk_item] None NewSimpleRelationsRepository)"
    by code_simp
  then obtain resp where r: "InventoryService_CheckBulk sample_usecase sample_ctx [sample_bulk_item, sample_bulk_item] None NewSimpleRelationsRepository = Inr resp"
    by (auto simp: is_ok_iff)
  with bulk_responses_follow_requests [THEN conjunct1, THEN spec, THEN mp, OF r] show ?thesis by auto
qed

section \<open>Relationships\<close>

text \<open>A relationship with all its messages, trimmed identifiers and no relation of the subject, which the in-memory repository does not keep.\<close>

definition complete_relationship :: "pb_relationship \<Rightarrow> bool" where
  "complete_relationship rel \<longleftrightarrow> (case prl_Resource rel of None \<Rightarrow> False | Some ob \<Rightarrow> ror_Type ob \<noteq> None \<and> TrimSpace (ror_Id ob) = ror_Id ob) \<and>
     (case prl_Subject rel of None \<Rightarrow> False | Some sub \<Rightarrow> rsr_Relation sub = None \<and> (case rsr_Subject sub of None \<Rightarrow> False
        | Some ob \<Rightarrow> ror_Type ob \<noteq> None \<and> TrimSpace (ror_Id ob) = ror_Id ob))"

definition key_item :: "simpleTupleKey \<Rightarrow> read_tuples_item" where
  "key_item k = \<lparr>rti_object = key_reference (stk_ResourceNamespace k) (stk_ResourceType k) (stk_ResourceID k),
     rti_relation = DeserializeRelation (stk_Relation k), rti_subject = NewSubjectReferenceWithoutRelation
       (key_reference (stk_SubjectNamespace k) (stk_SubjectType k) (stk_SubjectID k)), rti_continuationToken = [], rti_consistencyToken = MinimizeLatencyToken\<rparr>"

lemma converted_relationships:
  assumes "bulk_items_loop relationship_at i rels = Inr ts" "rel \<in> set rels"
  shows "\<exists>t \<in> set ts. relationshipToRelationsTuple rel = Inr t"
  using assms by (induction rels arbitrary: i ts) (auto simp: res_iffs relationship_at_def split: sum.splits)

lemma relationship_item:
  assumes "relationshipToRelationsTuple rel = Inr t" "complete_relationship rel"
  shows "rtr_Tuple (readTuplesItemToProto (key_item (simpleTupleKeyFromModelTuple t))) = rel"
proof -
  from assms(2) obtain ob ty sub ob' ty' where o: "prl_Resource rel = Some ob" "ror_Type ob = Some ty" "TrimSpace (ror_Id ob) = ror_Id ob"
      "prl_Subject rel = Some sub" "rsr_Relation sub = None" "rsr_Subject sub = Some ob'" "ror_Type ob' = Some ty'" "TrimSpace (ror_Id ob') = ror_Id ob'"
    by (auto simp: complete_relationship_def split: option.splits)
  with assms(1) have t: "t = \<lparr>rt_object = object_from_proto (Some ob) (ror_Id ob), rt_relation = prl_Relation rel,
      rt_subject = \<lparr>sref_resource = object_from_proto (Some ob') (ror_Id ob'), sref_relation = None\<rparr>\<rparr>"
    by (auto simp: relationshipToRelationsTuple_def Let_def res_iffs NewRelationsTuple_def NewSubjectReferenceWithoutRelation_def
        local_id_ctor.mk_Ok_iff serde)
  show ?thesis using o
    by (cases rel; cases sub; cases ob; cases ob'; cases ty; cases ty')
      (simp add: t key_item_def readTuplesItemToProto_def simpleTupleKeyFromModelTuple_def key_reference_def object_to_proto_def object_from_proto_def
        NewResourceReference_def NewReporterReference_def NewSubjectReferenceWithoutRelation_def Let_def serde)
qed

text \<open>Relationships created through the tuple service are read back through it: over the in-memory repository, a stream whose messages are
  all sent contains every relationship of a successful creation that matches the filter of the request.\<close>

lemma created_relationship_read:
  assumes "tc_Authz uc = simple_relations" "TupleService_CreateTuples uc ctx req s = (Inr tok, s')" "rel \<in> set (ctq_Tuples req)"
    and "complete_relationship rel" "EnforceMetaAuthzObject ctx' (tc_MetaAuthorizer uc) RelationReadTuples NewTupleSystem = Inr ()"
    and "\<And>t. relationshipToRelationsTuple rel = Inr t \<Longrightarrow> simpleMatchesTupleFilter (simpleTupleKeyFromModelTuple t) (tupleFilterFromProto (rtq_Filter query))"
  shows "rel \<in> rtr_Tuple ` set (snd (TupleService_ReadTuples uc (\<lambda>_. None) None ctx' query s'))"
proof -
  obtain ts f r where ts: "relationshipsToRelationsTuples (ctq_Tuples req) = Inr ts"
    and s': "Simple_CreateTuples ts (ctq_Upsert req) f s = (Inr r, s')"
    using assms(1,2) by (auto simp: TupleService_CreateTuples_def TupleCrud_CreateTuples_def toCreateTuplesCommand_def simple_relations_def res_iffs
        split: sum.splits prod.splits)
  have insert: "set (fold List.insert xs ys) = set ys \<union> set xs" for xs ys :: "simpleTupleKey list"
    by (induction xs arbitrary: ys) auto
  obtain t where t: "t \<in> set ts" "relationshipToRelationsTuple rel = Inr t"
    using converted_relationships ts assms(3) unfolding relationshipsToRelationsTuples_def by blast
  have "simpleTupleKeyFromModelTuple t \<in> set (sr_tuples s')"
    using s' t(1) by (auto simp: Simple_CreateTuples_def advanceVersion_def Let_def insert split: option.splits)
  moreover have stream: "snd (stream_loop conv (\<lambda>_. None) None n items) = map conv items" for conv :: "read_tuples_item \<Rightarrow> read_tuples_response" and n items
    by (induction items arbitrary: n) (auto simp: case_prod_unfold)
  ultimately have "readTuplesItemToProto (key_item (simpleTupleKeyFromModelTuple t)) \<in> set (snd (TupleService_ReadTuples uc (\<lambda>_. None) None ctx' query s'))"
    using assms(1,5) assms(6) [OF t(2)]
    by (auto simp: TupleService_ReadTuples_def TupleCrud_ReadTuples_def toReadTuplesCommand_def simple_relations_def Simple_ReadTuples_def stream key_item_def)
  then show ?thesis using relationship_item [OF t(2) assms(4)] by (metis imageI)
qed

definition sample_pb_relationship :: pb_relationship where
  "sample_pb_relationship = \<lparr>prl_Resource = Some \<lparr>ror_Type = Some \<lparr>rot_Namespace = ''rbac'', rot_Name = ''group''\<rparr>, ror_Id = ''g1''\<rparr>,
     prl_Relation = ''member'', prl_Subject = Some \<lparr>rsr_Relation = Some ''all'', rsr_Subject = Some \<lparr>ror_Type = Some \<lparr>rot_Namespace = ''rbac'',
       rot_Name = ''principal''\<rparr>, ror_Id = ''alice''\<rparr>\<rparr>\<rparr>"

section \<open>Sanitising\<close>

lemma hasNulls_iff: "hasNullsRecursive m \<longleftrightarrow> (\<exists>kv \<in> set m. snd kv = JNull \<or> (\<exists>v. snd kv = JStr v \<and> EqualFold v ''null'') \<or>
    (\<exists>o1. snd kv = JObj o1 \<and> hasNullsRecursive o1))"
  unfolding hasNullsRecursive.simps [of m] list_ex_iff by (rule bex_cong [OF refl]) (auto split: json.split)

lemma RemoveNulls_no_nulls: "\<not> hasNullsRecursive (RemoveNulls m)"
proof (induction m rule: RemoveNulls.induct)
  case (1 m)
  show ?case
  proof (cases "hasNullsRecursive m")
    case True
    show ?thesis
    proof
      assume "hasNullsRecursive (RemoveNulls m)"
      then obtain kv where kv: "kv \<in> set (RemoveNulls m)" "snd kv = JNull \<or> (\<exists>v. snd kv = JStr v \<and> EqualFold v ''null'') \<or>
          (\<exists>o1. snd kv = JObj o1 \<and> hasNullsRecursive o1)" by (auto simp: hasNulls_iff [of "RemoveNulls m"])
      from kv(1) True obtain kv' where kv': "kv' \<in> set m" and "kv \<in> set (case snd kv' of JNull \<Rightarrow> [] | JStr v \<Rightarrow> if EqualFold v ''null'' then [] else [kv']
          | JObj o1 \<Rightarrow> (let cleaned = RemoveNulls o1 in if length cleaned > 0 then [(fst kv', JObj cleaned)] else []) | _ \<Rightarrow> [kv'])"
        by (subst (asm) RemoveNulls.simps) auto
      with kv(2) 1 True show False by (cases "snd kv'") (fastforce simp: Let_def split: if_splits)+
    qed
  qed (subst RemoveNulls.simps, simp)
qed

lemma RemoveNulls_idem: "RemoveNulls (RemoveNulls m) = RemoveNulls m"
  by (subst RemoveNulls.simps) (simp add: RemoveNulls_no_nulls)

text \<open>C12. What a report hands to the domain is free of nulls: after the sanitiser the reporter representation of the command
  is absent or a non-empty object without null values and \<open>null\<close> strings at any depth of nested objects; sanitising
  again changes nothing, and the common representation is the one of the request.\<close>

theorem sanitised_report:
  assumes "\<forall>m. newStruct m = Inr m" "sanitizeReportResourceRequest newStruct r = Inr r'" "toReportResourceCommand r' = Inr cmd"
  shows "(case rc_ReporterRepresentation cmd of None \<Rightarrow> True | Some None \<Rightarrow> False | Some (Some m) \<Rightarrow> m \<noteq> [] \<and> \<not> hasNullsRecursive m) \<and>
    sanitizeReportResourceRequest newStruct r' = Inr r' \<and>
    representationFromProtoStruct (pb_get prs_Common None (prq_Representations r)) ''common'' = Inr (rc_CommonRepresentation cmd)"
proof -
  note ok = toReportResourceCommand_Ok(7,8) [OF assms(3)]
  consider "r' = r" "pb_get prs_Reporter None (prq_Representations r) = None"
    | reps m where "prq_Representations r = Some reps" "prs_Reporter reps = Some m"
      "r' = r\<lparr>prq_Representations := Some (reps\<lparr>prs_Reporter := Some (RemoveNulls m)\<rparr>)\<rparr>"
    using assms(1,2) by (auto simp: sanitizeReportResourceRequest_def sanitizeStruct_def res_iffs RemoveNulls.simps split: option.splits if_splits)
  then show ?thesis
  proof cases
    case 1
    with ok assms(2) show ?thesis by (simp add: representationFromProtoStruct_Ok)
  next
    case 2
    with ok show ?thesis
      by (auto simp: representationFromProtoStruct_Ok RemoveNulls_no_nulls sanitizeReportResourceRequest_def sanitizeStruct_def)
  qed
qed

theorem sanitised_report_witness:
  "\<exists>r' cmd. sanitizeReportResourceRequest Ok sample_report_request = Inr r' \<and> toReportResourceCommand r' = Inr cmd \<and>
     rc_ReporterRepresentation cmd = Some (Some [(''name'', JStr ''c'')]) \<and> sanitizeReportResourceRequest Ok r' = Inr r'"
proof -
  have "case sanitizeReportResourceRequest Ok sample_report_request of Inr r' \<Rightarrow>
      (case toReportResourceCommand r' of Inr cmd \<Rightarrow> rc_ReporterRepresentation cmd = Some (Some [(''name'', JStr ''c'')]) | _ \<Rightarrow> False) | _ \<Rightarrow> False"
    by code_simp
  then show ?thesis using sanitised_report [of Ok sample_report_request] by (fastforce split: sum.splits)
qed

section \<open>Read-only mode\<close>

lemma grpc_unary_refused:
  "IsWriteEndpoint op \<Longrightarrow> sv_ReadOnlyMode sv \<Longrightarrow> \<exists>e. grpc_unary sv h op ctx req s = (Inl e, s)"
  by (auto simp: grpc_unary_def Validation_def ErrorMapping_def UnaryReadOnlyInterceptor_def split: option.splits sum.splits)

lemma grpc_unary_read: "\<not> IsWriteEndpoint op \<Longrightarrow> grpc_unary sv h op ctx req s = grpc_unary (sv\<lparr>sv_ReadOnlyMode := False\<rparr>) h op ctx req s"
  by (auto simp: grpc_unary_def Validation_def ErrorMapping_def UnaryReadOnlyInterceptor_def admit_def split: option.splits sum.splits)

text \<open>C11. Read-only mode refuses reports and deletions without running their handlers, and nothing else: the creation and the
  deletion of tuples run exactly as without read-only mode.\<close>

theorem read_only_mode:
  assumes "sv_ReadOnlyMode sv"
  shows "(\<exists>e. grpc_unary sv h ''/kessel.inventory.v1beta2.KesselInventoryService/ReportResource'' ctx req s = (Inl e, s)) \<and>
    (\<exists>e. grpc_unary sv h ''/kessel.inventory.v1beta2.KesselInventoryService/DeleteResource'' ctx req s = (Inl e, s)) \<and>
    grpc_unary sv h ''/kessel.inventory.v1beta2.KesselTupleService/CreateTuples'' ctx req s =
      grpc_unary (sv\<lparr>sv_ReadOnlyMode := False\<rparr>) h ''/kessel.inventory.v1beta2.KesselTupleService/CreateTuples'' ctx req s \<and>
    grpc_unary sv h ''/kessel.inventory.v1beta2.KesselTupleService/DeleteTuples'' ctx req s =
      grpc_unary (sv\<lparr>sv_ReadOnlyMode := False\<rparr>) h ''/kessel.inventory.v1beta2.KesselTupleService/DeleteTuples'' ctx req s"
proof (intro conjI)
  show "\<exists>e. grpc_unary sv h ''/kessel.inventory.v1beta2.KesselInventoryService/ReportResource'' ctx req s = (Inl e, s)"
    "\<exists>e. grpc_unary sv h ''/kessel.inventory.v1beta2.KesselInventoryService/DeleteResource'' ctx req s = (Inl e, s)"
    by (rule grpc_unary_refused [OF _ assms], simp add: IsWriteEndpoint_def writeEndpoints_def)+
qed (rule grpc_unary_read, simp add: IsWriteEndpoint_def writeEndpoints_def)+

definition sample_server :: "'q server_config" where
  "sample_server = \<lparr>sv_validate = (\<lambda>_. None), sv_sanitize = Ok,
     sv_authenticate = (\<lambda>_. (Some \<lparr>cl_SubjectId = ''u'', cl_OrganizationId = [], cl_Issuer = ''i'', cl_ClientID = ''rbac'', cl_AuthType = AuthTypeOIDC\<rparr>, Allow)),
     sv_kratos = (\<lambda>n. if n = 401 then Unauthenticated else Unknown), sv_ReadOnlyMode = True\<rparr>"

definition sample_request_context :: request_context where
  "sample_request_context = \<lparr>rc_Transport = Some \<lparr>tr_Kind = ''grpc'', tr_Operation = ''/op'', tr_RequestHeader = (\<lambda>_. [])\<rparr>,
     rc_AuthzContext = None, rc_Token = None, rc_RawToken = None\<rparr>"

definition sample_crud :: "simple_relations_repository tuple_crud" where
  "sample_crud = \<lparr>tc_Authz = simple_relations, tc_MetaAuthorizer = Some (WhitelistMetaAuthorizer_Check [''rbac''])\<rparr>"

definition sample_create :: create_tuples_request where
  "sample_create = \<lparr>ctq_Upsert = True, ctq_Tuples = [sample_pb_relationship], ctq_FencingCheck = None\<rparr>"

theorem read_only_mode_witness:
  "sv_ReadOnlyMode (sample_server :: create_tuples_request server_config) \<and>
   grpc_unary sample_server (\<lambda>ctx. TupleService_CreateTuples sample_crud (rc_AuthzContext ctx))
     ''/kessel.inventory.v1beta2.KesselTupleService/CreateTuples'' sample_request_context sample_create NewSimpleRelationsRepository =
   grpc_unary (sample_server\<lparr>sv_ReadOnlyMode := False\<rparr>) (\<lambda>ctx. TupleService_CreateTuples sample_crud (rc_AuthzContext ctx))
     ''/kessel.inventory.v1beta2.KesselTupleService/CreateTuples'' sample_request_context sample_create NewSimpleRelationsRepository \<and>
   (case grpc_unary sample_server (\<lambda>ctx. TupleService_CreateTuples sample_crud (rc_AuthzContext ctx))
     ''/kessel.inventory.v1beta2.KesselTupleService/CreateTuples'' sample_request_context sample_create NewSimpleRelationsRepository of
       (r, s) \<Rightarrow> is_ok r \<and> length (sr_tuples s) = 1)"
proof (intro conjI)
  show ro: "sv_ReadOnlyMode (sample_server :: create_tuples_request server_config)" by (simp add: sample_server_def)
  show "grpc_unary sample_server (\<lambda>ctx. TupleService_CreateTuples sample_crud (rc_AuthzContext ctx))
      ''/kessel.inventory.v1beta2.KesselTupleService/CreateTuples'' sample_request_context sample_create NewSimpleRelationsRepository =
    grpc_unary (sample_server\<lparr>sv_ReadOnlyMode := False\<rparr>) (\<lambda>ctx. TupleService_CreateTuples sample_crud (rc_AuthzContext ctx))
      ''/kessel.inventory.v1beta2.KesselTupleService/CreateTuples'' sample_request_context sample_create NewSimpleRelationsRepository"
    by (rule read_only_mode [OF ro, THEN conjunct2, THEN conjunct2, THEN conjunct1])
qed code_simp

section \<open>The status of a deletion\<close>

lemma delete_unknown:
  assumes "db_inv d" "\<not> (\<exists>i. known_key d key i)" "rrk_reporterInstanceId key \<noteq> []" "at_findErr (ri_attempts io 0) = None" "0 < us_maxRetries uc"
    and "\<not> us_isSer uc (Sentinel ErrResourceNotFound)" "enforceMetaAuthzObject uc ctx RelationDeleteResource (NewInventoryResourceFromKey key) = Inr ()"
    and "getNextTransactionID (ri_txid io) = Inr txid"
  shows "Usecase_Delete uc io ctx key d = (Inl (Wrap ''transaction failed'' (Sentinel ErrResourceNotFound)), d)"
proof -
  have "FindResourceByKeys d key = Inl (Sentinel ErrRecordNotFound)"
    by (rule FindResourceByKeys_miss [OF assms(1,3)]) (use assms(1-3) in \<open>auto simp: known_key_def\<close>)
  then have "delete_tx uc key txid (ri_attempts io 0) d = Inl (Sentinel ErrResourceNotFound)"
    using assms(4) by (simp add: delete_tx_def find_resource_def)
  with assms(5-8) show ?thesis by (simp add: Usecase_Delete_def HandleSerializableTransaction_def tx_loop.simps)
qed

lemma NewReporterResourceKey_instance: "NewReporterResourceKey l t r i = Inr key \<Longrightarrow> rrk_reporterInstanceId key = i"
  by (auto simp: NewReporterResourceKey_def rrk_reporterInstanceId_def NewReporterId_def Let_def split: if_splits)

text \<open>The deletion behind the chain of the server.\<close>

definition serve_delete ::
    "'s usecase \<Rightarrow> report_io \<Rightarrow> pb_resource_reference option server_config \<Rightarrow> request_context \<Rightarrow> pb_resource_reference option \<Rightarrow> db \<Rightarrow> unit result \<times> db" where
  "serve_delete uc io sv ctx = grpc_unary sv (\<lambda>c. InventoryService_DeleteResource uc io (rc_AuthzContext c))
     ''/kessel.inventory.v1beta2.KesselInventoryService/DeleteResource'' ctx"

text \<open>C10. The statuses of a deletion behind the server: a reference with an empty field is an invalid argument, a caller
  that meta-authorization denies gets permission denied, and a resource that is not stored is not found; none of
  them changes the tables.\<close>

theorem delete_statuses:
  assumes "sv_validate sv req = None" "sv_sanitize sv req = Inr req" "\<not> sv_ReadOnlyMode sv"
    "admit sv ''/kessel.inventory.v1beta2.KesselInventoryService/DeleteResource'' ctx = Inr ctx'"
  shows "(\<forall>e. reporterKeyFromResourceReference req = Inl e \<longrightarrow>
      serve_delete uc io sv ctx req d = (Inl (StatusError InvalidArgument ''required field is empty''), d)) \<and>
    (\<forall>key. reporterKeyFromResourceReference req = Inr key \<longrightarrow>
      enforceMetaAuthzObject uc (rc_AuthzContext ctx') RelationDeleteResource (NewInventoryResourceFromKey key) = Inl (Sentinel ErrMetaAuthorizationDenied) \<longrightarrow>
      serve_delete uc io sv ctx req d = (Inl (StatusError PermissionDenied ''meta authorization denied''), d)) \<and>
    (\<forall>key txid. reporterKeyFromResourceReference req = Inr key \<longrightarrow> rrk_reporterInstanceId key \<noteq> [] \<longrightarrow>
      enforceMetaAuthzObject uc (rc_AuthzContext ctx') RelationDeleteResource (NewInventoryResourceFromKey key) = Inr () \<longrightarrow>
      getNextTransactionID (ri_txid io) = Inr txid \<longrightarrow> at_findErr (ri_attempts io 0) = None \<longrightarrow> 0 < us_maxRetries uc \<longrightarrow>
      \<not> us_isSer uc (Sentinel ErrResourceNotFound) \<longrightarrow> db_inv d \<longrightarrow> \<not> (\<exists>i. known_key d key i) \<longrightarrow>
      serve_delete uc io sv ctx req d = (Inl (StatusError NotFound ''resource not found''), d))"
proof (intro conjI allI impI)
  have serve: "serve_delete uc io sv ctx req d = (case InventoryService_DeleteResource uc io (rc_AuthzContext ctx') req d of
      (Inl e, d') \<Rightarrow> (Inl (MapError (sv_kratos sv) e), d') | (Inr u, d') \<Rightarrow> (Inr u, d'))"
    using assms by (simp add: serve_delete_def grpc_unary_def Validation_def ErrorMapping_def split: prod.splits sum.splits)
  fix e assume bad: "reporterKeyFromResourceReference req = Inl e"
  then have "errors_Is e ErrEmpty \<and> FromError (sv_kratos sv) e = None \<and> (\<forall>s. errors_Is e s \<longrightarrow> s = ErrEmpty)"
    by (auto simp: reporterKeyFromResourceReference_def NewLocalResourceId_def NewResourceType_def NewReporterType_def NewReporterInstanceId_def
        NewReporterResourceKey_def Let_def res_iffs split: if_splits)
  then have "MapError (sv_kratos sv) e = StatusError InvalidArgument ''required field is empty''"
    by (auto simp: MapError_def)
  with bad serve show "serve_delete uc io sv ctx req d = (Inl (StatusError InvalidArgument ''required field is empty''), d)"
    by (simp add: InventoryService_DeleteResource_def)
next
  fix key assume key: "reporterKeyFromResourceReference req = Inr key" and
    "enforceMetaAuthzObject uc (rc_AuthzContext ctx') RelationDeleteResource (NewInventoryResourceFromKey key) = Inl (Sentinel ErrMetaAuthorizationDenied)"
  with assms show "serve_delete uc io sv ctx req d = (Inl (StatusError PermissionDenied ''meta authorization denied''), d)"
    by (simp add: serve_delete_def grpc_unary_def Validation_def ErrorMapping_def InventoryService_DeleteResource_def Usecase_Delete_def MapError_def)
next
  fix key txid assume key: "reporterKeyFromResourceReference req = Inr key" and h: "rrk_reporterInstanceId key \<noteq> []"
    "enforceMetaAuthzObject uc (rc_AuthzContext ctx') RelationDeleteResource (NewInventoryResourceFromKey key) = Inr ()"
    "getNextTransactionID (ri_txid io) = Inr txid" "at_findErr (ri_attempts io 0) = None" "0 < us_maxRetries uc"
    "\<not> us_isSer uc (Sentinel ErrResourceNotFound)" "db_inv d" "\<not> (\<exists>i. known_key d key i)"
  from delete_unknown [OF h(7,8,1,4,5,6,2,3)] assms key
  show "serve_delete uc io sv ctx req d = (Inl (StatusError NotFound ''resource not found''), d)"
    by (simp add: serve_delete_def grpc_unary_def Validation_def ErrorMapping_def InventoryService_DeleteResource_def MapError_def)
qed

theorem delete_statuses_witness:
  "serve_delete sample_usecase sample_io (sample_server\<lparr>sv_ReadOnlyMode := False\<rparr>) sample_request_context (Some (request_reference sample_report_request)) empty_db =
     (Inl (StatusError NotFound ''resource not found''), empty_db)"
proof -
  let ?sv = "sample_server\<lparr>sv_ReadOnlyMode := False\<rparr> :: pb_resource_reference option server_config"
  let ?req = "Some (request_reference sample_report_request)"
  have "case admit ?sv ''/kessel.inventory.v1beta2.KesselInventoryService/DeleteResource'' sample_request_context of
      Inr c \<Rightarrow> (case reporterKeyFromResourceReference ?req of Inr key \<Rightarrow> rrk_reporterInstanceId key \<noteq> [] \<and>
        enforceMetaAuthzObject sample_usecase (rc_AuthzContext c) RelationDeleteResource (NewInventoryResourceFromKey key) = Inr () | _ \<Rightarrow> False) | _ \<Rightarrow> False"
    by code_simp
  then obtain c key where a: "admit ?sv ''/kessel.inventory.v1beta2.KesselInventoryService/DeleteResource'' sample_request_context = Inr c"
    and k: "reporterKeyFromResourceReference ?req = Inr key" "rrk_reporterInstanceId key \<noteq> []"
      "enforceMetaAuthzObject sample_usecase (rc_AuthzContext c) RelationDeleteResource (NewInventoryResourceFromKey key) = Inr ()"
    by (auto split: sum.splits)
  have none: "\<not> (\<exists>i. known_key empty_db key i)" by (simp add: known_key_def empty_db_def)
  have tx: "getNextTransactionID (ri_txid sample_io) = Inr ''x1''" by code_simp
  have sv: "sv_validate ?sv ?req = None" "sv_sanitize ?sv ?req = Inr ?req" "\<not> sv_ReadOnlyMode ?sv" by (simp_all add: sample_server_def)
  have uc: "at_findErr (ri_attempts sample_io 0) = None" "0 < us_maxRetries sample_usecase" "\<not> us_isSer sample_usecase (Sentinel ErrResourceNotFound)"
    by (simp_all add: sample_io_def sample_attempt_def sample_usecase_def Usecase_New_def)
  from delete_statuses [OF sv a, of sample_usecase sample_io empty_db] k tx uc none empty_db_inv show ?thesis by blast
qed

section \<open>Pagination\<close>

lemma ParseInt_range: "ParseInt s = Inr v \<Longrightarrow> v < 2 ^ 63"
  by (auto simp: ParseInt_def Let_def split: if_splits prod.splits)

lemma query_number_bounds: "0 < dflt \<Longrightarrow> dflt < 2 ^ 63 \<Longrightarrow> 0 < query_number s dflt \<and> query_number s dflt < 2 ^ 63"
  by (auto simp: query_number_def dest: ParseInt_range split: sum.splits)

text \<open>Bounds of pagination: whatever the query says, the page is positive and the size between 1 and 100, and for
  pages up to \<open>2 ^ 63 / 100\<close> the offset is the number of items on the earlier pages; beyond, the
  product may overflow to a negative offset.\<close>

lemma pagination_bounds:
  "(let p = Pagination pageStr sizeStr in
     0 < pq_Page p \<and> 0 < pq_MaxSize p \<and> pq_MaxSize p \<le> 100 \<and>
     (pq_Page p > 92233720368547758 \<or> Pagination_Offset p = (pq_Page p - 1) * pq_MaxSize p \<and> 0 \<le> Pagination_Offset p)) \<and>
   Pagination_Offset (Pagination ''92233720368547760'' ''100'') < 0"
proof -
  let ?p = "Pagination pageStr sizeStr"
  have "Pagination ''92233720368547760'' ''100'' = \<lparr>pq_Page = 92233720368547760, pq_MaxSize = 100\<rparr>"
    by (simp add: Pagination_def query_number_def ParseInt_def digits_value_def is_digit_def)
  then have "Pagination_Offset (Pagination ''92233720368547760'' ''100'') < 0"
    by (simp add: Pagination_Offset_def int64_def signed_take_bit_eq_if_negative bit_numeral_rec)
  moreover have b: "0 < pq_Page ?p" "0 < pq_MaxSize ?p" "pq_MaxSize ?p \<le> 100"
    using query_number_bounds [of 1 pageStr] query_number_bounds [of 10 sizeStr] by (auto simp: Pagination_def Let_def)
  moreover have "Pagination_Offset ?p = (pq_Page ?p - 1) * pq_MaxSize ?p \<and> 0 \<le> Pagination_Offset ?p" if "pq_Page ?p \<le> 92233720368547758"
  proof -
    have "(pq_Page ?p - 1) * pq_MaxSize ?p \<le> 92233720368547757 * 100" using b that by (intro mult_mono) auto
    moreover have "0 \<le> (pq_Page ?p - 1) * pq_MaxSize ?p" using b by simp
    ultimately show ?thesis using int64_small [of "(pq_Page ?p - 1) * pq_MaxSize ?p"] by (simp add: Pagination_Offset_def)
  qed
  ultimately show ?thesis by (auto simp: Let_def not_less)
qed

end
