(* ===== verification/Pubsub.thy ===== *)
theory Pubsub
  imports Prelude "HOL-Library.AList"
begin

text \<open>
  Notifications between the consumer and waiting requests (\<open>internal/pubsub\<close>): the driver over one PostgreSQL connection and its mutex, the
  manager that hands every notification to every subscription, and subscriptions, whose channel holds two notifications.

  Subscriptions are objects, addressed by numbers, because a caller keeps one while the manager's map may already hold another. An operation of the
  driver that finds the mutex held waits: its value is \<open>None\<close>. \<open>pubsub_step\<close> interleaves the goroutines: every section under the manager's
  lock, every receive and the end of a wait is one step.
\<close>

section \<open>Driver\<close>

record notification =
  nt_Channel :: string
  nt_Payload :: string

record 'conn pgxdriver =
  dv_conn :: "'conn option"
  dv_mu :: bool

record 'conn pgx_env =
  px_acquire :: "'conn result"
  px_isClosed :: "'conn \<Rightarrow> bool"
  px_close :: "'conn \<Rightarrow> go_error option"
  px_listen :: "'conn \<Rightarrow> go_error option"
  px_ping :: "'conn \<Rightarrow> go_error option"
  px_wait :: "'conn \<Rightarrow> notification result"
  px_notify :: "'conn \<Rightarrow> string \<Rightarrow> go_error option"

definition NewPgxDriver :: "'conn pgxdriver" where
  "NewPgxDriver = \<lparr>dv_conn = None, dv_mu = False\<rparr>"

text \<open>\<open>mu.Lock\<close> with the deferred \<open>Unlock\<close>. Go's mutex does not know its owner: locking it again waits like any other call.\<close>

definition locked :: "('conn pgxdriver \<Rightarrow> ('a \<times> 'conn pgxdriver) option) \<Rightarrow> 'conn pgxdriver \<Rightarrow> ('a \<times> 'conn pgxdriver) option" where
  "locked body d = (if dv_mu d then None else map_option (\<lambda>(r, d'). (r, d'\<lparr>dv_mu := False\<rparr>)) (body (d\<lparr>dv_mu := True\<rparr>)))"

definition Driver_Close :: "'conn pgx_env \<Rightarrow> 'conn pgxdriver \<Rightarrow> (go_error option \<times> 'conn pgxdriver) option" where
  "Driver_Close env = locked (\<lambda>d. Some (case dv_conn d of None \<Rightarrow> (None, d) | Some c \<Rightarrow> (px_close env c, d\<lparr>dv_conn := None\<rparr>)))"

definition Driver_Connect :: "'conn pgx_env \<Rightarrow> 'conn pgxdriver \<Rightarrow> (go_error option \<times> 'conn pgxdriver) option" where
  "Driver_Connect env = locked (\<lambda>d. Some (case dv_conn d of
     Some _ \<Rightarrow> (Some (Errorf ''connection already established''), d)
   | None \<Rightarrow> (case px_acquire env of Inl err \<Rightarrow> (Some err, d) | Inr conn \<Rightarrow> (None, d\<lparr>dv_conn := Some conn\<rparr>))))"

definition Driver_Listen :: "'conn pgx_env \<Rightarrow> 'conn pgxdriver \<Rightarrow> (go_error option \<times> 'conn pgxdriver) option" where
  "Driver_Listen env = locked (\<lambda>d. Some (case dv_conn d of None \<Rightarrow> Some nil_panic | Some c \<Rightarrow> px_listen env c, d))"

definition Driver_Ping :: "'conn pgx_env \<Rightarrow> 'conn pgxdriver \<Rightarrow> (go_error option \<times> 'conn pgxdriver) option" where
  "Driver_Ping env = locked (\<lambda>d. Some (case dv_conn d of None \<Rightarrow> Some nil_panic | Some c \<Rightarrow> px_ping env c, d))"

definition ensureConnected :: "'conn pgx_env \<Rightarrow> 'conn pgxdriver \<Rightarrow> (go_error option \<times> 'conn pgxdriver) option" where
  "ensureConnected env = locked (\<lambda>d.
     if (case dv_conn d of None \<Rightarrow> True | Some c \<Rightarrow> px_isClosed env c)
     then Driver_Connect env (d\<lparr>dv_conn := None\<rparr>)
     else Some (None, d))"

definition Driver_WaitForNotification :: "'conn pgx_env \<Rightarrow> 'conn pgxdriver \<Rightarrow> (notification result \<times> 'conn pgxdriver) option" where
  "Driver_WaitForNotification env d = (case ensureConnected env d of
     None \<Rightarrow> None
   | Some (Some err, d1) \<Rightarrow> Some (Err (Wrap ''WaitForNotification: error re-establishing connection'' err), d1)
   | Some (None, d1) \<Rightarrow> locked (\<lambda>d. Some (case dv_conn d of None \<Rightarrow> Err nil_panic | Some c \<Rightarrow> px_wait env c, d)) d1)"

definition Driver_Notify :: "'conn pgx_env \<Rightarrow> string \<Rightarrow> 'conn pgxdriver \<Rightarrow> (go_error option \<times> 'conn pgxdriver) option" where
  "Driver_Notify env payload d = (case ensureConnected env d of
     None \<Rightarrow> None
   | Some (Some err, d1) \<Rightarrow> Some (Some (Wrap ''Notify: error re-establishing connection'' err), d1)
   | Some (None, d1) \<Rightarrow> Some (case dv_conn d1 of None \<Rightarrow> Some nil_panic | Some c \<Rightarrow> px_notify env c payload, d1))"

section \<open>Subscriptions\<close>

record subscription =
  su_txId :: string
  su_listenChan :: "string list"
  su_unsubOnce :: bool

text \<open>The subscription objects, in the order they were made, and the manager's map from transaction ids to them.\<close>

record listen_manager =
  lm_objects :: "subscription list"
  lm_subscriptions :: "(string \<times> nat) list"

definition NewListenManager :: listen_manager where
  "NewListenManager = \<lparr>lm_objects = [], lm_subscriptions = []\<rparr>"

definition Subscribe :: "string \<Rightarrow> listen_manager \<Rightarrow> nat \<times> listen_manager" where
  "Subscribe txId l = (length (lm_objects l),
     l\<lparr>lm_objects := lm_objects l @ [\<lparr>su_txId = txId, su_listenChan = [], su_unsubOnce = False\<rparr>],
       lm_subscriptions := AList.update txId (length (lm_objects l)) (lm_subscriptions l)\<rparr>)"

text \<open>The \<open>select\<close> with a default: a full channel drops the notification.\<close>

definition offer :: "string \<Rightarrow> subscription \<Rightarrow> subscription" where
  "offer payload s = (if length (su_listenChan s) < 2 then s\<lparr>su_listenChan := su_listenChan s @ [payload]\<rparr> else s)"

definition distribute :: "string \<Rightarrow> listen_manager \<Rightarrow> listen_manager" where
  "distribute payload l = l\<lparr>lm_objects := fold (\<lambda>i objs. objs[i := offer payload (objs ! i)]) (map snd (lm_subscriptions l)) (lm_objects l)\<rparr>"

text \<open>\<open>ctxErr\<close> is the error of the caller's context.\<close>

definition WaitAndDistribute :: "go_error option \<Rightarrow> notification result \<Rightarrow> listen_manager \<Rightarrow> go_error option \<times> listen_manager" where
  "WaitAndDistribute ctxErr wait l = (case wrap_err ''error waiting for notification'' wait of
     Inl err \<Rightarrow> if (errors_Is err ErrContextCanceled \<or> errors_Is err ErrContextDeadlineExceeded) \<and> ctxErr = None then (None, l) else (Some err, l)
   | Inr n \<Rightarrow> (None, distribute (nt_Payload n) l))"

definition unsubscribe :: "nat \<Rightarrow> listen_manager \<Rightarrow> listen_manager" where
  "unsubscribe i l = l\<lparr>lm_subscriptions := AList.delete (su_txId (lm_objects l ! i)) (lm_subscriptions l)\<rparr>"

definition Unsubscribe :: "nat \<Rightarrow> listen_manager \<Rightarrow> listen_manager" where
  "Unsubscribe i l = (if su_unsubOnce (lm_objects l ! i) then l
     else unsubscribe i (l\<lparr>lm_objects := (lm_objects l)[i := (lm_objects l ! i)\<lparr>su_unsubOnce := True\<rparr>]\<rparr>))"

text \<open>\<open>Run\<close> on what the driver and the context give, call by call: the errors of the context during and after a call. \<open>None\<close>: still running.\<close>

fun Run :: "(go_error option \<times> notification result \<times> go_error option) list \<Rightarrow> listen_manager \<Rightarrow> go_error option option \<times> listen_manager" where
  "Run [] l = (None, l)"
| "Run ((ctxErr, wait, ctxErr') # rest) l = (case WaitAndDistribute ctxErr wait l of
     (err, l') \<Rightarrow> if err \<noteq> None \<or> ctxErr' \<noteq> None then (Some err, l') else Run rest l')"

text \<open>One receive of \<open>BlockForNotification\<close>: whether it was the awaited notification. A wait on an empty channel blocks.\<close>

definition receive :: "nat \<Rightarrow> listen_manager \<Rightarrow> (bool \<times> listen_manager) option" where
  "receive i l = (case su_listenChan (lm_objects l ! i) of
     [] \<Rightarrow> None
   | n # rest \<Rightarrow> Some (n = su_txId (lm_objects l ! i), l\<lparr>lm_objects := (lm_objects l)[i := (lm_objects l ! i)\<lparr>su_listenChan := rest\<rparr>]\<rparr>))"

definition wait_cancelled :: "go_error \<Rightarrow> go_error" where
  "wait_cancelled cause = Wrap ''context cancelled while waiting for notification'' (Sentinel ErrWaitContextCancelled)"

section \<open>Goroutines\<close>

datatype wait_status = NotWaiting | Waiting | Returned "go_error option"

datatype pubsub_event =
    ESubscribe string
  | EDistribute string
  | EBlock nat
  | EReceive nat
  | EDone nat go_error
  | EUnsubscribe nat

record pubsub_state =
  ps_lm :: listen_manager
  ps_wait :: "nat \<Rightarrow> wait_status"

definition pubsub_init :: pubsub_state where
  "pubsub_init = \<lparr>ps_lm = NewListenManager, ps_wait = (\<lambda>_. NotWaiting)\<rparr>"

inductive pubsub_step :: "pubsub_state \<Rightarrow> pubsub_event \<Rightarrow> pubsub_state \<Rightarrow> bool" where
  subscribe: "Subscribe tx (ps_lm s) = (i, l) \<Longrightarrow> pubsub_step s (ESubscribe tx) (s\<lparr>ps_lm := l\<rparr>)"
| distributed: "pubsub_step s (EDistribute payload) (s\<lparr>ps_lm := distribute payload (ps_lm s)\<rparr>)"
| block: "i < length (lm_objects (ps_lm s)) \<Longrightarrow> ps_wait s i = NotWaiting \<Longrightarrow> pubsub_step s (EBlock i) (s\<lparr>ps_wait := (ps_wait s)(i := Waiting)\<rparr>)"
| received: "ps_wait s i = Waiting \<Longrightarrow> receive i (ps_lm s) = Some (own, l) \<Longrightarrow>
    pubsub_step s (EReceive i) (s\<lparr>ps_lm := l, ps_wait := (ps_wait s)(i := if own then Returned None else Waiting)\<rparr>)"
| cancelled: "ps_wait s i = Waiting \<Longrightarrow> pubsub_step s (EDone i cause) (s\<lparr>ps_wait := (ps_wait s)(i := Returned (Some (wait_cancelled cause)))\<rparr>)"
| unsubscribed: "i < length (lm_objects (ps_lm s)) \<Longrightarrow> pubsub_step s (EUnsubscribe i) (s\<lparr>ps_lm := Unsubscribe i (ps_lm s)\<rparr>)"

inductive pubsub_steps :: "pubsub_state \<Rightarrow> pubsub_event list \<Rightarrow> pubsub_state \<Rightarrow> bool" where
  stay: "pubsub_steps s [] s"
| move: "pubsub_steps s es s' \<Longrightarrow> pubsub_step s' e s'' \<Longrightarrow> pubsub_steps s (es @ [e]) s''"

abbreviation pubsub_run :: "pubsub_event list \<Rightarrow> pubsub_state \<Rightarrow> bool" where
  "pubsub_run tr s \<equiv> pubsub_steps pubsub_init tr s"

inductive_cases pubsub_stepE: "pubsub_step s e s'"

section \<open>Histories\<close>

definition sub_ids :: "pubsub_event list \<Rightarrow> string list" where
  "sub_ids tr = concat (map (\<lambda>e. case e of ESubscribe tx \<Rightarrow> [tx] | _ \<Rightarrow> []) tr)"

lemma sub_ids_simps [simp]: "sub_ids [] = []" "sub_ids (tr @ tr') = sub_ids tr @ sub_ids tr'"
  "sub_ids (e # tr) = (case e of ESubscribe tx \<Rightarrow> [tx] | _ \<Rightarrow> []) @ sub_ids tr"
  by (simp_all add: sub_ids_def)

text \<open>A notification was distributed after the subscription with this number was made.\<close>

definition distributed_since :: "pubsub_event list \<Rightarrow> nat \<Rightarrow> string \<Rightarrow> bool" where
  "distributed_since tr i p \<longleftrightarrow> (\<exists>t1 tx t2 t3. tr = t1 @ ESubscribe tx # t2 @ EDistribute p # t3 \<and> length (sub_ids t1) = i)"

lemma distributed_since_append: "distributed_since tr i p \<Longrightarrow> distributed_since (tr @ tr') i p"
  unfolding distributed_since_def by (metis append.assoc append_Cons)

lemma sub_event:
  assumes "i < length (sub_ids tr)"
  shows "\<exists>t1 t2. tr = t1 @ ESubscribe (sub_ids tr ! i) # t2 \<and> length (sub_ids t1) = i"
  using assms
proof (induction tr rule: rev_induct)
  case (snoc e tr)
  show ?case
  proof (cases "i < length (sub_ids tr)")
    case True
    then obtain t1 t2 where "tr = t1 @ ESubscribe (sub_ids tr ! i) # t2" "length (sub_ids t1) = i" using snoc.IH by blast
    then show ?thesis using True by (intro exI [of _ t1] exI [of _ "t2 @ [e]"]) (simp add: nth_append)
  next
    case False
    then obtain tx where "e = ESubscribe tx" "i = length (sub_ids tr)" using snoc.prems by (cases e) auto
    then show ?thesis by (intro exI [of _ tr] exI [of _ "[]"]) simp
  qed
qed simp

lemma distributed_now: "i < length (sub_ids tr) \<Longrightarrow> distributed_since (tr @ [EDistribute p]) i p"
  using sub_event [of i tr] unfolding distributed_since_def by (metis append.assoc append_Cons append_Nil)

lemma distributed_since_sub:
  assumes "distributed_since tr i p"
  shows "\<exists>t1 t2 t3. tr = t1 @ ESubscribe (sub_ids tr ! i) # t2 @ EDistribute p # t3 \<and> length (sub_ids t1) = i"
proof -
  obtain t1 tx t2 t3 where "tr = t1 @ ESubscribe tx # t2 @ EDistribute p # t3" "length (sub_ids t1) = i"
    using assms by (auto simp: distributed_since_def)
  then show ?thesis by (intro exI [of _ t1] exI [of _ t2] exI [of _ t3]) (simp add: nth_append)
qed

section \<open>Invariant\<close>

lemma offers:
  assumes "distinct ids" "\<forall>i \<in> set ids. i < length objs"
  shows "length (fold (\<lambda>i objs. objs[i := offer p (objs ! i)]) ids objs) = length objs \<and>
    (\<forall>j < length objs. fold (\<lambda>i objs. objs[i := offer p (objs ! i)]) ids objs ! j = (if j \<in> set ids then offer p (objs ! j) else objs ! j))"
  using assms
proof (induction ids arbitrary: objs)
  case (Cons i ids)
  then show ?case using Cons.IH [of "objs[i := offer p (objs ! i)]"] by (auto simp: nth_list_update)
qed simp

definition registered :: "listen_manager \<Rightarrow> bool" where
  "registered l \<longleftrightarrow> distinct (map fst (lm_subscriptions l)) \<and>
     (\<forall>(tx, i) \<in> set (lm_subscriptions l). i < length (lm_objects l) \<and> su_txId (lm_objects l ! i) = tx)"

lemma registered_ids:
  assumes "registered l"
  shows "distinct (map snd (lm_subscriptions l))" "\<forall>i \<in> set (map snd (lm_subscriptions l)). i < length (lm_objects l)"
proof -
  have "fst x = su_txId (lm_objects l ! snd x)" if "x \<in> set (lm_subscriptions l)" for x
    using that assms by (auto simp: registered_def)
  then have "inj_on snd (set (lm_subscriptions l))" by (intro inj_onI prod_eqI) metis+
  then show "distinct (map snd (lm_subscriptions l))" using assms by (auto simp: registered_def distinct_map)
  show "\<forall>i \<in> set (map snd (lm_subscriptions l)). i < length (lm_objects l)" using assms by (auto simp: registered_def)
qed

lemma distribute_objects:
  assumes "registered l"
  shows "length (lm_objects (distribute p l)) = length (lm_objects l)"
    "j < length (lm_objects l) \<Longrightarrow> lm_objects (distribute p l) ! j =
      (if j \<in> set (map snd (lm_subscriptions l)) then offer p (lm_objects l ! j) else lm_objects l ! j)"
    "lm_subscriptions (distribute p l) = lm_subscriptions l"
  using offers [OF registered_ids [OF assms], of p] by (auto simp: distribute_def)

definition chan :: "pubsub_state \<Rightarrow> nat \<Rightarrow> string list" where
  "chan s i = su_listenChan (lm_objects (ps_lm s) ! i)"

definition pubsub_inv :: "pubsub_event list \<Rightarrow> pubsub_state \<Rightarrow> bool" where
  "pubsub_inv tr s \<longleftrightarrow> map su_txId (lm_objects (ps_lm s)) = sub_ids tr \<and> registered (ps_lm s) \<and>
     (\<forall>i < length (lm_objects (ps_lm s)). length (chan s i) \<le> 2 \<and> (\<forall>p \<in> set (chan s i). distributed_since tr i p)) \<and>
     (\<forall>i. (ps_wait s i \<noteq> NotWaiting \<longrightarrow> i < length (lm_objects (ps_lm s))) \<and>
        (ps_wait s i = Returned None \<longrightarrow> distributed_since tr i (su_txId (lm_objects (ps_lm s) ! i))))"

lemma update_lookup: "(k, v) \<in> set (AList.update a b xs) \<Longrightarrow> (k, v) = (a, b) \<or> (k, v) \<in> set xs"
  by (induction xs) (auto split: if_splits)

lemma registered_Subscribe:
  assumes "registered l" "Subscribe tx l = (i, l')"
  shows "registered l'"
proof -
  have new: "(k, v) = (tx, length (lm_objects l)) \<or> (k, v) \<in> set (lm_subscriptions l)"
    if "(k, v) \<in> set (AList.update tx (length (lm_objects l)) (lm_subscriptions l))" for k v
    using update_lookup [OF that] by blast
  have "l' = l\<lparr>lm_objects := lm_objects l @ [\<lparr>su_txId = tx, su_listenChan = [], su_unsubOnce = False\<rparr>],
      lm_subscriptions := AList.update tx (length (lm_objects l)) (lm_subscriptions l)\<rparr>" using assms(2) by (auto simp: Subscribe_def)
  then show ?thesis using assms(1) new by (fastforce simp: registered_def nth_append distinct_update)
qed

lemma registered_Unsubscribe:
  assumes "registered l" "i < length (lm_objects l)"
  shows "registered (Unsubscribe i l)"
proof -
  have "distinct (map fst (AList.delete tx xs))" if "distinct (map fst xs)" for tx and xs :: "(string \<times> nat) list"
    using that by (rule distinct_delete)
  then show ?thesis using assms
    by (auto simp: registered_def Unsubscribe_def unsubscribe_def nth_list_update AList.delete_eq split_beta)
qed

lemma Unsubscribe_objects:
  assumes "i < length (lm_objects l)"
  shows "map su_txId (lm_objects (Unsubscribe i l)) = map su_txId (lm_objects l)" "length (lm_objects (Unsubscribe i l)) = length (lm_objects l)"
    "su_listenChan (lm_objects (Unsubscribe i l) ! j) = su_listenChan (lm_objects l ! j)"
  using assms by (auto simp: Unsubscribe_def unsubscribe_def nth_list_update map_update intro!: nth_equalityI)

lemma pubsub_invD:
  assumes "pubsub_inv tr s"
  shows "map su_txId (lm_objects (ps_lm s)) = sub_ids tr" "registered (ps_lm s)" "length (lm_objects (ps_lm s)) = length (sub_ids tr)"
    "i < length (lm_objects (ps_lm s)) \<Longrightarrow> length (chan s i) \<le> 2"
    "i < length (lm_objects (ps_lm s)) \<Longrightarrow> p \<in> set (chan s i) \<Longrightarrow> distributed_since tr i p"
    "ps_wait s i \<noteq> NotWaiting \<Longrightarrow> i < length (lm_objects (ps_lm s))"
    "ps_wait s i = Returned None \<Longrightarrow> distributed_since tr i (su_txId (lm_objects (ps_lm s) ! i))"
  using assms length_map [of su_txId "lm_objects (ps_lm s)"] unfolding pubsub_inv_def by metis+

text \<open>A step that only changes which subscriptions there are, what waits and what is in the channels keeps the invariant under these conditions.\<close>

lemma pubsub_invI:
  assumes "pubsub_inv tr s" "map su_txId (lm_objects (ps_lm s')) = sub_ids (tr @ [e])" "registered (ps_lm s')"
    and "\<And>i. i < length (lm_objects (ps_lm s')) \<Longrightarrow> length (chan s' i) \<le> 2"
    and "\<And>i p. i < length (lm_objects (ps_lm s')) \<Longrightarrow> p \<in> set (chan s' i) \<Longrightarrow>
      (i < length (lm_objects (ps_lm s)) \<and> p \<in> set (chan s i)) \<or> distributed_since (tr @ [e]) i p"
    and "\<And>i. ps_wait s' i \<noteq> NotWaiting \<Longrightarrow> i < length (lm_objects (ps_lm s'))"
    and "\<And>i. ps_wait s' i = Returned None \<Longrightarrow> ps_wait s i = Returned None \<or>
      i < length (lm_objects (ps_lm s)) \<and> su_txId (lm_objects (ps_lm s) ! i) \<in> set (chan s i)"
    and "\<And>i. i < length (lm_objects (ps_lm s)) \<Longrightarrow> su_txId (lm_objects (ps_lm s') ! i) = su_txId (lm_objects (ps_lm s) ! i)"
  shows "pubsub_inv (tr @ [e]) s'"
proof -
  note inv = pubsub_invD [OF assms(1)] and later = distributed_since_append [of tr _ _ "[e]"]
  have "distributed_since (tr @ [e]) i (su_txId (lm_objects (ps_lm s') ! i))" if "ps_wait s' i = Returned None" for i
    using assms(7) [OF that] inv(5-7) later assms(8) by (metis wait_status.distinct(3))
  then show ?thesis unfolding pubsub_inv_def using assms(2-6) inv(5) later by blast
qed

lemma pubsub_inv_step:
  assumes "pubsub_inv tr s" "pubsub_step s e s'"
  shows "pubsub_inv (tr @ [e]) s'"
  using assms(2)
proof (cases rule: pubsub_step.cases)
  case (subscribe tx i l)
  note inv = pubsub_invD [OF assms(1)]
  have l: "lm_objects l = lm_objects (ps_lm s) @ [\<lparr>su_txId = tx, su_listenChan = [], su_unsubOnce = False\<rparr>]"
    using subscribe(3) by (auto simp: Subscribe_def)
  show ?thesis
    by (rule pubsub_invI [OF assms(1)])
      (use subscribe inv registered_Subscribe [OF inv(2) subscribe(3)] in \<open>auto simp: l chan_def nth_append less_Suc_eq split: if_splits\<close>)
next
  case (distributed payload)
  note inv = pubsub_invD [OF assms(1)] and objs = distribute_objects [OF pubsub_invD(2) [OF assms(1)], where p = payload]
  have same: "su_txId (lm_objects (distribute payload (ps_lm s)) ! i) = su_txId (lm_objects (ps_lm s) ! i)" if "i < length (lm_objects (ps_lm s))" for i
    using objs(2) [OF that] by (simp add: offer_def)
  have "map su_txId (lm_objects (distribute payload (ps_lm s))) = map su_txId (lm_objects (ps_lm s))"
    by (rule nth_equalityI) (simp_all add: objs(1) same)
  moreover have "registered (distribute payload (ps_lm s))" using inv(2) same by (fastforce simp: registered_def objs(1,3))
  moreover have "p \<in> set (chan s i) \<or> distributed_since (tr @ [e]) i p" if "i < length (lm_objects (ps_lm s))" "p \<in> set (chan s' i)" for i p
    using that objs(2) [OF that(1)] distributed distributed_now [of i tr payload] inv(3) by (auto simp: chan_def offer_def split: if_splits)
  moreover have "length (chan s' i) \<le> 2" if "i < length (lm_objects (ps_lm s))" for i
    using inv(4) [OF that] objs(2) [OF that] distributed by (auto simp: chan_def offer_def split: if_splits)
  ultimately show ?thesis using distributed inv(1,6) same
    by (intro pubsub_invI [OF assms(1)]) (simp_all add: objs(1))
next
  case (block i)
  then show ?thesis using pubsub_invD [OF assms(1)] by (intro pubsub_invI [OF assms(1)]) (auto simp: chan_def split: if_splits)
next
  case (received i own l)
  note inv = pubsub_invD [OF assms(1)]
  obtain n rest where n: "chan s i = n # rest" "own = (n = su_txId (lm_objects (ps_lm s) ! i))"
    "l = (ps_lm s)\<lparr>lm_objects := (lm_objects (ps_lm s))[i := (lm_objects (ps_lm s) ! i)\<lparr>su_listenChan := rest\<rparr>]\<rparr>"
    using received(4) by (auto simp: receive_def chan_def split: list.splits)
  have i: "i < length (lm_objects (ps_lm s))" using inv(6) [of i] received(3) by simp
  have same: "su_txId (lm_objects l ! j) = su_txId (lm_objects (ps_lm s) ! j)" for j using i n(3) by (auto simp: nth_list_update)
  have chans: "chan s' j = (if j = i then rest else chan s j)" for j using received n(3) i by (auto simp: chan_def nth_list_update)
  have "map su_txId (lm_objects l) = map su_txId (lm_objects (ps_lm s))" by (rule nth_equalityI) (use n(3) same in auto)
  moreover have "registered l" using inv(2) same by (fastforce simp: registered_def n(3))
  ultimately show ?thesis using received(1,2) inv(1,4,6) n(1,2) i same chans
    by (intro pubsub_invI [OF assms(1)]) (auto simp: n(3) split: if_splits dest: inv(4))
next
  case (cancelled i cause)
  then show ?thesis using pubsub_invD [OF assms(1)] by (intro pubsub_invI [OF assms(1)]) (auto simp: chan_def split: if_splits)
next
  case (unsubscribed i)
  note inv = pubsub_invD [OF assms(1)] and objs = Unsubscribe_objects [OF unsubscribed(3)]
  have "su_txId (lm_objects (Unsubscribe i (ps_lm s)) ! j) = su_txId (lm_objects (ps_lm s) ! j)" if "j < length (lm_objects (ps_lm s))" for j
    using arg_cong [OF objs(1), of "\<lambda>xs. xs ! j"] that objs(2) by simp
  then show ?thesis using unsubscribed inv registered_Unsubscribe [OF inv(2) unsubscribed(3)] objs
    by (intro pubsub_invI [OF assms(1)]) (auto simp: chan_def)
qed

lemma pubsub_run_inv: "pubsub_run tr s \<Longrightarrow> pubsub_inv tr s"
proof (induction pubsub_init tr s rule: pubsub_steps.induct)
  case stay
  then show ?case by (simp add: pubsub_inv_def pubsub_init_def NewListenManager_def registered_def)
qed (rule pubsub_inv_step)

section \<open>Delivery\<close>

lemma steps_Cons:
  assumes "pubsub_steps s' es s''" "pubsub_step s e s'"
  shows "pubsub_steps s (e # es) s''"
  using assms
proof (induction rule: pubsub_steps.induct)
  case (stay s')
  then show ?case using move [OF pubsub_steps.stay [of s]] by simp
next
  case (move s1 es s2 e' s3)
  then show ?case using pubsub_steps.move [of s "e # es" s2 e' s3] by simp
qed

lemma steps_inv: "pubsub_steps s es s' \<Longrightarrow> pubsub_inv tr s \<Longrightarrow> pubsub_inv (tr @ es) s'"
proof (induction rule: pubsub_steps.induct)
  case (move s es s' e s'')
  then show ?case using pubsub_inv_step [of "tr @ es" s' e s''] by simp
qed simp

text \<open>What is in a channel stays there until its subscription receives.\<close>

lemma buffered_step:
  assumes "pubsub_inv tr s" "pubsub_step s e s'" "i < length (lm_objects (ps_lm s))" "e \<noteq> EReceive i" "p \<in> set (chan s i)"
  shows "p \<in> set (chan s' i)" "i < length (lm_objects (ps_lm s'))" "su_txId (lm_objects (ps_lm s') ! i) = su_txId (lm_objects (ps_lm s) ! i)"
proof -
  note inv = pubsub_invD [OF assms(1)] and inv' = pubsub_invD [OF pubsub_inv_step [OF assms(1,2)]]
  show "i < length (lm_objects (ps_lm s'))" using assms(3) inv(3) inv'(3) by simp
  then show "su_txId (lm_objects (ps_lm s') ! i) = su_txId (lm_objects (ps_lm s) ! i)"
    using assms(3) arg_cong [OF inv(1), of "\<lambda>xs. xs ! i"] arg_cong [OF inv'(1), of "\<lambda>xs. xs ! i"] by (simp add: nth_append inv(3))
  from assms(2) show "p \<in> set (chan s' i)"
  proof (cases rule: pubsub_step.cases)
    case (subscribe tx j l)
    then show ?thesis using assms(3,5) by (auto simp: Subscribe_def chan_def nth_append)
  next
    case (distributed payload)
    then show ?thesis using assms(5) distribute_objects(2) [OF inv(2) assms(3), of payload] by (auto simp: chan_def offer_def)
  next
    case (received j own l)
    then show ?thesis using assms(4,5) by (auto simp: receive_def chan_def split: list.splits)
  next
    case (unsubscribed j)
    then show ?thesis using assms(5) Unsubscribe_objects(3) [OF unsubscribed(3)] by (simp add: chan_def)
  qed (use assms(5) in \<open>simp_all add: chan_def\<close>)
qed

lemma buffered_steps:
  assumes "pubsub_steps s es s'" "pubsub_inv tr s" "i < length (lm_objects (ps_lm s))" "EReceive i \<notin> set es" "p \<in> set (chan s i)"
  shows "p \<in> set (chan s' i) \<and> i < length (lm_objects (ps_lm s')) \<and> su_txId (lm_objects (ps_lm s') ! i) = su_txId (lm_objects (ps_lm s) ! i)"
  using assms
proof (induction rule: pubsub_steps.induct)
  case (move s es s' e s'')
  then have IH: "p \<in> set (chan s' i)" "i < length (lm_objects (ps_lm s'))" "su_txId (lm_objects (ps_lm s') ! i) = su_txId (lm_objects (ps_lm s) ! i)"
    and "e \<noteq> EReceive i" by auto
  then show ?case using buffered_step [OF steps_inv [OF move.hyps(1) move.prems(1)] move.hyps(2) IH(2) _ IH(1)] by simp
qed simp

text \<open>A wait with its notification in the channel returns after receiving it.\<close>

lemma wait_returns:
  assumes "chan s i = ps" "ps_wait s i = Waiting" "i < length (lm_objects (ps_lm s))" "su_txId (lm_objects (ps_lm s) ! i) \<in> set ps"
  shows "\<exists>n s'. n \<le> length ps \<and> pubsub_steps s (replicate n (EReceive i)) s' \<and> ps_wait s' i = Returned None"
  using assms
proof (induction ps arbitrary: s)
  case (Cons p ps)
  let ?own = "p = su_txId (lm_objects (ps_lm s) ! i)"
  let ?l = "(ps_lm s)\<lparr>lm_objects := (lm_objects (ps_lm s))[i := (lm_objects (ps_lm s) ! i)\<lparr>su_listenChan := ps\<rparr>]\<rparr>"
  let ?s = "s\<lparr>ps_lm := ?l, ps_wait := (ps_wait s)(i := if ?own then Returned None else Waiting)\<rparr>"
  have "receive i (ps_lm s) = Some (?own, ?l)" using Cons.prems(1) by (simp add: receive_def chan_def)
  then have step: "pubsub_step s (EReceive i) ?s" using Cons.prems(2) by (intro received)
  show ?case
  proof (cases ?own)
    case True
    then show ?thesis using steps_Cons [OF pubsub_steps.stay step] by (intro exI [of _ 1] exI [of _ ?s]) simp
  next
    case False
    then obtain n s' where "n \<le> length ps" "pubsub_steps ?s (replicate n (EReceive i)) s'" "ps_wait s' i = Returned None"
      using Cons.IH [of ?s] Cons.prems by (auto simp: chan_def)
    then show ?thesis using steps_Cons [OF _ step, of "replicate n (EReceive i)" s'] by (intro exI [of _ "Suc n"] exI [of _ s']) simp
  qed
qed simp

text \<open>Without another notification of its transaction, a wait whose channel holds none does not succeed.\<close>

lemma starved_steps:
  assumes "pubsub_steps s es s'" "pubsub_inv tr s" "i < length (lm_objects (ps_lm s))" "su_txId (lm_objects (ps_lm s) ! i) = tx"
    and "tx \<notin> set (chan s i)" "EDistribute tx \<notin> set es" "ps_wait s i \<noteq> Returned None"
  shows "ps_wait s' i \<noteq> Returned None \<and> tx \<notin> set (chan s' i) \<and> i < length (lm_objects (ps_lm s')) \<and> su_txId (lm_objects (ps_lm s') ! i) = tx"
  using assms
proof (induction rule: pubsub_steps.induct)
  case (move s es s' e s'')
  then have IH: "ps_wait s' i \<noteq> Returned None" "tx \<notin> set (chan s' i)" "i < length (lm_objects (ps_lm s'))" "su_txId (lm_objects (ps_lm s') ! i) = tx"
    by auto
  have inv: "pubsub_inv (tr @ es) s'" using steps_inv [OF move.hyps(1) move.prems(1)] .
  from move.hyps(2) show ?case
  proof (cases rule: pubsub_step.cases)
    case (subscribe t j l)
    then show ?thesis using IH by (auto simp: Subscribe_def chan_def nth_append)
  next
    case (distributed payload)
    then show ?thesis using IH distribute_objects [OF pubsub_invD(2) [OF inv], where p = payload] move.prems(5) by (auto simp: chan_def offer_def)
  next
    case (received j own l)
    then show ?thesis using IH by (auto simp: receive_def chan_def nth_list_update split: list.splits if_splits)
  next
    case (unsubscribed j)
    have "su_txId (lm_objects (Unsubscribe j (ps_lm s')) ! i) = tx"
      using arg_cong [OF Unsubscribe_objects(1) [OF unsubscribed(3)], of "\<lambda>xs. xs ! i"] IH(3,4) Unsubscribe_objects(2) [OF unsubscribed(3)] by simp
    then show ?thesis using IH unsubscribed Unsubscribe_objects [OF unsubscribed(3)] by (simp add: chan_def)
  qed (use IH in \<open>auto simp: chan_def\<close>)
qed simp

section \<open>Properties\<close>

lemmas pubsub_run_simps = pubsub_init_def NewListenManager_def Subscribe_def distribute_def offer_def receive_def

text \<open>A run, from the initial state, of a subscription that waits before and one after its notification.\<close>

lemma sample_run:
  "\<exists>s. pubsub_run [ESubscribe ''a'', EDistribute ''a'', EBlock 0, EReceive 0] s \<and> ps_wait s 0 = Returned None"
proof -
  let ?l1 = "snd (Subscribe ''a'' NewListenManager)"
  let ?s1 = "pubsub_init\<lparr>ps_lm := ?l1\<rparr>"
  let ?s2 = "?s1\<lparr>ps_lm := distribute ''a'' ?l1\<rparr>"
  let ?s3 = "?s2\<lparr>ps_wait := (\<lambda>_. NotWaiting)(0 := Waiting)\<rparr>"
  have "pubsub_step pubsub_init (ESubscribe ''a'') ?s1" by (rule subscribe [of _ _ 0]) (simp add: pubsub_run_simps)
  moreover have "pubsub_step ?s1 (EDistribute ''a'') ?s2" using distributed [of ?s1 "''a''"] by simp
  moreover have "pubsub_step ?s2 (EBlock 0) ?s3" using block [of 0 ?s2] by (simp add: pubsub_run_simps)
  moreover have "\<exists>s. pubsub_step ?s3 (EReceive 0) s \<and> ps_wait s 0 = Returned None"
    using received [of ?s3 0 True] by (fastforce simp: pubsub_run_simps)
  ultimately show ?thesis by (meson steps_Cons stay)
qed

text \<open>C27. A request that waits for its notification does not go on too early: in every interleaving, a wait that returns without an error has
  received a notification of its own transaction that was distributed after it subscribed.\<close>

theorem waits_return_on_own_notification:
  assumes "pubsub_run tr s" "ps_wait s i = Returned None"
  shows "\<exists>tx t1 t2 t3. tr = t1 @ ESubscribe tx # t2 @ EDistribute tx # t3 \<and> length (sub_ids t1) = i"
proof -
  note inv = pubsub_invD [OF pubsub_run_inv [OF assms(1)]]
  have "i < length (lm_objects (ps_lm s))" using inv(6) assms(2) by (metis wait_status.distinct(3))
  then have "su_txId (lm_objects (ps_lm s) ! i) = sub_ids tr ! i" using inv(1) by (metis nth_map)
  then show ?thesis using distributed_since_sub [OF inv(7) [OF assms(2)]] by auto
qed

theorem waits_return_on_own_notification_witness:
  "\<exists>tx t1 t2 t3. [ESubscribe ''a'', EDistribute ''a'', EBlock 0, EReceive 0] = t1 @ ESubscribe tx # t2 @ EDistribute tx # t3 \<and> length (sub_ids t1) = 0"
  using sample_run waits_return_on_own_notification by blast

text \<open>C28. A distributed notification wakes its request: when the subscription is registered and its channel has room, the notification stays in the
  channel whatever the other goroutines do, and the wait, once it runs, returns without an error after at most two receives.\<close>

theorem notification_wakes_waiter:
  assumes "pubsub_run tr s" "(tx, i) \<in> set (lm_subscriptions (ps_lm s))" "length (chan s i) < 2" "pubsub_step s (EDistribute tx) s1"
    and "pubsub_steps s1 es s2" "EReceive i \<notin> set es" "ps_wait s2 i = Waiting"
  shows "\<exists>n s3. n \<le> 2 \<and> pubsub_steps s2 (replicate n (EReceive i)) s3 \<and> ps_wait s3 i = Returned None"
proof -
  note inv = pubsub_run_inv [OF assms(1)]
  have reg: "i < length (lm_objects (ps_lm s))" "su_txId (lm_objects (ps_lm s) ! i) = tx"
    using pubsub_invD(2) [OF inv] assms(2) by (auto simp: registered_def)
  have s1: "s1 = s\<lparr>ps_lm := distribute tx (ps_lm s)\<rparr>" using assms(4) by (auto elim: pubsub_stepE)
  have member: "i \<in> set (map snd (lm_subscriptions (ps_lm s)))" using assms(2) by force
  then have objs: "lm_objects (ps_lm s1) ! i = offer tx (lm_objects (ps_lm s) ! i)" "length (lm_objects (ps_lm s1)) = length (lm_objects (ps_lm s))"
    using distribute_objects(1) [OF pubsub_invD(2) [OF inv], of tx] distribute_objects(2) [OF pubsub_invD(2) [OF inv] reg(1), of tx]
    by (simp_all add: s1)
  then have "tx \<in> set (chan s1 i)" using assms(3) by (simp add: chan_def offer_def)
  moreover have "i < length (lm_objects (ps_lm s1))" "su_txId (lm_objects (ps_lm s1) ! i) = tx" using objs reg by (simp_all add: offer_def)
  ultimately have s2: "tx \<in> set (chan s2 i)" "i < length (lm_objects (ps_lm s2))" "su_txId (lm_objects (ps_lm s2) ! i) = tx"
    using buffered_steps [OF assms(5) pubsub_inv_step [OF inv assms(4)] _ assms(6)] by auto
  moreover have "length (chan s2 i) \<le> 2"
    using pubsub_invD(4) [OF steps_inv [OF assms(5) pubsub_inv_step [OF inv assms(4)]] s2(2)] .
  ultimately show ?thesis using wait_returns [OF refl assms(7), of] by (metis le_trans)
qed

theorem notification_wakes_waiter_witness:
  "\<exists>s s1 s2 n s3. pubsub_run [ESubscribe ''a''] s \<and> pubsub_step s (EDistribute ''a'') s1 \<and> pubsub_steps s1 [EBlock 0] s2 \<and>
    n \<le> (2 :: nat) \<and> pubsub_steps s2 (replicate n (EReceive 0)) s3 \<and> ps_wait s3 0 = Returned None"
proof -
  let ?l = "snd (Subscribe ''a'' NewListenManager)"
  let ?s = "pubsub_init\<lparr>ps_lm := ?l\<rparr>"
  let ?s1 = "?s\<lparr>ps_lm := distribute ''a'' ?l\<rparr>"
  let ?s2 = "?s1\<lparr>ps_wait := (ps_wait ?s1)(0 := Waiting)\<rparr>"
  have "pubsub_step pubsub_init (ESubscribe ''a'') ?s" by (rule subscribe [of _ _ 0]) (simp add: pubsub_run_simps)
  then have run: "pubsub_run [ESubscribe ''a''] ?s" using steps_Cons [OF stay] by blast
  have dist: "pubsub_step ?s (EDistribute ''a'') ?s1" using distributed [of ?s "''a''"] by simp
  have "pubsub_step ?s1 (EBlock 0) ?s2" by (rule block) (simp_all add: pubsub_run_simps)
  then have blocked: "pubsub_steps ?s1 [EBlock 0] ?s2" using steps_Cons [OF stay] by blast
  have "\<exists>n s3. n \<le> 2 \<and> pubsub_steps ?s2 (replicate n (EReceive 0)) s3 \<and> ps_wait s3 0 = Returned None"
    by (rule notification_wakes_waiter [OF run _ _ dist blocked]) (simp_all add: pubsub_run_simps chan_def)
  then show ?thesis using run dist blocked by blast
qed

text \<open>A notification can be lost: every notification goes to every subscription, and a channel holds two. When two notifications of other
  transactions are distributed before a request waits, its own is dropped, and unless its transaction is announced again the wait
  does not succeed: it ends with its context.\<close>

lemma full_channel_loses_notification:
  assumes "b \<noteq> a" "c \<noteq> a"
  shows "\<exists>s. pubsub_run [ESubscribe a, EDistribute b, EDistribute c, EDistribute a, EBlock 0] s \<and> ps_wait s 0 = Waiting \<and>
    (\<forall>es s'. pubsub_steps s es s' \<longrightarrow> EDistribute a \<notin> set es \<longrightarrow> ps_wait s' 0 \<noteq> Returned None)"
proof -
  let ?l1 = "snd (Subscribe a NewListenManager)"
  let ?l2 = "distribute b ?l1" let ?l3 = "distribute c ?l2" let ?l4 = "distribute a ?l3"
  let ?s1 = "pubsub_init\<lparr>ps_lm := ?l1\<rparr>"
  let ?s2 = "?s1\<lparr>ps_lm := ?l2\<rparr>" let ?s3 = "?s2\<lparr>ps_lm := ?l3\<rparr>" let ?s4 = "?s3\<lparr>ps_lm := ?l4\<rparr>"
  let ?s5 = "?s4\<lparr>ps_wait := (ps_wait ?s4)(0 := Waiting)\<rparr>"
  have "pubsub_step pubsub_init (ESubscribe a) ?s1" by (rule subscribe [of _ _ 0]) (simp add: pubsub_run_simps)
  moreover have "pubsub_step ?s1 (EDistribute b) ?s2" "pubsub_step ?s2 (EDistribute c) ?s3" "pubsub_step ?s3 (EDistribute a) ?s4"
    using distributed [of ?s1 b] distributed [of ?s2 c] distributed [of ?s3 a] by simp_all
  moreover have "pubsub_step ?s4 (EBlock 0) ?s5" by (rule block) (simp_all add: pubsub_run_simps)
  ultimately have run: "pubsub_run [ESubscribe a, EDistribute b, EDistribute c, EDistribute a, EBlock 0] ?s5" by (meson steps_Cons stay)
  have "ps_wait s' 0 \<noteq> Returned None" if "pubsub_steps ?s5 es s'" "EDistribute a \<notin> set es" for es s'
    using starved_steps [OF that(1) pubsub_run_inv [OF run], of 0 a] that(2) assms by (auto simp: pubsub_run_simps chan_def)
  then show ?thesis using run by (intro exI [of _ ?s5]) auto
qed

text \<open>C29. A lost connection is not re-established: with a driver whose mutex is free, waiting and notifying return exactly when there is an open
  connection, and then leave the mutex free. Without one \<open>ensureConnected\<close> calls \<open>Connect\<close> with the mutex held, which waits for
  itself forever.\<close>

theorem lost_connection_deadlocks:
  assumes "\<not> dv_mu d"
  shows "(Driver_Notify env payload d = None \<longleftrightarrow> (case dv_conn d of None \<Rightarrow> True | Some c \<Rightarrow> px_isClosed env c)) \<and>
    (Driver_WaitForNotification env d = None \<longleftrightarrow> (case dv_conn d of None \<Rightarrow> True | Some c \<Rightarrow> px_isClosed env c)) \<and>
    (\<forall>r d'. Driver_Notify env payload d = Some (r, d') \<longrightarrow> d' = d) \<and> (\<forall>r d'. Driver_WaitForNotification env d = Some (r, d') \<longrightarrow> d' = d) \<and>
    (\<forall>r d'. Driver_Close env d = Some (r, d') \<longrightarrow> Driver_Notify env payload d' = None)"
  using assms by (cases d) (auto simp: Driver_Notify_def Driver_WaitForNotification_def ensureConnected_def Driver_Connect_def Driver_Close_def locked_def
      split: option.splits)

definition sample_pgx_env :: "nat pgx_env" where
  "sample_pgx_env = \<lparr>px_acquire = Ok 1, px_isClosed = (\<lambda>c. c = 0), px_close = (\<lambda>_. None), px_listen = (\<lambda>_. None), px_ping = (\<lambda>_. None),
     px_wait = (\<lambda>_. Ok \<lparr>nt_Channel = ''consumer_notifications'', nt_Payload = ''a''\<rparr>), px_notify = (\<lambda>_ _. None)\<rparr>"

theorem lost_connection_deadlocks_witness:
  "Driver_Notify sample_pgx_env ''a'' \<lparr>dv_conn = Some 0, dv_mu = False\<rparr> = None \<and>
   Driver_Notify sample_pgx_env ''a'' \<lparr>dv_conn = Some 1, dv_mu = False\<rparr> = Some (None, \<lparr>dv_conn = Some 1, dv_mu = False\<rparr>)"
  using lost_connection_deadlocks [of "\<lparr>dv_conn = Some 0, dv_mu = False\<rparr>" sample_pgx_env "''a''"]
  by (simp add: sample_pgx_env_def Driver_Notify_def ensureConnected_def locked_def)

end
