(* ===== verification/Data_Model.thy ===== *)
theory Data_Model
  imports Resource_Repository
begin

text \<open>
  The validating constructors of the row types (\<open>internal/data/model\<close>) and the widths of their columns, and what the constructors guarantee of
  the rows they return. The limits are those of \<open>common.go\<close>, the widths those of the \<open>gorm\<close> tags. The constructors count the bytes of a
  string, as Go's \<open>len\<close> does; a column counts its characters. An unsigned integer is stored in a \<open>bigint\<close>, which ends below \<open>2 ^ 63\<close>.
\<close>

section \<open>Limits\<close>

definition MaxLocalResourceIDLength :: nat where "MaxLocalResourceIDLength = 128"
definition MaxReporterTypeLength :: nat where "MaxReporterTypeLength = 128"
definition MaxResourceTypeLength :: nat where "MaxResourceTypeLength = 128"
definition MaxReporterInstanceIDLength :: nat where "MaxReporterInstanceIDLength = 256"
definition MaxReporterVersionLength :: nat where "MaxReporterVersionLength = 128"
definition MaxAPIHrefLength :: nat where "MaxAPIHrefLength = 512"
definition MaxConsoleHrefLength :: nat where "MaxConsoleHrefLength = 512"
definition MaxTransactionIdLength :: nat where "MaxTransactionIdLength = 128"
definition MinVersionValue :: uint where "MinVersionValue = 0"
definition MinGenerationValue :: uint where "MinGenerationValue = 0"
definition MinCommonVersion :: uint where "MinCommonVersion = 0"

lemmas limits = MaxLocalResourceIDLength_def MaxReporterTypeLength_def MaxResourceTypeLength_def MaxReporterInstanceIDLength_def
  MaxReporterVersionLength_def MaxAPIHrefLength_def MaxConsoleHrefLength_def MaxTransactionIdLength_def MinVersionValue_def
  MinGenerationValue_def MinCommonVersion_def

section \<open>Constructors\<close>

definition validateReporterResource :: "(string \<Rightarrow> bool) \<Rightarrow> data_reporter_resource \<Rightarrow> go_error option" where
  "validateReporterResource url_ok r =
     (let consoleHref = (case rrs_ConsoleHref r of None \<Rightarrow> [] | Some h \<Rightarrow> h); key = rrs_Key r
      in AggregateErrors
        [ValidateUUIDRequired ''ID'' (rrs_ID r),
         ValidateStringRequired ''LocalResourceID'' (rks_LocalResourceID key),
         ValidateMaxLength ''LocalResourceID'' (rks_LocalResourceID key) MaxLocalResourceIDLength,
         ValidateStringRequired ''ReporterType'' (rks_ReporterType key),
         ValidateMaxLength ''ReporterType'' (rks_ReporterType key) MaxReporterTypeLength,
         ValidateStringRequired ''ResourceType'' (rks_ResourceType key),
         ValidateMaxLength ''ResourceType'' (rks_ResourceType key) MaxResourceTypeLength,
         ValidateStringRequired ''ReporterInstanceID'' (rks_ReporterInstanceID key),
         ValidateMaxLength ''ReporterInstanceID'' (rks_ReporterInstanceID key) MaxReporterInstanceIDLength,
         ValidateUUIDRequired ''ResourceID'' (rrs_ResourceID r),
         ValidateMinValue ''Generation'' (rrs_Generation r) MinGenerationValue,
         ValidateMinValue ''RepresentationVersion'' (rrs_RepresentationVersion r) 0,
         ValidateOptionalURL url_ok ''APIHref'' (rrs_APIHref r) MaxAPIHrefLength,
         ValidateOptionalURL url_ok ''ConsoleHref'' consoleHref MaxConsoleHrefLength])"

definition Data_NewReporterResource ::
    "(string \<Rightarrow> bool) \<Rightarrow> uuid \<Rightarrow> string \<Rightarrow> string \<Rightarrow> string \<Rightarrow> string \<Rightarrow> uuid \<Rightarrow> string \<Rightarrow> string option \<Rightarrow> uint \<Rightarrow> uint \<Rightarrow> bool \<Rightarrow>
     data_reporter_resource result" where
  "Data_NewReporterResource url_ok i localResourceID reporterType resourceType reporterInstanceID resourceID apiHref consoleHref
       representationVersion generation tombstone =
     (let rr = \<lparr>rrs_ID = i, rrs_Key = \<lparr>rks_LocalResourceID = localResourceID, rks_ReporterType = reporterType, rks_ResourceType = resourceType,
            rks_ReporterInstanceID = reporterInstanceID\<rparr>, rrs_ResourceID = resourceID, rrs_APIHref = apiHref, rrs_ConsoleHref = consoleHref,
            rrs_RepresentationVersion = representationVersion, rrs_Generation = generation, rrs_Tombstone = tombstone,
            rrs_CreatedAt = zero_time, rrs_UpdatedAt = zero_time\<rparr>
      in case validateReporterResource url_ok rr of Some err \<Rightarrow> Err err | None \<Rightarrow> Ok rr)"

definition validateCommonRepresentation :: "data_common_representation \<Rightarrow> go_error option" where
  "validateCommonRepresentation cr = AggregateErrors
     [ValidateUUIDRequired ''ResourceId'' (crs_ResourceId cr),
      ValidateMinValueUint ''Version'' (crs_Version cr) MinVersionValue,
      ValidateStringRequired ''ReportedByReporterType'' (crs_ReportedByReporterType cr),
      ValidateMaxLength ''ReportedByReporterType'' (crs_ReportedByReporterType cr) MaxReporterTypeLength,
      ValidateStringRequired ''ReportedByReporterInstance'' (crs_ReportedByReporterInstance cr),
      ValidateMaxLength ''ReportedByReporterInstance'' (crs_ReportedByReporterInstance cr) MaxReporterInstanceIDLength,
      ValidateMaxLength ''TransactionId'' (crs_TransactionId cr) MaxTransactionIdLength]"

definition Data_NewCommonRepresentation ::
    "uuid \<Rightarrow> representation \<Rightarrow> uint \<Rightarrow> string \<Rightarrow> string \<Rightarrow> string \<Rightarrow> data_common_representation result" where
  "Data_NewCommonRepresentation resourceId data version reportedByReporterType reportedByReporterInstance transactionId =
     (let cr = \<lparr>crs_Data = data, crs_ResourceId = resourceId, crs_Version = version, crs_ReportedByReporterType = reportedByReporterType,
            crs_ReportedByReporterInstance = reportedByReporterInstance, crs_TransactionId = transactionId, crs_CreatedAt = zero_time\<rparr>
      in case validateCommonRepresentation cr of Some err \<Rightarrow> Err err | None \<Rightarrow> Ok cr)"

definition validateReporterRepresentation :: "data_reporter_representation \<Rightarrow> go_error option" where
  "validateReporterRepresentation rr =
     (if rps_Tombstone rr \<and> rps_CommonVersion rr \<noteq> None then Some (Errorf ''CommonVersion: must be nil when Tombstone is true'')
      else AggregateErrors
        [ValidateUUIDRequired ''ReporterResourceID'' (rps_ReporterResourceID rr),
         ValidateMinValueUint ''Version'' (rps_Version rr) MinVersionValue,
         ValidateMinValueUint ''Generation'' (rps_Generation rr) MinGenerationValue,
         (case rps_CommonVersion rr of None \<Rightarrow> None | Some v \<Rightarrow> ValidateMinValueUint ''CommonVersion'' v MinCommonVersion),
         ValidateMaxLength ''TransactionId'' (rps_TransactionId rr) MaxTransactionIdLength,
         ValidateOptionalString ''ReporterVersion'' (rps_ReporterVersion rr) MaxReporterVersionLength])"

definition Data_NewReporterRepresentation ::
    "representation \<Rightarrow> uuid \<Rightarrow> uint \<Rightarrow> uint \<Rightarrow> uint option \<Rightarrow> string \<Rightarrow> bool \<Rightarrow> string option \<Rightarrow> data_reporter_representation result" where
  "Data_NewReporterRepresentation data reporterResourceID version generation commonVersion transactionId tombstone reporterVersion =
     (let rr = \<lparr>rps_Data = data, rps_ReporterResourceID = reporterResourceID, rps_Version = version, rps_Generation = generation,
            rps_ReporterVersion = reporterVersion, rps_CommonVersion = commonVersion, rps_TransactionId = transactionId, rps_Tombstone = tombstone,
            rps_CreatedAt = zero_time\<rparr>
      in case validateReporterRepresentation rr of Some err \<Rightarrow> Err err | None \<Rightarrow> Ok rr)"

section \<open>Columns\<close>

text \<open>The characters of a string in UTF-8 are its bytes without the continuation bytes \<open>10xxxxxx\<close>.\<close>

definition utf8_length :: "string \<Rightarrow> nat" where
  "utf8_length x = length (filter (\<lambda>c. \<not> (128 \<le> (of_char c :: nat) \<and> (of_char c :: nat) < 192)) x)"

definition fits_bigint :: "uint \<Rightarrow> bool" where
  "fits_bigint v \<longleftrightarrow> unat v < 2 ^ 63"

text \<open>The widths of the columns of a row.\<close>

definition reporter_resource_fits :: "data_reporter_resource \<Rightarrow> bool" where
  "reporter_resource_fits r \<longleftrightarrow> utf8_length (rks_LocalResourceID (rrs_Key r)) \<le> 256 \<and> utf8_length (rks_ReporterType (rrs_Key r)) \<le> 128 \<and>
     utf8_length (rks_ResourceType (rrs_Key r)) \<le> 128 \<and> utf8_length (rks_ReporterInstanceID (rrs_Key r)) \<le> 256 \<and>
     utf8_length (rrs_APIHref r) \<le> 512 \<and> (case rrs_ConsoleHref r of None \<Rightarrow> True | Some h \<Rightarrow> utf8_length h \<le> 512) \<and>
     fits_bigint (rrs_RepresentationVersion r) \<and> fits_bigint (rrs_Generation r)"

definition common_representation_fits :: "data_common_representation \<Rightarrow> bool" where
  "common_representation_fits cr \<longleftrightarrow> fits_bigint (crs_Version cr) \<and> utf8_length (crs_ReportedByReporterType cr) \<le> 128 \<and>
     utf8_length (crs_ReportedByReporterInstance cr) \<le> 128 \<and> utf8_length (crs_TransactionId cr) \<le> 128"

definition reporter_representation_fits :: "data_reporter_representation \<Rightarrow> bool" where
  "reporter_representation_fits rr \<longleftrightarrow> fits_bigint (rps_Version rr) \<and> fits_bigint (rps_Generation rr) \<and>
     (case rps_ReporterVersion rr of None \<Rightarrow> True | Some v \<Rightarrow> utf8_length v \<le> 128) \<and>
     (case rps_CommonVersion rr of None \<Rightarrow> True | Some v \<Rightarrow> fits_bigint v) \<and> utf8_length (rps_TransactionId rr) \<le> 128"

lemma utf8_length_le: "length x \<le> n \<Longrightarrow> utf8_length x \<le> n"
  unfolding utf8_length_def using length_filter_le order_trans by blast

lemma utf8_length_ascii: "\<forall>c \<in> set x. (of_char c :: nat) < 128 \<Longrightarrow> utf8_length x = length x"
  by (auto simp: utf8_length_def intro!: arg_cong [where f = length] filter_True)

lemmas validations = ValidateUUIDRequired_def ValidateStringRequired_def ValidateRequired_def ValidateMaxLength_def ValidateMinValue_def
  ValidateMinValueUint_def ValidateOptionalString_def ValidateOptionalURL_def AggregateErrors_None_iff limits

lemma reporter_resource_accepted_fits:
  assumes "validateReporterResource url_ok r = None"
  shows "reporter_resource_fits r \<longleftrightarrow> fits_bigint (rrs_RepresentationVersion r) \<and> fits_bigint (rrs_Generation r)"
  using assms by (auto simp: validateReporterResource_def Let_def validations reporter_resource_fits_def utf8_length_le split: if_splits option.splits)

lemma reporter_representation_accepted_fits:
  assumes "validateReporterRepresentation r = None"
  shows "reporter_representation_fits r \<longleftrightarrow> fits_bigint (rps_Version r) \<and> fits_bigint (rps_Generation r) \<and>
      (\<forall>v. rps_CommonVersion r = Some v \<longrightarrow> fits_bigint v)"
    "\<not> (rps_Tombstone r \<and> rps_CommonVersion r \<noteq> None)"
  using assms by (auto simp: validateReporterRepresentation_def validations reporter_representation_fits_def utf8_length_le
      split: if_splits option.splits)

lemma common_representation_accepted:
  "validateCommonRepresentation cr = None \<longleftrightarrow> crs_ResourceId cr \<noteq> uuid_Nil \<and> TrimSpace (crs_ReportedByReporterType cr) \<noteq> [] \<and>
     TrimSpace (crs_ReportedByReporterInstance cr) \<noteq> [] \<and> length (crs_ReportedByReporterType cr) \<le> 128 \<and>
     length (crs_ReportedByReporterInstance cr) \<le> 256 \<and> length (crs_TransactionId cr) \<le> 128"
  by (auto simp: validateCommonRepresentation_def validations)

lemma common_representation_constructed:
  assumes "rid \<noteq> uuid_Nil" "TrimSpace rt \<noteq> []" "TrimSpace inst \<noteq> []" "length rt \<le> 128" "length inst \<le> 256" "length tx \<le> 128"
  shows "Data_NewCommonRepresentation rid data v rt inst tx = Inr \<lparr>crs_Data = data, crs_ResourceId = rid, crs_Version = v,
    crs_ReportedByReporterType = rt, crs_ReportedByReporterInstance = inst, crs_TransactionId = tx, crs_CreatedAt = zero_time\<rparr>"
proof -
  have "validateCommonRepresentation \<lparr>crs_Data = data, crs_ResourceId = rid, crs_Version = v, crs_ReportedByReporterType = rt,
      crs_ReportedByReporterInstance = inst, crs_TransactionId = tx, crs_CreatedAt = zero_time\<rparr> = None"
    unfolding common_representation_accepted using assms by simp
  then show ?thesis by (simp add: Data_NewCommonRepresentation_def)
qed

section \<open>Properties\<close>

text \<open>C31. Rows that pass their constructor fit the columns they are stored in, with exactly two exceptions. Versions and generations from
  \<open>2 ^ 63\<close> on, which every constructor accepts, do not fit a \<open>bigint\<close>. A common representation whose reporter instance has more than 128
  characters does not fit: its constructor accepts up to 256 bytes, which the column of the instance in \<open>reporter_resources\<close> holds and
  that in \<open>common_representations\<close> does not. Both exceptions occur.\<close>

theorem constructed_rows_fit:
  "(\<forall>r. Data_NewReporterResource url_ok i l rt ty inst rid api console v g t = Inr r \<longrightarrow> rrs_ID r \<noteq> uuid_Nil \<and>
      (reporter_resource_fits r \<longleftrightarrow> fits_bigint v \<and> fits_bigint g)) \<and>
   (\<forall>r. Data_NewReporterRepresentation data rrid v g cv tx t rv = Inr r \<longrightarrow> (t \<longrightarrow> cv = None) \<and>
      (reporter_representation_fits r \<longleftrightarrow> fits_bigint v \<and> fits_bigint g \<and> (\<forall>w. cv = Some w \<longrightarrow> fits_bigint w))) \<and>
   (\<forall>r. Data_NewCommonRepresentation rid data v rt inst tx = Inr r \<longrightarrow>
      (common_representation_fits r \<longleftrightarrow> fits_bigint v \<and> utf8_length inst \<le> 128)) \<and>
   (\<exists>r. Data_NewCommonRepresentation 1 data 0 ''hbi'' (replicate 256 CHR ''i'') [] = Inr r \<and> \<not> common_representation_fits r) \<and>
   (\<exists>r. Data_NewCommonRepresentation 1 data (2 ^ 63) ''hbi'' ''i'' [] = Inr r \<and> \<not> common_representation_fits r)"
proof (intro conjI allI impI)
  fix r assume "Data_NewReporterResource url_ok i l rt ty inst rid api console v g t = Inr r"
  then have "validateReporterResource url_ok r = None" "rrs_RepresentationVersion r = v" "rrs_Generation r = g"
    by (auto simp: Data_NewReporterResource_def Let_def split: option.splits)
  then show "reporter_resource_fits r \<longleftrightarrow> fits_bigint v \<and> fits_bigint g" "rrs_ID r \<noteq> uuid_Nil"
    using reporter_resource_accepted_fits by (auto simp: validateReporterResource_def Let_def validations split: if_splits)
next
  fix r assume *: "Data_NewReporterRepresentation data rrid v g cv tx t rv = Inr r"
  then have "validateReporterRepresentation r = None" "rps_Tombstone r = t" "rps_CommonVersion r = cv" "rps_Version r = v" "rps_Generation r = g"
    by (auto simp: Data_NewReporterRepresentation_def Let_def split: option.splits)
  then show "reporter_representation_fits r \<longleftrightarrow> fits_bigint v \<and> fits_bigint g \<and> (\<forall>w. cv = Some w \<longrightarrow> fits_bigint w)" "t \<Longrightarrow> cv = None"
    using reporter_representation_accepted_fits by auto
next
  fix r assume "Data_NewCommonRepresentation rid data v rt inst tx = Inr r"
  then have "validateCommonRepresentation r = None" "crs_ReportedByReporterInstance r = inst" "crs_Version r = v"
    by (auto simp: Data_NewCommonRepresentation_def Let_def split: option.splits)
  then show "common_representation_fits r \<longleftrightarrow> fits_bigint v \<and> utf8_length inst \<le> 128"
    by (auto simp: common_representation_accepted common_representation_fits_def utf8_length_le)
next
  have "TrimSpace (replicate 256 CHR ''i'') \<noteq> []" "TrimSpace ''hbi'' \<noteq> []"
    by (simp_all add: TrimSpace_def is_space_def numeral_eq_Suc)
  moreover have "utf8_length (replicate 256 CHR ''i'') = 256" by (simp add: utf8_length_ascii)
  ultimately show "\<exists>r. Data_NewCommonRepresentation 1 data 0 ''hbi'' (replicate 256 CHR ''i'') [] = Inr r \<and> \<not> common_representation_fits r"
    by (simp add: common_representation_constructed common_representation_fits_def)
next
  have "TrimSpace ''i'' \<noteq> []" "TrimSpace ''hbi'' \<noteq> []" by (simp_all add: TrimSpace_def is_space_def)
  moreover have "\<not> fits_bigint (2 ^ 63)" by (simp add: fits_bigint_def)
  ultimately show "\<exists>r. Data_NewCommonRepresentation 1 data (2 ^ 63) ''hbi'' ''i'' [] = Inr r \<and> \<not> common_representation_fits r"
    by (simp add: common_representation_constructed common_representation_fits_def del: power_numeral)
qed

theorem constructed_rows_fit_witness:
  "(\<exists>r. Data_NewReporterResource (\<lambda>_. True) 1 ''l'' ''hbi'' ''host'' ''instance'' 1 ''https://a'' None 0 0 False = Inr r \<and> reporter_resource_fits r) \<and>
   (\<exists>r. Data_NewReporterRepresentation None 1 0 0 (Some 3) [] False None = Inr r \<and> reporter_representation_fits r) \<and>
   (\<exists>r. Data_NewCommonRepresentation 1 None 0 ''hbi'' ''instance'' [] = Inr r \<and> common_representation_fits r)"
proof -
  have "is_ok (Data_NewReporterResource (\<lambda>_. True) 1 ''l'' ''hbi'' ''host'' ''instance'' 1 ''https://a'' None 0 0 False)"
    "is_ok (Data_NewReporterRepresentation None 1 0 0 (Some 3) [] False None)" "is_ok (Data_NewCommonRepresentation 1 None 0 ''hbi'' ''instance'' [])"
    by code_simp+
  moreover have "fits_bigint 0 \<and> fits_bigint 3 \<and> utf8_length ''instance'' \<le> 128" by (simp add: fits_bigint_def utf8_length_le)
  ultimately show ?thesis
    using constructed_rows_fit [where url_ok = "\<lambda>_. True" and i = 1 and l = "''l''" and rt = "''hbi''" and ty = "''host''" and inst = "''instance''"
        and rid = 1 and api = "''https://a''" and console = None and v = 0 and g = 0 and t = False and data = None and rrid = 1 and cv = "Some 3"
        and tx = "[]" and rv = None]
    by (auto simp: is_ok_iff)
qed

end
