(* ===== verification/Migrations.thy ===== *)
theory Migrations
  imports Relations_Repo
begin

text \<open>
  Schema migrations (\<open>internal/data/migrations\<close>, \<open>internal/data/migrate.go\<close>): the list of migrations and its check at start-up, the advisory lock
  that lets one process migrate at a time, and the runner. The migrations themselves are statements the database executes, the
  engine that applies them (\<open>gormigrate\<close>) is a parameter, as are the operations they ask of the database. \<open>migration_step\<close> interleaves processes between the statements of
  \<open>WithAdvisoryLock\<close>; PostgreSQL grants the lock to one session at a time and takes it back when the session's connection closes.
\<close>

section \<open>Timestamps\<close>

text \<open>\<open>time.Parse("20060102150405", s)\<close>: year, month, day, hour, minute and second in digits, in range; a fraction of a second
  may follow. The value is the list of these numbers, most significant first.\<close>

definition days_in :: "nat \<Rightarrow> nat \<Rightarrow> nat" where
  "days_in year month = (if month = 2 then (if year mod 4 = 0 \<and> (year mod 100 \<noteq> 0 \<or> year mod 400 = 0) then 29 else 28)
     else if month \<in> {4, 6, 9, 11} then 30 else 31)"

definition fraction_ok :: "string \<Rightarrow> bool" where
  "fraction_ok f \<longleftrightarrow> f = [] \<or> (length f \<ge> 2 \<and> (hd f = CHR ''.'' \<or> hd f = CHR '','') \<and> list_all is_digit (tl f))"

text \<open>Nanoseconds: the first nine digits of the fraction.\<close>

definition fraction_value :: "string \<Rightarrow> nat" where
  "fraction_value f = (if f = [] then 0 else digits_value (take 9 (tl f @ replicate 9 (CHR ''0''))))"

definition parse_timestamp :: "string \<Rightarrow> nat list option" where
  "parse_timestamp s =
     (let ds = take 14 s; f = drop 14 s;
          num = (\<lambda>i n. digits_value (take n (drop i ds)));
          year = num 0 4; month = num 4 2; day = num 6 2; hour = num 8 2; minute = num 10 2; second = num 12 2
      in if length ds = 14 \<and> list_all is_digit ds \<and> 1 \<le> month \<and> month \<le> 12 \<and> 1 \<le> day \<and> day \<le> days_in year month \<and>
            hour < 24 \<and> minute < 60 \<and> second < 60 \<and> fraction_ok f
         then Some [year, month, day, hour, minute, second, fraction_value f] else None)"

fun lex_less :: "nat list \<Rightarrow> nat list \<Rightarrow> bool" where
  "lex_less (x # xs) (y # ys) \<longleftrightarrow> x < y \<or> x = y \<and> lex_less xs ys"
| "lex_less _ _ \<longleftrightarrow> False"

section \<open>List of migrations\<close>

text \<open>A migration by its id and its two functions on the database; \<open>Rollback\<close> may be nil.\<close>

record 'db migration =
  mg_ID :: string
  mg_Migrate :: "'db \<Rightarrow> go_error option \<times> 'db"
  mg_Rollback :: "('db \<Rightarrow> go_error option \<times> 'db) option"

text \<open>What migrations ask of the database: the name of its dialect, creating or completing the tables of types, dropping a table, a statement.\<close>

record 'db migrator =
  mi_Name :: string
  mi_AutoMigrate :: "string list \<Rightarrow> 'db \<Rightarrow> go_error option \<times> 'db"
  mi_DropTable :: "string \<Rightarrow> 'db \<Rightarrow> go_error option \<times> 'db"
  mi_Exec :: "string \<Rightarrow> 'db \<Rightarrow> go_error option \<times> 'db"

definition InitialSchema :: "'db migrator \<Rightarrow> 'db migration" where
  "InitialSchema mi = \<lparr>mg_ID = ''20251210120000'',
     mg_Migrate = mi_AutoMigrate mi [''Resource'', ''ReporterResource'', ''ReporterRepresentation'', ''CommonRepresentation'', ''OutboxEvent''],
     mg_Rollback = Some (\<lambda>tx. (None, tx))\<rparr>"

definition MetricsSummaryMigration :: "'db migrator \<Rightarrow> 'db migration" where
  "MetricsSummaryMigration mi = \<lparr>mg_ID = ''20260325120000'', mg_Migrate = mi_AutoMigrate mi [''MetricsSummary''],
     mg_Rollback = Some (mi_DropTable mi ''MetricsSummary'')\<rparr>"

definition ReporterResourcesNotTombstoneIdxMigration :: "'db migrator \<Rightarrow> 'db migration" where
  "ReporterResourcesNotTombstoneIdxMigration mi = \<lparr>mg_ID = ''20260326120000'',
     mg_Migrate = (if mi_Name mi = ''postgres''
       then mi_Exec mi ''CREATE INDEX CONCURRENTLY IF NOT EXISTS idx_reporter_resources_not_tombstone ON reporter_resources (resource_type, reporter_type, reporter_instance_id) WHERE NOT tombstone''
       else mi_Exec mi ''CREATE INDEX IF NOT EXISTS idx_reporter_resources_not_tombstone ON reporter_resources (resource_type, reporter_type, reporter_instance_id) WHERE NOT tombstone''),
     mg_Rollback = Some (mi_Exec mi ''DROP INDEX IF EXISTS idx_reporter_resources_not_tombstone'')\<rparr>"

definition DropOutboxEventsMigration :: "'db migrator \<Rightarrow> 'db migration" where
  "DropOutboxEventsMigration mi = \<lparr>mg_ID = ''20260803120000'',
     mg_Migrate = (\<lambda>tx. case mi_Exec mi ''DROP TABLE IF EXISTS outbox_events'' tx of
         (Some err, tx') \<Rightarrow> (Some (Errorf ''failed to drop outbox_events table''), tx') | (None, tx') \<Rightarrow> (None, tx')),
     mg_Rollback = Some (\<lambda>tx. (Some (Errorf ''irreversible migration: outbox_events table has been dropped and cannot be restored''), tx))\<rparr>"

definition MigrationsList :: "'db migrator \<Rightarrow> 'db migration option list" where
  "MigrationsList mi = map Some [InitialSchema mi, MetricsSummaryMigration mi, ReporterResourcesNotTombstoneIdxMigration mi, DropOutboxEventsMigration mi]"

text \<open>The loop of the check; \<open>prev\<close> is the timestamp of the migration before, if there is one.\<close>

fun validate_from :: "nat list option \<Rightarrow> 'db migration option list \<Rightarrow> go_error option" where
  "validate_from prev [] = None"
| "validate_from prev (m # ms) = (case m of
     None \<Rightarrow> Some (Errorf ''migration is nil'')
   | Some mg \<Rightarrow> if mg_ID mg = [] then Some (Errorf ''migration has empty ID'')
       else (case parse_timestamp (mg_ID mg) of
           None \<Rightarrow> Some (Errorf ''migration ID is not a valid timestamp'')
         | Some current \<Rightarrow> (case prev of
             Some p \<Rightarrow> if \<not> lex_less p current then Some (Errorf ''migration ID must be strictly later than previous ID'')
               else validate_from (Some current) ms
           | None \<Rightarrow> validate_from (Some current) ms)))"

definition validateMigrationsList :: "'db migration option list \<Rightarrow> go_error option" where
  "validateMigrationsList migrations = validate_from None migrations"

definition wrapGormigrateMigrationsWithLogger :: "'db migration list \<Rightarrow> 'db migration list" where
  "wrapGormigrateMigrationsWithLogger migrations = map (\<lambda>m. \<lparr>mg_ID = mg_ID m, mg_Migrate = mg_Migrate m,
     mg_Rollback = Some (case mg_Rollback m of None \<Rightarrow> (\<lambda>tx. (None, tx)) | Some f \<Rightarrow> f)\<rparr>) migrations"

section \<open>Advisory lock\<close>

text \<open>What the sections of \<open>WithAdvisoryLock\<close> find: the errors of opening the connection and of locking, and the function to run on the
  connection that holds the lock. The list is what was done on that connection, in order.\<close>

datatype lock_action = OpenConn | TakeLock | RunBody | ReleaseLock | CloseConn

record lock_env =
  le_dbErr :: "go_error option"
  le_connErr :: "go_error option"
  le_lockErr :: "go_error option"

definition isPostgres :: "string \<Rightarrow> bool" where
  "isPostgres name \<longleftrightarrow> name = ''postgres''"

definition WithAdvisoryLock :: "string \<Rightarrow> lock_env \<Rightarrow> ('db \<Rightarrow> go_error option \<times> 'db) \<Rightarrow> 'db \<Rightarrow> go_error option \<times> lock_action list \<times> 'db" where
  "WithAdvisoryLock name env fn db =
     (if \<not> isPostgres name then (case fn db of (err, db') \<Rightarrow> (err, [RunBody], db'))
      else case le_dbErr env of Some err \<Rightarrow> (Some err, [], db)
      | None \<Rightarrow> (case le_connErr env of Some err \<Rightarrow> (Some err, [], db)
      | None \<Rightarrow> (case le_lockErr env of Some err \<Rightarrow> (Some err, [OpenConn, CloseConn], db)
      | None \<Rightarrow> (case fn db of (err, db') \<Rightarrow> (err, [OpenConn, TakeLock, RunBody, ReleaseLock, CloseConn], db')))))"

section \<open>Runner\<close>

text \<open>The engine of \<open>gormigrate\<close> for a list of migrations; the factory gives it the list with the functions wrapped, when there is a logger.\<close>

record 'db engine =
  en_Migrate :: "'db \<Rightarrow> go_error option \<times> 'db"
  en_MigrateTo :: "string \<Rightarrow> 'db \<Rightarrow> go_error option \<times> 'db"

definition NewEngine :: "('db migration list \<Rightarrow> 'db engine) \<Rightarrow> bool \<Rightarrow> 'db migrator \<Rightarrow> 'db engine" where
  "NewEngine gormigrate logger mi =
     (let migrations = map the (MigrationsList mi)
      in gormigrate (if logger then wrapGormigrateMigrationsWithLogger migrations else migrations))"

text \<open>What a run finds: the migration engine, whether there is a logger, the database's own operations and the sections of the lock.\<close>

record 'db migration_env =
  me_gormigrate :: "'db migration list \<Rightarrow> 'db engine"
  me_logger :: bool
  me_migrator :: "'db migrator"
  me_lock :: lock_env

definition runMigrations ::
    "'db migration_env \<Rightarrow> ('db engine \<Rightarrow> 'db \<Rightarrow> go_error option \<times> 'db) \<Rightarrow> 'db option \<Rightarrow> go_error option \<times> lock_action list \<times> 'db option" where
  "runMigrations env migrateFn db = (case db of
     None \<Rightarrow> (Some (Errorf ''cannot run migrations with nil db''), [], None)
   | Some d \<Rightarrow> (case WithAdvisoryLock (mi_Name (me_migrator env)) (me_lock env) (\<lambda>tx.
         case migrateFn (NewEngine (me_gormigrate env) (me_logger env) (me_migrator env)) tx of
         (Some err, tx') \<Rightarrow> (Some err, tx')
       | (None, tx') \<Rightarrow> if mi_Name (me_migrator env) = ''sqlite'' then mi_Exec (me_migrator env) ''PRAGMA foreign_keys = ON'' tx' else (None, tx')) d of
       (err, acts, d') \<Rightarrow> (err, acts, Some d')))"

definition Migrations_Run :: "'db migration_env \<Rightarrow> 'db option \<Rightarrow> go_error option \<times> lock_action list \<times> 'db option" where
  "Migrations_Run env db = runMigrations env en_Migrate db"

definition RunTo :: "'db migration_env \<Rightarrow> string \<Rightarrow> 'db option \<Rightarrow> go_error option \<times> lock_action list \<times> 'db option" where
  "RunTo env targetID db =
     (if targetID = [] then (Some (Errorf ''cannot run migrations with empty targetID''), [], db)
      else runMigrations env (\<lambda>e. en_MigrateTo e targetID) db)"

definition Migrate :: "'db migration_env \<Rightarrow> 'db option \<Rightarrow> go_error option \<times> lock_action list \<times> 'db option" where
  "Migrate env db = (case db of None \<Rightarrow> (Some (Errorf ''cannot migrate with nil db''), [], None) | Some _ \<Rightarrow> Migrations_Run env db)"

definition MigrateTo :: "'db migration_env \<Rightarrow> string \<Rightarrow> 'db option \<Rightarrow> go_error option \<times> lock_action list \<times> 'db option" where
  "MigrateTo env targetID db =
     (if db = None then (Some (Errorf ''cannot migrate with nil db''), [], None)
      else if targetID = [] then (Some (Errorf ''cannot migrate with empty targetID''), [], db)
      else RunTo env targetID db)"

section \<open>Several processes\<close>

text \<open>Where a process is in \<open>WithAdvisoryLock\<close> on PostgreSQL; while it migrates, after how many statements.\<close>

datatype migration_pc = Idle | Connected | Running nat | Unlocked | Finished

record 'db migration_state =
  mst_pc :: "nat \<Rightarrow> migration_pc"
  mst_holder :: "nat option"
  mst_db :: 'db

text \<open>The migrations of a process are a list of statements, not in a transaction; it may stop after any of them, with an error. The unlock may fail.
  \<open>conn.Close\<close> hands the connection back to the pool of the process, where its session and what that locked stay (\<open>pooled\<close>); the session ends when the
  pool drops a broken connection or the process dies, at any point (\<open>closed\<close>).\<close>

inductive migration_step :: "(nat \<Rightarrow> ('db \<Rightarrow> 'db) list) \<Rightarrow> 'db migration_state \<Rightarrow> nat \<times> lock_action \<Rightarrow> 'db migration_state \<Rightarrow> bool" for body where
  opened: "mst_pc s p = Idle \<Longrightarrow> migration_step body s (p, OpenConn) (s\<lparr>mst_pc := (mst_pc s)(p := Connected)\<rparr>)"
| took: "mst_pc s p = Connected \<Longrightarrow> mst_holder s = None \<Longrightarrow>
    migration_step body s (p, TakeLock) (s\<lparr>mst_pc := (mst_pc s)(p := Running 0), mst_holder := Some p\<rparr>)"
| ran: "mst_pc s p = Running n \<Longrightarrow> n < length (body p) \<Longrightarrow>
    migration_step body s (p, RunBody) (s\<lparr>mst_pc := (mst_pc s)(p := Running (Suc n)), mst_db := (body p ! n) (mst_db s)\<rparr>)"
| released: "mst_pc s p = Running n \<Longrightarrow> migration_step body s (p, ReleaseLock) (s\<lparr>mst_pc := (mst_pc s)(p := Unlocked), mst_holder := None\<rparr>)"
| not_released: "mst_pc s p = Running n \<Longrightarrow> migration_step body s (p, ReleaseLock) (s\<lparr>mst_pc := (mst_pc s)(p := Unlocked)\<rparr>)"
| closed: "mst_pc s p \<noteq> Idle \<Longrightarrow> mst_pc s p \<noteq> Finished \<Longrightarrow>
    migration_step body s (p, CloseConn) (s\<lparr>mst_pc := (mst_pc s)(p := Finished), mst_holder := (if mst_holder s = Some p then None else mst_holder s)\<rparr>)"
| pooled: "mst_pc s p = Connected \<or> mst_pc s p = Unlocked \<Longrightarrow> migration_step body s (p, CloseConn) (s\<lparr>mst_pc := (mst_pc s)(p := Finished)\<rparr>)"

inductive migration_run :: "(nat \<Rightarrow> ('db \<Rightarrow> 'db) list) \<Rightarrow> 'db \<Rightarrow> (nat \<times> lock_action) list \<Rightarrow> 'db migration_state \<Rightarrow> bool" for body db0 where
  begun: "migration_run body db0 [] \<lparr>mst_pc = (\<lambda>_. Idle), mst_holder = None, mst_db = db0\<rparr>"
| went: "migration_run body db0 tr s \<Longrightarrow> migration_step body s e s' \<Longrightarrow> migration_run body db0 (tr @ [e]) s'"

section \<open>Laws\<close>

text \<open>A process that migrates holds the lock, one that has not begun ran nothing, and since a migrating process ran its first statement no other
  process ran any.\<close>

definition migration_inv :: "(nat \<times> lock_action) list \<Rightarrow> 'db migration_state \<Rightarrow> bool" where
  "migration_inv tr s \<longleftrightarrow>
     (\<forall>p n. mst_pc s p = Running n \<longrightarrow> mst_holder s = Some p) \<and>
     (\<forall>p. mst_pc s p = Idle \<or> mst_pc s p = Connected \<longrightarrow> (p, RunBody) \<notin> set tr) \<and>
     (\<forall>p n t1 t2 q. mst_pc s p = Running n \<longrightarrow> tr = t1 @ (p, RunBody) # t2 \<longrightarrow> (q, RunBody) \<in> set t2 \<longrightarrow> q = p)"

lemma snoc_split:
  assumes "tr @ [e] = t1 @ x # t2"
  shows "(t2 = [] \<and> e = x \<and> tr = t1) \<or> (\<exists>t2'. t2 = t2' @ [e] \<and> tr = t1 @ x # t2')"
  using assms by (cases t2 rule: rev_cases) auto

lemma migration_inv_step:
  assumes "migration_inv tr s" "migration_step body s e s'"
  shows "migration_inv (tr @ [e]) s'"
proof -
  have inv: "\<And>p n. mst_pc s p = Running n \<Longrightarrow> mst_holder s = Some p"
      "\<And>p. mst_pc s p = Idle \<or> mst_pc s p = Connected \<Longrightarrow> (p, RunBody) \<notin> set tr"
      "\<And>p n t1 t2 q. mst_pc s p = Running n \<Longrightarrow> tr = t1 @ (p, RunBody) # t2 \<Longrightarrow> (q, RunBody) \<in> set t2 \<Longrightarrow> q = p"
    using assms(1) unfolding migration_inv_def by blast+
  have pcs: "(\<exists>n. mst_pc s' p = Running n) \<Longrightarrow> (\<exists>n. mst_pc s p = Running n) \<or> mst_pc s p = Connected" for p
    using assms(2) by (cases rule: migration_step.cases) (auto split: if_splits)
  have early: "mst_pc s' p = Idle \<or> mst_pc s' p = Connected \<Longrightarrow> (mst_pc s p = Idle \<or> mst_pc s p = Connected) \<and> e \<noteq> (p, RunBody)" for p
    using assms(2) by (cases rule: migration_step.cases) (auto split: if_splits)
  have runner: "\<exists>n. mst_pc s q = Running n" if "e = (q, RunBody)" for q
    using assms(2) that by (cases rule: migration_step.cases) auto
  have holder: "mst_holder s' = Some p" if "mst_pc s' p = Running n" for p n
    using assms(2) that inv(1) by (cases rule: migration_step.cases) (auto split: if_splits, (metis option.inject option.distinct(1))+)
  have alone: "q = p" if run: "mst_pc s' p = Running n" and split: "tr @ [e] = t1 @ (p, RunBody) # t2" and q: "(q, RunBody) \<in> set t2" for p n t1 t2 q
  proof -
    obtain t2' where t2': "t2 = t2' @ [e]" "tr = t1 @ (p, RunBody) # t2'" using snoc_split [OF split] q by auto
    then have "(p, RunBody) \<in> set tr" by simp
    then obtain m where m: "mst_pc s p = Running m" using pcs [of p] run inv(2) by blast
    show "q = p"
    proof (cases "e = (q, RunBody)")
      case True
      then show ?thesis using runner inv(1) m by (metis option.inject)
    next
      case False
      then show ?thesis using q t2' inv(3) [OF m t2'(2)] by simp
    qed
  qed
  have "(p, RunBody) \<notin> set (tr @ [e])" if "mst_pc s' p = Idle \<or> mst_pc s' p = Connected" for p
    using early [OF that] inv(2) [of p] by auto
  then show ?thesis unfolding migration_inv_def using holder alone by blast
qed

lemma migration_run_inv: "migration_run body db0 tr s \<Longrightarrow> migration_inv tr s"
proof (induction rule: migration_run.induct)
  case (went tr s e s')
  show ?case by (rule migration_inv_step [OF went.IH went.hyps(2)])
qed (simp add: migration_inv_def)

lemma lex_less_trans: "lex_less xs ys \<Longrightarrow> lex_less ys zs \<Longrightarrow> lex_less xs zs"
proof (induction xs ys arbitrary: zs rule: lex_less.induct)
  case (1 x xs y ys)
  then show ?case by (cases zs) auto
qed simp_all

lemma lex_less_irrefl: "\<not> lex_less xs xs"
  by (induction xs) simp_all

lemma validate_from_sorted:
  assumes "validate_from prev ms = None"
  shows "\<exists>ids ts. ms = map Some ids \<and> map (\<lambda>m. parse_timestamp (mg_ID m)) ids = map Some ts \<and> sorted_wrt lex_less ts \<and>
    (\<forall>p t. prev = Some p \<longrightarrow> t \<in> set ts \<longrightarrow> lex_less p t)"
  using assms
proof (induction prev ms rule: validate_from.induct)
  case (2 prev m ms)
  obtain i t where m: "m = Some i" "mg_ID i \<noteq> []" "parse_timestamp (mg_ID i) = Some t" "validate_from (Some t) ms = None" "\<And>p. prev = Some p \<Longrightarrow> lex_less p t"
    using "2.prems" by (auto split: option.splits if_splits)
  have "\<exists>ids ts. ms = map Some ids \<and> map (\<lambda>m. parse_timestamp (mg_ID m)) ids = map Some ts \<and> sorted_wrt lex_less ts \<and>
      (\<forall>p u. Some t = Some p \<longrightarrow> u \<in> set ts \<longrightarrow> lex_less p u)"
  proof (cases prev)
    case None
    then show ?thesis using "2.IH"(1) [OF m(1,2,3) None m(4)] by simp
  next
    case (Some p)
    then show ?thesis using "2.IH"(2) [OF m(1,2,3) Some _ m(4)] m(5) by simp
  qed
  then obtain ids ts where ih: "ms = map Some ids" "map (\<lambda>m. parse_timestamp (mg_ID m)) ids = map Some ts" "sorted_wrt lex_less ts" "\<And>u. u \<in> set ts \<Longrightarrow> lex_less t u"
    by auto
  show ?case
    by (intro exI [of _ "i # ids"] exI [of _ "t # ts"]) (use m ih lex_less_trans in auto)
qed simp

text \<open>The list that the program starts with passes its check, which sorts it.\<close>

lemma validateMigrationsList_sorted:
  assumes "validateMigrationsList ms = None"
  shows "\<exists>ids ts. ms = map Some ids \<and> map (\<lambda>m. parse_timestamp (mg_ID m)) ids = map Some ts \<and> sorted_wrt lex_less ts \<and> distinct (map mg_ID ids)"
proof -
  obtain ids ts where *: "ms = map Some ids" "map (\<lambda>m. parse_timestamp (mg_ID m)) ids = map Some ts" "sorted_wrt lex_less ts"
    using validate_from_sorted assms unfolding validateMigrationsList_def by blast
  have "distinct ts" using *(3) by (induction ts) (auto simp: lex_less_irrefl)
  then have "distinct (map (\<lambda>m. parse_timestamp (mg_ID m)) ids)" unfolding *(2) by (simp add: distinct_map)
  then have "distinct (map mg_ID ids)" by (auto simp: distinct_map inj_on_def)
  then show ?thesis using * by blast
qed

lemma MigrationsList_valid: "validateMigrationsList (MigrationsList mi) = None"
proof -
  have "parse_timestamp ''20251210120000'' = Some [2025, 12, 10, 12, 0, 0, 0]" "parse_timestamp ''20260325120000'' = Some [2026, 3, 25, 12, 0, 0, 0]"
      "parse_timestamp ''20260326120000'' = Some [2026, 3, 26, 12, 0, 0, 0]" "parse_timestamp ''20260803120000'' = Some [2026, 8, 3, 12, 0, 0, 0]"
    by code_simp+
  then show ?thesis
    by (simp add: validateMigrationsList_def MigrationsList_def InitialSchema_def MetricsSummaryMigration_def
        ReporterResourcesNotTombstoneIdxMigration_def DropOutboxEventsMigration_def)
qed

text \<open>A call runs its function exactly when it could open its connection and lock, between lock and unlock; whatever the function returns, the
  unlock is tried and the connection handed back.\<close>

lemma lock_brackets_body:
  assumes "isPostgres name" "WithAdvisoryLock name env fn db = (err, acts, db')"
  shows "(RunBody \<in> set acts \<longleftrightarrow> le_dbErr env = None \<and> le_connErr env = None \<and> le_lockErr env = None) \<and>
    (RunBody \<in> set acts \<longrightarrow> acts = [OpenConn, TakeLock, RunBody, ReleaseLock, CloseConn] \<and> fn db = (err, db')) \<and>
    (RunBody \<notin> set acts \<longrightarrow> db' = db \<and> err \<noteq> None)"
proof (cases "le_dbErr env = None \<and> le_connErr env = None \<and> le_lockErr env = None")
  case True
  then show ?thesis using assms by (auto simp: WithAdvisoryLock_def split: prod.splits)
next
  case False
  then have "\<exists>e. WithAdvisoryLock name env fn db = (Some e, [], db) \<or> WithAdvisoryLock name env fn db = (Some e, [OpenConn, CloseConn], db)"
    using assms(1) by (cases "le_dbErr env"; cases "le_connErr env"; cases "le_lockErr env") (auto simp: WithAdvisoryLock_def)
  then obtain e where "err = Some e" "db' = db" "acts = [] \<or> acts = [OpenConn, CloseConn]" using assms(2) by auto
  then show ?thesis using False by auto
qed

text \<open>An unlock that fails on a connection that goes back to the pool: the lock stays taken and no other process ever gets it, while the process
  lives.\<close>

lemma failed_unlock_blocks:
  "\<exists>s. migration_run body db0 [(0, OpenConn), (0, TakeLock), (0, ReleaseLock), (0, CloseConn)] s \<and> mst_holder s = Some 0 \<and>
     mst_pc s 0 = Finished \<and> (\<forall>q s'. \<not> migration_step body s (q, TakeLock) s')"
proof -
  define s0 :: "'a migration_state" where "s0 = \<lparr>mst_pc = (\<lambda>_. Idle), mst_holder = None, mst_db = db0\<rparr>"
  define s1 where "s1 = s0\<lparr>mst_pc := (mst_pc s0)(0 := Connected)\<rparr>"
  define s2 where "s2 = s1\<lparr>mst_pc := (mst_pc s1)(0 := Running 0), mst_holder := Some 0\<rparr>"
  define s3 where "s3 = s2\<lparr>mst_pc := (mst_pc s2)(0 := Unlocked)\<rparr>"
  define s4 where "s4 = s3\<lparr>mst_pc := (mst_pc s3)(0 := Finished)\<rparr>"
  have r0: "migration_run body db0 [] s0" unfolding s0_def by (rule begun)
  have e1: "migration_step body s0 (0, OpenConn) s1" unfolding s1_def by (rule opened) (simp add: s0_def)
  have e2: "migration_step body s1 (0, TakeLock) s2" unfolding s2_def by (rule took) (simp_all add: s1_def s0_def)
  have e3: "migration_step body s2 (0, ReleaseLock) s3" unfolding s3_def by (rule not_released [where n = 0]) (simp add: s2_def)
  have e4: "migration_step body s3 (0, CloseConn) s4" unfolding s4_def by (rule pooled) (simp add: s3_def)
  have "migration_run body db0 [(0, OpenConn), (0, TakeLock), (0, ReleaseLock), (0, CloseConn)] s4"
    using went [OF went [OF went [OF went [OF r0 e1] e2] e3] e4] by simp
  moreover have "mst_holder s4 = Some 0" "mst_pc s4 0 = Finished" by (simp_all add: s4_def s3_def s2_def)
  moreover have "\<not> migration_step body s4 (q, TakeLock) s'" for q s'
    using \<open>mst_holder s4 = Some 0\<close> by (auto elim: migration_step.cases)
  ultimately show ?thesis by blast
qed

section \<open>Properties\<close>

text \<open>C30. One process migrates at a time: in every interleaving of processes on PostgreSQL, with failing unlocks, aborted migrations and dying
  processes, the statements of a process are not interrupted by those of another.\<close>

theorem migrations_not_interleaved:
  assumes "migration_run body db0 tr s" "tr = t1 @ (p, RunBody) # t2 @ (p, RunBody) # t3" "(q, RunBody) \<in> set t2"
  shows "q = p"
  using assms
proof (induction arbitrary: t3 rule: migration_run.induct)
  case (went tr s e s')
  show ?case
  proof (cases t3 rule: rev_cases)
    case Nil
    then have e: "e = (p, RunBody)" "tr = t1 @ (p, RunBody) # t2" using went.prems(1) by auto
    then obtain n where "mst_pc s p = Running n" using went.hyps(2) by (auto elim: migration_step.cases)
    then show ?thesis using migration_run_inv [OF went.hyps(1)] e(2) went.prems(2) unfolding migration_inv_def by blast
  next
    case (snoc t3' x)
    then show ?thesis using went.IH [of t3'] went.prems by auto
  qed
qed simp

theorem migrations_not_interleaved_witness:
  "\<exists>s. migration_run (\<lambda>_. [Suc, Suc, Suc]) 0 [(0, OpenConn), (0, TakeLock), (0, RunBody), (0, RunBody), (0, RunBody)] s \<and>
    {q. (q, RunBody) \<in> set [(0::nat, RunBody)]} \<subseteq> {0}"
proof -
  define s0 :: "nat migration_state" where "s0 = \<lparr>mst_pc = (\<lambda>_. Idle), mst_holder = None, mst_db = 0\<rparr>"
  define s1 where "s1 = s0\<lparr>mst_pc := (mst_pc s0)(0 := Connected)\<rparr>"
  define s2 where "s2 = s1\<lparr>mst_pc := (mst_pc s1)(0 := Running 0), mst_holder := Some 0\<rparr>"
  define s3 where "s3 = s2\<lparr>mst_pc := (mst_pc s2)(0 := Running (Suc 0)), mst_db := ([Suc, Suc, Suc] ! 0) (mst_db s2)\<rparr>"
  define s4 where "s4 = s3\<lparr>mst_pc := (mst_pc s3)(0 := Running (Suc 1)), mst_db := ([Suc, Suc, Suc] ! 1) (mst_db s3)\<rparr>"
  define s5 where "s5 = s4\<lparr>mst_pc := (mst_pc s4)(0 := Running (Suc 2)), mst_db := ([Suc, Suc, Suc] ! 2) (mst_db s4)\<rparr>"
  let ?b = "\<lambda>_::nat. [Suc, Suc, Suc]"
  have r0: "migration_run ?b 0 [] s0" unfolding s0_def by (rule begun)
  have e1: "migration_step ?b s0 (0, OpenConn) s1" unfolding s1_def by (rule opened) (simp add: s0_def)
  have e2: "migration_step ?b s1 (0, TakeLock) s2" unfolding s2_def by (rule took) (simp_all add: s1_def s0_def)
  have e3: "migration_step ?b s2 (0, RunBody) s3" unfolding s3_def by (rule ran) (simp_all add: s2_def)
  have e4: "migration_step ?b s3 (0, RunBody) s4" unfolding s4_def by (rule ran) (simp_all add: s3_def)
  have e5: "migration_step ?b s4 (0, RunBody) s5" unfolding s5_def by (rule ran) (simp_all add: s4_def)
  have run: "migration_run ?b 0 [(0, OpenConn), (0, TakeLock), (0, RunBody), (0, RunBody), (0, RunBody)] s5"
    using went [OF went [OF went [OF went [OF went [OF r0 e1] e2] e3] e4] e5] by simp
  have "q = 0" if "(q, RunBody) \<in> set [(0, RunBody)]" for q :: nat
    using migrations_not_interleaved [OF run, of "[(0, OpenConn), (0, TakeLock)]" 0 "[(0, RunBody)]" "[]" q] that by simp
  then show ?thesis using run by blast
qed

end
