(* ===== verification/Schema_Loading.thy ===== *)
theory Schema_Loading
  imports Schema_Registry "HOL-Library.Multiset"
begin

text \<open>
  The two ways schemas get from files into the registry: read from the directory when the service starts
  (\<open>NewInMemorySchemaRepositoryFromDir\<close> in \<open>internal/data/inmemory_schema_repository.go\<close>), or first packed into one JSON cache by the command
  \<open>preload-schema\<close> (\<open>cmd/schema/schema.go\<close>) and read from there. The file system is a tree; a node that cannot be read carries the error. The YAML
  library is a parameter. Log statements are left out.
\<close>

section \<open>Files\<close>

datatype fs_node = FsFile "go_error option" string | FsDir "go_error option" "(string \<times> fs_node) list"

definition IsDir :: "fs_node \<Rightarrow> bool" where
  "IsDir n = (case n of FsDir _ _ \<Rightarrow> True | FsFile _ _ \<Rightarrow> False)"

text \<open>Following a path: the error is that a name does not exist, or that something on the way is no directory.\<close>

datatype stat_error = NotExist | NotDirectory

fun walk :: "fs_node \<Rightarrow> string list \<Rightarrow> stat_error + fs_node" where
  "walk n [] = Inr n"
| "walk (FsFile _ _) (p # ps) = Inl NotDirectory"
| "walk (FsDir _ ch) (p # ps) = (case map_of ch p of None \<Rightarrow> Inl NotExist | Some n \<Rightarrow> walk n ps)"

definition os_ReadFile :: "fs_node \<Rightarrow> string list \<Rightarrow> string result" where
  "os_ReadFile root path = (case walk root path of
     Inl _ \<Rightarrow> Err (Errorf ''open'')
   | Inr (FsDir _ _) \<Rightarrow> Err (Errorf ''is a directory'')
   | Inr (FsFile (Some e) _) \<Rightarrow> Err e
   | Inr (FsFile None s) \<Rightarrow> Ok s)"

definition os_ReadDir :: "fs_node \<Rightarrow> string list \<Rightarrow> (string \<times> fs_node) list result" where
  "os_ReadDir root path = (case walk root path of
     Inl _ \<Rightarrow> Err (Errorf ''open'')
   | Inr (FsFile _ _) \<Rightarrow> Err (Errorf ''not a directory'')
   | Inr (FsDir (Some e) _) \<Rightarrow> Err e
   | Inr (FsDir None ch) \<Rightarrow> Ok ch)"

section \<open>From the directory\<close>

definition loadCommonResourceDataSchema :: "fs_node \<Rightarrow> string \<Rightarrow> string result" where
  "loadCommonResourceDataSchema baseSchemaDir resourceType =
     wrap_err ''failed to read common resource schema'' (os_ReadFile baseSchemaDir [resourceType, ''common_representation.json''])"

definition loadResourceSchema :: "fs_node \<Rightarrow> string \<Rightarrow> string \<Rightarrow> (string \<times> bool) result" where
  "loadResourceSchema dir resourceType reporterType =
     (let schemaPath = [resourceType, ''reporters'', reporterType, resourceType @ ''.json''] in
      case walk dir schemaPath of
        Inl NotExist \<Rightarrow> Ok ([], False)
      | Inl NotDirectory \<Rightarrow> Err (Errorf ''failed to check schema file'')
      | Inr _ \<Rightarrow> bind_res (wrap_err ''failed to read schema file'' (os_ReadFile dir schemaPath)) (\<lambda>data. Ok (data, True)))"

fun load_reporter_dirs :: "schema_factory \<Rightarrow> fs_node \<Rightarrow> resource_type \<Rightarrow> (string \<times> fs_node) list \<Rightarrow> schema_content \<Rightarrow> schema_content result" where
  "load_reporter_dirs factory dir rt [] c = Ok c"
| "load_reporter_dirs factory dir rt ((name, node) # rest) c =
     (if \<not> IsDir node then load_reporter_dirs factory dir rt rest c
      else bind_res (wrap_err ''invalid reporter type'' (NewReporterType name)) (\<lambda>rep.
        case loadResourceSchema dir rt rep of
          Inr (s, True) \<Rightarrow>
            bind_res (NewReporterSchemaRepresentation rt rep (Some (factory rt s))) (\<lambda>r.
            bind_res (CreateReporterSchema c r) (\<lambda>c'. load_reporter_dirs factory dir rt rest c'))
        | _ \<Rightarrow> load_reporter_dirs factory dir rt rest c))"

definition load_reporters_dir :: "schema_factory \<Rightarrow> fs_node \<Rightarrow> resource_type \<Rightarrow> schema_content \<Rightarrow> schema_content result" where
  "load_reporters_dir factory dir rt c =
     (if walk dir [rt, ''reporters''] = Inl NotExist then Ok c
      else case os_ReadDir dir [rt, ''reporters''] of Inl _ \<Rightarrow> Ok c | Inr reporterDirs \<Rightarrow> load_reporter_dirs factory dir rt reporterDirs c)"

fun load_resource_dirs :: "schema_factory \<Rightarrow> fs_node \<Rightarrow> (string \<times> fs_node) list \<Rightarrow> schema_content \<Rightarrow> schema_content result" where
  "load_resource_dirs factory dir [] c = Ok c"
| "load_resource_dirs factory dir ((name, node) # rest) c =
     (if \<not> IsDir node then load_resource_dirs factory dir rest c
      else bind_res (wrap_err ''invalid resource type directory'' (NewResourceType name)) (\<lambda>rt.
        bind_res (case loadCommonResourceDataSchema dir rt of
            Inl _ \<Rightarrow> Ok c
          | Inr s \<Rightarrow> bind_res (NewResourceSchemaRepresentation rt (Some (factory rt s))) (CreateResourceSchema c)) (\<lambda>c1.
        bind_res (load_reporters_dir factory dir rt c1) (\<lambda>c2. load_resource_dirs factory dir rest c2))))"

definition NewInMemorySchemaRepositoryFromDir :: "schema_factory \<Rightarrow> fs_node \<Rightarrow> schema_content result" where
  "NewInMemorySchemaRepositoryFromDir factory resourceDir =
     bind_res (wrap_err ''failed to read schema directory'' (os_ReadDir resourceDir [])) (\<lambda>resourceDirs.
     load_resource_dirs factory resourceDir resourceDirs NewInMemorySchemaRepository)"

section \<open>Through the cache\<close>

text \<open>Base64 of \<open>encoding/base64\<close>: three bytes to four letters, padded.\<close>

definition base64_letter :: "nat \<Rightarrow> char" where
  "base64_letter n = ''ABCDEFGHIJKLMNOPQRSTUVWXYZabcdefghijklmnopqrstuvwxyz0123456789+/'' ! n"

fun EncodeToString :: "string \<Rightarrow> string" where
  "EncodeToString [] = []"
| "EncodeToString [a] = (let n = of_char a * 16 in [base64_letter (n div 64), base64_letter (n mod 64), CHR ''='', CHR ''=''])"
| "EncodeToString [a, b] = (let n = (of_char a * 256 + of_char b) * 4 in
     [base64_letter (n div 4096), base64_letter (n div 64 mod 64), base64_letter (n mod 64), CHR ''=''])"
| "EncodeToString (a # b # c # rest) = (let n = (of_char a * 256 + of_char b) * 256 + of_char c in
     [base64_letter (n div 262144), base64_letter (n div 4096 mod 64), base64_letter (n div 64 mod 64), base64_letter (n mod 64)] @ EncodeToString rest)"

record yaml_ops =
  ya_Unmarshal :: "string \<Rightarrow> json_object result"
  ya_Marshal :: "json_object \<Rightarrow> string result"

definition normalizeYAMLResourceType :: "yaml_ops \<Rightarrow> string \<Rightarrow> string result" where
  "normalizeYAMLResourceType ya yamlContent =
     bind_res (wrap_err ''failed to parse YAML'' (ya_Unmarshal ya yamlContent)) (\<lambda>yamlData.
     bind_res (case map_of yamlData ''type'' of
         Some (JStr resourceType) \<Rightarrow> bind_res (wrap_err ''invalid resource type in YAML'' (NewResourceType resourceType)) (\<lambda>rt.
           Ok (AList.update ''type'' (JStr rt) yamlData))
       | _ \<Rightarrow> Ok yamlData) (\<lambda>yamlData'.
     wrap_err ''failed to serialize YAML'' (ya_Marshal ya yamlData')))"

definition encodeYAMLToBase64 :: "yaml_ops \<Rightarrow> fs_node \<Rightarrow> string list \<Rightarrow> string result" where
  "encodeYAMLToBase64 ya root filePath =
     bind_res (os_ReadFile root filePath) (\<lambda>data.
     bind_res (normalizeYAMLResourceType ya data) (\<lambda>normalizedData. Ok (EncodeToString normalizedData)))"

text \<open>A cache entry is set when the file exists and can be read and encoded.\<close>

definition put_when :: "fs_node \<Rightarrow> string list \<Rightarrow> (string list \<Rightarrow> string result) \<Rightarrow> string \<Rightarrow> json_object \<Rightarrow> json_object" where
  "put_when root path read key cache = (case walk root path of
     Inl _ \<Rightarrow> cache
   | Inr _ \<Rightarrow> (case read path of Inl _ \<Rightarrow> cache | Inr s \<Rightarrow> AList.update key (JStr s) cache))"

fun preload_reporters :: "yaml_ops \<Rightarrow> fs_node \<Rightarrow> string \<Rightarrow> resource_type \<Rightarrow> (string \<times> fs_node) list \<Rightarrow> json_object \<Rightarrow> json_object" where
  "preload_reporters ya root name rt [] cache = cache"
| "preload_reporters ya root name rt ((rname, node) # rest) cache =
     (if \<not> IsDir node then preload_reporters ya root name rt rest cache
      else case NewReporterType rname of
        Inl _ \<Rightarrow> preload_reporters ya root name rt rest cache
      | Inr rep \<Rightarrow>
          (let reporterPath = [name, ''reporters'', rname];
               cache1 = put_when root (reporterPath @ [''config.yaml'']) (encodeYAMLToBase64 ya root) (''config:'' @ rt @ '':'' @ rep) cache;
               cache2 = put_when root (reporterPath @ [name @ ''.json'']) (os_ReadFile root) (rt @ '':'' @ rep) cache1
           in preload_reporters ya root name rt rest cache2))"

fun preload_resources :: "yaml_ops \<Rightarrow> fs_node \<Rightarrow> (string \<times> fs_node) list \<Rightarrow> json_object \<Rightarrow> json_object" where
  "preload_resources ya root [] cache = cache"
| "preload_resources ya root ((name, node) # rest) cache =
     (if \<not> IsDir node then preload_resources ya root rest cache
      else case NewResourceType name of
        Inl _ \<Rightarrow> preload_resources ya root rest cache
      | Inr rt \<Rightarrow>
          (let cache1 = put_when root [name, ''common_representation.json''] (os_ReadFile root) (''common:'' @ rt) cache;
               cache2 = put_when root [name, ''config.yaml''] (encodeYAMLToBase64 ya root) (''config:'' @ rt) cache1;
               cache3 = (case os_ReadDir root [name, ''reporters''] of
                   Inl _ \<Rightarrow> cache2 | Inr reporterDirs \<Rightarrow> preload_reporters ya root name rt reporterDirs cache2)
           in preload_resources ya root rest cache3))"

definition preloadSchemas :: "yaml_ops \<Rightarrow> fs_node \<Rightarrow> json_object \<Rightarrow> json_object result" where
  "preloadSchemas ya schemaDir schemaCache =
     bind_res (wrap_err ''failed to read schema directory'' (os_ReadDir schemaDir [])) (\<lambda>resources.
     Ok (preload_resources ya schemaDir resources schemaCache))"

text \<open>The command: from an empty cache, written as a JSON object by \<open>encoding/json\<close>.\<close>

definition preload_command :: "yaml_ops \<Rightarrow> fs_node \<Rightarrow> go_error option \<Rightarrow> json result" where
  "preload_command ya schemaDir writeErr =
     bind_res (preloadSchemas ya schemaDir []) (\<lambda>schemaCache.
     case writeErr of Some e \<Rightarrow> Err (Wrap ''failed to write schema cache to file'' e) | None \<Rightarrow> Ok (JObj schemaCache))"

section \<open>The configured registry\<close>

text \<open>\<open>internal/config/schema\<close> and \<open>newSchemaRepository\<close> of \<open>cmd/serve\<close>. \<open>fs\<close> gives what is found at a path; a path that cannot be opened is a file with the error.\<close>

definition EmptyRepository :: string where "EmptyRepository = ''empty''"
definition JSONRepository :: string where "JSONRepository = ''json''"
definition DirRepository :: string where "DirRepository = ''dir''"
definition InMemoryRepository :: string where "InMemoryRepository = ''in-memory''"

record inmemory_options =
  io_Type :: string
  io_Path :: string

definition inmemory_NewOptions :: inmemory_options where
  "inmemory_NewOptions = \<lparr>io_Type = EmptyRepository, io_Path = []\<rparr>"

definition inmemory_Validate :: "inmemory_options \<Rightarrow> go_error list" where
  "inmemory_Validate o1 =
     (if io_Type o1 \<noteq> EmptyRepository \<and> io_Type o1 \<noteq> JSONRepository \<and> io_Type o1 \<noteq> DirRepository then [Errorf ''invalid repository type'']
      else if (io_Type o1 = JSONRepository \<or> io_Type o1 = DirRepository) \<and> io_Path o1 = [] then [Errorf ''path is required when Type is set'']
      else [])"

record schema_options =
  sc_Repository :: string
  sc_InMemory :: inmemory_options

definition schema_NewOptions :: schema_options where
  "schema_NewOptions = \<lparr>sc_Repository = InMemoryRepository, sc_InMemory = inmemory_NewOptions\<rparr>"

definition schema_Validate :: "schema_options \<Rightarrow> go_error list" where
  "schema_Validate o1 = (if sc_Repository o1 \<noteq> InMemoryRepository then [Errorf ''repository option must be set''] else []) @
     (if sc_Repository o1 = InMemoryRepository then inmemory_Validate (sc_InMemory o1) else [])"

definition NewInMemorySchemaRepositoryFromJsonFile :: "(string \<Rightarrow> json result) \<Rightarrow> schema_factory \<Rightarrow> fs_node \<Rightarrow> schema_content result" where
  "NewInMemorySchemaRepositoryFromJsonFile unmarshal factory jsonFile =
     bind_res (wrap_err ''failed to read schema cache file'' (os_ReadFile jsonFile [])) (\<lambda>jsonData.
     bind_res (wrap_err ''failed to unmarshal schema cache JSON'' (unmarshal jsonData)) (NewFromJsonBytes factory))"

definition newSchemaRepository :: "(string \<Rightarrow> json result) \<Rightarrow> (string \<Rightarrow> fs_node) \<Rightarrow> schema_options \<Rightarrow> schema_content result" where
  "newSchemaRepository unmarshal fs c =
     (if sc_Repository c = InMemoryRepository then
        (let ty = io_Type (sc_InMemory c); path = io_Path (sc_InMemory c) in
         if ty = EmptyRepository then Ok NewInMemorySchemaRepository
         else if ty = JSONRepository then NewInMemorySchemaRepositoryFromJsonFile unmarshal FeaturesAwareSchemaFactory (fs path)
         else if ty = DirRepository then NewInMemorySchemaRepositoryFromDir FeaturesAwareSchemaFactory (fs path)
         else Err (Errorf ''invalid repository type''))
      else Err (Errorf ''invalid repository type''))"

section \<open>What a schema tree says\<close>

definition file_content :: "fs_node \<Rightarrow> string list \<Rightarrow> string option" where
  "file_content root path = (case os_ReadFile root path of Inl _ \<Rightarrow> None | Inr s \<Rightarrow> Some s)"

abbreviation common_file :: "fs_node \<Rightarrow> resource_type \<Rightarrow> string option" where
  "common_file root rt \<equiv> file_content root [rt, ''common_representation.json'']"

abbreviation reporter_file :: "fs_node \<Rightarrow> resource_type \<Rightarrow> reporter_type \<Rightarrow> string option" where
  "reporter_file root rt rep \<equiv> file_content root [rt, ''reporters'', rep, rt @ ''.json'']"

definition dir_names :: "(string \<times> fs_node) list \<Rightarrow> string list" where
  "dir_names es = map fst (filter (IsDir \<circ> snd) es)"

text \<open>Trees the two paths are meant for: names are unique per directory and already normal, a resource type has no
  colon and is not one of the two prefixes of the cache, every resource type has a readable common schema, and a reporters directory can be read.\<close>

definition reporters_ok :: "fs_node \<Rightarrow> string \<Rightarrow> bool" where
  "reporters_ok root n = (case walk root [n, ''reporters''] of
     Inr (FsDir e ch) \<Rightarrow> e = None \<and> distinct (map fst ch) \<and> list_all (\<lambda>p. NewReporterType p = Inr p) (dir_names ch)
   | _ \<Rightarrow> True)"

definition resource_ok :: "fs_node \<Rightarrow> string \<Rightarrow> bool" where
  "resource_ok root n \<longleftrightarrow> NewResourceType n = Inr n \<and> CHR '':'' \<notin> set n \<and> n \<noteq> ''common'' \<and> n \<noteq> ''config'' \<and>
     common_file root n \<noteq> None \<and> reporters_ok root n"

definition schema_tree :: "fs_node \<Rightarrow> bool" where
  "schema_tree root = (case os_ReadDir root [] of Inl _ \<Rightarrow> False
   | Inr es \<Rightarrow> distinct (map fst es) \<and> list_all (resource_ok root) (dir_names es))"

text \<open>A registry holds exactly the schemas of two partial functions.\<close>

definition registers ::
    "schema_factory \<Rightarrow> schema_content \<Rightarrow> (resource_type \<Rightarrow> string option) \<Rightarrow> (resource_type \<Rightarrow> reporter_type \<Rightarrow> string option) \<Rightarrow> bool" where
  "registers factory c com rep \<longleftrightarrow>
     (\<forall>rt. GetResourceSchema c rt = (case com rt of None \<Rightarrow> Err (Sentinel ErrResourceSchemaNotFound)
        | Some s \<Rightarrow> Ok \<lparr>rsr_resourceType = rt, rsr_schema = Some (factory rt s)\<rparr>)) \<and>
     (\<forall>rt p. GetReporterSchema c rt p = (if com rt = None then Err (Sentinel ErrResourceSchemaNotFound)
        else case rep rt p of None \<Rightarrow> Err (Sentinel ErrReporterSchemaNotFound)
        | Some s \<Rightarrow> Ok \<lparr>psr_resourceType = rt, psr_reporterType = p, psr_schema = Some (factory rt s)\<rparr>))"

lemma registers_empty [simp]: "registers factory [] (\<lambda>_. None) rep"
  by (simp add: registers_def registry_defs)

lemma registers_common:
  assumes "registers factory c com rep" "com rt = None" "rep rt = (\<lambda>_. None)" "rt \<noteq> []"
  obtains c' where "bind_res (NewResourceSchemaRepresentation rt (Some (factory rt s))) (CreateResourceSchema c) = Inr c'"
    "registers factory c' (com(rt := Some s)) rep"
proof -
  let ?r = "\<lparr>rsr_resourceType = rt, rsr_schema = Some (factory rt s)\<rparr>"
  have "is_ok (CreateResourceSchema c ?r)"
    using assms by (simp add: inmemory.createRes_ok registers_def)
  then obtain c' where c': "CreateResourceSchema c ?r = Inr c'" by (auto simp: is_ok_iff)
  from inmemory.createRes_get [OF c'] assms have "registers factory c' (com(rt := Some s)) rep"
    by (auto simp: registers_def)
  with c' assms(4) that show thesis by (simp add: NewResourceSchemaRepresentation_def)
qed

lemma registers_reporter:
  assumes "registers factory c com rep" "com rt \<noteq> None" "rep rt p = None" "rt \<noteq> []" "p \<noteq> []"
  obtains c' where "bind_res (NewReporterSchemaRepresentation rt p (Some (factory rt s))) (CreateReporterSchema c) = Inr c'"
    "registers factory c' com (rep(rt := (rep rt)(p := Some s)))"
proof -
  let ?r = "\<lparr>psr_resourceType = rt, psr_reporterType = p, psr_schema = Some (factory rt s)\<rparr>"
  have "is_ok (CreateReporterSchema c ?r)"
    using assms by (auto simp: inmemory.createRep_ok registers_def)
  then obtain c' where c': "CreateReporterSchema c ?r = Inr c'" by (auto simp: is_ok_iff)
  from inmemory.createRep_get [OF c'] assms have "registers factory c' com (rep(rt := (rep rt)(p := Some s)))"
    by (auto simp: registers_def)
  with c' assms(4,5) that show thesis by (simp add: NewReporterSchemaRepresentation_def)
qed

lemma bind_res_assoc: "bind_res r (\<lambda>x. bind_res (f x) g) = bind_res (bind_res r f) g"
  by (cases r) simp_all

lemma walk_append: "walk n (ps @ qs) = (case walk n ps of Inl e \<Rightarrow> Inl e | Inr m \<Rightarrow> walk m qs)"
  by (induction n ps rule: walk.induct) (auto split: option.splits)

section \<open>Loading from the directory\<close>

lemma dir_names_Cons:
  "dir_names ((n, node) # es) = (if IsDir node then n # dir_names es else dir_names es)"
  by (simp add: dir_names_def)

lemma dir_names_subset: "set (dir_names es) \<subseteq> fst ` set es"
  by (auto simp: dir_names_def)

lemma loadResourceSchema_exact:
  "(case loadResourceSchema dir rt p of Inr (s, True) \<Rightarrow> f s | _ \<Rightarrow> g) =
   (case reporter_file dir rt p of Some s \<Rightarrow> f s | None \<Rightarrow> g)"
  by (auto simp: loadResourceSchema_def file_content_def os_ReadFile_def Let_def
      split: sum.splits stat_error.splits fs_node.splits option.splits)

lemma load_reporter_dirs_registers:
  assumes "registers factory c com rep" "com rt \<noteq> None" "rt \<noteq> []"
    and "distinct (map fst ch)" "\<forall>p\<in>set (dir_names ch). NewReporterType p = Inr p \<and> p \<noteq> [] \<and> rep rt p = None"
  shows "\<exists>c'. load_reporter_dirs factory dir rt ch c = Inr c' \<and>
    registers factory c' com (rep(rt := override_on (rep rt) (reporter_file dir rt) (set (dir_names ch))))"
  using assms(1,4,5)
proof (induction ch arbitrary: c rep)
  case Nil
  then show ?case by (simp add: dir_names_def)
next
  case (Cons en ch)
  obtain n node where en: "en = (n, node)" by fastforce
  have n: "n \<notin> set (dir_names ch)" using Cons.prems(2) dir_names_subset [of ch] by (auto simp: en)
  have dist: "distinct (map fst ch)" using Cons.prems(2) by simp
  show ?case
  proof (cases "IsDir node")
    case dir: True
    with Cons.prems(3) have rn: "NewReporterType n = Inr n" "n \<noteq> []" "rep rt n = None"
      and rest: "\<forall>p\<in>set (dir_names ch). NewReporterType p = Inr p \<and> p \<noteq> [] \<and> rep rt p = None"
      by (auto simp: en dir_names_Cons)
    show ?thesis
    proof (cases "reporter_file dir rt n")
      case None
      have "(rep rt)(n := None) = rep rt" using rn(3) by (simp add: fun_upd_idem)
      with Cons.IH [OF Cons.prems(1) dist rest] show ?thesis
        by (simp add: en dir rn loadResourceSchema_exact None dir_names_Cons override_on_insert')
    next
      case (Some s)
      obtain c1 where c1: "bind_res (NewReporterSchemaRepresentation rt n (Some (factory rt s))) (CreateReporterSchema c) = Inr c1"
        and r1: "registers factory c1 com (rep(rt := (rep rt)(n := Some s)))"
        using registers_reporter [where s = s, OF Cons.prems(1) assms(2) rn(3) assms(3) rn(2)] by blast
      have "\<forall>p\<in>set (dir_names ch). NewReporterType p = Inr p \<and> p \<noteq> [] \<and> (rep(rt := (rep rt)(n := Some s))) rt p = None"
        using rest n by auto
      from Cons.IH [OF r1 dist this] show ?thesis
        by (simp add: en dir rn loadResourceSchema_exact Some bind_res_assoc c1 dir_names_Cons override_on_insert' fun_upd_def cong: if_cong)
    qed
  next
    case False
    with Cons.IH [OF Cons.prems(1) dist] Cons.prems(3) show ?thesis by (simp add: en dir_names_Cons)
  qed
qed

text \<open>Where the reporter directories are: a reporter schema that can be read lies in one of them.\<close>

definition reporter_dirs :: "fs_node \<Rightarrow> string \<Rightarrow> (string \<times> fs_node) list" where
  "reporter_dirs root n = (case os_ReadDir root [n, ''reporters''] of Inl _ \<Rightarrow> [] | Inr ch \<Rightarrow> ch)"

lemma walk_two: "walk n [p, x] = Inr m \<Longrightarrow> \<exists>e ch d. n = FsDir e ch \<and> (p, d) \<in> set ch \<and> IsDir d"
  by (cases n) (auto split: option.splits dest!: map_of_SomeD elim!: walk.elims simp: IsDir_def)

lemma file_content_Some: "file_content root path = Some s \<Longrightarrow> \<exists>m. walk root path = Inr m"
  by (auto simp: file_content_def os_ReadFile_def split: sum.splits)

lemma reporter_file_in_dirs:
  assumes "reporter_file root rt p = Some s" "reporters_ok root rt"
  shows "p \<in> set (dir_names (reporter_dirs root rt))"
proof -
  obtain m where m: "walk root ([rt, ''reporters''] @ [p, rt @ ''.json'']) = Inr m"
    using file_content_Some [OF assms(1)] by auto
  then obtain d where d: "walk root [rt, ''reporters''] = Inr d" "walk d [p, rt @ ''.json''] = Inr m"
    unfolding walk_append by (auto split: sum.splits)
  with walk_two [OF d(2)] obtain e ch k where "d = FsDir e ch" "(p, k) \<in> set ch" "IsDir k" by blast
  with d(1) assms(2) show ?thesis
    by (force simp: reporter_dirs_def os_ReadDir_def reporters_ok_def dir_names_def)
qed

lemma reporters_ok_dirs:
  assumes "reporters_ok root rt"
  shows "distinct (map fst (reporter_dirs root rt))"
    and "\<forall>p\<in>set (dir_names (reporter_dirs root rt)). NewReporterType p = Inr p"
  using assms by (auto simp: reporters_ok_def reporter_dirs_def os_ReadDir_def list_all_iff dir_names_def
      split: sum.splits fs_node.splits option.splits)

lemma load_reporters_dir_eq:
  "load_reporters_dir factory dir rt c = load_reporter_dirs factory dir rt (reporter_dirs dir rt) c"
  by (auto simp: load_reporters_dir_def reporter_dirs_def os_ReadDir_def split: sum.splits)

lemma normal_nonempty: "NewReporterType p = Inr p' \<Longrightarrow> p' \<noteq> []" "NewResourceType n = Inr n' \<Longrightarrow> n' \<noteq> []"
  using reporter_type_ctor.mk_nonempty_result resource_type_ctor.mk_nonempty_result by blast+

lemma override_reporter_dirs:
  assumes "reporters_ok root rt" "rep rt = (\<lambda>_. None)"
  shows "override_on (rep rt) (reporter_file root rt) (set (dir_names (reporter_dirs root rt))) = reporter_file root rt"
proof
  fix p
  show "override_on (rep rt) (reporter_file root rt) (set (dir_names (reporter_dirs root rt))) p = reporter_file root rt p"
    using reporter_file_in_dirs [OF _ assms(1), of p] assms(2) by (cases "reporter_file root rt p") (auto simp: override_on_def)
qed

lemma loadCommon_exact:
  "(case loadCommonResourceDataSchema dir rt of Inl _ \<Rightarrow> f | Inr s \<Rightarrow> g s) = (case common_file dir rt of None \<Rightarrow> f | Some s \<Rightarrow> g s)"
  by (auto simp: loadCommonResourceDataSchema_def file_content_def split: sum.splits)

lemma load_resource_dirs_registers:
  assumes "registers factory c com rep" "distinct (map fst es)"
    and "\<forall>n\<in>set (dir_names es). resource_ok dir n \<and> com n = None \<and> rep n = (\<lambda>_. None)"
  shows "\<exists>c'. load_resource_dirs factory dir es c = Inr c' \<and>
    registers factory c' (override_on com (common_file dir) (set (dir_names es)))
      (override_on rep (reporter_file dir) (set (dir_names es)))"
  using assms
proof (induction es arbitrary: c com rep)
  case Nil
  then show ?case by (simp add: dir_names_def)
next
  case (Cons en es)
  obtain n node where en: "en = (n, node)" by fastforce
  have n: "n \<notin> set (dir_names es)" using Cons.prems(2) dir_names_subset [of es] by (auto simp: en)
  have dist: "distinct (map fst es)" using Cons.prems(2) by simp
  show ?case
  proof (cases "IsDir node")
    case dir: True
    with Cons.prems(3) have ok: "resource_ok dir n" "com n = None" "rep n = (\<lambda>_. None)"
      and rest: "\<forall>k\<in>set (dir_names es). resource_ok dir k \<and> com k = None \<and> rep k = (\<lambda>_. None)"
      by (auto simp: en dir_names_Cons)
    then obtain s where rn: "NewResourceType n = Inr n" "n \<noteq> []" "reporters_ok dir n" and s: "common_file dir n = Some s"
      using normal_nonempty by (auto simp: resource_ok_def)
    obtain c1 where c1: "bind_res (NewResourceSchemaRepresentation n (Some (factory n s))) (CreateResourceSchema c) = Inr c1"
      and r1: "registers factory c1 (com(n := Some s)) rep"
      using registers_common [where s = s, OF Cons.prems(1) ok(2,3) rn(2)] by blast
    obtain c2 where c2: "load_reporters_dir factory dir n c1 = Inr c2"
      and r2: "registers factory c2 (com(n := Some s)) (rep(n := reporter_file dir n))"
      using load_reporter_dirs_registers [OF r1 _ rn(2) reporters_ok_dirs(1) [OF rn(3)], of dir]
        reporters_ok_dirs(2) [OF rn(3)] normal_nonempty(1) ok(3) override_reporter_dirs [of dir n rep, OF rn(3) ok(3)]
      by (auto simp: load_reporters_dir_eq)
    have "\<forall>k\<in>set (dir_names es). resource_ok dir k \<and> (com(n := Some s)) k = None \<and> (rep(n := reporter_file dir n)) k = (\<lambda>_. None)"
      using rest n by auto
    from Cons.IH [OF r2 dist this] show ?thesis
      by (simp add: en dir rn loadCommon_exact s c1 c2 dir_names_Cons override_on_insert' fun_upd_def)
  next
    case False
    with Cons.IH [OF Cons.prems(1) dist] Cons.prems(3) show ?thesis by (simp add: en dir_names_Cons)
  qed
qed

lemma file_in_dirs:
  assumes "file_content root (n # x # ps) = Some s" "os_ReadDir root [] = Inr es"
  shows "n \<in> set (dir_names es)"
proof -
  obtain m where m: "walk root ([n, x] @ ps) = Inr m" using file_content_Some [OF assms(1)] by auto
  then obtain d where "walk root [n, x] = Inr d" unfolding walk_append by (auto split: sum.splits)
  with walk_two [OF this] assms(2) show ?thesis
    by (force simp: os_ReadDir_def dir_names_def split: option.splits)
qed

lemma override_total: "(\<And>n. n \<notin> A \<Longrightarrow> g n = f n) \<Longrightarrow> override_on f g A = g"
  by (auto simp: override_on_def)

lemma FromDir_registers:
  assumes "schema_tree root"
  shows "\<exists>c. NewInMemorySchemaRepositoryFromDir factory root = Inr c \<and> registers factory c (common_file root) (reporter_file root)"
proof -
  obtain es where es: "os_ReadDir root [] = Inr es" "distinct (map fst es)" "\<forall>n\<in>set (dir_names es). resource_ok root n"
    using assms by (auto simp: schema_tree_def list_all_iff split: sum.splits)
  have "override_on (\<lambda>_. None) (common_file root) (set (dir_names es)) = common_file root"
    "override_on (\<lambda>_ _. None) (reporter_file root) (set (dir_names es)) = reporter_file root"
    by (rule override_total; use file_in_dirs [OF _ es(1)] in fastforce)+
  then show ?thesis
    using load_resource_dirs_registers [where rep = "\<lambda>_ _. None" and dir = root, OF registers_empty es(2)] es
    by (auto simp: NewInMemorySchemaRepositoryFromDir_def NewInMemorySchemaRepository_def)
qed

section \<open>Loading from the cache\<close>

text \<open>What a cache, in whatever order its keys are visited, says of a key.\<close>

definition cached :: "json_object \<Rightarrow> string \<Rightarrow> string option" where
  "cached o1 key = (case map_of o1 key of Some (JStr s) \<Rightarrow> Some s | _ \<Rightarrow> None)"

lemma cached_simps [simp]:
  "cached [] k = None" "cached ((k0, JStr s) # o1) k = (if k = k0 then Some s else cached o1 k)"
  by (simp_all add: cached_def)

lemma cached_other: "k \<noteq> fst kv \<Longrightarrow> cached (kv # o1) k = cached o1 k"
  by (cases kv) (simp add: cached_def)

lemma cached_None: "map_of o1 k = None \<Longrightarrow> cached o1 k = None"
  by (simp add: cached_def)

lemma HasPrefix_iff: "HasPrefix s p \<longleftrightarrow> (\<exists>t. s = p @ t)"
  by (auto simp: HasPrefix_def) (metis append_take_drop_id)

lemma load_common_schemas_registers:
  assumes "registers factory c com (\<lambda>_ _. None)" "distinct (map fst o1)"
    and "\<forall>rt v. (commonPrefix @ rt, v) \<in> set o1 \<longrightarrow> NewResourceType rt = Inr rt \<and> com rt = None \<and> (\<exists>s. v = JStr s)"
  shows "\<exists>c'. load_common_schemas factory o1 c = Inr c' \<and>
    registers factory c' (\<lambda>rt. case cached o1 (commonPrefix @ rt) of None \<Rightarrow> com rt | Some s \<Rightarrow> Some s) (\<lambda>_ _. None)"
  using assms
proof (induction o1 arbitrary: c com)
  case Nil
  then show ?case by simp
next
  case (Cons kv o1)
  obtain key v where kv: "kv = (key, v)" by fastforce
  have dist: "distinct (map fst o1)" "key \<notin> fst ` set o1" using Cons.prems(2) by (auto simp: kv)
  show ?case
  proof (cases "HasPrefix key commonPrefix")
    case True
    then obtain rt where key: "key = commonPrefix @ rt" by (auto simp: HasPrefix_iff)
    with Cons.prems(3) kv obtain s where rt: "NewResourceType rt = Inr rt" "com rt = None" and v: "v = JStr s" by auto
    obtain c1 where c1: "bind_res (NewResourceSchemaRepresentation rt (Some (factory rt s))) (CreateResourceSchema c) = Inr c1"
      and r1: "registers factory c1 (com(rt := Some s)) (\<lambda>_ _. None)"
      using registers_common [where s = s, OF Cons.prems(1) rt(2) refl normal_nonempty(2) [OF rt(1)]] by blast
    have "\<forall>k w. (commonPrefix @ k, w) \<in> set o1 \<longrightarrow> NewResourceType k = Inr k \<and> (com(rt := Some s)) k = None \<and> (\<exists>s. w = JStr s)"
      using Cons.prems(3) dist(2) by (force simp: kv key)
    from Cons.IH [OF r1 dist(1) this] obtain c' where c': "load_common_schemas factory o1 c1 = Inr c'"
      "registers factory c' (\<lambda>k. case cached o1 (commonPrefix @ k) of None \<Rightarrow> (com(rt := Some s)) k | Some s \<Rightarrow> Some s) (\<lambda>_ _. None)" by blast
    have "map_of o1 key = None" using dist(2) by (simp add: map_of_eq_None_iff)
    then have "(\<lambda>k. case cached o1 (commonPrefix @ k) of None \<Rightarrow> (com(rt := Some s)) k | Some s \<Rightarrow> Some s) =
        (\<lambda>k. case cached (kv # o1) (commonPrefix @ k) of None \<Rightarrow> com k | Some s \<Rightarrow> Some s)"
      by (intro ext) (auto simp: kv key v cached_None split: option.splits)
    with c' show ?thesis by (simp add: kv key v rt bind_res_assoc c1)
  next
    case False
    then have "cached (kv # o1) (commonPrefix @ k) = cached o1 (commonPrefix @ k)" for k
      by (auto simp: kv HasPrefix_iff intro!: cached_other)
    with Cons.IH [OF Cons.prems(1) dist(1)] Cons.prems(3) False show ?thesis by (simp add: kv)
  qed
qed

lemma colon_split:
  assumes "a @ CHR '':'' # p = b @ CHR '':'' # q" "CHR '':'' \<notin> set a" "CHR '':'' \<notin> set b"
  shows "a = b \<and> p = q"
  using assms by (auto simp: append_eq_append_conv2 append_eq_Cons_conv Cons_eq_append_conv)

lemma findResourceType_hit:
  assumes "rt \<in> set rts" "\<forall>k\<in>set rts. CHR '':'' \<notin> set k"
  shows "findResourceTypeFromJsonKey (rt @ '':'' @ p) rts = (rt, p)"
  using assms
proof (induction rts)
  case (Cons k rts)
  show ?case
  proof (cases "k = rt")
    case False
    with Cons.prems have "\<not> HasPrefix (rt @ '':'' @ p) (k @ '':'')" by (auto simp: HasPrefix_iff dest: colon_split)
    with Cons False show ?thesis by simp
  qed (simp add: HasPrefix_def)
qed simp

lemma findResourceType_miss:
  "\<forall>k\<in>set rts. \<not> HasPrefix key (k @ '':'') \<Longrightarrow> findResourceTypeFromJsonKey key rts = ([], [])"
  by (induction rts) (auto simp: Let_def)

definition add_cached :: "resource_type list \<Rightarrow> json_object \<Rightarrow> (resource_type \<Rightarrow> reporter_type \<Rightarrow> string option) \<Rightarrow>
    resource_type \<Rightarrow> reporter_type \<Rightarrow> string option" where
  "add_cached rts o1 rep rt p = (case (if rt \<in> set rts then cached o1 (rt @ '':'' @ p) else None) of None \<Rightarrow> rep rt p | Some s \<Rightarrow> Some s)"

lemma add_cached_Cons:
  assumes "rt \<in> set rts" "CHR '':'' \<notin> set rt" "\<forall>k\<in>set rts. CHR '':'' \<notin> set k" "map_of o1 (rt @ '':'' @ p) = None"
  shows "add_cached rts o1 (rep(rt := (rep rt)(p := Some s))) = add_cached rts ((rt @ '':'' @ p, JStr s) # o1) rep"
  using assms by (intro ext) (auto simp: add_cached_def cached_None dest: colon_split split: option.splits if_splits)

lemma load_reporter_schemas_registers:
  assumes "registers factory c com rep" "distinct (map fst o1)" "\<forall>k\<in>set rts. CHR '':'' \<notin> set k \<and> k \<noteq> [] \<and> com k \<noteq> None"
    and "\<forall>rt\<in>set rts. \<forall>p v. (rt @ '':'' @ p, v) \<in> set o1 \<longrightarrow> NewReporterType p = Inr p \<and> rep rt p = None \<and> (\<exists>s. v = JStr s)"
  shows "\<exists>c'. load_reporter_schemas factory rts o1 c = Inr c' \<and> registers factory c' com (add_cached rts o1 rep)"
  using assms(1,2,4)
proof (induction o1 arbitrary: c rep)
  case Nil
  have "add_cached rts [] rep = rep" by (intro ext) (simp add: add_cached_def)
  with Nil show ?case by simp
next
  case (Cons kv o1)
  obtain key v where kv: "kv = (key, v)" by fastforce
  have dist: "distinct (map fst o1)" "key \<notin> fst ` set o1" using Cons.prems(2) by (auto simp: kv)
  show ?case
  proof (cases "\<exists>rt\<in>set rts. HasPrefix key (rt @ '':'')")
    case True
    then obtain rt p where rt: "rt \<in> set rts" and key: "key = rt @ '':'' @ p" by (auto simp: HasPrefix_iff)
    have find: "findResourceTypeFromJsonKey key rts = (rt, p)" unfolding key using findResourceType_hit [OF rt] assms(3) by blast
    from assms(3) rt have nrt: "rt \<noteq> []" "com rt \<noteq> None" "CHR '':'' \<notin> set rt" by auto
    have "(rt @ '':'' @ p, v) \<in> set (kv # o1)" by (simp add: kv key)
    then obtain s where np: "NewReporterType p = Inr p" "rep rt p = None" and v: "v = JStr s" using Cons.prems(3) rt by blast
    obtain c1 where c1: "bind_res (NewReporterSchemaRepresentation rt p (Some (factory rt s))) (CreateReporterSchema c) = Inr c1"
      and r1: "registers factory c1 com (rep(rt := (rep rt)(p := Some s)))"
      using registers_reporter [where s = s, OF Cons.prems(1) nrt(2) np(2) nrt(1) normal_nonempty(1) [OF np(1)]] by blast
    have "\<forall>k\<in>set rts. \<forall>q w. (k @ '':'' @ q, w) \<in> set o1 \<longrightarrow>
        NewReporterType q = Inr q \<and> (rep(rt := (rep rt)(p := Some s))) k q = None \<and> (\<exists>s. w = JStr s)"
      using Cons.prems(3) dist(2) by (force simp: kv key)
    note ih = Cons.IH [OF r1 dist(1) this]
    have "map_of o1 (rt @ '':'' @ p) = None" using dist(2) by (simp add: map_of_eq_None_iff key)
    then have "add_cached rts o1 (rep(rt := (rep rt)(p := Some s))) = add_cached rts (kv # o1) rep"
      using add_cached_Cons [OF rt nrt(3), of o1 p rep s] assms(3) unfolding kv key v by blast
    with ih have "\<exists>c'. load_reporter_schemas factory rts o1 c1 = Inr c' \<and> registers factory c' com (add_cached rts (kv # o1) rep)"
      by (simp only:)
    then show ?thesis by (simp add: kv find nrt v np bind_res_assoc c1)
  next
    case False
    then have "cached (kv # o1) (x @ '':'' @ y) = cached o1 (x @ '':'' @ y)" if "x \<in> set rts" for x y
      using that by (intro cached_other) (auto simp: kv HasPrefix_iff)
    then have "add_cached rts (kv # o1) rep = add_cached rts o1 rep"
      by (intro ext) (simp add: add_cached_def)
    with Cons.IH [OF Cons.prems(1) dist(1)] Cons.prems(3) False findResourceType_miss [of rts key] show ?thesis by (simp add: kv)
  qed
qed

lemma registers_types:
  assumes "registers factory c com rep"
  shows "set (GetResourceSchemas c) = dom com"
proof -
  have "rt \<in> fst ` set c \<longleftrightarrow> com rt \<noteq> None" for rt
    using assms unfolding registers_def GetResourceSchema_def
    by (metis (no_types, lifting) map_of_eq_None_iff option.case_eq_if sum.distinct(1))
  then show ?thesis by (auto simp: GetResourceSchemas_def)
qed

section \<open>What the command packs\<close>

lemma put_when_file:
  "map_of (put_when root path (os_ReadFile root) key cache) k =
     (if k = key \<and> file_content root path \<noteq> None then map_option JStr (file_content root path) else map_of cache k)"
  by (auto simp: put_when_def file_content_def os_ReadFile_def split: sum.splits fs_node.splits option.splits)

lemma put_when_other: "k \<noteq> key \<Longrightarrow> map_of (put_when root path rd key cache) k = map_of cache k"
  by (auto simp: put_when_def split: sum.splits)

lemma put_when_distinct: "distinct (map fst cache) \<Longrightarrow> distinct (map fst (put_when root path rd key cache))"
  by (auto simp: put_when_def distinct_update split: sum.splits)

lemma config_key: "CHR '':'' \<notin> set a \<Longrightarrow> a \<noteq> ''config'' \<Longrightarrow> a @ '':'' @ p \<noteq> ''config:'' @ q"
  using colon_split [of a p "''config''" q] by auto

lemma preload_reporters_distinct:
  "distinct (map fst cache) \<Longrightarrow> distinct (map fst (preload_reporters ya root name rt ch cache))"
  by (induction ya root name rt ch cache rule: preload_reporters.induct) (auto simp: Let_def put_when_distinct split: sum.splits)

lemma preload_resources_distinct:
  "distinct (map fst cache) \<Longrightarrow> distinct (map fst (preload_resources ya root es cache))"
  by (induction ya root es cache rule: preload_resources.induct)
    (auto simp: Let_def put_when_distinct preload_reporters_distinct split: sum.splits)

lemma preload_reporters_lookup:
  assumes "CHR '':'' \<notin> set a" "a \<noteq> ''config''" "CHR '':'' \<notin> set n"
    and "\<forall>p\<in>set (dir_names ch). NewReporterType p = Inr p"
  shows "map_of (preload_reporters ya root n n ch cache) (a @ '':'' @ p) =
    (if a = n \<and> p \<in> set (dir_names ch) \<and> reporter_file root n p \<noteq> None
     then map_option JStr (reporter_file root n p) else map_of cache (a @ '':'' @ p))"
  using assms(4)
proof (induction ch arbitrary: cache)
  case Nil
  then show ?case by (simp add: dir_names_def)
next
  case (Cons en ch)
  obtain r node where en: "en = (r, node)" by fastforce
  have key: "a @ '':'' @ p = n @ '':'' @ r \<longleftrightarrow> a = n \<and> p = r" using colon_split [of a p n r] assms(1,3) by auto
  show ?case
  proof (cases "IsDir node")
    case dir: True
    with Cons.prems have r: "NewReporterType r = Inr r" and rest: "\<forall>p\<in>set (dir_names ch). NewReporterType p = Inr p"
      by (auto simp: en dir_names_Cons)
    have "a @ '':'' @ p \<noteq> ''config:'' @ n @ '':'' @ r" by (rule config_key [OF assms(1,2)])
    with Cons.IH [OF rest] key show ?thesis
      by (auto simp: en dir dir_names_Cons r Let_def put_when_file put_when_other)
  next
    case False
    with Cons show ?thesis by (simp add: en dir_names_Cons)
  qed
qed

text \<open>The lookups of the two prefixes that are read back: common schemas and the schemas of a resource type.\<close>

definition packed :: "fs_node \<Rightarrow> string \<Rightarrow> string \<Rightarrow> string option" where
  "packed root a p = (if a = ''common'' then common_file root p else reporter_file root a p)"

lemma preload_resources_lookup:
  assumes "CHR '':'' \<notin> set a" "a \<noteq> ''config''" "\<forall>n\<in>set (dir_names es). resource_ok root n" "distinct (map fst es)"
  shows "map_of (preload_resources ya root es cache) (a @ '':'' @ p) =
    (if (if a = ''common'' then p else a) \<in> set (dir_names es) \<and> packed root a p \<noteq> None
     then map_option JStr (packed root a p) else map_of cache (a @ '':'' @ p))"
  using assms(3,4)
proof (induction es arbitrary: cache)
  case Nil
  then show ?case by (simp add: dir_names_def)
next
  case (Cons en es)
  obtain n node where en: "en = (n, node)" by fastforce
  have dist: "distinct (map fst es)" using Cons.prems(2) by simp
  show ?case
  proof (cases "IsDir node")
    case dir: True
    with Cons.prems have n: "NewResourceType n = Inr n" "CHR '':'' \<notin> set n" "n \<noteq> ''common''" "reporters_ok root n"
      and rest: "\<forall>n\<in>set (dir_names es). resource_ok root n"
      by (auto simp: en dir_names_Cons resource_ok_def)
    let ?c1 = "put_when root [n, ''common_representation.json''] (os_ReadFile root) (''common:'' @ n) cache"
    let ?c2 = "put_when root [n, ''config.yaml''] (encodeYAMLToBase64 ya root) (''config:'' @ n) ?c1"
    let ?c3 = "preload_reporters ya root n n (reporter_dirs root n) ?c2"
    have step: "preload_resources ya root (en # es) cache = preload_resources ya root es ?c3"
      by (auto simp: en dir n Let_def reporter_dirs_def split: sum.splits)
    have common: "a @ '':'' @ p = ''common:'' @ n \<longleftrightarrow> a = ''common'' \<and> p = n"
      using colon_split [of a p "''common''" n] assms(1) by auto
    have "map_of ?c2 (a @ '':'' @ p) = map_of ?c1 (a @ '':'' @ p)"
      by (rule put_when_other [OF config_key [OF assms(1,2)]])
    then have c2: "map_of ?c2 (a @ '':'' @ p) = (if a = ''common'' \<and> p = n \<and> common_file root n \<noteq> None
        then map_option JStr (common_file root n) else map_of cache (a @ '':'' @ p))"
      by (simp add: put_when_file common del: append.simps)
    have "map_of ?c3 (a @ '':'' @ p) = (if (if a = ''common'' then p else a) = n \<and> packed root a p \<noteq> None
        then map_option JStr (packed root a p) else map_of cache (a @ '':'' @ p))"
      using reporter_file_in_dirs [OF _ n(4), of p] n(3)
      unfolding preload_reporters_lookup [OF assms(1,2) n(2) reporters_ok_dirs(2) [OF n(4)]] c2 packed_def
      by (auto simp del: append.simps)
    with Cons.IH [OF rest dist, of ?c3] show ?thesis
      unfolding step by (simp add: en dir dir_names_Cons del: append.simps)
  next
    case False
    with Cons.IH [OF _ dist] Cons.prems(1) show ?thesis by (simp add: en dir_names_Cons)
  qed
qed

lemma distinct_mset_eq: "mset xs = mset ys \<Longrightarrow> distinct xs \<longleftrightarrow> distinct ys"
  by (metis card_distinct distinct_card mset_eq_length mset_eq_setD)

lemma registers_cong:
  "(\<And>rt. com rt \<noteq> None \<Longrightarrow> rep rt = rep' rt) \<Longrightarrow> registers factory c com rep = registers factory c com rep'"
  by (auto simp: registers_def)

lemma preloaded_lookup:
  assumes tree: "schema_tree root" and cache: "preload_command ya root None = Inr (JObj cache)" and perm: "mset o1 = mset cache"
  shows "distinct (map fst o1)"
    and "CHR '':'' \<notin> set a \<Longrightarrow> a \<noteq> ''config'' \<Longrightarrow> map_of o1 (a @ '':'' @ p) = map_option JStr (packed root a p)"
    and "common_file root rt = Some s \<Longrightarrow> resource_ok root rt"
proof -
  obtain es where es: "os_ReadDir root [] = Inr es" "distinct (map fst es)" and ok: "\<forall>n\<in>set (dir_names es). resource_ok root n"
    using tree by (auto simp: schema_tree_def list_all_iff split: sum.splits)
  have dc: "distinct (map fst cache)" and c: "cache = preload_resources ya root es []"
    using cache es preload_resources_distinct [of "[]"] by (auto simp: preload_command_def preloadSchemas_def)
  show d: "distinct (map fst o1)" using dc perm by (metis distinct_mset_eq mset_map)
  have mo: "map_of o1 = map_of cache" using map_of_inject_set [OF d dc] mset_eq_setD [OF perm] by simp
  have out: "file_content root (n # x # ps) = None" if "n \<notin> set (dir_names es)" for n x ps
    using file_in_dirs [OF _ es(1)] that by (cases "file_content root (n # x # ps)") blast+
  show "map_of o1 (a @ '':'' @ p) = map_option JStr (packed root a p)" if "CHR '':'' \<notin> set a" "a \<noteq> ''config''"
    unfolding mo c preload_resources_lookup [OF that ok es(2)] by (auto simp: packed_def out)
  show "resource_ok root rt" if "common_file root rt = Some s"
    using file_in_dirs [OF that es(1)] ok by blast
qed

lemma preloaded_registers:
  assumes tree: "schema_tree root" and cache: "preload_command ya root None = Inr (JObj cache)" and perm: "mset o1 = mset cache"
  shows "\<exists>c. NewFromJsonBytes factory (JObj o1) = Inr c \<and> registers factory c (common_file root) (reporter_file root)"
proof -
  note d = preloaded_lookup(1) [OF assms] and look = preloaded_lookup(2) [OF assms] and ok_common = preloaded_lookup(3) [OF assms]
  have com: "map_of o1 (commonPrefix @ rt) = map_option JStr (common_file root rt)" for rt
    using look [of "''common''" rt] by (simp add: packed_def commonPrefix_def)
  have "\<forall>rt v. (commonPrefix @ rt, v) \<in> set o1 \<longrightarrow> NewResourceType rt = Inr rt \<and> None = None \<and> (\<exists>s. v = JStr s)"
  proof (intro allI impI)
    fix rt v
    assume "(commonPrefix @ rt, v) \<in> set o1"
    then have "map_option JStr (common_file root rt) = Some v" using map_of_is_SomeI [OF d] com by metis
    then show "NewResourceType rt = Inr rt \<and> None = None \<and> (\<exists>s. v = JStr s)" using ok_common by (auto simp: resource_ok_def)
  qed
  moreover have cc: "(\<lambda>rt. case cached o1 (commonPrefix @ rt) of None \<Rightarrow> None | Some s \<Rightarrow> Some s) = common_file root"
    by (intro ext) (simp add: cached_def com split: option.splits)
  ultimately obtain c1 where
    c1: "load_common_schemas factory o1 [] = Inr c1" and r1: "registers factory c1 (common_file root) (\<lambda>_ _. None)"
    using load_common_schemas_registers [OF registers_empty d, of factory] by auto
  let ?rts = "GetResourceSchemas c1"
  have rts: "rt \<in> set ?rts \<longleftrightarrow> common_file root rt \<noteq> None" for rt using registers_types [OF r1] by auto
  have ok_rts: "resource_ok root rt" if "rt \<in> set ?rts" for rt using that rts ok_common by blast
  have rep: "map_of o1 (rt @ '':'' @ p) = map_option JStr (reporter_file root rt p)" if "rt \<in> set ?rts" for rt p
    using look [of rt p] ok_rts [OF that] by (simp add: packed_def resource_ok_def)
  have plain: "\<forall>k\<in>set ?rts. CHR '':'' \<notin> set k \<and> k \<noteq> [] \<and> common_file root k \<noteq> None"
    using ok_rts rts normal_nonempty(2) unfolding resource_ok_def by blast
  have "\<forall>rt\<in>set ?rts. \<forall>p v. (rt @ '':'' @ p, v) \<in> set o1 \<longrightarrow> NewReporterType p = Inr p \<and> None = None \<and> (\<exists>s. v = JStr s)"
  proof (intro ballI allI impI)
    fix rt p v
    assume rt: "rt \<in> set ?rts" and "(rt @ '':'' @ p, v) \<in> set o1"
    then have "map_option JStr (reporter_file root rt p) = Some v" using map_of_is_SomeI [OF d] rep [OF rt] by metis
    then show "NewReporterType p = Inr p \<and> None = None \<and> (\<exists>s. v = JStr s)"
      using reporter_file_in_dirs reporters_ok_dirs(2) ok_rts [OF rt] by (auto simp: resource_ok_def)
  qed
  from load_reporter_schemas_registers [OF r1 d plain this] obtain c2 where
    c2: "load_reporter_schemas factory ?rts o1 c1 = Inr c2" "registers factory c2 (common_file root) (add_cached ?rts o1 (\<lambda>_ _. None))" by blast
  moreover have "registers factory c2 (common_file root) (add_cached ?rts o1 (\<lambda>_ _. None)) = registers factory c2 (common_file root) (reporter_file root)"
    using rts rep by (intro registers_cong ext) (auto simp: add_cached_def cached_def split: option.splits)
  ultimately show ?thesis by (auto simp: NewFromJsonBytes_def NewInMemorySchemaRepository_def c1)
qed

section \<open>The two paths agree\<close>

text \<open>C20. For a schema directory with unique, normal names (no colon, not \<open>common\<close> or \<open>config\<close>), a readable common schema per resource type
  and readable reporters directories, the service gets the same registry from the directory and from the cache that \<open>preload-schema\<close> writes, in whatever
  order the keys of the cache are visited and whatever the YAML files hold: both constructors succeed and a lookup answers with the schema of the
  file of that resource type, or reporter, and with the not-found error of the level that has no file.\<close>

theorem schema_paths_agree:
  assumes "schema_tree root"
  shows "\<exists>c1 cache. NewInMemorySchemaRepositoryFromDir factory root = Ok c1 \<and> registers factory c1 (common_file root) (reporter_file root) \<and>
    preload_command ya root None = Ok (JObj cache) \<and>
    (\<forall>o1. mset o1 = mset cache \<longrightarrow> (\<exists>c2. NewFromJsonBytes factory (JObj o1) = Ok c2 \<and>
       (\<forall>rt. GetResourceSchema c2 rt = GetResourceSchema c1 rt) \<and> (\<forall>rt p. GetReporterSchema c2 rt p = GetReporterSchema c1 rt p)))"
proof -
  obtain c1 where c1: "NewInMemorySchemaRepositoryFromDir factory root = Ok c1" "registers factory c1 (common_file root) (reporter_file root)"
    using FromDir_registers [OF assms] by blast
  obtain cache where cache: "preload_command ya root None = Ok (JObj cache)"
    using assms by (auto simp: preload_command_def preloadSchemas_def schema_tree_def split: sum.splits)
  have "\<exists>c2. NewFromJsonBytes factory (JObj o1) = Ok c2 \<and> (\<forall>rt. GetResourceSchema c2 rt = GetResourceSchema c1 rt) \<and>
      (\<forall>rt p. GetReporterSchema c2 rt p = GetReporterSchema c1 rt p)" if "mset o1 = mset cache" for o1
    using preloaded_registers [OF assms cache that, of factory] c1(2) by (auto simp: registers_def)
  with c1 cache show ?thesis by blast
qed

text \<open>The service started on a schema directory and one started on the file that \<open>preload-schema\<close> wrote for it have the same schemas.\<close>

lemma startup_registries_agree:
  assumes "schema_tree (fs dir)" "preload_command ya (fs dir) None = Ok (JObj cache)"
    and "os_ReadFile (fs file) [] = Ok text" "unmarshal text = Ok (JObj o1)" "mset o1 = mset cache"
  shows "\<exists>c1 c2. newSchemaRepository unmarshal fs \<lparr>sc_Repository = InMemoryRepository, sc_InMemory = \<lparr>io_Type = DirRepository, io_Path = dir\<rparr>\<rparr> = Ok c1 \<and>
    newSchemaRepository unmarshal fs \<lparr>sc_Repository = InMemoryRepository, sc_InMemory = \<lparr>io_Type = JSONRepository, io_Path = file\<rparr>\<rparr> = Ok c2 \<and>
    (\<forall>rt. GetResourceSchema c1 rt = GetResourceSchema c2 rt) \<and> (\<forall>rt p. GetReporterSchema c1 rt p = GetReporterSchema c2 rt p)"
proof -
  note FromDir_registers [OF assms(1), of FeaturesAwareSchemaFactory]
  moreover note preloaded_registers [OF assms(1,2,5), of FeaturesAwareSchemaFactory]
  ultimately show ?thesis
    using assms(3,4) by (auto simp: newSchemaRepository_def NewInMemorySchemaRepositoryFromJsonFile_def registers_def Let_def
        EmptyRepository_def JSONRepository_def DirRepository_def)
qed

text \<open>Validated options never reach the error for an unknown type, and the registry starts empty or as read.\<close>

lemma validated_schema_options:
  assumes "schema_Validate o1 = []"
  shows "newSchemaRepository unmarshal fs o1 \<in> {Ok [], NewInMemorySchemaRepositoryFromJsonFile unmarshal FeaturesAwareSchemaFactory (fs (io_Path (sc_InMemory o1))),
    NewInMemorySchemaRepositoryFromDir FeaturesAwareSchemaFactory (fs (io_Path (sc_InMemory o1)))}"
  using assms by (auto simp: schema_Validate_def inmemory_Validate_def newSchemaRepository_def NewInMemorySchemaRepository_def Let_def split: if_splits)

definition sample_tree :: fs_node where
  "sample_tree = FsDir None [(''README.md'', FsFile None ''x''),
     (''host'', FsDir None [(''common_representation.json'', FsFile None ''{}''), (''config.yaml'', FsFile None ''type: host''),
        (''reporters'', FsDir None [(''hbi'', FsDir None [(''host.json'', FsFile None ''{1}''), (''config.yaml'', FsFile None ''y'')]),
           (''acm'', FsDir None [])])]),
     (''service'', FsDir None [(''common_representation.json'', FsFile None ''{2}'')])]"

definition sample_yaml :: yaml_ops where
  "sample_yaml = \<lparr>ya_Unmarshal = (\<lambda>s. Ok [(''type'', JStr ''Host'')]), ya_Marshal = (\<lambda>_. Ok ''type: host'')\<rparr>"

theorem schema_paths_agree_witness:
  "schema_tree sample_tree \<and>
   (\<exists>c1 cache. NewInMemorySchemaRepositoryFromDir FeaturesAwareSchemaFactory sample_tree = Ok c1 \<and>
    registers FeaturesAwareSchemaFactory c1 (common_file sample_tree) (reporter_file sample_tree) \<and>
    preload_command sample_yaml sample_tree None = Ok (JObj cache) \<and>
    (\<forall>o1. mset o1 = mset cache \<longrightarrow> (\<exists>c2. NewFromJsonBytes FeaturesAwareSchemaFactory (JObj o1) = Ok c2 \<and>
       (\<forall>rt. GetResourceSchema c2 rt = GetResourceSchema c1 rt) \<and> (\<forall>rt p. GetReporterSchema c2 rt p = GetReporterSchema c1 rt p))))"
proof -
  have "schema_tree sample_tree" by code_simp
  then show ?thesis using schema_paths_agree [of sample_tree FeaturesAwareSchemaFactory sample_yaml] by blast
qed

text \<open>Outside those trees the paths differ. A directory whose name is not normal: the loader opens the normalised name and finds nothing,
  the command opens the directory it listed. A reporter schema without a common schema: an error of the loader, ignored in the cache. A
  directory without a valid name: an error of the loader, skipped by the command.\<close>

lemma upper_case_directory:
  "let root = FsDir None [(''Host'', FsDir None [(''common_representation.json'', FsFile None ''{}'')])] in
   NewInMemorySchemaRepositoryFromDir FeaturesAwareSchemaFactory root = Ok [] \<and>
   preload_command sample_yaml root None = Ok (JObj [(''common:host'', JStr ''{}'')])"
  by code_simp

lemma reporter_without_common:
  "let root = FsDir None [(''host'', FsDir None [(''reporters'', FsDir None [(''hbi'', FsDir None [(''host.json'', FsFile None ''{}'')])])])] in
   NewInMemorySchemaRepositoryFromDir FeaturesAwareSchemaFactory root = Err (Sentinel ErrResourceSchemaNotFound) \<and>
   bind_res (preload_command sample_yaml root None) (NewFromJsonBytes FeaturesAwareSchemaFactory) = Ok []"
  by code_simp

lemma blank_directory_name:
  "let root = FsDir None [('' '', FsDir None [])] in
   \<not> is_ok (NewInMemorySchemaRepositoryFromDir FeaturesAwareSchemaFactory root) \<and> preload_command sample_yaml root None = Ok (JObj [])"
  by code_simp

text \<open>A resource type \<open>config\<close> takes the configuration of another type for a reporter schema.\<close>

lemma config_resource_type:
  "let root = FsDir None [(''config'', FsDir None [(''common_representation.json'', FsFile None ''{}'')]),
       (''host'', FsDir None [(''config.yaml'', FsFile None ''type: host'')])] in
   (case bind_res (preload_command (sample_yaml\<lparr>ya_Marshal := \<lambda>_. Ok []\<rparr>) root None) (NewFromJsonBytes FeaturesAwareSchemaFactory) of Inl _ \<Rightarrow> False
    | Inr c \<Rightarrow> is_ok (GetReporterSchema c ''config'' ''host'')) \<and>
   (case NewInMemorySchemaRepositoryFromDir FeaturesAwareSchemaFactory root of Inl _ \<Rightarrow> False
    | Inr c \<Rightarrow> \<not> is_ok (GetReporterSchema c ''config'' ''host''))"
  by code_simp

end
