(* ===== verification/Servers.thy ===== *)
theory Servers
  imports Middleware
begin

text \<open>
  The servers (\<open>internal/server\<close>): options and their validation, TLS configuration, construction of the servers, the pprof server, and the two interceptors
  that observe streams, \<open>streamcounter.go\<close> and \<open>streamlogger.go\<close>. The chains of middleware are in \<open>Middleware\<close>. Loading of certificates, reading of files, creation of
  instruments and of listeners are arguments.
\<close>

section \<open>Options\<close>

text \<open>\<open>grpc.Options\<close> and \<open>http.Options\<close> have the same fields and differ in the default address.\<close>

record listener_options =
  lo_Addr :: string
  lo_Timeout :: int
  lo_ServingCertFile :: string
  lo_PrivateKeyFile :: string
  lo_ClientCAFile :: string
  lo_SNI :: string
  lo_CertOpt :: int

definition grpc_NewOptions :: listener_options where
  "grpc_NewOptions = \<lparr>lo_Addr = ''0.0.0.0:9000'', lo_Timeout = 300, lo_ServingCertFile = [], lo_PrivateKeyFile = [],
     lo_ClientCAFile = [], lo_SNI = [], lo_CertOpt = 3\<rparr>"

definition http_NewOptions :: listener_options where
  "http_NewOptions = \<lparr>lo_Addr = ''0.0.0.0:8000'', lo_Timeout = 300, lo_ServingCertFile = [], lo_PrivateKeyFile = [],
     lo_ClientCAFile = [], lo_SNI = [], lo_CertOpt = 3\<rparr>"

definition Listener_Validate :: "listener_options \<Rightarrow> go_error list" where
  "Listener_Validate o1 =
     (if lo_Timeout o1 < 0 then [Errorf ''read-timeout-seconds must be >= 0''] else []) @
     (if lo_ServingCertFile o1 = [] \<and> lo_PrivateKeyFile o1 \<noteq> [] \<or> lo_ServingCertFile o1 \<noteq> [] \<and> lo_PrivateKeyFile o1 = []
      then [Errorf ''both certfile and keyfile must be populated''] else []) @
     (if lo_CertOpt o1 < 0 \<or> lo_CertOpt o1 > 4 then [Errorf ''certOpt must be >= 0 and <= 4''] else [])"

record pprof_options =
  pp_Enabled :: bool
  pp_Port :: string
  pp_Addr :: string

definition DefaultPprofPort :: string where "DefaultPprofPort = ''5000''"
definition DefaultPprofAddr :: string where "DefaultPprofAddr = ''0.0.0.0''"

definition pprof_NewOptions :: pprof_options where
  "pprof_NewOptions = \<lparr>pp_Enabled = False, pp_Port = DefaultPprofPort, pp_Addr = DefaultPprofAddr\<rparr>"

definition pprof_Complete :: "pprof_options \<Rightarrow> pprof_options" where
  "pprof_Complete o1 = o1\<lparr>pp_Port := (if pp_Port o1 = [] then DefaultPprofPort else pp_Port o1),
     pp_Addr := (if pp_Addr o1 = [] then DefaultPprofAddr else pp_Addr o1)\<rparr>"

definition pprof_Validate :: "pprof_options \<Rightarrow> go_error list" where
  "pprof_Validate o1 = (if pp_Enabled o1 then
     (if pp_Port o1 = [] then [Errorf ''pprof port must be set when pprof is enabled''] else []) @
     (if pp_Addr o1 = [] then [Errorf ''pprof addr must be set when pprof is enabled''] else []) else [])"

definition GetListenAddr :: "pprof_options \<Rightarrow> string" where
  "GetListenAddr o1 = pp_Addr o1 @ '':'' @ pp_Port o1"

record server_options =
  so_Id :: string
  so_Name :: string
  so_PublicUrl :: string
  so_ReadOnlyMode :: bool
  so_Grpc :: listener_options
  so_Http :: listener_options
  so_Pprof :: pprof_options

definition server_NewOptions :: "string \<Rightarrow> server_options" where
  "server_NewOptions hostname = \<lparr>so_Id = hostname, so_Name = ''kessel-inventory-api'', so_PublicUrl = ''http://localhost:8000'', so_ReadOnlyMode = False,
     so_Grpc = grpc_NewOptions, so_Http = http_NewOptions, so_Pprof = pprof_NewOptions\<rparr>"

text \<open>\<open>Complete\<close> changes only the pprof options and reports no error.\<close>

definition server_Complete :: "server_options \<Rightarrow> server_options" where
  "server_Complete o1 = o1\<lparr>so_Pprof := pprof_Complete (so_Pprof o1)\<rparr>"

definition server_Validate :: "server_options \<Rightarrow> go_error list" where
  "server_Validate o1 = Listener_Validate (so_Grpc o1) @ Listener_Validate (so_Http o1) @ pprof_Validate (so_Pprof o1)"

section \<open>TLS\<close>

datatype client_auth = NoClientCert | RequestClientCert | RequireAnyClientCert | VerifyClientCertIfGiven | RequireAndVerifyClientCert

definition ClientAuthType :: "int \<Rightarrow> client_auth" where
  "ClientAuthType n = (if n = 1 then RequestClientCert else if n = 2 then RequireAnyClientCert
     else if n = 3 then VerifyClientCertIfGiven else if n = 4 then RequireAndVerifyClientCert else NoClientCert)"

text \<open>A pool of certificates is the list of PEM texts appended to it; \<open>None\<close> is the nil pool.\<close>

record 'cert tls_config =
  tc_Certificates :: "'cert list"
  tc_ServerName :: string
  tc_ClientAuth :: client_auth
  tc_ClientCAs :: "string list option"
  tc_MinVersion12 :: bool

record 'cert tls_env =
  te_LoadX509KeyPair :: "string \<Rightarrow> string \<Rightarrow> 'cert result"
  te_Open :: "string \<Rightarrow> go_error option"
  te_ReadAll :: "string \<Rightarrow> string result"

definition getTSLConfig :: "'cert tls_env \<Rightarrow> 'cert tls_config option \<Rightarrow> listener_options \<Rightarrow> 'cert tls_config option result" where
  "getTSLConfig env tls o1 = (case tls of Some c \<Rightarrow> Ok (Some c) | None \<Rightarrow>
     if lo_ServingCertFile o1 \<noteq> [] \<and> lo_PrivateKeyFile o1 \<noteq> [] then
       bind_res (wrap_err ''failed to load X509 key pair'' (te_LoadX509KeyPair env (lo_ServingCertFile o1) (lo_PrivateKeyFile o1))) (\<lambda>cert.
         let config = \<lparr>tc_Certificates = [cert], tc_ServerName = [], tc_ClientAuth = NoClientCert, tc_ClientCAs = None, tc_MinVersion12 = False\<rparr> in
         if lo_CertOpt o1 > 0 \<and> lo_ClientCAFile o1 \<noteq> [] then
           bind_res (if te_Open env (lo_ClientCAFile o1) = None
                     then bind_res (wrap_err ''failed to load CA certificate'' (te_ReadAll env (lo_ClientCAFile o1))) (\<lambda>caCert. Ok (Some [caCert]))
                     else Ok None) (\<lambda>caCertPool.
             Ok (Some (config\<lparr>tc_ServerName := lo_SNI o1, tc_ClientAuth := ClientAuthType (lo_CertOpt o1),
                              tc_ClientCAs := caCertPool, tc_MinVersion12 := True\<rparr>)))
         else Ok (Some config))
     else Ok None)"

text \<open>The options of a listener: address, TLS configuration and timeout, a \<open>time.Duration\<close> in nanoseconds.\<close>

record 'cert listener_config =
  lc_Address :: string
  lc_TLSConfig :: "'cert tls_config option"
  lc_Timeout :: int

definition Listener_Complete :: "'cert tls_env \<Rightarrow> 'cert tls_config option \<Rightarrow> listener_options \<Rightarrow> 'cert listener_config result" where
  "Listener_Complete env tls o1 = bind_res (getTSLConfig env tls o1) (\<lambda>tlsConfig.
     Ok \<lparr>lc_Address = lo_Addr o1, lc_TLSConfig = tlsConfig, lc_Timeout = int64 (lo_Timeout o1 * 1000000000)\<rparr>)"

text \<open>\<open>Config.Complete\<close> of the server: both listeners are completed and the errors collected.\<close>

definition server_Config_Complete ::
    "'cert tls_env \<Rightarrow> server_options \<Rightarrow> ('cert listener_config option \<times> 'cert listener_config option) \<times> go_error list" where
  "server_Config_Complete env o1 =
     (let g = Listener_Complete env None (so_Grpc o1); h = Listener_Complete env None (so_Http o1) in
      ((case g of Inl _ \<Rightarrow> None | Inr c \<Rightarrow> Some c, case h of Inl _ \<Rightarrow> None | Inr c \<Rightarrow> Some c),
       (case g of Inl e \<Rightarrow> [e] | Inr _ \<Rightarrow> []) @ (case h of Inl e \<Rightarrow> [e] | Inr _ \<Rightarrow> [])))"

section \<open>The pprof server\<close>

definition pprof_New :: "pprof_options \<Rightarrow> string option" where
  "pprof_New opts = (if \<not> pp_Enabled opts then None else Some (GetListenAddr opts))"

text \<open>\<open>ListenAndServe\<close> returns an error always, \<open>http.ErrServerClosed\<close> after a shutdown.\<close>

datatype listen_end = ErrServerClosed | ListenError go_error

definition pprof_Start :: "string option \<Rightarrow> listen_end \<Rightarrow> go_error option" where
  "pprof_Start s e = (case s of None \<Rightarrow> None | Some _ \<Rightarrow> (case e of ErrServerClosed \<Rightarrow> None | ListenError err \<Rightarrow> Some (Wrap ''pprof server error'' err)))"

definition pprof_Shutdown :: "string option \<Rightarrow> go_error option \<Rightarrow> go_error option" where
  "pprof_Shutdown s e = (case s of None \<Rightarrow> None | Some _ \<Rightarrow> map_option (Wrap ''error shutting down pprof server'') e)"

section \<open>Streams\<close>

text \<open>A stream of the transport over its state, and the code of a handler as the calls it makes on the stream it was given.\<close>

record ('m, 's) server_stream =
  ss_SendMsg :: "'m \<Rightarrow> 's \<Rightarrow> go_error option \<times> 's"
  ss_RecvMsg :: "'s \<Rightarrow> 'm result \<times> 's"

datatype 'm stream_handler = Return "go_error option"
  | Send 'm "go_error option \<Rightarrow> 'm stream_handler"
  | Recv "'m result \<Rightarrow> 'm stream_handler"

primrec run_handler :: "'m stream_handler \<Rightarrow> ('m, 's) server_stream \<Rightarrow> 's \<Rightarrow> go_error option \<times> 's" where
  "run_handler (Return e) ss s = (e, s)"
| "run_handler (Send m k) ss s = (case ss_SendMsg ss m s of (e, s') \<Rightarrow> run_handler (k e) ss s')"
| "run_handler (Recv k) ss s = (case ss_RecvMsg ss s of (r, s') \<Rightarrow> run_handler (k r) ss s')"

text \<open>Codes have the numbers of \<open>google.golang.org/grpc/codes\<close>.\<close>

definition code_number :: "grpc_code \<Rightarrow> nat" where
  "code_number c = (case c of OK \<Rightarrow> 0 | Canceled \<Rightarrow> 1 | Unknown \<Rightarrow> 2 | InvalidArgument \<Rightarrow> 3 | DeadlineExceeded \<Rightarrow> 4 | NotFound \<Rightarrow> 5
     | AlreadyExists \<Rightarrow> 6 | PermissionDenied \<Rightarrow> 7 | ResourceExhausted \<Rightarrow> 8 | FailedPrecondition \<Rightarrow> 9 | Aborted \<Rightarrow> 10
     | Internal \<Rightarrow> 13 | Unavailable \<Rightarrow> 14 | Unauthenticated \<Rightarrow> 16)"

definition stream_code :: "(nat \<Rightarrow> grpc_code) \<Rightarrow> go_error option \<Rightarrow> nat" where
  "stream_code kratos err = (case err of None \<Rightarrow> 0
     | Some e \<Rightarrow> (case FromError kratos e of Some c \<Rightarrow> code_number c | None \<Rightarrow> code_number Unknown))"

section \<open>Counting (\<open>streamcounter.go\<close>)\<close>

text \<open>The four instruments, each present or nil.\<close>

record stream_metrics =
  sm_counter :: bool
  sm_messageCounter :: bool
  sm_firstResponse :: bool
  sm_messageLatency :: bool

definition newStreamMetrics :: "(string \<Rightarrow> go_error option) option \<Rightarrow> stream_metrics option result" where
  "newStreamMetrics meter = (case meter of None \<Rightarrow> Ok None
   | Some create \<Rightarrow> (case List.find (\<lambda>n. create n \<noteq> None) [''grpc_server_streams_total'', ''grpc_server_stream_messages_total'',
         ''grpc_server_stream_first_response_duration_seconds'', ''grpc_server_stream_message_duration_seconds''] of
       Some n \<Rightarrow> Err (the (create n))
     | None \<Rightarrow> Ok (Some \<lparr>sm_counter = True, sm_messageCounter = True, sm_firstResponse = True, sm_messageLatency = True\<rparr>)))"

datatype direction = Sent | Received

text \<open>What was recorded, shared by all streams: streams with their code, messages, and durations.\<close>

record meter =
  mt_streams :: "(string \<times> int) list"
  mt_messages :: "(string \<times> direction) list"
  mt_latency :: "(string \<times> direction \<times> time) list"
  mt_first :: "(string \<times> time) list"

text \<open>The state of a monitored stream: the meter, whether the first response was recorded, and how often the clock was read.\<close>

record monitor =
  mo_meter :: meter
  mo_once :: bool
  mo_tick :: nat

definition add_message :: "stream_metrics \<Rightarrow> string \<Rightarrow> direction \<Rightarrow> monitor \<Rightarrow> monitor" where
  "add_message m op d mo = (if sm_messageCounter m
     then mo\<lparr>mo_meter := (mo_meter mo)\<lparr>mt_messages := mt_messages (mo_meter mo) @ [(op, d)]\<rparr>\<rparr> else mo)"

definition add_latency :: "stream_metrics \<Rightarrow> (nat \<Rightarrow> time) \<Rightarrow> string \<Rightarrow> direction \<Rightarrow> time \<Rightarrow> monitor \<Rightarrow> monitor" where
  "add_latency m clock op d start mo = (if sm_messageLatency m
     then mo\<lparr>mo_meter := (mo_meter mo)\<lparr>mt_latency := mt_latency (mo_meter mo) @ [(op, d, clock (mo_tick mo) - start)]\<rparr>, mo_tick := mo_tick mo + 1\<rparr> else mo)"

definition add_first :: "stream_metrics \<Rightarrow> (nat \<Rightarrow> time) \<Rightarrow> string \<Rightarrow> time \<Rightarrow> monitor \<Rightarrow> monitor" where
  "add_first m clock op streamStart mo = (if sm_firstResponse m \<and> \<not> mo_once mo
     then mo\<lparr>mo_meter := (mo_meter mo)\<lparr>mt_first := mt_first (mo_meter mo) @ [(op, clock (mo_tick mo) - streamStart)]\<rparr>, mo_tick := mo_tick mo + 1, mo_once := True\<rparr>
     else mo)"

definition monitored_SendMsg ::
    "stream_metrics \<Rightarrow> (nat \<Rightarrow> time) \<Rightarrow> string \<Rightarrow> time \<Rightarrow> ('m, 's) server_stream \<Rightarrow> 'm \<Rightarrow> 's \<times> monitor \<Rightarrow> go_error option \<times> 's \<times> monitor" where
  "monitored_SendMsg m clock op streamStart ss msg = (\<lambda>(s, mo).
     let start = clock (mo_tick mo); mo1 = mo\<lparr>mo_tick := mo_tick mo + 1\<rparr> in
     case ss_SendMsg ss msg s of
       (None, s') \<Rightarrow> (None, s', add_first m clock op streamStart (add_latency m clock op Sent start (add_message m op Sent mo1)))
     | (Some e, s') \<Rightarrow> (Some e, s', mo1))"

definition monitored_RecvMsg ::
    "stream_metrics \<Rightarrow> (nat \<Rightarrow> time) \<Rightarrow> string \<Rightarrow> ('m, 's) server_stream \<Rightarrow> 's \<times> monitor \<Rightarrow> 'm result \<times> 's \<times> monitor" where
  "monitored_RecvMsg m clock op ss = (\<lambda>(s, mo).
     let start = clock (mo_tick mo); mo1 = mo\<lparr>mo_tick := mo_tick mo + 1\<rparr> in
     case ss_RecvMsg ss s of
       (Inr msg, s') \<Rightarrow> (Inr msg, s', add_latency m clock op Received start (add_message m op Received mo1))
     | (Inl e, s') \<Rightarrow> (Inl e, s', mo1))"

definition monitoredStream :: "stream_metrics \<Rightarrow> (nat \<Rightarrow> time) \<Rightarrow> string \<Rightarrow> time \<Rightarrow> ('m, 's) server_stream \<Rightarrow> ('m, 's \<times> monitor) server_stream" where
  "monitoredStream m clock op streamStart ss =
     \<lparr>ss_SendMsg = monitored_SendMsg m clock op streamStart ss, ss_RecvMsg = monitored_RecvMsg m clock op ss\<rparr>"

text \<open>The stream itself, over the same pair of states.\<close>

definition plainStream :: "('m, 's) server_stream \<Rightarrow> ('m, 's \<times> 'w) server_stream" where
  "plainStream ss = \<lparr>ss_SendMsg = (\<lambda>msg (s, w). case ss_SendMsg ss msg s of (e, s') \<Rightarrow> (e, s', w)),
     ss_RecvMsg = (\<lambda>(s, w). case ss_RecvMsg ss s of (r, s') \<Rightarrow> (r, s', w))\<rparr>"

text \<open>The handler is the rest of the chain; \<open>'l\<close> is what it did elsewhere.\<close>

definition newStreamCounterInterceptor ::
    "(nat \<Rightarrow> grpc_code) \<Rightarrow> (nat \<Rightarrow> int) \<Rightarrow> stream_metrics option \<Rightarrow> (nat \<Rightarrow> time) \<Rightarrow> string \<Rightarrow> ('m, 's) server_stream \<Rightarrow>
     (('m, 's \<times> monitor) server_stream \<Rightarrow> 's \<times> monitor \<Rightarrow> go_error option \<times> ('s \<times> monitor) \<times> 'l) \<Rightarrow> 's \<times> meter \<Rightarrow> go_error option \<times> ('s \<times> meter) \<times> 'l" where
  "newStreamCounterInterceptor kratos fromGRPCCode mm clock op ss handler = (\<lambda>(s, meter). case mm of
     None \<Rightarrow> (case handler (plainStream ss) (s, \<lparr>mo_meter = meter, mo_once = False, mo_tick = 0\<rparr>) of (err, (s', mo), l) \<Rightarrow> (err, (s', mo_meter mo), l))
   | Some m \<Rightarrow>
       (let wrapped = (if sm_messageCounter m \<or> sm_messageLatency m \<or> sm_firstResponse m then monitoredStream m clock op (clock 0) ss else plainStream ss) in
        case handler wrapped (s, \<lparr>mo_meter = meter, mo_once = False, mo_tick = 1\<rparr>) of (err, (s', mo), l) \<Rightarrow>
          (err, (s', if sm_counter m then (mo_meter mo)\<lparr>mt_streams := mt_streams (mo_meter mo) @ [(op, fromGRPCCode (stream_code kratos err))]\<rparr> else mo_meter mo), l)))"

section \<open>Logging (\<open>streamlogger.go\<close>)\<close>

datatype log_level = LevelInfo | LevelWarn | LevelError

definition levelForCode :: "nat \<Rightarrow> log_level" where
  "levelForCode code = (if code = 0 then LevelInfo
     else if code \<in> {1, 4} then LevelInfo
     else if code \<in> {3, 5, 6, 7, 16, 9, 11} then LevelWarn
     else if code \<in> {2, 13, 12, 14, 15} then LevelError
     else if code \<in> {8, 10} then LevelWarn
     else LevelError)"

text \<open>The lines, without their times. The reason is the message of the error, when it has a status.\<close>

datatype log_line = StreamOpened string string
  | StreamRequest string string string
  | StreamClosed string string log_level int "go_error option" uint uint

record log_stream =
  ls_sent :: uint
  ls_received :: uint
  ls_argsLogged :: bool
  ls_lines :: "log_line list"

definition logging_SendMsg :: "('m, 's) server_stream \<Rightarrow> 'm \<Rightarrow> 's \<times> log_stream \<Rightarrow> go_error option \<times> 's \<times> log_stream" where
  "logging_SendMsg ss msg = (\<lambda>(s, l). case ss_SendMsg ss msg s of
     (None, s') \<Rightarrow> (None, s', l\<lparr>ls_sent := ls_sent l + 1\<rparr>)
   | (Some e, s') \<Rightarrow> (Some e, s', l))"

definition logging_RecvMsg ::
    "('m \<Rightarrow> string) \<Rightarrow> string \<Rightarrow> string \<Rightarrow> ('m, 's) server_stream \<Rightarrow> 's \<times> log_stream \<Rightarrow> 'm result \<times> 's \<times> log_stream" where
  "logging_RecvMsg extractArgs op streamID ss = (\<lambda>(s, l). case ss_RecvMsg ss s of
     (Inr msg, s') \<Rightarrow> (Inr msg, s',
        (let l1 = l\<lparr>ls_received := ls_received l + 1\<rparr> in
         if ls_argsLogged l1 then l1
         else l1\<lparr>ls_argsLogged := True, ls_lines := ls_lines l1 @ [StreamRequest op streamID (extractArgs msg)]\<rparr>))
   | (Inl e, s') \<Rightarrow> (Inl e, s', l))"

definition loggingStream :: "('m \<Rightarrow> string) \<Rightarrow> string \<Rightarrow> string \<Rightarrow> ('m, 's) server_stream \<Rightarrow> ('m, 's \<times> log_stream) server_stream" where
  "loggingStream extractArgs op streamID ss = \<lparr>ss_SendMsg = logging_SendMsg ss, ss_RecvMsg = logging_RecvMsg extractArgs op streamID ss\<rparr>"

definition newStreamLoggingInterceptor ::
    "(nat \<Rightarrow> grpc_code) \<Rightarrow> (nat \<Rightarrow> int) \<Rightarrow> ('m \<Rightarrow> string) \<Rightarrow> string \<Rightarrow> string \<Rightarrow> ('m, 's) server_stream \<Rightarrow>
     (('m, 's \<times> log_stream) server_stream \<Rightarrow> 's \<times> log_stream \<Rightarrow> go_error option \<times> 's \<times> log_stream) \<Rightarrow> 's \<times> log_line list \<Rightarrow> go_error option \<times> 's \<times> log_line list" where
  "newStreamLoggingInterceptor kratos fromGRPCCode extractArgs op streamID ss handler = (\<lambda>(s, lines).
     case handler (loggingStream extractArgs op streamID ss)
            (s, \<lparr>ls_sent = 0, ls_received = 0, ls_argsLogged = False, ls_lines = lines @ [StreamOpened op streamID]\<rparr>) of
       (err, s', l) \<Rightarrow>
         (let code = stream_code kratos err; reason = (case err of None \<Rightarrow> None | Some e \<Rightarrow> if FromError kratos e = None then None else Some e) in
          (err, s', ls_lines l @ [StreamClosed op streamID (levelForCode code) (fromGRPCCode code) reason (ls_sent l) (ls_received l)])))"

text \<open>The order of \<open>NewWithDeps\<close>: the counter around the logger around the rest of the chain.\<close>

definition observed_stream ::
    "(nat \<Rightarrow> grpc_code) \<Rightarrow> (nat \<Rightarrow> int) \<Rightarrow> stream_metrics option \<Rightarrow> (nat \<Rightarrow> time) \<Rightarrow> ('m \<Rightarrow> string) \<Rightarrow> string \<Rightarrow> string \<Rightarrow> ('m, 's) server_stream \<Rightarrow>
     'm stream_handler \<Rightarrow> 's \<Rightarrow> meter \<Rightarrow> log_line list \<Rightarrow> go_error option \<times> ('s \<times> meter) \<times> log_line list" where
  "observed_stream kratos fromGRPCCode mm clock extractArgs op streamID ss h s meter lines =
     newStreamCounterInterceptor kratos fromGRPCCode mm clock op ss
       (\<lambda>ss1 s1. newStreamLoggingInterceptor kratos fromGRPCCode extractArgs op streamID ss1 (run_handler h) (s1, lines)) (s, meter)"

section \<open>Observers leave streams alone\<close>

text \<open>The messages that passed, in order.\<close>

primrec traffic :: "'m stream_handler \<Rightarrow> ('m, 's) server_stream \<Rightarrow> 's \<Rightarrow> (direction \<times> 'm) list" where
  "traffic (Return e) ss s = []"
| "traffic (Send m k) ss s = (case ss_SendMsg ss m s of (e, s') \<Rightarrow> (if e = None then [(Sent, m)] else []) @ traffic (k e) ss s')"
| "traffic (Recv k) ss s = (case ss_RecvMsg ss s of (r, s') \<Rightarrow> (case r of Inl _ \<Rightarrow> [] | Inr m \<Rightarrow> [(Received, m)]) @ traffic (k r) ss s')"

text \<open>A stream around another one that passes calls and answers on, with a state of its own that changes only with the messages that pass: \<open>view\<close> of that state
  changes by \<open>step\<close>.\<close>

locale stream_observer =
  fixes inner :: "('m, 's) server_stream" and outer :: "('m, 's \<times> 'w) server_stream"
    and view :: "'w \<Rightarrow> 'v" and step :: "direction \<times> 'm \<Rightarrow> 'v \<Rightarrow> 'v"
  assumes send: "ss_SendMsg inner m s = (e, s') \<Longrightarrow> \<exists>w'. ss_SendMsg outer m (s, w) = (e, s', w') \<and>
      view w' = (if e = None then step (Sent, m) (view w) else view w)"
    and recv: "ss_RecvMsg inner s = (r, s') \<Longrightarrow> \<exists>w'. ss_RecvMsg outer (s, w) = (r, s', w') \<and>
      view w' = (case r of Inl _ \<Rightarrow> view w | Inr m \<Rightarrow> step (Received, m) (view w))"
begin

lemma transparent:
  "\<exists>w'. run_handler h outer (s, w) = (fst (run_handler h inner s), snd (run_handler h inner s), w') \<and>
     view w' = fold step (traffic h inner s) (view w) \<and> traffic h outer (s, w) = traffic h inner s"
proof (induction h arbitrary: s w)
  case (Return e)
  show ?case by simp
next
  case (Send m k)
  obtain e s' where i: "ss_SendMsg inner m s = (e, s')" by fastforce
  obtain w1 where o: "ss_SendMsg outer m (s, w) = (e, s', w1)" "view w1 = (if e = None then step (Sent, m) (view w) else view w)"
    using send [OF i] by blast
  from Send [OF rangeI, of e s' w1] show ?case by (auto simp: i o)
next
  case (Recv k)
  obtain r s' where i: "ss_RecvMsg inner s = (r, s')" by fastforce
  obtain w1 where o: "ss_RecvMsg outer (s, w) = (r, s', w1)" "view w1 = (case r of Inl _ \<Rightarrow> view w | Inr m \<Rightarrow> step (Received, m) (view w))"
    using recv [OF i] by blast
  from Recv [OF rangeI, of r s' w1] show ?case by (auto simp: i o split: sum.splits)
qed

end

text \<open>What each of the two streams notes of a message.\<close>

definition note_message :: "stream_metrics \<Rightarrow> string \<Rightarrow> direction \<times> 'm \<Rightarrow>
    (string \<times> direction) list \<times> (string \<times> int) list \<times> bool \<times> string list \<Rightarrow> (string \<times> direction) list \<times> (string \<times> int) list \<times> bool \<times> string list" where
  "note_message m op ev = (\<lambda>(messages, streams, once, first).
     (if sm_messageCounter m then messages @ [(op, fst ev)] else messages, streams,
      once \<or> sm_firstResponse m \<and> fst ev = Sent, if fst ev = Sent \<and> sm_firstResponse m \<and> \<not> once then first @ [op] else first))"

definition monitor_view :: "monitor \<Rightarrow> (string \<times> direction) list \<times> (string \<times> int) list \<times> bool \<times> string list" where
  "monitor_view mo = (mt_messages (mo_meter mo), mt_streams (mo_meter mo), mo_once mo, map fst (mt_first (mo_meter mo)))"

definition note_line :: "('m \<Rightarrow> string) \<Rightarrow> string \<Rightarrow> string \<Rightarrow> direction \<times> 'm \<Rightarrow> log_stream \<Rightarrow> log_stream" where
  "note_line extractArgs op streamID ev l = (case fst ev of
     Sent \<Rightarrow> l\<lparr>ls_sent := ls_sent l + 1\<rparr>
   | Received \<Rightarrow> l\<lparr>ls_received := ls_received l + 1, ls_argsLogged := True,
       ls_lines := ls_lines l @ (if ls_argsLogged l then [] else [StreamRequest op streamID (extractArgs (snd ev))])\<rparr>)"

lemmas monitor_steps = add_message_def add_latency_def add_first_def note_message_def monitor_view_def

interpretation monitored: stream_observer ss "monitoredStream m clock op start ss" monitor_view "note_message m op"
  for ss m clock op start
  by unfold_locales
    (auto simp: monitoredStream_def monitored_SendMsg_def monitored_RecvMsg_def monitor_steps Let_def split: option.splits sum.splits)

interpretation plain: stream_observer ss "plainStream ss" "\<lambda>w. w" "\<lambda>_ w. w" for ss
  by unfold_locales (auto simp: plainStream_def split: sum.splits)

interpretation logged: stream_observer ss "loggingStream extractArgs op streamID ss" "\<lambda>l. l" "note_line extractArgs op streamID"
  for ss extractArgs op streamID
  by unfold_locales
    (auto simp: loggingStream_def logging_SendMsg_def logging_RecvMsg_def note_line_def Let_def split: option.splits sum.splits)

text \<open>The notes of a whole conversation.\<close>

definition number_of :: "direction \<Rightarrow> (direction \<times> 'm) list \<Rightarrow> nat" where
  "number_of d evs = length (filter (\<lambda>ev. fst ev = d) evs)"

lemma fold_note_line:
  "fold (note_line extractArgs op streamID) evs l =
     l\<lparr>ls_sent := ls_sent l + of_nat (number_of Sent evs), ls_received := ls_received l + of_nat (number_of Received evs),
       ls_argsLogged := (ls_argsLogged l \<or> number_of Received evs > 0),
       ls_lines := ls_lines l @ (if ls_argsLogged l then [] else
         map (\<lambda>ev. StreamRequest op streamID (extractArgs (snd ev))) (take 1 (filter (\<lambda>ev. fst ev = Received) evs)))\<rparr>"
  by (induction evs arbitrary: l) (auto simp: number_of_def note_line_def split: direction.splits)

lemma fold_note_message:
  "fold (note_message m op) evs (messages, streams, once, first) =
     (messages @ (if sm_messageCounter m then map (\<lambda>ev. (op, fst ev)) evs else []), streams,
      once \<or> sm_firstResponse m \<and> number_of Sent evs > 0,
      first @ (if \<not> once \<and> sm_firstResponse m \<and> number_of Sent evs > 0 then [op] else []))"
  by (induction evs arbitrary: messages once first) (auto simp: number_of_def note_message_def)

lemma fold_idle [simp]: "fold (\<lambda>_ w. w) xs w = w"
  by (induction xs) simp_all

lemma logging_interceptor_exact:
  "newStreamLoggingInterceptor kratos fc extractArgs op streamID ss (run_handler h) (s, lines) =
     (let err = fst (run_handler h ss s); evs = traffic h ss s; code = stream_code kratos err in
      (err, snd (run_handler h ss s), lines @ [StreamOpened op streamID] @
        map (\<lambda>ev. StreamRequest op streamID (extractArgs (snd ev))) (take 1 (filter (\<lambda>ev. fst ev = Received) evs)) @
        [StreamClosed op streamID (levelForCode code) (fc code)
           (case err of None \<Rightarrow> None | Some e \<Rightarrow> if FromError kratos e = None then None else Some e)
           (of_nat (number_of Sent evs)) (of_nat (number_of Received evs))]))"
  using logged.transparent [of h extractArgs op streamID ss s "\<lparr>ls_sent = 0, ls_received = 0, ls_argsLogged = False, ls_lines = lines @ [StreamOpened op streamID]\<rparr>"]
  by (auto simp: newStreamLoggingInterceptor_def fold_note_line Let_def)

text \<open>C21. The two interceptors around every stream do not change it: for every handler and every behaviour of the transport the handler's calls get the
  same answers, the same messages pass in the same order and the same error is returned as without them. Of each stream they log that it was opened, at most one
  request, the first one received, and that it was closed, with the code of the error and the numbers of messages that passed; and they count the stream once
  with that code, every message that passed once in its direction and, when a response was sent, one time of the first response. Messages whose transfer failed are not counted.\<close>

theorem streams_observed:
  "\<exists>meter'. observed_stream kratos fc mm clock extractArgs op streamID ss h s meter lines =
     (fst (run_handler h ss s), (snd (run_handler h ss s), meter'), lines @ [StreamOpened op streamID] @
       map (\<lambda>ev. StreamRequest op streamID (extractArgs (snd ev))) (take 1 (filter (\<lambda>ev. fst ev = Received) (traffic h ss s))) @
       [StreamClosed op streamID (levelForCode (stream_code kratos (fst (run_handler h ss s)))) (fc (stream_code kratos (fst (run_handler h ss s))))
          (case fst (run_handler h ss s) of None \<Rightarrow> None | Some e \<Rightarrow> if FromError kratos e = None then None else Some e)
          (of_nat (number_of Sent (traffic h ss s))) (of_nat (number_of Received (traffic h ss s)))]) \<and>
   (case mm of None \<Rightarrow> meter' = meter
    | Some m \<Rightarrow>
        mt_streams meter' = mt_streams meter @ (if sm_counter m then [(op, fc (stream_code kratos (fst (run_handler h ss s))))] else []) \<and>
        mt_messages meter' = mt_messages meter @ (if sm_messageCounter m then map (\<lambda>ev. (op, fst ev)) (traffic h ss s) else []) \<and>
        map fst (mt_first meter') = map fst (mt_first meter) @ (if sm_firstResponse m \<and> number_of Sent (traffic h ss s) > 0 then [op] else []))"
proof (cases mm)
  case None
  from plain.transparent [of h ss s "\<lparr>mo_meter = meter, mo_once = False, mo_tick = 0\<rparr>"] None show ?thesis
    by (auto simp: observed_stream_def newStreamCounterInterceptor_def logging_interceptor_exact Let_def)
next
  case (Some m)
  let ?mo = "\<lparr>mo_meter = meter, mo_once = False, mo_tick = 1\<rparr>"
  show ?thesis
  proof (cases "sm_messageCounter m \<or> sm_messageLatency m \<or> sm_firstResponse m")
    case True
    from monitored.transparent [of h m clock op "clock 0" ss s ?mo] Some True show ?thesis
      by (auto simp: observed_stream_def newStreamCounterInterceptor_def logging_interceptor_exact Let_def monitor_view_def fold_note_message)
  next
    case False
    from plain.transparent [of h ss s ?mo] Some False show ?thesis
      by (auto simp: observed_stream_def newStreamCounterInterceptor_def logging_interceptor_exact Let_def)
  qed
qed

section \<open>What the options give\<close>

text \<open>With validated options a listener is plain exactly when no certificate is configured. Client certificates are asked for only with a CA file, whatever
  \<open>CertOpt\<close> says, and a CA file that cannot be opened leaves the nil pool, which stands for the roots of the host: any certificate they vouch for passes.\<close>

lemma tls_of_options:
  assumes "Listener_Validate o1 = []" and "te_LoadX509KeyPair env (lo_ServingCertFile o1) (lo_PrivateKeyFile o1) = Ok cert"
    and "te_Open env (lo_ClientCAFile o1) = None \<longrightarrow> is_ok (te_ReadAll env (lo_ClientCAFile o1))"
  shows "if lo_ServingCertFile o1 = [] then getTSLConfig env None o1 = Ok None
    else \<exists>c. getTSLConfig env None o1 = Ok (Some c) \<and> tc_Certificates c = [cert] \<and>
      tc_ClientAuth c = (if lo_ClientCAFile o1 = [] then NoClientCert else ClientAuthType (lo_CertOpt o1)) \<and>
      (tc_ClientCAs c \<noteq> None \<longleftrightarrow> lo_CertOpt o1 > 0 \<and> lo_ClientCAFile o1 \<noteq> [] \<and> te_Open env (lo_ClientCAFile o1) = None)"
  using assms by (auto simp: Listener_Validate_def getTSLConfig_def Let_def is_ok_iff ClientAuthType_def split: if_splits)

text \<open>A timeout that passes validation is positive in nanoseconds up to 292 years, and wraps beyond.\<close>

lemma timeout_in_range:
  "0 \<le> lo_Timeout o1 \<Longrightarrow> lo_Timeout o1 \<le> 9223372036 \<Longrightarrow> int64 (lo_Timeout o1 * 1000000000) = lo_Timeout o1 * 1000000000"
  by (intro int64_small) auto

lemma defaults_valid: "server_Validate (server_Complete (server_NewOptions h)) = []" "pprof_Validate (pprof_Complete p) = []"
  by (simp_all add: server_Validate_def server_Complete_def server_NewOptions_def grpc_NewOptions_def http_NewOptions_def
      Listener_Validate_def pprof_Validate_def pprof_Complete_def pprof_NewOptions_def DefaultPprofPort_def DefaultPprofAddr_def)

end
