(* ===== verification/Configuration.thy ===== *)
theory Configuration
  imports Grpc_Relations
begin

text \<open>
  From options to running parts: the relations options and the factory of relations repositories
  (\<open>internal/config/relations\<close>, \<open>internal/data/relations_repository_factory.go\<close>), storage (\<open>internal/storage\<close>), the consumer's Kafka settings
  (\<open>internal/consumer/options.go\<close>, \<open>config.go\<close>), what a ClowdApp configuration changes (\<open>internal/config/config.go\<close>), and the health
  endpoints that report on them (\<open>internal/data/health\<close>, \<open>internal/service/health\<close>).

  A nil pointer is \<open>None\<close>, also for the empty completed configurations, whose embedded pointer is nil. Clients, files and the database
  are opened by parameters. Flag registration and log statements are left out.
\<close>

section \<open>Relations options\<close>

record kessel_options =
  ko_URL :: string
  ko_Insecure :: bool
  ko_EnableOidcAuth :: bool
  ko_ClientId :: string
  ko_ClientSecret :: string
  ko_TokenEndpoint :: string

definition Kessel_NewOptions :: kessel_options where
  "Kessel_NewOptions = \<lparr>ko_URL = [], ko_Insecure = False, ko_EnableOidcAuth = True, ko_ClientId = [], ko_ClientSecret = [], ko_TokenEndpoint = []\<rparr>"

definition Kessel_Validate :: "kessel_options \<Rightarrow> go_error list" where
  "Kessel_Validate o1 = (if ko_URL o1 = [] then [Errorf ''kessel url may not be empty''] else [])"

text \<open>The options of SpiceDB have the fields of the repository's configuration.\<close>

type_synonym spicedb_options = spicedb_config

definition SpiceDB_NewOptions :: spicedb_options where
  "SpiceDB_NewOptions = \<lparr>sdc_Endpoint = [], sdc_Token = [], sdc_TokenFile = [], sdc_SchemaFile = [], sdc_UseTLS = True, sdc_FullyConsistent = False\<rparr>"

definition SpiceDB_Validate :: "spicedb_options \<Rightarrow> go_error list" where
  "SpiceDB_Validate o1 =
     (if sdc_Endpoint o1 = [] then [Errorf ''spicedb endpoint may not be empty''] else []) @
     (if sdc_Token o1 = [] \<and> sdc_TokenFile o1 = [] then [Errorf ''either spicedb token or token-file must be provided''] else []) @
     (if sdc_SchemaFile o1 = [] then [Errorf ''spicedb schema-file may not be empty''] else [])"

record relations_options =
  ro_Authz :: string
  ro_Kessel :: "kessel_options option"
  ro_SpiceDB :: "spicedb_options option"

definition AllowAll_impl :: string where "AllowAll_impl = ''allow-all''"
definition Kessel_impl :: string where "Kessel_impl = ''kessel''"
definition SpiceDB_impl :: string where "SpiceDB_impl = ''spicedb''"
definition RelationsAPI :: string where "RelationsAPI = ''kessel-relations''"

lemmas impl_names = AllowAll_impl_def Kessel_impl_def SpiceDB_impl_def

definition Relations_NewOptions :: relations_options where
  "Relations_NewOptions = \<lparr>ro_Authz = AllowAll_impl, ro_Kessel = Some Kessel_NewOptions, ro_SpiceDB = Some SpiceDB_NewOptions\<rparr>"

definition Relations_Validate :: "relations_options \<Rightarrow> go_error list" where
  "Relations_Validate o1 =
     (if ro_Authz o1 \<noteq> AllowAll_impl \<and> ro_Authz o1 \<noteq> Kessel_impl \<and> ro_Authz o1 \<noteq> SpiceDB_impl then [Errorf ''invalid authz.impl''] else []) @
     (if ro_Authz o1 = Kessel_impl then
        (case ro_Kessel o1 of None \<Rightarrow> [Errorf ''authz.kessel config is required when authz.impl=kessel''] | Some k \<Rightarrow> Kessel_Validate k) else []) @
     (if ro_Authz o1 = SpiceDB_impl then
        (case ro_SpiceDB o1 of None \<Rightarrow> [Errorf ''authz.spicedb config is required when authz.impl=spicedb''] | Some s \<Rightarrow> SpiceDB_Validate s) else [])"

section \<open>Relations configuration\<close>

text \<open>The configurations of the two implementations hold a pointer to their options.\<close>

record relations_config =
  rc_Authz :: string
  rc_Kessel :: "kessel_options option option"
  rc_SpiceDB :: "spicedb_options option option"

record 'conn kessel_completed =
  kc_grpcConn :: 'conn
  kc_tokenConfig :: token_client_config

record 'conn relations_completed =
  cc_Authz :: string
  cc_Kessel :: "'conn kessel_completed option"
  cc_SpiceDB :: "spicedb_options option"

definition Relations_NewConfig :: "relations_options \<Rightarrow> relations_config" where
  "Relations_NewConfig o1 = \<lparr>rc_Authz = ro_Authz o1,
     rc_Kessel = (if ro_Authz o1 = Kessel_impl then Some (ro_Kessel o1) else None),
     rc_SpiceDB = (if ro_Authz o1 = SpiceDB_impl then Some (ro_SpiceDB o1) else None)\<rparr>"

text \<open>\<open>grpc.NewClient\<close> for a URL, with or without transport security.\<close>

definition Kessel_Complete ::
    "(string \<Rightarrow> bool \<Rightarrow> 'conn result) \<Rightarrow> kessel_options option \<Rightarrow> ('conn kessel_completed option \<times> go_error list) result" where
  "Kessel_Complete newClient c = (case c of
     None \<Rightarrow> Err nil_panic
   | Some k \<Rightarrow> (case newClient (ko_URL k) (ko_Insecure k) of
       Inl err \<Rightarrow> Ok (None, [err])
     | Inr conn \<Rightarrow> Ok (Some \<lparr>kc_grpcConn = conn, kc_tokenConfig = \<lparr>tcc_clientId = ko_ClientId k, tcc_clientSecret = ko_ClientSecret k,
         tcc_url = ko_TokenEndpoint k, tcc_enableOIDCAuth = ko_EnableOidcAuth k, tcc_insecure = ko_Insecure k\<rparr>\<rparr>, [])))"

definition Relations_Complete ::
    "(string \<Rightarrow> bool \<Rightarrow> 'conn result) \<Rightarrow> relations_config \<Rightarrow> ('conn relations_completed option \<times> go_error list) result" where
  "Relations_Complete newClient c =
     bind_res (if rc_Authz c = Kessel_impl
               then (case rc_Kessel c of None \<Rightarrow> Err nil_panic | Some k \<Rightarrow> Kessel_Complete newClient k)
               else Ok (None, [])) (\<lambda>(kessel, errs).
     if errs \<noteq> [] then Ok (None, [])
     else if rc_Authz c = SpiceDB_impl
     then (case rc_SpiceDB c of
         None \<Rightarrow> Ok (None, [Errorf ''authz.spicedb config is required when authz.impl=spicedb''])
       | Some s \<Rightarrow> Ok (Some \<lparr>cc_Authz = rc_Authz c, cc_Kessel = kessel, cc_SpiceDB = s\<rparr>, []))
     else Ok (Some \<lparr>cc_Authz = rc_Authz c, cc_Kessel = kessel, cc_SpiceDB = None\<rparr>, []))"

definition CheckRelationsImpl :: "'conn relations_completed option \<Rightarrow> string result" where
  "CheckRelationsImpl config = (case config of None \<Rightarrow> Err nil_panic
   | Some c \<Rightarrow> Ok (if cc_Authz c = AllowAll_impl \<or> cc_Authz c = Kessel_impl \<or> cc_Authz c = SpiceDB_impl then cc_Authz c else ''unknown''))"

section \<open>The factory\<close>

definition NewSpiceDBConfigFromCompleted :: "spicedb_options option \<Rightarrow> spicedb_config result" where
  "NewSpiceDBConfigFromCompleted c = (case c of None \<Rightarrow> Err nil_panic
   | Some o1 \<Rightarrow> Ok \<lparr>sdc_Endpoint = sdc_Endpoint o1, sdc_Token = sdc_Token o1, sdc_TokenFile = sdc_TokenFile o1, sdc_SchemaFile = sdc_SchemaFile o1,
       sdc_UseTLS = sdc_UseTLS o1, sdc_FullyConsistent = sdc_FullyConsistent o1\<rparr>)"

text \<open>What the factory needs of its surroundings: meters, the token cache, and what the SpiceDB repository is opened with.\<close>

record ('cache, 'c, 'h) factory_env =
  fe_int64Counter :: "string \<Rightarrow> unit result"
  fe_cache :: 'cache
  fe_readFile :: "string \<Rightarrow> string result"
  fe_systemCerts :: "unit result"
  fe_newSpiceDB :: "string \<Rightarrow> string \<Rightarrow> bool \<Rightarrow> 'c result"
  fe_newHealth :: "string \<Rightarrow> string \<Rightarrow> bool \<Rightarrow> 'h result"

definition NewGRPCRelationsRepository ::
    "(string \<Rightarrow> unit result) \<Rightarrow> 'cache \<Rightarrow> 'conn kessel_completed option \<Rightarrow> ('conn \<times> 'cache token_client) result" where
  "NewGRPCRelationsRepository int64Counter cache config = (case config of
     None \<Rightarrow> Err nil_panic
   | Some c \<Rightarrow>
       bind_res (wrap_err ''failed to create success counter'' (int64Counter ''inventory_relations_api_success'')) (\<lambda>_.
       bind_res (wrap_err ''failed to create failure counter'' (int64Counter ''inventory_relations_api_failure'')) (\<lambda>_.
       Ok (kc_grpcConn c, NewTokenClient cache (kc_tokenConfig c)))))"

datatype ('conn, 'cache, 'c, 'h) relations_backend =
    AllowAllBackend
  | GRPCBackend 'conn "'cache token_client"
  | SpiceDBBackend "('c, 'h) spicedb_repository"

definition NewRelationsRepository ::
    "('cache, 'c, 'h) factory_env \<Rightarrow> 'conn relations_completed option \<Rightarrow> ('conn, 'cache, 'c, 'h) relations_backend result" where
  "NewRelationsRepository env config = (case config of
     None \<Rightarrow> Err nil_panic
   | Some c \<Rightarrow>
       if cc_Authz c = AllowAll_impl then Ok AllowAllBackend
       else if cc_Authz c = Kessel_impl then
         bind_res (NewGRPCRelationsRepository (fe_int64Counter env) (fe_cache env) (cc_Kessel c)) (\<lambda>(conn, tokens). Ok (GRPCBackend conn tokens))
       else if cc_Authz c = SpiceDB_impl then
         bind_res (NewSpiceDBConfigFromCompleted (cc_SpiceDB c)) (\<lambda>cfg.
         bind_res (wrap_err ''error creating spicedb relations repository''
           (NewSpiceDBRelationsRepository (fe_readFile env) (fe_systemCerts env) (fe_newSpiceDB env) (fe_newHealth env) (fe_int64Counter env) cfg))
           (\<lambda>repo. Ok (SpiceDBBackend repo)))
       else Err (Errorf ''unrecognized relations implementation''))"

text \<open>The steps of \<open>serve\<close>: options are validated, then completed, and the repository is built; errors are returned together.\<close>

definition serve_relations ::
    "(string \<Rightarrow> bool \<Rightarrow> 'conn result) \<Rightarrow> ('cache, 'c, 'h) factory_env \<Rightarrow> relations_options \<Rightarrow>
     (go_error list + ('conn, 'cache, 'c, 'h) relations_backend) result" where
  "serve_relations newClient env o1 =
     (if Relations_Validate o1 \<noteq> [] then Ok (Inl (Relations_Validate o1))
      else bind_res (Relations_Complete newClient (Relations_NewConfig o1)) (\<lambda>(config, errs).
        if errs \<noteq> [] then Ok (Inl errs)
        else (case NewRelationsRepository env config of
            Inl err \<Rightarrow> if err = nil_panic then Err nil_panic else Ok (Inl [err])
          | Inr repo \<Rightarrow> Ok (Inr repo))))"

section \<open>Storage\<close>

record postgres_options =
  po_Host :: string
  po_Port :: string
  po_DbName :: string
  po_User :: string
  po_Password :: string
  po_SSLMode :: string
  po_SSLRootCert :: string

definition Postgres_NewOptions :: postgres_options where
  "Postgres_NewOptions = \<lparr>po_Host = ''localhost'', po_Port = ''5432'', po_DbName = [], po_User = [], po_Password = [], po_SSLMode = [],
     po_SSLRootCert = []\<rparr>"

definition validModes :: "string list" where
  "validModes = [''disable'', ''allow'', ''prefer'', ''require'', ''verify-ca'', ''verify-full'']"

definition Postgres_Validate :: "postgres_options \<Rightarrow> go_error list" where
  "Postgres_Validate o1 = (if po_SSLMode o1 \<noteq> [] \<and> po_SSLMode o1 \<notin> set validModes then [Errorf ''invalid sslmode''] else [])"

definition dsn_parameters :: "postgres_options \<Rightarrow> (string \<times> string) list" where
  "dsn_parameters c = [(''host'', po_Host c), (''port'', po_Port c), (''dbname'', po_DbName c), (''user'', po_User c), (''password'', po_Password c),
     (''sslmode'', po_SSLMode c), (''sslrootcert'', po_SSLRootCert c)]"

definition Postgres_Complete :: "string \<Rightarrow> postgres_options \<Rightarrow> string" where
  "Postgres_Complete dsn c = (if dsn \<noteq> [] then dsn
     else TrimSpace (concat (map (\<lambda>(k, v). if v \<noteq> [] then k @ ''='' @ v @ '' '' else []) (dsn_parameters c))))"

record storage_options =
  so_Postgres :: postgres_options
  so_SqlLite3_DSN :: string
  so_Database :: string
  so_MaxSerializationRetries :: int
  so_OutboxMode :: string

definition Storage_NewOptions :: storage_options where
  "Storage_NewOptions = \<lparr>so_Postgres = Postgres_NewOptions, so_SqlLite3_DSN = ''inventory.db'', so_Database = ''sqlite3'',
     so_MaxSerializationRetries = 10, so_OutboxMode = ''none''\<rparr>"

definition Storage_Validate :: "storage_options \<Rightarrow> go_error list" where
  "Storage_Validate o1 =
     (if so_Database o1 \<noteq> ''postgres'' \<and> so_Database o1 \<noteq> ''sqlite3'' then [Errorf ''database must be either postgres or sqlite3''] else []) @
     (if so_Database o1 = ''postgres'' then Postgres_Validate (so_Postgres o1) else []) @
     (if so_OutboxMode o1 \<noteq> ''none'' \<and> so_OutboxMode o1 \<noteq> ''wal'' then [Errorf ''outbox-mode must be either none or wal''] else []) @
     (if so_OutboxMode o1 = ''wal'' \<and> so_Database o1 \<noteq> ''postgres'' then [Errorf ''outbox-mode wal is only supported with postgres''] else [])"

definition Storage_Complete :: "storage_options \<Rightarrow> string" where
  "Storage_Complete o1 = (if so_Database o1 = ''postgres'' then Postgres_Complete [] (so_Postgres o1)
     else if so_Database o1 = ''sqlite3'' then so_SqlLite3_DSN o1 else [])"

datatype dialector = Postgres_Open string | Sqlite_Open string

definition Storage_New :: "(dialector \<Rightarrow> 'db result) \<Rightarrow> storage_options \<Rightarrow> 'db result" where
  "Storage_New gormOpen o1 =
     (if so_Database o1 = ''postgres'' then wrap_err ''error opening database'' (gormOpen (Postgres_Open (Storage_Complete o1)))
      else if so_Database o1 = ''sqlite3'' then wrap_err ''error opening database'' (gormOpen (Sqlite_Open (Storage_Complete o1)))
      else Err (Errorf ''unrecognized database type''))"

definition Storage_NewPgx :: "(string \<Rightarrow> 'pool result) \<Rightarrow> ('pool \<Rightarrow> unit result) \<Rightarrow> storage_options \<Rightarrow> 'pool option result" where
  "Storage_NewPgx newPool ping o1 =
     (if so_Database o1 \<noteq> ''postgres'' then Ok None
      else bind_res (wrap_err ''error pgx connection to DB'' (newPool (Storage_Complete o1))) (\<lambda>pool.
        bind_res (wrap_err ''error pgx pinging DB'' (ping pool)) (\<lambda>_. Ok (Some pool))))"

section \<open>Consumer options\<close>

record retry_options =
  rto_ConsumerMaxRetries :: int
  rto_OperationMaxRetries :: int
  rto_BackoffFactor :: int
  rto_MaxBackoffSeconds :: int

definition Retry_NewOptions :: retry_options where
  "Retry_NewOptions = \<lparr>rto_ConsumerMaxRetries = 2, rto_OperationMaxRetries = 3, rto_BackoffFactor = 5, rto_MaxBackoffSeconds = 30\<rparr>"

record auth_options =
  ao_Enabled :: bool
  ao_SecurityProtocol :: string
  ao_SASLMechanism :: string
  ao_SASLUsername :: string
  ao_SASLPassword :: string
  ao_CACertLocation :: string

definition Auth_NewOptions :: auth_options where
  "Auth_NewOptions = \<lparr>ao_Enabled = True, ao_SecurityProtocol = [], ao_SASLMechanism = [], ao_SASLUsername = [], ao_SASLPassword = [],
     ao_CACertLocation = []\<rparr>"

record consumer_options =
  co_Enabled :: bool
  co_BootstrapServers :: "string list"
  co_ConsumerGroupID :: string
  co_Topic :: string
  co_CommitModulo :: int
  co_SessionTimeout :: string
  co_HeartbeatInterval :: string
  co_MaxPollInterval :: string
  co_EnableAutoCommit :: string
  co_AutoOffsetReset :: string
  co_StatisticsInterval :: string
  co_Debug :: string
  co_RetryOptions :: retry_options
  co_AuthOptions :: auth_options
  co_ReadAfterWriteEnabled :: bool
  co_ReadAfterWriteAllowlist :: "string list"

definition Consumer_NewOptions :: consumer_options where
  "Consumer_NewOptions = \<lparr>co_Enabled = True, co_BootstrapServers = [], co_ConsumerGroupID = ''inventory-consumer'',
     co_Topic = ''outbox.event.kessel.tuples'', co_CommitModulo = 10, co_SessionTimeout = ''45000'', co_HeartbeatInterval = ''3000'',
     co_MaxPollInterval = ''300000'', co_EnableAutoCommit = ''false'', co_AutoOffsetReset = ''earliest'', co_StatisticsInterval = ''60000'', co_Debug = [],
     co_RetryOptions = Retry_NewOptions, co_AuthOptions = Auth_NewOptions, co_ReadAfterWriteEnabled = True, co_ReadAfterWriteAllowlist = []\<rparr>"

definition Consumer_Validate :: "consumer_options \<Rightarrow> go_error list" where
  "Consumer_Validate o1 =
     (if co_BootstrapServers o1 = [] \<and> co_Enabled o1 then [Errorf ''bootstrap servers can not be empty''] else []) @
     (if co_CommitModulo o1 \<le> 0 then [Errorf ''commit modulo must be a positive, non-zero integer value''] else [])"

definition clientID :: string where "clientID = ''inventory-consumer''"

fun strings_Join :: "string list \<Rightarrow> string \<Rightarrow> string" where
  "strings_Join [] sep = []"
| "strings_Join [x] sep = x"
| "strings_Join (x # y # ys) sep = x @ sep @ strings_Join (y # ys) sep"

type_synonym kafka_config = "string \<rightharpoonup> string"

text \<open>Each setting is stored by \<open>SetKey\<close>, which may refuse it; the maps of settings have no order, and their keys differ. All failures are collected.\<close>

fun set_keys :: "(string \<Rightarrow> string \<Rightarrow> go_error option) \<Rightarrow> (string \<times> string) list \<Rightarrow> kafka_config \<times> go_error list \<Rightarrow> kafka_config \<times> go_error list" where
  "set_keys setKey [] acc = acc"
| "set_keys setKey ((k, v) # settings) (config, errs) = (case setKey k v of
     Some err \<Rightarrow> set_keys setKey settings (config, errs @ [Wrap (''cannot set '' @ k @ '' value'') err])
   | None \<Rightarrow> set_keys setKey settings (config(k \<mapsto> v), errs))"

definition auth_settings :: "auth_options \<Rightarrow> (string \<times> string) list" where
  "auth_settings a = [(''security.protocol'', ao_SecurityProtocol a), (''sasl.mechanism'', ao_SASLMechanism a),
     (''sasl.username'', ao_SASLUsername a), (''sasl.password'', ao_SASLPassword a), (''ssl.ca.location'', ao_CACertLocation a)]"

definition kafka_settings :: "consumer_options \<Rightarrow> (string \<times> string) list" where
  "kafka_settings c = [(''client.id'', clientID), (''bootstrap.servers'', strings_Join (co_BootstrapServers c) '',''),
     (''group.id'', co_ConsumerGroupID c), (''session.timeout.ms'', co_SessionTimeout c), (''heartbeat.interval.ms'', co_HeartbeatInterval c),
     (''max.poll.interval.ms'', co_MaxPollInterval c), (''enable.auto.commit'', co_EnableAutoCommit c),
     (''auto.offset.reset'', co_AutoOffsetReset c), (''statistics.interval.ms'', co_StatisticsInterval c)]"

definition Consumer_Complete ::
    "(string \<Rightarrow> string \<Rightarrow> go_error option) \<Rightarrow> kafka_config option \<Rightarrow> consumer_options \<Rightarrow> kafka_config option \<times> go_error list" where
  "Consumer_Complete setKey given c =
     (let (config, errs) = (case given of Some kc \<Rightarrow> (kc, [])
        | None \<Rightarrow> set_keys setKey ((if co_Debug c \<noteq> [] then [(''debug'', co_Debug c)] else []) @
            (if ao_Enabled (co_AuthOptions c) then auth_settings (co_AuthOptions c) else []) @ kafka_settings c) (Map.empty, []))
      in if errs \<noteq> [] then (None, errs) else (Some config, []))"

section \<open>ClowdApp configuration\<close>

record sasl_config =
  sc_SaslMechanism :: "string option"
  sc_Username :: "string option"
  sc_Password :: "string option"

record broker_config =
  bc_Hostname :: string
  bc_Port :: "int option"
  bc_SecurityProtocol :: "string option"
  bc_Sasl :: "sasl_config option"

record database_config =
  dc_Hostname :: string
  dc_Port :: int
  dc_Username :: string
  dc_Password :: string
  dc_Name :: string
  dc_hasRdsCa :: bool

record app_config =
  ac_Endpoints :: "(string \<times> string) list"
  ac_Database :: "database_config option"
  ac_RdsCa :: "string result"
  ac_Kafka :: "broker_config list option"

text \<open>An endpoint is its application and hostname. The options the injection changes.\<close>

record options_config =
  oc_Authz :: relations_options
  oc_Storage :: storage_options
  oc_Consumer :: consumer_options

definition NewOptionsConfig :: options_config where
  "NewOptionsConfig = \<lparr>oc_Authz = Relations_NewOptions, oc_Storage = Storage_NewOptions, oc_Consumer = Consumer_NewOptions\<rparr>"

definition ConfigureAuthz :: "string \<Rightarrow> options_config \<Rightarrow> options_config result" where
  "ConfigureAuthz hostname o1 = (case ro_Kessel (oc_Authz o1) of
     None \<Rightarrow> Err nil_panic
   | Some k \<Rightarrow> Ok (o1\<lparr>oc_Authz := (oc_Authz o1)\<lparr>ro_Authz := Kessel_impl, ro_Kessel := Some (k\<lparr>ko_URL := hostname @ '':9000''\<rparr>)\<rparr>\<rparr>))"

definition ConfigureStorage :: "app_config \<Rightarrow> database_config \<Rightarrow> options_config \<Rightarrow> options_config result" where
  "ConfigureStorage appconfig d o1 =
     (let pg = (so_Postgres (oc_Storage o1))\<lparr>po_Host := dc_Hostname d, po_Port := FormatInt (dc_Port d), po_User := dc_Username d,
            po_Password := dc_Password d, po_DbName := dc_Name d\<rparr>;
          set = (\<lambda>pg. o1\<lparr>oc_Storage := (oc_Storage o1)\<lparr>so_Database := ''postgres'', so_Postgres := pg\<rparr>\<rparr>)
      in if dc_hasRdsCa d then
           (case ac_RdsCa appconfig of
              Inl err \<Rightarrow> Err (Wrap ''failed to load rds ca'' err)
            | Inr caPath \<Rightarrow> Ok (set (pg\<lparr>po_SSLMode := ''verify-full'', po_SSLRootCert := caPath\<rparr>)))
         else Ok (set pg))"

definition deref :: "'a option \<Rightarrow> 'a result" where
  "deref p = (case p of None \<Rightarrow> Err nil_panic | Some x \<Rightarrow> Ok x)"

fun broker_addresses :: "broker_config list \<Rightarrow> string list result" where
  "broker_addresses [] = Ok []"
| "broker_addresses (b # bs) = bind_res (deref (bc_Port b)) (\<lambda>port.
     bind_res (broker_addresses bs) (\<lambda>rest. Ok ((bc_Hostname b @ '':'' @ FormatInt port) # rest)))"

definition ConfigureConsumer :: "broker_config list \<Rightarrow> options_config \<Rightarrow> options_config result" where
  "ConfigureConsumer bs o1 =
     bind_res (broker_addresses bs) (\<lambda>addresses.
     (let c = (oc_Consumer o1)\<lparr>co_BootstrapServers := addresses\<rparr>;
          done = (\<lambda>a. o1\<lparr>oc_Consumer := c\<lparr>co_AuthOptions := a\<rparr>\<rparr>)
      in case bs of
           [] \<Rightarrow> Ok (done (co_AuthOptions c))
         | b # _ \<Rightarrow> (case bc_SecurityProtocol b of
             None \<Rightarrow> Ok (done (co_AuthOptions c))
           | Some protocol \<Rightarrow>
               (let a = (co_AuthOptions c)\<lparr>ao_SecurityProtocol := protocol\<rparr>
                in case bc_Sasl b of
                     None \<Rightarrow> Ok (done a)
                   | Some sasl \<Rightarrow> bind_res (deref (sc_SaslMechanism sasl)) (\<lambda>mechanism. bind_res (deref (sc_Username sasl)) (\<lambda>username.
                       bind_res (deref (sc_Password sasl)) (\<lambda>password.
                       Ok (done (a\<lparr>ao_SASLMechanism := mechanism, ao_SASLUsername := username, ao_SASLPassword := password\<rparr>)))))))))"

fun configure_endpoints :: "(string \<times> string) list \<Rightarrow> options_config \<Rightarrow> options_config result" where
  "configure_endpoints [] o1 = Ok o1"
| "configure_endpoints ((app, hostname) # es) o1 =
     bind_res (if app = RelationsAPI then ConfigureAuthz hostname o1 else Ok o1) (configure_endpoints es)"

definition InjectClowdAppConfig :: "app_config \<Rightarrow> options_config \<Rightarrow> options_config result" where
  "InjectClowdAppConfig appconfig o1 =
     bind_res (configure_endpoints (ac_Endpoints appconfig) o1) (\<lambda>o2.
     bind_res (case ac_Database appconfig of None \<Rightarrow> Ok o2
               | Some d \<Rightarrow> wrap_err ''failed to configure storage'' (ConfigureStorage appconfig d o2)) (\<lambda>o3.
     case ac_Kafka appconfig of None \<Rightarrow> Ok o3 | Some bs \<Rightarrow> ConfigureConsumer bs o3))"

section \<open>Health\<close>

text \<open>The ping of the database and the answer of the relations repository are given.\<close>

definition IsBackendAvailable ::
    "string \<Rightarrow> go_error option \<Rightarrow> health_result result \<Rightarrow> 'conn relations_completed option \<Rightarrow> health_result result" where
  "IsBackendAvailable storageType dbErr health config =
     (if dbErr \<noteq> None \<and> \<not> is_ok health then Ok (NewHealthResult (''STORAGE UNHEALTHY: '' @ storageType @ '' and RELATIONS-API UNHEALTHY'') 500)
      else if dbErr \<noteq> None then Ok (NewHealthResult (''STORAGE UNHEALTHY: '' @ storageType) 500)
      else if \<not> is_ok health then Ok (NewHealthResult ''RELATIONS-API UNHEALTHY'' 500)
      else bind_res (CheckRelationsImpl config) (\<lambda>relImpl.
        if relImpl = Kessel_impl \<or> relImpl = SpiceDB_impl
        then Ok (NewHealthResult (''STORAGE '' @ storageType @ '' and RELATIONS-API ('' @ relImpl @ '')'') 200)
        else Ok (NewHealthResult (''Storage type '' @ storageType) 200)))"

definition IsRelationsAvailable :: "health_result result \<Rightarrow> 'conn relations_completed option \<Rightarrow> health_result result" where
  "IsRelationsAvailable health config =
     (if \<not> is_ok health then Ok (NewHealthResult ''RELATIONS-API UNHEALTHY'' 500)
      else bind_res (CheckRelationsImpl config) (\<lambda>relImpl. Ok (NewHealthResult (''RELATIONS-API ('' @ relImpl @ '')'') 200)))"

definition GetLivez :: "string \<times> int" where
  "GetLivez = (''OK'', 200)"

definition GetReadyz :: "health_result result \<Rightarrow> (string \<times> int) result" where
  "GetReadyz available = bind_res available (\<lambda>r. Ok (hr_status r, hr_code r mod 2 ^ 32))"

end
