(* ===== verification/Supervisor.thy ===== *)
theory Supervisor
  imports Configuration Consumer
begin

text \<open>
  The consumption loop as a whole (\<open>Consume\<close> in \<open>internal/consumer/consumer.go\<close>) and what keeps it running: the loop of \<open>cmd/serve/serve.go\<close> that builds a
  consumer, runs it and builds the next one, and the shutdown of the service. What Kafka delivers in one life of a consumer is a list of events; after the
  last of them the consumer is still polling. Log statements and counters are left out.
\<close>

section \<open>Consumption loop\<close>

text \<open>What one round of the loop finds: a signal, nothing, a message with the failures while it is handled, an error of the client, which
  may be fatal, statistics, or another event. \<open>Poll\<close> also calls the rebalance callback.\<close>

datatype poll_event =
    SignalReceived
  | NothingPolled
  | MessagePolled step_io kafka_message
  | ErrorPolled bool go_error
  | StatsPolled
  | OtherPolled
  | RebalancePolled "go_error option" rebalance_event

text \<open>How far it came: still polling, blocked forever, panicked, or returned.\<close>

datatype 's consume_end =
    Polling "'s consumer_state"
  | Blocked "'s consumer_state"
  | Panicked go_error
  | Returned go_error "'s consumer_state"

text \<open>The channel for errors is declared and never made: a send on a nil channel blocks forever.\<close>

definition errChan :: "go_error list option" where
  "errChan = None"

definition send_blocks :: "'a list option \<Rightarrow> bool" where
  "send_blocks ch \<longleftrightarrow> ch = None"

definition relationsEnabled :: "('conn, 'cache, 'c, 'h) relations_backend \<Rightarrow> bool" where
  "relationsEnabled relations = (case relations of GRPCBackend _ _ \<Rightarrow> True | SpiceDBBackend _ \<Rightarrow> True | AllowAllBackend \<Rightarrow> False)"

definition leave_loop :: "go_error option \<Rightarrow> go_error option \<Rightarrow> 's consumer_state \<Rightarrow> 's consume_end" where
  "leave_loop commitErr closeErr c = (case Shutdown commitErr closeErr c of
     (err, c') \<Rightarrow> Returned (if errors_Is err ErrClosed then err else Errorf ''error in consumer shutdown'') c')"

fun consume_loop :: "'s consumer_env \<Rightarrow> go_error option \<Rightarrow> go_error option \<Rightarrow> poll_event list \<Rightarrow> 's consumer_state \<Rightarrow> 's consume_end" where
  "consume_loop env commitErr closeErr [] c = Polling c"
| "consume_loop env commitErr closeErr (ev # evs) c = (case ev of
     SignalReceived \<Rightarrow> leave_loop commitErr closeErr c
   | MessagePolled io msg \<Rightarrow> (case consume_message env io msg c of
         None \<Rightarrow> Blocked c
       | Some (Inl e) \<Rightarrow> Panicked e
       | Some (Inr (run, c')) \<Rightarrow> if run then consume_loop env commitErr closeErr evs c' else leave_loop commitErr closeErr c')
   | ErrorPolled fatal e \<Rightarrow>
       if fatal then (if send_blocks errChan then Blocked c else leave_loop commitErr closeErr c)
       else consume_loop env commitErr closeErr evs c
   | RebalancePolled e event \<Rightarrow> (case RebalanceCallback env e event c of
         None \<Rightarrow> Blocked c
       | Some (_, c') \<Rightarrow> consume_loop env commitErr closeErr evs c')
   | _ \<Rightarrow> consume_loop env commitErr closeErr evs c)"

text \<open>One life of a consumer: what subscribing, polling and the final shutdown find.\<close>

record consumer_life =
  cl_newErr :: "go_error option"
  cl_subscribeErr :: "go_error option"
  cl_events :: "poll_event list"
  cl_commitErr :: "go_error option"
  cl_closeErr :: "go_error option"

definition Consume :: "'s consumer_env \<Rightarrow> consumer_life \<Rightarrow> 's consumer_state \<Rightarrow> 's consume_end" where
  "Consume env life c = (case cl_subscribeErr life of
     Some err \<Rightarrow> if send_blocks errChan then Blocked c else Returned err c
   | None \<Rightarrow> consume_loop env (cl_commitErr life) (cl_closeErr life) (cl_events life) c)"

section \<open>Restarts\<close>

text \<open>A new consumer: its own fields are empty; the broker keeps what was committed, the database and the relations store stay.\<close>

definition New_consumer :: "'s consumer_state \<Rightarrow> 's consumer_state" where
  "New_consumer c = c\<lparr>cs_OffsetStorage := [], cs_lockId := [], cs_lockToken := [], cs_shutdownInProgress := False, cs_closed := False\<rparr>"

text \<open>Nanoseconds, computed in Go's 64-bit integers.\<close>

definition restart_backoff :: "retry_options \<Rightarrow> int \<Rightarrow> int" where
  "restart_backoff opts retries =
     min (int64 (int64 (rto_BackoffFactor opts * retries * 300) * 1000000)) (int64 (rto_MaxBackoffSeconds opts * 1000000000))"

datatype serve_action =
    StartsConsumer
  | Sleeps int
  | ShutsDown go_error
  | Hangs
  | Panics go_error

definition retries_left :: "retry_options \<Rightarrow> int \<Rightarrow> bool" where
  "retries_left opts retries \<longleftrightarrow> rto_ConsumerMaxRetries opts = -1 \<or> retries < rto_ConsumerMaxRetries opts"

text \<open>The goroutine that keeps the consumer running, over the lives the process has time for. When no consumer can be built the shutdown calls a
  method of the empty one, whose client is nil.\<close>

fun supervise :: "'s consumer_env \<Rightarrow> retry_options \<Rightarrow> consumer_life list \<Rightarrow> int \<Rightarrow> 's consumer_state \<Rightarrow> serve_action list \<times> 's consumer_state" where
  "supervise env opts [] retries c =
     (if retries_left opts retries then ([], c)
      else ([ShutsDown (Errorf ''consumer unable to process current message -- max retries reached'')], c))"
| "supervise env opts (life # lives) retries c =
     (if \<not> retries_left opts retries then ([ShutsDown (Errorf ''consumer unable to process current message -- max retries reached'')], c)
      else (case cl_newErr life of
        Some err \<Rightarrow> ([ShutsDown err, Panics nil_panic], c)
      | None \<Rightarrow> (case Consume env life (New_consumer c) of
            Polling c' \<Rightarrow> ([StartsConsumer], c')
          | Blocked c' \<Rightarrow> ([StartsConsumer, Hangs], c')
          | Panicked e \<Rightarrow> ([StartsConsumer, Panics e], c)
          | Returned err c' \<Rightarrow>
              if errors_Is err ErrClosed then
                (case supervise env opts lives (retries + 1) c' of (acts, c'') \<Rightarrow>
                   (StartsConsumer # (if retries_left opts (retries + 1) then [Sleeps (restart_backoff opts (retries + 1))] else []) @ acts, c''))
              else (case supervise env opts lives retries c' of (acts, c'') \<Rightarrow> (StartsConsumer # ShutsDown err # acts, c'')))))"

section \<open>Shutdown of the service\<close>

datatype shutdown_action = StopServer | StopPprof | CloseDB | ShutdownConsumer | ShutdownPanics

text \<open>Deferred calls run last to first: the database is closed before the consumer. \<open>cm\<close> is the address of the variable for the consumer, so never
  nil; its client is nil until a consumer is built.\<close>

definition shutdown :: "bool \<Rightarrow> bool \<Rightarrow> 'c option option \<Rightarrow> shutdown_action list" where
  "shutdown pprofSrv dbOk cm =
     [StopServer] @ (if pprofSrv then [StopPprof] else []) @ (if dbOk then [CloseDB] else []) @
     (case cm of None \<Rightarrow> [] | Some None \<Rightarrow> [ShutdownPanics] | Some (Some client) \<Rightarrow> [ShutdownConsumer])"

definition serve_shutdown :: "bool \<Rightarrow> bool \<Rightarrow> 'c option \<Rightarrow> shutdown_action list" where
  "serve_shutdown pprofSrv dbOk inventoryConsumer = shutdown pprofSrv dbOk (Some inventoryConsumer)"

end
