(* ===== verification/Supervisor_Laws.thy ===== *)
theory Supervisor_Laws
  imports Supervisor End_To_End Spicedb_Laws
begin

text \<open>
  Replication with a consumer that fails, stops and starts again. A new consumer continues from the offset the broker keeps for its group, which may be
  far behind what was already processed, so messages are processed again, on a store that is ahead of them. Also the limits of the supervising loop.
\<close>

section \<open>Stores with locks\<close>

text \<open>Acquiring a lock changes no tuple, whether it succeeds or fails.\<close>

locale lockable_store = tuple_store +
  assumes acquire_keeps: "valid s \<Longrightarrow> ro_AcquireLock ops l s = (x, s') \<Longrightarrow> keys s' = keys s \<and> valid s'"
begin

lemma acquire_retried:
  assumes "valid s" "Retry (acquire_lock_operation ops l) m s = Some (x, s')"
  shows "keys s' = keys s \<and> valid s'"
proof -
  have step: "keys s1 = keys s0 \<and> valid s1" if "valid s0" "acquire_lock_operation ops l s0 = (y, s1)" for s0 s1 y
    using acquire_keeps [OF that(1), of l] that(2) by (auto simp: acquire_lock_operation_def split: prod.splits sum.splits)
  have "case x of Inl e \<Rightarrow> keys s' = keys s \<and> valid s' | Inr r \<Rightarrow> \<exists>s0. (keys s0 = keys s \<and> valid s0) \<and> acquire_lock_operation ops l s0 = (Inr r, s')"
    by (rule Retry_invariant [OF assms(2)]) (use assms(1) step in auto)
  then show ?thesis using step by (cases x) auto
qed

end

interpretation simple_lockable: lockable_store simple_relations "\<lambda>s. set (sr_tuples s)" simple_inv wf_tuple
proof
  fix s l x s' assume "simple_inv s" "ro_AcquireLock simple_relations l s = (x, s')"
  then show "set (sr_tuples s') = set (sr_tuples s) \<and> simple_inv s'"
    by (cases "sr_acquireLockError s") (auto simp: simple_relations_def Simple_AcquireLock_def simple_inv_def Let_def)
qed

lemma lock_not_plain: "plain_key k \<Longrightarrow> encoded k = r \<Longrightarrow> so_ObjectType (sx_Resource r) \<noteq> lockType"
  by (auto simp: encoded_def plain_key_def)

context spicedb_service
begin

lemma lock_updates_keep:
  assumes "\<forall>u \<in> set us. so_ObjectType (sx_Resource (su_Relationship u)) = lockType" "plain_key k"
  shows "encoded k \<in> fold apply_update us R \<longleftrightarrow> encoded k \<in> R"
  using assms(1)
proof (induction us arbitrary: R)
  case (Cons u us)
  then have "encoded k \<noteq> su_Relationship u" using lock_not_plain [OF assms(2)] by fastforce
  with Cons show ?case by (auto simp: apply_update_def)
qed simp

lemma acquire_read_lock:
  assumes "up s" "acquire_read env l s = Inr (Some r)"
  shows "so_ObjectType (sx_Resource r) = lockType"
proof -
  obtain m ms fin where m: "sc_ReadRelationships (se_client env) FullyConsistent (lock_filter l None) 0 None s = Inr (m # ms, fin)" "r = sm_Relationship m"
    using assms(2) by (auto simp: acquire_read_def split: sum.splits prod.splits list.splits option.splits)
  then have "sp_matches (lock_filter l None) r" using read_messages [OF assms(1) m(1)] by auto
  then show ?thesis by (auto simp: sp_matches_def lock_filter_def lockType_def split: if_splits)
qed

lemma acquire_write_keeps:
  assumes "up s" "existing = None \<or> (\<exists>r. existing = Some r \<and> so_ObjectType (sx_Resource r) = lockType)" "acquire_write env l t existing s = (x, s')"
  shows "stored_keys rels s' = stored_keys rels s \<and> up s'"
proof -
  let ?us = "(case existing of None \<Rightarrow> [] | Some r \<Rightarrow> [\<lparr>su_Operation = OPERATION_DELETE, su_Relationship = r\<rparr>]) @
      [\<lparr>su_Operation = OPERATION_CREATE, su_Relationship = lock_relationship l t\<rparr>]"
  obtain y ps where w: "sc_WriteRelationships (se_client env) ?us ps s = (y, s')"
    using assms(3) by (auto simp: acquire_write_def Let_def split: prod.splits sum.splits)
  have lock: "\<forall>u \<in> set ?us. so_ObjectType (sx_Resource (su_Relationship u)) = lockType"
    using assms(2) by (auto simp: lock_relationship_def split: option.splits)
  have "(rels s' = rels s \<or> rels s' = fold apply_update ?us (rels s)) \<and> up s'"
    using write_ok [OF assms(1)] write_err [OF assms(1)] w by (cases y) blast+
  with lock_updates_keep [OF lock] show ?thesis by (auto simp: stored_keys_def)
qed

lemma SpiceDB_AcquireLock_keeps:
  assumes "up s" "SpiceDB_AcquireLock env l s = (x, s')"
  shows "stored_keys rels s' = stored_keys rels s \<and> up s'"
proof (cases "initialized env")
  case (Inl e)
  with assms show ?thesis by (simp add: SpiceDB_AcquireLock_def)
next
  case init: (Inr u)
  show ?thesis
  proof (cases "acquire_read env l s")
    case (Inl e)
    with assms init show ?thesis by (simp add: SpiceDB_AcquireLock_def)
  next
    case (Inr existing)
    with assms init have "acquire_write env l (sc_newUUID (se_client env) s) existing s = (x, s')" by (simp add: SpiceDB_AcquireLock_def)
    moreover have "existing = None \<or> (\<exists>r. existing = Some r \<and> so_ObjectType (sx_Resource r) = lockType)"
      using acquire_read_lock [OF assms(1)] Inr by (cases existing) auto
    ultimately show ?thesis using acquire_write_keeps [OF assms(1)] by blast
  qed
qed

end

sublocale spicedb_service \<subseteq> lockable_store "spicedb_relations env" "stored_keys rels" up spicedb_tuple
  by unfold_locales (use SpiceDB_AcquireLock_keeps in \<open>simp add: spicedb_relations_def\<close>)

section \<open>States of the log\<close>

text \<open>The tuples after the first \<open>n\<close> messages of the log.\<close>

definition ideal :: "schema_content \<Rightarrow> db \<Rightarrow> nat \<Rightarrow> simpleTupleKey set" where
  "ideal c d n = (\<Union>(key, i) \<in> {(key, i). known_key d key i}. tuples_after c d key i (length (logged key (take n (tuple_log (db_wal d))))))"

lemma in_ideal: "x \<in> ideal c d n \<longleftrightarrow>
    (\<exists>key i. known_key d key i \<and> x \<in> tuples_after c d key i (length (logged key (take n (tuple_log (db_wal d))))))"
  by (auto simp: ideal_def)

lemma tuples_after_object: "tuples_after c d key i m \<subseteq> object_keys key"
  using tuples_at_object by (simp add: tuples_after_def)

text \<open>A log is well-formed when its states replicate it; this does not depend on the position.\<close>

definition good_log :: "schema_content \<Rightarrow> db \<Rightarrow> bool" where
  "good_log c d \<longleftrightarrow> replicated c (\<lambda>S. S) d 0 (ideal c d 0)"

lemma replicated_ideal:
  assumes "replicated c keys d n s" "m \<le> length (tuple_log (db_wal d))"
  shows "replicated c (\<lambda>S. S) d m (ideal c d m)"
proof -
  have "ideal c d m \<inter> object_keys key = tuples_after c d key i (length (logged key (take m (tuple_log (db_wal d)))))"
    if k: "known_key d key i" for key i
  proof (intro set_eqI iffI)
    fix x assume x: "x \<in> ideal c d m \<inter> object_keys key"
    then obtain key' j where j: "known_key d key' j" "x \<in> tuples_after c d key' j (length (logged key' (take m (tuple_log (db_wal d)))))"
      by (auto simp: in_ideal)
    then have "same_object key' key" using x tuples_after_object object_keys_disjoint by blast
    then have "key' = key" using replicatedD(4) [OF assms(1) j(1) k] by blast
    with j k known_key_unique(1) show "x \<in> tuples_after c d key i (length (logged key (take m (tuple_log (db_wal d)))))" by blast
  next
    fix x assume "x \<in> tuples_after c d key i (length (logged key (take m (tuple_log (db_wal d)))))"
    with k show "x \<in> ideal c d m \<inter> object_keys key" using subsetD [OF tuples_after_object] by (auto simp: in_ideal)
  qed
  moreover have "\<forall>k \<in> ideal c d m. \<exists>key i. known_key d key i \<and> k \<in> object_keys key"
    using tuples_after_object by (fastforce simp: in_ideal)
  ultimately show ?thesis using assms unfolding replicated_def by blast
qed

lemma good_logD: "good_log c d \<Longrightarrow> m \<le> length (tuple_log (db_wal d)) \<Longrightarrow> replicated c (\<lambda>S. S) d m (ideal c d m)"
  unfolding good_log_def by (rule replicated_ideal)

lemma good_log_report:
  assumes g: "good_log c d" and r: "reported us cmd txid i d d'" and ov: "no_overflow d" and ex: "exact_versions d'"
    and c: "factory_built FeaturesAwareSchemaFactory c" and uniq: "unshared d'"
  shows "good_log c d'" "n \<le> length (tuple_log (db_wal d)) \<Longrightarrow> ideal c d' n = ideal c d n"
    "length (tuple_log (db_wal d)) \<le> length (tuple_log (db_wal d'))"
proof -
  have rep: "replicated c (\<lambda>S. S) d' n (ideal c d n)" if "n \<le> length (tuple_log (db_wal d))" for n
    by (rule replicated_report [OF good_logD [OF g that] r ov ex c uniq])
  show "ideal c d' n = ideal c d n" if "n \<le> length (tuple_log (db_wal d))" for n
    using replicated_union [OF rep [OF that]] by (simp add: ideal_def)
  show "good_log c d'" unfolding good_log_def by (rule replicated_ideal [OF rep [of 0]]) simp_all
  obtain op te where "tuple_log (db_wal d') = tuple_log (db_wal d) @ [(op, te)]"
    using reported_log(1) [OF r ex] by blast
  then show "length (tuple_log (db_wal d)) \<le> length (tuple_log (db_wal d'))" by simp
qed

text \<open>What a message changes is the difference of the states around it.\<close>

lemma ideal_step:
  assumes g: "good_log c d" and c: "factory_built FeaturesAwareSchemaFactory c"
    and n: "n < length (tuple_log (db_wal d))" "tuple_log (db_wal d) ! n = (op, te)" and k: "known_key d (te_reporterResourceKey te) i"
  defines "old \<equiv> tuples_at c (te_reporterResourceKey te) (previous_of d i op (te_commonVersion te))"
    and "new \<equiv> tuples_at c (te_reporterResourceKey te) (current_of d i op (te_commonVersion te))"
  shows "new - old = ideal c d (Suc n) - ideal c d n" "old - new = ideal c d n - ideal c d (Suc n)" "op \<in> {''created'', ''updated'', ''deleted''}"
proof -
  let ?key = "te_reporterResourceKey te" and ?log = "tuple_log (db_wal d)"
  note rep = good_logD [OF g order.strict_implies_order [OF n(1)]]
  note T = message_transition [OF rep c n k, folded old_def new_def]
  show "op \<in> {''created'', ''updated'', ''deleted''}" by (rule T(1))
  have step: "logged key (take (Suc n) ?log) = logged key (take n ?log) @ logged key [(op, te)]" for key
    using n by (simp add: take_Suc_conv_app_nth)
  have other: "x \<in> ideal c d (Suc n) \<longleftrightarrow> x \<in> ideal c d n" if "x \<notin> object_keys ?key \<or> te_commonVersion te = None" for x
  proof -
    have "logged key (take (Suc n) ?log) = logged key (take n ?log)" if "x \<in> object_keys key" for key
      using \<open>x \<notin> object_keys ?key \<or> te_commonVersion te = None\<close> that step [of key] by (auto simp: logged_single)
    then show ?thesis using tuples_after_object unfolding in_ideal by (metis subsetD)
  qed
  have here: "ideal c d (Suc n) \<inter> object_keys ?key = new" "ideal c d n \<inter> object_keys ?key = old" if "te_commonVersion te \<noteq> None"
    using T(2,5) [OF that] replicatedD(6) [OF good_logD [OF g Suc_leI [OF n(1)]] k] by simp_all
  have "new - old = ideal c d (Suc n) - ideal c d n \<and> old - new = ideal c d n - ideal c d (Suc n)"
  proof (cases "te_commonVersion te = None")
    case True
    then show ?thesis using T(3,4) other by auto
  next
    case False
    then show ?thesis using here other by blast
  qed
  then show "new - old = ideal c d (Suc n) - ideal c d n" "old - new = ideal c d n - ideal c d (Suc n)" by simp_all
qed

section \<open>Stores behind and ahead of the log\<close>

text \<open>The consumer is at position \<open>n\<close> and some consumer has been at \<open>h\<close>: a tuple that no message between the two changes is stored exactly when it is
  a tuple of the state at \<open>n\<close>. The others may be stored or not; the messages still to be processed again decide them.\<close>

definition tracks :: "schema_content \<Rightarrow> db \<Rightarrow> nat \<Rightarrow> nat \<Rightarrow> simpleTupleKey set \<Rightarrow> bool" where
  "tracks c d n h S \<longleftrightarrow> n \<le> h \<and> h \<le> length (tuple_log (db_wal d)) \<and>
     (\<forall>x. (\<forall>m. n \<le> m \<and> m < h \<longrightarrow> (x \<in> ideal c d m \<longleftrightarrow> x \<in> ideal c d (Suc m))) \<longrightarrow> (x \<in> S \<longleftrightarrow> x \<in> ideal c d n))"

lemma tracks_caught_up: "tracks c d n n S \<Longrightarrow> S = ideal c d n"
  by (auto simp: tracks_def)

lemma unchanged_between:
  assumes "\<forall>m. a \<le> m \<and> m < b \<longrightarrow> (x \<in> ideal c d m \<longleftrightarrow> x \<in> ideal c d (Suc m))" "a \<le> b"
  shows "x \<in> ideal c d a \<longleftrightarrow> x \<in> ideal c d b"
  using assms(2,1) by (induction b rule: dec_induct) auto

lemma tracks_back:
  assumes "tracks c d n h S" "p \<le> n"
  shows "tracks c d p h S"
  unfolding tracks_def
proof (intro conjI allI impI)
  fix x assume st: "\<forall>m. p \<le> m \<and> m < h \<longrightarrow> (x \<in> ideal c d m \<longleftrightarrow> x \<in> ideal c d (Suc m))"
  have "x \<in> ideal c d p \<longleftrightarrow> x \<in> ideal c d n"
    by (rule unchanged_between) (use st assms in \<open>auto simp: tracks_def\<close>)
  then show "x \<in> S \<longleftrightarrow> x \<in> ideal c d p" using assms st by (auto simp: tracks_def)
qed (use assms in \<open>auto simp: tracks_def\<close>)

lemma tracks_message:
  assumes "tracks c d n h (keys s)" "n < length (tuple_log (db_wal d))"
    and o: "outcome keys valid (ideal c d (Suc n) - ideal c d n) (ideal c d n - ideal c d (Suc n)) s x s'"
  shows "tracks c d (if is_ok x then Suc n else n) (max h (Suc n)) (keys s')"
  unfolding tracks_def
proof (intro conjI allI impI)
  let ?n = "if is_ok x then Suc n else n"
  fix t assume st: "\<forall>m. ?n \<le> m \<and> m < max h (Suc n) \<longrightarrow> (t \<in> ideal c d m \<longleftrightarrow> t \<in> ideal c d (Suc m))"
  show "t \<in> keys s' \<longleftrightarrow> t \<in> ideal c d ?n"
  proof (cases "t \<in> ideal c d n \<longleftrightarrow> t \<in> ideal c d (Suc n)")
    case True
    have "t \<in> ideal c d m \<longleftrightarrow> t \<in> ideal c d (Suc m)" if "n \<le> m" "m < h" for m
      using True st that by (cases "m = n") (auto split: if_splits)
    then have "t \<in> keys s \<longleftrightarrow> t \<in> ideal c d n" using assms(1) by (auto simp: tracks_def)
    with True o show ?thesis by (auto simp: outcome_def split: if_splits)
  next
    case False
    with st have "is_ok x" by (cases "is_ok x") auto
    with False o show ?thesis by (auto simp: outcome_def)
  qed
qed (use assms(1,2) in \<open>auto simp: tracks_def\<close>)

lemma tracks_report:
  assumes "tracks c d n h S" "\<And>m. m \<le> length (tuple_log (db_wal d)) \<Longrightarrow> ideal c d' m = ideal c d m"
    "length (tuple_log (db_wal d)) \<le> length (tuple_log (db_wal d'))"
  shows "tracks c d' n h S"
proof -
  have "ideal c d' m = ideal c d m" if "m \<le> h" for m using assms that by (auto simp: tracks_def)
  then show ?thesis using assms(1,3) by (auto simp: tracks_def)
qed

section \<open>Updates of consistency tokens\<close>

definition token_update :: "db \<Rightarrow> db \<Rightarrow> bool" where
  "token_update d d' \<longleftrightarrow> (\<exists>f. d' = d\<lparr>db_resource := map f (db_resource d)\<rparr> \<and> (\<forall>r. dr_ID (f r) = dr_ID r \<and> dr_CommonVersion (f r) = dr_CommonVersion r))"

lemma token_update_refl [simp]: "token_update d d"
  unfolding token_update_def by (rule exI [of _ "\<lambda>r. r"]) simp

lemma UpdateConsistencyToken_update: "UpdateConsistencyToken up i t d = Inr d' \<Longrightarrow> token_update d d'"
  unfolding UpdateConsistencyToken_def token_update_def
  by (cases "up i") (auto intro!: exI [of _ "\<lambda>r. if dr_ID r = the (up i) then r\<lparr>dr_ConsistencyToken := t\<rparr> else r"])

lemma store_token_update: "store_token env e msg resp d = Inr (Some d') \<Longrightarrow> token_update d d'"
  using UpdateConsistencyToken_update
  by (auto simp: store_token_def Let_def UpdateConsistencyTokenIfPresent_def split: if_splits sum.splits)

lemma token_update_tables:
  assumes "token_update d d'"
  shows "db_inv d' = db_inv d" "known_key d' = known_key d" "db_wal d' = db_wal d" "rep_at d' = rep_at d" "last_common_version d' = last_common_version d"
    "exact_versions d' = exact_versions d"
proof -
  obtain f where f: "d' = d\<lparr>db_resource := map f (db_resource d)\<rparr>" "\<And>r. dr_ID (f r) = dr_ID r" "\<And>r. dr_CommonVersion (f r) = dr_CommonVersion r"
    using assms by (auto simp: token_update_def)
  show "exact_versions d' = exact_versions d" using f(1) by (simp add: exact_versions_def)
  show "rep_at d' = rep_at d" "last_common_version d' = last_common_version d" "db_wal d' = db_wal d"
    using f(1) by (auto simp: rep_at_def last_common_version_def fun_eq_iff)
  moreover have "versions_of d' i = versions_of d i" for i using f(1) by (simp add: versions_of_def)
  ultimately have "contiguous d' i = contiguous d i" for i by (simp add: contiguous_def split: option.split)
  then show inv: "db_inv d' = db_inv d"
    using f \<open>last_common_version d' = last_common_version d\<close> by (simp add: db_inv_def common_keys_unique_def image_image comp_def)
  then show "known_key d' = known_key d" using f(1) by (simp add: known_key_def fun_eq_iff)
qed

lemma token_update_log:
  assumes "token_update d d'"
  shows "ideal c d' = ideal c d" "good_log c d' = good_log c d" "replicable ok c d' = replicable ok c d" "tracks c d' = tracks c d"
proof -
  note T = token_update_tables [OF assms]
  have v: "version_count d' = version_count d" and a: "tuples_after c d' = tuples_after c d"
    using T by (simp_all add: version_count_def tuples_after_def fun_eq_iff)
  show i: "ideal c d' = ideal c d" using T a by (simp add: ideal_def fun_eq_iff)
  have u: "unshared d' = unshared d" using T by (simp add: unshared_def)
  show "good_log c d' = good_log c d" using T a v i u by (simp add: good_log_def replicated_def log_ok_def)
  show "replicable ok c d' = replicable ok c d" using T u by (simp add: replicable_def storable_db_def)
  show "tracks c d' = tracks c d" using T i by (simp add: tracks_def fun_eq_iff)
qed

section \<open>One message\<close>

lemma commit_grows: "\<exists>b. cs_committed (snd (commitStoredOffsets e c)) = cs_committed c @ b"
  by (auto simp: commitStoredOffsets_def take_offsets_def Let_def split: option.splits)

lemma offset_step_grows:
  assumes "offset_step env e msg c = Inr c'"
  shows "\<exists>b. cs_committed c' = cs_committed c @ b" "cs_relations c' = cs_relations c" "cs_db c' = cs_db c"
proof -
  let ?c = "c\<lparr>cs_OffsetStorage := cs_OffsetStorage c @ [km_TopicPartition msg]\<rparr>"
  have "c' = ?c \<or> c' = snd (commitStoredOffsets e ?c)" using assms by (auto simp: offset_step_def Let_def res_iffs split: if_splits)
  then show "\<exists>b. cs_committed c' = cs_committed c @ b" using commit_grows [of e ?c] by auto
  show "cs_relations c' = cs_relations c" "cs_db c' = cs_db c" using \<open>c' = ?c \<or> c' = snd (commitStoredOffsets e ?c)\<close>
    by (auto simp: commitStoredOffsets_def take_offsets_def Let_def split: option.splits)
qed

lemma after_process_effect:
  assumes "after_process env io msg txid updated c1 = Inr (go, c')"
  shows "go" "cs_relations c' = cs_relations c1" "\<exists>b. cs_committed c' = cs_committed c1 @ b"
    "cs_db c' = (case updated of None \<Rightarrow> cs_db c1 | Some d \<Rightarrow> d)"
proof -
  show "go" by (rule after_process_offsets(1) [OF assms])
  have "cs_relations c' = cs_relations c1 \<and> (\<exists>b. cs_committed c' = cs_committed c1 @ b) \<and> cs_db c' = (case updated of None \<Rightarrow> cs_db c1 | Some d \<Rightarrow> d)"
  proof (cases updated)
    case (Some d)
    with assms obtain c3 where c3: "offset_step env (io_commit io) msg c3 = Inr c'" "cs_relations c3 = cs_relations c1" "cs_committed c3 = cs_committed c1" "cs_db c3 = d"
      by (auto simp: after_process_def Let_def res_iffs split: if_splits)
    with offset_step_grows [OF c3(1)] Some show ?thesis by simp
  qed (use assms in \<open>simp add: after_process_def\<close>)
  then show "cs_relations c' = cs_relations c1" "\<exists>b. cs_committed c' = cs_committed c1 @ b" "cs_db c' = (case updated of None \<Rightarrow> cs_db c1 | Some d \<Rightarrow> d)"
    by blast+
qed

lemma consume_effect:
  assumes "consume_message env io msg c = Some (Inr (go, c'))" "ParseHeaders msg = Inr headers"
  obtains x where "ProcessMessage env (NewFencingCheck (cs_lockId c) (cs_lockToken c)) (io_query io) (cs_db c) headers msg (cs_relations c) = Some (x, cs_relations c')"
    "go \<longleftrightarrow> is_ok x" "token_update (cs_db c) (cs_db c')" "\<exists>b. cs_committed c' = cs_committed c @ b"
proof -
  let ?P = "ProcessMessage env (NewFencingCheck (cs_lockId c) (cs_lockToken c)) (io_query io) (cs_db c) headers msg (cs_relations c)"
  let ?t = "\<lambda>resp. if go_map_get headers ''operation'' \<noteq> ''deleted'' then store_token env (io_update io) msg resp (cs_db c) else Inr (Some (cs_db c))"
  from assms obtain x s' where x: "?P = Some (x, s')" by (cases ?P) (auto simp: consume_message_def Let_def)
  show thesis
  proof (cases x)
    case (Inl e)
    with assms x have "c' = c\<lparr>cs_relations := s'\<rparr>" "\<not> go" by (auto simp: consume_message_def Let_def split: if_splits)
    with x Inl show thesis by (intro that [of x]) simp_all
  next
    case (Inr resp)
    from assms x Inr have "bind_res (?t resp) (\<lambda>updated. after_process env io msg (go_map_get headers ''txid'') updated (c\<lparr>cs_relations := s'\<rparr>)) = Inr (go, c')"
      by (simp add: consume_message_def Let_def after_process_def cong: option.case_cong if_cong)
    then obtain updated where u: "?t resp = Inr updated"
      "after_process env io msg (go_map_get headers ''txid'') updated (c\<lparr>cs_relations := s'\<rparr>) = Inr (go, c')" by (auto simp: res_iffs)
    note a = after_process_effect [OF u(2)]
    have "token_update (cs_db c) (cs_db c')"
      using u(1) store_token_update a(4) by (cases updated) (auto split: if_splits)
    with a(1-3) x Inr show thesis by (intro that [of x]) simp_all
  qed
qed

section \<open>The supervised system\<close>

text \<open>The consumer, the position it reads next, the position the broker keeps for its group, and whether it is in its loop.\<close>

record 's supervised_state =
  sv_c :: "'s consumer_state"
  sv_next :: nat
  sv_position :: nat
  sv_running :: bool

text \<open>The broker keeps an offset of the last commit it accepted. The consumer commits the offsets of the messages themselves, so that it reads the
  last one again.\<close>

definition position_after :: "'s consumer_state \<Rightarrow> 's consumer_state \<Rightarrow> nat \<Rightarrow> nat \<Rightarrow> bool" where
  "position_after c c' p p' \<longleftrightarrow> (let batch = drop (length (cs_committed c)) (cs_committed c')
     in if batch = [] then p' = p else int p' \<in> tp_Offset ` set batch)"

text \<open>Reports are as in \<open>system\<close>. A message is the one at the consumer's position, with that offset; handling it may fail at any point. A consumer that
  lost its partition or left the loop handles no more messages; at any time, also when the process died, a new one may be built and
  be assigned the partition, at the position of the broker.\<close>

inductive supervised :: "'u usecase \<Rightarrow> 's consumer_env \<Rightarrow> 's supervised_state \<Rightarrow> 's supervised_state \<Rightarrow> bool" for uc env \<sigma> where
  sv_start: "supervised uc env \<sigma> \<sigma>"
| sv_report: "supervised uc env \<sigma> \<tau> \<Longrightarrow> report_tx uc cmd (command_key cmd) tid txid a (cs_db (sv_c \<tau>)) = Inr d' \<Longrightarrow>
    fresh_ids a (cs_db (sv_c \<tau>)) \<Longrightarrow> sound_read a \<Longrightarrow> rrk_reporterInstanceId (command_key cmd) \<noteq> [] \<Longrightarrow>
    supervised uc env \<sigma> (\<tau>\<lparr>sv_c := (sv_c \<tau>)\<lparr>cs_db := d'\<rparr>\<rparr>)"
| sv_message: "supervised uc env \<sigma> \<tau> \<Longrightarrow> sv_running \<tau> \<Longrightarrow> sv_next \<tau> < length (tuple_entries (db_wal (cs_db (sv_c \<tau>)))) \<Longrightarrow>
    tuple_entries (db_wal (cs_db (sv_c \<tau>))) ! sv_next \<tau> = (op, j) \<Longrightarrow>
    carries msg j \<Longrightarrow> ParseHeaders msg = Inr headers \<Longrightarrow> go_map_get headers ''operation'' = op \<Longrightarrow>
    tp_Offset (km_TopicPartition msg) = int (sv_next \<tau>) \<Longrightarrow>
    consume_message env io msg (sv_c \<tau>) = Some (Inr (go, c')) \<Longrightarrow> position_after (sv_c \<tau>) c' (sv_position \<tau>) p \<Longrightarrow>
    supervised uc env \<sigma> \<lparr>sv_c = c', sv_next = (if go then Suc (sv_next \<tau>) else sv_next \<tau>), sv_position = p, sv_running = go\<rparr>"
| sv_shutdown: "supervised uc env \<sigma> \<tau> \<Longrightarrow> Shutdown e1 e2 (sv_c \<tau>) = (err, c') \<Longrightarrow> position_after (sv_c \<tau>) c' (sv_position \<tau>) p \<Longrightarrow>
    supervised uc env \<sigma> (\<tau>\<lparr>sv_c := c', sv_position := p, sv_running := False\<rparr>)"
| sv_revoke: "supervised uc env \<sigma> \<tau> \<Longrightarrow> RebalanceCallback env e (RevokedPartitions ps) (sv_c \<tau>) = Some (err, c') \<Longrightarrow>
    position_after (sv_c \<tau>) c' (sv_position \<tau>) p \<Longrightarrow> supervised uc env \<sigma> (\<tau>\<lparr>sv_c := c', sv_position := p, sv_running := False\<rparr>)"
| sv_restart: "supervised uc env \<sigma> \<tau> \<Longrightarrow> RebalanceCallback env e (AssignedPartitions ps) (New_consumer (sv_c \<tau>)) = Some (err, c') \<Longrightarrow>
    supervised uc env \<sigma> (\<tau>\<lparr>sv_c := c', sv_next := sv_position \<tau>, sv_running := True\<rparr>)"

definition supervised_inv :: "schema_content \<Rightarrow> ('s \<Rightarrow> simpleTupleKey set) \<Rightarrow> ('s \<Rightarrow> bool) \<Rightarrow> 's supervised_state \<Rightarrow> bool" where
  "supervised_inv c keys valid \<tau> \<longleftrightarrow> good_log c (cs_db (sv_c \<tau>)) \<and> valid (cs_relations (sv_c \<tau>)) \<and>
     (\<exists>h. tracks c (cs_db (sv_c \<tau>)) (sv_next \<tau>) h (keys (cs_relations (sv_c \<tau>)))) \<and> sv_position \<tau> \<le> sv_next \<tau> \<and>
     (\<forall>p \<in> set (cs_OffsetStorage (sv_c \<tau>)). tp_Offset p < int (sv_next \<tau>))"

text \<open>Commits keep the position at or below the messages handled.\<close>

lemma position_bounded:
  assumes "\<exists>b. cs_committed c' = cs_committed c @ b" "all_offsets c' = all_offsets c @ ps"
    and "\<forall>p \<in> set (cs_OffsetStorage c) \<union> set ps. tp_Offset p < int n" "p \<le> n" "position_after c c' p p'"
  shows "p' \<le> n" "\<forall>p \<in> set (cs_OffsetStorage c'). tp_Offset p < int n"
proof -
  obtain b where b: "cs_committed c' = cs_committed c @ b" using assms(1) by blast
  then have "b @ cs_OffsetStorage c' = cs_OffsetStorage c @ ps" using assms(2) by (simp add: all_offsets_def)
  then have sub: "set b \<union> set (cs_OffsetStorage c') = set (cs_OffsetStorage c) \<union> set ps" by (metis set_append)
  then show "\<forall>p \<in> set (cs_OffsetStorage c'). tp_Offset p < int n" using assms(3) by blast
  have "int p' < int n" if m: "int p' \<in> tp_Offset ` set b"
  proof -
    obtain x where "x \<in> set b" "int p' = tp_Offset x" using m by blast
    then show ?thesis using sub assms(3) by (metis UnI1)
  qed
  then show "p' \<le> n" using assms(4,5) b by (auto simp: position_after_def Let_def split: if_splits)
qed

lemma shutdown_keeps:
  assumes "Shutdown e1 e2 c = (err, c')"
  shows "\<exists>b. cs_committed c' = cs_committed c @ b" "cs_db c' = cs_db c" "cs_relations c' = cs_relations c"
  using assms commit_grows [of e1 "c\<lparr>cs_shutdownInProgress := True\<rparr>"]
  by (auto simp: Shutdown_def Let_def commitStoredOffsets_def take_offsets_def split: if_splits option.splits)

lemma revoke_keeps:
  assumes "RebalanceCallback env e (RevokedPartitions ps) c = Some (err, c')"
  shows "\<exists>b. cs_committed c' = cs_committed c @ b" "cs_db c' = cs_db c" "cs_relations c' = cs_relations c"
  using assms
  by (auto simp: RebalanceCallback_def Let_def commitStoredOffsets_def take_offsets_def split: if_splits option.splits prod.splits)

context lockable_store
begin

lemma assign_keeps:
  assumes "RebalanceCallback env e (AssignedPartitions ps) c = Some (err, c')" "cv_relations env = ops" "valid (cs_relations c)"
  shows "keys (cs_relations c') = keys (cs_relations c)" "valid (cs_relations c')" "cs_db c' = cs_db c" "cs_OffsetStorage c' = cs_OffsetStorage c"
  using assms acquire_retried
  by (auto simp: RebalanceCallback_def split: list.splits sum.splits option.splits prod.splits)

end

lemma assign_db: "RebalanceCallback env e (AssignedPartitions ps) c = Some (err, c') \<Longrightarrow> cs_db c' = cs_db c"
  by (auto simp: RebalanceCallback_def split: list.splits sum.splits option.splits)

lemma supervised_message:
  assumes inv: "supervised_inv (cv_schemas env) keys valid \<tau>" and store: "tuple_store (cv_relations env) keys valid ok"
    and c: "factory_built FeaturesAwareSchemaFactory (cv_schemas env)" and on: "cv_relationsEnabled env"
    and ok: "storable_db ok (cv_schemas env) (cs_db (sv_c \<tau>))"
    and entry: "sv_next \<tau> < length (tuple_entries (db_wal (cs_db (sv_c \<tau>))))" "tuple_entries (db_wal (cs_db (sv_c \<tau>))) ! sv_next \<tau> = (op, j)"
    and msg: "carries msg j" "ParseHeaders msg = Inr headers" "go_map_get headers ''operation'' = op"
    and off: "tp_Offset (km_TopicPartition msg) = int (sv_next \<tau>)"
    and run: "consume_message env io msg (sv_c \<tau>) = Some (Inr (go, c'))" and p: "position_after (sv_c \<tau>) c' (sv_position \<tau>) p"
  shows "supervised_inv (cv_schemas env) keys valid \<lparr>sv_c = c', sv_next = (if go then Suc (sv_next \<tau>) else sv_next \<tau>), sv_position = p, sv_running = go\<rparr>"
proof -
  let ?c = "cv_schemas env" and ?d = "cs_db (sv_c \<tau>)" and ?n = "sv_next \<tau>" and ?n' = "if go then Suc (sv_next \<tau>) else sv_next \<tau>"
  have g: "good_log ?c ?d" "valid (cs_relations (sv_c \<tau>))" "sv_position \<tau> \<le> ?n"
    "\<forall>p \<in> set (cs_OffsetStorage (sv_c \<tau>)). tp_Offset p < int ?n" using inv by (simp_all add: supervised_inv_def)
  define te where "te = entry_event j"
  note E = log_entry [OF entry replicatedD(8) [OF good_logD [OF g(1) le0]] msg(1), folded te_def]
  note n = E(1,2)
  obtain h where h: "tracks ?c ?d ?n h (keys (cs_relations (sv_c \<tau>)))" using inv by (auto simp: supervised_inv_def)
  obtain x where x: "ProcessMessage env (NewFencingCheck (cs_lockId (sv_c \<tau>)) (cs_lockToken (sv_c \<tau>))) (io_query io) ?d headers msg (cs_relations (sv_c \<tau>)) = Some (x, cs_relations c')"
    and go: "go \<longleftrightarrow> is_ok x" and tok: "token_update ?d (cs_db c')" and grow: "\<exists>b. cs_committed c' = cs_committed (sv_c \<tau>) @ b"
    by (rule consume_effect [OF run msg(2)])
  have "(op, te) \<in> set (tuple_log (db_wal ?d))" using n by (metis nth_mem)
  then obtain i where k: "known_key ?d (te_reporterResourceKey te) i"
    using replicatedD(3) [OF good_logD [OF g(1) order.strict_implies_order [OF n(1)]]] by blast
  note I = ideal_step [OF g(1) c n k]
  have o: "outcome keys valid (ideal ?c ?d (Suc ?n) - ideal ?c ?d ?n) (ideal ?c ?d ?n - ideal ?c ?d (Suc ?n)) (cs_relations (sv_c \<tau>)) x (cs_relations c')"
    using message_outcome [OF store c on k E(3) I(3) msg(3) g(2) storable_versions [OF ok c k] x] I(1,2) by simp
  have "tracks ?c (cs_db c') ?n' (max h (Suc ?n)) (keys (cs_relations c'))"
    using tracks_message [OF h n(1) o] go token_update_log(4) [OF tok] by simp
  moreover have "p \<le> ?n' \<and> (\<forall>q \<in> set (cs_OffsetStorage c'). tp_Offset q < int ?n')"
  proof -
    have "\<forall>q \<in> set (cs_OffsetStorage (sv_c \<tau>)) \<union> set (if go \<and> completed env io msg (sv_c \<tau>) then [km_TopicPartition msg] else []). tp_Offset q < int ?n'"
      using g(4) off by fastforce
    moreover have "sv_position \<tau> \<le> ?n'" using g(3) by simp
    ultimately show ?thesis using position_bounded [OF grow consume_offsets [OF run] _ _ p] by blast
  qed
  moreover have "valid (cs_relations c')" using o by (simp add: outcome_def)
  ultimately show ?thesis using g(1) token_update_log [OF tok] by (auto simp: supervised_inv_def)
qed

lemma supervised_invariant:
  assumes "supervised uc env \<sigma> \<tau>" "lockable_store (cv_relations env) keys valid ok"
    and c: "factory_built FeaturesAwareSchemaFactory (cv_schemas env)" and on: "cv_relationsEnabled env" and gs: "gorm_store (us_gorm uc)"
    and "supervised_inv (cv_schemas env) keys valid \<sigma>"
  shows "(exact_versions (cs_db (sv_c \<tau>)) \<longrightarrow> db_inv (cs_db (sv_c \<tau>))) \<and>
    (replicable ok (cv_schemas env) (cs_db (sv_c \<tau>)) \<longrightarrow> supervised_inv (cv_schemas env) keys valid \<tau>)"
  using assms(1)
proof induction
  case sv_start
  have "good_log (cv_schemas env) (cs_db (sv_c \<sigma>))" using assms(6) by (simp add: supervised_inv_def)
  then show ?case using assms(6) replicatedD(1) [OF good_logD [of "cv_schemas env" "cs_db (sv_c \<sigma>)" 0]] by simp
next
  case (sv_report \<tau> cmd tid txid a d')
  let ?d = "cs_db (sv_c \<tau>)" and ?\<tau> = "\<tau>\<lparr>sv_c := (sv_c \<tau>)\<lparr>cs_db := d'\<rparr>\<rparr>"
  have step: "db_inv d' \<and> (replicable ok (cv_schemas env) d' \<longrightarrow> supervised_inv (cv_schemas env) keys valid ?\<tau>)" if ex: "exact_versions d'"
  proof -
    have "exact_versions ?d" by (rule exact_versions_back [OF report_tx_grows [OF gs sv_report.hyps(2)] ex])
    then have "db_inv ?d" using sv_report.IH by simp
    note R = report_step [OF gs this ex sv_report.hyps(2-5) c]
    obtain i where i: "reported (g_uuid_string (us_gorm uc)) cmd txid i ?d d'" using R(2) ..
    have "supervised_inv (cv_schemas env) keys valid ?\<tau>" if d': "replicable ok (cv_schemas env) d'"
    proof -
      have inv: "supervised_inv (cv_schemas env) keys valid \<tau>" using sv_report.IH R(3) [OF d'] by simp
      have u: "unshared d'" using d' by (simp add: replicable_def)
      have g: "good_log (cv_schemas env) ?d" using inv by (simp add: supervised_inv_def)
      note G = good_log_report [OF g i exact_no_overflow [OF R(1)] ex c u]
      show ?thesis using inv G(1) tracks_report [OF _ G(2,3)] by (auto simp: supervised_inv_def)
    qed
    then show ?thesis using i by (auto simp: reported_def known_key_def)
  qed
  then show ?case by (auto simp: replicable_def)
next
  case (sv_message \<tau> op j msg headers io go c' p)
  obtain x where "token_update (cs_db (sv_c \<tau>)) (cs_db c')" by (rule consume_effect [OF sv_message.hyps(9,6)])
  note T = token_update_tables(1,6) [OF this] token_update_log(3) [OF this]
  have "supervised_inv (cv_schemas env) keys valid \<lparr>sv_c = c', sv_next = (if go then Suc (sv_next \<tau>) else sv_next \<tau>), sv_position = p, sv_running = go\<rparr>"
    if r: "replicable ok (cv_schemas env) (cs_db (sv_c \<tau>))"
    by (rule supervised_message [OF _ lockable_store.axioms(1) [OF assms(2)] c on _ sv_message.hyps(3-10)])
      (use r sv_message.IH in \<open>simp_all add: replicable_def\<close>)
  then show ?case using T sv_message.IH by simp
next
  case (sv_shutdown \<tau> e1 e2 err c' p)
  note K = shutdown_keeps [OF sv_shutdown.hyps(2)]
  from position_bounded [OF K(1) _ _ _ sv_shutdown.hyps(3), of "[]" "sv_next \<tau>"] shutdown_offsets [OF sv_shutdown.hyps(2)] sv_shutdown.IH K(2,3)
  show ?case by (auto simp: supervised_inv_def)
next
  case (sv_revoke \<tau> e ps err c' p)
  note K = revoke_keeps [OF sv_revoke.hyps(2)]
  from position_bounded [OF K(1) _ _ _ sv_revoke.hyps(3), of "[]" "sv_next \<tau>"] rebalance_offsets [OF sv_revoke.hyps(2)] sv_revoke.IH K(2,3)
  show ?case by (auto simp: supervised_inv_def)
next
  case (sv_restart \<tau> e ps err c')
  have db: "cs_db c' = cs_db (sv_c \<tau>)" using assign_db [OF sv_restart.hyps(2)] by (simp add: New_consumer_def)
  have "supervised_inv (cv_schemas env) keys valid (\<tau>\<lparr>sv_c := c', sv_next := sv_position \<tau>, sv_running := True\<rparr>)"
    if r: "replicable ok (cv_schemas env) (cs_db (sv_c \<tau>))"
  proof -
    have inv: "supervised_inv (cv_schemas env) keys valid \<tau>" using sv_restart.IH r by simp
    then have v: "valid (cs_relations (New_consumer (sv_c \<tau>)))" by (simp add: supervised_inv_def New_consumer_def)
    note K = lockable_store.assign_keeps [OF assms(2) sv_restart.hyps(2) refl v]
    obtain h where "tracks (cv_schemas env) (cs_db (sv_c \<tau>)) (sv_next \<tau>) h (keys (cs_relations (sv_c \<tau>)))" "sv_position \<tau> \<le> sv_next \<tau>"
      using inv by (auto simp: supervised_inv_def)
    from tracks_back [OF this] inv K show ?thesis by (auto simp: supervised_inv_def New_consumer_def)
  qed
  then show ?case using db sv_restart.IH by simp
qed

section \<open>The supervising loop\<close>

lemma loop_append:
  "consume_loop env e1 e2 evs c = Polling c' \<Longrightarrow> consume_loop env e1 e2 (evs @ evs') c = consume_loop env e1 e2 evs' c'"
  by (induction evs arbitrary: c)
    (auto simp: leave_loop_def split: poll_event.splits option.splits sum.splits prod.splits if_splits)

text \<open>The actions of a service whose consumers all stop, after \<open>r\<close> of them did.\<close>

definition bounded_restarts :: "retry_options \<Rightarrow> nat \<Rightarrow> nat \<Rightarrow> serve_action list" where
  "bounded_restarts opts r m =
     concat (map (\<lambda>k. [StartsConsumer, Sleeps (min (rto_BackoffFactor opts * int k * 300000000) (rto_MaxBackoffSeconds opts * 1000000000))]) [Suc r..<m]) @
     (if r < m then [StartsConsumer] else []) @ [ShutsDown (Errorf ''consumer unable to process current message -- max retries reached'')]"

lemma backoff_small:
  assumes "0 \<le> rto_BackoffFactor opts" "0 \<le> rto_MaxBackoffSeconds opts" "rto_BackoffFactor opts * int m * 300000000 < 2 ^ 63"
    "rto_MaxBackoffSeconds opts * 1000000000 < 2 ^ 63" "k \<le> m"
  shows "restart_backoff opts (int k) = min (rto_BackoffFactor opts * int k * 300000000) (rto_MaxBackoffSeconds opts * 1000000000)"
proof -
  have "rto_BackoffFactor opts * int k \<le> rto_BackoffFactor opts * int m" using assms(1,5) by (simp add: mult_left_mono)
  then have b: "rto_BackoffFactor opts * int k * 300000000 < 2 ^ 63" "0 \<le> rto_BackoffFactor opts * int k" using assms(1,3) by auto
  then have "int64 (rto_BackoffFactor opts * int k * 300) = rto_BackoffFactor opts * int k * 300" by simp
  then show ?thesis using b assms(2,4) by (simp add: restart_backoff_def)
qed

text \<open>A life that ends with the error for a closed consumer, whatever it finds.\<close>

definition stops :: "'s consumer_env \<Rightarrow> consumer_life \<Rightarrow> bool" where
  "stops env life \<longleftrightarrow> cl_newErr life = None \<and> (\<forall>c. \<exists>err c'. Consume env life c = Returned err c' \<and> errors_Is err ErrClosed)"

lemma supervise_stopping:
  assumes "list_all (stops env) lives" "rto_ConsumerMaxRetries opts = int m" "r \<le> m" "m \<le> r + length lives"
    and "0 \<le> rto_BackoffFactor opts" "0 \<le> rto_MaxBackoffSeconds opts" "rto_BackoffFactor opts * int m * 300000000 < 2 ^ 63"
    "rto_MaxBackoffSeconds opts * 1000000000 < 2 ^ 63"
  shows "fst (supervise env opts lives (int r) c) = bounded_restarts opts r m"
  using assms(1,3,4)
proof (induction lives arbitrary: r c)
  case Nil
  then show ?case using assms(2) by (simp add: retries_left_def bounded_restarts_def)
next
  case (Cons life lives)
  show ?case
  proof (cases "r < m")
    case False
    then show ?thesis using Cons.prems assms(2) by (simp add: retries_left_def bounded_restarts_def)
  next
    case True
    obtain err c' where c': "Consume env life (New_consumer c) = Returned err c'" "errors_Is err ErrClosed" "cl_newErr life = None"
      using Cons.prems(1) unfolding list.pred_inject(2) stops_def by blast
    have suc: "int r + 1 = int (Suc r)" by simp
    have "fst (supervise env opts lives (int r + 1) c') = bounded_restarts opts (Suc r) m"
      unfolding suc using Cons.IH [of "Suc r" c'] Cons.prems True by simp
    then obtain c'' where IH: "supervise env opts lives (int r + 1) c' = (bounded_restarts opts (Suc r) m, c'')" by (metis prod.collapse)
    show ?thesis
    proof (cases "Suc r < m")
      case left: True
      then have "[Suc r..<m] = Suc r # [Suc (Suc r)..<m]" by (simp add: upt_rec)
      then show ?thesis using True left c' IH assms(2) backoff_small [OF assms(5-8), of "Suc r", folded suc]
        by (simp add: retries_left_def bounded_restarts_def add.commute)
    next
      case last: False
      then show ?thesis using True c' IH assms(2) by (simp add: retries_left_def bounded_restarts_def)
    qed
  qed
qed

text \<open>A signal ends the loop with the same error as a message that cannot be processed, so that the consumer is started again while the service
  shuts down.\<close>

lemma signal_restarts:
  assumes "consume_loop env e1 None evs c = Polling c'" "\<not> cs_closed c'"
  shows "\<exists>c''. consume_loop env e1 None (evs @ [SignalReceived]) c = Returned (Sentinel ErrClosed) c''"
  unfolding loop_append [OF assms(1)] using assms(2) by (simp add: leave_loop_def Shutdown_def Let_def)

text \<open>The variable for the consumer always has an address: shutting down a service whose consumer was never built, as when it is not enabled, ends in
  a nil pointer. The database is closed before the consumer commits its offsets.\<close>

lemma shutdown_order:
  "serve_shutdown pprof True (Some client) = [StopServer] @ (if pprof then [StopPprof] else []) @ [CloseDB, ShutdownConsumer]"
  "last (serve_shutdown pprof dbOk None) = ShutdownPanics"
  by (simp_all add: serve_shutdown_def shutdown_def)

section \<open>Properties\<close>

definition start_state :: "'s \<Rightarrow> 's supervised_state" where
  "start_state s = \<lparr>sv_c = \<lparr>cs_OffsetStorage = [], cs_committed = [], cs_lockId = [], cs_lockToken = [], cs_shutdownInProgress = False,
     cs_closed = False, cs_db = empty_db, cs_relations = s, cs_notified = []\<rparr>, sv_next = 0, sv_position = 0, sv_running = False\<rparr>"

lemma start_inv:
  assumes "keys s = {}" "valid s"
  shows "supervised_inv c keys valid (start_state s)"
proof -
  have empty: "ideal c empty_db n = {}" for n by (simp add: ideal_def)
  have "good_log c empty_db"
    unfolding good_log_def by (rule replicated_ideal [OF replicated_start [of "\<lambda>_. {}" s]]) simp_all
  then show ?thesis using assms empty by (auto simp: supervised_inv_def start_state_def tracks_def)
qed

text \<open>C2. Replication survives failures and restarts: from empty tables and an empty store, however reports, messages, failing messages,
  shutdowns, lost partitions, deaths of the process and new consumers follow each other, a new consumer never continues beyond the first message that was
  not handled, and whenever a consumer has come to the end of the log the stored tuples are exactly those of the latest common representation of every resource,
  although messages were processed repeatedly, in part, and on a store that was ahead of them. As for \<open>reports_replicated\<close>, no two reported resources have the
  reporter type, resource type and local identifier in common, the store admits the tuples, and versions are below \<open>2 ^ 53\<close>.\<close>

theorem replication_survives_restarts:
  assumes "lockable_store (cv_relations env) keys valid ok" "factory_built FeaturesAwareSchemaFactory (cv_schemas env)"
    and "cv_relationsEnabled env" "gorm_store (us_gorm uc)" "keys s0 = {}" "valid s0" "supervised uc env (start_state s0) \<tau>"
    and "unshared (cs_db (sv_c \<tau>))" "storable_db ok (cv_schemas env) (cs_db (sv_c \<tau>))" "exact_versions (cs_db (sv_c \<tau>))"
  shows "sv_position \<tau> \<le> sv_next \<tau> \<and>
    (sv_next \<tau> = length (tuple_log (db_wal (cs_db (sv_c \<tau>)))) \<longrightarrow> keys (cs_relations (sv_c \<tau>)) =
      (\<Union>(key, i) \<in> {(key, i). known_key (cs_db (sv_c \<tau>)) key i}. latest_tuples (cv_schemas env) (cs_db (sv_c \<tau>)) key i))"
proof -
  let ?d = "cs_db (sv_c \<tau>)" and ?c = "cv_schemas env" and ?S = "keys (cs_relations (sv_c \<tau>))"
  have inv: "supervised_inv ?c keys valid \<tau>"
    using supervised_invariant [OF assms(7,1-4) start_inv [of keys s0 valid, OF assms(5,6)]] assms(8-10) by (simp add: replicable_def)
  then obtain h where h: "tracks ?c ?d (sv_next \<tau>) h ?S" and g: "good_log ?c ?d" and p: "sv_position \<tau> \<le> sv_next \<tau>" by (auto simp: supervised_inv_def)
  have "?S = (\<Union>(key, i) \<in> {(key, i). known_key ?d key i}. latest_tuples ?c ?d key i)" if n: "sv_next \<tau> = length (tuple_log (db_wal ?d))"
  proof -
    have "h = sv_next \<tau>" using h n by (simp add: tracks_def)
    then have "?S = ideal ?c ?d (sv_next \<tau>)" using h tracks_caught_up by blast
    also have "\<dots> = (\<Union>(key, i) \<in> {(key, i). known_key ?d key i}. latest_tuples ?c ?d key i)"
      using replicatedD(5) [OF good_logD [OF g order_refl]] n by (auto simp: ideal_def log_ok_def tuples_after_all)
    finally show ?thesis .
  qed
  with p show ?thesis by blast
qed

text \<open>A service moves between two workspaces; the consumer handles both messages, and a second one starts over from the first offset.\<close>

lemma system_reports:
  assumes "system uc env \<sigma> (d, n, s)" "\<sigma> = (empty_db, 0, s0)" "n = 0"
  shows "s = s0 \<and> supervised uc env (start_state s0) ((start_state s0)\<lparr>sv_c := (sv_c (start_state s0))\<lparr>cs_db := d\<rparr>\<rparr>)"
  using assms
proof (induction "(d, n, s)" arbitrary: d n s)
  case start
  have "(start_state s0)\<lparr>sv_c := (sv_c (start_state s0))\<lparr>cs_db := empty_db\<rparr>\<rparr> = start_state s0" by (simp add: start_state_def)
  with start show ?case using sv_start by auto
next
  case (report d n s cmd tid txid a d')
  let ?\<tau> = "(start_state s0)\<lparr>sv_c := (sv_c (start_state s0))\<lparr>cs_db := d\<rparr>\<rparr>"
  have IH: "s = s0" "supervised uc env (start_state s0) ?\<tau>" using report by auto
  have "supervised uc env (start_state s0) (?\<tau>\<lparr>sv_c := (sv_c ?\<tau>)\<lparr>cs_db := d'\<rparr>\<rparr>)"
    by (rule sv_report [OF IH(2)]) (use report in auto)
  with IH(1) show ?case by simp
qed simp

definition log_message :: "db \<Rightarrow> nat \<Rightarrow> kafka_message" where
  "log_message d n = (relayed (tuple_entries (db_wal d) ! n))\<lparr>km_TopicPartition := \<lparr>tp_Partition = 0, tp_Offset = int n\<rparr>\<rparr>"

definition assign_step :: "simple_relations_repository consumer_state \<Rightarrow> simple_relations_repository consumer_state option" where
  "assign_step c = map_option snd (RebalanceCallback moved_env None (AssignedPartitions [\<lparr>tp_Partition = 0, tp_Offset = 0\<rparr>]) (New_consumer c))"

definition message_step :: "nat \<Rightarrow> simple_relations_repository consumer_state \<Rightarrow> simple_relations_repository consumer_state option" where
  "message_step n c = (if n < length (tuple_entries (db_wal (cs_db c))) then (case consume_message moved_env quiet_io (log_message (cs_db c) n) c of
     Some (Inr (go, c')) \<Rightarrow> if go \<and> set (drop (length (cs_committed c)) (cs_committed c')) \<subseteq> {\<lparr>tp_Partition = 0, tp_Offset = 0\<rparr>} then Some c' else None
   | _ \<Rightarrow> None) else None)"

definition replay :: "simple_relations_repository consumer_state \<Rightarrow> simple_relations_repository consumer_state option" where
  "replay c = Option.bind (assign_step c) (\<lambda>c1. Option.bind (message_step 0 c1) (\<lambda>c2. Option.bind (message_step 1 c2) (\<lambda>c3.
     Option.bind (assign_step c3) (\<lambda>c4. Option.bind (message_step 0 c4) (message_step 1)))))"

lemma replay_evaluates:
  "case moved_report_db of Inl e \<Rightarrow> False | Inr d \<Rightarrow>
     (case replay ((sv_c (start_state NewSimpleRelationsRepository))\<lparr>cs_db := d\<rparr>) of None \<Rightarrow> False | Some c \<Rightarrow>
        sr_tuples (cs_relations c) = [simpleTupleKeyFromModelTuple (NewWorkspaceRelationsTuple ''w2'' (command_key sample_command))] \<and>
        length (tuple_log (db_wal (cs_db c))) = 2)"
  by code_simp

lemma assign_supervised:
  assumes "supervised uc moved_env \<sigma> \<tau>" "sv_position \<tau> = 0" "assign_step (sv_c \<tau>) = Some c'"
  shows "supervised uc moved_env \<sigma> \<lparr>sv_c = c', sv_next = 0, sv_position = 0, sv_running = True\<rparr>"
proof -
  obtain err where "RebalanceCallback moved_env None (AssignedPartitions [\<lparr>tp_Partition = 0, tp_Offset = 0\<rparr>]) (New_consumer (sv_c \<tau>)) = Some (err, c')"
    using assms(3) by (auto simp: assign_step_def)
  from sv_restart [OF assms(1) this] assms(2) show ?thesis by (cases \<tau>) simp
qed

lemma message_supervised:
  assumes "supervised uc moved_env \<sigma> \<lparr>sv_c = c, sv_next = n, sv_position = 0, sv_running = True\<rparr>" "message_step n c = Some c'"
  shows "supervised uc moved_env \<sigma> \<lparr>sv_c = c', sv_next = Suc n, sv_position = 0, sv_running = True\<rparr>"
proof (cases "tuple_entries (db_wal (cs_db c)) ! n")
  case (Pair op j)
  have step: "n < length (tuple_entries (db_wal (cs_db c)))" "consume_message moved_env quiet_io (log_message (cs_db c) n) c = Some (Inr (True, c'))"
    "set (drop (length (cs_committed c)) (cs_committed c')) \<subseteq> {\<lparr>tp_Partition = 0, tp_Offset = 0\<rparr>}"
    using assms(2) by (auto simp: message_step_def split: if_splits option.splits sum.splits prod.splits)
  have ev: "carries (log_message (cs_db c) n) j"
    using relayed_carries [of op j] Pair by (simp add: carries_def log_message_def)
  have headers: "ParseHeaders (log_message (cs_db c) n) = (if op = [] then Inl (Errorf ''required headers are missing which would result in message processing failures'')
      else Inr [(''operation'', op), (''txid'', [])])"
    using Pair by (simp add: log_message_def relayed_def ParseHeaders_def requiredHeaders_def go_map_get_def Let_def)
  then have "op \<noteq> []" using step(2) by (auto simp: consume_message_def)
  with headers have h: "ParseHeaders (log_message (cs_db c) n) = Inr [(''operation'', op), (''txid'', [])]" by simp
  have pos: "position_after c c' 0 0"
  proof (cases "drop (length (cs_committed c)) (cs_committed c')")
    case (Cons b bs)
    then have "b = \<lparr>tp_Partition = 0, tp_Offset = 0\<rparr>" using step(3) by auto
    with Cons show ?thesis by (simp add: position_after_def)
  qed (simp add: position_after_def)
  show ?thesis
    using sv_message [OF assms(1) _ _ _ ev h, where op = op and io = quiet_io and go = True and c' = c' and p = 0] step Pair pos
    by (simp add: go_map_get_def log_message_def)
qed

lemma assign_step_db: "assign_step c = Some c' \<Longrightarrow> cs_db c' = cs_db c"
  by (auto simp: assign_step_def New_consumer_def dest!: assign_db)

lemma message_step_tables:
  assumes "message_step n c = Some c'"
  shows "replicable ok sch (cs_db c') = replicable ok sch (cs_db c)"
proof -
  have run: "consume_message moved_env quiet_io (log_message (cs_db c) n) c = Some (Inr (True, c'))"
    using assms by (auto simp: message_step_def split: if_splits option.splits sum.splits prod.splits)
  then obtain headers where h: "ParseHeaders (log_message (cs_db c) n) = Inr headers" by (auto simp: consume_message_def split: sum.splits)
  obtain x where "token_update (cs_db c) (cs_db c')" by (rule consume_effect [OF run h])
  then show ?thesis by (rule token_update_log(3))
qed

theorem replication_survives_restarts_witness:
  "\<exists>\<tau>. supervised sample_usecase moved_env (start_state NewSimpleRelationsRepository) \<tau> \<and> sv_next \<tau> = 2 \<and>
     length (tuple_log (db_wal (cs_db (sv_c \<tau>)))) = 2 \<and>
     set (sr_tuples (cs_relations (sv_c \<tau>))) = (\<Union>(key, i) \<in> {(key, i). known_key (cs_db (sv_c \<tau>)) key i}. latest_tuples [] (cs_db (sv_c \<tau>)) key i) \<and>
     set (sr_tuples (cs_relations (sv_c \<tau>))) = {simpleTupleKeyFromModelTuple (NewWorkspaceRelationsTuple ''w2'' (command_key sample_command))}"
proof -
  let ?s0 = NewSimpleRelationsRepository and ?R = "supervised sample_usecase moved_env (start_state NewSimpleRelationsRepository)"
  obtain d where d: "system sample_usecase moved_env (empty_db, 0, ?s0) (d, 0, ?s0)" "moved_report_db = Inr d"
    and rd: "replicable wf_tuple [] d"
    using moved_reports [of moved_env wf_tuple ?s0] by auto
  let ?\<tau> = "(start_state ?s0)\<lparr>sv_c := (sv_c (start_state ?s0))\<lparr>cs_db := d\<rparr>\<rparr>"
  have r0: "?R ?\<tau>" using system_reports [OF d(1) refl refl] by blast
  obtain c where c: "replay (sv_c ?\<tau>) = Some c" "length (tuple_log (db_wal (cs_db c))) = 2"
    and t: "sr_tuples (cs_relations c) = [simpleTupleKeyFromModelTuple (NewWorkspaceRelationsTuple ''w2'' (command_key sample_command))]"
    using replay_evaluates [unfolded d(2) sum.case] by (auto split: option.splits)
  then obtain c1 c2 c3 c4 c5 where st: "assign_step (sv_c ?\<tau>) = Some c1" "message_step 0 c1 = Some c2" "message_step 1 c2 = Some c3"
    "assign_step c3 = Some c4" "message_step 0 c4 = Some c5" "message_step 1 c5 = Some c"
    by (auto simp: replay_def bind_eq_Some_conv)
  have r1: "?R \<lparr>sv_c = c1, sv_next = 0, sv_position = 0, sv_running = True\<rparr>"
    by (rule assign_supervised [OF r0 _ st(1)]) (simp add: start_state_def)
  note r3 = message_supervised [OF message_supervised [OF r1 st(2)] st(3) [unfolded One_nat_def]]
  have r4: "?R \<lparr>sv_c = c4, sv_next = 0, sv_position = 0, sv_running = True\<rparr>"
    by (rule assign_supervised [OF r3]) (use st(4) in simp_all)
  note r6 = message_supervised [OF message_supervised [OF r4 st(5)] st(6) [unfolded One_nat_def]]
  have rc: "replicable wf_tuple [] (cs_db c)"
    using rd message_step_tables [OF st(2)] message_step_tables [OF st(3)] message_step_tables [OF st(5)] message_step_tables [OF st(6)]
      assign_step_db [OF st(1)] assign_step_db [OF st(4)] by simp
  have "set (sr_tuples (cs_relations c)) = (\<Union>(key, i) \<in> {(key, i). known_key (cs_db c) key i}. latest_tuples [] (cs_db c) key i)"
    using replication_survives_restarts [of moved_env, unfolded moved_env_simps, OF simple_lockable.lockable_store_axioms moved_schemas moved_env_simps(2) sample_hypotheses(1) _ _ r6,
      THEN conjunct2, THEN mp] c(2) rc
    by (simp add: NewSimpleRelationsRepository_def simple_inv_def replicable_def)
  then show ?thesis using r6 c(2) t by (intro exI conjI) (assumption | simp)+
qed

text \<open>C18. Restarts are counted over the life of the process: with a limit of \<open>m\<close>, when every consumer stops, however many messages it handled before, the service
  starts exactly \<open>m\<close> of them, sleeps between two starts for the capped linear backoff and then shuts down.\<close>

theorem restarts_bounded:
  assumes "list_all (stops env) lives" "rto_ConsumerMaxRetries opts = int m" "m \<le> length lives"
    and "0 \<le> rto_BackoffFactor opts" "0 \<le> rto_MaxBackoffSeconds opts" "rto_BackoffFactor opts * int m * 300000000 < 2 ^ 63"
    "rto_MaxBackoffSeconds opts * 1000000000 < 2 ^ 63"
  shows "fst (supervise env opts lives 0 c) = bounded_restarts opts 0 m"
  using supervise_stopping [OF assms(1,2) _ _ assms(4-7), of 0 c] assms(3) by simp

definition stopping_life :: consumer_life where
  "stopping_life = \<lparr>cl_newErr = None, cl_subscribeErr = None,
     cl_events = [NothingPolled, MessagePolled \<lparr>io_query = None, io_update = None, io_notify = None, io_commit = None\<rparr>
       \<lparr>km_TopicPartition = \<lparr>tp_Partition = 0, tp_Offset = 0\<rparr>, km_Headers = [], km_Key = None, km_Value = None\<rparr>],
     cl_commitErr = None, cl_closeErr = None\<rparr>"

lemma stopping_life_stops: "stops env stopping_life"
proof -
  have "is_ok (ParseHeaders \<lparr>km_TopicPartition = \<lparr>tp_Partition = 0, tp_Offset = 0\<rparr>, km_Headers = [], km_Key = None, km_Value = None\<rparr>) = False"
    by code_simp
  then obtain e where "ParseHeaders \<lparr>km_TopicPartition = \<lparr>tp_Partition = 0, tp_Offset = 0\<rparr>, km_Headers = [], km_Key = None, km_Value = None\<rparr> = Inl e"
    by (metis is_ok_iff sum.exhaust)
  then show ?thesis by (auto simp: stops_def stopping_life_def Consume_def consume_message_def leave_loop_def Shutdown_def Let_def)
qed

theorem restarts_bounded_witness:
  "fst (supervise moved_env Retry_NewOptions [stopping_life, stopping_life, stopping_life] 0 moved_state) =
     [StartsConsumer, Sleeps 1500000000, StartsConsumer, ShutsDown (Errorf ''consumer unable to process current message -- max retries reached'')]"
  using restarts_bounded [of moved_env "[stopping_life, stopping_life, stopping_life]" Retry_NewOptions 2 moved_state] stopping_life_stops [of moved_env]
  by (simp add: Retry_NewOptions_def bounded_restarts_def upt_rec del: supervise.simps)

text \<open>C19. A fatal error of the Kafka client and a failed subscription stop replication for good: the error is sent on a channel that was never made, the
  consumer's goroutine blocks, and the service neither starts another consumer nor shuts down, whatever happens later.\<close>

theorem fatal_error_hangs:
  assumes "retries_left opts r" "cl_newErr life = None"
    and "cl_subscribeErr life \<noteq> None \<or> cl_events life = evs @ ErrorPolled True e # evs' \<and>
      consume_loop env (cl_commitErr life) (cl_closeErr life) evs (New_consumer c) = Polling c'"
  shows "fst (supervise env opts (life # lives) r c) = [StartsConsumer, Hangs]"
proof -
  have "\<exists>c''. Consume env life (New_consumer c) = Blocked c''"
  proof (cases "cl_subscribeErr life")
    case None
    then have "cl_events life = evs @ ErrorPolled True e # evs'" "consume_loop env (cl_commitErr life) (cl_closeErr life) evs (New_consumer c) = Polling c'"
      using assms(3) by simp_all
    with None show ?thesis by (simp add: Consume_def loop_append send_blocks_def errChan_def)
  qed (simp add: Consume_def send_blocks_def errChan_def)
  then show ?thesis using assms(1,2) by auto
qed

theorem fatal_error_hangs_witness:
  "fst (supervise moved_env Retry_NewOptions [stopping_life\<lparr>cl_events := [NothingPolled, ErrorPolled True (Errorf ''fatal'')]\<rparr>, stopping_life] 0 moved_state) =
     [StartsConsumer, Hangs]"
  using fatal_error_hangs [of Retry_NewOptions 0 "stopping_life\<lparr>cl_events := [NothingPolled, ErrorPolled True (Errorf ''fatal'')]\<rparr>" "[NothingPolled]" "Errorf ''fatal''" "[]"
      moved_env moved_state "New_consumer moved_state"]
  by (simp add: retries_left_def Retry_NewOptions_def stopping_life_def)

end
