(* ===== verification/Jobs.thy ===== *)
theory Jobs
  imports Resource_Repository "HOL-Library.Signed_Division"
begin

text \<open>
  The resource deletion job (\<open>cmd/jobs/resource_delete_job.go\<close>): reporter resources, common representations and resources are
  deleted phase by phase, each in batches of a subselect with a limit, until a statement affects no row.

  The statements are executed by the database: \<open>sql_engine\<close> holds, per table, the rows the subselect of the n-th statement of a
  phase returns among the matching ones (SQL leaves their choice open), or the error of the statement, and the errors of the
  counting queries of a dry run. Whether the loop ends depends on it, so the loop is a partial function whose value
  \<open>None\<close> means it runs forever. Log statements and the pause between batches are left out.
\<close>

section \<open>Integers of the estimate\<close>

text \<open>Go's division truncates towards zero and panics on a zero divisor.\<close>

definition int64_quot :: "int \<Rightarrow> int \<Rightarrow> int result" where
  "int64_quot a b = (if b = 0 then Err (Errorf ''panic: integer divide by zero'') else Ok (int64 (a sdiv b)))"

section \<open>The engine\<close>

type_synonym 'r subselect = "nat \<Rightarrow> int \<Rightarrow> 'r list \<Rightarrow> 'r list result"

record sql_engine =
  sq_reporter_resources :: "data_reporter_resource subselect"
  sq_common_representations :: "data_common_representation subselect"
  sq_resources :: "data_resource subselect"
  sq_count_reporter_resources :: "go_error option"
  sq_count_common_representations :: "go_error option"
  sq_count_resources :: "go_error option"
  sq_parse :: "go_error option"
  sq_open :: "go_error option"

section \<open>Batches\<close>

definition DefaultBatchSize :: int where "DefaultBatchSize = 5000"
definition DefaultBatchDelay :: int where "DefaultBatchDelay = 1000"

text \<open>What a phase returns: the rows deleted, the batches it logged, and the error.\<close>

record batch_outcome =
  bo_totalDeleted :: int
  bo_batchCount :: nat
  bo_err :: "go_error option"

text \<open>One statement: the rows whose key is among those of the subselect are gone.\<close>

definition delete_in :: "('r \<Rightarrow> 'k) \<Rightarrow> 'r list \<Rightarrow> 'r list \<Rightarrow> 'r list" where
  "delete_in key chosen rows = filter (\<lambda>r. key r \<notin> key ` set chosen) rows"

partial_function (option) delete_batches ::
    "'r subselect \<Rightarrow> ('r \<Rightarrow> 'k) \<Rightarrow> ('r \<Rightarrow> bool) \<Rightarrow> int \<Rightarrow> nat \<Rightarrow> int \<Rightarrow> 'r list \<Rightarrow> (batch_outcome \<times> 'r list) option" where
  "delete_batches sel key matches batchSize batchCount totalDeleted rows =
     (case sel batchCount batchSize (filter matches rows) of
        Inl e \<Rightarrow> Some (\<lparr>bo_totalDeleted = totalDeleted, bo_batchCount = batchCount, bo_err = Some e\<rparr>, rows)
      | Inr chosen \<Rightarrow>
          if length (delete_in key chosen rows) = length rows
          then Some (\<lparr>bo_totalDeleted = totalDeleted, bo_batchCount = batchCount, bo_err = None\<rparr>, rows)
          else delete_batches sel key matches batchSize (Suc batchCount)
                 (totalDeleted + (int (length rows) - int (length (delete_in key chosen rows)))) (delete_in key chosen rows))"

definition deleteBatchedByIDs ::
    "go_error option \<Rightarrow> 'r subselect \<Rightarrow> ('r \<Rightarrow> uuid) \<Rightarrow> int \<Rightarrow> ('r \<Rightarrow> bool) \<Rightarrow> 'r list \<Rightarrow> (batch_outcome \<times> 'r list) option" where
  "deleteBatchedByIDs parse sel ident batchSize whereClause rows = (case parse of
     Some err \<Rightarrow> Some (\<lparr>bo_totalDeleted = 0, bo_batchCount = 0, bo_err = Some err\<rparr>, rows)
   | None \<Rightarrow> delete_batches sel ident whereClause batchSize 0 0 rows)"

text \<open>The batches and the seconds of the estimate.\<close>

definition logDryRunEstimate :: "int \<Rightarrow> int \<Rightarrow> int \<Rightarrow> (int \<times> int) result" where
  "logDryRunEstimate count batchSize batchDelayMs =
     bind_res (int64_quot (int64 (count + batchSize - 1)) batchSize) (\<lambda>estimatedBatches.
     bind_res (int64_quot (int64 (estimatedBatches * batchDelayMs)) 1000) (\<lambda>estimatedSeconds.
     Ok (estimatedBatches, estimatedSeconds)))"

text \<open>The dry run of a phase: the count of the matching rows, which it logs with the estimate.\<close>

definition dry_run :: "go_error option \<Rightarrow> nat \<Rightarrow> int \<Rightarrow> int \<Rightarrow> batch_outcome" where
  "dry_run queryErr n batchSize batchDelayMs = (case queryErr of
     Some err \<Rightarrow> \<lparr>bo_totalDeleted = 0, bo_batchCount = 0, bo_err = Some err\<rparr>
   | None \<Rightarrow> (case logDryRunEstimate (int n) batchSize batchDelayMs of
       Inl p \<Rightarrow> \<lparr>bo_totalDeleted = 0, bo_batchCount = 0, bo_err = Some p\<rparr>
     | Inr (batches, _) \<Rightarrow> \<lparr>bo_totalDeleted = int n, bo_batchCount = nat batches, bo_err = None\<rparr>))"

section \<open>Phases\<close>

definition reporter_resource_matches :: "string \<Rightarrow> string \<Rightarrow> data_reporter_resource \<Rightarrow> bool" where
  "reporter_resource_matches resourceType reporterType r \<longleftrightarrow>
     rks_ResourceType (rrs_Key r) = resourceType \<and> rks_ReporterType (rrs_Key r) = reporterType"

text \<open>\<open>ON DELETE CASCADE\<close> of the foreign key of reporter representations.\<close>

definition cascade :: "data_reporter_resource list \<Rightarrow> data_reporter_resource list \<Rightarrow> data_reporter_representation list \<Rightarrow>
    data_reporter_representation list" where
  "cascade before after reps = filter (\<lambda>p. \<not> (rps_ReporterResourceID p \<in> rrs_ID ` set before \<and> rps_ReporterResourceID p \<notin> rrs_ID ` set after)) reps"

definition deleteBatchedReporterResources ::
    "sql_engine \<Rightarrow> bool \<Rightarrow> string \<Rightarrow> string \<Rightarrow> int \<Rightarrow> int \<Rightarrow> db \<Rightarrow> (batch_outcome \<times> db) option" where
  "deleteBatchedReporterResources e dryRun resourceType reporterType batchSize batchDelayMs d =
     (if dryRun then Some (dry_run (sq_count_reporter_resources e)
        (length (filter (reporter_resource_matches resourceType reporterType) (db_reporter_resources d))) batchSize batchDelayMs, d)
      else map_option (\<lambda>(o1, rows). (o1, d\<lparr>db_reporter_resources := rows,
          db_reporter_representations := cascade (db_reporter_resources d) rows (db_reporter_representations d)\<rparr>))
        (deleteBatchedByIDs (sq_parse e) (sq_reporter_resources e) rrs_ID batchSize
           (reporter_resource_matches resourceType reporterType) (db_reporter_resources d)))"

definition deleteBatchedCommonRepresentations ::
    "sql_engine \<Rightarrow> bool \<Rightarrow> string \<Rightarrow> int \<Rightarrow> int \<Rightarrow> db \<Rightarrow> (batch_outcome \<times> db) option" where
  "deleteBatchedCommonRepresentations e dryRun reporterType batchSize batchDelayMs d =
     (if dryRun then Some (dry_run (sq_count_common_representations e)
        (length (filter (\<lambda>r. crs_ReportedByReporterType r = reporterType) (db_common_representations d))) batchSize batchDelayMs, d)
      else map_option (\<lambda>(o1, rows). (o1, d\<lparr>db_common_representations := rows\<rparr>))
        (delete_batches (sq_common_representations e) (\<lambda>r. (crs_ResourceId r, crs_Version r))
           (\<lambda>r. crs_ReportedByReporterType r = reporterType) batchSize 0 0 (db_common_representations d)))"

definition deleteBatchedResources ::
    "sql_engine \<Rightarrow> bool \<Rightarrow> string \<Rightarrow> int \<Rightarrow> int \<Rightarrow> db \<Rightarrow> (batch_outcome \<times> db) option" where
  "deleteBatchedResources e dryRun resourceType batchSize batchDelayMs d =
     (if dryRun then Some (dry_run (sq_count_resources e)
        (length (filter (\<lambda>r. dr_Type r = resourceType) (db_resource d))) batchSize batchDelayMs, d)
      else map_option (\<lambda>(o1, rows). (o1, d\<lparr>db_resource := rows\<rparr>))
        (deleteBatchedByIDs (sq_parse e) (sq_resources e) dr_ID batchSize (\<lambda>r. dr_Type r = resourceType) (db_resource d)))"

section \<open>The job\<close>

text \<open>The outcomes of the phases that ran, which the job logs; the first error ends it.\<close>

definition then_phase :: "(batch_outcome list \<times> db) option \<Rightarrow> (db \<Rightarrow> (batch_outcome \<times> db) option) \<Rightarrow> (batch_outcome list \<times> db) option" where
  "then_phase r phase = (case r of None \<Rightarrow> None
   | Some (os, d) \<Rightarrow> if \<exists>o1 \<in> set os. bo_err o1 \<noteq> None then Some (os, d)
       else map_option (\<lambda>(o1, d'). (os @ [o1], d')) (phase d))"

definition phases_error :: "batch_outcome list \<Rightarrow> go_error option" where
  "phases_error os = (if os = [] then None else bo_err (last os))"

definition deleteResources ::
    "sql_engine \<Rightarrow> bool \<Rightarrow> string \<Rightarrow> string \<Rightarrow> int \<Rightarrow> int \<Rightarrow> db \<Rightarrow> (go_error option \<times> batch_outcome list \<times> db) option" where
  "deleteResources e dryRun resourceType reporterType batchSize batchDelayMs d =
     (if resourceType = [] then Some (Some (Errorf ''resource-type flag is required''), [], d)
      else if reporterType = [] then Some (Some (Errorf ''reporter-type flag is required''), [], d)
      else case sq_open e of
        Some err \<Rightarrow> Some (Some err, [], d)
      | None \<Rightarrow> map_option (\<lambda>(os, d'). (phases_error os, os, d'))
          (then_phase (then_phase (then_phase (Some ([], d))
             (deleteBatchedReporterResources e dryRun resourceType reporterType batchSize batchDelayMs))
             (deleteBatchedCommonRepresentations e dryRun reporterType batchSize batchDelayMs))
             (deleteBatchedResources e dryRun resourceType batchSize batchDelayMs)))"

end
