(* ===== verification/Jobs_Laws.thy ===== *)
theory Jobs_Laws
  imports Jobs Repository_Laws
begin

text \<open>
  The deletion job ends and deletes exactly the rows its phases select; its dry run predicts the outcome; a run that failed can be
  repeated; under the precondition of its documentation the tables keep their invariant.
\<close>

section \<open>Loop\<close>

lemma batches_step:
  assumes "0 < b" "m \<noteq> 0"
  shows "(m + b - 1) div b = Suc ((m - b + b - 1) div (b :: nat))"
proof (cases "b \<le> m")
  case True
  then obtain k where "m = b + k" using le_Suc_ex by blast
  then have "m + b - 1 = (k + b - 1) + b" "m - b + b - 1 = m - 1" "m - 1 = k + b - 1" using assms(1) by simp_all
  then show ?thesis using assms(1) by (metis div_add_self2 not_gr_zero Suc_eq_plus1)
next
  case False
  then have "m + b - 1 = (m - 1) + b" "m - 1 < b" "m - b + b - 1 < b" using assms by simp_all
  then show ?thesis using assms(1) by (metis div_add_self2 not_gr_zero Suc_eq_plus1 div_less)
qed

text \<open>A subselect with a limit returns that many of the matching rows, or all of them; where every row is different, it does not return a
  row twice.\<close>

locale limited_select =
  fixes sel :: "'r subselect"
  assumes chosen_rows: "0 \<le> b \<Longrightarrow> sel n b rs = Inr c \<Longrightarrow> set c \<subseteq> set rs \<and> length c = min (nat b) (length rs) \<and> (distinct rs \<longrightarrow> distinct c)"
begin

lemma delete_step:
  assumes "0 \<le> b" "sel n b (filter p rows) = Inr c" "distinct (map key rows)"
  shows "delete_in key c rows = filter (\<lambda>r. r \<notin> set c) rows" "distinct (map key (delete_in key c rows))"
    "length (filter p (delete_in key c rows)) = length (filter p rows) - nat b"
    "filter (\<lambda>r. \<not> p r) (delete_in key c rows) = filter (\<lambda>r. \<not> p r) rows"
    "length (delete_in key c rows) = length rows - min (nat b) (length (filter p rows))"
proof -
  have sub: "set c \<subseteq> set (filter p rows)" and len: "length c = min (nat b) (length (filter p rows))" and dist: "distinct c"
    using chosen_rows [OF assms(1,2)] assms(3) by (auto simp: distinct_map)
  have inj: "inj_on key (set rows)" using assms(3) by (simp add: distinct_map)
  show eq: "delete_in key c rows = filter (\<lambda>r. r \<notin> set c) rows"
    unfolding delete_in_def using sub inj by (intro filter_cong refl) (auto dest: inj_onD)
  show "distinct (map key (delete_in key c rows))" unfolding eq using assms(3) by (rule distinct_map_filter)
  have part: "length (filter (\<lambda>r. r \<in> set c) rs) = length c" if "distinct rs" "set c \<subseteq> set rs" for rs
    using that dist by (metis distinct_card distinct_filter inf.absorb2 set_filter Collect_conj_eq Collect_mem_eq Int_commute)
  have rest: "length (filter (\<lambda>r. r \<notin> set c) rs) = length rs - length c" if "distinct rs" "set c \<subseteq> set rs" for rs
    using part [OF that] sum_length_filter_compl [of "\<lambda>r. r \<in> set c" rs] by simp
  have rows: "distinct rows" "set c \<subseteq> set rows" using assms(3) sub by (auto simp: distinct_map)
  have "filter p (delete_in key c rows) = filter (\<lambda>r. r \<notin> set c) (filter p rows)" unfolding eq by (simp add: conj_commute)
  then have "length (filter p (delete_in key c rows)) = length (filter p rows) - length c" using rest [of "filter p rows"] rows(1) sub by simp
  then show "length (filter p (delete_in key c rows)) = length (filter p rows) - nat b" unfolding len by linarith
  show "length (delete_in key c rows) = length rows - min (nat b) (length (filter p rows))" using rest [OF rows] by (simp add: eq len)
  show "filter (\<lambda>r. \<not> p r) (delete_in key c rows) = filter (\<lambda>r. \<not> p r) rows"
    unfolding eq using sub by (auto intro: filter_cong)
qed

text \<open>With every statement answered the loop ends with all matching rows deleted, after as many batches as they fill.\<close>

lemma batches_complete:
  assumes "0 < b" "\<And>n rs. \<exists>c. sel n b rs = Inr c" "distinct (map key rows)"
  shows "delete_batches sel key p b k t rows = Some (\<lparr>bo_totalDeleted = t + int (length (filter p rows)),
    bo_batchCount = k + (length (filter p rows) + nat b - 1) div nat b, bo_err = None\<rparr>, filter (\<lambda>r. \<not> p r) rows)"
  using assms(3)
proof (induction "length (filter p rows)" arbitrary: k t rows rule: less_induct)
  case less
  let ?m = "length (filter p rows)"
  obtain c where c: "sel k b (filter p rows) = Inr c" using assms(2) by blast
  note step = delete_step [OF less_imp_le [OF assms(1)] c less.prems]
  have le: "?m \<le> length rows" by simp
  have affected: "length (delete_in key c rows) = length rows \<longleftrightarrow> ?m = 0"
    "int (length rows) - int (length (delete_in key c rows)) = int (min (nat b) ?m)"
    using step(5) le assms(1) by linarith+
  have loop: "delete_batches sel key p b k t rows = (if ?m = 0
      then Some (\<lparr>bo_totalDeleted = t, bo_batchCount = k, bo_err = None\<rparr>, rows)
      else delete_batches sel key p b (Suc k) (t + int (min (nat b) ?m)) (delete_in key c rows))"
    using c by (subst delete_batches.simps) (simp add: affected)
  show ?case
  proof (cases "?m = 0")
    case True
    then have "filter (\<lambda>r. \<not> p r) rows = rows" by (auto simp: filter_empty_conv intro: filter_True)
    then show ?thesis using loop True assms(1) by simp
  next
    case False
    have batches: "(?m + nat b - 1) div nat b = Suc ((?m - nat b + nat b - 1) div nat b)"
      using batches_step [of "nat b" ?m] assms(1) False by linarith
    have total: "int (min (nat b) ?m) + int (?m - nat b) = int ?m" by linarith
    have "length (filter p (delete_in key c rows)) < ?m" using step(3) False assms(1) by linarith
    from less.hyps [OF this step(2), of "Suc k" "t + int (min (nat b) ?m)"]
    have "delete_batches sel key p b (Suc k) (t + int (min (nat b) ?m)) (delete_in key c rows) =
        Some (\<lparr>bo_totalDeleted = t + int (min (nat b) ?m) + int (?m - nat b), bo_batchCount = Suc k + (?m - nat b + nat b - 1) div nat b,
          bo_err = None\<rparr>, filter (\<lambda>r. \<not> p r) rows)" unfolding step(3,4) .
    moreover have "k + (?m + nat b - 1) div nat b = Suc k + (?m - nat b + nat b - 1) div nat b" using batches by linarith
    moreover have "t + int ?m = t + int (min (nat b) ?m) + int (?m - nat b)" using total by linarith
    ultimately show ?thesis using loop False by (simp only: if_False)
  qed
qed

text \<open>Whatever fails, the loop ends, with rows deleted only among the matching ones.\<close>

lemma batches_return:
  assumes "0 < b" "distinct (map key rows)"
  shows "\<exists>o1 q. delete_batches sel key p b k t rows = Some (o1, filter (\<lambda>r. \<not> p r \<or> q r) rows)"
  using assms(2)
proof (induction "length (filter p rows)" arbitrary: k t rows rule: less_induct)
  case less
  let ?m = "length (filter p rows)"
  have id: "filter (\<lambda>r. \<not> p r \<or> True) rows = rows" by simp
  show ?case
  proof (cases "sel k b (filter p rows)")
    case (Inl e)
    then show ?thesis using id by (subst delete_batches.simps) (auto intro!: exI [of _ "\<lambda>_. True"])
  next
    case (Inr c)
    note step = delete_step [OF less_imp_le [OF assms(1)] Inr less.prems]
    show ?thesis
    proof (cases "length (delete_in key c rows) = length rows")
      case True
      then show ?thesis using id Inr by (subst delete_batches.simps) (auto intro!: exI [of _ "\<lambda>_. True"])
    next
      case False
      then have "?m \<noteq> 0" using step(5) by auto
      then have smaller: "length (filter p (delete_in key c rows)) < ?m" using step(3) assms(1) by simp
      obtain o1 q where "delete_batches sel key p b (Suc k) (t + (int (length rows) - int (length (delete_in key c rows)))) (delete_in key c rows) =
          Some (o1, filter (\<lambda>r. \<not> p r \<or> q r) (delete_in key c rows))"
        using less.hyps [OF smaller step(2)] by blast
      moreover have "filter (\<lambda>r. \<not> p r \<or> q r) (delete_in key c rows) = filter (\<lambda>r. \<not> p r \<or> (q r \<and> r \<notin> set c)) rows"
        unfolding step(1) using chosen_rows [OF less_imp_le [OF assms(1)] Inr] by (auto intro!: filter_cong)
      ultimately show ?thesis using Inr False by (subst delete_batches.simps) auto
    qed
  qed
qed

end

section \<open>Phases\<close>

definition keyed :: "db \<Rightarrow> bool" where
  "keyed d \<longleftrightarrow> distinct (map rrs_ID (db_reporter_resources d)) \<and> distinct (map dr_ID (db_resource d)) \<and>
     distinct (map (\<lambda>r. (crs_ResourceId r, crs_Version r)) (db_common_representations d))"

definition answers :: "sql_engine \<Rightarrow> int \<Rightarrow> bool" where
  "answers e b \<longleftrightarrow> sq_open e = None \<and> sq_parse e = None \<and> sq_count_reporter_resources e = None \<and>
     sq_count_common_representations e = None \<and> sq_count_resources e = None \<and>
     (\<forall>n rs. \<exists>c. sq_reporter_resources e n b rs = Inr c) \<and> (\<forall>n rs. \<exists>c. sq_common_representations e n b rs = Inr c) \<and>
     (\<forall>n rs. \<exists>c. sq_resources e n b rs = Inr c)"

text \<open>What the job means to leave: the tables without the rows of the resource type and the reporter type.\<close>

definition purge_reporter_resources :: "string \<Rightarrow> string \<Rightarrow> db \<Rightarrow> db" where
  "purge_reporter_resources ty rt d =
     d\<lparr>db_reporter_resources := filter (\<lambda>r. \<not> reporter_resource_matches ty rt r) (db_reporter_resources d),
       db_reporter_representations := filter (\<lambda>p. rps_ReporterResourceID p \<notin>
         rrs_ID ` {r \<in> set (db_reporter_resources d). reporter_resource_matches ty rt r}) (db_reporter_representations d)\<rparr>"

definition purge_common :: "string \<Rightarrow> db \<Rightarrow> db" where
  "purge_common rt d = d\<lparr>db_common_representations := filter (\<lambda>r. crs_ReportedByReporterType r \<noteq> rt) (db_common_representations d)\<rparr>"

definition purge_resources :: "string \<Rightarrow> db \<Rightarrow> db" where
  "purge_resources ty d = d\<lparr>db_resource := filter (\<lambda>r. dr_Type r \<noteq> ty) (db_resource d)\<rparr>"

definition purge :: "string \<Rightarrow> string \<Rightarrow> db \<Rightarrow> db" where
  "purge ty rt d = purge_resources ty (purge_common rt (purge_reporter_resources ty rt d))"

text \<open>The outcome of a phase over so many matching rows.\<close>

definition outcome_of :: "int \<Rightarrow> nat \<Rightarrow> batch_outcome" where
  "outcome_of b n = \<lparr>bo_totalDeleted = int n, bo_batchCount = (n + nat b - 1) div nat b, bo_err = None\<rparr>"

lemmas purge_defs = purge_def purge_resources_def purge_common_def purge_reporter_resources_def

lemma cascade_matching:
  assumes "distinct (map rrs_ID rows)"
  shows "cascade rows (filter (\<lambda>r. \<not> p r \<or> q r) rows) reps =
    filter (\<lambda>x. rps_ReporterResourceID x \<notin> rrs_ID ` {r \<in> set rows. p r \<and> \<not> q r}) reps"
  unfolding cascade_def using assms by (intro filter_cong refl) (auto simp: distinct_map dest: inj_onD)

lemma dry_run_outcome:
  assumes "0 < b" "int n + b \<le> 2 ^ 63"
  shows "dry_run None n b delay = outcome_of b n"
proof -
  have "(int n + b - 1) sdiv b = int ((n + nat b - 1) div nat b)"
    using assms(1) by (simp add: signed_divide_int_def sgn_if zdiv_int of_nat_diff)
  moreover have "int ((n + nat b - 1) div nat b) < 2 ^ 63"
    using assms div_le_dividend [of "n + nat b - 1" "nat b"] by linarith
  ultimately show ?thesis using assms
    by (simp add: dry_run_def logDryRunEstimate_def int64_quot_def outcome_of_def)
qed

text \<open>The tables with some of the matching rows deleted, as a run that fails leaves them.\<close>

definition spare :: "string \<Rightarrow> string \<Rightarrow> (data_reporter_resource \<Rightarrow> bool) \<Rightarrow> (data_common_representation \<Rightarrow> bool) \<Rightarrow>
    (data_resource \<Rightarrow> bool) \<Rightarrow> db \<Rightarrow> db" where
  "spare ty rt q1 q2 q3 d =
     d\<lparr>db_reporter_resources := filter (\<lambda>r. \<not> reporter_resource_matches ty rt r \<or> q1 r) (db_reporter_resources d),
       db_reporter_representations := filter (\<lambda>p. rps_ReporterResourceID p \<notin>
         rrs_ID ` {r \<in> set (db_reporter_resources d). reporter_resource_matches ty rt r \<and> \<not> q1 r}) (db_reporter_representations d),
       db_common_representations := filter (\<lambda>r. crs_ReportedByReporterType r \<noteq> rt \<or> q2 r) (db_common_representations d),
       db_resource := filter (\<lambda>r. dr_Type r \<noteq> ty \<or> q3 r) (db_resource d)\<rparr>"

definition pruned :: "string \<Rightarrow> string \<Rightarrow> db \<Rightarrow> db \<Rightarrow> bool" where
  "pruned ty rt d d' \<longleftrightarrow> (\<exists>q1 q2 q3. d' = spare ty rt q1 q2 q3 d)"

lemma spare_all: "spare ty rt (\<lambda>_. True) (\<lambda>_. True) (\<lambda>_. True) d = d"
  by (simp add: spare_def)

lemma spare_spare:
  "spare ty rt p1 p2 p3 (spare ty rt q1 q2 q3 d) = spare ty rt (\<lambda>r. q1 r \<and> p1 r) (\<lambda>r. q2 r \<and> p2 r) (\<lambda>r. q3 r \<and> p3 r) d"
  by (cases d) (auto simp: spare_def intro!: filter_cong)

lemma purge_spares: "purge ty rt d = spare ty rt (\<lambda>_. False) (\<lambda>_. False) (\<lambda>_. False) d"
  by (cases d) (simp add: purge_defs spare_def)

lemma pruned_refl: "pruned ty rt d d"
  unfolding pruned_def by (metis spare_all)

lemma pruned_trans: "pruned ty rt d d' \<Longrightarrow> pruned ty rt d' d'' \<Longrightarrow> pruned ty rt d d''"
  unfolding pruned_def by (metis spare_spare)

lemma pruned_purge: "pruned ty rt d d' \<Longrightarrow> purge ty rt d' = purge ty rt d"
  by (auto simp: pruned_def purge_spares spare_spare)

lemma pruned_keyed: "pruned ty rt d d' \<Longrightarrow> keyed d \<Longrightarrow> keyed d'"
  by (auto simp: pruned_def keyed_def spare_def intro: distinct_map_filter)

lemma purged_keyed:
  assumes "keyed d"
  shows "keyed (purge_reporter_resources ty rt d)" "keyed (purge_common rt d)"
  using assms by (simp_all add: keyed_def purge_reporter_resources_def purge_common_def distinct_map_filter)

lemma keyedD:
  assumes "keyed d"
  shows "distinct (map rrs_ID (db_reporter_resources d))" "distinct (map dr_ID (db_resource d))"
    "distinct (map (\<lambda>r. (crs_ResourceId r, crs_Version r)) (db_common_representations d))"
  using assms by (simp_all add: keyed_def)

text \<open>What the phases report.\<close>

definition planned :: "int \<Rightarrow> string \<Rightarrow> string \<Rightarrow> db \<Rightarrow> batch_outcome list" where
  "planned b ty rt d =
     [outcome_of b (length (filter (reporter_resource_matches ty rt) (db_reporter_resources d))),
      outcome_of b (length (filter (\<lambda>r. crs_ReportedByReporterType r = rt) (db_common_representations d))),
      outcome_of b (length (filter (\<lambda>r. dr_Type r = ty) (db_resource d)))]"

text \<open>The matching rows can be counted, with a batch, in 64 bits.\<close>

definition countable_rows :: "int \<Rightarrow> db \<Rightarrow> bool" where
  "countable_rows b d \<longleftrightarrow> int (length (db_reporter_resources d)) + b \<le> 2 ^ 63 \<and> int (length (db_common_representations d)) + b \<le> 2 ^ 63 \<and>
     int (length (db_resource d)) + b \<le> 2 ^ 63"

lemma then_phase_pruned:
  assumes "r = Some (os, d')" "pruned ty rt d d'" "\<exists>o1 d''. phase d' = Some (o1, d'') \<and> pruned ty rt d' d''"
  shows "\<exists>os' d''. then_phase r phase = Some (os', d'') \<and> pruned ty rt d d''"
  using assms by (auto simp: then_phase_def intro: pruned_trans)

lemma dry_run_filter:
  assumes "0 < b" "int (length rows) + b \<le> 2 ^ 63"
  shows "dry_run None (length (filter p rows)) b delay = outcome_of b (length (filter p rows))"
  by (rule dry_run_outcome) (use assms length_filter_le [of p rows] in linarith)+

locale deletion_engine =
  rr: limited_select "sq_reporter_resources e" + cr: limited_select "sq_common_representations e" + rs: limited_select "sq_resources e"
  for e :: sql_engine
begin

lemma reporter_resources_deleted:
  assumes "answers e b" "0 < b" "keyed d"
  shows "deleteBatchedReporterResources e False ty rt b delay d =
    Some (outcome_of b (length (filter (reporter_resource_matches ty rt) (db_reporter_resources d))), purge_reporter_resources ty rt d)"
  using assms rr.batches_complete [of b rrs_ID "db_reporter_resources d" "reporter_resource_matches ty rt"]
    cascade_matching [of "db_reporter_resources d" _ "\<lambda>_. False"]
  by (simp add: deleteBatchedReporterResources_def deleteBatchedByIDs_def answers_def keyed_def purge_reporter_resources_def outcome_of_def)

lemma common_representations_deleted:
  assumes "answers e b" "0 < b" "keyed d"
  shows "deleteBatchedCommonRepresentations e False rt b delay d =
    Some (outcome_of b (length (filter (\<lambda>r. crs_ReportedByReporterType r = rt) (db_common_representations d))), purge_common rt d)"
  using assms cr.batches_complete [of b "\<lambda>r. (crs_ResourceId r, crs_Version r)" "db_common_representations d"]
  by (simp add: deleteBatchedCommonRepresentations_def answers_def keyed_def purge_common_def outcome_of_def)

lemma resources_deleted:
  assumes "answers e b" "0 < b" "keyed d"
  shows "deleteBatchedResources e False ty b delay d =
    Some (outcome_of b (length (filter (\<lambda>r. dr_Type r = ty) (db_resource d))), purge_resources ty d)"
  using assms rs.batches_complete [of b dr_ID "db_resource d"]
  by (simp add: deleteBatchedResources_def deleteBatchedByIDs_def answers_def keyed_def purge_resources_def outcome_of_def)

lemma reporter_resources_pruned:
  assumes "0 < b" "keyed d"
  shows "\<exists>o1 d'. deleteBatchedReporterResources e False ty rt b delay d = Some (o1, d') \<and> pruned ty rt d d'"
proof (cases "sq_parse e")
  case None
  obtain o1 q where q: "delete_batches (sq_reporter_resources e) rrs_ID (reporter_resource_matches ty rt) b 0 0 (db_reporter_resources d) =
      Some (o1, filter (\<lambda>r. \<not> reporter_resource_matches ty rt r \<or> q r) (db_reporter_resources d))"
    using rr.batches_return [OF assms(1) keyedD(1) [OF assms(2)]] by blast
  have "deleteBatchedReporterResources e False ty rt b delay d = Some (o1, spare ty rt q (\<lambda>_. True) (\<lambda>_. True) d)"
    using None q cascade_matching assms(2) by (simp add: deleteBatchedReporterResources_def deleteBatchedByIDs_def spare_def keyed_def)
  then show ?thesis by (auto simp: pruned_def)
qed (use pruned_refl in \<open>simp add: deleteBatchedReporterResources_def deleteBatchedByIDs_def cascade_def\<close>)

lemma common_representations_pruned:
  assumes "0 < b" "keyed d"
  shows "\<exists>o1 d'. deleteBatchedCommonRepresentations e False rt b delay d = Some (o1, d') \<and> pruned ty rt d d'"
proof -
  obtain o1 q where "delete_batches (sq_common_representations e) (\<lambda>r. (crs_ResourceId r, crs_Version r)) (\<lambda>r. crs_ReportedByReporterType r = rt)
      b 0 0 (db_common_representations d) = Some (o1, filter (\<lambda>r. \<not> crs_ReportedByReporterType r = rt \<or> q r) (db_common_representations d))"
    using cr.batches_return [OF assms(1) keyedD(3) [OF assms(2)]] by blast
  then have "deleteBatchedCommonRepresentations e False rt b delay d = Some (o1, spare ty rt (\<lambda>_. True) q (\<lambda>_. True) d)"
    by (simp add: deleteBatchedCommonRepresentations_def spare_def)
  then show ?thesis by (auto simp: pruned_def)
qed

lemma resources_pruned:
  assumes "0 < b" "keyed d"
  shows "\<exists>o1 d'. deleteBatchedResources e False ty b delay d = Some (o1, d') \<and> pruned ty rt d d'"
proof (cases "sq_parse e")
  case None
  obtain o1 q where "delete_batches (sq_resources e) dr_ID (\<lambda>r. dr_Type r = ty) b 0 0 (db_resource d) =
      Some (o1, filter (\<lambda>r. \<not> dr_Type r = ty \<or> q r) (db_resource d))"
    using rs.batches_return [OF assms(1) keyedD(2) [OF assms(2)]] by blast
  then have "deleteBatchedResources e False ty b delay d = Some (o1, spare ty rt (\<lambda>_. True) (\<lambda>_. True) q d)"
    using None by (simp add: deleteBatchedResources_def deleteBatchedByIDs_def spare_def)
  then show ?thesis by (auto simp: pruned_def)
qed (use pruned_refl in \<open>simp add: deleteBatchedResources_def deleteBatchedByIDs_def\<close>)

lemma job_complete:
  assumes "answers e b" "0 < b" "keyed d" "ty \<noteq> []" "rt \<noteq> []"
  shows "deleteResources e False ty rt b delay d = Some (None, planned b ty rt d, purge ty rt d)"
proof -
  let ?d1 = "purge_reporter_resources ty rt d"
  let ?d2 = "purge_common rt ?d1"
  have keyed: "keyed ?d1" "keyed ?d2" using assms(3) by (simp_all add: purged_keyed)
  note phases = reporter_resources_deleted [OF assms(1-3)] common_representations_deleted [OF assms(1,2) keyed(1)]
    resources_deleted [OF assms(1,2) keyed(2)]
  have "db_common_representations ?d1 = db_common_representations d" "db_resource ?d2 = db_resource d"
    by (simp_all add: purge_defs)
  then show ?thesis using assms(1,4,5)
    by (simp add: deleteResources_def then_phase_def phases answers_def phases_error_def planned_def outcome_of_def purge_def)
qed

lemma job_dry_run:
  assumes "answers e b" "0 < b" "countable_rows b d" "ty \<noteq> []" "rt \<noteq> []"
  shows "deleteResources e True ty rt b delay d = Some (None, planned b ty rt d, d)"
proof -
  have "bo_err (outcome_of b n) = None" for n by (simp add: outcome_of_def)
  then show ?thesis using assms unfolding countable_rows_def
    by (simp add: deleteResources_def then_phase_def deleteBatchedReporterResources_def deleteBatchedCommonRepresentations_def
        deleteBatchedResources_def answers_def dry_run_filter phases_error_def planned_def)
qed

lemma job_pruned:
  assumes "0 < b" "keyed d"
  shows "\<exists>err os d'. deleteResources e False ty rt b delay d = Some (err, os, d') \<and> pruned ty rt d d'"
proof -
  let ?r1 = "then_phase (Some ([], d)) (deleteBatchedReporterResources e False ty rt b delay)"
  let ?r2 = "then_phase ?r1 (deleteBatchedCommonRepresentations e False rt b delay)"
  obtain os1 d1 where 1: "?r1 = Some (os1, d1)" "pruned ty rt d d1"
    using then_phase_pruned [where phase = "deleteBatchedReporterResources e False ty rt b delay", OF refl pruned_refl reporter_resources_pruned [OF assms]] by blast
  obtain os2 d2 where 2: "?r2 = Some (os2, d2)" "pruned ty rt d d2"
    using then_phase_pruned [where phase = "deleteBatchedCommonRepresentations e False rt b delay", OF 1 common_representations_pruned [OF assms(1) pruned_keyed [OF 1(2) assms(2)]]] by blast
  obtain os3 d3 where 3: "then_phase ?r2 (deleteBatchedResources e False ty b delay) = Some (os3, d3)" "pruned ty rt d d3"
    using then_phase_pruned [where phase = "deleteBatchedResources e False ty b delay", OF 2 resources_pruned [OF assms(1) pruned_keyed [OF 2(2) assms(2)]]] by blast
  then show ?thesis using pruned_refl by (auto simp: deleteResources_def split: option.splits)
qed

end

section \<open>The engine of a database that selects the first rows\<close>

definition first_rows :: "'r subselect" where
  "first_rows n b rs = Ok (take (nat b) rs)"

definition first_rows_engine :: sql_engine where
  "first_rows_engine = \<lparr>sq_reporter_resources = first_rows, sq_common_representations = first_rows, sq_resources = first_rows,
     sq_count_reporter_resources = None, sq_count_common_representations = None, sq_count_resources = None, sq_parse = None, sq_open = None\<rparr>"

text \<open>The same with every statement after the first one of the second phase failing.\<close>

definition failing_engine :: sql_engine where
  "failing_engine = first_rows_engine\<lparr>sq_common_representations := (\<lambda>n b rs. if n = 0 then first_rows n b rs else Err (Errorf ''connection reset''))\<rparr>"

lemma limited_first_rows: "limited_select first_rows"
  by unfold_locales (auto simp: first_rows_def dest: in_set_takeD)

interpretation fre: deletion_engine first_rows_engine
  by (intro deletion_engine.intro) (simp_all add: first_rows_engine_def limited_first_rows)

interpretation fle: deletion_engine failing_engine
proof (intro deletion_engine.intro)
  show "limited_select (sq_common_representations failing_engine)"
    by unfold_locales (auto simp: failing_engine_def first_rows_engine_def first_rows_def dest: in_set_takeD split: if_splits)
qed (simp_all add: failing_engine_def first_rows_engine_def limited_first_rows)

lemma first_rows_answer: "answers first_rows_engine b"
  by (simp add: answers_def first_rows_engine_def first_rows_def)

section \<open>The documented precondition\<close>

text \<open>The rows of a resource agree on its types.\<close>

definition linked :: "db \<Rightarrow> bool" where
  "linked d \<longleftrightarrow> (\<forall>rr \<in> set (db_reporter_resources d).
     (\<forall>res \<in> set (db_resource d). dr_ID res = rrs_ResourceID rr \<longrightarrow> dr_Type res = rks_ResourceType (rrs_Key rr)) \<and>
     (\<forall>cr \<in> set (db_common_representations d). crs_ResourceId cr = rrs_ResourceID rr \<longrightarrow>
        crs_ReportedByReporterType cr = rks_ReporterType (rrs_Key rr)))"

text \<open>The check of \<open>resource_delete_job.md\<close>: the reporter reports only this resource type, and no other reporter does.\<close>

definition sole_reporter :: "string \<Rightarrow> string \<Rightarrow> db \<Rightarrow> bool" where
  "sole_reporter ty rt d \<longleftrightarrow>
     (\<forall>rr \<in> set (db_reporter_resources d). rks_ReporterType (rrs_Key rr) = rt \<longleftrightarrow> rks_ResourceType (rrs_Key rr) = ty)"

lemma db_inv_keyed: "db_inv d \<Longrightarrow> keyed d"
  by (auto simp: db_inv_def keyed_def common_keys_unique_def same_common_key_def distinct_map inj_on_def)

lemma sole_reporter_rows:
  assumes "db_inv d" "linked d" "sole_reporter ty rt d"
  shows "res \<in> set (db_resource d) \<Longrightarrow> \<exists>rr \<in> set (db_reporter_resources d). rrs_ResourceID rr = dr_ID res \<and>
      (dr_Type res = ty \<longleftrightarrow> reporter_resource_matches ty rt rr)"
    and "cr \<in> set (db_common_representations d) \<Longrightarrow> \<exists>res \<in> set (db_resource d). dr_ID res = crs_ResourceId cr \<and>
      (crs_ReportedByReporterType cr = rt \<longleftrightarrow> dr_Type res = ty)"
proof -
  have res: "\<exists>rr \<in> set (db_reporter_resources d). rrs_ResourceID rr = dr_ID res \<and> dr_Type res = rks_ResourceType (rrs_Key rr) \<and>
      (dr_Type res = ty \<longleftrightarrow> reporter_resource_matches ty rt rr)" if "res \<in> set (db_resource d)" for res
  proof -
    have "dr_ID res \<in> rrs_ResourceID ` set (db_reporter_resources d)" using that assms(1) by (simp add: db_inv_def)
    then obtain rr where "rr \<in> set (db_reporter_resources d)" "rrs_ResourceID rr = dr_ID res" by auto
    then show ?thesis using that assms(2,3) by (auto simp: linked_def sole_reporter_def reporter_resource_matches_def)
  qed
  then show "res \<in> set (db_resource d) \<Longrightarrow> \<exists>rr \<in> set (db_reporter_resources d). rrs_ResourceID rr = dr_ID res \<and>
      (dr_Type res = ty \<longleftrightarrow> reporter_resource_matches ty rt rr)" by blast
  show "cr \<in> set (db_common_representations d) \<Longrightarrow> \<exists>res \<in> set (db_resource d). dr_ID res = crs_ResourceId cr \<and>
      (crs_ReportedByReporterType cr = rt \<longleftrightarrow> dr_Type res = ty)"
  proof -
    assume cr: "cr \<in> set (db_common_representations d)"
    then obtain r where r: "r \<in> set (db_resource d)" "dr_ID r = crs_ResourceId cr" using assms(1) by (auto simp: db_inv_def)
    then obtain rr where rr: "rr \<in> set (db_reporter_resources d)" "rrs_ResourceID rr = dr_ID r" "dr_Type r = rks_ResourceType (rrs_Key rr)"
      using res by blast
    then have "crs_ReportedByReporterType cr = rks_ReporterType (rrs_Key rr)" using cr r(2) assms(2) unfolding linked_def by metis
    then show ?thesis using r rr assms(3) by (auto simp: sole_reporter_def)
  qed
qed

text \<open>Then the rows of a resource are deleted together.\<close>

lemma sole_reporter_deletes_whole:
  assumes "db_inv d" "linked d" "sole_reporter ty rt d"
  shows "rr \<in> set (db_reporter_resources d) \<Longrightarrow> res \<in> set (db_resource d) \<Longrightarrow> rrs_ResourceID rr = dr_ID res \<Longrightarrow>
      reporter_resource_matches ty rt rr \<longleftrightarrow> dr_Type res = ty"
    and "cr \<in> set (db_common_representations d) \<Longrightarrow> res \<in> set (db_resource d) \<Longrightarrow> crs_ResourceId cr = dr_ID res \<Longrightarrow>
      crs_ReportedByReporterType cr = rt \<longleftrightarrow> dr_Type res = ty"
proof -
  assume "rr \<in> set (db_reporter_resources d)" "res \<in> set (db_resource d)" "rrs_ResourceID rr = dr_ID res"
  then show "reporter_resource_matches ty rt rr \<longleftrightarrow> dr_Type res = ty"
    using assms(2,3) by (auto simp: linked_def sole_reporter_def reporter_resource_matches_def)
next
  assume "cr \<in> set (db_common_representations d)" "res \<in> set (db_resource d)" "crs_ResourceId cr = dr_ID res"
  moreover have "inj_on dr_ID (set (db_resource d))" using assms(1) by (simp add: db_inv_def distinct_map)
  ultimately show "crs_ReportedByReporterType cr = rt \<longleftrightarrow> dr_Type res = ty"
    using sole_reporter_rows(2) [OF assms] by (metis inj_onD)
qed

lemma purge_tables:
  "db_resource (purge ty rt d) = filter (\<lambda>r. dr_Type r \<noteq> ty) (db_resource d)"
  "db_reporter_resources (purge ty rt d) = filter (\<lambda>r. \<not> reporter_resource_matches ty rt r) (db_reporter_resources d)"
  "db_common_representations (purge ty rt d) = filter (\<lambda>r. crs_ReportedByReporterType r \<noteq> rt) (db_common_representations d)"
  "db_wal (purge ty rt d) = db_wal d"
  by (simp_all add: purge_defs)

lemma purge_inv:
  assumes "db_inv d" "linked d" "sole_reporter ty rt d"
  shows "db_inv (purge ty rt d)"
proof -
  note whole = sole_reporter_deletes_whole [OF assms]
  have I: "distinct (map dr_ID (db_resource d))" "distinct (map rrs_ID (db_reporter_resources d))" "distinct (map rrs_Key (db_reporter_resources d))"
    "distinct (map rrs_ResourceID (db_reporter_resources d))" "rrs_ResourceID ` set (db_reporter_resources d) = dr_ID ` set (db_resource d)"
    "common_keys_unique d"
    "\<And>cr. cr \<in> set (db_common_representations d) \<Longrightarrow> map_len (crs_Data cr) > 0 \<and> crs_ResourceId cr \<in> dr_ID ` set (db_resource d)"
    "\<And>res. res \<in> set (db_resource d) \<Longrightarrow> contiguous d (dr_ID res) \<and>
       (dr_CommonVersion res = None \<or> dr_CommonVersion res = last_common_version d (dr_ID res))"
    using assms(1) unfolding db_inv_def by blast+
  have kept: "filter (\<lambda>cr. crs_ReportedByReporterType cr \<noteq> rt \<and> crs_ResourceId cr = dr_ID res) (db_common_representations d) =
      filter (\<lambda>cr. crs_ResourceId cr = dr_ID res) (db_common_representations d)" if "res \<in> set (db_resource d)" "dr_Type res \<noteq> ty" for res
    using whole(2) that by (intro filter_cong) auto
  have last: "last_common_version (purge ty rt d) (dr_ID res) = last_common_version d (dr_ID res)"
    if "res \<in> set (db_resource d)" "dr_Type res \<noteq> ty" for res
    using kept [OF that] by (simp add: last_common_version_def purge_tables conj_commute)
  have versions: "versions_of (purge ty rt d) (dr_ID res) = versions_of d (dr_ID res)"
    if "res \<in> set (db_resource d)" "dr_Type res \<noteq> ty" for res
    using arg_cong [OF kept [OF that], of set] by (auto simp: versions_of_def purge_tables)
  have ids: "rrs_ResourceID ` set (db_reporter_resources (purge ty rt d)) = dr_ID ` set (db_resource (purge ty rt d))"
  proof (intro equalityI subsetI)
    fix i assume "i \<in> rrs_ResourceID ` set (db_reporter_resources (purge ty rt d))"
    then obtain rr where rr: "rr \<in> set (db_reporter_resources d)" "\<not> reporter_resource_matches ty rt rr" "i = rrs_ResourceID rr" by (auto simp: purge_tables)
    then obtain res where "res \<in> set (db_resource d)" "dr_ID res = i" using I(5) by (metis imageE imageI)
    then show "i \<in> dr_ID ` set (db_resource (purge ty rt d))" using rr whole(1) by (intro image_eqI [of _ _ res]) (auto simp: purge_tables)
  next
    fix i assume "i \<in> dr_ID ` set (db_resource (purge ty rt d))"
    then obtain res where res: "res \<in> set (db_resource d)" "dr_Type res \<noteq> ty" "i = dr_ID res" by (auto simp: purge_tables)
    then show "i \<in> rrs_ResourceID ` set (db_reporter_resources (purge ty rt d))"
      using sole_reporter_rows(1) [OF assms res(1)] by (auto simp: purge_tables intro: image_eqI [OF sym])
  qed
  have common: "crs_ResourceId cr \<in> dr_ID ` set (db_resource (purge ty rt d))" if "cr \<in> set (db_common_representations (purge ty rt d))" for cr
    using that sole_reporter_rows(2) [OF assms, of cr] by (auto simp: purge_tables intro: image_eqI [OF sym])
  have "contiguous (purge ty rt d) (dr_ID res)" if "res \<in> set (db_resource d)" "dr_Type res \<noteq> ty" for res
    using I(8) [OF that(1)] unfolding contiguous_def last [OF that] versions [OF that] by blast
  then show ?thesis unfolding db_inv_def
    using I(1-4,6-8) ids common last
    by (auto simp: purge_tables distinct_map_filter common_keys_unique_def)
qed

lemma purge_linked: "linked d \<Longrightarrow> linked (purge ty rt d)"
  by (simp add: linked_def purge_tables)

text \<open>Without the precondition the job takes rows of other reporters with it, as its documentation warns.\<close>

lemma shared_type_orphans:
  assumes "answers e b" "deletion_engine e" "0 < b" "db_inv d" "linked d" "ty \<noteq> []" "rt \<noteq> []"
    and "rr \<in> set (db_reporter_resources d)" "rks_ResourceType (rrs_Key rr) = ty" "rks_ReporterType (rrs_Key rr) \<noteq> rt"
  shows "\<exists>os d'. deleteResources e False ty rt b delay d = Some (None, os, d') \<and> \<not> db_inv d'"
proof -
  have "rr \<in> set (db_reporter_resources (purge ty rt d))" using assms(8,10) by (simp add: purge_tables reporter_resource_matches_def)
  moreover have "rrs_ResourceID rr \<notin> dr_ID ` set (db_resource (purge ty rt d))" using assms(5,8,9) by (auto simp: linked_def purge_tables)
  ultimately have "\<not> db_inv (purge ty rt d)" by (auto simp: db_inv_def)
  then show ?thesis using deletion_engine.job_complete [OF assms(2,1,3) db_inv_keyed [OF assms(4)] assms(6,7)] by blast
qed

section \<open>A fleet of two types\<close>

definition fleet_reporter_resource :: "uuid \<Rightarrow> string \<Rightarrow> string \<Rightarrow> data_reporter_resource" where
  "fleet_reporter_resource i ty rt = \<lparr>rrs_ID = i + 10, rrs_Key = \<lparr>rks_LocalResourceID = ''a'', rks_ReporterType = rt, rks_ResourceType = ty,
     rks_ReporterInstanceID = ''1''\<rparr>, rrs_ResourceID = i, rrs_APIHref = [], rrs_ConsoleHref = None, rrs_RepresentationVersion = 0,
     rrs_Generation = 0, rrs_Tombstone = False, rrs_CreatedAt = 0, rrs_UpdatedAt = 0\<rparr>"

definition fleet_common :: "uuid \<Rightarrow> string \<Rightarrow> data_common_representation" where
  "fleet_common i rt = \<lparr>crs_Data = Some [(''workspace_id'', JStr ''w'')], crs_ResourceId = i, crs_Version = 0, crs_ReportedByReporterType = rt,
     crs_ReportedByReporterInstance = ''1'', crs_TransactionId = [], crs_CreatedAt = 0\<rparr>"

definition fleet_resource :: "uuid \<Rightarrow> string \<Rightarrow> data_resource" where
  "fleet_resource i ty = \<lparr>dr_ID = i, dr_Type = ty, dr_CommonVersion = Some 0, dr_ConsistencyToken = [], dr_CreatedAt = 0, dr_UpdatedAt = 0\<rparr>"

definition fleet :: db where
  "fleet = \<lparr>db_resource = [fleet_resource 1 ''host'', fleet_resource 2 ''k8s_cluster''],
     db_reporter_resources = [fleet_reporter_resource 1 ''host'' ''hbi'', fleet_reporter_resource 2 ''k8s_cluster'' ''ocm''],
     db_reporter_representations = [], db_common_representations = [fleet_common 1 ''hbi'', fleet_common 2 ''ocm''], db_wal = []\<rparr>"

lemmas fleet_defs = fleet_def fleet_resource_def fleet_reporter_resource_def fleet_common_def

lemma fleet_inv: "db_inv fleet"
proof -
  have versions: "versions_of d i = crs_Version ` set (filter (\<lambda>cr. crs_ResourceId cr = i) (db_common_representations d))" for d i
    by (simp add: versions_of_def)
  have "versions_of fleet 1 = {0}" "versions_of fleet 2 = {0}" unfolding versions by (simp_all add: fleet_defs del: set_filter)
  moreover have "last_common_version fleet 1 = Some 0" "last_common_version fleet 2 = Some 0"
    by (simp_all add: last_common_version_def max_version_def fleet_defs)
  moreover have "{..0 :: uint} = {0}" by (auto simp: word_le_0_iff)
  ultimately show ?thesis
    by (auto simp: db_inv_def contiguous_def common_keys_unique_def same_common_key_def fleet_defs map_len_def)
qed

lemma fleet_sole: "linked fleet" "sole_reporter ''host'' ''hbi'' fleet" "countable_rows 1 fleet"
  by (simp_all add: linked_def sole_reporter_def countable_rows_def fleet_defs)

text \<open>A batch size of zero deletes nothing and is no error, but its dry run divides by zero.\<close>

lemma zero_batches:
  "delete_batches first_rows key p 0 0 0 rows = Some (\<lparr>bo_totalDeleted = 0, bo_batchCount = 0, bo_err = None\<rparr>, rows)"
  by (subst delete_batches.simps) (simp add: first_rows_def delete_in_def)

lemma zero_batch_size:
  "deleteResources first_rows_engine False ''host'' ''hbi'' 0 delay d =
     Some (None, replicate 3 \<lparr>bo_totalDeleted = 0, bo_batchCount = 0, bo_err = None\<rparr>, d)"
  "\<exists>os. deleteResources first_rows_engine True ''host'' ''hbi'' 0 delay d = Some (Some (Errorf ''panic: integer divide by zero''), os, d)"
  by (simp_all add: deleteResources_def then_phase_def deleteBatchedReporterResources_def deleteBatchedCommonRepresentations_def cascade_def
      deleteBatchedResources_def deleteBatchedByIDs_def first_rows_engine_def phases_error_def numeral_3_eq_3 zero_batches dry_run_def
      logDryRunEstimate_def int64_quot_def)

section \<open>Properties of the job\<close>

text \<open>C22. The deletion job ends and deletes what it is asked to, and its dry run says so in advance: with a database that answers and a positive batch
  size, the job returns without an error, the tables lose exactly the reporter resources of the two types with their representations, the common
  representations of the reporter type and the resources of the resource type; the dry run changes nothing and reports, per phase, the
  rows the job deletes and the batches it takes.\<close>

theorem delete_job_exact:
  assumes "deletion_engine e" "answers e b" "0 < b" "keyed d" "countable_rows b d" "ty \<noteq> []" "rt \<noteq> []"
  shows "deleteResources e False ty rt b delay d = Some (None, planned b ty rt d, purge ty rt d) \<and>
    deleteResources e True ty rt b delay' d = Some (None, planned b ty rt d, d)"
  using deletion_engine.job_complete [OF assms(1-4,6,7)] deletion_engine.job_dry_run [OF assms(1-3,5-7)] by simp

theorem delete_job_exact_witness:
  "deleteResources first_rows_engine False ''host'' ''hbi'' 1 0 fleet = Some (None, planned 1 ''host'' ''hbi'' fleet, purge ''host'' ''hbi'' fleet) \<and>
   deleteResources first_rows_engine True ''host'' ''hbi'' 1 0 fleet = Some (None, planned 1 ''host'' ''hbi'' fleet, fleet) \<and>
   map bo_totalDeleted (planned 1 ''host'' ''hbi'' fleet) = [1, 1, 1] \<and> db_resource (purge ''host'' ''hbi'' fleet) = [fleet_resource 2 ''k8s_cluster'']"
proof -
  have "map bo_totalDeleted (planned 1 ''host'' ''hbi'' fleet) = [1, 1, 1]"
    by (simp add: planned_def outcome_of_def reporter_resource_matches_def fleet_defs)
  moreover have "db_resource (purge ''host'' ''hbi'' fleet) = [fleet_resource 2 ''k8s_cluster'']" by (simp add: purge_tables fleet_defs)
  ultimately show ?thesis
    using delete_job_exact [OF fre.deletion_engine_axioms first_rows_answer _ db_inv_keyed [OF fleet_inv] fleet_sole(3), of "''host''" "''hbi''" 0 0] by simp
qed

text \<open>C23. A run that failed can be repeated: whatever statements fail, the job returns, and a later run with a database that answers leaves the
  tables as a single run without failures would have.\<close>

theorem delete_job_resumes:
  assumes "deletion_engine e" "0 < b" "keyed d" "deletion_engine e'" "answers e' b'" "0 < b'" "ty \<noteq> []" "rt \<noteq> []"
  shows "\<exists>err os d' os'. deleteResources e False ty rt b delay d = Some (err, os, d') \<and>
    deleteResources e' False ty rt b' delay' d' = Some (None, os', purge ty rt d)"
proof -
  obtain err os d' where run: "deleteResources e False ty rt b delay d = Some (err, os, d')" "pruned ty rt d d'"
    using deletion_engine.job_pruned [OF assms(1-3)] by blast
  then show ?thesis
    using deletion_engine.job_complete [OF assms(4,5,6) pruned_keyed [OF run(2) assms(3)] assms(7,8)] pruned_purge [OF run(2)] by auto
qed

theorem delete_job_resumes_witness:
  "\<exists>err os d' os'. deleteResources failing_engine False ''host'' ''hbi'' 1 0 fleet = Some (err, os, d') \<and>
    deleteResources first_rows_engine False ''host'' ''hbi'' 5000 0 d' = Some (None, os', purge ''host'' ''hbi'' fleet)"
  by (rule delete_job_resumes [OF fle.deletion_engine_axioms _ db_inv_keyed [OF fleet_inv] fre.deletion_engine_axioms first_rows_answer]) simp_all

text \<open>C24. Under the precondition its documentation asks the operator to check, the job keeps the tables consistent: when the reporter reports
  only this resource type and no other reporter does, the rows of a resource are deleted together and the table
  invariant holds afterwards; nothing is announced on the log.\<close>

theorem delete_job_keeps_invariant:
  assumes "deletion_engine e" "answers e b" "0 < b" "db_inv d" "linked d" "sole_reporter ty rt d" "ty \<noteq> []" "rt \<noteq> []"
  shows "\<exists>os d'. deleteResources e False ty rt b delay d = Some (None, os, d') \<and> db_inv d' \<and> linked d' \<and> db_wal d' = db_wal d \<and>
    (\<forall>res \<in> set (db_resource d). res \<in> set (db_resource d') \<longleftrightarrow>
       (\<exists>rr \<in> set (db_reporter_resources d'). rrs_ResourceID rr = dr_ID res)) \<and>
    (\<forall>cr \<in> set (db_common_representations d). cr \<in> set (db_common_representations d') \<longleftrightarrow>
       (\<exists>rr \<in> set (db_reporter_resources d'). rrs_ResourceID rr = crs_ResourceId cr))"
proof -
  note whole = sole_reporter_deletes_whole [OF assms(4-6)] and rows = sole_reporter_rows [OF assms(4-6)]
  have res: "dr_Type res \<noteq> ty \<longleftrightarrow> (\<exists>rr \<in> set (db_reporter_resources d). \<not> reporter_resource_matches ty rt rr \<and> rrs_ResourceID rr = dr_ID res)"
    if "res \<in> set (db_resource d)" for res using whole(1) rows(1) that by metis
  have "crs_ReportedByReporterType cr \<noteq> rt \<longleftrightarrow>
      (\<exists>rr \<in> set (db_reporter_resources d). \<not> reporter_resource_matches ty rt rr \<and> rrs_ResourceID rr = crs_ResourceId cr)"
    if "cr \<in> set (db_common_representations d)" for cr using rows(2) [OF that] res by metis
  then show ?thesis
    using deletion_engine.job_complete [OF assms(1-3) db_inv_keyed [OF assms(4)] assms(7,8)] purge_inv [OF assms(4-6)] purge_linked [OF assms(5)] res
    by (auto simp: purge_tables)
qed

theorem delete_job_keeps_invariant_witness:
  "\<exists>os d'. deleteResources first_rows_engine False ''host'' ''hbi'' 1 0 fleet = Some (None, os, d') \<and> db_inv d' \<and> linked d' \<and> db_wal d' = db_wal fleet \<and>
    (\<forall>res \<in> set (db_resource fleet). res \<in> set (db_resource d') \<longleftrightarrow>
       (\<exists>rr \<in> set (db_reporter_resources d'). rrs_ResourceID rr = dr_ID res)) \<and>
    (\<forall>cr \<in> set (db_common_representations fleet). cr \<in> set (db_common_representations d') \<longleftrightarrow>
       (\<exists>rr \<in> set (db_reporter_resources d'). rrs_ResourceID rr = crs_ResourceId cr))"
  by (rule delete_job_keeps_invariant [OF fre.deletion_engine_axioms first_rows_answer _ fleet_inv fleet_sole(1,2)]) simp_all

end
