(* ===== verification/Metrics.thy ===== *)
theory Metrics
  imports Resource_Repository
begin

text \<open>
  Business metrics: the job that counts resources into a summary table (\<open>cmd/jobs/metrics_collect_job.go\<close>) and the collector
  that records the latest summary (\<open>internal/metricscollector/bizmetrics.go\<close>).

  The queries of the job are list functions over the tables. SQL leaves the order of groups open; the model has them
  in the order of their first row. The text of a JSON value (\<open>->>\<close>), the errors of queries and GORM's \<open>Create\<close> are parameters. Times
  count seconds. Counts are JSON numbers, exact as the floats of the source are up to \<open>2 ^ 53\<close>.
\<close>

section \<open>Summaries\<close>

record metrics_summary =
  ms_ID :: uuid
  ms_CollectedAt :: time
  ms_Metrics :: json_object

record metrics_env =
  me_json_text :: "json \<Rightarrow> string"
  me_workspaceErr :: "go_error option"
  me_countErr :: "go_error option"
  me_newUUID :: uuid
  me_collectedAt :: time
  me_create :: "metrics_summary \<Rightarrow> metrics_summary list \<Rightarrow> metrics_summary list result"
  me_now :: time
  me_deleteErr :: "go_error option"

definition DefaultRetentionDays :: int where "DefaultRetentionDays = 30"

definition AddDate_days :: "time \<Rightarrow> int \<Rightarrow> time" where
  "AddDate_days t days = t + days * 86400"

section \<open>Queries\<close>

text \<open>\<open>GROUP BY\<close> with \<open>COUNT(*)\<close>.\<close>

definition group_count :: "'k list \<Rightarrow> ('k \<times> int) list" where
  "group_count ks = map (\<lambda>k. (k, int (count_list ks k))) (remdups ks)"

definition json_field_text :: "(json \<Rightarrow> string) \<Rightarrow> representation \<Rightarrow> string \<Rightarrow> string option" where
  "json_field_text text r field = (case map_get r field of None \<Rightarrow> None | Some JNull \<Rightarrow> None | Some (JStr s) \<Rightarrow> Some s | Some v \<Rightarrow> Some (text v))"

definition resource_live :: "db \<Rightarrow> uuid \<Rightarrow> bool" where
  "resource_live d i \<longleftrightarrow> (\<exists>rr \<in> set (db_reporter_resources d). rrs_ResourceID rr = i \<and> \<not> rrs_Tombstone rr)"

text \<open>The rows of the join: resource type and workspace.\<close>

definition workspace_rows :: "(json \<Rightarrow> string) \<Rightarrow> db \<Rightarrow> (string \<times> string) list" where
  "workspace_rows text d = concat (map (\<lambda>r. concat (map (\<lambda>cr.
       if crs_ResourceId cr = dr_ID r \<and> dr_CommonVersion r = Some (crs_Version cr) \<and> resource_live d (dr_ID r)
       then (case json_field_text text (crs_Data cr) ''workspace_id'' of None \<Rightarrow> [] | Some w \<Rightarrow> [(dr_Type r, w)]) else [])
     (db_common_representations d))) (db_resource d))"

definition workspace_results :: "(json \<Rightarrow> string) \<Rightarrow> db \<Rightarrow> (string \<times> int) list" where
  "workspace_results text d = map (\<lambda>((ty, _), n). (ty, n)) (group_count (workspace_rows text d))"

definition live_keys :: "db \<Rightarrow> (string \<times> string \<times> string) list" where
  "live_keys d = map (\<lambda>rr. (rks_ResourceType (rrs_Key rr), rks_ReporterType (rrs_Key rr), rks_ReporterInstanceID (rrs_Key rr)))
     (filter (\<lambda>rr. \<not> rrs_Tombstone rr) (db_reporter_resources d))"

section \<open>The job\<close>

definition collectResourcesPerWorkspaceJob :: "metrics_env \<Rightarrow> db \<Rightarrow> json_object \<Rightarrow> json_object result" where
  "collectResourcesPerWorkspaceJob env d metrics = (case me_workspaceErr env of
     Some err \<Rightarrow> Err (Wrap ''resources_per_workspace query failed'' err)
   | None \<Rightarrow> Ok (metrics @ [(''resources_per_workspace'', JArr (map (\<lambda>(ty, n). JObj [(''resource_type'', JStr ty), (''count'', JNum n)])
       (workspace_results (me_json_text env) d)))]))"

definition collectResourceCountJob :: "metrics_env \<Rightarrow> db \<Rightarrow> json_object \<Rightarrow> json_object result" where
  "collectResourceCountJob env d metrics = (case me_countErr env of
     Some err \<Rightarrow> Err (Wrap ''resource_count query failed'' err)
   | None \<Rightarrow> Ok (metrics @ [(''resource_count'', JArr (map (\<lambda>((ty, rt, inst), n). JObj [(''resource_type'', JStr ty),
       (''reporter_type'', JStr rt), (''reporter_instance_id'', JStr inst), (''count'', JNum n)]) (group_count (live_keys d))))]))"

definition collectMetricsWithDB :: "metrics_env \<Rightarrow> int \<Rightarrow> db \<Rightarrow> metrics_summary list \<Rightarrow> go_error option \<times> metrics_summary list" where
  "collectMetricsWithDB env retentionDays d table =
     (case bind_res (collectResourcesPerWorkspaceJob env d []) (collectResourceCountJob env d) of
        Inl err \<Rightarrow> (Some err, table)
      | Inr metrics \<Rightarrow>
          (case me_create env \<lparr>ms_ID = me_newUUID env, ms_CollectedAt = me_collectedAt env, ms_Metrics = metrics\<rparr> table of
             Inl err \<Rightarrow> (Some err, table)
           | Inr table' \<Rightarrow>
               (let retentionDays = (if retentionDays \<le> 0 then DefaultRetentionDays else retentionDays);
                    cutoff = AddDate_days (me_now env) (- retentionDays)
                in case me_deleteErr env of
                     Some err \<Rightarrow> (Some err, table')
                   | None \<Rightarrow> (None, filter (\<lambda>s. \<not> ms_CollectedAt s < cutoff) table'))))"

section \<open>The collector\<close>

text \<open>What is recorded: the histogram of resources per workspace and the gauge of resource counts, with their attributes.\<close>

record measurements =
  mm_ResourcesPerWorkspace :: "(string \<times> int) list"
  mm_ResourceCount :: "((string \<times> string \<times> string) \<times> int) list"

text \<open>\<open>ORDER BY collected_at DESC, id LIMIT 1\<close>: the order of the query and the primary key GORM's \<open>First\<close> adds.\<close>

definition newer_summary :: "metrics_summary \<Rightarrow> metrics_summary \<Rightarrow> metrics_summary" where
  "newer_summary a b = (if ms_CollectedAt b < ms_CollectedAt a \<or> ms_CollectedAt a = ms_CollectedAt b \<and> ms_ID a \<le> ms_ID b then a else b)"

definition latest_summary :: "metrics_summary list \<Rightarrow> metrics_summary option" where
  "latest_summary table = (case table of [] \<Rightarrow> None | s # rest \<Rightarrow> Some (fold newer_summary rest s))"

definition as_string :: "json option \<Rightarrow> string" where
  "as_string v = (case v of Some (JStr s) \<Rightarrow> s | _ \<Rightarrow> [])"

definition as_number :: "json option \<Rightarrow> int" where
  "as_number v = (case v of Some (JNum n) \<Rightarrow> n | _ \<Rightarrow> 0)"

text \<open>A value that is no array goes through JSON once more: \<open>null\<close> becomes the empty slice, anything else does not fit.\<close>

definition parseMetricEntries :: "json \<Rightarrow> json_object list result" where
  "parseMetricEntries raw = (case raw of
     JArr v \<Rightarrow> Ok (concat (map (\<lambda>item. case item of JObj m \<Rightarrow> [m] | _ \<Rightarrow> []) v))
   | JNull \<Rightarrow> Ok []
   | _ \<Rightarrow> Err (Errorf ''json: cannot unmarshal''))"

definition recordResourcesPerWorkspace :: "json_object \<Rightarrow> measurements \<Rightarrow> measurements" where
  "recordResourcesPerWorkspace metrics mc = (case map_of metrics ''resources_per_workspace'' of
     None \<Rightarrow> mc
   | Some raw \<Rightarrow> (case parseMetricEntries raw of
       Inl _ \<Rightarrow> mc
     | Inr entries \<Rightarrow> mc\<lparr>mm_ResourcesPerWorkspace := mm_ResourcesPerWorkspace mc @
         map (\<lambda>e. (as_string (map_of e ''resource_type''), as_number (map_of e ''count''))) entries\<rparr>))"

definition recordResourceCount :: "json_object \<Rightarrow> measurements \<Rightarrow> measurements" where
  "recordResourceCount metrics mc = (case map_of metrics ''resource_count'' of
     None \<Rightarrow> mc
   | Some raw \<Rightarrow> (case parseMetricEntries raw of
       Inl _ \<Rightarrow> mc
     | Inr entries \<Rightarrow> mc\<lparr>mm_ResourceCount := mm_ResourceCount mc @
         map (\<lambda>e. ((as_string (map_of e ''resource_type''), as_string (map_of e ''reporter_type''), as_string (map_of e ''reporter_instance_id'')),
           as_number (map_of e ''count''))) entries\<rparr>))"

definition collectBusinessMetrics :: "go_error option \<Rightarrow> metrics_summary list \<Rightarrow> measurements \<Rightarrow> measurements" where
  "collectBusinessMetrics queryErr table mc = (case queryErr of
     Some _ \<Rightarrow> mc
   | None \<Rightarrow> (case latest_summary table of
       None \<Rightarrow> mc
     | Some summary \<Rightarrow> recordResourceCount (ms_Metrics summary) (recordResourcesPerWorkspace (ms_Metrics summary) mc)))"

section \<open>Statistics of the Kafka client\<close>

text \<open>\<open>metricscollector.go\<close>: the message of the client's statistics, decoded by its JSON tags, and the measurements recorded from it. Maps of
  the source are lists of pairs with different keys; ranging over them has no fixed order, the model follows the message. Go
  matches tags without regard to case; the messages of the client are in lower case, as the tags are.\<close>

record partition_data =
  pd_FetchqCnt :: int
  pd_FetchqSize :: int
  pd_FetchState :: string
  pd_LoOffset :: int
  pd_HiOffset :: int
  pd_LsOffset :: int
  pd_ConsumerLag :: int
  pd_ConsumerLagStored :: int

record topic_data =
  td_Topic :: string
  td_Partitions :: "(string \<times> partition_data) list"

record cgrp_data =
  cg_State :: string
  cg_StateAge :: int
  cg_RebalanceAge :: int
  cg_RebalanceCnt :: int
  cg_RebalanceReason :: string
  cg_AssignmentSize :: int

record stats_data =
  sd_Name :: string
  sd_ClientID :: string
  sd_Replyq :: int
  sd_Topics :: "(string \<times> topic_data) list"
  sd_CGRP :: cgrp_data

definition outboxTopic :: string where "outboxTopic = ''outbox.event.kessel.tuples''"
definition statsPrefix :: string where "statsPrefix = ''consumer_stats_''"

definition json_string :: "json_object \<Rightarrow> string \<Rightarrow> string result" where
  "json_string m tag = (case map_of m tag of None \<Rightarrow> Ok [] | Some JNull \<Rightarrow> Ok [] | Some (JStr x) \<Rightarrow> Ok x | Some _ \<Rightarrow> Err (Errorf ''json: cannot unmarshal''))"

definition json_int :: "json_object \<Rightarrow> string \<Rightarrow> int result" where
  "json_int m tag = (case map_of m tag of None \<Rightarrow> Ok 0 | Some JNull \<Rightarrow> Ok 0
     | Some (JNum x) \<Rightarrow> if - (2 ^ 63) \<le> x \<and> x < 2 ^ 63 then Ok x else Err (Errorf ''json: cannot unmarshal'')
     | Some _ \<Rightarrow> Err (Errorf ''json: cannot unmarshal''))"

text \<open>A nested object or map: absent and \<open>null\<close> are empty.\<close>

definition json_map :: "json option \<Rightarrow> json_object result" where
  "json_map v = (case v of None \<Rightarrow> Ok [] | Some JNull \<Rightarrow> Ok [] | Some (JObj m) \<Rightarrow> Ok m | Some _ \<Rightarrow> Err (Errorf ''json: cannot unmarshal''))"

definition PartitionData_Unmarshal :: "json_object \<Rightarrow> partition_data result" where
  "PartitionData_Unmarshal m =
     bind_res (json_int m ''fetchq_cnt'') (\<lambda>fetchqCnt.
     bind_res (json_int m ''fetchq_size'') (\<lambda>fetchqSize.
     bind_res (json_string m ''fetch_state'') (\<lambda>fetchState.
     bind_res (json_int m ''lo_offset'') (\<lambda>loOffset.
     bind_res (json_int m ''hi_offset'') (\<lambda>hiOffset.
     bind_res (json_int m ''ls_offset'') (\<lambda>lsOffset.
     bind_res (json_int m ''consumer_lag'') (\<lambda>consumerLag.
     bind_res (json_int m ''consumer_lag_stored'') (\<lambda>consumerLagStored.
     Ok \<lparr>pd_FetchqCnt = fetchqCnt, pd_FetchqSize = fetchqSize, pd_FetchState = fetchState, pd_LoOffset = loOffset, pd_HiOffset = hiOffset,
       pd_LsOffset = lsOffset, pd_ConsumerLag = consumerLag, pd_ConsumerLagStored = consumerLagStored\<rparr>))))))))"

fun json_entries :: "(json_object \<Rightarrow> 'a result) \<Rightarrow> json_object \<Rightarrow> (string \<times> 'a) list result" where
  "json_entries decode [] = Ok []"
| "json_entries decode ((k, v) # m) =
     bind_res (bind_res (json_map (Some v)) decode) (\<lambda>x. bind_res (json_entries decode m) (\<lambda>xs. Ok ((k, x) # xs)))"

definition TopicData_Unmarshal :: "json_object \<Rightarrow> topic_data result" where
  "TopicData_Unmarshal m =
     bind_res (json_string m ''topic'') (\<lambda>topic.
     bind_res (bind_res (json_map (map_of m ''partitions'')) (json_entries PartitionData_Unmarshal)) (\<lambda>partitions.
     Ok \<lparr>td_Topic = topic, td_Partitions = partitions\<rparr>))"

definition CGRPData_Unmarshal :: "json_object \<Rightarrow> cgrp_data result" where
  "CGRPData_Unmarshal m =
     bind_res (json_string m ''state'') (\<lambda>state.
     bind_res (json_int m ''stageage'') (\<lambda>stateAge.
     bind_res (json_int m ''rebalance_age'') (\<lambda>rebalanceAge.
     bind_res (json_int m ''rebalance_cnt'') (\<lambda>rebalanceCnt.
     bind_res (json_string m ''rebalance_reason'') (\<lambda>rebalanceReason.
     bind_res (json_int m ''assignment_size'') (\<lambda>assignmentSize.
     Ok \<lparr>cg_State = state, cg_StateAge = stateAge, cg_RebalanceAge = rebalanceAge, cg_RebalanceCnt = rebalanceCnt,
       cg_RebalanceReason = rebalanceReason, cg_AssignmentSize = assignmentSize\<rparr>))))))"

definition StatsData_Unmarshal :: "json_object \<Rightarrow> stats_data result" where
  "StatsData_Unmarshal m =
     bind_res (json_string m ''name'') (\<lambda>name.
     bind_res (json_string m ''client_id'') (\<lambda>clientId.
     bind_res (json_int m ''replyq'') (\<lambda>replyq.
     bind_res (bind_res (json_map (map_of m ''topics'')) (json_entries TopicData_Unmarshal)) (\<lambda>topics.
     bind_res (bind_res (json_map (map_of m ''cgrp'')) CGRPData_Unmarshal) (\<lambda>cgrp.
     Ok \<lparr>sd_Name = name, sd_ClientID = clientId, sd_Replyq = replyq, sd_Topics = topics, sd_CGRP = cgrp\<rparr>)))))"

text \<open>A measurement: the instrument, the value and the attributes.\<close>

type_synonym measurement = "string \<times> int \<times> (string \<times> string) list"

definition LabelSet :: "stats_data \<Rightarrow> string \<Rightarrow> (string \<times> string) list" where
  "LabelSet s key = [(''name'', sd_Name s), (''client_id'', sd_ClientID s)] @
     (if key = [] then [] else [(''topic'', outboxTopic), (''partition'', key)])"

definition stats_record :: "string \<Rightarrow> int \<Rightarrow> (string \<times> string) list \<Rightarrow> measurement" where
  "stats_record name v labels = (statsPrefix @ name, v, labels)"

definition collect_partition :: "stats_data \<Rightarrow> string \<times> partition_data \<Rightarrow> measurement list" where
  "collect_partition stats kp = (let partitionKey = fst kp; p = snd kp in
     if partitionKey \<noteq> ''-1'' then
       [stats_record ''fetchq_cnt'' (pd_FetchqCnt p) (LabelSet stats partitionKey),
        stats_record ''fetchq_size'' (pd_FetchqSize p) (LabelSet stats partitionKey),
        stats_record ''fetchq_state'' (if pd_FetchState p \<noteq> ''active'' then 1 else 0) (LabelSet stats [] @ [(''fetch_state'', pd_FetchState p)]),
        stats_record ''lo_offset'' (pd_LoOffset p) (LabelSet stats partitionKey),
        stats_record ''hi_offset'' (pd_HiOffset p) (LabelSet stats partitionKey),
        stats_record ''ls_offset'' (pd_LsOffset p) (LabelSet stats partitionKey),
        stats_record ''consumer_lag'' (pd_ConsumerLag p) (LabelSet stats partitionKey),
        stats_record ''consumer_lag_stored'' (pd_ConsumerLagStored p) (LabelSet stats partitionKey)]
     else [])"

definition Collect_stats :: "stats_data \<Rightarrow> measurement list" where
  "Collect_stats stats =
     [stats_record ''replyq'' (sd_Replyq stats) (LabelSet stats [])] @
     concat (map (collect_partition stats) (case map_of (sd_Topics stats) outboxTopic of None \<Rightarrow> [] | Some t \<Rightarrow> td_Partitions t)) @
     [stats_record ''state'' (if cg_State (sd_CGRP stats) \<noteq> ''up'' then 1 else 0) (LabelSet stats [] @ [(''state'', cg_State (sd_CGRP stats))]),
      stats_record ''stateage'' (cg_StateAge (sd_CGRP stats)) (LabelSet stats []),
      stats_record ''rebalance_age'' (cg_RebalanceAge (sd_CGRP stats)) (LabelSet stats [] @ [(''last_rebalance_reason'', cg_RebalanceReason (sd_CGRP stats))]),
      stats_record ''rebalance_cnt'' (cg_RebalanceCnt (sd_CGRP stats)) (LabelSet stats []),
      stats_record ''assignment_size'' (cg_AssignmentSize (sd_CGRP stats)) (LabelSet stats [])]"

section \<open>Laws\<close>

lemma group_count_entries: "(k, n) \<in> set (group_count ks) \<longleftrightarrow> 0 < n \<and> n = int (count_list ks k)"
proof -
  have "0 < count_list ks k \<longleftrightarrow> k \<in> set ks" by (metis count_list_0_iff gr0I less_irrefl)
  then show ?thesis by (auto simp: group_count_def)
qed

lemma group_count_distinct: "distinct (map fst (group_count ks))"
  by (simp add: group_count_def comp_def)

lemma group_count_sum: "sum_list (map snd (group_count ks)) = int (length ks)"
proof -
  have "sum_list (map snd (group_count ks)) = (\<Sum>k \<leftarrow> remdups ks. int (count_list ks k))" by (simp add: group_count_def comp_def)
  also have "\<dots> = (\<Sum>k \<in> set ks. int (count_list ks k))" by (simp add: sum_list_distinct_conv_sum_set)
  also have "\<dots> = int (length ks)" using sum_count_set [of ks "set ks"] by (simp flip: of_nat_sum)
  finally show ?thesis .
qed

text \<open>The newest summary is found wherever it is in the table.\<close>

lemma fold_newer:
  assumes "new \<in> insert s (set rest)" "\<And>x. x \<in> insert s (set rest) \<Longrightarrow> x = new \<or> ms_CollectedAt x < ms_CollectedAt new"
  shows "fold newer_summary rest s = new"
  using assms
proof (induction rest arbitrary: s)
  case (Cons a rest)
  have a: "a = new \<or> ms_CollectedAt a < ms_CollectedAt new" and s: "s = new \<or> ms_CollectedAt s < ms_CollectedAt new" using Cons.prems(2) by auto
  have either: "newer_summary a s = a \<or> newer_summary a s = s" by (simp add: newer_summary_def)
  have won: "newer_summary a s = new" if "a = new \<or> s = new" using that a s by (auto simp: newer_summary_def)
  have "fold newer_summary rest (newer_summary a s) = new"
  proof (rule Cons.IH)
    show "new \<in> insert (newer_summary a s) (set rest)" using Cons.prems(1) won by auto
    show "x = new \<or> ms_CollectedAt x < ms_CollectedAt new" if "x \<in> insert (newer_summary a s) (set rest)" for x
      using that either a s Cons.prems(2) by auto
  qed
  then show ?case by simp
qed simp

lemma latest_newest:
  assumes "new \<in> set t" "\<And>x. x \<in> set t \<Longrightarrow> x = new \<or> ms_CollectedAt x < ms_CollectedAt new"
  shows "latest_summary t = Some new"
  using assms fold_newer [of new] by (cases t) (auto simp: latest_summary_def)

lemma collected_metrics:
  assumes "bind_res (collectResourcesPerWorkspaceJob env d []) (collectResourceCountJob env d) = Inr metrics"
  shows "recordResourceCount metrics (recordResourcesPerWorkspace metrics mc) =
    \<lparr>mm_ResourcesPerWorkspace = mm_ResourcesPerWorkspace mc @ workspace_results (me_json_text env) d,
     mm_ResourceCount = mm_ResourceCount mc @ group_count (live_keys d)\<rparr>"
proof -
  have "concat (map (\<lambda>item. case item of JObj m \<Rightarrow> [m] | _ \<Rightarrow> []) (map (\<lambda>x. JObj (f x)) xs)) = map f xs" for f and xs :: "'x list"
    by (induction xs) auto
  then show ?thesis using assms
    by (cases mc) (auto simp: collectResourcesPerWorkspaceJob_def collectResourceCountJob_def recordResourceCount_def recordResourcesPerWorkspace_def
        parseMetricEntries_def as_string_def as_number_def split_beta comp_def split: option.splits)
qed

text \<open>The state age is looked up under another name than the client's \<open>stateage\<close>: it is recorded as 0.\<close>

lemma stateage_unread:
  assumes "CGRPData_Unmarshal m = Inr g" "map_of m ''stageage'' = None"
  shows "cg_StateAge g = 0"
  using assms by (auto simp: CGRPData_Unmarshal_def json_int_def bind_res_Ok_iff)

text \<open>A counter adds what it is given: over a run of messages the rebalances recorded are the sum of the totals, not the last total.\<close>

lemma rebalances_summed:
  "sum_list (map (fst \<circ> snd) (filter (\<lambda>x. fst x = statsPrefix @ ''rebalance_cnt'') (concat (map Collect_stats ss)))) =
     sum_list (map (cg_RebalanceCnt \<circ> sd_CGRP) ss)"
proof -
  have "filter (\<lambda>x. fst x = statsPrefix @ ''rebalance_cnt'') (collect_partition s kp) = []" for s kp
    by (simp add: collect_partition_def stats_record_def Let_def)
  then have "filter (\<lambda>x. fst x = statsPrefix @ ''rebalance_cnt'') (Collect_stats s) =
      [stats_record ''rebalance_cnt'' (cg_RebalanceCnt (sd_CGRP s)) (LabelSet s [])]" for s
    by (simp add: Collect_stats_def stats_record_def filter_concat comp_def)
  then show ?thesis by (simp add: filter_concat comp_def stats_record_def)
qed

section \<open>Properties\<close>

text \<open>C25. What the job counts is what the collector records: when the job succeeds, with older summaries only in the table and less than a day
  between its two readings of the clock, the table holds the new summary and those within the retention period, and the collector records, for each
  resource type, reporter and instance with live reporter resources, exactly their number, once; together they are all live reporter
  resources. For each workspace with live resources of a type it records one value with that type, and these sum up to
  the current common representations of live resources that have a workspace.\<close>

theorem metrics_recorded:
  assumes "collectMetricsWithDB env days d t = (None, t')"
    and "\<And>row u u'. me_create env row u = Inr u' \<Longrightarrow> set u' = insert row (set u)"
    and "\<And>s. s \<in> set t \<Longrightarrow> ms_CollectedAt s < me_collectedAt env" "me_now env < me_collectedAt env + 86400"
    and "mc = collectBusinessMetrics None t' \<lparr>mm_ResourcesPerWorkspace = [], mm_ResourceCount = []\<rparr>"
  shows "(\<exists>new. ms_CollectedAt new = me_collectedAt env \<and> set t' = insert new
      {s \<in> set t. AddDate_days (me_now env) (- (if days \<le> 0 then 30 else days)) \<le> ms_CollectedAt s}) \<and>
    distinct (map fst (mm_ResourceCount mc)) \<and>
    (\<forall>key n. (key, n) \<in> set (mm_ResourceCount mc) \<longleftrightarrow> 0 < n \<and> n = int (count_list (live_keys d) key)) \<and>
    sum_list (map snd (mm_ResourceCount mc)) = int (length (filter (\<lambda>rr. \<not> rrs_Tombstone rr) (db_reporter_resources d))) \<and>
    mm_ResourcesPerWorkspace mc = map (\<lambda>((ty, w), n). (ty, n)) (group_count (workspace_rows (me_json_text env) d)) \<and>
    sum_list (map snd (mm_ResourcesPerWorkspace mc)) = int (length (workspace_rows (me_json_text env) d))"
proof -
  let ?days = "if days \<le> 0 then 30 else days"
  let ?cutoff = "AddDate_days (me_now env) (- ?days)"
  obtain metrics u where m: "bind_res (collectResourcesPerWorkspaceJob env d []) (collectResourceCountJob env d) = Inr metrics"
    and u: "me_create env \<lparr>ms_ID = me_newUUID env, ms_CollectedAt = me_collectedAt env, ms_Metrics = metrics\<rparr> t = Inr u"
    and t': "t' = filter (\<lambda>s. \<not> ms_CollectedAt s < ?cutoff) u"
    using assms(1) by (auto simp: collectMetricsWithDB_def Let_def DefaultRetentionDays_def split: sum.splits option.splits)
  let ?new = "\<lparr>ms_ID = me_newUUID env, ms_CollectedAt = me_collectedAt env, ms_Metrics = metrics\<rparr>"
  have "\<not> me_collectedAt env < ?cutoff" using assms(4) by (simp add: AddDate_days_def)
  then have set_t': "set t' = insert ?new {s \<in> set t. ?cutoff \<le> ms_CollectedAt s}"
    using assms(2) [OF u] by (auto simp: t' not_less)
  have "latest_summary t' = Some ?new" by (rule latest_newest) (use set_t' assms(3) in auto)
  then have mc: "mc = \<lparr>mm_ResourcesPerWorkspace = workspace_results (me_json_text env) d, mm_ResourceCount = group_count (live_keys d)\<rparr>"
    using collected_metrics [OF m] assms(5) by (simp add: collectBusinessMetrics_def)
  have sums: "sum_list (map snd (workspace_results (me_json_text env) d)) = sum_list (map snd (group_count (workspace_rows (me_json_text env) d)))"
    by (simp add: workspace_results_def comp_def split_beta)
  have "\<exists>new. ms_CollectedAt new = me_collectedAt env \<and> set t' = insert new {s \<in> set t. ?cutoff \<le> ms_CollectedAt s}"
    using set_t' by (intro exI [of _ ?new]) simp
  moreover have "mm_ResourcesPerWorkspace mc = map (\<lambda>((ty, w), n). (ty, n)) (group_count (workspace_rows (me_json_text env) d))"
    by (simp add: mc workspace_results_def)
  ultimately show ?thesis using sums
    by (simp add: mc group_count_distinct group_count_entries group_count_sum live_keys_def)
qed

definition sample_metrics_env :: metrics_env where
  "sample_metrics_env = \<lparr>me_json_text = (\<lambda>_. []), me_workspaceErr = None, me_countErr = None, me_newUUID = 7, me_collectedAt = 8640000,
     me_create = (\<lambda>row t. Ok (row # t)), me_now = 8640001, me_deleteErr = None\<rparr>"

definition sample_metrics_db :: db where
  "sample_metrics_db = \<lparr>db_resource = [], db_reporter_resources = [zero_reporter_resource_snapshot, zero_reporter_resource_snapshot\<lparr>rrs_ID := 1\<rparr>,
     zero_reporter_resource_snapshot\<lparr>rrs_Tombstone := True\<rparr>], db_reporter_representations = [], db_common_representations = [], db_wal = []\<rparr>"

theorem metrics_recorded_witness:
  "\<exists>t'. collectMetricsWithDB sample_metrics_env 0 sample_metrics_db [\<lparr>ms_ID = 1, ms_CollectedAt = 5, ms_Metrics = []\<rparr>] = (None, t') \<and>
    set (mm_ResourceCount (collectBusinessMetrics None t' \<lparr>mm_ResourcesPerWorkspace = [], mm_ResourceCount = []\<rparr>)) = {(([], [], []), 2)}"
proof -
  let ?t = "[\<lparr>ms_ID = 1, ms_CollectedAt = 5, ms_Metrics = []\<rparr>]"
  obtain t' where t': "collectMetricsWithDB sample_metrics_env 0 sample_metrics_db ?t = (None, t')"
    by (simp add: collectMetricsWithDB_def collectResourcesPerWorkspaceJob_def collectResourceCountJob_def sample_metrics_env_def Let_def)
  have keys: "live_keys sample_metrics_db = [([], [], []), ([], [], [])]"
    by (simp add: live_keys_def sample_metrics_db_def zero_reporter_resource_snapshot_def)
  have "(key, n) \<in> set (mm_ResourceCount (collectBusinessMetrics None t' \<lparr>mm_ResourcesPerWorkspace = [], mm_ResourceCount = []\<rparr>)) \<longleftrightarrow>
      0 < n \<and> n = int (count_list (live_keys sample_metrics_db) key)" for key n
    using metrics_recorded [OF t' _ _ _ refl] by (cases key) (simp add: sample_metrics_env_def)
  then have "set (mm_ResourceCount (collectBusinessMetrics None t' \<lparr>mm_ResourcesPerWorkspace = [], mm_ResourceCount = []\<rparr>)) = {(([], [], []), 2)}"
    unfolding keys by (auto split: if_splits)
  then show ?thesis using t' by blast
qed

end
