(* ===== verification/Configuration_Laws.thy ===== *)
theory Configuration_Laws
  imports Configuration
begin

text \<open>
  Starting up: which options yield which relations repository and when the start panics, what connection string PostgreSQL options become,
  what a ClowdApp configuration injects, and what the readiness endpoint reports.
\<close>

section \<open>Relations repository\<close>

lemma kessel_validated:
  assumes "Relations_Validate o1 = []" "ro_Authz o1 = Kessel_impl"
  shows "\<exists>k. ro_Kessel o1 = Some k \<and> ko_URL k \<noteq> []"
  using assms by (auto simp: Relations_Validate_def Kessel_Validate_def impl_names split: option.splits if_splits)

lemma spicedb_validated:
  assumes "Relations_Validate o1 = []" "ro_Authz o1 = SpiceDB_impl"
  shows "\<exists>s. ro_SpiceDB o1 = Some s \<and> sdc_Endpoint s \<noteq> [] \<and> (sdc_Token s \<noteq> [] \<or> sdc_TokenFile s \<noteq> []) \<and> sdc_SchemaFile s \<noteq> []"
  using assms by (auto simp: Relations_Validate_def SpiceDB_Validate_def impl_names split: option.splits if_splits)

lemma impl_validated: "Relations_Validate o1 = [] \<Longrightarrow> ro_Authz o1 = AllowAll_impl \<or> ro_Authz o1 = Kessel_impl \<or> ro_Authz o1 = SpiceDB_impl"
  by (auto simp: Relations_Validate_def split: if_splits)

lemma grpc_no_panic: "NewGRPCRelationsRepository counter cache (Some c) \<noteq> Inl nil_panic"
  by (cases "counter ''inventory_relations_api_success''"; cases "counter ''inventory_relations_api_failure''")
    (auto simp: NewGRPCRelationsRepository_def nil_panic_def)

lemma spicedb_config_same: "NewSpiceDBConfigFromCompleted (Some s) = Inr s"
  by (simp add: NewSpiceDBConfigFromCompleted_def)

text \<open>Starting with each of the implementations.\<close>

lemma serve_allow_all:
  assumes "Relations_Validate o1 = []" "ro_Authz o1 = AllowAll_impl"
  shows "serve_relations newClient env o1 = Inr (Inr AllowAllBackend)"
  using assms by (simp add: serve_relations_def Relations_Complete_def Relations_NewConfig_def NewRelationsRepository_def impl_names)

lemma serve_kessel:
  assumes "Relations_Validate o1 = []" "ro_Authz o1 = Kessel_impl" "ro_Kessel o1 = Some k"
  shows "serve_relations newClient env o1 = (case newClient (ko_URL k) (ko_Insecure k) of
      Inl _ \<Rightarrow> Inl nil_panic
    | Inr conn \<Rightarrow> (case NewGRPCRelationsRepository (fe_int64Counter env) (fe_cache env) (Some \<lparr>kc_grpcConn = conn, kc_tokenConfig =
          \<lparr>tcc_clientId = ko_ClientId k, tcc_clientSecret = ko_ClientSecret k, tcc_url = ko_TokenEndpoint k, tcc_enableOIDCAuth = ko_EnableOidcAuth k,
           tcc_insecure = ko_Insecure k\<rparr>\<rparr>) of Inl err \<Rightarrow> Inr (Inl [err]) | Inr (conn, tokens) \<Rightarrow> Inr (Inr (GRPCBackend conn tokens))))"
  using assms
  by (auto simp: serve_relations_def Relations_Complete_def Relations_NewConfig_def Kessel_Complete_def NewRelationsRepository_def impl_names
      grpc_no_panic split: sum.splits)

lemma serve_spicedb:
  assumes "Relations_Validate o1 = []" "ro_Authz o1 = SpiceDB_impl" "ro_SpiceDB o1 = Some s"
  shows "serve_relations newClient env o1 = (case NewSpiceDBRelationsRepository (fe_readFile env) (fe_systemCerts env) (fe_newSpiceDB env)
      (fe_newHealth env) (fe_int64Counter env) s of
      Inl err \<Rightarrow> Inr (Inl [Wrap ''error creating spicedb relations repository'' err]) | Inr repo \<Rightarrow> Inr (Inr (SpiceDBBackend repo)))"
  using assms
  by (auto simp: serve_relations_def Relations_Complete_def Relations_NewConfig_def NewRelationsRepository_def impl_names spicedb_config_same
      nil_panic_def split: sum.splits)

section \<open>Connection strings\<close>

text \<open>How a connection string of keywords and unquoted values is read: parameters end at a blank, a keyword at the first equals sign.\<close>

definition dsn_field :: "string \<Rightarrow> string \<times> string" where
  "dsn_field w = (takeWhile (\<lambda>c. c \<noteq> CHR ''='') w, tl (dropWhile (\<lambda>c. c \<noteq> CHR ''='') w))"

fun words :: "string \<Rightarrow> string list" where
  "words [] = [[]]"
| "words (c # cs) = (if c = CHR '' '' then [] # words cs else (case words cs of [] \<Rightarrow> [[c]] | w # ws \<Rightarrow> (c # w) # ws))"

definition dsn_fields :: "string \<Rightarrow> (string \<times> string) list" where
  "dsn_fields dsn = map dsn_field (filter (\<lambda>w. w \<noteq> []) (words dsn))"

definition plain_value :: "string \<Rightarrow> bool" where
  "plain_value v \<longleftrightarrow> list_all (\<lambda>c. \<not> is_space c) v"

lemma words_plain: "CHR '' '' \<notin> set w \<Longrightarrow> words w = [w]"
  by (induction w) auto

lemma words_append: "CHR '' '' \<notin> set w \<Longrightarrow> words (w @ CHR '' '' # rest) = w # words rest"
  by (induction w) auto

lemma space_is_space [simp]: "is_space CHR '' ''"
  by (simp add: is_space_def)

lemma plain_no_blank: "plain_value v \<Longrightarrow> CHR '' '' \<notin> set v"
  by (auto simp: plain_value_def list_all_iff)

lemma TrimSpace_word:
  assumes "w \<noteq> []" "\<not> is_space (hd w)" "\<not> is_space (last w)"
  shows "TrimSpace (w @ '' '') = w"
proof -
  have front: "dropWhile is_space (w @ '' '') = w @ '' ''" using assms(1,2) by (cases w) simp_all
  have ends: "dropWhile is_space (rev w) = rev w" using assms(1,3) by (cases w rule: rev_cases) simp_all
  show ?thesis unfolding TrimSpace_def front by (simp add: ends)
qed

text \<open>The parameters written one after the other, and the words read back.\<close>

definition dsn_words :: "(string \<times> string) list \<Rightarrow> string list" where
  "dsn_words ps = map (\<lambda>(k, v). k @ ''='' @ v) (filter (\<lambda>(k, v). v \<noteq> []) ps)"

lemma dsn_written: "concat (map (\<lambda>(k, v). if v \<noteq> [] then k @ ''='' @ v @ '' '' else []) ps) = concat (map (\<lambda>w. w @ '' '') (dsn_words ps))"
  by (induction ps) (auto simp: dsn_words_def)

lemma words_read:
  assumes "ws \<noteq> []" "\<And>w. w \<in> set ws \<Longrightarrow> w \<noteq> [] \<and> list_all (\<lambda>c. \<not> is_space c) w"
  shows "words (TrimSpace (concat (map (\<lambda>w. w @ '' '') ws))) = ws"
proof -
  have join: "\<exists>j. concat (map (\<lambda>w. w @ '' '') ws) = j @ '' '' \<and> j \<noteq> [] \<and> \<not> is_space (hd j) \<and> \<not> is_space (last j) \<and> words j = ws"
    using assms
  proof (induction ws)
    case (Cons w ws)
    have "w \<noteq> []" "\<forall>c \<in> set w. \<not> is_space c" using Cons.prems(2) [of w] by (auto simp: list_all_iff)
    then have w: "w \<noteq> []" "CHR '' '' \<notin> set w" "\<not> is_space (hd w)" "\<not> is_space (last w)" by auto
    show ?case
    proof (cases "ws = []")
      case True
      then show ?thesis using w words_plain by auto
    next
      case False
      then obtain j where j: "concat (map (\<lambda>w. w @ '' '') ws) = j @ '' ''" "j \<noteq> []" "\<not> is_space (last j)" "words j = ws"
        using Cons by auto
      then show ?thesis using w words_append [OF w(2), of j] by (intro exI [of _ "w @ CHR '' '' # j"]) simp
    qed
  qed simp
  then show ?thesis using TrimSpace_word by (metis (no_types, lifting))
qed

lemma dsn_field_word:
  assumes "CHR ''='' \<notin> set k"
  shows "dsn_field (k @ ''='' @ v) = (k, v)"
proof -
  have "takeWhile (\<lambda>c. c \<noteq> CHR ''='') (k @ ''='' @ v) = k" "dropWhile (\<lambda>c. c \<noteq> CHR ''='') (k @ ''='' @ v) = ''='' @ v"
    using assms by (induction k) auto
  then show ?thesis by (simp add: dsn_field_def)
qed

lemma dsn_keys:
  assumes "(k, v) \<in> set (dsn_parameters c)"
  shows "k \<noteq> []" "CHR ''='' \<notin> set k" "list_all (\<lambda>c. \<not> is_space c) k"
  using assms by (auto simp: dsn_parameters_def is_space_def)

lemma dsn_read:
  assumes "\<And>k v. (k, v) \<in> set (dsn_parameters c) \<Longrightarrow> plain_value v"
  shows "dsn_fields (Postgres_Complete [] c) = filter (\<lambda>(k, v). v \<noteq> []) (dsn_parameters c)"
proof (cases "dsn_words (dsn_parameters c) = []")
  case True
  then have "filter (\<lambda>(k, v). v \<noteq> []) (dsn_parameters c) = []" by (simp add: dsn_words_def)
  then show ?thesis using True by (simp add: Postgres_Complete_def dsn_written dsn_fields_def)
next
  case False
  have word: "w \<noteq> [] \<and> list_all (\<lambda>c. \<not> is_space c) w" if "w \<in> set (dsn_words (dsn_parameters c))" for w
    using that dsn_keys assms by (fastforce simp: dsn_words_def plain_value_def is_space_def)
  have "words (Postgres_Complete [] c) = dsn_words (dsn_parameters c)"
    using words_read [OF False word] by (simp add: Postgres_Complete_def dsn_written)
  then have "dsn_fields (Postgres_Complete [] c) = map dsn_field (dsn_words (dsn_parameters c))"
    using word by (simp add: dsn_fields_def filter_id_conv)
  also have "\<dots> = filter (\<lambda>(k, v). v \<noteq> []) (dsn_parameters c)"
    unfolding dsn_words_def map_map using dsn_field_word dsn_keys(2) by (intro map_idI) fastforce
  finally show ?thesis .
qed

section \<open>ClowdApp\<close>

definition complete_broker :: "broker_config \<Rightarrow> bool" where
  "complete_broker b \<longleftrightarrow> bc_Port b \<noteq> None \<and> (case bc_Sasl b of None \<Rightarrow> True
     | Some s \<Rightarrow> sc_SaslMechanism s \<noteq> None \<and> sc_Username s \<noteq> None \<and> sc_Password s \<noteq> None)"

lemma broker_addresses_complete:
  assumes "list_all complete_broker bs"
  shows "\<exists>as. broker_addresses bs = Inr as \<and> length as = length bs"
  using assms by (induction bs) (auto simp: complete_broker_def deref_def)

lemma ConfigureConsumer_complete:
  assumes "list_all complete_broker bs"
  shows "\<exists>o2. ConfigureConsumer bs o1 = Inr o2 \<and> oc_Authz o2 = oc_Authz o1 \<and> oc_Storage o2 = oc_Storage o1 \<and>
    length (co_BootstrapServers (oc_Consumer o2)) = length bs \<and> co_CommitModulo (oc_Consumer o2) = co_CommitModulo (oc_Consumer o1)"
proof -
  obtain as where "broker_addresses bs = Inr as" "length as = length bs" using broker_addresses_complete [OF assms] by blast
  then show ?thesis using assms
    by (cases bs) (auto simp: ConfigureConsumer_def Let_def complete_broker_def deref_def split: option.splits)
qed

lemma ConfigureStorage_valid:
  assumes "oc_Storage o1 = Storage_NewOptions" "dc_hasRdsCa db \<longrightarrow> is_ok (ac_RdsCa app)"
  shows "\<exists>o2. ConfigureStorage app db o1 = Inr o2 \<and> oc_Authz o2 = oc_Authz o1 \<and> oc_Consumer o2 = oc_Consumer o1 \<and>
    Storage_Validate (oc_Storage o2) = [] \<and> so_Database (oc_Storage o2) = ''postgres'' \<and>
    (dc_hasRdsCa db \<longrightarrow> po_SSLMode (so_Postgres (oc_Storage o2)) = ''verify-full'')"
proof (cases "dc_hasRdsCa db")
  case True
  then obtain ca where "ac_RdsCa app = Inr ca" using assms(2) by (cases "ac_RdsCa app") auto
  then show ?thesis using True assms(1)
    by (simp add: ConfigureStorage_def Storage_Validate_def Storage_NewOptions_def Postgres_Validate_def validModes_def)
qed (use assms(1) in \<open>simp add: ConfigureStorage_def Storage_Validate_def Storage_NewOptions_def Postgres_Validate_def Postgres_NewOptions_def\<close>)

lemma configure_endpoints_kessel:
  assumes "ro_Kessel (oc_Authz o1) \<noteq> None"
  shows "\<exists>o2. configure_endpoints es o1 = Inr o2 \<and> oc_Storage o2 = oc_Storage o1 \<and> oc_Consumer o2 = oc_Consumer o1 \<and>
    (oc_Authz o2 = oc_Authz o1 \<or> ro_Authz (oc_Authz o2) = Kessel_impl \<and> (\<exists>k. ro_Kessel (oc_Authz o2) = Some k \<and> ko_URL k \<noteq> []))"
  using assms
proof (induction es arbitrary: o1)
  case (Cons e es)
  obtain app hostname where e: "e = (app, hostname)" by (cases e)
  show ?case
  proof (cases "app = RelationsAPI")
    case True
    obtain k where k: "ro_Kessel (oc_Authz o1) = Some k" using Cons.prems by auto
    let ?o = "o1\<lparr>oc_Authz := (oc_Authz o1)\<lparr>ro_Authz := Kessel_impl, ro_Kessel := Some (k\<lparr>ko_URL := hostname @ '':9000''\<rparr>)\<rparr>\<rparr>"
    have "configure_endpoints (e # es) o1 = configure_endpoints es ?o" using True k e by (simp add: ConfigureAuthz_def)
    then show ?thesis using Cons.IH [of ?o] by auto
  next
    case False
    then show ?thesis using Cons.IH [OF Cons.prems] e by simp
  qed
qed simp

section \<open>Properties\<close>

text \<open>C26. Starting up with a relations implementation: options that do not validate are refused with the errors of their validation; validated ones
  give the repository of the chosen implementation, connected as the options say, or an error. The one exception is a gRPC client that cannot be
  created: its error is dropped, and building the repository dereferences a nil configuration.\<close>

theorem relations_startup:
  "(Relations_Validate o1 \<noteq> [] \<and> serve_relations newClient env o1 = Inr (Inl (Relations_Validate o1))) \<or>
   (Relations_Validate o1 = [] \<and>
    (serve_relations newClient env o1 = Inl nil_panic \<longleftrightarrow>
       ro_Authz o1 = Kessel_impl \<and> (\<exists>k err. ro_Kessel o1 = Some k \<and> newClient (ko_URL k) (ko_Insecure k) = Inl err)) \<and>
    (serve_relations newClient env o1 = Inl nil_panic \<or> (\<exists>err. serve_relations newClient env o1 = Inr (Inl [err])) \<or>
     (\<exists>repo. serve_relations newClient env o1 = Inr (Inr repo) \<and>
       (case repo of
          AllowAllBackend \<Rightarrow> ro_Authz o1 = AllowAll_impl
        | GRPCBackend conn tokens \<Rightarrow> ro_Authz o1 = Kessel_impl \<and> (\<exists>k. ro_Kessel o1 = Some k \<and> newClient (ko_URL k) (ko_Insecure k) = Inr conn \<and>
            tk_URL tokens = ko_TokenEndpoint k \<and> tk_ClientID tokens = ko_ClientId k \<and> tk_EnableOIDCAuth tokens = ko_EnableOidcAuth k)
        | SpiceDBBackend db \<Rightarrow> ro_Authz o1 = SpiceDB_impl \<and> (\<exists>s token. ro_SpiceDB o1 = Some s \<and> token \<noteq> [] \<and>
            fe_newSpiceDB env (sdc_Endpoint s) token (sdc_UseTLS s) = Inr (sp_client db) \<and> sp_schemaFilePath db = sdc_SchemaFile s)))))"
proof (cases "Relations_Validate o1 = []")
  case True
  consider "ro_Authz o1 = AllowAll_impl" | k where "ro_Authz o1 = Kessel_impl" "ro_Kessel o1 = Some k" |
    s where "ro_Authz o1 = SpiceDB_impl" "ro_SpiceDB o1 = Some s"
    using impl_validated [OF True] kessel_validated [OF True] spicedb_validated [OF True] by blast
  then show ?thesis
  proof cases
    case 1
    then show ?thesis using True serve_allow_all [OF True 1, of newClient env] by (simp add: impl_names)
  next
    case (2 k)
    show ?thesis using True 2 unfolding serve_kessel [OF True 2]
      by (auto simp: NewGRPCRelationsRepository_def NewTokenClient_def bind_res_Ok_iff split: sum.splits)
  next
    case (3 s)
    show ?thesis
    proof (cases "NewSpiceDBRelationsRepository (fe_readFile env) (fe_systemCerts env) (fe_newSpiceDB env) (fe_newHealth env) (fe_int64Counter env) s")
      case (Inl err)
      then show ?thesis using True 3 serve_spicedb [OF True 3, of newClient env] by (simp add: impl_names)
    next
      case (Inr repo)
      then obtain token where "token \<noteq> []" "fe_newSpiceDB env (sdc_Endpoint s) token (sdc_UseTLS s) = Inr (sp_client repo)"
          "sp_schemaFilePath repo = sdc_SchemaFile s"
        unfolding NewSpiceDBRelationsRepository_def by (auto simp: res_iffs split: if_splits)
      then show ?thesis using Inr True 3 serve_spicedb [OF True 3, of newClient env] by (auto simp: impl_names)
    qed
  qed
qed (simp add: serve_relations_def)

text \<open>The readiness endpoint: with a completed configuration it answers 200 exactly when the database answers its ping and the relations
  repository's health call returns without an error, 500 otherwise. The health call of the SpiceDB repository returns the statuses "not serving" and
  "unknown service" without an error, so that the service reports ready with them.\<close>

lemma readyz_reports:
  "(\<exists>status. GetReadyz (IsBackendAvailable storageType dbErr health (Some config)) =
      Inr (status, if dbErr = None \<and> is_ok health then 200 else 500)) \<and>
   (status = NOT_SERVING \<or> status = SERVICE_UNKNOWN \<longrightarrow>
      (\<exists>r. SpiceDB_Health (Inr status) False = Inr r \<and> hr_code r = 503) \<and>
      (\<exists>st. GetReadyz (IsBackendAvailable storageType None (SpiceDB_Health (Inr status) False) (Some config)) = Inr (st, 200)))"
  by (auto simp: GetReadyz_def IsBackendAvailable_def CheckRelationsImpl_def NewHealthResult_def SpiceDB_Health_def)

text \<open>The connection string carries the PostgreSQL options: read as keywords and values it has exactly the options that are set, when no
  value contains white space. Values are written without quotes: a password with a blank in it is read as further parameters, which can
  turn off TLS.\<close>

lemma dsn_roundtrip:
  "((\<forall>(k, v) \<in> set (dsn_parameters c). plain_value v) \<longrightarrow>
      dsn_fields (Postgres_Complete [] c) = filter (\<lambda>(k, v). v \<noteq> []) (dsn_parameters c)) \<and>
   dsn_fields (Postgres_Complete [] (Postgres_NewOptions\<lparr>po_Password := ''a sslmode=disable''\<rparr>)) =
     [(''host'', ''localhost''), (''port'', ''5432''), (''password'', ''a''), (''sslmode'', ''disable'')]"
proof
  show "(\<forall>(k, v) \<in> set (dsn_parameters c). plain_value v) \<longrightarrow>
      dsn_fields (Postgres_Complete [] c) = filter (\<lambda>(k, v). v \<noteq> []) (dsn_parameters c)"
    using dsn_read [of c] by fast
  show "dsn_fields (Postgres_Complete [] (Postgres_NewOptions\<lparr>po_Password := ''a sslmode=disable''\<rparr>)) =
     [(''host'', ''localhost''), (''port'', ''5432''), (''password'', ''a''), (''sslmode'', ''disable'')]"
    by code_simp
qed

text \<open>Under Clowder the default options become valid ones: a configuration whose brokers are complete, with at least one, and whose
  certificate, if it has one, can be loaded is injected without an error, and the options of storage, consumer and relations
  then validate; with a relations endpoint, relations go to its host.\<close>

lemma clowdapp_options_valid:
  assumes "ac_Database app = Some db" "dc_hasRdsCa db \<longrightarrow> is_ok (ac_RdsCa app)" "ac_Kafka app = Some bs" "bs \<noteq> []" "list_all complete_broker bs"
  shows "\<exists>o1. InjectClowdAppConfig app NewOptionsConfig = Inr o1 \<and> Storage_Validate (oc_Storage o1) = [] \<and> Consumer_Validate (oc_Consumer o1) = [] \<and>
    Relations_Validate (oc_Authz o1) = [] \<and> so_Database (oc_Storage o1) = ''postgres'' \<and>
    (dc_hasRdsCa db \<longrightarrow> po_SSLMode (so_Postgres (oc_Storage o1)) = ''verify-full'')"
proof -
  obtain o2 where o2: "configure_endpoints (ac_Endpoints app) NewOptionsConfig = Inr o2" "oc_Storage o2 = Storage_NewOptions" "oc_Consumer o2 = Consumer_NewOptions"
      "oc_Authz o2 = Relations_NewOptions \<or> ro_Authz (oc_Authz o2) = Kessel_impl \<and> (\<exists>k. ro_Kessel (oc_Authz o2) = Some k \<and> ko_URL k \<noteq> [])"
    using configure_endpoints_kessel [of NewOptionsConfig "ac_Endpoints app"] by (auto simp: NewOptionsConfig_def Relations_NewOptions_def)
  obtain o3 where o3: "ConfigureStorage app db o2 = Inr o3" "oc_Authz o3 = oc_Authz o2" "oc_Consumer o3 = Consumer_NewOptions"
      "Storage_Validate (oc_Storage o3) = []" "so_Database (oc_Storage o3) = ''postgres''"
      "dc_hasRdsCa db \<longrightarrow> po_SSLMode (so_Postgres (oc_Storage o3)) = ''verify-full''"
    using ConfigureStorage_valid [OF o2(2) assms(2)] o2(3) by metis
  obtain o4 where o4: "ConfigureConsumer bs o3 = Inr o4" "oc_Authz o4 = oc_Authz o3" "oc_Storage o4 = oc_Storage o3"
      "length (co_BootstrapServers (oc_Consumer o4)) = length bs" "co_CommitModulo (oc_Consumer o4) = 10"
    using ConfigureConsumer_complete [OF assms(5), of o3] o3(3) by (auto simp: Consumer_NewOptions_def)
  have "Relations_Validate (oc_Authz o4) = []"
    using o2(4) o3(2) o4(2) by (auto simp: Relations_Validate_def Relations_NewOptions_def Kessel_Validate_def impl_names)
  moreover have "Consumer_Validate (oc_Consumer o4) = []" using o4(4,5) assms(4) by (auto simp: Consumer_Validate_def)
  ultimately show ?thesis using assms(1,3) o2(1) o3 o4 by (simp add: InjectClowdAppConfig_def)
qed

definition sample_app_config :: app_config where
  "sample_app_config = \<lparr>ac_Endpoints = [(''kessel-relations'', ''relations.svc'')],
     ac_Database = Some \<lparr>dc_Hostname = ''db'', dc_Port = 5432, dc_Username = ''u'', dc_Password = ''p'', dc_Name = ''n'', dc_hasRdsCa = True\<rparr>,
     ac_RdsCa = Ok ''/tmp/ca'', ac_Kafka = Some [\<lparr>bc_Hostname = ''kafka'', bc_Port = Some 9092, bc_SecurityProtocol = None, bc_Sasl = None\<rparr>]\<rparr>"

end
