(* ===== verification/Spec2Isabelle.thy ===== *)
theory Spec2Isabelle
  imports Spicedb_Laws Grpc_Laws API_Laws Authn Pubsub Data_Model Migrations Schema_Loading Servers Supervisor_Laws Jobs_Laws Metrics Configuration_Laws
begin

text \<open>
  \<^bold>\<open>Verification of the inventory service.\<close>

  The program is a service that stores resources reported by clients, keeps the history of their
  representations, and replicates the relations between resources into an authorization service. A request passes the
  middleware (\<open>internal/middleware\<close>), a gRPC handler (\<open>internal/service\<close>) and a use case
  (\<open>internal/biz/usecase\<close>). A use case works on the domain model (\<open>internal/biz/model\<close>) through repositories
  (\<open>internal/data\<close>): one over SQL tables, with an outbox written to the write-ahead log in the same transaction,
  and one over the relations service. A consumer (\<open>internal/consumer\<close>) reads the outbox messages that a connector
  delivers through Kafka, computes the tuples of the representations they name, and writes them to the relations service.

  \<^bold>\<open>Theories and sources.\<close>

  \<^item> \<open>Prelude\<close>: errors as values (\<open>go_error\<close>, sentinels, status codes), results, Go's string functions, JSON with its float64 numbers, words.
  \<^item> \<open>Tiny_Types\<close>: \<open>common.go\<close>, \<open>relation.go\<close>, \<open>errors.go\<close>, \<open>event_operation_type.go\<close>, \<open>consistency.go\<close>. The locale
    \<open>trimmed_constructor\<close> states the contract of the validating constructors once.
  \<^item> \<open>Resource_Model\<close>, \<open>Resource_Aggregate\<close>: reporter resources, representations, snapshots, events, and the aggregate
    \<open>Resource\<close> with its factory, \<open>Update\<close>, \<open>Delete\<close> and serialisation (\<open>resource.go\<close> and its parts).
  \<^item> \<open>Relations_Tuples\<close>: tuples, their calculation by a schema, tuple events and filters; the locale
    \<open>tuple_schema\<close> is what a schema promises about creates and deletes.
  \<^item> \<open>Schema_Registry\<close>: the in-memory schema repository, the resource type schemas of \<open>internal/data\<close> and report validation.
  \<^item> \<open>Schema_Loading\<close>: the registry from a directory of files and the command \<open>preload-schema\<close> (\<open>cmd/schema\<close>); \<open>schema_tree\<close> says for which
    directories the two agree.
  \<^item> \<open>Resource_Repository\<close>, \<open>Repository_Laws\<close>: the tables as a record \<open>db\<close>, \<open>Save\<close>, the queries, the outbox, serializable
    transactions. GORM's row operations are a parameter, a record \<open>gorm_ops\<close>; the locale \<open>gorm_store\<close> states what
    is relied on, and the interpretation \<open>tables\<close> provides it by list operations. \<open>db_inv\<close> is the table invariant: unique keys and
    gap-free common versions.
  \<^item> \<open>Authn\<close>: claims, authenticators, first-match aggregation, configuration and the authentication middleware.
  \<^item> \<open>Meta_Authz\<close>: meta-authorization and the self subject.
  \<^item> \<open>Relations_Repo\<close>: the relations repository as a record of operations, the in-memory repository with versioned
    snapshots, the allow-all repository, and the locale \<open>relations_store\<close>, the contract of a store whose failing calls change nothing.
  \<^item> \<open>Consumer\<close>, \<open>Consumer_Laws\<close>, \<open>Offset_Laws\<close>: message parsing, retries, replication, consistency tokens, offsets,
    rebalancing and shutdown. The locale \<open>tuple_store\<close> of \<open>Consumer_Laws\<close> is the contract the consumer relies on; it leaves open what
    a failing call did, and \<open>relations_store\<close> is a sublocale.
  \<^item> \<open>Spicedb\<close>, \<open>Spicedb_Laws\<close>: \<open>spicedb_relations_repository.go\<close> over a record of the client's calls; the locale \<open>spicedb_service\<close>
    states SpiceDB's documented behaviour, with a sublocale to \<open>tuple_store\<close> and an interpretation by a list of relationships. \<open>lock_run\<close>
    interleaves clients between the read and the write of a lock acquisition.
  \<^item> \<open>Grpc_Relations\<close>, \<open>Grpc_Laws\<close>: \<open>grpc_relations_repository.go\<close> and its token client over a record of the relations API; the locale
    \<open>relations_service\<close> states what the API promises of its messages, with a sublocale to \<open>tuple_store\<close> and an interpretation by a list of
    relationship messages.
  \<^item> \<open>Supervisor\<close>, \<open>Supervisor_Laws\<close>: the consumption loop as a whole and the loop of \<open>serve\<close> that restarts it; \<open>supervised\<close> is the system of reports and
    consumers that fail, die and start again. The locale \<open>lockable_store\<close> extends \<open>tuple_store\<close> by locks, for the in-memory repository and SpiceDB.
  \<^item> \<open>Resource_Service\<close>, \<open>Service_Laws\<close>: the use cases on resources and tuples as whole handlers.
  \<^item> \<open>Inventory_Service\<close>, \<open>Tuple_Service\<close>: the gRPC services with the conversions of protobuf messages.
  \<^item> \<open>Middleware\<close>: error mapping, read-only mode, validation, sanitising, stream authentication, pagination, and the order of the
    servers' chains.
  \<^item> \<open>Servers\<close>: \<open>internal/server\<close>, options, TLS, pprof and the interceptors that count and log streams. The code of a handler is the tree of its calls on the
    stream; the locale \<open>stream_observer\<close> is what a stream around another one promises.
  \<^item> \<open>Configuration\<close>, \<open>Configuration_Laws\<close>: options, validation and completion for relations, storage and consumer, ClowdApp injection, the
    factory of relations repositories, and the health endpoints.
  \<^item> \<open>Jobs\<close>, \<open>Jobs_Laws\<close>: the resource deletion job; the locale \<open>limited_select\<close> is what a limited subselect returns, \<open>deletion_engine\<close> has one
    for each phase.
  \<^item> \<open>Metrics\<close>: the metrics job, the collector of business metrics and the statistics of the Kafka client.
  \<^item> \<open>Pubsub\<close>: \<open>internal/pubsub\<close>, the driver with its mutex, the listen manager and subscriptions; \<open>pubsub_step\<close> interleaves the
    distribution of notifications with requests that subscribe, wait and unsubscribe.
  \<^item> \<open>Data_Model\<close>: the validating constructors of the rows and the widths of their columns (\<open>internal/data/model\<close>).
  \<^item> \<open>Migrations\<close>: \<open>internal/data/migrations\<close> and \<open>migrate.go\<close>; \<open>migration_step\<close> interleaves processes that migrate.
  \<^item> \<open>API_Laws\<close>, \<open>End_To_End\<close>: properties that span services, use cases, repository and consumer.

  \<^bold>\<open>State, effects and inputs.\<close> Stateful operations take and return their state explicitly: \<open>db\<close> for the tables and the
  log, a type variable for the relations store, \<open>consumer_state\<close> for the consumer. What the environment decides is an argument:
  clock readings, new UUIDs, failures of reads and commits for each attempt of a transaction (\<open>attempt\<close>, \<open>report_io\<close>), broker
  failures (\<open>step_io\<close>), outcomes of \<open>Send\<close>. Versions and generations are 64-bit words and wrap as in Go. Errors keep their chain; a
  formatted message is kept by its format. A nil dereference is the error \<open>nil_panic\<close>.

  \<^bold>\<open>Loops.\<close> \<open>tx_loop\<close> ends by the number of retries; \<open>retry_loop\<close> of the consumer may run forever when retries are
  unlimited and is a \<open>partial_function\<close> on options, where \<open>Retry_bounded_returns\<close> and \<open>message_processed\<close> prove that it
  returns; so is \<open>delete_batches\<close> of the deletion job, where \<open>delete_job_exact\<close> and \<open>delete_job_resumes\<close> do. All other loops recurse on their data. No fuel is used.

  \<^bold>\<open>What the theorems show.\<close> A report or a deletion is atomic, keeps the table invariant, numbers versions without gaps and announces
  itself once in the log (\<open>Service_Laws\<close>); a processed message replaces the tuples of the previous representation by those
  of the current one, whatever was retried (\<open>Consumer_Laws\<close>); offsets are neither lost nor duplicated over rebalances and
  overlapping commits (\<open>Offset_Laws\<close>); composed, in every interleaving of reports and consumption the relations store
  follows the log and ends with the tuples of the latest representations (\<open>End_To_End.reports_replicated\<close>), also with consumers that fail and
  process messages again (\<open>replication_survives_restarts\<close>). These theorems are about
  reports, of resources that do not share the object of their tuples; they hold as far as into SpiceDB (\<open>reports_reach_spicedb\<close>) and the relations API
  (\<open>reports_reach_relations_api\<close>). Resources of two reporter instances with one local identifier take each other's tuples away
  (\<open>shared_object_unlinked\<close>), and a resource deleted and reported again in its workspace gets no tuple (\<open>revived_resource_not_linked\<close>). Once a lock exists only its current token
  and the empty token write (\<open>stale_tokens_fenced_off\<close>), but the first acquisition is not exclusive (\<open>first_acquisition_races\<close>). Requests address what
  reports stored, bulk answers follow their requests, errors have the documented statuses and a request passes authentication only with
  verified claims (\<open>API_Laws\<close>, \<open>Authn\<close>, \<open>Meta_Authz\<close>). The deletion job ends, deletes what its dry run announced and can be repeated; start-up
  gives the configured repository (\<open>Jobs_Laws\<close>, \<open>Configuration_Laws\<close>). A read-after-write wait ends on its own notification, but may miss it, and the
  driver blocks on a lost connection (\<open>Pubsub\<close>); processes migrate one at a time (\<open>Migrations\<close>). The
  registry is the same from the schema directory and from its cache (\<open>Schema_Loading\<close>), and
  counting and logging leave streams as they are (\<open>Servers\<close>).

  \<^bold>\<open>Hypotheses.\<close> \<open>gorm_store\<close>, \<open>spicedb_service\<close>, \<open>relations_service\<close>, \<open>relations_store\<close> and \<open>limited_select\<close> state documented behaviour of GORM with
  unique indexes, of SpiceDB, of relations services and of SQL; all are interpreted. The theorems on replication state three hypotheses of the tables a run
  reaches: \<open>unshared\<close>, no two known resources have reporter type, resource type and local identifier in common, which the program does not enforce although
  several instances of a reporter type are supported; \<open>storable_db\<close>, the store admits the tuples of the stored representations, which always holds for the in-memory
  repository and the relations API; \<open>exact_versions\<close>, versions are below \<open>2 ^ 53\<close>, since JSON numbers pass through \<open>float64\<close> on the
  way to the consumer. In a run a report has a reporter instance, which request validation demands; \<open>fresh_ids\<close> says that new UUIDs are new, \<open>sound_read\<close> that a failed read is
  not reported as not found. \<open>supervised\<close> has one partition, and a message is processed in one step: it makes a single query. \<open>no_overflow\<close> says that no version
  has reached \<open>2 ^ 64 - 1\<close>. Queries may fail: a message whose representations cannot be read is not processed (\<open>message_processed\<close>).

  \<^bold>\<open>Not modelled.\<close> Command-line wiring, registration of flags, creation of metric instruments, logging and
  listeners: input and output or calls of libraries; fakes, mocks and sample data, which only tests use. JSON schema
  validation, YAML, token verification, Kafka, GORM, gormigrate, SpiceDB, protovalidate and the generated protobuf getters' transport are parameters or records of fields.
\<close>

end
